(* ===== verification/Prelude.thy ===== *)
theory Prelude
  imports Complex_Main "HOL-Library.AList" "HOL-Library.Multiset" "HOL-Library.Char_ord"
    "HOL-Library.List_Lexorder" "HOL-Library.Product_Lexorder" "HOL-Library.Sublist"
begin

section \<open>Shared vocabulary: Go strings, Go maps, sorting\<close>

text \<open>
  What every component of the model shares.

  \<^item> A Go string is a byte sequence, so it is a \<^typ>\<open>string\<close> (a list of 8-bit characters); the
    order of \<^theory_text>\<open>Char_ord\<close> and \<^theory_text>\<open>List_Lexorder\<close> on it is Go's bytewise \<open><\<close>.
  \<^item> A Go map that is ranged over in sorted key order is an association list; \<open>mkeys\<close> lists
    its keys the way the source does (collect, then \<open>sort.Strings\<close>). The model does not
    distinguish a nil map from an empty one: no modelled reader does.
  \<^item> A Go map that is only looked up is a partial function.
  \<^item> \<open>sort.Slice\<close> and \<open>sort.SliceStable\<close> are both \<^const>\<open>sort_key\<close>, the stable sort. The two
    differ only on elements with equal keys, where \<open>sort.Slice\<close> leaves the order open.
  \<^item> A \<open>float64\<close> read from a manifest is a rational: neither JSON nor YAML input can spell an
    infinity or a NaN there, and the code only compares such values.
\<close>

named_theorems go_simps "equations of the Go string and map vocabulary"

type_synonym ('k, 'v) gomap = "('k \<times> 'v) list"

type_synonym float64 = rat

abbreviation mget :: "('k, 'v) gomap \<Rightarrow> 'k \<Rightarrow> 'v option" where
  "mget \<equiv> map_of"

definition mkeys :: "('k::linorder, 'v) gomap \<Rightarrow> 'k list" where
  "mkeys m = sort (remdups (map fst m))"

lemma set_mkeys [simp]: "set (mkeys m) = dom (map_of m)"
  by (simp add: mkeys_def dom_map_of_conv_image_fst)

lemma distinct_mkeys [simp]: "distinct (mkeys m)"
  by (simp add: mkeys_def)

lemma sorted_mkeys [simp]: "sorted (mkeys m)"
  by (simp add: mkeys_def)

lemma mkeys_Nil [simp]: "mkeys [] = []"
  by (simp add: mkeys_def)

text \<open>Two maps with the same key set list it in the same order.\<close>

lemma mkeys_dom_cong: "dom (map_of m) = dom (map_of m') \<Longrightarrow> mkeys m = mkeys m'"
  by (metis distinct_mkeys set_mkeys sorted_distinct_set_unique sorted_mkeys)

subsection \<open>Strings\<close>

text \<open>\<open>strings.HasPrefix\<close>, \<open>strings.HasSuffix\<close>, \<open>strings.TrimPrefix\<close>, \<open>strings.TrimSuffix\<close>.\<close>

definition has_prefix :: "string \<Rightarrow> string \<Rightarrow> bool" where
  "has_prefix s p \<longleftrightarrow> prefix p s"

definition has_suffix :: "string \<Rightarrow> string \<Rightarrow> bool" where
  "has_suffix s p \<longleftrightarrow> suffix p s"

definition trim_prefix :: "string \<Rightarrow> string \<Rightarrow> string" where
  "trim_prefix s p = (if has_prefix s p then drop (length p) s else s)"

definition trim_suffix :: "string \<Rightarrow> string \<Rightarrow> string" where
  "trim_suffix s p = (if has_suffix s p then take (length s - length p) s else s)"

lemma has_prefix_append [go_simps]: "has_prefix s p \<longleftrightarrow> (\<exists>t. s = p @ t)"
  by (auto simp: has_prefix_def prefix_def)

lemma trim_prefix_append [simp]: "trim_prefix (p @ s) p = s"
  by (simp add: trim_prefix_def has_prefix_def)

lemma has_suffix_snoc [simp]: "has_suffix (p @ [c]) [c]"
  by (simp add: has_suffix_def suffix_def)

lemma trim_suffix_snoc [simp]: "trim_suffix (p @ [c]) [c] = p"
  by (simp add: trim_suffix_def has_suffix_def suffix_def)

text \<open>\<open>strings.Join\<close> and \<open>strings.Split\<close> on a one-byte separator.\<close>

fun join :: "string \<Rightarrow> string list \<Rightarrow> string" where
  "join sep [] = []"
| "join sep [x] = x"
| "join sep (x # y # ys) = x @ sep @ join sep (y # ys)"

fun split_on :: "char \<Rightarrow> string \<Rightarrow> string list" where
  "split_on c [] = [[]]"
| "split_on c (x # xs) =
     (if x = c then [] # split_on c xs
      else (case split_on c xs of [] \<Rightarrow> [[x]] | y # ys \<Rightarrow> (x # y) # ys))"

lemma split_on_not_Nil [simp]: "split_on c s \<noteq> []"
  by (cases "(c, s)" rule: split_on.cases) (auto split: list.split)

lemma join_Cons_ne: "xs \<noteq> [] \<Longrightarrow> join sep (x # xs) = x @ sep @ join sep xs"
  by (cases xs) auto

lemma join_split_on: "join [c] (split_on c s) = s"
proof (induction s)
  case Nil
  show ?case by simp
next
  case (Cons x xs)
  obtain y ys where s: "split_on c xs = y # ys"
    using split_on_not_Nil neq_Nil_conv by metis
  then show ?case using Cons by (cases ys) auto
qed

lemma split_on_append:
  assumes "c \<notin> set x"
  shows "split_on c (x @ c # s) = x # split_on c s" and "split_on c x = [x]"
  using assms by (induction x) auto

text \<open>
  Splitting undoes joining when no part holds the separator: so a joined key determines its
  parts, whatever their number.
\<close>

lemma split_on_join:
  "xs \<noteq> [] \<Longrightarrow> (\<And>x. x \<in> set xs \<Longrightarrow> c \<notin> set x) \<Longrightarrow> split_on c (join [c] xs) = xs"
  by (induction "[c]" xs rule: join.induct) (auto simp: split_on_append)

lemma join_inject:
  assumes "xs \<noteq> []" "ys \<noteq> []"
    and "\<And>x. x \<in> set xs \<Longrightarrow> c \<notin> set x" "\<And>y. y \<in> set ys \<Longrightarrow> c \<notin> set y"
  shows "join [c] xs = join [c] ys \<longleftrightarrow> xs = ys"
  using split_on_join [of xs c] split_on_join [of ys c] assms by metis

text \<open>
  The identity keys of the code are its fields joined by NUL bytes. A field is NUL-free when it
  holds none; every name Kafka, MDS or Kubernetes accepts is.
\<close>

definition NUL :: char where
  "NUL = CHR 0x00"

definition nul_free :: "string \<Rightarrow> bool" where
  "nul_free s \<longleftrightarrow> NUL \<notin> set s"

definition nul_join :: "string list \<Rightarrow> string" where
  "nul_join xs = join [NUL] xs"

lemma nul_join_inject:
  "xs \<noteq> [] \<Longrightarrow> ys \<noteq> [] \<Longrightarrow> list_all nul_free xs \<Longrightarrow> list_all nul_free ys \<Longrightarrow>
   nul_join xs = nul_join ys \<longleftrightarrow> xs = ys"
  unfolding nul_join_def by (rule join_inject) (auto simp: list_all_iff nul_free_def)

text \<open>
  \<open>strings.TrimSpace\<close> strips leading and trailing Unicode white space. \<open>go_spaces\<close> lists the UTF-8
  encodings of the runes with that property. UTF-8 is self-synchronising, so stripping an
  encoding byte by byte from either end is stripping the rune.
\<close>

definition go_spaces :: "string list" where
  "go_spaces =
     [[CHR 0x09], [CHR 0x0A], [CHR 0x0B], [CHR 0x0C], [CHR 0x0D], [CHR 0x20],
      [CHR 0xC2, CHR 0x85], [CHR 0xC2, CHR 0xA0], [CHR 0xE1, CHR 0x9A, CHR 0x80]] @
     map (\<lambda>b. [CHR 0xE2, CHR 0x80, b])
       [CHR 0x80, CHR 0x81, CHR 0x82, CHR 0x83, CHR 0x84, CHR 0x85, CHR 0x86, CHR 0x87,
        CHR 0x88, CHR 0x89, CHR 0x8A] @
     [[CHR 0xE2, CHR 0x80, CHR 0xA8], [CHR 0xE2, CHR 0x80, CHR 0xA9],
      [CHR 0xE2, CHR 0x80, CHR 0xAF], [CHR 0xE2, CHR 0x81, CHR 0x9F], [CHR 0xE3, CHR 0x80, CHR 0x80]]"

fun trim_left :: "string list \<Rightarrow> string \<Rightarrow> string" where
  "trim_left sps [] = []"
| "trim_left sps (c # s) =
     (case find (\<lambda>w. prefix w (c # s)) sps of
        Some w \<Rightarrow> trim_left sps (drop (length w - 1) s)
      | None \<Rightarrow> c # s)"

definition trim_space :: "string \<Rightarrow> string" where
  "trim_space s =
     rev (trim_left (map rev go_spaces) (rev (trim_left go_spaces s)))"

text \<open>\<open>strconv.Itoa\<close>.\<close>

fun nat_str :: "nat \<Rightarrow> string" where
  "nat_str n =
     (if n < 10 then [char_of (48 + n)] else nat_str (n div 10) @ [char_of (48 + n mod 10)])"

declare nat_str.simps [simp del]

definition itoa :: "int \<Rightarrow> string" where
  "itoa i = (if i < 0 then CHR ''-'' # nat_str (nat (- i)) else nat_str (nat i))"

lemma itoa_examples: "itoa 0 = ''0''" "itoa 12 = ''12''" "itoa (-305) = ''-305''"
  by code_simp+

subsection \<open>Sorting\<close>

text \<open>
  With injective keys the sorted order is the only one, so neither the input order nor the
  stability of the sort matters.
\<close>

lemma sort_key_perm_eq:
  "mset xs = mset ys \<Longrightarrow> inj_on f (set xs) \<Longrightarrow> sort_key f xs = sort_key f ys"
  by (rule sort_key_inj_key_eq) simp_all

lemma inj_on_set_distinct_map: "distinct (map f xs) \<Longrightarrow> inj_on f (set xs)"
  by (simp add: distinct_map)

lemma find_SomeD: "find P xs = Some y \<Longrightarrow> y \<in> set xs \<and> P y"
  by (induction xs) (auto split: if_splits)

lemma filter_empty_list_conv: "filter P xs = [] \<longleftrightarrow> (\<forall>x\<in>set xs. \<not> P x)"
  by (simp add: filter_empty_conv)

subsection \<open>Folding a map out of a list\<close>

text \<open>
  The code builds its lookup maps by a loop of assignments, so a later entry wins.
\<close>

fun index_by :: "('a \<Rightarrow> 'k) \<Rightarrow> 'a list \<Rightarrow> ('k \<rightharpoonup> 'a) \<Rightarrow> ('k \<rightharpoonup> 'a)" where
  "index_by f [] m = m"
| "index_by f (x # xs) m = index_by f xs (m(f x \<mapsto> x))"

lemma index_by_append: "index_by f (xs @ ys) m = index_by f ys (index_by f xs m)"
  by (induction xs arbitrary: m) auto

lemma index_by_None: "index_by f xs m k = None \<longleftrightarrow> m k = None \<and> k \<notin> f ` set xs"
  by (induction xs arbitrary: m) auto

lemma index_by_Some: "index_by f xs m k = Some x \<Longrightarrow> m k = Some x \<or> x \<in> set xs \<and> f x = k"
  by (induction xs arbitrary: m) (fastforce split: if_splits)+

lemma index_by_empty_Some: "index_by f xs Map.empty k = Some x \<Longrightarrow> x \<in> set xs \<and> f x = k"
  using index_by_Some [of f xs Map.empty k x] by simp

lemma index_by_notin: "k \<notin> f ` set xs \<Longrightarrow> index_by f xs m k = m k"
  by (induction xs arbitrary: m) auto

lemma index_by_distinct:
  "distinct (map f xs) \<Longrightarrow> x \<in> set xs \<Longrightarrow> index_by f xs m (f x) = Some x"
  by (induction xs arbitrary: m) (auto simp: index_by_notin)

end
