(* ===== verification/Types.thy ===== *)
theory Types
  imports Prelude
begin

section \<open>The resource kinds (internal/api/v1alpha1)\<close>

text \<open>
  The specs of the seven custom resources of \<^verbatim>\<open>types.go\<close>, one record per Go struct, one field per
  struct field, with the same names behind a short prefix. A Go pointer is an \<^typ>\<open>'a option\<close>, a
  slice a list, a \<open>map[string]string\<close> a \<^typ>\<open>(string, string) gomap\<close>, an \<open>int\<close> or \<open>int32\<close> that
  is only compared an \<^typ>\<open>int\<close>. The enumerations the API server checks (permission, pattern
  type, mode, ...) stay strings, as in the source: the code handles values outside them too.
  The metadata record holds \<open>TypeMeta.APIVersion\<close> and the fields of \<open>ObjectMeta\<close> the operator
  reads.
  The status structs belong to the controllers and are not part of this theory.

  The CEL transition rules in the markers of \<^verbatim>\<open>types.go\<close> are the functions \<open>*_update_ok\<close>.
\<close>

record object_meta =
  om_apiVersion :: string
  om_name :: string
  om_namespace :: string
  om_uid :: string
  om_generation :: int
  om_annotations :: "(string, string) gomap"

definition API_VERSION :: string where
  "API_VERSION = ''gitops.monedula.dev/v1alpha1''"

definition mk_meta :: "string \<Rightarrow> string \<Rightarrow> object_meta" where
  "mk_meta ns n =
     \<lparr>om_apiVersion = API_VERSION, om_name = n, om_namespace = ns, om_uid = [], om_generation = 1, om_annotations = []\<rparr>"

subsection \<open>Value references\<close>

record cluster_ref =
  cr_name :: string

record secret_key_ref =
  skr_name :: string
  skr_key :: string

record value_source =
  vs_env :: string
  vs_file :: string
  vs_secretKeyRef :: "secret_key_ref option"
  vs_inline :: string
  vs_configMapKeyRef :: "secret_key_ref option"

record value_from =
  vf_valueFrom :: value_source

subsection \<open>KafkaCluster\<close>

record tls_config =
  tls_enabled :: bool
  tls_caCert :: "value_from option"
  tls_clientCert :: "value_from option"
  tls_clientKey :: "value_from option"
  tls_insecureSkipVerify :: bool

record mds_auth =
  ma_type :: string
  ma_username :: "value_from option"
  ma_password :: "value_from option"
  ma_token :: "value_from option"

record kafka_rest_config =
  krc_endpoint :: string
  krc_auth :: "mds_auth option"
  krc_tls :: "tls_config option"
  krc_clusterID :: string

record mds_clusters =
  mc_kafkaCluster :: string
  mc_schemaRegistryCluster :: string
  mc_connectCluster :: string
  mc_ksqlCluster :: string

record mds_config =
  mds_endpoint :: string
  mds_authn :: "mds_auth option"
  mds_tls :: "tls_config option"
  mds_clusters_of :: mds_clusters

record authorization_config =
  az_mds :: "mds_config option"
  az_accessBackends :: "string list"

record scram_auth =
  sa_username :: value_from
  sa_password :: value_from

record oauth_config =
  oa_tokenEndpoint :: string
  oa_clientID :: value_from
  oa_clientSecret :: value_from
  oa_scope :: string
  oa_tokenEndpointCA :: "value_from option"

record auth_config =
  au_mechanism :: string
  au_scram :: "scram_auth option"
  au_oauth :: "oauth_config option"

record schema_registry_auth =
  sra_type :: string
  sra_username :: value_from
  sra_password :: value_from

record schema_registry_conf =
  src_endpoint :: string
  src_auth :: "schema_registry_auth option"
  src_tls :: "tls_config option"

record cluster_defaults =
  cd_replicationFactor :: "int option"
  cd_topicDeletionPolicy :: string

record topic_prefix_rule =
  tpr_namespaces :: "string list"
  tpr_prefixes :: "string list"

record tenancy_config =
  tc_allowedNamespaces :: "string list"
  tc_topicPrefixes :: "topic_prefix_rule list"

record kafka_cluster_spec =
  kcs_bootstrapServers :: string
  kcs_tls :: "tls_config option"
  kcs_auth :: "auth_config option"
  kcs_schemaRegistry :: "schema_registry_conf option"
  kcs_defaults :: "cluster_defaults option"
  kcs_tenancy :: "tenancy_config option"
  kcs_authorization :: "authorization_config option"
  kcs_rest :: "kafka_rest_config option"

record kafka_cluster =
  kc_meta :: object_meta
  kc_spec :: kafka_cluster_spec

subsection \<open>KafkaTopic\<close>

record reconciliation =
  rec_mode :: string

record drift_config =
  dc_ignoreFields :: "string list"

record producer_access =
  pa_principal :: string
  pa_host :: string
  pa_operations :: "string list"

record consumer_access =
  ca_principal :: string
  ca_host :: string
  ca_group :: string
  ca_topicOperations :: "string list"
  ca_groupOperations :: "string list"

record topic_access =
  ta_producers :: "producer_access list"
  ta_consumers :: "consumer_access list"

record topic_schema =
  ts_format :: string
  ts_subjectStrategy :: string
  ts_compatibility :: string
  ts_valueSchema :: "value_from option"
  ts_keySchema :: "value_from option"
  ts_valueSubject :: string
  ts_keySubject :: string

record kafka_topic_spec =
  kts_clusterRef :: cluster_ref
  kts_topicName :: string
  kts_partitions :: int
  kts_replicationFactor :: "int option"
  kts_config :: "(string, string) gomap"
  kts_access :: topic_access
  kts_schema :: "topic_schema option"
  kts_reconciliation :: "reconciliation option"
  kts_drift :: "drift_config option"
  kts_prune :: bool
  kts_deletionPolicy :: string

record kafka_topic =
  kt_meta :: object_meta
  kt_spec :: kafka_topic_spec

subsection \<open>KafkaAccessPolicy\<close>

record acl_resource =
  ar_type :: string
  ar_name :: string
  ar_patternType :: string

record acl_rule =
  rule_principal :: string
  rule_permission :: string
  rule_host :: string
  rule_resource :: acl_resource
  rule_operations :: "string list"

record kafka_access_policy_spec =
  aps_clusterRef :: cluster_ref
  aps_rules :: "acl_rule list"
  aps_reconciliation :: "reconciliation option"
  aps_prune :: bool
  aps_deletionPolicy :: string

record kafka_access_policy =
  ap_meta :: object_meta
  ap_spec :: kafka_access_policy_spec

subsection \<open>KafkaQuota\<close>

record quota_entity_spec =
  qe_user :: string
  qe_clientId :: string
  qe_userDefault :: bool
  qe_clientIdDefault :: bool
  qe_ip :: string
  qe_ipDefault :: bool

record quota_limits_spec =
  ql_producerByteRate :: "float64 option"
  ql_consumerByteRate :: "float64 option"
  ql_requestPercentage :: "float64 option"
  ql_controllerMutationRate :: "float64 option"
  ql_connectionCreationRate :: "float64 option"

record kafka_quota_spec =
  kqs_clusterRef :: cluster_ref
  kqs_entity :: quota_entity_spec
  kqs_limits :: quota_limits_spec
  kqs_reconciliation :: "reconciliation option"

record kafka_quota =
  kq_meta :: object_meta
  kq_spec :: kafka_quota_spec

subsection \<open>KafkaRoleBinding\<close>

record role_binding_scope =
  rbs_type :: string

record role_resource =
  rr_type :: string
  rr_name :: string
  rr_patternType :: string

record kafka_role_binding_spec =
  krs_clusterRef :: cluster_ref
  krs_principal :: string
  krs_role :: string
  krs_scope :: role_binding_scope
  krs_resources :: "role_resource list"
  krs_reconciliation :: "reconciliation option"
  krs_prune :: bool
  krs_deletionPolicy :: string

record kafka_role_binding =
  kr_meta :: object_meta
  kr_spec :: kafka_role_binding_spec

subsection \<open>KafkaUser\<close>

text \<open>\<open>GeneratePassword\<close> is an empty struct, so a non-nil pointer to it is \<^term>\<open>Some ()\<close>.\<close>

record user_password =
  up_valueFrom :: "value_source option"
  up_generate :: "unit option"

record kafka_user_spec =
  kus_clusterRef :: cluster_ref
  kus_username :: string
  kus_mechanism :: string
  kus_iterations :: "int option"
  kus_password :: "user_password option"
  kus_deletionPolicy :: string

record kafka_user =
  ku_meta :: object_meta
  ku_spec :: kafka_user_spec

subsection \<open>KafkaMirrorTopic\<close>

record kafka_mirror_topic_spec =
  kms_clusterRef :: cluster_ref
  kms_linkName :: string
  kms_sourceTopicName :: string
  kms_topicName :: string
  kms_replicationFactor :: "int option"
  kms_config :: "(string, string) gomap"
  kms_reconciliation :: "reconciliation option"
  kms_deletionPolicy :: string

record kafka_mirror_topic =
  km_meta :: object_meta
  km_spec :: kafka_mirror_topic_spec

subsection \<open>Access backends\<close>

text \<open>
  \<open>EffectiveAccessBackends\<close>: the loop keeps the first occurrence of each backend, with \<open>seen\<close> the
  set of those kept so far. \<^term>\<open>None\<close> is the nil cluster.
\<close>

fun collect_backends :: "string list \<Rightarrow> string set \<Rightarrow> string list \<Rightarrow> string list" where
  "collect_backends out seen [] = out"
| "collect_backends out seen (b # bs) =
     (if b \<in> seen then collect_backends out seen bs
      else collect_backends (out @ [b]) (insert b seen) bs)"

definition effective_access_backends :: "kafka_cluster option \<Rightarrow> string list" where
  "effective_access_backends c =
     (case c of None \<Rightarrow> [''acl'']
      | Some cl \<Rightarrow>
          (case kcs_authorization (kc_spec cl) of None \<Rightarrow> [''acl'']
           | Some az \<Rightarrow>
               (if az_accessBackends az = [] then [''acl'']
                else collect_backends [] {} (az_accessBackends az))))"

definition has_access_backend :: "kafka_cluster option \<Rightarrow> string \<Rightarrow> bool" where
  "has_access_backend c backend \<longleftrightarrow> (\<exists>b \<in> set (effective_access_backends c). b = backend)"

lemma set_collect_backends: "set (collect_backends out seen bs) = set out \<union> (set bs - seen)"
  by (induction out seen bs rule: collect_backends.induct) auto

lemma distinct_collect_backends:
  "distinct out \<Longrightarrow> set out = seen \<Longrightarrow> distinct (collect_backends out seen bs)"
  by (induction out seen bs rule: collect_backends.induct) auto

lemma effective_access_backends_distinct: "distinct (effective_access_backends c)"
  by (auto simp: effective_access_backends_def distinct_collect_backends split: option.split)

lemma effective_access_backends_nonempty: "effective_access_backends c \<noteq> []"
proof (cases c)
  case None
  then show ?thesis by (simp add: effective_access_backends_def)
next
  case (Some cl)
  have "bs \<noteq> [] \<Longrightarrow> set (collect_backends [] {} bs) \<noteq> {}" for bs
    by (simp add: set_collect_backends)
  then have "bs \<noteq> [] \<Longrightarrow> collect_backends [] {} bs \<noteq> []" for bs by force
  with Some show ?thesis by (auto simp: effective_access_backends_def split: option.split)
qed

subsection \<open>Resolved names\<close>

definition resolved_topic_name :: "kafka_topic \<Rightarrow> string" where
  "resolved_topic_name t =
     (if kts_topicName (kt_spec t) \<noteq> [] then kts_topicName (kt_spec t) else om_name (kt_meta t))"

definition effective_topic_name :: "kafka_mirror_topic_spec \<Rightarrow> string" where
  "effective_topic_name s =
     (if kms_topicName s \<noteq> [] then kms_topicName s else kms_sourceTopicName s)"

subsection \<open>CEL transition rules\<close>

text \<open>
  The \<open>XValidation\<close> rules run by the API server on an update, with \<open>old\<close> for \<open>oldSelf\<close> and \<open>new\<close>
  for \<open>self\<close>. A plain string field that is empty is omitted from the stored object
  (\<open>omitempty\<close>), so \<open>has(self.topicName)\<close> is \<open>topicName \<noteq> []\<close>.
\<close>

definition topic_update_ok :: "kafka_topic_spec \<Rightarrow> kafka_topic_spec \<Rightarrow> bool" where
  "topic_update_ok old new \<longleftrightarrow>
     (kts_topicName old = [] \<or> (kts_topicName new \<noteq> [] \<and> kts_topicName new = kts_topicName old)) \<and>
     cr_name (kts_clusterRef new) = cr_name (kts_clusterRef old)"

definition policy_update_ok :: "kafka_access_policy_spec \<Rightarrow> kafka_access_policy_spec \<Rightarrow> bool" where
  "policy_update_ok old new \<longleftrightarrow> cr_name (aps_clusterRef new) = cr_name (aps_clusterRef old)"

definition quota_update_ok :: "kafka_quota_spec \<Rightarrow> kafka_quota_spec \<Rightarrow> bool" where
  "quota_update_ok old new \<longleftrightarrow>
     kqs_entity new = kqs_entity old \<and> cr_name (kqs_clusterRef new) = cr_name (kqs_clusterRef old)"

definition role_binding_update_ok ::
    "kafka_role_binding_spec \<Rightarrow> kafka_role_binding_spec \<Rightarrow> bool" where
  "role_binding_update_ok old new \<longleftrightarrow>
     cr_name (krs_clusterRef new) = cr_name (krs_clusterRef old) \<and>
     krs_principal new = krs_principal old \<and> krs_role new = krs_role old \<and>
     rbs_type (krs_scope new) = rbs_type (krs_scope old)"

definition user_update_ok :: "kafka_user_spec \<Rightarrow> kafka_user_spec \<Rightarrow> bool" where
  "user_update_ok old new \<longleftrightarrow>
     (kus_username old = [] \<or> (kus_username new \<noteq> [] \<and> kus_username new = kus_username old)) \<and>
     cr_name (kus_clusterRef new) = cr_name (kus_clusterRef old)"

definition mirror_topic_update_ok ::
    "kafka_mirror_topic_spec \<Rightarrow> kafka_mirror_topic_spec \<Rightarrow> bool" where
  "mirror_topic_update_ok old new \<longleftrightarrow>
     cr_name (kms_clusterRef new) = cr_name (kms_clusterRef old) \<and>
     kms_linkName new = kms_linkName old \<and>
     kms_sourceTopicName new = kms_sourceTopicName old \<and>
     (if kms_topicName old \<noteq> [] then kms_topicName old else kms_sourceTopicName old) =
     (if kms_topicName new \<noteq> [] then kms_topicName new else kms_sourceTopicName new)"

lemma mirror_topic_update_keeps_name:
  "mirror_topic_update_ok old new \<Longrightarrow> effective_topic_name new = effective_topic_name old"
  by (auto simp: mirror_topic_update_ok_def effective_topic_name_def)

end
