(* ===== verification/Managedset.thy ===== *)
theory Managedset
  imports Types
begin

section \<open>The managed set (internal/managedset)\<close>

text \<open>
  The machinery ACLs and role bindings share: desired-set building (dedupe by identity key, merge
  attribution, two optional conflict hooks) and managed-scope derivation.

  The walk of \<open>BuildDesiredSet\<close> is a left fold of \<open>bds_step\<close> over a record of the loop's variables.
  \<open>reject\<close> is a closure over mutable state in the source, so here it takes and returns that state.
  The locale \<open>attributed\<close> is the interface a kind provides (its identity key and the accessors of
  its Mode/Prune fields); inside it the walk is shown to compute \<open>desired_spec\<close>.
\<close>

subsection \<open>Attribution\<close>

definition mode_rank :: "string \<Rightarrow> int" where
  "mode_rank mode =
     (if mode = ''Enforce'' then 3
      else if mode = ''DetectOnly'' then 2
      else if mode = ''ObserveOnly'' then 1
      else 0)"

record scope_info =
  si_mode :: string
  si_prune :: bool
  si_sourceKind :: string
  si_sourceNamespace :: string
  si_sourceName :: string

fun merge_attribution :: "string \<times> bool \<Rightarrow> string \<times> bool \<Rightarrow> string \<times> bool" where
  "merge_attribution (mode, prune) (inMode, inPrune) =
     (if mode_rank inMode > mode_rank mode then inMode else mode, prune \<and> inPrune)"

definition scope_info_merge :: "scope_info \<Rightarrow> scope_info \<Rightarrow> scope_info" where
  "scope_info_merge i incoming =
     (let (mode, prune) =
            merge_attribution (si_mode i, si_prune i) (si_mode incoming, si_prune incoming)
      in i\<lparr>si_mode := mode, si_prune := prune\<rparr>)"

record 'a attribution =
  attr_get :: "'a \<Rightarrow> string \<times> bool"
  attr_set :: "'a \<Rightarrow> string \<Rightarrow> bool \<Rightarrow> 'a"

subsection \<open>BuildDesiredSet\<close>

record ('a, 'e, 's) bds_state =
  bds_index :: "string \<rightharpoonup> nat"
  bds_out :: "'a list"
  bds_errs :: "'e list"
  bds_hook :: 's

definition bds_merge ::
    "'a attribution \<Rightarrow> nat \<Rightarrow> 'a \<Rightarrow> ('a, 'e, 's) bds_state \<Rightarrow> ('a, 'e, 's) bds_state" where
  "bds_merge attr i it st =
     (let (mode, prune) = merge_attribution (attr_get attr (bds_out st ! i)) (attr_get attr it)
      in st\<lparr>bds_out := (bds_out st)[i := attr_set attr (bds_out st ! i) mode prune]\<rparr>)"

definition bds_accept ::
    "('a \<Rightarrow> string) \<Rightarrow> 'a attribution \<Rightarrow> ('a \<Rightarrow> 'a \<Rightarrow> 'e option) option \<Rightarrow> 'a \<Rightarrow>
     ('a, 'e, 's) bds_state \<Rightarrow> ('a, 'e, 's) bds_state" where
  "bds_accept key attr conflict it st =
     (case bds_index st (key it) of
        Some i \<Rightarrow>
          (case conflict of
             None \<Rightarrow> bds_merge attr i it st
           | Some c \<Rightarrow>
               (case c (bds_out st ! i) it of
                  Some e \<Rightarrow> st\<lparr>bds_errs := bds_errs st @ [e]\<rparr>
                | None \<Rightarrow> bds_merge attr i it st))
      | None \<Rightarrow>
          st\<lparr>bds_index := (bds_index st)(key it \<mapsto> length (bds_out st)),
             bds_out := bds_out st @ [it]\<rparr>)"

definition bds_step ::
    "('a \<Rightarrow> string) \<Rightarrow> 'a attribution \<Rightarrow> ('s \<Rightarrow> 'a \<Rightarrow> 's \<times> 'e option) option \<Rightarrow>
     ('a \<Rightarrow> 'a \<Rightarrow> 'e option) option \<Rightarrow> ('a, 'e, 's) bds_state \<Rightarrow> 'a \<Rightarrow> ('a, 'e, 's) bds_state" where
  "bds_step key attr reject conflict st it =
     (case reject of
        None \<Rightarrow> bds_accept key attr conflict it st
      | Some r \<Rightarrow>
          (case r (bds_hook st) it of
             (s', Some e) \<Rightarrow> st\<lparr>bds_errs := bds_errs st @ [e], bds_hook := s'\<rparr>
           | (s', None) \<Rightarrow> bds_accept key attr conflict it (st\<lparr>bds_hook := s'\<rparr>)))"

definition build_desired_set ::
    "'a list \<Rightarrow> ('a \<Rightarrow> string) \<Rightarrow> 'a attribution \<Rightarrow> ('s \<Rightarrow> 'a \<Rightarrow> 's \<times> 'e option) option \<Rightarrow> 's \<Rightarrow>
     ('a \<Rightarrow> 'a \<Rightarrow> 'e option) option \<Rightarrow> 'a list \<times> 'e list" where
  "build_desired_set items key attr reject s0 conflict =
     (let st = foldl (bds_step key attr reject conflict)
                 \<lparr>bds_index = Map.empty, bds_out = [], bds_errs = [], bds_hook = s0\<rparr> items
      in (bds_out st, bds_errs st))"

subsection \<open>BuildScope\<close>

fun scope_loop ::
    "('a \<Rightarrow> 'k) \<Rightarrow> ('a \<Rightarrow> scope_info) \<Rightarrow> ('k \<rightharpoonup> scope_info) \<Rightarrow> 'a list \<Rightarrow> ('k \<rightharpoonup> scope_info)" where
  "scope_loop key info s [] = s"
| "scope_loop key info s (it # its) =
     (case s (key it) of
        None \<Rightarrow> scope_loop key info (s(key it \<mapsto> info it)) its
      | Some existing \<Rightarrow>
          scope_loop key info (s(key it \<mapsto> scope_info_merge existing (info it))) its)"

definition build_scope ::
    "'a list \<Rightarrow> ('a \<Rightarrow> 'k) \<Rightarrow> ('a \<Rightarrow> scope_info) \<Rightarrow> ('k \<rightharpoonup> scope_info)" where
  "build_scope items key info = scope_loop key info Map.empty items"

subsection \<open>What a merge of several contributors is\<close>

text \<open>
  \<open>merge_all\<close> folds the contributors of one entry in input order. Its mode ranks highest among
  them, its consent is the conjunction of theirs.
\<close>

definition merge_all :: "string \<times> bool \<Rightarrow> (string \<times> bool) list \<Rightarrow> string \<times> bool" where
  "merge_all a as = foldl merge_attribution a as"

lemma merge_attribution_fst:
  "fst (merge_attribution a b) = (if mode_rank (fst b) > mode_rank (fst a) then fst b else fst a)"
  by (cases a; cases b) simp

lemma merge_attribution_snd [simp]: "snd (merge_attribution a b) \<longleftrightarrow> snd a \<and> snd b"
  by (cases a; cases b) simp

lemma merge_all_Nil [simp]: "merge_all a [] = a"
  by (simp add: merge_all_def)

lemma merge_all_snoc [simp]: "merge_all a (as @ [b]) = merge_attribution (merge_all a as) b"
  by (simp add: merge_all_def)

lemma merge_all_Cons: "merge_all a (b # as) = merge_all (merge_attribution a b) as"
  by (simp add: merge_all_def)

lemma merge_all_prune: "snd (merge_all a as) \<longleftrightarrow> (\<forall>b \<in> set (a # as). snd b)"
  by (induction as rule: rev_induct) auto

lemma merge_all_mode_in: "fst (merge_all a as) \<in> fst ` set (a # as)"
  by (induction as rule: rev_induct) (auto simp: merge_attribution_fst)

lemma merge_all_mode_max: "b \<in> set (a # as) \<Longrightarrow> mode_rank (fst b) \<le> mode_rank (fst (merge_all a as))"
  by (induction as rule: rev_induct) (auto simp: merge_attribution_fst)

text \<open>First-seen deduplication.\<close>

definition nub :: "'a list \<Rightarrow> 'a list" where
  "nub xs = rev (remdups (rev xs))"

lemma nub_Nil [simp]: "nub [] = []"
  by (simp add: nub_def)

lemma nub_snoc [simp]: "nub (xs @ [x]) = (if x \<in> set xs then nub xs else nub xs @ [x])"
  by (simp add: nub_def)

lemma set_nub [simp]: "set (nub xs) = set xs"
  by (simp add: nub_def)

lemma distinct_nub [simp]: "distinct (nub xs)"
  by (simp add: nub_def)

text \<open>The entry of identity \<open>k\<close> and the whole set, as the comment on \<open>BuildDesiredSet\<close> has them.\<close>

definition spec_entry :: "('a \<Rightarrow> string) \<Rightarrow> 'a attribution \<Rightarrow> 'a list \<Rightarrow> string \<Rightarrow> 'a" where
  "spec_entry key attr items k =
     (let g = filter (\<lambda>x. key x = k) items;
          (mode, prune) = merge_all (attr_get attr (hd g)) (map (attr_get attr) (tl g))
      in attr_set attr (hd g) mode prune)"

definition desired_spec :: "('a \<Rightarrow> string) \<Rightarrow> 'a attribution \<Rightarrow> 'a list \<Rightarrow> 'a list" where
  "desired_spec key attr items = map (spec_entry key attr items) (nub (map key items))"

text \<open>The items a stateful \<open>reject\<close> hook lets pass, and its errors.\<close>

fun rej_filter :: "('s \<Rightarrow> 'a \<Rightarrow> 's \<times> 'e option) \<Rightarrow> 's \<Rightarrow> 'a list \<Rightarrow> 'a list \<times> 'e list" where
  "rej_filter r s [] = ([], [])"
| "rej_filter r s (it # its) =
     (case r s it of
        (s', Some e) \<Rightarrow> map_prod id (Cons e) (rej_filter r s' its)
      | (s', None) \<Rightarrow> map_prod (Cons it) id (rej_filter r s' its))"

lemma rej_filter_subset: "set (fst (rej_filter r s its)) \<subseteq> set its"
  by (induction its arbitrary: s) (auto split: prod.split option.split)

text \<open>
  The items of \<open>its\<close> that a same-identity \<open>conflict\<close> hook lets pass, given those already accepted:
  the hook sees the first accepted item of the same identity.
\<close>

fun con_filter ::
    "('a \<Rightarrow> string) \<Rightarrow> ('a \<Rightarrow> 'a \<Rightarrow> 'e option) \<Rightarrow> 'a list \<Rightarrow> 'a list \<Rightarrow> 'a list \<times> 'e list" where
  "con_filter key c acc [] = (acc, [])"
| "con_filter key c acc (it # its) =
     (case find (\<lambda>x. key x = key it) acc of
        None \<Rightarrow> con_filter key c (acc @ [it]) its
      | Some x \<Rightarrow>
          (case c x it of
             None \<Rightarrow> con_filter key c (acc @ [it]) its
           | Some e \<Rightarrow> map_prod id (Cons e) (con_filter key c acc its)))"

lemma con_filter_subset: "set (fst (con_filter key c acc its)) \<subseteq> set acc \<union> set its"
  by (induction its arbitrary: acc) (fastforce split: option.splits)+

text \<open>The entry of a scope key: the first contributor's, with the attribution of all merged in.\<close>

definition merge_infos :: "scope_info \<Rightarrow> scope_info list \<Rightarrow> scope_info" where
  "merge_infos i js = foldl scope_info_merge i js"

lemma merge_infos_Nil [simp]: "merge_infos i [] = i"
  by (simp add: merge_infos_def)

lemma merge_infos_Cons: "merge_infos i (j # js) = merge_infos (scope_info_merge i j) js"
  by (simp add: merge_infos_def)

lemma merge_infos_attribution:
  "(si_mode (merge_infos i js), si_prune (merge_infos i js)) =
   merge_all (si_mode i, si_prune i) (map (\<lambda>j. (si_mode j, si_prune j)) js)"
  by (induction js arbitrary: i)
     (simp_all add: merge_infos_Cons merge_all_Cons scope_info_merge_def Let_def)

lemma merge_infos_source [simp]:
  "si_sourceKind (merge_infos i js) = si_sourceKind i"
  "si_sourceNamespace (merge_infos i js) = si_sourceNamespace i"
  "si_sourceName (merge_infos i js) = si_sourceName i"
  by (induction js arbitrary: i)
     (simp_all add: merge_infos_Cons scope_info_merge_def Let_def)

lemma merge_infos_prune: "si_prune (merge_infos i js) \<longleftrightarrow> (\<forall>j \<in> set (i # js). si_prune j)"
proof -
  have "si_prune (merge_infos i js) =
      snd (merge_all (si_mode i, si_prune i) (map (\<lambda>j. (si_mode j, si_prune j)) js))"
    by (metis merge_infos_attribution snd_conv)
  then show ?thesis by (simp add: merge_all_prune)
qed

lemma merge_infos_mode_max:
  "j \<in> set (i # js) \<Longrightarrow> mode_rank (si_mode j) \<le> mode_rank (si_mode (merge_infos i js))"
proof -
  assume "j \<in> set (i # js)"
  then have "(si_mode j, si_prune j) \<in> set ((si_mode i, si_prune i) # map (\<lambda>j. (si_mode j, si_prune j)) js)"
    by auto
  from merge_all_mode_max [OF this] show ?thesis
    by (metis merge_infos_attribution fst_conv)
qed

lemma scope_loop_eq:
  "scope_loop key info s items k =
     (case s k of
        Some i \<Rightarrow> Some (merge_infos i (map info (filter (\<lambda>x. key x = k) items)))
      | None \<Rightarrow>
          (case filter (\<lambda>x. key x = k) items of
             [] \<Rightarrow> None
           | x # xs \<Rightarrow> Some (merge_infos (info x) (map info xs))))"
  by (induction items arbitrary: s) (auto simp: merge_infos_Cons split: option.split)

lemma build_scope_eq:
  "build_scope items key info k =
     (case filter (\<lambda>x. key x = k) items of
        [] \<Rightarrow> None
      | x # xs \<Rightarrow> Some (merge_infos (info x) (map info xs)))"
  by (simp add: build_scope_def scope_loop_eq)

lemma build_scope_None: "build_scope items key info k = None \<longleftrightarrow> k \<notin> key ` set items"
  by (cases "filter (\<lambda>x. key x = k) items")
     (force simp: build_scope_eq filter_empty_conv filter_eq_Cons_iff)+

lemma build_scope_Some:
  assumes "build_scope items key info k = Some i"
  shows "si_prune i \<longleftrightarrow> (\<forall>x \<in> set items. key x = k \<longrightarrow> si_prune (info x))"
    and "x \<in> set items \<Longrightarrow> key x = k \<Longrightarrow> mode_rank (si_mode (info x)) \<le> mode_rank (si_mode i)"
    and "\<exists>x \<in> set items. key x = k \<and> si_sourceKind i = si_sourceKind (info x) \<and>
           si_sourceNamespace i = si_sourceNamespace (info x) \<and> si_sourceName i = si_sourceName (info x)"
proof -
  obtain y ys where y: "filter (\<lambda>x. key x = k) items = y # ys"
    and i: "i = merge_infos (info y) (map info ys)"
    using assms by (auto simp: build_scope_eq split: list.splits)
  have set_y: "set (y # ys) = {x \<in> set items. key x = k}" by (metis set_filter y)
  show "si_prune i \<longleftrightarrow> (\<forall>x \<in> set items. key x = k \<longrightarrow> si_prune (info x))"
    using set_y by (auto simp: i merge_infos_prune)
  show "mode_rank (si_mode (info x)) \<le> mode_rank (si_mode i)" if "x \<in> set items" "key x = k"
  proof -
    have "x \<in> set (y # ys)" using that set_y by blast
    then have "info x \<in> set (info y # map info ys)" by auto
    then show ?thesis unfolding i by (rule merge_infos_mode_max)
  qed
  show "\<exists>x \<in> set items. key x = k \<and> si_sourceKind i = si_sourceKind (info x) \<and>
      si_sourceNamespace i = si_sourceNamespace (info x) \<and> si_sourceName i = si_sourceName (info x)"
    using set_y by (intro bexI [of _ y]) (auto simp: i)
qed

subsection \<open>The interface of a managed kind\<close>

text \<open>
  What \<open>BuildDesiredSet\<close> relies on: \<open>Set\<close> writes what \<open>Get\<close> reads, writes nothing else, and leaves
  the identity key alone (attribution is not identity).
\<close>

locale attributed =
  fixes key :: "'a \<Rightarrow> string" and attr :: "'a attribution"
  assumes key_set: "key (attr_set attr a m p) = key a"
    and get_set: "attr_get attr (attr_set attr a m p) = (m, p)"
    and set_set: "attr_set attr (attr_set attr a m p) m' p' = attr_set attr a m' p'"
    and set_get: "attr_get attr a = (m, p) \<Longrightarrow> attr_set attr a m p = a"
begin

lemma spec_entry_key: "k \<in> key ` set items \<Longrightarrow> key (spec_entry key attr items k) = k"
proof -
  assume "k \<in> key ` set items"
  then have "filter (\<lambda>x. key x = k) items \<noteq> []" by (auto simp: filter_empty_conv)
  then have "hd (filter (\<lambda>x. key x = k) items) \<in> {x. key x = k}"
    using hd_in_set by fastforce
  then show ?thesis by (simp add: spec_entry_def Let_def key_set split: prod.split)
qed

lemma map_key_desired_spec: "map key (desired_spec key attr items) = nub (map key items)"
proof -
  have "map (key \<circ> spec_entry key attr items) (nub (map key items)) = map id (nub (map key items))"
    by (rule map_cong) (auto intro: spec_entry_key)
  then show ?thesis by (simp add: desired_spec_def)
qed

text \<open>An entry is one of its group's items with the merged attribution.\<close>

lemma spec_entry_merged:
  assumes "k \<in> key ` set items"
  obtains a m p where "a \<in> set items" "key a = k"
    "spec_entry key attr items k = attr_set attr a m p"
    "p \<longleftrightarrow> (\<forall>b \<in> set items. key b = k \<longrightarrow> snd (attr_get attr b))"
    "\<forall>b \<in> set items. key b = k \<longrightarrow> mode_rank (fst (attr_get attr b)) \<le> mode_rank m"
    "\<exists>b \<in> set items. key b = k \<and> fst (attr_get attr b) = m"
proof -
  obtain g gs where g: "filter (\<lambda>x. key x = k) items = g # gs"
    using assms by (cases "filter (\<lambda>x. key x = k) items") (auto simp: filter_empty_conv)
  obtain m p where M: "merge_all (attr_get attr g) (map (attr_get attr) gs) = (m, p)" by fastforce
  have members: "{b \<in> set items. key b = k} = set (g # gs)" by (metis g set_filter)
  have prune: "p \<longleftrightarrow> (\<forall>b \<in> set (g # gs). snd (attr_get attr b))"
    using merge_all_prune [of "attr_get attr g" "map (attr_get attr) gs"] M by simp
  have mode: "\<forall>b \<in> set (g # gs). mode_rank (fst (attr_get attr b)) \<le> mode_rank m"
  proof
    fix b assume "b \<in> set (g # gs)"
    then have "attr_get attr b \<in> set (attr_get attr g # map (attr_get attr) gs)" by auto
    from merge_all_mode_max [OF this]
    show "mode_rank (fst (attr_get attr b)) \<le> mode_rank m" by (simp add: M)
  qed
  have mem: "\<exists>b \<in> set (g # gs). fst (attr_get attr b) = m"
    using merge_all_mode_in [of "attr_get attr g" "map (attr_get attr) gs"] M by auto
  have "spec_entry key attr items k = attr_set attr g m p"
    using g M by (simp add: spec_entry_def)
  moreover have "g \<in> set items" "key g = k" using members by auto
  ultimately show ?thesis
    using that [of g m p] prune mode mem members by blast
qed

lemma spec_entry_other:
  "key it \<noteq> k \<Longrightarrow> spec_entry key attr (items @ [it]) k = spec_entry key attr items k"
  by (simp add: spec_entry_def)

lemma spec_entry_fresh:
  "key it \<notin> key ` set items \<Longrightarrow> spec_entry key attr (items @ [it]) (key it) = it"
proof -
  assume "key it \<notin> key ` set items"
  then have "filter (\<lambda>x. key x = key it) items = []"
    by (auto simp: filter_empty_conv) (metis image_eqI)
  then show ?thesis
    by (cases "attr_get attr it") (simp add: spec_entry_def set_get)
qed

lemma spec_entry_merge:
  assumes "key it \<in> key ` set items"
  defines "x \<equiv> spec_entry key attr items (key it)"
  shows "spec_entry key attr (items @ [it]) (key it) =
    (case merge_attribution (attr_get attr x) (attr_get attr it) of
       (m, p) \<Rightarrow> attr_set attr x m p)"
proof -
  have "filter (\<lambda>y. key y = key it) items \<noteq> []"
    using assms(1) by (force simp: filter_empty_conv)
  then obtain g gs where g: "filter (\<lambda>y. key y = key it) items = g # gs"
    by (cases "filter (\<lambda>y. key y = key it) items") auto
  obtain m p where M: "merge_all (attr_get attr g) (map (attr_get attr) gs) = (m, p)" by fastforce
  have x: "x = attr_set attr g m p" using g M by (simp add: x_def spec_entry_def)
  obtain m' p' where M': "merge_attribution (m, p) (attr_get attr it) = (m', p')" by fastforce
  have "spec_entry key attr (items @ [it]) (key it) = attr_set attr g m' p'"
    using g M M' by (simp add: spec_entry_def)
  then show ?thesis by (simp add: x get_set M' set_set)
qed

definition represents :: "'a list \<Rightarrow> ('a, 'e, 's) bds_state \<Rightarrow> bool" where
  "represents acc st \<longleftrightarrow>
     bds_out st = desired_spec key attr acc \<and>
     (\<forall>k i. bds_index st k = Some i \<longleftrightarrow>
        i < length (nub (map key acc)) \<and> nub (map key acc) ! i = k)"

lemma length_desired_spec: "length (desired_spec key attr acc) = length (nub (map key acc))"
  by (simp add: desired_spec_def)

lemma represents_index_None:
  assumes "represents acc st"
  shows "bds_index st k = None \<longleftrightarrow> k \<notin> key ` set acc"
proof -
  have "(\<exists>i. bds_index st k = Some i) \<longleftrightarrow> k \<in> set (nub (map key acc))"
    unfolding in_set_conv_nth using assms by (auto simp: represents_def)
  then show ?thesis by auto
qed

lemma represents_fresh:
  assumes rep: "represents acc st" and "key it \<notin> key ` set acc"
  shows "represents (acc @ [it])
    (st\<lparr>bds_index := (bds_index st)(key it \<mapsto> length (bds_out st)), bds_out := bds_out st @ [it]\<rparr>)"
proof -
  have out: "desired_spec key attr (acc @ [it]) = desired_spec key attr acc @ [it]"
    using assms(2) by (auto simp: desired_spec_def spec_entry_fresh intro!: spec_entry_other)
  have len: "length (bds_out st) = length (nub (map key acc))"
    using rep by (simp add: represents_def length_desired_spec)
  show ?thesis
    using assms len unfolding represents_def out
    by (auto simp: nth_append less_Suc_eq) (metis image_set nth_mem set_nub)+
qed

lemma represents_merge:
  assumes rep: "represents acc st" and i: "bds_index st (key it) = Some i"
  shows "represents (acc @ [it]) (bds_merge attr i it st)"
proof -
  let ?ks = "nub (map key acc)"
  have i': "i < length ?ks" "?ks ! i = key it" and out: "bds_out st = desired_spec key attr acc"
    using rep i by (auto simp: represents_def)
  then have mem: "key it \<in> key ` set acc" by (metis image_set nth_mem set_nub)
  have ks: "nub (map key (acc @ [it])) = ?ks" using mem by (auto simp: image_iff)
  have at_i: "desired_spec key attr acc ! i = spec_entry key attr acc (key it)"
    using i' by (simp add: desired_spec_def)
  have "desired_spec key attr (acc @ [it]) =
      (desired_spec key attr acc)[i := spec_entry key attr (acc @ [it]) (key it)]"
  proof (rule nth_equalityI)
    fix j assume "j < length (desired_spec key attr (acc @ [it]))"
    then have j: "j < length ?ks" by (simp add: length_desired_spec mem)
    have "j \<noteq> i \<Longrightarrow> ?ks ! j \<noteq> key it"
      using i' j by (metis distinct_nub nth_eq_iff_index_eq)
    then show "desired_spec key attr (acc @ [it]) ! j =
        (desired_spec key attr acc)[i := spec_entry key attr (acc @ [it]) (key it)] ! j"
      using i' j mem by (cases "j = i") (auto simp: desired_spec_def spec_entry_other)
  qed (simp add: length_desired_spec mem)
  then show ?thesis
    using rep mem by (simp add: represents_def bds_merge_def at_i spec_entry_merge
        split: prod.split)
qed

lemma represents_hook: "represents acc (st\<lparr>bds_hook := h\<rparr>) = represents acc st"
  by (simp add: represents_def)

lemma represents_errs: "represents acc (st\<lparr>bds_errs := es\<rparr>) = represents acc st"
  by (simp add: represents_def)

lemma represents_accept:
  assumes "represents acc st"
  shows "represents (acc @ [it]) (bds_accept key attr None it st)"
    and "bds_errs (bds_accept key attr None it st) = bds_errs st"
    and "bds_hook (bds_accept key attr None it st) = bds_hook st"
proof -
  show "represents (acc @ [it]) (bds_accept key attr None it st)"
  proof (cases "bds_index st (key it)")
    case None
    then have "key it \<notin> key ` set acc" using represents_index_None [OF assms] by blast
    then show ?thesis
      using represents_fresh [OF assms] None by (simp add: bds_accept_def)
  next
    case (Some i)
    then show ?thesis using represents_merge [OF assms Some] by (simp add: bds_accept_def)
  qed
  show "bds_errs (bds_accept key attr None it st) = bds_errs st"
    and "bds_hook (bds_accept key attr None it st) = bds_hook st"
    by (auto simp: bds_accept_def bds_merge_def split: option.split prod.split)
qed

lemma reject_run:
  "represents acc st \<Longrightarrow>
   represents (acc @ fst (rej_filter r (bds_hook st) its))
     (foldl (bds_step key attr (Some r) None) st its) \<and>
   bds_errs (foldl (bds_step key attr (Some r) None) st its) =
     bds_errs st @ snd (rej_filter r (bds_hook st) its)"
proof (induction its arbitrary: acc st)
  case Nil
  then show ?case by simp
next
  case (Cons it its)
  obtain s' eo where r: "r (bds_hook st) it = (s', eo)" by fastforce
  show ?case
  proof (cases eo)
    case None
    let ?st = "bds_accept key attr None it (st\<lparr>bds_hook := s'\<rparr>)"
    have rep: "represents acc (st\<lparr>bds_hook := s'\<rparr>)" using Cons.prems by (simp add: represents_hook)
    note acc = represents_accept [OF rep, of it]
    have "bds_step key attr (Some r) None st it = ?st" by (simp add: bds_step_def r None)
    then show ?thesis using Cons.IH [OF acc(1)] r None by (simp add: acc(2,3))
  next
    case (Some e)
    let ?st = "st\<lparr>bds_errs := bds_errs st @ [e], bds_hook := s'\<rparr>"
    have step: "bds_step key attr (Some r) None st it = ?st" by (simp add: bds_step_def r Some)
    have "represents acc ?st" using Cons.prems by (simp add: represents_def)
    from Cons.IH [OF this] show ?thesis by (simp add: step r Some)
  qed
qed

lemma represents_init:
  "represents [] \<lparr>bds_index = Map.empty, bds_out = [], bds_errs = es, bds_hook = s\<rparr>"
  by (simp add: represents_def desired_spec_def)

lemma build_desired_set_reject:
  "build_desired_set items key attr (Some r) s0 None =
     (desired_spec key attr (fst (rej_filter r s0 items)), snd (rej_filter r s0 items))"
  using reject_run [OF represents_init [of "[]" s0], of r items]
  by (simp add: build_desired_set_def represents_def)

end

text \<open>
  A kind with a same-identity conflict hook: the verdict does not look at the merged attribution
  of the element already accepted.
\<close>

locale attributed_conflict = attributed +
  fixes conflict :: "'a \<Rightarrow> 'a \<Rightarrow> 'e option"
  assumes conflict_set: "conflict (attr_set attr a m p) b = conflict a b"
begin

lemma conflict_entry:
  assumes "find (\<lambda>x. key x = key it) acc = Some y"
  shows "conflict (spec_entry key attr acc (key it)) it = conflict y it"
proof -
  have "filter (\<lambda>x. key x = key it) acc \<noteq> [] \<and> hd (filter (\<lambda>x. key x = key it) acc) = y"
    using assms by (induction acc) (auto split: if_splits)
  then show ?thesis by (simp add: spec_entry_def Let_def conflict_set split: prod.split)
qed

lemma conflict_step:
  assumes rep: "represents acc st" and y: "find (\<lambda>x. key x = key it) acc = Some y"
  shows "bds_accept key attr (Some conflict) it st =
    (case conflict y it of
       Some e \<Rightarrow> st\<lparr>bds_errs := bds_errs st @ [e]\<rparr>
     | None \<Rightarrow> bds_accept key attr None it st)"
proof -
  have "y \<in> set acc" "key y = key it" using find_SomeD [OF y] by auto
  then have "key it \<in> key ` set acc" by (metis imageI)
  then obtain i where i: "bds_index st (key it) = Some i"
    using represents_index_None [OF rep] by fastforce
  then have "bds_out st ! i = spec_entry key attr acc (key it)"
    using rep by (auto simp: represents_def desired_spec_def)
  then show ?thesis
    using i conflict_entry [OF y] by (simp add: bds_accept_def split: option.split)
qed

lemma conflict_run:
  "represents acc st \<Longrightarrow>
   represents (fst (con_filter key conflict acc its))
     (foldl (bds_step key attr None (Some conflict)) st its) \<and>
   bds_errs (foldl (bds_step key attr None (Some conflict)) st its) =
     bds_errs st @ snd (con_filter key conflict acc its)"
proof (induction its arbitrary: acc st)
  case Nil
  then show ?case by simp
next
  case (Cons it its)
  note acc = represents_accept [OF Cons.prems, of it]
  have fresh: "bds_accept key attr (Some conflict) it st = bds_accept key attr None it st"
    if "find (\<lambda>x. key x = key it) acc = None"
  proof -
    have "key it \<notin> key ` set acc" using that by (auto simp: find_None_iff)
    then have "bds_index st (key it) = None" using represents_index_None [OF Cons.prems] by simp
    then show ?thesis by (simp add: bds_accept_def)
  qed
  show ?case
  proof (cases "find (\<lambda>x. key x = key it) acc")
    case None
    then have "bds_step key attr None (Some conflict) st it = bds_accept key attr None it st"
      using fresh by (simp add: bds_step_def)
    then show ?thesis using Cons.IH [OF acc(1)] None by (simp add: acc(2))
  next
    case (Some y)
    note y = this
    show ?thesis
    proof (cases "conflict y it")
      case None
      then have "bds_step key attr None (Some conflict) st it = bds_accept key attr None it st"
        using conflict_step [OF Cons.prems Some] by (simp add: bds_step_def)
      then show ?thesis using Cons.IH [OF acc(1)] Some None by (simp add: acc(2))
    next
      case (Some e)
      let ?st = "st\<lparr>bds_errs := bds_errs st @ [e]\<rparr>"
      have step: "bds_step key attr None (Some conflict) st it = ?st"
        using conflict_step [OF Cons.prems y] Some by (simp add: bds_step_def)
      have "represents acc ?st" using Cons.prems by (simp add: represents_errs)
      from Cons.IH [OF this] show ?thesis by (simp add: step y Some)
    qed
  qed
qed

lemma build_desired_set_conflict:
  "build_desired_set items key attr None s0 (Some conflict) =
     (desired_spec key attr (fst (con_filter key conflict [] items)),
      snd (con_filter key conflict [] items))"
  using conflict_run [OF represents_init [of "[]" s0], of items]
  by (simp add: build_desired_set_def represents_def)

end

end
