(* ===== verification/Access.thy ===== *)
theory Access
  imports Managedset
begin

section \<open>ACLs (internal/access)\<close>

text \<open>
  The ACL tuple and its identity keys, the compilation of a topic's access block and of an access
  policy into ACLs, the desired set with its Allow/Deny rejection, the cross-resource conflict
  report, the managed scope, and the self-lockout heuristic.
\<close>

subsection \<open>The tuple and its keys\<close>

record acl =
  acl_principal :: string
  acl_host :: string
  acl_resourceType :: string
  acl_resourceName :: string
  acl_patternType :: string
  acl_operation :: string
  acl_permission :: string
  acl_mode :: string
  acl_sourceKind :: string
  acl_sourceNamespace :: string
  acl_sourceName :: string
  acl_prune :: bool

text \<open>A tuple with empty attribution, as the compilers emit it.\<close>

definition mk_acl ::
    "string \<Rightarrow> string \<Rightarrow> string \<Rightarrow> string \<Rightarrow> string \<Rightarrow> string \<Rightarrow> string \<Rightarrow> acl" where
  "mk_acl prin host resType resName pattern oper perm =
     \<lparr>acl_principal = prin, acl_host = host, acl_resourceType = resType,
      acl_resourceName = resName, acl_patternType = pattern, acl_operation = oper,
      acl_permission = perm, acl_mode = [], acl_sourceKind = [], acl_sourceNamespace = [],
      acl_sourceName = [], acl_prune = False\<rparr>"

definition stamp_prune :: "acl list \<Rightarrow> bool \<Rightarrow> acl list" where
  "stamp_prune acls prune = map (\<lambda>a. a\<lparr>acl_prune := prune\<rparr>) acls"

definition stamp_source :: "acl list \<Rightarrow> string \<Rightarrow> string \<Rightarrow> string \<Rightarrow> acl list" where
  "stamp_source acls kind namespace name =
     map (\<lambda>a. a\<lparr>acl_sourceKind := kind, acl_sourceNamespace := namespace, acl_sourceName := name\<rparr>)
       acls"

definition acl_attribution :: "acl attribution" where
  "acl_attribution =
     \<lparr>attr_get = (\<lambda>a. (acl_mode a, acl_prune a)),
      attr_set = (\<lambda>a mode prune. a\<lparr>acl_mode := mode, acl_prune := prune\<rparr>)\<rparr>"

definition subject_key :: "acl \<Rightarrow> string" where
  "subject_key a =
     nul_join [acl_principal a, acl_host a, acl_resourceType a, acl_resourceName a,
       acl_patternType a, acl_operation a]"

definition full_key :: "acl \<Rightarrow> string" where
  "full_key a = subject_key a @ [NUL] @ acl_permission a"

definition acl_identity :: "acl \<Rightarrow> string list" where
  "acl_identity a =
     [acl_principal a, acl_host a, acl_resourceType a, acl_resourceName a, acl_patternType a,
      acl_operation a, acl_permission a]"

lemma full_key_nul_join: "full_key a = nul_join (acl_identity a)"
  by (simp add: full_key_def subject_key_def acl_identity_def nul_join_def)

subsection \<open>Compilation\<close>

definition host_or_star :: "string \<Rightarrow> string" where
  "host_or_star h = (if h = [] then ''*'' else h)"

definition or_default :: "string list \<Rightarrow> string list \<Rightarrow> string list" where
  "or_default ops def = (if length ops > 0 then ops else def)"

definition compile_topic :: "kafka_topic \<Rightarrow> acl list" where
  "compile_topic tp =
     (let topicName = resolved_topic_name tp; access = kts_access (kt_spec tp) in
      concat (map (\<lambda>p.
        map (\<lambda>oper. mk_acl (pa_principal p) (host_or_star (pa_host p)) ''topic'' topicName
               ''literal'' oper ''Allow'')
          (or_default (pa_operations p) [''Write'', ''Describe'']))
        (ta_producers access)) @
      concat (map (\<lambda>c.
        map (\<lambda>oper. mk_acl (ca_principal c) (host_or_star (ca_host c)) ''topic'' topicName
               ''literal'' oper ''Allow'')
          (or_default (ca_topicOperations c) [''Read'', ''Describe'']) @
        map (\<lambda>oper. mk_acl (ca_principal c) (host_or_star (ca_host c)) ''group'' (ca_group c)
               ''literal'' oper ''Allow'')
          (or_default (ca_groupOperations c) [''Read'']))
        (ta_consumers access)))"

definition compile_rule :: "acl_rule \<Rightarrow> acl list" where
  "compile_rule r =
     (let host = (if rule_host r = [] then ''*'' else rule_host r);
          perm = (if rule_permission r = [] then ''Allow'' else rule_permission r);
          pt = (if ar_patternType (rule_resource r) = [] then ''literal''
                else ar_patternType (rule_resource r))
      in map (\<lambda>oper. mk_acl (rule_principal r) host (ar_type (rule_resource r))
                (ar_name (rule_resource r)) pt oper perm)
           (rule_operations r))"

definition compile_policy :: "kafka_access_policy \<Rightarrow> acl list" where
  "compile_policy pol = concat (map compile_rule (aps_rules (ap_spec pol)))"

lemma compile_topic_shape:
  assumes "a \<in> set (compile_topic tp)"
  shows "acl_permission a = ''Allow''" "acl_patternType a = ''literal''" "acl_host a \<noteq> []"
    "acl_resourceType a = ''topic'' \<and> acl_resourceName a = resolved_topic_name tp \<or>
     acl_resourceType a = ''group'' \<and>
       acl_resourceName a \<in> ca_group ` set (ta_consumers (kts_access (kt_spec tp)))"
  using assms by (auto simp: compile_topic_def Let_def mk_acl_def host_or_star_def split: if_splits)

lemma compile_policy_shape:
  assumes "a \<in> set (compile_policy pol)"
  shows "acl_permission a \<noteq> []" "acl_patternType a \<noteq> []" "acl_host a \<noteq> []"
    "\<exists>r \<in> set (aps_rules (ap_spec pol)). acl_principal a = rule_principal r \<and>
       acl_resourceType a = ar_type (rule_resource r) \<and>
       acl_resourceName a = ar_name (rule_resource r) \<and> acl_operation a \<in> set (rule_operations r)"
proof -
  obtain r oper where r: "r \<in> set (aps_rules (ap_spec pol))" "oper \<in> set (rule_operations r)"
      "a = mk_acl (rule_principal r) (if rule_host r = [] then ''*'' else rule_host r)
         (ar_type (rule_resource r)) (ar_name (rule_resource r))
         (if ar_patternType (rule_resource r) = [] then ''literal''
          else ar_patternType (rule_resource r)) oper
         (if rule_permission r = [] then ''Allow'' else rule_permission r)"
    using assms by (force simp: compile_policy_def compile_rule_def Let_def)
  then show "acl_permission a \<noteq> []" "acl_patternType a \<noteq> []" "acl_host a \<noteq> []"
    "\<exists>r \<in> set (aps_rules (ap_spec pol)). acl_principal a = rule_principal r \<and>
       acl_resourceType a = ar_type (rule_resource r) \<and>
       acl_resourceName a = ar_name (rule_resource r) \<and> acl_operation a \<in> set (rule_operations r)"
    by (auto simp: mk_acl_def)
qed

subsection \<open>The desired set\<close>

datatype access_error = AclConflict string

definition reject_conflicting ::
    "(string \<rightharpoonup> string) \<Rightarrow> acl \<Rightarrow> (string \<rightharpoonup> string) \<times> access_error option" where
  "reject_conflicting bySubject a =
     (case bySubject (subject_key a) of
        Some prev \<Rightarrow>
          (if prev \<noteq> acl_permission a then (bySubject, Some (AclConflict (subject_key a)))
           else (bySubject(subject_key a \<mapsto> acl_permission a), None))
      | None \<Rightarrow> (bySubject(subject_key a \<mapsto> acl_permission a), None))"

definition build_acl_set :: "acl list \<Rightarrow> acl list \<times> access_error list" where
  "build_acl_set acls =
     build_desired_set acls full_key acl_attribution (Some reject_conflicting) Map.empty None"

lemma acl_attribution_simps [simp]:
  "attr_get acl_attribution a = (acl_mode a, acl_prune a)"
  "attr_set acl_attribution a m p = a\<lparr>acl_mode := m, acl_prune := p\<rparr>"
  by (simp_all add: acl_attribution_def)

interpretation acl_kind: attributed full_key acl_attribution
  by unfold_locales (auto simp: full_key_def subject_key_def)

text \<open>
  The permission a subject ends up with is the first one seen; the hook lets exactly the tuples
  that agree with it pass.
\<close>

definition first_permission :: "(string \<rightharpoonup> string) \<Rightarrow> acl list \<Rightarrow> string \<Rightarrow> string option" where
  "first_permission m acls k =
     (case m k of
        Some p \<Rightarrow> Some p
      | None \<Rightarrow> map_option acl_permission (find (\<lambda>a. subject_key a = k) acls))"

lemma first_permission_update:
  "first_permission (m(subject_key a \<mapsto> acl_permission a)) as k =
     (if m (subject_key a) = None \<or> m (subject_key a) = Some (acl_permission a)
      then first_permission m (a # as) k
      else first_permission (m(subject_key a \<mapsto> acl_permission a)) as k)"
  by (cases "k = subject_key a") (auto simp: first_permission_def split: option.splits)

lemma rej_filter_acls:
  "fst (rej_filter reject_conflicting m acls) =
     filter (\<lambda>a. first_permission m acls (subject_key a) = Some (acl_permission a)) acls \<and>
   snd (rej_filter reject_conflicting m acls) =
     map (\<lambda>a. AclConflict (subject_key a))
       (filter (\<lambda>a. first_permission m acls (subject_key a) \<noteq> Some (acl_permission a)) acls)"
proof (induction acls arbitrary: m)
  case Nil
  then show ?case by simp
next
  case (Cons a as)
  show ?case
  proof (cases "m (subject_key a) = None \<or> m (subject_key a) = Some (acl_permission a)")
    case True
    define m' where "m' = m(subject_key a \<mapsto> acl_permission a)"
    have step: "reject_conflicting m a = (m', None)"
      using True by (auto simp: reject_conflicting_def m'_def)
    have fp: "first_permission m' as = first_permission m (a # as)"
      using True by (simp add: m'_def first_permission_update fun_eq_iff)
    have "first_permission m (a # as) (subject_key a) = Some (acl_permission a)"
      using True by (auto simp: first_permission_def)
    then show ?thesis
      using Cons.IH [of m'] by (simp add: step fp)
  next
    case False
    then obtain p where p: "m (subject_key a) = Some p" "p \<noteq> acl_permission a" by auto
    then have step: "reject_conflicting m a = (m, Some (AclConflict (subject_key a)))"
      by (simp add: reject_conflicting_def)
    have fp: "first_permission m (a # as) = first_permission m as"
      using p by (auto simp: first_permission_def fun_eq_iff split: option.splits)
    have "first_permission m as (subject_key a) = Some p" using p by (simp add: first_permission_def)
    then show ?thesis using Cons.IH [of m] p by (simp add: step fp)
  qed
qed

definition accepted_acls :: "acl list \<Rightarrow> acl list" where
  "accepted_acls acls =
     filter (\<lambda>a. first_permission Map.empty acls (subject_key a) = Some (acl_permission a)) acls"

definition rejected_acls :: "acl list \<Rightarrow> acl list" where
  "rejected_acls acls =
     filter (\<lambda>a. first_permission Map.empty acls (subject_key a) \<noteq> Some (acl_permission a)) acls"

lemma build_acl_set_eq:
  "build_acl_set acls =
     (desired_spec full_key acl_attribution (accepted_acls acls),
      map (\<lambda>a. AclConflict (subject_key a)) (rejected_acls acls))"
  unfolding build_acl_set_def acl_kind.build_desired_set_reject
  by (simp add: rej_filter_acls accepted_acls_def rejected_acls_def)

subsection \<open>Conflicts across resources\<close>

record conflict =
  cf_subject :: string
  cf_a :: acl
  cf_b :: acl

fun conflicts_loop :: "(string \<rightharpoonup> acl) \<Rightarrow> acl list \<Rightarrow> conflict list" where
  "conflicts_loop first [] = []"
| "conflicts_loop first (a # as) =
     (case first (subject_key a) of
        None \<Rightarrow> conflicts_loop (first(subject_key a \<mapsto> a)) as
      | Some s \<Rightarrow>
          (if acl_permission s \<noteq> acl_permission a
           then \<lparr>cf_subject = subject_key a, cf_a = s, cf_b = a\<rparr> # conflicts_loop first as
           else conflicts_loop first as))"

definition conflicts :: "acl list \<Rightarrow> conflict list" where
  "conflicts acls = conflicts_loop Map.empty acls"

lemma conflicts_loop_rejected:
  "(\<And>k. m k = map_option acl_permission (first k)) \<Longrightarrow>
   map cf_b (conflicts_loop first acls) =
     filter (\<lambda>a. first_permission m acls (subject_key a) \<noteq> Some (acl_permission a)) acls \<and>
   map cf_subject (conflicts_loop first acls) = map (subject_key \<circ> cf_b) (conflicts_loop first acls)"
proof (induction acls arbitrary: m first)
  case Nil
  then show ?case by simp
next
  case (Cons a as)
  show ?case
  proof (cases "first (subject_key a)")
    case None
    then have "m (subject_key a) = None" using Cons.prems by simp
    define m' first' where "m' = m(subject_key a \<mapsto> acl_permission a)"
      and "first' = first(subject_key a \<mapsto> a)"
    have fp: "first_permission m' as = first_permission m (a # as)"
      using \<open>m (subject_key a) = None\<close> by (simp add: m'_def first_permission_update fun_eq_iff)
    have inv: "m' k = map_option acl_permission (first' k)" for k
      using Cons.prems by (simp add: m'_def first'_def)
    have here: "first_permission m (a # as) (subject_key a) = Some (acl_permission a)"
      using \<open>m (subject_key a) = None\<close> by (simp add: first_permission_def)
    show ?thesis
      using Cons.IH [OF inv] None here by (simp add: fp flip: first'_def)
  next
    case (Some s)
    then have m: "m (subject_key a) = Some (acl_permission s)" using Cons.prems by simp
    then have fp: "first_permission m (a # as) = first_permission m as"
      by (auto simp: first_permission_def fun_eq_iff split: option.splits)
    have "first_permission m as (subject_key a) = Some (acl_permission s)"
      using m by (simp add: first_permission_def)
    then show ?thesis using Cons.IH [OF Cons.prems] Some by (simp add: fp)
  qed
qed

lemma conflicts_rejected:
  "map cf_b (conflicts acls) = rejected_acls acls"
  "map cf_subject (conflicts acls) = map subject_key (rejected_acls acls)"
  using conflicts_loop_rejected [of Map.empty Map.empty acls]
  by (simp_all add: conflicts_def rejected_acls_def flip: map_map)

subsection \<open>The managed scope\<close>

record scope_key =
  sk_principal :: string
  sk_resourceType :: string
  sk_resourceName :: string
  sk_patternType :: string

definition scope_key_of :: "acl \<Rightarrow> scope_key" where
  "scope_key_of a =
     \<lparr>sk_principal = acl_principal a, sk_resourceType = acl_resourceType a,
      sk_resourceName = acl_resourceName a, sk_patternType = acl_patternType a\<rparr>"

definition scope_info_of :: "acl \<Rightarrow> scope_info" where
  "scope_info_of a =
     \<lparr>si_mode = acl_mode a, si_prune = acl_prune a, si_sourceKind = acl_sourceKind a,
      si_sourceNamespace = acl_sourceNamespace a, si_sourceName = acl_sourceName a\<rparr>"

type_synonym managed_scope = "scope_key \<rightharpoonup> scope_info"

definition build_acl_scope :: "acl list \<Rightarrow> managed_scope" where
  "build_acl_scope desired = build_scope desired scope_key_of scope_info_of"

definition scope_contains :: "managed_scope \<Rightarrow> acl \<Rightarrow> bool" where
  "scope_contains s a \<longleftrightarrow> s (scope_key_of a) \<noteq> None"

definition scope_lookup :: "managed_scope \<Rightarrow> acl \<Rightarrow> scope_info option" where
  "scope_lookup s a = s (scope_key_of a)"

lemma scope_contains_build:
  "scope_contains (build_acl_scope acls) a \<longleftrightarrow> scope_key_of a \<in> scope_key_of ` set acls"
  by (auto simp: scope_contains_def build_acl_scope_def build_scope_None)

subsection \<open>The self-lockout heuristic\<close>

text \<open>
  \<open>quote\<close> stands for the \<open>%q\<close> verb's \<open>strconv.Quote\<close>. The source ranges over a Go map of groups in
  an unspecified order, then drops repeated lines and sorts: the model ranges over the groups in
  first-seen order, which gives the same list.
\<close>

definition lockout_group :: "acl \<Rightarrow> string \<times> string \<times> string" where
  "lockout_group a = (acl_resourceType a, acl_resourceName a, acl_patternType a)"

definition lockout_message :: "(string \<Rightarrow> string) \<Rightarrow> string \<Rightarrow> string \<times> string \<times> string \<Rightarrow> string" where
  "lockout_message quote prin g =
     (case g of (resType, resName, _) \<Rightarrow>
        ''applying ACLs to '' @ resType @ '' '' @ quote resName @
        '' will restrict access to the listed principals; the connecting principal '' @ prin @
        '' is not among them (ignore if it is a super.user)'')"

definition lockout_warnings :: "(string \<Rightarrow> string) \<Rightarrow> acl list \<Rightarrow> string \<Rightarrow> string list" where
  "lockout_warnings quote desiredACLs connectingPrincipal =
     (if connectingPrincipal = [] \<or> desiredACLs = [] then []
      else
        let principals = (\<lambda>g. acl_principal ` set (filter (\<lambda>a. lockout_group a = g) desiredACLs));
            uncovered = filter (\<lambda>g. connectingPrincipal \<notin> principals g)
                          (nub (map lockout_group desiredACLs))
        in sort (remdups (map (lockout_message quote connectingPrincipal) uncovered)))"

lemma set_lockout_warnings:
  assumes "p \<noteq> []"
  shows "set (lockout_warnings quote acls p) =
     lockout_message quote p `
       {g \<in> lockout_group ` set acls. \<forall>b \<in> set acls. lockout_group b = g \<longrightarrow> acl_principal b \<noteq> p}"
proof (cases "acls = []")
  case True
  then show ?thesis by (simp add: lockout_warnings_def)
next
  case False
  have covered: "p \<notin> acl_principal ` set (filter (\<lambda>a. lockout_group a = g) acls) \<longleftrightarrow>
      (\<forall>b \<in> set acls. lockout_group b = g \<longrightarrow> acl_principal b \<noteq> p)" for g
    by auto
  show ?thesis
    using False assms by (simp only: lockout_warnings_def Let_def covered) simp
qed

subsection \<open>Properties\<close>

lemma full_key_inject:
  assumes "list_all nul_free (acl_identity a)" "list_all nul_free (acl_identity b)"
  shows "full_key a = full_key b \<longleftrightarrow> acl_identity a = acl_identity b"
proof -
  have "acl_identity c \<noteq> []" for c by (simp add: acl_identity_def)
  then show ?thesis using assms by (simp add: full_key_nul_join nul_join_inject)
qed

text \<open>
  The identity key of an ACL is injective on NUL-free fields: two tuples with the same
  \<open>FullKey\<close> agree on all seven identity fields (and only those; attribution is not identity).
\<close>

theorem full_key_identifies:
  assumes "list_all nul_free (acl_identity a)" "list_all nul_free (acl_identity b)"
  shows "full_key a = full_key b \<longleftrightarrow> acl_identity a = acl_identity b"
  using assms by (rule full_key_inject)

theorem full_key_identifies_witness:
  "full_key (mk_acl ''User:a'' ''*'' ''topic'' ''t'' ''literal'' ''Read'' ''Allow'') \<noteq>
   full_key (mk_acl ''User:a'' ''*'' ''topic'' ''t'' ''literal'' ''Read'' ''Deny'')"
  using full_key_identifies
    [of "mk_acl ''User:a'' ''*'' ''topic'' ''t'' ''literal'' ''Read'' ''Allow''"
        "mk_acl ''User:a'' ''*'' ''topic'' ''t'' ''literal'' ''Read'' ''Deny''"]
  by (simp add: acl_identity_def mk_acl_def nul_free_def NUL_def)

lemma acl_set_entry:
  assumes "a \<in> set (fst (build_acl_set acls))"
  obtains b where "b \<in> set (accepted_acls acls)" "\<exists>m p. a = b\<lparr>acl_mode := m, acl_prune := p\<rparr>"
    "acl_prune a \<longleftrightarrow> (\<forall>c \<in> set (accepted_acls acls). full_key c = full_key a \<longrightarrow> acl_prune c)"
    "\<forall>c \<in> set (accepted_acls acls).
       full_key c = full_key a \<longrightarrow> mode_rank (acl_mode c) \<le> mode_rank (acl_mode a)"
    "\<exists>c \<in> set (accepted_acls acls). full_key c = full_key a \<and> acl_mode c = acl_mode a"
proof -
  obtain k where k: "k \<in> full_key ` set (accepted_acls acls)"
    "a = spec_entry full_key acl_attribution (accepted_acls acls) k"
    using assms by (auto simp: build_acl_set_eq desired_spec_def)
  then have key: "full_key a = k" using acl_kind.spec_entry_key by blast
  from k(1) show ?thesis
  proof (rule acl_kind.spec_entry_merged)
    fix b m p
    assume "b \<in> set (accepted_acls acls)"
      "spec_entry full_key acl_attribution (accepted_acls acls) k = attr_set acl_attribution b m p"
      "p \<longleftrightarrow> (\<forall>b \<in> set (accepted_acls acls). full_key b = k \<longrightarrow> snd (attr_get acl_attribution b))"
      "\<forall>b \<in> set (accepted_acls acls). full_key b = k \<longrightarrow>
         mode_rank (fst (attr_get acl_attribution b)) \<le> mode_rank m"
      "\<exists>b \<in> set (accepted_acls acls). full_key b = k \<and> fst (attr_get acl_attribution b) = m"
    then show ?thesis
      using k(2) key by (intro that [of b]) auto
  qed
qed

lemma accepted_permission:
  "a \<in> set (accepted_acls acls) \<Longrightarrow>
   first_permission Map.empty acls (subject_key a) = Some (acl_permission a)"
  by (simp add: accepted_acls_def)

lemma subject_key_attribution [simp]:
  "subject_key (a\<lparr>acl_mode := m, acl_prune := p\<rparr>) = subject_key a"
  by (simp add: subject_key_def)

text \<open>
  The desired ACL set holds one entry per identity and one entry per subject, whatever the
  resources declare: in particular never an Allow and a Deny for one subject.
\<close>

theorem build_acl_set_no_clash:
  "distinct (map full_key (fst (build_acl_set acls))) \<and>
   distinct (map subject_key (fst (build_acl_set acls)))"
proof
  let ?out = "fst (build_acl_set acls)"
  show keys: "distinct (map full_key ?out)"
    by (simp add: build_acl_set_eq acl_kind.map_key_desired_spec)
  have perm: "first_permission Map.empty acls (subject_key c) = Some (acl_permission c)"
    if "c \<in> set ?out" for c
    using that by (rule acl_set_entry) (auto simp: accepted_permission)
  have "inj_on subject_key (set ?out)"
  proof (rule inj_onI)
    fix a b assume ab: "a \<in> set ?out" "b \<in> set ?out" "subject_key a = subject_key b"
    then have "acl_permission a = acl_permission b" by (metis perm option.inject)
    then have "full_key a = full_key b" using ab(3) by (simp add: full_key_def)
    then show "a = b" using keys ab(1,2) by (auto simp: distinct_map dest: inj_onD)
  qed
  then show "distinct (map subject_key ?out)" using keys by (simp add: distinct_map)
qed

text \<open>
  Every entry of the desired ACL set carries the merged attribution of ALL accepted
  contributors of its identity: it consents to pruning exactly when each of them does, and its mode
  is that of a contributor and the most enforcing among theirs.
\<close>

theorem build_acl_set_attribution:
  assumes "a \<in> set (fst (build_acl_set acls))"
  shows "(acl_prune a \<longleftrightarrow>
       (\<forall>b \<in> set (accepted_acls acls). full_key b = full_key a \<longrightarrow> acl_prune b)) \<and>
     (\<forall>b \<in> set (accepted_acls acls). full_key b = full_key a \<longrightarrow>
       mode_rank (acl_mode b) \<le> mode_rank (acl_mode a)) \<and>
     (\<exists>b \<in> set (accepted_acls acls). full_key b = full_key a \<and> acl_mode b = acl_mode a)"
  using assms by (rule acl_set_entry) blast

definition sample_acl :: "bool \<Rightarrow> string \<Rightarrow> acl" where
  "sample_acl prune oper =
     (mk_acl ''User:a'' ''*'' ''topic'' ''t'' ''literal'' oper ''Allow'')\<lparr>acl_prune := prune\<rparr>"

theorem build_acl_set_attribution_witness:
  "\<not> acl_prune (hd (fst (build_acl_set [sample_acl True ''Read'', sample_acl False ''Read''])))"
proof -
  let ?in = "[sample_acl True ''Read'', sample_acl False ''Read'']"
  have acc: "sample_acl False ''Read'' \<in> set (accepted_acls ?in)"
    by (simp add: accepted_acls_def first_permission_def sample_acl_def mk_acl_def subject_key_def)
  have set: "fst (build_acl_set ?in) = [sample_acl False ''Read'']" by code_simp
  show ?thesis
    using build_acl_set_attribution [of "hd (fst (build_acl_set ?in))" ?in] acc
    by (simp add: set) (simp add: sample_acl_def)
qed

text \<open>
  \<open>BuildDesiredSet\<close> reports an error exactly for each tuple \<open>Conflicts\<close> names as the second of a
  pair, in input order and with the same subject; the two functions agree on what a conflict is.
\<close>

theorem build_acl_set_errors_are_conflicts:
  "snd (build_acl_set acls) = map (\<lambda>c. AclConflict (cf_subject c)) (conflicts acls)"
proof -
  have "map (\<lambda>a. AclConflict (subject_key a)) (rejected_acls acls) =
      map AclConflict (map cf_subject (conflicts acls))"
    by (simp add: conflicts_rejected(2))
  then show ?thesis by (simp add: build_acl_set_eq)
qed

text \<open>
  One non-consenting resource vetoes pruning: a live tuple is in the managed scope exactly when
  some desired tuple shares its principal and resource pattern, and the scope's consent is the
  conjunction of the consents of all of these.
\<close>

theorem acl_scope_veto:
  assumes "scope_lookup (build_acl_scope acls) x = Some info"
  shows "(\<exists>a \<in> set acls. scope_key_of a = scope_key_of x) \<and>
     (si_prune info \<longleftrightarrow> (\<forall>a \<in> set acls. scope_key_of a = scope_key_of x \<longrightarrow> acl_prune a)) \<and>
     (\<forall>a \<in> set acls. scope_key_of a = scope_key_of x \<longrightarrow>
        mode_rank (acl_mode a) \<le> mode_rank (si_mode info))"
proof -
  have eq: "build_scope acls scope_key_of scope_info_of (scope_key_of x) = Some info"
    using assms by (simp add: scope_lookup_def build_acl_scope_def)
  then have "scope_key_of x \<in> scope_key_of ` set acls"
    using build_scope_None [of acls scope_key_of scope_info_of "scope_key_of x"] by simp
  then show ?thesis
    using build_scope_Some(1,2) [OF eq] by (auto simp: scope_info_of_def)
qed

theorem acl_scope_veto_witness:
  "\<exists>info. scope_lookup (build_acl_scope [sample_acl True ''Read'', sample_acl False ''Write''])
       (sample_acl False ''Delete'') = Some info \<and> \<not> si_prune info"
proof -
  let ?in = "[sample_acl True ''Read'', sample_acl False ''Write'']"
  have "scope_contains (build_acl_scope ?in) (sample_acl False ''Delete'')"
    by (simp add: scope_contains_build sample_acl_def mk_acl_def scope_key_of_def)
  then obtain info where "scope_lookup (build_acl_scope ?in) (sample_acl False ''Delete'') = Some info"
    by (auto simp: scope_contains_def scope_lookup_def)
  with acl_scope_veto [OF this] show ?thesis
    by (simp add: sample_acl_def mk_acl_def scope_key_of_def)
qed

end
