(* ===== verification/Rbac.thy ===== *)
theory Rbac
  imports Access
begin

section \<open>Role bindings (internal/rbac)\<close>

text \<open>
  Compilation of role-binding resources and of topic access into MDS role bindings, the desired
  set with its explicit-versus-explicit collision rule, the managed scope, and the role
  classification table. An error whose text quotes user input with \<open>%q\<close> is a constructor carrying
  the values, any other error text is a string.
\<close>

record rb_scope =
  sc_type :: string
  sc_kafkaCluster :: string
  sc_subCluster :: string

record resource_pattern =
  rp_type :: string
  rp_name :: string
  rp_patternType :: string

record role_binding =
  rb_principal :: string
  rb_role :: string
  rb_scope_of :: rb_scope
  rb_resource :: "resource_pattern option"
  rb_mode :: string
  rb_sourceKind :: string
  rb_sourceNamespace :: string
  rb_sourceName :: string
  rb_prune :: bool

definition binding_attribution :: "role_binding attribution" where
  "binding_attribution =
     \<lparr>attr_get = (\<lambda>b. (rb_mode b, rb_prune b)),
      attr_set = (\<lambda>b mode prune. b\<lparr>rb_mode := mode, rb_prune := prune\<rparr>)\<rparr>"

definition resource_key :: "resource_pattern option \<Rightarrow> string" where
  "resource_key r =
     (case r of None \<Rightarrow> [] | Some p \<Rightarrow> nul_join [rp_type p, rp_name p, rp_patternType p])"

definition rb_full_key :: "role_binding \<Rightarrow> string" where
  "rb_full_key b =
     nul_join [rb_principal b, rb_role b, sc_type (rb_scope_of b), sc_kafkaCluster (rb_scope_of b),
       sc_subCluster (rb_scope_of b), resource_key (rb_resource b)]"

subsection \<open>Compilation\<close>

datatype rbac_error =
    KafkaClusterMissing
  | SubClusterMissing string string
  | RoleBindingConflict string string string string string

definition resolve_scope :: "string \<Rightarrow> mds_clusters \<Rightarrow> rbac_error + rb_scope" where
  "resolve_scope scopeType clusters =
     (if mc_kafkaCluster clusters = [] then Inl KafkaClusterMissing
      else
        let s = \<lparr>sc_type = scopeType, sc_kafkaCluster = mc_kafkaCluster clusters,
                 sc_subCluster = []\<rparr>
        in if scopeType = ''kafka'' then Inr s
           else if scopeType = ''schema-registry'' then
             (if mc_schemaRegistryCluster clusters = []
              then Inl (SubClusterMissing ''SchemaRegistryCluster'' scopeType)
              else Inr (s\<lparr>sc_subCluster := mc_schemaRegistryCluster clusters\<rparr>))
           else if scopeType = ''connect'' then
             (if mc_connectCluster clusters = []
              then Inl (SubClusterMissing ''ConnectCluster'' scopeType)
              else Inr (s\<lparr>sc_subCluster := mc_connectCluster clusters\<rparr>))
           else if scopeType = ''ksql'' then
             (if mc_ksqlCluster clusters = []
              then Inl (SubClusterMissing ''KsqlCluster'' scopeType)
              else Inr (s\<lparr>sc_subCluster := mc_ksqlCluster clusters\<rparr>))
           else Inr s)"

definition rbac_compile :: "kafka_role_binding \<Rightarrow> mds_config \<Rightarrow> rbac_error + role_binding list" where
  "rbac_compile rb mds =
     (case resolve_scope (rbs_type (krs_scope (kr_spec rb))) (mds_clusters_of mds) of
        Inl e \<Rightarrow> Inl e
      | Inr scope \<Rightarrow>
          let mode = (case krs_reconciliation (kr_spec rb) of None \<Rightarrow> [] | Some r \<Rightarrow> rec_mode r);
              mk = (\<lambda>res. \<lparr>rb_principal = krs_principal (kr_spec rb), rb_role = krs_role (kr_spec rb),
                     rb_scope_of = scope, rb_resource = res, rb_mode = mode,
                     rb_sourceKind = ''KafkaRoleBinding'',
                     rb_sourceNamespace = om_namespace (kr_meta rb),
                     rb_sourceName = om_name (kr_meta rb), rb_prune = False\<rparr>)
          in Inr (if krs_resources (kr_spec rb) = [] then [mk None]
                  else map (\<lambda>res.
                         mk (Some \<lparr>rp_type = rr_type res, rp_name = rr_name res,
                                   rp_patternType = (if rr_patternType res = [] then ''literal''
                                                     else rr_patternType res)\<rparr>))
                       (krs_resources (kr_spec rb))))"

subsection \<open>Topic access as role bindings\<close>

text \<open>\<open>quote\<close> is \<open>strconv.Quote\<close>, the \<open>%q\<close> verb. \<open>%v\<close> prints a string slice in brackets.\<close>

definition producer_op_bundle :: "string list" where
  "producer_op_bundle = [''Write'', ''Describe'']"

definition consumer_topic_op_bundle :: "string list" where
  "consumer_topic_op_bundle = [''Read'', ''Describe'']"

definition consumer_group_op_bundle :: "string list" where
  "consumer_group_op_bundle = [''Read'']"

definition same_string_set :: "string list \<Rightarrow> string list \<Rightarrow> bool" where
  "same_string_set a b \<longleftrightarrow>
     card (set a) = card (set b) \<and> (\<forall>x \<in> set a. x \<in> set b)"

definition host_coarsen_warning ::
    "(string \<Rightarrow> string) \<Rightarrow> kafka_topic \<Rightarrow> string \<Rightarrow> string \<Rightarrow> string \<Rightarrow> string" where
  "host_coarsen_warning quote tp prin ctxt host =
     (if host = [] \<or> host = ''*'' then []
      else ''KafkaTopic '' @ om_namespace (kt_meta tp) @ ''/'' @ om_name (kt_meta tp) @ '': '' @ ctxt @
        '' access for '' @ prin @ '' mapped to a coarser RBAC role (dropped host '' @ quote host @
        ''); RBAC cannot represent it'')"

definition ops_coarsen_warning ::
    "kafka_topic \<Rightarrow> string \<Rightarrow> string \<Rightarrow> string list \<Rightarrow> string list \<Rightarrow> string" where
  "ops_coarsen_warning tp prin ctxt ops bundle =
     (if ops = [] \<or> same_string_set ops bundle then []
      else ''KafkaTopic '' @ om_namespace (kt_meta tp) @ ''/'' @ om_name (kt_meta tp) @ '': '' @ ctxt @
        '' access for '' @ prin @
        '' mapped to a coarser RBAC role (dropped custom operations ['' @ join '' '' ops @
        '']); RBAC cannot represent it'')"

definition note_warning :: "string \<Rightarrow> string list" where
  "note_warning w = (if w \<noteq> [] then [w] else [])"

definition topic_binding ::
    "kafka_topic \<Rightarrow> rb_scope \<Rightarrow> string \<Rightarrow> string \<Rightarrow> string \<Rightarrow> string \<Rightarrow> role_binding" where
  "topic_binding tp scope prin role resType resName =
     \<lparr>rb_principal = prin, rb_role = role, rb_scope_of = scope,
      rb_resource = Some \<lparr>rp_type = resType, rp_name = resName, rp_patternType = ''literal''\<rparr>,
      rb_mode = [], rb_sourceKind = ''KafkaTopic'',
      rb_sourceNamespace = om_namespace (kt_meta tp), rb_sourceName = om_name (kt_meta tp),
      rb_prune = False\<rparr>"

definition compile_topic_access ::
    "(string \<Rightarrow> string) \<Rightarrow> kafka_topic \<Rightarrow> mds_config \<Rightarrow>
     rbac_error + role_binding list \<times> string list" where
  "compile_topic_access quote tp mds =
     (case resolve_scope ''kafka'' (mds_clusters_of mds) of
        Inl e \<Rightarrow> Inl e
      | Inr scope \<Rightarrow>
          let topicName = resolved_topic_name tp;
              ps = ta_producers (kts_access (kt_spec tp));
              cs = ta_consumers (kts_access (kt_spec tp))
          in Inr
            (map (\<lambda>p. topic_binding tp scope (pa_principal p) ''DeveloperWrite'' ''Topic'' topicName) ps @
             concat (map (\<lambda>c.
               [topic_binding tp scope (ca_principal c) ''DeveloperRead'' ''Topic'' topicName,
                topic_binding tp scope (ca_principal c) ''DeveloperRead'' ''Group'' (ca_group c)]) cs),
             concat (map (\<lambda>p.
               note_warning (host_coarsen_warning quote tp (pa_principal p) ''producer'' (pa_host p)) @
               note_warning (ops_coarsen_warning tp (pa_principal p) ''producer'' (pa_operations p)
                 producer_op_bundle)) ps) @
             concat (map (\<lambda>c.
               note_warning (host_coarsen_warning quote tp (ca_principal c) ''consumer'' (ca_host c)) @
               note_warning (ops_coarsen_warning tp (ca_principal c) ''consumer topic''
                 (ca_topicOperations c) consumer_topic_op_bundle) @
               note_warning (ops_coarsen_warning tp (ca_principal c) ''consumer group''
                 (ca_groupOperations c) consumer_group_op_bundle)) cs)))"

definition sorted_warnings :: "string list \<Rightarrow> string list" where
  "sorted_warnings warns = sort warns"

lemma same_string_set_iff: "same_string_set a b \<longleftrightarrow> set a = set b"
  by (auto simp: same_string_set_def intro: card_subset_eq [THEN equalityD2, THEN subsetD])

subsection \<open>The desired set\<close>

definition explicit_collision :: "role_binding \<Rightarrow> role_binding \<Rightarrow> rbac_error option" where
  "explicit_collision existing b =
     (let bothExplicit = rb_sourceKind existing = ''KafkaRoleBinding'' \<and>
                         rb_sourceKind b = ''KafkaRoleBinding'';
          sameSource = rb_sourceKind existing = rb_sourceKind b \<and>
                       rb_sourceNamespace existing = rb_sourceNamespace b \<and>
                       rb_sourceName existing = rb_sourceName b
      in if bothExplicit \<and> \<not> sameSource
         then Some (RoleBindingConflict (rb_full_key b)
                (rb_sourceNamespace existing) (rb_sourceName existing)
                (rb_sourceNamespace b) (rb_sourceName b))
         else None)"

definition build_binding_set :: "role_binding list \<Rightarrow> role_binding list \<times> rbac_error list" where
  "build_binding_set bindings =
     (let (out, errs) = build_desired_set bindings rb_full_key binding_attribution None ()
                          (Some explicit_collision)
      in (sort_key rb_full_key out, errs))"

lemma binding_attribution_simps [simp]:
  "attr_get binding_attribution b = (rb_mode b, rb_prune b)"
  "attr_set binding_attribution b m p = b\<lparr>rb_mode := m, rb_prune := p\<rparr>"
  by (simp_all add: binding_attribution_def)

interpretation rb_kind: attributed_conflict rb_full_key binding_attribution explicit_collision
  by unfold_locales (auto simp: rb_full_key_def explicit_collision_def Let_def)

definition accepted_bindings :: "role_binding list \<Rightarrow> role_binding list" where
  "accepted_bindings bs = fst (con_filter rb_full_key explicit_collision [] bs)"

lemma accepted_bindings_subset: "set (accepted_bindings bs) \<subseteq> set bs"
  using con_filter_subset [of rb_full_key explicit_collision "[]" bs]
  by (auto simp: accepted_bindings_def)

lemma build_binding_set_eq:
  "build_binding_set bs =
     (sort_key rb_full_key (desired_spec rb_full_key binding_attribution (accepted_bindings bs)),
      snd (con_filter rb_full_key explicit_collision [] bs))"
  by (simp add: build_binding_set_def rb_kind.build_desired_set_conflict accepted_bindings_def)

lemma build_binding_set_keys:
  "mset (map rb_full_key (fst (build_binding_set bs))) =
     mset (nub (map rb_full_key (accepted_bindings bs)))"
proof -
  let ?d = "desired_spec rb_full_key binding_attribution (accepted_bindings bs)"
  have "mset (map rb_full_key (sort_key rb_full_key ?d)) = mset (map rb_full_key ?d)" by simp
  then show ?thesis by (simp only: build_binding_set_eq fst_conv rb_kind.map_key_desired_spec)
qed

text \<open>
  No error means that any two explicit bindings of one identity come from one resource, and then
  every input is represented.
\<close>

lemma con_filter_keys:
  "rb_full_key ` set (fst (con_filter rb_full_key c acc its)) = rb_full_key ` (set acc \<union> set its)"
proof (induction its arbitrary: acc)
  case Nil
  then show ?case by simp
next
  case (Cons it its)
  show ?case
  proof (cases "find (\<lambda>x. rb_full_key x = rb_full_key it) acc")
    case None
    then show ?thesis using Cons.IH [of "acc @ [it]"] by simp
  next
    case (Some x)
    have "x \<in> set acc" "rb_full_key x = rb_full_key it" using find_SomeD [OF Some] by simp_all
    then have mem: "rb_full_key it \<in> rb_full_key ` set acc" by (metis imageI)
    show ?thesis
      using Some Cons.IH [of acc] Cons.IH [of "acc @ [it]"] mem
      by (cases "c x it") (simp_all add: image_Un insert_absorb)
  qed
qed

lemma accepted_bindings_keys: "rb_full_key ` set (accepted_bindings bs) = rb_full_key ` set bs"
  by (simp add: accepted_bindings_def con_filter_keys)

subsection \<open>The managed scope\<close>

record rb_scope_key =
  rsk_principal :: string
  rsk_role :: string
  rsk_scopeType :: string
  rsk_kafkaCluster :: string
  rsk_subCluster :: string

definition rb_scope_key_of :: "role_binding \<Rightarrow> rb_scope_key" where
  "rb_scope_key_of b =
     \<lparr>rsk_principal = rb_principal b, rsk_role = rb_role b,
      rsk_scopeType = sc_type (rb_scope_of b), rsk_kafkaCluster = sc_kafkaCluster (rb_scope_of b),
      rsk_subCluster = sc_subCluster (rb_scope_of b)\<rparr>"

definition rb_scope_info_of :: "role_binding \<Rightarrow> scope_info" where
  "rb_scope_info_of b =
     \<lparr>si_mode = rb_mode b, si_prune = rb_prune b, si_sourceKind = rb_sourceKind b,
      si_sourceNamespace = rb_sourceNamespace b, si_sourceName = rb_sourceName b\<rparr>"

type_synonym rb_managed_scope = "rb_scope_key \<rightharpoonup> scope_info"

definition build_rb_scope :: "role_binding list \<Rightarrow> rb_managed_scope" where
  "build_rb_scope bindings = build_scope bindings rb_scope_key_of rb_scope_info_of"

definition rb_scope_contains :: "rb_managed_scope \<Rightarrow> role_binding \<Rightarrow> bool" where
  "rb_scope_contains s b \<longleftrightarrow> s (rb_scope_key_of b) \<noteq> None"

definition rb_scope_lookup :: "rb_managed_scope \<Rightarrow> role_binding \<Rightarrow> scope_info option" where
  "rb_scope_lookup s b = s (rb_scope_key_of b)"

definition stamp_rb_prune :: "role_binding list \<Rightarrow> bool \<Rightarrow> role_binding list" where
  "stamp_rb_prune bindings prune = map (\<lambda>b. b\<lparr>rb_prune := prune\<rparr>) bindings"

subsection \<open>Known roles\<close>

datatype role_kind = RoleUnknown | RoleClusterScoped | RoleResourceScoped

definition known_roles :: "string \<rightharpoonup> role_kind" where
  "known_roles = map_of
     [(''SystemAdmin'', RoleClusterScoped), (''ClusterAdmin'', RoleClusterScoped),
      (''UserAdmin'', RoleClusterScoped), (''Operator'', RoleClusterScoped),
      (''SecurityAdmin'', RoleClusterScoped), (''AuditAdmin'', RoleClusterScoped),
      (''ResourceOwner'', RoleResourceScoped), (''DeveloperRead'', RoleResourceScoped),
      (''DeveloperWrite'', RoleResourceScoped), (''DeveloperManage'', RoleResourceScoped)]"

definition classify_role :: "string \<Rightarrow> role_kind \<times> bool" where
  "classify_role role =
     (case known_roles role of None \<Rightarrow> (RoleUnknown, False) | Some k \<Rightarrow> (k, True))"

subsection \<open>The identity key\<close>

definition rb_fields :: "role_binding \<Rightarrow> string list" where
  "rb_fields b =
     [rb_principal b, rb_role b, sc_type (rb_scope_of b), sc_kafkaCluster (rb_scope_of b),
      sc_subCluster (rb_scope_of b)] @
     (case rb_resource b of None \<Rightarrow> [[]] | Some p \<Rightarrow> [rp_type p, rp_name p, rp_patternType p])"

lemma rb_full_key_fields: "rb_full_key b = nul_join (rb_fields b)"
  by (simp add: rb_full_key_def rb_fields_def resource_key_def nul_join_def split: option.split)

text \<open>The identity: everything but the attribution.\<close>

definition rb_identity ::
    "role_binding \<Rightarrow> string \<times> string \<times> rb_scope \<times> resource_pattern option" where
  "rb_identity b = (rb_principal b, rb_role b, rb_scope_of b, rb_resource b)"

lemma rb_fields_inject: "rb_fields a = rb_fields b \<longleftrightarrow> rb_identity a = rb_identity b"
  by (auto simp: rb_fields_def rb_identity_def split: option.splits)

lemma rb_full_key_inject:
  assumes "list_all nul_free (rb_fields a)" "list_all nul_free (rb_fields b)"
  shows "rb_full_key a = rb_full_key b \<longleftrightarrow> rb_identity a = rb_identity b"
proof -
  have "rb_fields c \<noteq> []" for c by (simp add: rb_fields_def)
  then show ?thesis
    using assms by (simp add: rb_full_key_fields nul_join_inject rb_fields_inject)
qed

subsection \<open>Properties\<close>

text \<open>
  The identity key of a role binding is injective on NUL-free fields: equal keys mean the same
  principal, role, scope and resource pattern.
\<close>

theorem rb_full_key_identifies:
  assumes "list_all nul_free (rb_fields a)" "list_all nul_free (rb_fields b)"
  shows "rb_full_key a = rb_full_key b \<longleftrightarrow> rb_identity a = rb_identity b"
  using assms by (rule rb_full_key_inject)

definition sample_binding :: "string \<Rightarrow> string \<Rightarrow> string \<Rightarrow> role_binding" where
  "sample_binding kind name res =
     \<lparr>rb_principal = ''User:a'', rb_role = ''DeveloperRead'',
      rb_scope_of = \<lparr>sc_type = ''kafka'', sc_kafkaCluster = ''k1'', sc_subCluster = []\<rparr>,
      rb_resource = Some \<lparr>rp_type = ''Topic'', rp_name = res, rp_patternType = ''literal''\<rparr>,
      rb_mode = [], rb_sourceKind = kind, rb_sourceNamespace = ''ns'', rb_sourceName = name,
      rb_prune = False\<rparr>"

theorem rb_full_key_identifies_witness:
  "rb_full_key (sample_binding ''KafkaTopic'' ''x'' ''t'') \<noteq>
   rb_full_key (sample_binding ''KafkaTopic'' ''x'' ''u'')"
  using rb_full_key_identifies
    [of "sample_binding ''KafkaTopic'' ''x'' ''t''" "sample_binding ''KafkaTopic'' ''x'' ''u''"]
  by (simp add: rb_fields_def rb_identity_def sample_binding_def nul_free_def NUL_def)

text \<open>
  The desired role-binding set is sorted by identity key, holds one entry per identity, and
  covers exactly the identities of its input, collisions included.
\<close>

theorem build_binding_set_complete:
  "sorted (map rb_full_key (fst (build_binding_set bs))) \<and>
   distinct (map rb_full_key (fst (build_binding_set bs))) \<and>
   rb_full_key ` set (fst (build_binding_set bs)) = rb_full_key ` set bs"
proof (intro conjI)
  show "sorted (map rb_full_key (fst (build_binding_set bs)))"
    by (simp add: build_binding_set_eq)
  show "distinct (map rb_full_key (fst (build_binding_set bs)))"
    using build_binding_set_keys [of bs] distinct_nub mset_eq_imp_distinct_iff by blast
  have "set (map rb_full_key (fst (build_binding_set bs))) = set (nub (map rb_full_key (accepted_bindings bs)))"
    using build_binding_set_keys [of bs] mset_eq_setD by blast
  then show "rb_full_key ` set (fst (build_binding_set bs)) = rb_full_key ` set bs"
    by (simp add: accepted_bindings_keys)
qed

definition explicit_binding :: "role_binding \<Rightarrow> bool" where
  "explicit_binding b \<longleftrightarrow> rb_sourceKind b = ''KafkaRoleBinding''"

definition same_source :: "role_binding \<Rightarrow> role_binding \<Rightarrow> bool" where
  "same_source a b \<longleftrightarrow> rb_sourceKind a = rb_sourceKind b \<and>
     rb_sourceNamespace a = rb_sourceNamespace b \<and> rb_sourceName a = rb_sourceName b"

definition identity_unique :: "role_binding list \<Rightarrow> bool" where
  "identity_unique bs \<longleftrightarrow>
     (\<forall>a \<in> set bs. \<forall>b \<in> set bs. rb_full_key a = rb_full_key b \<longrightarrow> same_source a b)"

lemma explicit_collision_None:
  "explicit_collision a b = None \<longleftrightarrow> \<not> explicit_binding a \<or> \<not> explicit_binding b \<or> same_source a b"
  by (auto simp: explicit_collision_def explicit_binding_def same_source_def Let_def)

lemma same_source_trans:
  "same_source x a \<Longrightarrow> same_source x b \<Longrightarrow> same_source a b" "same_source a a"
  by (auto simp: same_source_def)

lemma same_source_sym: "same_source a b = same_source b a"
  by (auto simp: same_source_def)

lemma identity_unique_snoc:
  assumes "identity_unique acc" "\<And>x. x \<in> set acc \<Longrightarrow> rb_full_key x = rb_full_key it \<Longrightarrow> same_source x it"
  shows "identity_unique (acc @ [it])"
  unfolding identity_unique_def
proof (intro ballI impI)
  fix a b
  assume "a \<in> set (acc @ [it])" "b \<in> set (acc @ [it])" and key: "rb_full_key a = rb_full_key b"
  then consider "a \<in> set acc" "b \<in> set acc" | "a \<in> set acc" "b = it" | "a = it" "b \<in> set acc"
    | "a = it" "b = it" by auto
  then show "same_source a b"
  proof cases
    case 1
    then show ?thesis using assms(1) key by (simp add: identity_unique_def)
  next
    case 2
    then show ?thesis using assms(2) key by simp
  next
    case 3
    then show ?thesis using assms(2) [of b] key by (simp add: same_source_sym)
  next
    case 4
    then show ?thesis by (simp add: same_source_trans(2))
  qed
qed

lemma con_filter_explicit:
  "\<forall>b \<in> set acc \<union> set its. explicit_binding b \<Longrightarrow> identity_unique acc \<Longrightarrow>
   snd (con_filter rb_full_key explicit_collision acc its) = [] \<longleftrightarrow> identity_unique (acc @ its)"
proof (induction its arbitrary: acc)
  case Nil
  then show ?case by simp
next
  case (Cons it its)
  have ex: "explicit_binding it" "\<forall>b \<in> set (acc @ [it]) \<union> set its. explicit_binding b" using Cons.prems by auto
  show ?case
  proof (cases "find (\<lambda>x. rb_full_key x = rb_full_key it) acc")
    case None
    then have "rb_full_key x \<noteq> rb_full_key it" if "x \<in> set acc" for x
      using that find_None_iff [of "\<lambda>x. rb_full_key x = rb_full_key it" acc] by metis
    then have "identity_unique (acc @ [it])"
      using identity_unique_snoc [OF Cons.prems(2)] by metis
    then show ?thesis using Cons.IH [OF ex(2)] None by simp
  next
    case (Some x)
    then have x: "x \<in> set acc" "rb_full_key x = rb_full_key it" using find_SomeD [OF Some] by simp_all
    then have "explicit_binding x" using Cons.prems(1) by simp
    show ?thesis
    proof (cases "same_source x it")
      case True
      have "same_source a it" if "a \<in> set acc" "rb_full_key a = rb_full_key it" for a
      proof -
        have "same_source a x" using that x Cons.prems(2) by (simp add: identity_unique_def)
        then show ?thesis using True same_source_trans(1) same_source_sym by metis
      qed
      then have "identity_unique (acc @ [it])" by (rule identity_unique_snoc [OF Cons.prems(2)])
      moreover have "explicit_collision x it = None" using True by (simp add: explicit_collision_None)
      ultimately show ?thesis using Cons.IH [OF ex(2)] Some by simp
    next
      case False
      then have "explicit_collision x it \<noteq> None"
        using \<open>explicit_binding x\<close> ex(1) by (simp add: explicit_collision_None)
      then have "snd (con_filter rb_full_key explicit_collision acc (it # its)) \<noteq> []"
        using Some by auto
      moreover have "\<not> identity_unique (acc @ it # its)"
        using False x by (auto simp: identity_unique_def)
      ultimately show ?thesis by simp
    qed
  qed
qed

lemma con_filter_append:
  "snd (con_filter key c acc (xs @ ys)) =
     snd (con_filter key c acc xs) @ snd (con_filter key c (fst (con_filter key c acc xs)) ys)"
  by (induction xs arbitrary: acc) (auto split: option.split)

lemma con_filter_derived:
  "\<forall>b \<in> set its. \<not> explicit_binding b \<Longrightarrow> snd (con_filter rb_full_key explicit_collision acc its) = []"
proof (induction its arbitrary: acc)
  case Nil
  then show ?case by simp
next
  case (Cons it its)
  have "explicit_collision x it = None" for x using Cons.prems by (simp add: explicit_collision_None)
  then show ?case using Cons by (simp split: option.split)
qed

text \<open>
  When the explicit role bindings precede the topic-derived ones (the order in which the
  pipeline accumulates them), an error is reported exactly when two distinct KafkaRoleBindings
  desire one identity.
\<close>

theorem build_binding_set_collisions:
  assumes "\<forall>b \<in> set es. explicit_binding b" "\<forall>b \<in> set ts. \<not> explicit_binding b"
  shows "snd (build_binding_set (es @ ts)) = [] \<longleftrightarrow> identity_unique es"
proof -
  have "identity_unique []" by (simp add: identity_unique_def)
  then have "snd (con_filter rb_full_key explicit_collision [] es) = [] \<longleftrightarrow> identity_unique es"
    using con_filter_explicit [of "[]" es] assms(1) by simp
  then show ?thesis
    using con_filter_derived [OF assms(2)] by (simp add: build_binding_set_eq con_filter_append)
qed

theorem build_binding_set_collisions_witness:
  "snd (build_binding_set ([sample_binding ''KafkaRoleBinding'' ''x'' ''t'',
      sample_binding ''KafkaRoleBinding'' ''y'' ''t''] @ [sample_binding ''KafkaTopic'' ''z'' ''t''])) \<noteq> []"
  using build_binding_set_collisions
    [of "[sample_binding ''KafkaRoleBinding'' ''x'' ''t'', sample_binding ''KafkaRoleBinding'' ''y'' ''t'']"
        "[sample_binding ''KafkaTopic'' ''z'' ''t'']"]
  by (simp add: explicit_binding_def identity_unique_def same_source_def sample_binding_def rb_full_key_def)

text \<open>
  The collision rule depends on the input order: with a topic-derived binding of the same
  identity first, two distinct KafkaRoleBindings collide without an error.
\<close>

theorem build_binding_set_collision_missed:
  "snd (build_binding_set [sample_binding ''KafkaTopic'' ''z'' ''t'',
     sample_binding ''KafkaRoleBinding'' ''x'' ''t'', sample_binding ''KafkaRoleBinding'' ''y'' ''t'']) = [] \<and>
   snd (build_binding_set [sample_binding ''KafkaRoleBinding'' ''x'' ''t'',
     sample_binding ''KafkaRoleBinding'' ''y'' ''t'', sample_binding ''KafkaTopic'' ''z'' ''t'']) \<noteq> []"
  by (simp add: build_binding_set_eq explicit_collision_def sample_binding_def rb_full_key_def)

text \<open>Pruning a role binding needs the consent of every desired binding of its scope key.\<close>

theorem rb_scope_veto:
  assumes "rb_scope_lookup (build_rb_scope bs) x = Some info"
  shows "(\<exists>b \<in> set bs. rb_scope_key_of b = rb_scope_key_of x) \<and>
     (si_prune info \<longleftrightarrow> (\<forall>b \<in> set bs. rb_scope_key_of b = rb_scope_key_of x \<longrightarrow> rb_prune b))"
proof -
  have eq: "build_scope bs rb_scope_key_of rb_scope_info_of (rb_scope_key_of x) = Some info"
    using assms by (simp add: rb_scope_lookup_def build_rb_scope_def)
  then have "rb_scope_key_of x \<in> rb_scope_key_of ` set bs"
    using build_scope_None [of bs rb_scope_key_of rb_scope_info_of "rb_scope_key_of x"] by simp
  then show ?thesis using build_scope_Some(1) [OF eq] by (auto simp: rb_scope_info_of_def)
qed

theorem rb_scope_veto_witness:
  "\<exists>info. rb_scope_lookup (build_rb_scope [sample_binding ''KafkaTopic'' ''z'' ''t''])
       (sample_binding ''KafkaTopic'' ''z'' ''u'') = Some info \<and> \<not> si_prune info"
proof -
  let ?x = "sample_binding ''KafkaTopic'' ''z'' ''u''"
  have "rb_scope_lookup (build_rb_scope [sample_binding ''KafkaTopic'' ''z'' ''t'']) ?x \<noteq> None"
    by (simp add: rb_scope_lookup_def build_rb_scope_def build_scope_None rb_scope_key_of_def
        sample_binding_def)
  then obtain info where "rb_scope_lookup (build_rb_scope [sample_binding ''KafkaTopic'' ''z'' ''t'']) ?x =
      Some info" by auto
  with rb_scope_veto [OF this] show ?thesis
    by (simp add: rb_scope_key_of_def sample_binding_def)
qed

end
