(* ===== verification/Quota.thy ===== *)
theory Quota
  imports Types
begin

section \<open>Client quotas (internal/quota)\<close>

text \<open>
  The compiled quota entity, its identity key and the limits to set. A \<open>map[string]float64\<close> is an
  association list in the order the source fills it.
\<close>

record component =
  co_type :: string
  co_name :: "string option"

type_synonym entity = "component list"

definition component_name :: "component \<Rightarrow> string" where
  "component_name c = (case co_name c of None \<Rightarrow> ''<default>'' | Some n \<Rightarrow> n)"

definition entity_key :: "entity \<Rightarrow> string" where
  "entity_key e =
     join ''|'' (map (\<lambda>c. co_type c @ ''='' @ component_name c) (sort_key co_type e))"

record desired_quota =
  dq_entity :: entity
  dq_limits :: "(string, float64) gomap"
  dq_mode :: string

definition key_producer_byte_rate :: string where
  "key_producer_byte_rate = ''producer_byte_rate''"

definition key_consumer_byte_rate :: string where
  "key_consumer_byte_rate = ''consumer_byte_rate''"

definition key_request_percentage :: string where
  "key_request_percentage = ''request_percentage''"

definition key_controller_mutation_rate :: string where
  "key_controller_mutation_rate = ''controller_mutation_rate''"

definition key_connection_creation_rate :: string where
  "key_connection_creation_rate = ''connection_creation_rate''"

lemmas quota_key_defs = key_producer_byte_rate_def key_consumer_byte_rate_def
  key_request_percentage_def key_controller_mutation_rate_def key_connection_creation_rate_def

definition quota_component :: "string \<Rightarrow> string \<Rightarrow> bool \<Rightarrow> string \<Rightarrow> component list" where
  "quota_component typ named isDefault name =
     (if named \<noteq> [] then [\<lparr>co_type = typ, co_name = Some name\<rparr>]
      else if isDefault then [\<lparr>co_type = typ, co_name = None\<rparr>] else [])"

definition quota_limit :: "string \<Rightarrow> float64 option \<Rightarrow> (string, float64) gomap" where
  "quota_limit k v = (case v of None \<Rightarrow> [] | Some x \<Rightarrow> [(k, x)])"

definition quota_compile :: "kafka_quota \<Rightarrow> desired_quota" where
  "quota_compile q =
     (let en = kqs_entity (kq_spec q); li = kqs_limits (kq_spec q)
      in \<lparr>dq_entity =
            quota_component ''user'' (qe_user en) (qe_userDefault en)
              (trim_prefix (qe_user en) ''User:'') @
            quota_component ''client-id'' (qe_clientId en) (qe_clientIdDefault en) (qe_clientId en) @
            quota_component ''ip'' (qe_ip en) (qe_ipDefault en) (qe_ip en),
          dq_limits =
            quota_limit key_producer_byte_rate (ql_producerByteRate li) @
            quota_limit key_consumer_byte_rate (ql_consumerByteRate li) @
            quota_limit key_request_percentage (ql_requestPercentage li) @
            quota_limit key_controller_mutation_rate (ql_controllerMutationRate li) @
            quota_limit key_connection_creation_rate (ql_connectionCreationRate li),
          dq_mode = (case kqs_reconciliation (kq_spec q) of None \<Rightarrow> [] | Some r \<Rightarrow> rec_mode r)\<rparr>)"

subsection \<open>Compiled quotas are well formed\<close>

lemma quota_component_types:
  "map co_type (quota_component t n d m) = (if n \<noteq> [] \<or> d then [t] else [])"
  by (simp add: quota_component_def)

lemma quota_compile_distinct_types: "distinct (map co_type (dq_entity (quota_compile q)))"
  by (simp add: quota_compile_def Let_def quota_component_types)

lemma quota_limit_keys: "map fst (quota_limit k v) = (if v = None then [] else [k])"
  by (cases v) (simp_all add: quota_limit_def)

lemma quota_compile_distinct_limits: "distinct (map fst (dq_limits (quota_compile q)))"
  by (simp add: quota_compile_def Let_def quota_limit_keys quota_key_defs)

subsection \<open>When the key is an identity\<close>

text \<open>
  The key escapes nothing, so it identifies an entity only when no name holds the separator
  \<open>|\<close> and none is the literal text \<open><default>\<close>.
\<close>

definition component_plain :: "component \<Rightarrow> bool" where
  "component_plain c \<longleftrightarrow>
     co_type c \<in> {''user'', ''client-id'', ''ip''} \<and> co_name c \<noteq> Some ''<default>'' \<and>
     CHR ''|'' \<notin> set (component_name c)"

lemma component_text_inject:
  assumes "component_plain a" "component_plain b"
    and "co_type a @ ''='' @ component_name a = co_type b @ ''='' @ component_name b"
  shows "a = b"
proof -
  have "CHR ''='' \<notin> set (co_type a)" "CHR ''='' \<notin> set (co_type b)"
    using assms by (auto simp: component_plain_def)
  then have "co_type a = co_type b \<and> component_name a = component_name b"
    using assms(3) split_on_append(1) [of "CHR ''=''" "co_type a"]
      split_on_append(1) [of "CHR ''=''" "co_type b"]
    by (metis append_Cons append_Nil list.sel(1) same_append_eq list.inject)
  then show ?thesis
    using assms by (cases a; cases b)
      (auto simp: component_plain_def component_name_def split: option.splits)
qed

lemma entity_key_inject:
  assumes "\<forall>c \<in> set a. component_plain c" "\<forall>c \<in> set b. component_plain c" "a \<noteq> []" "b \<noteq> []"
    and "entity_key a = entity_key b"
  shows "mset a = mset b"
proof -
  let ?t = "\<lambda>c::component. co_type c @ ''='' @ component_name c"
  have clean: "CHR ''|'' \<notin> set x"
    if "x \<in> set (map ?t (sort_key co_type e))" "\<forall>c \<in> set e. component_plain c" for x and e :: entity
  proof -
    have "x \<in> ?t ` set e" using that(1) by simp
    then obtain c where "x = ?t c" "c \<in> set e" by (rule imageE)
    then show ?thesis using that(2) by (auto simp: component_plain_def)
  qed
  have ne: "map ?t (sort_key co_type e) \<noteq> []" if "e \<noteq> []" for e :: entity
    using that by (metis list.map_disc_iff set_empty set_sort)
  have "join ''|'' (map ?t (sort_key co_type a)) = join ''|'' (map ?t (sort_key co_type b))"
    using assms(5) by (simp add: entity_key_def)
  then have "map ?t (sort_key co_type a) = map ?t (sort_key co_type b)"
    using join_inject [OF ne [OF assms(3)] ne [OF assms(4)] clean [OF _ assms(1)] clean [OF _ assms(2)]]
    by simp
  moreover have "inj_on ?t (set (sort_key co_type a) \<union> set (sort_key co_type b))"
    by (rule inj_onI) (use assms(1,2) component_text_inject in auto)
  ultimately have "sort_key co_type a = sort_key co_type b"
    by (rule map_inj_on)
  then show ?thesis by (metis mset_sort)
qed

subsection \<open>Properties\<close>

text \<open>
  On entities whose names hold no \<open>|\<close> and are not the text \<open><default>\<close>, the quota key is an
  identity: equal keys mean equal components up to order.
\<close>

theorem entity_key_identifies:
  assumes "\<forall>c \<in> set a. component_plain c" "\<forall>c \<in> set b. component_plain c" "a \<noteq> []" "b \<noteq> []"
  shows "entity_key a = entity_key b \<longrightarrow> mset a = mset b"
  using assms entity_key_inject by blast

theorem entity_key_identifies_witness:
  "entity_key [\<lparr>co_type = ''user'', co_name = None\<rparr>] \<noteq>
   entity_key [\<lparr>co_type = ''user'', co_name = Some ''default''\<rparr>]"
  using entity_key_identifies [of "[\<lparr>co_type = ''user'', co_name = None\<rparr>]"
      "[\<lparr>co_type = ''user'', co_name = Some ''default''\<rparr>]"]
  by (simp add: component_plain_def component_name_def)

text \<open>
  The quota key aliases distinct compiled entities otherwise: a client id that spells out a
  user component, and a user literally named \<open><default>\<close>.
\<close>

theorem entity_key_aliases:
  "entity_key [\<lparr>co_type = ''client-id'', co_name = Some ''a|user=b''\<rparr>] =
     entity_key [\<lparr>co_type = ''user'', co_name = Some ''b''\<rparr>,
       \<lparr>co_type = ''client-id'', co_name = Some ''a''\<rparr>] \<and>
   entity_key [\<lparr>co_type = ''user'', co_name = Some ''<default>''\<rparr>] =
     entity_key [\<lparr>co_type = ''user'', co_name = None\<rparr>]"
  by code_simp

end
