(* ===== verification/User.thy ===== *)
theory User
  imports Types
begin

section \<open>SCRAM users (internal/user)\<close>

text \<open>
  The observable credential triple of a KafkaUser and its cross-resource identity key.
  \<open>Iterations\<close> 0 is "unset". The password is only ever a reference.
\<close>

record credential =
  cr_username :: string
  cr_mechanism :: string
  cr_iterations :: int

definition user_compile :: "kafka_user \<Rightarrow> credential" where
  "user_compile u =
     \<lparr>cr_username = kus_username (ku_spec u), cr_mechanism = kus_mechanism (ku_spec u),
      cr_iterations = (case kus_iterations (ku_spec u) of None \<Rightarrow> 0 | Some i \<Rightarrow> i)\<rparr>"

record desired_user =
  du_credential :: credential
  du_passwordRef :: "value_from option"

definition compile_desired_user :: "kafka_user \<Rightarrow> desired_user" where
  "compile_desired_user u =
     \<lparr>du_credential = user_compile u,
      du_passwordRef =
        (case kus_password (ku_spec u) of
           None \<Rightarrow> None
         | Some p \<Rightarrow> map_option (\<lambda>v. \<lparr>vf_valueFrom = v\<rparr>) (up_valueFrom p))\<rparr>"

definition user_key :: "string \<Rightarrow> string \<Rightarrow> string" where
  "user_key clusterRef username = clusterRef @ [NUL] @ username"

lemma user_key_inject:
  assumes "nul_free c" "nul_free c'" "nul_free u" "nul_free u'"
  shows "user_key c u = user_key c' u' \<longleftrightarrow> c = c' \<and> u = u'"
  using nul_join_inject [of "[c, u]" "[c', u']"] assms by (simp add: user_key_def nul_join_def)

end
