(* ===== verification/Wire.thy ===== *)
theory Wire
  imports Rbac Quota User
begin

section \<open>The client seams (internal/kafka, schemaregistry, kafkarest, mds)\<close>

text \<open>
  The value types of the four client packages and the client interfaces as records of functions
  over a world of type \<open>'w\<close>: a read returns its result, a write the next world and an error. The
  world is whatever the client talks to; the in-memory mocks are instances of these records.
  \<open>context.Context\<close> is dropped: a cancelled call is one that returned an error.

  A \<open>message\<close> is a formatted text before rendering: a list of literal texts and arguments of the
  \<open>%q\<close> verb. A Go \<open>error\<close> is its message (wrapping with \<open>%w\<close> and \<open>%v\<close> appends the inner one).
\<close>

datatype piece = T string | Q string

type_synonym message = "piece list"

type_synonym go_error = message

subsection \<open>Kafka admin types\<close>

record topic_state =
  tst_name :: string
  tst_partitions :: int
  tst_replicationFactor :: int
  tst_config :: "(string, string) gomap"

record acl_state =
  as_principal :: string
  as_host :: string
  as_resourceType :: string
  as_resourceName :: string
  as_patternType :: string
  as_operation :: string
  as_permission :: string

record config_entry =
  ce_name :: string
  ce_value :: string
  ce_default :: bool

record topic_spec =
  tsp_name :: string
  tsp_partitions :: int
  tsp_replicationFactor :: int
  tsp_config :: "(string, string) gomap"

record quota_entity_component =
  qc_type :: string
  qc_name :: "string option"

record quota_state =
  qst_entity :: "quota_entity_component list"
  qst_limits :: "(string, float64) gomap"

record scram_credential =
  scr_user :: string
  scr_mechanism :: string
  scr_iterations :: int

record scram_upsert =
  su_user :: string
  su_mechanism :: string
  su_iterations :: int
  su_password :: string

type_synonym 'w act = "'w \<Rightarrow> 'w \<times> go_error option"
type_synonym ('w, 'a) query = "'w \<Rightarrow> go_error + 'a"

record 'w admin_client =
  ac_getTopic :: "string \<Rightarrow> ('w, topic_state option) query"
  ac_listTopics :: "('w, topic_state list) query"
  ac_clusterID :: "('w, string) query"
  ac_listACLs :: "('w, acl_state list) query"
  ac_createTopic :: "topic_spec \<Rightarrow> 'w act"
  ac_updateTopicConfig :: "string \<Rightarrow> (string, string) gomap \<Rightarrow> 'w act"
  ac_createPartitions :: "string \<Rightarrow> int \<Rightarrow> 'w act"
  ac_deleteTopic :: "string \<Rightarrow> 'w act"
  ac_createACLs :: "acl_state list \<Rightarrow> 'w act"
  ac_deleteACLs :: "acl_state list \<Rightarrow> 'w act"
  ac_listQuotas :: "('w, quota_state list) query"
  ac_setQuota :: "quota_entity_component list \<Rightarrow> (string, float64) gomap \<Rightarrow> 'w act"
  ac_deleteQuota :: "quota_entity_component list \<Rightarrow> string list \<Rightarrow> 'w act"
  ac_listScram :: "string list \<Rightarrow> ('w, scram_credential list) query"
  ac_upsertScram :: "scram_upsert \<Rightarrow> 'w act"
  ac_deleteScram :: "string \<Rightarrow> string \<Rightarrow> 'w act"

subsection \<open>Schema Registry types\<close>

record schema =
  sch_type :: string
  sch_definition :: string

record subject_state =
  ss_subject :: string
  ss_id :: int
  ss_version :: int
  ss_schema :: schema
  ss_compatibility :: string

record 'w schema_client =
  sc_listSubjects :: "('w, string list) query"
  sc_getSubject :: "string \<Rightarrow> ('w, subject_state option) query"
  sc_lookupSchema :: "string \<Rightarrow> schema \<Rightarrow> ('w, int) query"
  sc_getCompatibility :: "string \<Rightarrow> ('w, string) query"
  sc_getGlobalCompatibility :: "('w, string) query"
  sc_registerSchema :: "string \<Rightarrow> schema \<Rightarrow> 'w act"
  sc_setCompatibility :: "string \<Rightarrow> string \<Rightarrow> 'w act"
  sc_deleteSubject :: "string \<Rightarrow> 'w act"

subsection \<open>Kafka REST types\<close>

record rest_link =
  ln_name :: string
  ln_state :: string
  ln_error :: string

record rest_mirror =
  mi_linkName :: string
  mi_mirrorTopicName :: string
  mi_sourceTopicName :: string
  mi_status :: string
  mi_numPartitions :: int
  mi_stateTimeMs :: int

record create_mirror_request =
  cmr_linkName :: string
  cmr_sourceTopicName :: string
  cmr_mirrorTopicName :: string
  cmr_replicationFactor :: int
  cmr_configs :: "(string, string) gomap"

record 'w rest_client =
  rc_clusterID :: "('w, string) query"
  rc_listLinks :: "('w, rest_link list) query"
  rc_linkConfigs :: "string \<Rightarrow> ('w, (string, string) gomap) query"
  rc_listMirrors :: "('w, rest_mirror list) query"
  rc_createMirror :: "create_mirror_request \<Rightarrow> 'w act"
  rc_alterTopicConfigs :: "string \<Rightarrow> (string, string) gomap \<Rightarrow> 'w act"

subsection \<open>MDS types\<close>

record mds_scope =
  msc_type :: string
  msc_kafkaCluster :: string
  msc_subCluster :: string

record mds_resource_pattern =
  mrp_type :: string
  mrp_name :: string
  mrp_patternType :: string

record mds_role_binding =
  mrb_principal :: string
  mrb_role :: string
  mrb_scope :: mds_scope
  mrb_resource :: "mds_resource_pattern option"

definition mds_key :: "mds_role_binding \<Rightarrow> string" where
  "mds_key rb =
     (let rk = (case mrb_resource rb of None \<Rightarrow> []
                | Some r \<Rightarrow> nul_join [mrp_type r, mrp_name r, mrp_patternType r])
      in nul_join [mrb_principal rb, mrb_role rb, msc_type (mrb_scope rb),
           msc_kafkaCluster (mrb_scope rb), msc_subCluster (mrb_scope rb), rk])"

record 'w mds_client =
  mc_listRoleBindings :: "mds_scope \<Rightarrow> ('w, mds_role_binding list) query"
  mc_addRoleBinding :: "mds_role_binding \<Rightarrow> 'w act"
  mc_removeRoleBinding :: "mds_role_binding \<Rightarrow> 'w act"

end
