(* ===== verification/Operations.thy ===== *)
theory Operations
  imports Wire
begin

section \<open>Operations and the risk taxonomy (internal/operations)\<close>

text \<open>
  \<open>Action\<close> is a Go string type with constants: here a datatype, with \<open>action_name\<close> the string.
  The taxonomy map is the function \<open>taxonomy\<close>, whose last equation is the zero value a Go map
  returns for a missing key.
\<close>

definition ModeEnforce :: string where
  "ModeEnforce = ''Enforce''"

definition ModeDetectOnly :: string where
  "ModeDetectOnly = ''DetectOnly''"

definition ModeObserveOnly :: string where
  "ModeObserveOnly = ''ObserveOnly''"

datatype action =
    NoOp | CreateTopic | UpdateTopicConfig | IncreasePartitions | UpdateReplicationFactor
  | DeleteTopic | CreateAcl | DeleteAcl | Rejected
  | RegisterSchema | RaiseSchemaCompatibility | LowerSchemaCompatibility | DeleteSubject
  | SetQuota | UpdateQuota | RemoveQuota
  | AddRoleBinding | RemoveRoleBinding
  | CreateScramCredential | UpdateScramCredential | RotateScramCredential | DeleteScramCredential
  | SchemaSuperseded
  | CreateMirrorTopic | UpdateMirrorTopicConfig
  | MirrorTopicUnhealthy | MirrorTopicStopping | MirrorTopicPromoted | MirrorTopicProgressing
  | UnsupportedReplicationFactorChange | StateReadError

fun action_name :: "action \<Rightarrow> string" where
  "action_name NoOp = ''NoOp''"
| "action_name CreateTopic = ''CreateTopic''"
| "action_name UpdateTopicConfig = ''UpdateTopicConfig''"
| "action_name IncreasePartitions = ''IncreasePartitions''"
| "action_name UpdateReplicationFactor = ''UpdateReplicationFactor''"
| "action_name DeleteTopic = ''DeleteTopic''"
| "action_name CreateAcl = ''CreateAcl''"
| "action_name DeleteAcl = ''DeleteAcl''"
| "action_name Rejected = ''Rejected''"
| "action_name RegisterSchema = ''RegisterSchema''"
| "action_name RaiseSchemaCompatibility = ''RaiseSchemaCompatibility''"
| "action_name LowerSchemaCompatibility = ''LowerSchemaCompatibility''"
| "action_name DeleteSubject = ''DeleteSubject''"
| "action_name SetQuota = ''SetQuota''"
| "action_name UpdateQuota = ''UpdateQuota''"
| "action_name RemoveQuota = ''RemoveQuota''"
| "action_name AddRoleBinding = ''AddRoleBinding''"
| "action_name RemoveRoleBinding = ''RemoveRoleBinding''"
| "action_name CreateScramCredential = ''CreateScramCredential''"
| "action_name UpdateScramCredential = ''UpdateScramCredential''"
| "action_name RotateScramCredential = ''RotateScramCredential''"
| "action_name DeleteScramCredential = ''DeleteScramCredential''"
| "action_name SchemaSuperseded = ''SchemaSuperseded''"
| "action_name CreateMirrorTopic = ''CreateMirrorTopic''"
| "action_name UpdateMirrorTopicConfig = ''UpdateMirrorTopicConfig''"
| "action_name MirrorTopicUnhealthy = ''MirrorTopicUnhealthy''"
| "action_name MirrorTopicStopping = ''MirrorTopicStopping''"
| "action_name MirrorTopicPromoted = ''MirrorTopicPromoted''"
| "action_name MirrorTopicProgressing = ''MirrorTopicProgressing''"
| "action_name UnsupportedReplicationFactorChange = ''UnsupportedReplicationFactorChange''"
| "action_name StateReadError = ''StateReadError''"

text \<open>The names are distinct, so their order is a linear order of the actions.\<close>

definition all_actions :: "action list" where
  "all_actions =
     [NoOp, CreateTopic, UpdateTopicConfig, IncreasePartitions, UpdateReplicationFactor,
      DeleteTopic, CreateAcl, DeleteAcl, Rejected, RegisterSchema, RaiseSchemaCompatibility,
      LowerSchemaCompatibility, DeleteSubject, SetQuota, UpdateQuota, RemoveQuota, AddRoleBinding,
      RemoveRoleBinding, CreateScramCredential, UpdateScramCredential, RotateScramCredential,
      DeleteScramCredential, SchemaSuperseded, CreateMirrorTopic, UpdateMirrorTopicConfig,
      MirrorTopicUnhealthy, MirrorTopicStopping, MirrorTopicPromoted, MirrorTopicProgressing,
      UnsupportedReplicationFactorChange, StateReadError]"

lemma all_actions_UNIV: "a \<in> set all_actions"
  by (cases a) (simp_all add: all_actions_def)

lemma distinct_action_names: "distinct (map action_name all_actions)"
  by code_simp

lemma action_name_inject [simp]: "action_name a = action_name b \<longleftrightarrow> a = b"
  using inj_onD [OF inj_on_set_distinct_map [OF distinct_action_names]] all_actions_UNIV by blast

instantiation action :: linorder
begin

definition less_eq_action :: "action \<Rightarrow> action \<Rightarrow> bool" where
  "less_eq_action a b \<longleftrightarrow> action_name a \<le> action_name b"

definition less_action :: "action \<Rightarrow> action \<Rightarrow> bool" where
  "less_action a b \<longleftrightarrow> action_name a < action_name b"

instance
  by standard (auto simp: less_eq_action_def less_action_def order.strict_iff_order)

end

definition informational :: "action \<Rightarrow> bool" where
  "informational a \<longleftrightarrow> a = MirrorTopicProgressing"

definition operational_error :: "action \<Rightarrow> bool" where
  "operational_error a \<longleftrightarrow> a = StateReadError"

datatype risk = RiskNone | RiskLow | RiskMedium | RiskHigh | RiskCritical

datatype gate = GateNone | GateDestructive | GateDelete | GatePrune

fun taxonomy :: "action \<Rightarrow> risk \<times> gate" where
  "taxonomy NoOp = (RiskNone, GateNone)"
| "taxonomy CreateTopic = (RiskLow, GateNone)"
| "taxonomy UpdateTopicConfig = (RiskLow, GateNone)"
| "taxonomy CreateAcl = (RiskLow, GateNone)"
| "taxonomy IncreasePartitions = (RiskMedium, GateDestructive)"
| "taxonomy UpdateReplicationFactor = (RiskHigh, GateDestructive)"
| "taxonomy DeleteAcl = (RiskMedium, GatePrune)"
| "taxonomy DeleteTopic = (RiskCritical, GateDelete)"
| "taxonomy RegisterSchema = (RiskLow, GateNone)"
| "taxonomy RaiseSchemaCompatibility = (RiskLow, GateNone)"
| "taxonomy LowerSchemaCompatibility = (RiskHigh, GateDestructive)"
| "taxonomy DeleteSubject = (RiskHigh, GateDestructive)"
| "taxonomy SetQuota = (RiskLow, GateNone)"
| "taxonomy UpdateQuota = (RiskLow, GateNone)"
| "taxonomy RemoveQuota = (RiskMedium, GateDestructive)"
| "taxonomy AddRoleBinding = (RiskLow, GateNone)"
| "taxonomy RemoveRoleBinding = (RiskMedium, GatePrune)"
| "taxonomy CreateScramCredential = (RiskLow, GateNone)"
| "taxonomy UpdateScramCredential = (RiskMedium, GateNone)"
| "taxonomy RotateScramCredential = (RiskLow, GateNone)"
| "taxonomy DeleteScramCredential = (RiskMedium, GateDestructive)"
| "taxonomy CreateMirrorTopic = (RiskLow, GateNone)"
| "taxonomy UpdateMirrorTopicConfig = (RiskLow, GateNone)"
| "taxonomy _ = (RiskNone, GateNone)"

definition risk_of :: "action \<Rightarrow> risk" where
  "risk_of a = fst (taxonomy a)"

definition gate_of :: "action \<Rightarrow> gate" where
  "gate_of a = snd (taxonomy a)"

record operation =
  op_action :: action
  op_kind :: string
  op_namespace :: string
  op_name :: string
  op_target :: string
  op_field :: string
  op_from :: string
  op_to :: string
  op_risk :: risk
  op_requiresApproval :: bool
  op_message :: message
  op_mode :: string
  op_pruneAllowed :: bool
  op_partitions :: int
  op_replicationFactor :: int
  op_config :: "(string, string) gomap"
  op_acl :: "acl_state option"
  op_subject :: string
  op_schemaType :: string
  op_schemaDef :: string
  op_compatibility :: string
  op_topic :: string
  op_quotaEntity :: "quota_entity_component list"
  op_quotaLimits :: "(string, float64) gomap"
  op_roleBinding :: "role_binding option"
  op_scramUser :: string
  op_scramMechanism :: string
  op_scramIterations :: int
  op_scramDeleteMechanism :: string
  op_passwordRef :: "value_from option"
  op_mirrorLink :: string
  op_mirrorSource :: string
  op_mirrorNameExplicit :: bool

definition new_op :: "action \<Rightarrow> operation" where
  "new_op a =
     \<lparr>op_action = a, op_kind = [], op_namespace = [], op_name = [], op_target = [], op_field = [],
      op_from = [], op_to = [], op_risk = risk_of a, op_requiresApproval = (gate_of a \<noteq> GateNone),
      op_message = [], op_mode = [], op_pruneAllowed = False, op_partitions = 0,
      op_replicationFactor = 0, op_config = [], op_acl = None, op_subject = [], op_schemaType = [],
      op_schemaDef = [], op_compatibility = [], op_topic = [], op_quotaEntity = [],
      op_quotaLimits = [], op_roleBinding = None, op_scramUser = [], op_scramMechanism = [],
      op_scramIterations = 0, op_scramDeleteMechanism = [], op_passwordRef = None,
      op_mirrorLink = [], op_mirrorSource = [], op_mirrorNameExplicit = False\<rparr>"

definition report_only :: "operation \<Rightarrow> bool" where
  "report_only op \<longleftrightarrow> op_mode op = ModeDetectOnly \<or> op_mode op = ModeObserveOnly"

text \<open>Findings: carried for reporting, never executed.\<close>

definition finding :: "action \<Rightarrow> bool" where
  "finding a \<longleftrightarrow> a \<in> {Rejected, SchemaSuperseded, MirrorTopicUnhealthy, MirrorTopicStopping,
     MirrorTopicPromoted, MirrorTopicProgressing, UnsupportedReplicationFactorChange, StateReadError}"

lemma new_op_simps [simp]:
  "op_action (new_op a) = a" "op_kind (new_op a) = []" "op_namespace (new_op a) = []"
  "op_name (new_op a) = []" "op_target (new_op a) = []" "op_field (new_op a) = []"
  "op_from (new_op a) = []" "op_to (new_op a) = []" "op_message (new_op a) = []"
  "op_mode (new_op a) = []" "op_pruneAllowed (new_op a) = False" "op_acl (new_op a) = None"
  "op_subject (new_op a) = []" "op_topic (new_op a) = []" "op_roleBinding (new_op a) = None"
  "op_scramDeleteMechanism (new_op a) = []" "op_config (new_op a) = []"
  "op_risk (new_op a) = risk_of a" "op_requiresApproval (new_op a) \<longleftrightarrow> gate_of a \<noteq> GateNone"
  by (simp_all add: new_op_def)

lemma finding_ungated: "finding a \<Longrightarrow> taxonomy a = (RiskNone, GateNone)"
  by (auto simp: finding_def)

lemma gated_actions:
  "gate_of a = GatePrune \<longleftrightarrow> a \<in> {DeleteAcl, RemoveRoleBinding}"
  "gate_of a = GateDelete \<longleftrightarrow> a = DeleteTopic"
  "gate_of a = GateDestructive \<longleftrightarrow> a \<in> {IncreasePartitions, UpdateReplicationFactor,
     LowerSchemaCompatibility, DeleteSubject, RemoveQuota, DeleteScramCredential}"
  by (cases a; simp add: gate_of_def)+

end
