(* ===== verification/Mirror_State.thy ===== *)
theory Mirror_State
  imports Wire
begin

section \<open>Mirror state (internal/mirror: status, rules, snapshot)\<close>

text \<open>
  Classification of destination topics against a live snapshot, fail-closed: any read failure or
  unrecognised state is \<open>UnknownTopic\<close>. The snapshot's maps are partial functions; a read of a missing
  key yields the zero value, as in Go (\<open>zero_mirror\<close>, \<open>zero_topic\<close>).
\<close>

subsection \<open>Mirror status\<close>

datatype status_class =
  StatusUnknown | StatusHealthy | StatusUnhealthy | StatusStopping | StatusStopped | StatusProgressing

definition classify_status :: "string \<Rightarrow> status_class" where
  "classify_status status =
     (if status = ''ACTIVE'' then StatusHealthy
      else if status \<in> {''PAUSED'', ''LINK_PAUSED'', ''FAILED'', ''LINK_FAILED'', ''SOURCE_UNAVAILABLE''}
        then StatusUnhealthy
      else if status = ''PENDING_STOPPED'' then StatusStopping
      else if status = ''STOPPED'' then StatusStopped
      else if status \<in> {''PENDING_MIRROR'', ''PENDING_SYNCHRONIZE'', ''PENDING_SETUP_FOR_RESTORE'',
          ''PENDING_RESTORE'', ''PENDING_RESTORE_MIRROR''} then StatusProgressing
      else StatusUnknown)"

subsection \<open>Rules\<close>

record link_info =
  li_link :: rest_link
  li_configs :: "(string, string) gomap"
  li_configErr :: "go_error option"

definition link_prefix_config :: string where
  "link_prefix_config = ''cluster.link.prefix''"

definition link_sync_include_config :: string where
  "link_sync_include_config = ''topic.config.sync.include''"

definition check_prefix :: "link_info \<Rightarrow> string \<Rightarrow> string \<Rightarrow> bool \<Rightarrow> go_error option" where
  "check_prefix l topicName sourceTopicName explicit =
     (let p = (case mget (li_configs l) link_prefix_config of None \<Rightarrow> [] | Some v \<Rightarrow> v)
      in if p = [] then
           (if topicName \<noteq> sourceTopicName then
              Some [T ''topicName '', Q topicName, T '' differs from sourceTopicName '',
                Q sourceTopicName, T '' and link '', Q (ln_name (li_link l)), T '' has no prefix'']
            else None)
         else
           (let want = p @ sourceTopicName
            in if \<not> explicit \<or> topicName \<noteq> want then
                 Some [T ''link '', Q (ln_name (li_link l)), T '' has prefix '', Q p,
                   T ''; topicName must be '', Q want]
               else None))"

definition link_active :: "link_info \<Rightarrow> bool" where
  "link_active l \<longleftrightarrow> ln_state (li_link l) = ''ACTIVE''"

definition link_error_suffix :: "rest_link \<Rightarrow> string" where
  "link_error_suffix l =
     (if ln_error l = [] \<or> ln_error l = ''NO_ERROR'' then [] else '': '' @ ln_error l)"

fun sync_entry_matches :: "string list \<Rightarrow> string \<Rightarrow> bool" where
  "sync_entry_matches [] key \<longleftrightarrow> False"
| "sync_entry_matches (e # es) key \<longleftrightarrow>
     (let e' = trim_space e
      in if e' = [] then sync_entry_matches es key
         else if e' = key \<or> (has_suffix e' ''*'' \<and> has_prefix key (trim_suffix e' ''*'')) then True
         else sync_entry_matches es key)"

definition link_managed :: "link_info \<Rightarrow> string \<Rightarrow> bool \<times> bool" where
  "link_managed l key =
     (case mget (li_configs l) link_sync_include_config of
        None \<Rightarrow> (False, False)
      | Some v \<Rightarrow>
          (if trim_space v = [] then (False, False)
           else (sync_entry_matches (split_on CHR '','' v) key, True)))"

lemma check_prefix_ok:
  "check_prefix l topicName source explicit = None \<longleftrightarrow>
     (let p = (case mget (li_configs l) link_prefix_config of None \<Rightarrow> [] | Some v \<Rightarrow> v)
      in topicName = p @ source \<and> (p \<noteq> [] \<longrightarrow> explicit))"
  by (auto simp: check_prefix_def Let_def)

lemma sync_entry_matches_iff:
  "sync_entry_matches es key \<longleftrightarrow>
     (\<exists>e \<in> set es. trim_space e \<noteq> [] \<and>
        (trim_space e = key \<or>
         has_suffix (trim_space e) ''*'' \<and> has_prefix key (trim_suffix (trim_space e) ''*'')))"
  by (induction es) (auto simp: Let_def)

subsection \<open>Snapshot\<close>

datatype classification =
  Absent | Normal | MirrorTopic | StoppingMirror | StoppedFormerMirror | UnknownTopic

fun classification_name :: "classification \<Rightarrow> string" where
  "classification_name Absent = ''Absent''"
| "classification_name Normal = ''Normal''"
| "classification_name MirrorTopic = ''Mirror''"
| "classification_name StoppingMirror = ''StoppingMirror''"
| "classification_name StoppedFormerMirror = ''StoppedFormerMirror''"
| "classification_name UnknownTopic = ''Unknown''"

record snapshot =
  sn_adminClusterID :: string
  sn_restClusterID :: string
  sn_topics :: "string \<rightharpoonup> topic_state"
  sn_mirrors :: "string \<rightharpoonup> rest_mirror"
  sn_links :: "string \<rightharpoonup> link_info"
  sn_err :: "go_error option"
  sn_read :: bool

definition empty_snapshot :: "string \<Rightarrow> string \<Rightarrow> snapshot" where
  "empty_snapshot aid rid =
     \<lparr>sn_adminClusterID = aid, sn_restClusterID = rid, sn_topics = Map.empty,
      sn_mirrors = Map.empty, sn_links = Map.empty, sn_err = None, sn_read = False\<rparr>"

definition new_snapshot ::
    "string \<Rightarrow> string \<Rightarrow> (string \<rightharpoonup> topic_state) \<Rightarrow> (string \<rightharpoonup> rest_mirror) \<Rightarrow> (string \<rightharpoonup> link_info) \<Rightarrow>
     snapshot" where
  "new_snapshot aid rid topics mirrors links =
     (let s = empty_snapshot aid rid
      in if aid = [] \<or> rid = [] \<or> aid \<noteq> rid then
           s\<lparr>sn_err := Some [T ''ClusterIdentityMismatch: kafka admin cluster id '', Q aid,
               T '', rest cluster id '', Q rid]\<rparr>
         else s\<lparr>sn_topics := topics, sn_mirrors := mirrors, sn_links := links, sn_read := True\<rparr>)"

definition complete :: "snapshot \<Rightarrow> bool" where
  "complete s \<longleftrightarrow> sn_read s \<and> sn_err s = None"

definition err_text :: "go_error option \<Rightarrow> message" where
  "err_text e = (case e of None \<Rightarrow> [T ''<nil>''] | Some m \<Rightarrow> m)"

text \<open>The loops filling a map by name, failing on the first repeated name.\<close>

fun index_unique :: "('a \<Rightarrow> string) \<Rightarrow> (string \<rightharpoonup> 'a) \<Rightarrow> 'a list \<Rightarrow> string + (string \<rightharpoonup> 'a)" where
  "index_unique f m [] = Inr m"
| "index_unique f m (x # xs) =
     (if m (f x) \<noteq> None then Inl (f x) else index_unique f (m(f x \<mapsto> x)) xs)"

definition fetch_link :: "'w rest_client \<Rightarrow> 'w \<Rightarrow> string \<Rightarrow> rest_link \<Rightarrow> link_info" where
  "fetch_link r w n l =
     (case rc_linkConfigs r n w of
        Inr cfg \<Rightarrow> \<lparr>li_link = l, li_configs = cfg, li_configErr = None\<rparr>
      | Inl e \<Rightarrow> \<lparr>li_link = l, li_configs = [], li_configErr = Some e\<rparr>)"

fun read_links ::
    "'w rest_client \<Rightarrow> 'w \<Rightarrow> (string \<rightharpoonup> rest_link) \<Rightarrow> string list \<Rightarrow> (string \<rightharpoonup> link_info) \<Rightarrow>
     (string \<rightharpoonup> link_info)" where
  "read_links r w byName [] lm = lm"
| "read_links r w byName (n # ns) lm =
     (case byName n of
        None \<Rightarrow> read_links r w byName ns lm
      | Some l \<Rightarrow> read_links r w byName ns (lm(n \<mapsto> fetch_link r w n l)))"

definition query_id :: "go_error + string \<Rightarrow> string" where
  "query_id q = (case q of Inl _ \<Rightarrow> [] | Inr i \<Rightarrow> i)"

definition query_err :: "go_error + 'a \<Rightarrow> go_error option" where
  "query_err q = (case q of Inl e \<Rightarrow> Some e | Inr _ \<Rightarrow> None)"

definition read_snapshot ::
    "'w admin_client \<Rightarrow> 'w rest_client \<Rightarrow> string list \<Rightarrow> 'w \<Rightarrow> snapshot" where
  "read_snapshot k r linkNames w =
     (let qa = ac_clusterID k w; qr = rc_clusterID r w;
          aid = query_id qa; rid = query_id qr;
          s = empty_snapshot aid rid
      in if query_err qa \<noteq> None \<or> query_err qr \<noteq> None \<or> aid = [] \<or> rid = [] \<or> aid \<noteq> rid then
           s\<lparr>sn_err := Some ([T ''ClusterIdentityMismatch: kafka admin cluster id '', Q aid, T '' (err: ''] @
               err_text (query_err qa) @ [T ''), rest cluster id '', Q rid, T '' (err: ''] @
               err_text (query_err qr) @ [T '')''])\<rparr>
         else
           (case ac_listTopics k w of
              Inl e \<Rightarrow> s\<lparr>sn_err := Some (T ''list topics: '' # e)\<rparr>
            | Inr topics \<Rightarrow>
                (case rc_listMirrors r w of
                   Inl e \<Rightarrow> s\<lparr>sn_err := Some (T ''list mirrors: '' # e)\<rparr>
                 | Inr mirrors \<Rightarrow>
                     (case rc_listLinks r w of
                        Inl e \<Rightarrow> s\<lparr>sn_err := Some (T ''list links: '' # e)\<rparr>
                      | Inr links \<Rightarrow>
                          (case index_unique mi_mirrorTopicName Map.empty mirrors of
                             Inl d \<Rightarrow> s\<lparr>sn_err := Some [T ''duplicate mirror topic name '', Q d,
                                 T '' in REST response'']\<rparr>
                           | Inr mm \<Rightarrow>
                               (case index_unique ln_name Map.empty links of
                                  Inl d \<Rightarrow> s\<lparr>sn_err := Some [T ''duplicate link name '', Q d,
                                      T '' in REST response'']\<rparr>
                                | Inr byName \<Rightarrow>
                                    new_snapshot aid rid (index_by tst_name topics Map.empty) mm
                                      (read_links r w byName linkNames Map.empty)))))))"

definition classify :: "snapshot \<Rightarrow> string \<Rightarrow> classification" where
  "classify s topic =
     (if \<not> complete s then UnknownTopic
      else
        (case sn_mirrors s topic of
           None \<Rightarrow> (if sn_topics s topic \<noteq> None then Normal else Absent)
         | Some m \<Rightarrow>
             (if sn_topics s topic = None then UnknownTopic
              else
                (case classify_status (mi_status m) of
                   StatusHealthy \<Rightarrow> MirrorTopic
                 | StatusUnhealthy \<Rightarrow> MirrorTopic
                 | StatusProgressing \<Rightarrow> MirrorTopic
                 | StatusStopping \<Rightarrow> StoppingMirror
                 | StatusStopped \<Rightarrow> StoppedFormerMirror
                 | StatusUnknown \<Rightarrow> UnknownTopic))))"

definition zero_mirror :: rest_mirror where
  "zero_mirror =
     \<lparr>mi_linkName = [], mi_mirrorTopicName = [], mi_sourceTopicName = [], mi_status = [],
      mi_numPartitions = 0, mi_stateTimeMs = 0\<rparr>"

definition zero_topic :: topic_state where
  "zero_topic = \<lparr>tst_name = [], tst_partitions = 0, tst_replicationFactor = 0, tst_config = []\<rparr>"

definition mirror_at :: "snapshot \<Rightarrow> string \<Rightarrow> rest_mirror" where
  "mirror_at s n = (case sn_mirrors s n of None \<Rightarrow> zero_mirror | Some m \<Rightarrow> m)"

definition topic_at :: "snapshot \<Rightarrow> string \<Rightarrow> topic_state" where
  "topic_at s n = (case sn_topics s n of None \<Rightarrow> zero_topic | Some t \<Rightarrow> t)"

subsection \<open>What a classification means\<close>

lemma classify_incomplete: "\<not> complete s \<Longrightarrow> classify s t = UnknownTopic"
  by (simp add: classify_def)

lemma classify_Absent:
  "classify s t = Absent \<longleftrightarrow> complete s \<and> sn_mirrors s t = None \<and> sn_topics s t = None"
  by (auto simp: classify_def split: option.splits status_class.splits)

lemma classify_Normal:
  "classify s t = Normal \<longleftrightarrow> complete s \<and> sn_mirrors s t = None \<and> sn_topics s t \<noteq> None"
  by (auto simp: classify_def split: option.splits status_class.splits)

lemma classify_MirrorTopic:
  "classify s t = MirrorTopic \<longleftrightarrow> complete s \<and> sn_topics s t \<noteq> None \<and>
     (\<exists>m. sn_mirrors s t = Some m \<and>
        classify_status (mi_status m) \<in> {StatusHealthy, StatusUnhealthy, StatusProgressing})"
  by (auto simp: classify_def split: option.splits status_class.splits)

lemma index_unique_Inr:
  "index_unique f m xs = Inr m' \<Longrightarrow>
   distinct (map f xs) \<and> (\<forall>x \<in> set xs. m (f x) = None) \<and> m' = index_by f xs m"
  by (induction f m xs rule: index_unique.induct) (auto split: if_splits)

lemma index_unique_distinct:
  "distinct (map f xs) \<Longrightarrow> \<forall>x \<in> set xs. m (f x) = None \<Longrightarrow> index_unique f m xs = Inr (index_by f xs m)"
proof (induction xs arbitrary: m)
  case Nil
  then show ?case by simp
next
  case (Cons a xs)
  have "f x \<noteq> f a" if "x \<in> set xs" for x
    using Cons.prems(1) that by (auto simp: rev_image_eqI)
  moreover define m' where "m' = m(f a \<mapsto> a)"
  ultimately have "\<forall>x \<in> set xs. m' (f x) = None" using Cons.prems(2) by simp
  then show ?case using Cons.IH [of m'] Cons.prems by (simp flip: m'_def)
qed

lemma new_snapshot_complete:
  "complete (new_snapshot aid rid t m l) \<longleftrightarrow> aid \<noteq> [] \<and> aid = rid"
  by (auto simp: new_snapshot_def empty_snapshot_def complete_def Let_def)

text \<open>A read snapshot is complete exactly when every read succeeded and the two ids agree.\<close>

lemmas read_snapshot_simps = read_snapshot_def Let_def query_id_def query_err_def new_snapshot_def
  empty_snapshot_def complete_def

lemma read_snapshot_complete_eq:
  assumes "complete (read_snapshot k r ns w)"
  obtains i ts ms ls where "ac_clusterID k w = Inr i" "rc_clusterID r w = Inr i" "i \<noteq> []"
    "ac_listTopics k w = Inr ts" "rc_listMirrors r w = Inr ms" "rc_listLinks r w = Inr ls"
    "distinct (map mi_mirrorTopicName ms)" "distinct (map ln_name ls)"
    "read_snapshot k r ns w =
       new_snapshot i i (index_by tst_name ts Map.empty) (index_by mi_mirrorTopicName ms Map.empty)
         (read_links r w (index_by ln_name ls Map.empty) ns Map.empty)"
proof -
  obtain i ts ms ls mm byName where q: "ac_clusterID k w = Inr i" "rc_clusterID r w = Inr i" "i \<noteq> []"
    "ac_listTopics k w = Inr ts" "rc_listMirrors r w = Inr ms" "rc_listLinks r w = Inr ls"
    and mm: "index_unique mi_mirrorTopicName Map.empty ms = Inr mm"
    and ln: "index_unique ln_name Map.empty ls = Inr byName"
    using assms by (auto simp: read_snapshot_simps split: sum.splits if_splits)
  from index_unique_Inr [OF mm] index_unique_Inr [OF ln] show ?thesis
    using q mm ln
    by (intro that [of i ts ms ls]) (simp_all add: read_snapshot_def Let_def query_id_def query_err_def)
qed

lemma read_snapshot_complete:
  "complete (read_snapshot k r ns w) \<longleftrightarrow>
     (\<exists>i ts ms ls. i \<noteq> [] \<and> ac_clusterID k w = Inr i \<and> rc_clusterID r w = Inr i \<and>
        ac_listTopics k w = Inr ts \<and> rc_listMirrors r w = Inr ms \<and> rc_listLinks r w = Inr ls \<and>
        distinct (map mi_mirrorTopicName ms) \<and> distinct (map ln_name ls))"
    (is "?L \<longleftrightarrow> ?R")
proof
  assume ?L
  then show ?R by (rule read_snapshot_complete_eq) metis
next
  assume ?R
  then obtain i ts ms ls where q: "i \<noteq> []" "ac_clusterID k w = Inr i" "rc_clusterID r w = Inr i"
    "ac_listTopics k w = Inr ts" "rc_listMirrors r w = Inr ms" "rc_listLinks r w = Inr ls"
    and d: "distinct (map mi_mirrorTopicName ms)" "distinct (map ln_name ls)" by blast
  then show ?L
    by (simp add: read_snapshot_def Let_def query_id_def query_err_def new_snapshot_complete
        index_unique_distinct)
qed

text \<open>The links of a read snapshot are the listed ones among those asked for.\<close>

lemma read_links_eq:
  "read_links r w bn ns lm n =
     (case bn n of Some l \<Rightarrow> if n \<in> set ns then Some (fetch_link r w n l) else lm n | None \<Rightarrow> lm n)"
  by (induction ns arbitrary: lm) (auto split: option.split)

end
