(* ===== verification/Json.thy ===== *)
theory Json
  imports Prelude
begin

section \<open>Canonical JSON (diff.canonicalJSON over encoding/json)\<close>

text \<open>
  What \<open>canonicalJSON\<close> uses of Go's \<open>encoding/json\<close>: \<open>Decoder.Decode\<close> with \<open>UseNumber\<close> into an
  \<open>interface{}\<close>, then \<open>json.Marshal\<close>. The decoder reads the FIRST value of the input and stops, so
  text after it is not looked at. It rejects nesting deeper than 10000, keeps number literals
  verbatim, replaces invalid UTF-8 and lone surrogates by U+FFFD, and lets the last of several
  equal keys win. The encoder sorts keys and escapes what \<open>json.Marshal\<close> escapes.

  The parser is fuelled; \<open>2 * length s + 2\<close> is enough since every two calls consume a byte.
\<close>

datatype json =
    JNull
  | JBool bool
  | JNumber string
  | JString string
  | JArray "json list"
  | JObject "(string, json) gomap"

subsection \<open>UTF-8\<close>

definition byte :: "char \<Rightarrow> nat" where
  "byte c = of_char c"

definition is_cont :: "char \<Rightarrow> bool" where
  "is_cont c \<longleftrightarrow> 0x80 \<le> byte c \<and> byte c \<le> 0xBF"

text \<open>The length of the UTF-8 encoded rune at the head of a string, 0 when it is ill formed.\<close>

definition rune_len :: "string \<Rightarrow> nat" where
  "rune_len s =
     (case s of
        [] \<Rightarrow> 0
      | a # t \<Rightarrow>
          (if byte a < 0x80 then 1
           else case t of
              [] \<Rightarrow> 0
            | b # u \<Rightarrow>
                (if 0xC2 \<le> byte a \<and> byte a \<le> 0xDF then (if is_cont b then 2 else 0)
                 else case u of
                    [] \<Rightarrow> 0
                  | c # v \<Rightarrow>
                      (if 0xE0 \<le> byte a \<and> byte a \<le> 0xEF then
                         (if is_cont b \<and> is_cont c \<and> (byte a = 0xE0 \<longrightarrow> 0xA0 \<le> byte b) \<and>
                             (byte a = 0xED \<longrightarrow> byte b \<le> 0x9F) then 3 else 0)
                       else case v of
                          [] \<Rightarrow> 0
                        | d # _ \<Rightarrow>
                            (if 0xF0 \<le> byte a \<and> byte a \<le> 0xF4 \<and> is_cont b \<and> is_cont c \<and> is_cont d \<and>
                                (byte a = 0xF0 \<longrightarrow> 0x90 \<le> byte b) \<and> (byte a = 0xF4 \<longrightarrow> byte b \<le> 0x8F)
                             then 4 else 0)))))"

definition replacement :: string where
  "replacement = [CHR 0xEF, CHR 0xBF, CHR 0xBD]"

definition encode_rune :: "nat \<Rightarrow> string" where
  "encode_rune r =
     (if r < 0x80 then [char_of r]
      else if r < 0x800 then [char_of (0xC0 + r div 0x40), char_of (0x80 + r mod 0x40)]
      else if (0xD800 \<le> r \<and> r \<le> 0xDFFF) \<or> 0x10FFFF < r then replacement
      else if r < 0x10000 then
        [char_of (0xE0 + r div 0x1000), char_of (0x80 + (r div 0x40) mod 0x40),
         char_of (0x80 + r mod 0x40)]
      else
        [char_of (0xF0 + r div 0x40000), char_of (0x80 + (r div 0x1000) mod 0x40),
         char_of (0x80 + (r div 0x40) mod 0x40), char_of (0x80 + r mod 0x40)])"

subsection \<open>Scanning\<close>

fun skip_ws :: "string \<Rightarrow> string" where
  "skip_ws [] = []"
| "skip_ws (c # s) =
     (if c = CHR 0x20 \<or> c = CHR 0x09 \<or> c = CHR 0x0D \<or> c = CHR 0x0A then skip_ws s else c # s)"

definition is_digit :: "char \<Rightarrow> bool" where
  "is_digit c \<longleftrightarrow> 0x30 \<le> byte c \<and> byte c \<le> 0x39"

definition hex_val :: "char \<Rightarrow> nat option" where
  "hex_val c =
     (if is_digit c then Some (byte c - 0x30)
      else if 0x61 \<le> byte c \<and> byte c \<le> 0x66 then Some (byte c - 0x61 + 10)
      else if 0x41 \<le> byte c \<and> byte c \<le> 0x46 then Some (byte c - 0x41 + 10)
      else None)"

fun hex4 :: "string \<Rightarrow> (nat \<times> string) option" where
  "hex4 (a # b # c # d # s) =
     (case (hex_val a, hex_val b, hex_val c, hex_val d) of
        (Some w, Some x, Some y, Some z) \<Rightarrow> Some (((w * 16 + x) * 16 + y) * 16 + z, s)
      | _ \<Rightarrow> None)"
| "hex4 _ = None"

definition scan_digits :: "string \<Rightarrow> (string \<times> string) option" where
  "scan_digits s =
     (if takeWhile is_digit s = [] then None
      else Some (takeWhile is_digit s, dropWhile is_digit s))"

definition scan_int :: "string \<Rightarrow> (string \<times> string) option" where
  "scan_int s =
     (case s of
        [] \<Rightarrow> None
      | c # t \<Rightarrow> (if c = CHR ''0'' then Some (''0'', t) else scan_digits s))"

definition scan_frac :: "string \<Rightarrow> (string \<times> string) option" where
  "scan_frac s =
     (case s of
        [] \<Rightarrow> Some ([], [])
      | c # t \<Rightarrow>
          (if c = CHR ''.'' then map_option (map_prod (Cons c) id) (scan_digits t)
           else Some ([], s)))"

definition scan_exp :: "string \<Rightarrow> (string \<times> string) option" where
  "scan_exp s =
     (case s of
        [] \<Rightarrow> Some ([], [])
      | c # t \<Rightarrow>
          (if c = CHR ''e'' \<or> c = CHR ''E'' then
             (case t of
                [] \<Rightarrow> None
              | g # u \<Rightarrow>
                  (if g = CHR ''+'' \<or> g = CHR ''-''
                   then map_option (map_prod (\<lambda>d. c # g # d) id) (scan_digits u)
                   else map_option (map_prod (Cons c) id) (scan_digits t)))
           else Some ([], s)))"

definition scan_number :: "string \<Rightarrow> (string \<times> string) option" where
  "scan_number s =
     (let (sgn, s0) = (case s of c # t \<Rightarrow> if c = CHR ''-'' then ([c], t) else ([], s) | [] \<Rightarrow> ([], s))
      in case scan_int s0 of None \<Rightarrow> None
         | Some (i, s1) \<Rightarrow>
             (case scan_frac s1 of None \<Rightarrow> None
              | Some (f, s2) \<Rightarrow>
                  (case scan_exp s2 of None \<Rightarrow> None
                   | Some (e, s3) \<Rightarrow> Some (sgn @ i @ f @ e, s3))))"

text \<open>
  The body of a string literal, up to and including the closing quote, unquoted on the way. An
  escaped high surrogate followed by an escaped low one is one rune, any other surrogate U+FFFD.
\<close>

definition escape_val :: "char \<Rightarrow> char option" where
  "escape_val c =
     map_of [(CHR 0x22, CHR 0x22), (CHR 0x5C, CHR 0x5C), (CHR ''/'', CHR ''/''),
             (CHR ''b'', CHR 0x08), (CHR ''f'', CHR 0x0C), (CHR ''n'', CHR 0x0A),
             (CHR ''r'', CHR 0x0D), (CHR ''t'', CHR 0x09)] c"

definition low_surrogate :: "string \<Rightarrow> (nat \<times> string) option" where
  "low_surrogate s =
     (case s of
        a # b # t \<Rightarrow>
          (if a = CHR 0x5C \<and> b = CHR ''u'' then
             (case hex4 t of
                Some (lo, t') \<Rightarrow> if 0xDC00 \<le> lo \<and> lo \<le> 0xDFFF then Some (lo, t') else None
              | None \<Rightarrow> None)
           else None)
      | _ \<Rightarrow> None)"

fun scan_string :: "nat \<Rightarrow> string \<Rightarrow> (string \<times> string) option" where
  "scan_string 0 s = None"
| "scan_string (Suc n) [] = None"
| "scan_string (Suc n) (c # s) =
     (if c = CHR 0x22 then Some ([], s)
      else if c = CHR 0x5C then
        (case s of
           [] \<Rightarrow> None
         | e # t \<Rightarrow>
             (if e = CHR ''u'' then
                (case hex4 t of
                   None \<Rightarrow> None
                 | Some (r, t') \<Rightarrow>
                     (if 0xD800 \<le> r \<and> r \<le> 0xDFFF then
                        (case (if r \<le> 0xDBFF then low_surrogate t' else None) of
                           Some (lo, t'') \<Rightarrow>
                             map_option
                               (map_prod
                                 (append (encode_rune (0x10000 + (r - 0xD800) * 0x400 + (lo - 0xDC00)))) id)
                               (scan_string n t'')
                         | None \<Rightarrow> map_option (map_prod (append replacement) id) (scan_string n t'))
                      else map_option (map_prod (append (encode_rune r)) id) (scan_string n t')))
              else
                (case escape_val e of
                   None \<Rightarrow> None
                 | Some v \<Rightarrow> map_option (map_prod (Cons v) id) (scan_string n t))))
      else if byte c < 0x20 then None
      else
        (case rune_len (c # s) of
           0 \<Rightarrow> map_option (map_prod (append replacement) id) (scan_string n s)
         | Suc k \<Rightarrow>
             map_option (map_prod (append (c # take k s)) id) (scan_string n (drop k s))))"

subsection \<open>Decoding\<close>

definition max_nesting_depth :: nat where
  "max_nesting_depth = 10000"

definition scan_literal :: "string \<Rightarrow> json \<Rightarrow> string \<Rightarrow> (json \<times> string) option" where
  "scan_literal w v s = (if prefix w s then Some (v, drop (length w) s) else None)"

fun parse_value :: "nat \<Rightarrow> nat \<Rightarrow> string \<Rightarrow> (json \<times> string) option"
  and parse_elems :: "nat \<Rightarrow> nat \<Rightarrow> json list \<Rightarrow> string \<Rightarrow> (json \<times> string) option"
  and parse_members :: "nat \<Rightarrow> nat \<Rightarrow> (string, json) gomap \<Rightarrow> string \<Rightarrow> (json \<times> string) option" where
  "parse_value 0 d s = None"
| "parse_value (Suc n) d s =
     (case skip_ws s of
        [] \<Rightarrow> None
      | c # t \<Rightarrow>
          (if c = CHR ''{'' then
             (if d \<ge> max_nesting_depth then None
              else case skip_ws t of
                 [] \<Rightarrow> None
               | b # u \<Rightarrow> if b = CHR ''}'' then Some (JObject [], u) else parse_members n (Suc d) [] t)
           else if c = CHR ''['' then
             (if d \<ge> max_nesting_depth then None
              else case skip_ws t of
                 [] \<Rightarrow> None
               | b # u \<Rightarrow> if b = CHR '']'' then Some (JArray [], u) else parse_elems n (Suc d) [] t)
           else if c = CHR 0x22 then
             map_option (map_prod JString id) (scan_string (length t + 1) t)
           else if c = CHR ''t'' then scan_literal ''rue'' (JBool True) t
           else if c = CHR ''f'' then scan_literal ''alse'' (JBool False) t
           else if c = CHR ''n'' then scan_literal ''ull'' JNull t
           else map_option (map_prod JNumber id) (scan_number (c # t))))"
| "parse_elems 0 d acc s = None"
| "parse_elems (Suc n) d acc s =
     (case parse_value n d s of
        None \<Rightarrow> None
      | Some (v, t) \<Rightarrow>
          (case skip_ws t of
             [] \<Rightarrow> None
           | c # u \<Rightarrow>
               (if c = CHR '','' then parse_elems n d (acc @ [v]) u
                else if c = CHR '']'' then Some (JArray (acc @ [v]), u)
                else None)))"
| "parse_members 0 d acc s = None"
| "parse_members (Suc n) d acc s =
     (case skip_ws s of
        [] \<Rightarrow> None
      | q # t \<Rightarrow>
          (if q \<noteq> CHR 0x22 then None
           else case scan_string (length t + 1) t of
              None \<Rightarrow> None
            | Some (k, t1) \<Rightarrow>
                (case skip_ws t1 of
                   [] \<Rightarrow> None
                 | c # t2 \<Rightarrow>
                     (if c \<noteq> CHR '':'' then None
                      else case parse_value n d t2 of
                         None \<Rightarrow> None
                       | Some (v, t3) \<Rightarrow>
                           (case skip_ws t3 of
                              [] \<Rightarrow> None
                            | e # t4 \<Rightarrow>
                                (if e = CHR '','' then parse_members n d (acc @ [(k, v)]) t4
                                 else if e = CHR ''}'' then Some (JObject (acc @ [(k, v)]), t4)
                                 else None))))))"

definition json_decode :: "string \<Rightarrow> json option" where
  "json_decode s = map_option fst (parse_value (2 * length s + 2) 0 s)"

subsection \<open>Encoding\<close>

definition hex_digit :: "nat \<Rightarrow> char" where
  "hex_digit n = (if n < 10 then char_of (0x30 + n) else char_of (0x61 + (n - 10)))"

definition escape_byte :: "char \<Rightarrow> string" where
  "escape_byte c =
     (if c = CHR 0x22 then [CHR 0x5C, CHR 0x22]
      else if c = CHR 0x5C then [CHR 0x5C, CHR 0x5C]
      else if c = CHR 0x08 then [CHR 0x5C, CHR ''b'']
      else if c = CHR 0x0C then [CHR 0x5C, CHR ''f'']
      else if c = CHR 0x0A then [CHR 0x5C, CHR ''n'']
      else if c = CHR 0x0D then [CHR 0x5C, CHR ''r'']
      else if c = CHR 0x09 then [CHR 0x5C, CHR ''t'']
      else if byte c < 0x20 \<or> c = CHR ''<'' \<or> c = CHR ''>'' \<or> c = CHR ''&'' then
        [CHR 0x5C, CHR ''u'', CHR ''0'', CHR ''0'', hex_digit (byte c div 16), hex_digit (byte c mod 16)]
      else [c])"

fun escape_string :: "string \<Rightarrow> string" where
  "escape_string [] = []"
| "escape_string (c # s) =
     (if prefix [CHR 0xE2, CHR 0x80, CHR 0xA8] (c # s)
      then [CHR 0x5C] @ ''u2028'' @ escape_string (drop 2 s)
      else if prefix [CHR 0xE2, CHR 0x80, CHR 0xA9] (c # s)
      then [CHR 0x5C] @ ''u2029'' @ escape_string (drop 2 s)
      else escape_byte c @ escape_string s)"

definition json_string :: "string \<Rightarrow> string" where
  "json_string s = [CHR 0x22] @ escape_string s @ [CHR 0x22]"

text \<open>Of several equal keys the last one wins.\<close>

definition last_wins :: "('k \<times> 'v) list \<Rightarrow> ('k, 'v) gomap" where
  "last_wins ms = fold (\<lambda>(k, v). AList.update k v) ms []"

fun json_encode :: "json \<Rightarrow> string" where
  "json_encode JNull = ''null''"
| "json_encode (JBool b) = (if b then ''true'' else ''false'')"
| "json_encode (JNumber n) = n"
| "json_encode (JString s) = json_string s"
| "json_encode (JArray vs) = ''['' @ join '','' (map json_encode vs) @ '']''"
| "json_encode (JObject ms) =
     ''{'' @ join '',''
       (map (\<lambda>(k, t). json_string k @ '':'' @ t)
         (sort_key fst (last_wins (map (\<lambda>(k, v). (k, json_encode v)) ms)))) @ ''}''"

definition canonical_json :: "string \<Rightarrow> string option" where
  "canonical_json s = map_option json_encode (json_decode s)"

subsection \<open>Key order does not matter\<close>

lemma distinct_last_wins: "distinct (map fst (last_wins ms))"
proof -
  have "distinct (map fst (fold (\<lambda>(k, v). AList.update k v) ms acc))" if "distinct (map fst acc)" for acc
    using that by (induction ms arbitrary: acc) (auto simp: distinct_update)
  then show ?thesis by (simp add: last_wins_def)
qed

lemma map_of_last_wins: "map_of (last_wins ms) = map_of (rev ms)"
proof -
  have "map_of (fold (\<lambda>(k, v). AList.update k v) ms acc) = map_of acc ++ map_of (rev ms)" for acc
    by (induction ms arbitrary: acc) (auto simp: update_conv' map_add_def fun_eq_iff split: option.splits)
  then show ?thesis by (simp add: last_wins_def)
qed

lemma last_wins_perm:
  assumes "map_of (rev ms) = map_of (rev ms')"
  shows "sort_key fst (last_wins ms) = sort_key fst (last_wins (ms' :: (string \<times> 'v) list))"
proof (rule sort_key_perm_eq)
  have "set (last_wins ms) = set (last_wins ms')"
    using assms distinct_last_wins [of ms] distinct_last_wins [of ms'] map_of_last_wins [of ms]
      map_of_last_wins [of ms'] by (metis map_of_eqI map_of_is_SomeI map_of_SomeD subset_antisym subrelI)
  then show "mset (last_wins ms) = mset (last_wins ms')"
    using distinct_last_wins [of ms] distinct_last_wins [of ms']
    by (metis distinct_map set_eq_iff_mset_eq_distinct)
  show "inj_on fst (set (last_wins ms))"
    by (rule inj_on_set_distinct_map) (rule distinct_last_wins)
qed

text \<open>Objects with the same members under the last-wins reading have one encoding.\<close>

lemma json_encode_object_cong:
  assumes "map_of (rev ms) = map_of (rev ms')"
  shows "json_encode (JObject ms) = json_encode (JObject ms')"
proof -
  let ?e = "\<lambda>(k, v). (k, json_encode v)"
  have "map_of (rev (map ?e xs)) = map_option json_encode \<circ> map_of (rev xs)" for xs :: "(string \<times> json) list"
    by (simp add: rev_map map_of_map)
  then have "map_of (rev (map ?e ms)) = map_of (rev (map ?e ms'))" using assms by simp
  then have "sort_key fst (last_wins (map ?e ms)) = sort_key fst (last_wins (map ?e ms'))"
    by (rule last_wins_perm)
  then show ?thesis by (simp only: json_encode.simps)
qed

lemma canonical_json_examples:
  "canonical_json '' {  } trailing'' = Some ''{}''"
  "canonical_json ''[1.0, 10,true]'' = Some ''[1.0,10,true]''"
  "canonical_json ''{'' = None"
  "canonical_json ''tru'' = None"
  "canonical_json [CHR ''{'', CHR 0x22, CHR ''b'', CHR 0x22, CHR '':'', CHR ''1'', CHR '','', CHR 0x22, CHR ''a'',
      CHR 0x22, CHR '':'', CHR ''2'', CHR '','', CHR 0x22, CHR ''b'', CHR 0x22, CHR '':'', CHR ''3'', CHR ''}''] =
   Some [CHR ''{'', CHR 0x22, CHR ''a'', CHR 0x22, CHR '':'', CHR ''2'', CHR '','', CHR 0x22, CHR ''b'', CHR 0x22,
      CHR '':'', CHR ''3'', CHR ''}'']"
  by code_simp+

end
