(* ===== verification/Diff_Kinds.thy ===== *)
theory Diff_Kinds
  imports Operations Mirror_State Json
begin

section \<open>The per-kind diffs (internal/diff/diff.go)\<close>

text \<open>
  Desired and live state, and the diff of each kind but mirrors: topics, ACLs and role bindings
  (one shared add/prune walk), schemas, quotas, SCRAM users.
\<close>

subsection \<open>Desired and live state\<close>

record desired_topic =
  dt_kind :: string
  dt_namespace :: string
  dt_name :: string
  dt_partitions :: int
  dt_replicationFactor :: int
  dt_config :: "(string, string) gomap"
  dt_mode :: string
  dt_ignoreFields :: "string list"

definition ignores_field :: "desired_topic \<Rightarrow> string \<Rightarrow> bool" where
  "ignores_field dt field \<longleftrightarrow> (\<exists>f \<in> set (dt_ignoreFields dt). f = field)"

record desired_mirror =
  dm_kind :: string
  dm_namespace :: string
  dm_name :: string
  dm_linkName :: string
  dm_sourceTopicName :: string
  dm_topicName :: string
  dm_topicNameExplicit :: bool
  dm_replicationFactor :: int
  dm_config :: "(string, string) gomap"
  dm_mode :: string

record desired_schema =
  ds_subject :: string
  ds_topic :: string
  ds_type :: string
  ds_definition :: string
  ds_compatibility :: string
  ds_mode :: string

record desired =
  d_topics :: "desired_topic list"
  d_mirrors :: "desired_mirror list"
  d_acls :: "acl list"
  d_schemas :: "desired_schema list"
  d_quotas :: "desired_quota list"
  d_users :: "desired_user list"
  d_scope :: managed_scope
  d_rotatePasswords :: bool
  d_roleBindings :: "role_binding list"
  d_roleBindingScope :: rb_managed_scope
  d_roleBindingPruneDesired :: "role_binding list"
  d_roleBindingPruneAggregateSet :: bool
  d_pruneDesired :: "acl list"
  d_pruneScope :: managed_scope
  d_pruneAggregateSet :: bool

definition set_prune_aggregate :: "acl list \<Rightarrow> managed_scope \<Rightarrow> desired \<Rightarrow> desired" where
  "set_prune_aggregate acls scope d =
     d\<lparr>d_pruneDesired := acls, d_pruneScope := scope, d_pruneAggregateSet := True\<rparr>"

definition prune_inputs :: "desired \<Rightarrow> acl list \<times> managed_scope" where
  "prune_inputs d =
     (if d_pruneAggregateSet d then (d_pruneDesired d, d_pruneScope d) else (d_acls d, d_scope d))"

definition set_role_binding_prune_set :: "role_binding list \<Rightarrow> desired \<Rightarrow> desired" where
  "set_role_binding_prune_set keep d =
     d\<lparr>d_roleBindingPruneDesired := keep, d_roleBindingPruneAggregateSet := True\<rparr>"

definition role_binding_prune_keep :: "desired \<Rightarrow> role_binding list" where
  "role_binding_prune_keep d =
     (if d_roleBindingPruneAggregateSet d then d_roleBindingPruneDesired d else d_roleBindings d)"

record live =
  l_topics :: "topic_state list"
  l_acls :: "acl list"
  l_schemas :: "subject_state list"
  l_quotas :: "quota_state list"
  l_roleBindings :: "role_binding list"
  l_scramCredentials :: "scram_credential list"
  l_supersededSchemas :: "string \<rightharpoonup> int"
  l_globalCompatibility :: string
  l_globalCompatibilityErr :: string
  l_mirrors :: "snapshot option"

subsection \<open>Topics\<close>

definition topic_op :: "desired_topic \<Rightarrow> action \<Rightarrow> operation" where
  "topic_op dt a =
     (new_op a)\<lparr>op_kind := dt_kind dt, op_namespace := dt_namespace dt, op_name := dt_name dt,
       op_target := dt_name dt, op_mode := dt_mode dt\<rparr>"

definition create_topic_op :: "desired_topic \<Rightarrow> operation" where
  "create_topic_op dt =
     (topic_op dt CreateTopic)\<lparr>op_partitions := dt_partitions dt,
       op_replicationFactor := dt_replicationFactor dt, op_config := dt_config dt\<rparr>"

definition partition_ops :: "desired_topic \<Rightarrow> topic_state \<Rightarrow> operation list" where
  "partition_ops dt lt =
     (if ignores_field dt ''partitions'' then []
      else if dt_partitions dt < tst_partitions lt then
        [(topic_op dt Rejected)\<lparr>op_from := itoa (tst_partitions lt), op_to := itoa (dt_partitions dt),
           op_message := [T ''partition decrease rejected: '', T (itoa (tst_partitions lt)), T '' -> '',
             T (itoa (dt_partitions dt)), T '' is not supported by Kafka'']\<rparr>]
      else if dt_partitions dt > tst_partitions lt then
        [(topic_op dt IncreasePartitions)\<lparr>op_from := itoa (tst_partitions lt),
           op_to := itoa (dt_partitions dt), op_partitions := dt_partitions dt\<rparr>]
      else [])"

definition config_op :: "desired_topic \<Rightarrow> topic_state \<Rightarrow> string \<Rightarrow> operation list" where
  "config_op dt lt k =
     (if ignores_field dt (''config.'' @ k) then []
      else
        let want = (case mget (dt_config dt) k of None \<Rightarrow> [] | Some v \<Rightarrow> v);
            got = (case mget (tst_config lt) k of None \<Rightarrow> [] | Some v \<Rightarrow> v)
        in if mget (tst_config lt) k \<noteq> None \<and> got = want then []
           else [(topic_op dt UpdateTopicConfig)\<lparr>op_field := k, op_from := got, op_to := want\<rparr>])"

definition replication_ops :: "desired_topic \<Rightarrow> topic_state \<Rightarrow> operation list" where
  "replication_ops dt lt =
     (if dt_replicationFactor dt \<noteq> 0 \<and> tst_replicationFactor lt \<noteq> 0 \<and>
         dt_replicationFactor dt \<noteq> tst_replicationFactor lt \<and>
         \<not> ignores_field dt ''replicationFactor''
      then [(topic_op dt UpdateReplicationFactor)\<lparr>op_from := itoa (tst_replicationFactor lt),
              op_to := itoa (dt_replicationFactor dt)\<rparr>]
      else [])"

definition topic_ops_for :: "desired_topic \<Rightarrow> topic_state option \<Rightarrow> operation list" where
  "topic_ops_for dt present =
     (case present of
        None \<Rightarrow> [create_topic_op dt]
      | Some lt \<Rightarrow>
          partition_ops dt lt @
          concat (map (config_op dt lt) (mkeys (dt_config dt))) @
          replication_ops dt lt)"

definition compute_topic_ops :: "desired \<Rightarrow> live \<Rightarrow> operation list" where
  "compute_topic_ops d l =
     (let liveByName = index_by tst_name (l_topics l) Map.empty
      in concat (map (\<lambda>dt. topic_ops_for dt (liveByName (dt_name dt))) (sort_key dt_name (d_topics d))))"

subsection \<open>The add/prune walk\<close>

record 'a add_prune_kind =
  apk_key :: "'a \<Rightarrow> string"
  apk_defaultKind :: string
  apk_attr :: "'a \<Rightarrow> scope_info"
  apk_contains :: "'a \<Rightarrow> bool"
  apk_info :: "'a \<Rightarrow> scope_info option"
  apk_addAction :: action
  apk_pruneAction :: action
  apk_emit :: "'a \<Rightarrow> action \<Rightarrow> operation"

definition stamp_owner :: "scope_info \<Rightarrow> operation \<Rightarrow> operation" where
  "stamp_owner a op =
     (if si_sourceKind a \<noteq> [] then
        op\<lparr>op_kind := si_sourceKind a, op_namespace := si_sourceNamespace a, op_name := si_sourceName a\<rparr>
      else op)"

definition add_op :: "'a add_prune_kind \<Rightarrow> 'a \<Rightarrow> operation" where
  "add_op k it =
     (stamp_owner (apk_attr k it)
        ((apk_emit k it (apk_addAction k))\<lparr>op_kind := apk_defaultKind k\<rparr>))
       \<lparr>op_mode := si_mode (apk_attr k it)\<rparr>"

definition prune_op :: "'a add_prune_kind \<Rightarrow> 'a \<Rightarrow> operation" where
  "prune_op k it =
     (let op = (apk_emit k it (apk_pruneAction k))\<lparr>op_kind := apk_defaultKind k\<rparr>
      in case apk_info k it of
           Some info \<Rightarrow> stamp_owner info (op\<lparr>op_mode := si_mode info, op_pruneAllowed := si_prune info\<rparr>)
         | None \<Rightarrow> op\<lparr>op_mode := ModeDetectOnly\<rparr>)"

definition add_prune_ops ::
    "'a add_prune_kind \<Rightarrow> 'a list \<Rightarrow> 'a list \<Rightarrow> 'a list \<Rightarrow> operation list" where
  "add_prune_ops k des keep live =
     (let keepKeys = apk_key k ` set keep; liveKeys = apk_key k ` set live
      in map (add_op k)
           (filter (\<lambda>it. apk_key k it \<notin> liveKeys) (sort_key (apk_key k) des)) @
         map (prune_op k)
           (filter (\<lambda>it. apk_contains k it \<and> apk_key k it \<notin> keepKeys) (sort_key (apk_key k) live)))"

definition acl_target :: "acl \<Rightarrow> string" where
  "acl_target a =
     (let base = acl_principal a @ '' '' @ acl_operation a @ '' '' @ acl_resourceType a @ '':'' @
            acl_resourceName a @ '' '' @ acl_permission a
      in if acl_host a \<noteq> ''*'' then base @ '' (host='' @ acl_host a @ '')'' else base)"

definition acl_to_state :: "acl \<Rightarrow> acl_state" where
  "acl_to_state a =
     \<lparr>as_principal = acl_principal a, as_host = acl_host a, as_resourceType = acl_resourceType a,
      as_resourceName = acl_resourceName a, as_patternType = acl_patternType a,
      as_operation = acl_operation a, as_permission = acl_permission a\<rparr>"

definition acl_apk :: "managed_scope \<Rightarrow> acl add_prune_kind" where
  "acl_apk pruneScope =
     \<lparr>apk_key = full_key, apk_defaultKind = ''ACL'',
      apk_attr = (\<lambda>a. \<lparr>si_mode = acl_mode a, si_prune = False, si_sourceKind = acl_sourceKind a,
        si_sourceNamespace = acl_sourceNamespace a, si_sourceName = acl_sourceName a\<rparr>),
      apk_contains = scope_contains pruneScope, apk_info = scope_lookup pruneScope,
      apk_addAction = CreateAcl, apk_pruneAction = DeleteAcl,
      apk_emit = (\<lambda>a act. (new_op act)\<lparr>op_target := acl_target a, op_acl := Some (acl_to_state a)\<rparr>)\<rparr>"

definition compute_acl_ops :: "desired \<Rightarrow> live \<Rightarrow> operation list" where
  "compute_acl_ops d l =
     (let (pruneDesired, pruneScope) = prune_inputs d
      in add_prune_ops (acl_apk pruneScope) (d_acls d) pruneDesired (l_acls l))"

definition role_binding_target :: "role_binding \<Rightarrow> string" where
  "role_binding_target b =
     (let scope = sc_type (rb_scope_of b) @
            (if sc_subCluster (rb_scope_of b) \<noteq> [] then ''/'' @ sc_subCluster (rb_scope_of b) else []);
          target = rb_principal b @ '' '' @ rb_role b @ '' '' @ scope
      in case rb_resource b of
           None \<Rightarrow> target
         | Some r \<Rightarrow> target @ '' '' @ rp_type r @ '':'' @ rp_name r @ ''('' @ rp_patternType r @ '')'')"

definition rb_apk :: "rb_managed_scope \<Rightarrow> role_binding add_prune_kind" where
  "rb_apk scope =
     \<lparr>apk_key = rb_full_key, apk_defaultKind = ''KafkaRoleBinding'',
      apk_attr = (\<lambda>b. \<lparr>si_mode = rb_mode b, si_prune = False, si_sourceKind = rb_sourceKind b,
        si_sourceNamespace = rb_sourceNamespace b, si_sourceName = rb_sourceName b\<rparr>),
      apk_contains = rb_scope_contains scope, apk_info = rb_scope_lookup scope,
      apk_addAction = AddRoleBinding, apk_pruneAction = RemoveRoleBinding,
      apk_emit = (\<lambda>b act. (new_op act)\<lparr>op_target := role_binding_target b, op_roleBinding := Some b\<rparr>)\<rparr>"

definition compute_role_binding_ops :: "desired \<Rightarrow> live \<Rightarrow> operation list" where
  "compute_role_binding_ops d l =
     add_prune_ops (rb_apk (d_roleBindingScope d)) (d_roleBindings d) (role_binding_prune_keep d)
       (l_roleBindings l)"

subsection \<open>Schemas\<close>

definition schema_equal :: "string \<Rightarrow> string \<Rightarrow> string \<Rightarrow> bool" where
  "schema_equal typ a b \<longleftrightarrow>
     (if typ = ''AVRO'' \<or> typ = ''JSON'' then
        (case (canonical_json a, canonical_json b) of
           (Some ca, Some cb) \<Rightarrow> ca = cb
         | _ \<Rightarrow> trim_space a = trim_space b)
      else trim_space a = trim_space b)"

definition compat_rank :: "string \<Rightarrow> int" where
  "compat_rank level =
     (if level = ''NONE'' then 0
      else if level \<in> {''BACKWARD'', ''FORWARD''} then 1
      else if level \<in> {''BACKWARD_TRANSITIVE'', ''FORWARD_TRANSITIVE''} then 2
      else if level = ''FULL'' then 3
      else if level = ''FULL_TRANSITIVE'' then 4
      else -1)"

definition compatibility_op :: "desired_schema \<Rightarrow> string \<Rightarrow> string \<Rightarrow> operation" where
  "compatibility_op ds liveLevel globalLevel =
     (let baseline = (if liveLevel = [] then globalLevel else liveLevel);
          act = (if liveLevel = [] \<and> baseline \<noteq> [] \<and> ds_compatibility ds = baseline
                 then RaiseSchemaCompatibility
                 else if compat_rank (ds_compatibility ds) > compat_rank baseline
                 then RaiseSchemaCompatibility
                 else LowerSchemaCompatibility)
      in (new_op act)\<lparr>op_kind := ''Schema'', op_target := ds_subject ds, op_subject := ds_subject ds,
           op_compatibility := ds_compatibility ds, op_topic := ds_topic ds, op_mode := ds_mode ds,
           op_field := ''compatibility'', op_from := baseline, op_to := ds_compatibility ds,
           op_message := (if liveLevel = [] \<and> baseline \<noteq> []
             then [T ''compatibility baseline '', T baseline,
                   T '' inherited from the registry global default'']
             else [])\<rparr>)"

definition register_op :: "desired_schema \<Rightarrow> operation" where
  "register_op ds =
     (new_op RegisterSchema)\<lparr>op_kind := ''Schema'', op_target := ds_subject ds,
       op_subject := ds_subject ds, op_schemaType := ds_type ds, op_schemaDef := ds_definition ds,
       op_topic := ds_topic ds, op_mode := ds_mode ds\<rparr>"

definition superseded_op :: "desired_schema \<Rightarrow> int \<Rightarrow> int \<Rightarrow> operation" where
  "superseded_op ds oldV latest =
     (new_op SchemaSuperseded)\<lparr>op_kind := ''Schema'', op_target := ds_subject ds,
       op_subject := ds_subject ds, op_topic := ds_topic ds, op_mode := ds_mode ds,
       op_message := [T ''manifest schema is an older version of subject '', T (ds_subject ds),
         T '' (registered as v'', T (itoa oldV), T ''; latest is v'', T (itoa latest),
         T ''); update the manifest or roll the registry forward'']\<rparr>"

definition schema_ops_for :: "live \<Rightarrow> desired_schema \<Rightarrow> subject_state option \<Rightarrow> operation list" where
  "schema_ops_for l ds present =
     (let level = (case present of None \<Rightarrow> [] | Some ls \<Rightarrow> ss_compatibility ls);
          compat = (\<lambda>lv. if ds_compatibility ds \<noteq> [] \<and> ds_compatibility ds \<noteq> lv
                         then [compatibility_op ds lv (l_globalCompatibility l)] else [])
      in if ds_definition ds = [] then compat level
         else case present of
           None \<Rightarrow>
             register_op ds #
             (if ds_compatibility ds \<noteq> [] then [compatibility_op ds [] (l_globalCompatibility l)] else [])
         | Some ls \<Rightarrow>
             (if schema_equal (ds_type ds) (ds_definition ds) (sch_definition (ss_schema ls)) then []
              else case l_supersededSchemas l (ds_subject ds) of
                Some oldV \<Rightarrow> [superseded_op ds oldV (ss_version ls)]
              | None \<Rightarrow> [register_op ds]) @
             compat (ss_compatibility ls))"

definition compute_schema_ops :: "desired \<Rightarrow> live \<Rightarrow> operation list" where
  "compute_schema_ops d l =
     (let liveBySubject = index_by ss_subject (l_schemas l) Map.empty
      in concat (map (\<lambda>ds. schema_ops_for l ds (liveBySubject (ds_subject ds)))
           (sort_key ds_subject (d_schemas d))))"

subsection \<open>Quotas\<close>

definition live_quota_entity :: "quota_entity_component list \<Rightarrow> entity" where
  "live_quota_entity comps = map (\<lambda>c. \<lparr>co_type = qc_type c, co_name = qc_name c\<rparr>) comps"

definition quota_entity_components :: "entity \<Rightarrow> quota_entity_component list" where
  "quota_entity_components e = map (\<lambda>c. \<lparr>qc_type = co_type c, qc_name = co_name c\<rparr>) e"

definition quota_target :: "entity \<Rightarrow> string" where
  "quota_target e =
     join '','' (map (\<lambda>c. co_type c @ ''='' @ component_name c) (sort_key co_type e))"

text \<open>A shallow copy of a map: the model's maps are values, so copying is the identity.\<close>

definition copy_limits :: "(string, float64) gomap \<Rightarrow> (string, float64) gomap" where
  "copy_limits m = m"

definition quota_op :: "desired_quota \<Rightarrow> action \<Rightarrow> (string, float64) gomap \<Rightarrow> operation" where
  "quota_op dq a limits =
     (new_op a)\<lparr>op_kind := ''KafkaQuota'', op_target := quota_target (dq_entity dq),
       op_mode := dq_mode dq, op_quotaEntity := quota_entity_components (dq_entity dq),
       op_quotaLimits := limits\<rparr>"

definition quota_ops_for :: "desired_quota \<Rightarrow> quota_state option \<Rightarrow> operation list" where
  "quota_ops_for dq present =
     (case present of
        None \<Rightarrow> [quota_op dq SetQuota (copy_limits (dq_limits dq))]
      | Some lq \<Rightarrow>
          let needsUpdate = (\<exists>k \<in> set (mkeys (dq_limits dq)).
                mget (qst_limits lq) k \<noteq> mget (dq_limits dq) k);
              remove = map (\<lambda>k. (k, 0))
                (filter (\<lambda>k. mget (dq_limits dq) k = None) (mkeys (qst_limits lq)))
          in (if needsUpdate then [quota_op dq UpdateQuota (copy_limits (dq_limits dq))] else []) @
             (if remove \<noteq> [] then [quota_op dq RemoveQuota remove] else []))"

definition live_quota_key :: "quota_state \<Rightarrow> string" where
  "live_quota_key qs = entity_key (live_quota_entity (qst_entity qs))"

definition compute_quota_ops :: "desired \<Rightarrow> live \<Rightarrow> operation list" where
  "compute_quota_ops d l =
     (let liveByKey = index_by live_quota_key (l_quotas l) Map.empty
      in concat (map (\<lambda>dq. quota_ops_for dq (liveByKey (entity_key (dq_entity dq))))
           (sort_key (\<lambda>dq. entity_key (dq_entity dq)) (d_quotas d))))"

subsection \<open>Users\<close>

definition user_target :: "string \<Rightarrow> string \<Rightarrow> string" where
  "user_target username mechanism = username @ '' ('' @ mechanism @ '')''"

text \<open>The inner map of \<open>liveByUser\<close>: mechanism to live iterations of one user.\<close>

fun live_mechs :: "scram_credential list \<Rightarrow> string \<Rightarrow> (string, int) gomap \<Rightarrow> (string, int) gomap" where
  "live_mechs [] u m = m"
| "live_mechs (c # cs) u m =
     live_mechs cs u
       (if scr_user c = u then AList.update (scr_mechanism c) (scr_iterations c) m else m)"

definition user_op :: "desired_user \<Rightarrow> action \<Rightarrow> operation" where
  "user_op du a =
     (let cred = du_credential du
      in (new_op a)\<lparr>op_kind := ''KafkaUser'',
           op_target := user_target (cr_username cred) (cr_mechanism cred),
           op_scramUser := cr_username cred, op_scramMechanism := cr_mechanism cred,
           op_scramIterations := cr_iterations cred, op_passwordRef := du_passwordRef du\<rparr>)"

definition user_ops_for :: "bool \<Rightarrow> (string, int) gomap \<Rightarrow> desired_user \<Rightarrow> operation list" where
  "user_ops_for rotating liveMechs du =
     (let cred = du_credential du
      in case mget liveMechs (cr_mechanism cred) of
           Some liveIters \<Rightarrow>
             (if cr_iterations cred = 0 \<or> cr_iterations cred = liveIters then
                (if rotating then [user_op du RotateScramCredential] else [])
              else [(user_op du UpdateScramCredential)\<lparr>op_field := ''iterations'',
                      op_from := itoa liveIters, op_to := itoa (cr_iterations cred)\<rparr>])
         | None \<Rightarrow>
             (if liveMechs \<noteq> [] then
                (let other = hd (mkeys liveMechs)
                 in [(user_op du UpdateScramCredential)\<lparr>op_field := ''mechanism'', op_from := other,
                       op_to := cr_mechanism cred, op_scramDeleteMechanism := other\<rparr>])
              else [user_op du CreateScramCredential]))"

definition compute_user_ops :: "desired \<Rightarrow> live \<Rightarrow> operation list" where
  "compute_user_ops d l =
     concat (map (\<lambda>du. user_ops_for (d_rotatePasswords d)
         (live_mechs (l_scramCredentials l) (cr_username (du_credential du)) []) du)
       (sort_key (\<lambda>du. cr_username (du_credential du)) (d_users d)))"

end
