(* ===== verification/Diff_Mirror.thy ===== *)
theory Diff_Mirror
  imports Diff_Kinds
begin

section \<open>The mirror diff (internal/diff/mirror.go)\<close>

text \<open>
  Planning of declared cluster-link mirror topics against the live snapshot: the decision table of
  \<open>mirrorOpsFor\<close>, first matching row wins.
\<close>

definition new_mirror_op :: "desired_mirror \<Rightarrow> action \<Rightarrow> message \<Rightarrow> operation" where
  "new_mirror_op dm a msg =
     (new_op a)\<lparr>op_kind := dm_kind dm, op_namespace := dm_namespace dm, op_name := dm_name dm,
       op_target := dm_topicName dm, op_mode := dm_mode dm, op_message := msg\<rparr>"

definition set_mirror_identity :: "desired_mirror \<Rightarrow> operation \<Rightarrow> operation" where
  "set_mirror_identity dm op =
     op\<lparr>op_mirrorLink := dm_linkName dm, op_mirrorSource := dm_sourceTopicName dm,
        op_mirrorNameExplicit := dm_topicNameExplicit dm\<rparr>"

text \<open>\<^term>\<open>None\<close> is the empty message, "the key may be set".\<close>

definition link_managed_rejection :: "link_info \<Rightarrow> string \<Rightarrow> message option" where
  "link_managed_rejection link key =
     (case link_managed link key of
        (managed, known) \<Rightarrow>
          (if \<not> known then
             Some [T ''cannot determine whether '', T key, T '' is link-managed: link '',
               Q (ln_name (li_link link)), T '' does not report topic.config.sync.include'']
           else if managed then
             Some [T ''config '', T key, T '' is link-managed (synced from the source by link '',
               Q (ln_name (li_link link)), T '') and cannot be set on the mirror'']
           else None))"

definition map_value :: "(string, string) gomap \<Rightarrow> string \<Rightarrow> string" where
  "map_value m k = (case mget m k of None \<Rightarrow> [] | Some v \<Rightarrow> v)"

definition absent_mirror_ops :: "desired_mirror \<Rightarrow> link_info \<Rightarrow> operation list" where
  "absent_mirror_ops dm link =
     (if \<not> link_active link then
        [new_mirror_op dm Rejected
           [T ''link '', Q (dm_linkName dm), T '' is '', T (ln_state (li_link link)),
            T ''; not creating mirror'', T (link_error_suffix (li_link link))]]
      else
        let rejected = concat (map (\<lambda>k.
              case link_managed_rejection link k of
                None \<Rightarrow> []
              | Some msg \<Rightarrow> [(new_mirror_op dm Rejected msg)
                    \<lparr>op_field := k, op_to := map_value (dm_config dm) k\<rparr>]) (mkeys (dm_config dm)))
        in if rejected \<noteq> [] then rejected
           else [(set_mirror_identity dm (new_mirror_op dm CreateMirrorTopic []))
                  \<lparr>op_replicationFactor := dm_replicationFactor dm, op_config := dm_config dm\<rparr>])"

definition mirror_health_ops :: "desired_mirror \<Rightarrow> rest_mirror \<Rightarrow> operation list" where
  "mirror_health_ops dm m =
     (case classify_status (mi_status m) of
        StatusUnhealthy \<Rightarrow>
          [new_mirror_op dm MirrorTopicUnhealthy
             [T ''mirror is unhealthy (status '', T (mi_status m), T '')'']]
      | StatusProgressing \<Rightarrow>
          [new_mirror_op dm MirrorTopicProgressing
             [T ''mirror is still being set up (status '', T (mi_status m), T '')'']]
      | _ \<Rightarrow> [])"

definition mirror_replication_ops :: "desired_mirror \<Rightarrow> topic_state \<Rightarrow> operation list" where
  "mirror_replication_ops dm lt =
     (if dm_replicationFactor dm > 0 \<and> dm_replicationFactor dm \<noteq> tst_replicationFactor lt then
        [(new_mirror_op dm UnsupportedReplicationFactorChange
            [T ''replicationFactor is create-time only for mirror topics: live '',
             T (itoa (tst_replicationFactor lt)), T '', declared '', T (itoa (dm_replicationFactor dm))])
          \<lparr>op_from := itoa (tst_replicationFactor lt), op_to := itoa (dm_replicationFactor dm)\<rparr>]
      else [])"

definition mirror_config_op ::
    "desired_mirror \<Rightarrow> link_info \<Rightarrow> topic_state \<Rightarrow> string \<Rightarrow> operation list" where
  "mirror_config_op dm link lt k =
     (let want = map_value (dm_config dm) k; got = map_value (tst_config lt) k;
          present = mget (tst_config lt) k \<noteq> None
      in case link_managed_rejection link k of
           Some msg \<Rightarrow> [(new_mirror_op dm Rejected msg)\<lparr>op_field := k, op_from := got, op_to := want\<rparr>]
         | None \<Rightarrow>
             (if present \<and> got = want then []
              else
                [(set_mirror_identity dm (new_mirror_op dm UpdateMirrorTopicConfig
                    [T ''config '', T k, T '': '', T (if present then got else ''<unset>''), T '' -> '',
                     T want]))\<lparr>op_field := k, op_from := got, op_to := want\<rparr>]))"

definition live_mirror_ops :: "desired_mirror \<Rightarrow> link_info \<Rightarrow> snapshot \<Rightarrow> operation list" where
  "live_mirror_ops dm link s =
     (let m = mirror_at s (dm_topicName dm); lt = topic_at s (dm_topicName dm)
      in mirror_health_ops dm m @ mirror_replication_ops dm lt @
         concat (map (mirror_config_op dm link lt) (mkeys (dm_config dm))))"

definition mirror_ops_for :: "desired_mirror \<Rightarrow> snapshot option \<Rightarrow> operation list" where
  "mirror_ops_for dm snap =
     (case snap of
        None \<Rightarrow> [new_mirror_op dm StateReadError
            [T ''Kafka REST not configured; cannot read mirror state'']]
      | Some s \<Rightarrow>
          if \<not> complete s then
            [new_mirror_op dm StateReadError (T ''cannot read mirror state: '' #
               (case sn_err s of None \<Rightarrow> [T ''snapshot not read''] | Some e \<Rightarrow> e))]
          else
            (case sn_links s (dm_linkName dm) of
               None \<Rightarrow> [new_mirror_op dm Rejected
                   [T ''link '', Q (dm_linkName dm), T '' not found on the destination cluster'']]
             | Some link \<Rightarrow>
                 (case li_configErr link of
                    Some e \<Rightarrow> [new_mirror_op dm StateReadError
                        ([T ''cannot read link '', Q (dm_linkName dm), T '' configs: ''] @ e)]
                  | None \<Rightarrow>
                      (case check_prefix link (dm_topicName dm) (dm_sourceTopicName dm)
                              (dm_topicNameExplicit dm) of
                         Some e \<Rightarrow> [new_mirror_op dm Rejected e]
                       | None \<Rightarrow>
                           let c = classify s (dm_topicName dm); m = mirror_at s (dm_topicName dm)
                           in if c = Absent then absent_mirror_ops dm link
                              else if c = Normal then
                                [new_mirror_op dm Rejected [T ''topic exists and is not a mirror'']]
                              else if c = StoppedFormerMirror then
                                [new_mirror_op dm Rejected [T ''topic exists and is not a mirror''],
                                 new_mirror_op dm MirrorTopicPromoted
                                   [T ''mirror of '', T (mi_sourceTopicName m), T '' on link '',
                                    T (mi_linkName m), T '' was stopped (status '', T (mi_status m),
                                    T ''); the topic is now a normal topic'']]
                              else if c = UnknownTopic then
                                [new_mirror_op dm StateReadError
                                   [T ''cannot classify topic '', Q (dm_topicName dm), T '': mirror status '',
                                    Q (mi_status m), T '' unrecognized or Kafka/REST state inconsistent'']]
                              else if mi_linkName m \<noteq> dm_linkName dm \<or>
                                      mi_sourceTopicName m \<noteq> dm_sourceTopicName dm then
                                [new_mirror_op dm Rejected
                                   [T ''mirror of '', T (mi_sourceTopicName m), T '' on link '',
                                    T (mi_linkName m), T ''; manifest declares '',
                                    T (dm_sourceTopicName dm), T '' on '', T (dm_linkName dm)]]
                              else if c = StoppingMirror then
                                [new_mirror_op dm MirrorTopicStopping
                                   [T ''mirror is stopping (status '', T (mi_status m), T '')'']]
                              else live_mirror_ops dm link s))))"

definition compute_mirror_ops :: "desired \<Rightarrow> live \<Rightarrow> operation list" where
  "compute_mirror_ops d l =
     (if d_mirrors d = [] then []
      else concat (map (\<lambda>dm. mirror_ops_for dm (l_mirrors l)) (sort_key dm_topicName (d_mirrors d))))"

end
