(* ===== verification/Diff.thy ===== *)
theory Diff
  imports Diff_Mirror
begin

section \<open>Compute (internal/diff/diff.go)\<close>

text \<open>
  The guards that keep topics with mirror state from being mutated, the filters they drive, and
  \<open>Compute\<close>. A guard map is a partial function; its names are listed sorted.
\<close>

definition guard_op :: "snapshot \<Rightarrow> desired_topic \<Rightarrow> operation option" where
  "guard_op s dt =
     (case classify s (dt_name dt) of
        MirrorTopic \<Rightarrow> Some ((topic_op dt Rejected)\<lparr>op_message :=
            [T ''topic '', Q (dt_name dt), T '' is a mirror topic on link '',
             Q (mi_linkName (mirror_at s (dt_name dt))), T ''; manage it with KafkaMirrorTopic'']\<rparr>)
      | StoppingMirror \<Rightarrow> Some ((topic_op dt Rejected)\<lparr>op_message :=
            [T ''topic '', Q (dt_name dt), T '' is a mirror topic on link '',
             Q (mi_linkName (mirror_at s (dt_name dt))), T ''; manage it with KafkaMirrorTopic'']\<rparr>)
      | UnknownTopic \<Rightarrow> Some ((topic_op dt StateReadError)\<lparr>op_message :=
            [T ''cannot read mirror state for topic '', Q (dt_name dt), T '': ''] @
            (if sn_mirrors s (dt_name dt) \<noteq> None \<and> complete s then
               [T ''mirror status '', Q (mi_status (mirror_at s (dt_name dt))),
                T '' unrecognized or Kafka/REST state inconsistent'']
             else case sn_err s of Some e \<Rightarrow> e | None \<Rightarrow> [T ''snapshot not read''])\<rparr>)
      | _ \<Rightarrow> None)"

fun guards_loop ::
    "snapshot \<Rightarrow> desired_topic list \<Rightarrow> (string, operation) gomap \<Rightarrow> (string, operation) gomap" where
  "guards_loop s [] out = out"
| "guards_loop s (dt # dts) out =
     guards_loop s dts
       (case guard_op s dt of None \<Rightarrow> out | Some op \<Rightarrow> AList.update (dt_name dt) op out)"

definition guarded_topics :: "desired \<Rightarrow> live \<Rightarrow> (string, operation) gomap" where
  "guarded_topics d l =
     (case l_mirrors l of None \<Rightarrow> [] | Some s \<Rightarrow> guards_loop s (d_topics d) [])"

definition filter_topic_ops :: "(string, operation) gomap \<Rightarrow> operation list \<Rightarrow> operation list" where
  "filter_topic_ops guards ops =
     filter (\<lambda>op. \<not> (mget guards (op_target op) \<noteq> None \<and>
       op_action op \<in> {CreateTopic, UpdateTopicConfig, IncreasePartitions, UpdateReplicationFactor,
                       Rejected})) ops"

definition filter_acl_ops :: "(string, operation) gomap \<Rightarrow> operation list \<Rightarrow> operation list" where
  "filter_acl_ops guards ops =
     filter (\<lambda>op. \<not> (op_action op = CreateAcl \<and>
       (case op_acl op of
          None \<Rightarrow> False
        | Some a \<Rightarrow> as_resourceType a = ''topic'' \<and> as_patternType a = ''literal'' \<and>
            mget guards (as_resourceName a) \<noteq> None))) ops"

definition filter_schema_ops :: "(string, operation) gomap \<Rightarrow> operation list \<Rightarrow> operation list" where
  "filter_schema_ops guards ops =
     filter (\<lambda>op. \<not> (mget guards (op_topic op) \<noteq> None \<and> op_topic op \<noteq> [])) ops"

definition guard_ops :: "(string, operation) gomap \<Rightarrow> operation list" where
  "guard_ops guards = map (\<lambda>n. the (mget guards n)) (mkeys guards)"

definition op_order_key :: "operation \<Rightarrow> action \<times> string \<times> string \<times> string" where
  "op_order_key op = (op_action op, op_target op, op_field op, op_subject op)"

text \<open>The zero values of \<open>Desired\<close> and \<open>Live\<close>, which callers fill in.\<close>

definition empty_desired :: desired where
  "empty_desired =
     \<lparr>d_topics = [], d_mirrors = [], d_acls = [], d_schemas = [], d_quotas = [], d_users = [],
      d_scope = Map.empty, d_rotatePasswords = False, d_roleBindings = [],
      d_roleBindingScope = Map.empty, d_roleBindingPruneDesired = [],
      d_roleBindingPruneAggregateSet = False, d_pruneDesired = [], d_pruneScope = Map.empty,
      d_pruneAggregateSet = False\<rparr>"

definition empty_live :: live where
  "empty_live =
     \<lparr>l_topics = [], l_acls = [], l_schemas = [], l_quotas = [], l_roleBindings = [],
      l_scramCredentials = [], l_supersededSchemas = Map.empty, l_globalCompatibility = [],
      l_globalCompatibilityErr = [], l_mirrors = None\<rparr>"

definition unsorted_ops :: "desired \<Rightarrow> live \<Rightarrow> operation list" where
  "unsorted_ops d l =
     (let guards = guarded_topics d l;
          topicOps = compute_topic_ops d l;
          aclOps = compute_acl_ops d l;
          schemaOps = compute_schema_ops d l
      in (if guards \<noteq> []
          then filter_topic_ops guards topicOps @ guard_ops guards @ filter_acl_ops guards aclOps @
               filter_schema_ops guards schemaOps
          else topicOps @ aclOps @ schemaOps) @
         compute_quota_ops d l @ compute_role_binding_ops d l @ compute_user_ops d l @
         compute_mirror_ops d l)"

definition compute :: "desired \<Rightarrow> live \<Rightarrow> operation list" where
  "compute d l = sort_key op_order_key (unsorted_ops d l)"

end
