(* ===== verification/Diff_Facts.thy ===== *)
theory Diff_Facts
  imports Diff
begin

section \<open>What the diff emits\<close>

text \<open>
  The interface of the add/prune walk as a locale, interpreted for ACLs and role bindings; which
  actions each diff emits; and the properties of \<open>Compute\<close>.
\<close>

named_theorems diff_ops "definitions of the single operations the diffs emit"

subsection \<open>The add/prune walk\<close>

locale add_prune =
  fixes k :: "'a add_prune_kind"
  assumes emit_action: "op_action (apk_emit k it act) = act"
    and contains_info: "apk_contains k it \<longleftrightarrow> apk_info k it \<noteq> None"
    and actions_differ: "apk_addAction k \<noteq> apk_pruneAction k"
begin

lemma add_op_action [simp]: "op_action (add_op k it) = apk_addAction k"
  by (simp add: add_op_def stamp_owner_def emit_action)

lemma prune_op_action [simp]: "op_action (prune_op k it) = apk_pruneAction k"
  by (auto simp: prune_op_def stamp_owner_def emit_action Let_def split: option.split)

lemma set_ops:
  "set (add_prune_ops k des keep live) =
     add_op k ` {it \<in> set des. apk_key k it \<notin> apk_key k ` set live} \<union>
     prune_op k ` {it \<in> set live. apk_contains k it \<and> apk_key k it \<notin> apk_key k ` set keep}"
  by (simp add: add_prune_ops_def)

lemma action_cases:
  "op \<in> set (add_prune_ops k des keep live) \<Longrightarrow> op_action op \<in> {apk_addAction k, apk_pruneAction k}"
  by (auto simp: set_ops)

lemma addE:
  assumes "op \<in> set (add_prune_ops k des keep live)" "op_action op = apk_addAction k"
  obtains it where "it \<in> set des" "apk_key k it \<notin> apk_key k ` set live" "op = add_op k it"
  using assms actions_differ by (auto simp: set_ops)

lemma pruneE:
  assumes "op \<in> set (add_prune_ops k des keep live)" "op_action op = apk_pruneAction k"
  obtains it info where "it \<in> set live" "apk_key k it \<notin> apk_key k ` set keep"
    "apk_info k it = Some info" "op = prune_op k it"
  using assms actions_differ by (auto simp: set_ops contains_info)

lemma prune_op_covered:
  "apk_info k it = Some info \<Longrightarrow>
   op_pruneAllowed (prune_op k it) = si_prune info \<and> op_mode (prune_op k it) = si_mode info"
  by (simp add: prune_op_def stamp_owner_def Let_def)

lemma add_op_mode: "op_mode (add_op k it) = si_mode (apk_attr k it)"
  by (simp add: add_op_def)

lemma in_sync:
  "add_prune_ops k des keep live = [] \<longleftrightarrow>
     apk_key k ` set des \<subseteq> apk_key k ` set live \<and>
     (\<forall>it \<in> set live. apk_contains k it \<longrightarrow> apk_key k it \<in> apk_key k ` set keep)"
  by (auto simp: add_prune_ops_def filter_empty_conv)

end

lemma acl_apk_simps [simp]:
  "apk_key (acl_apk s) = full_key" "apk_addAction (acl_apk s) = CreateAcl"
  "apk_pruneAction (acl_apk s) = DeleteAcl" "apk_contains (acl_apk s) = scope_contains s"
  "apk_info (acl_apk s) = scope_lookup s"
  by (simp_all add: acl_apk_def)

lemma rb_apk_simps [simp]:
  "apk_key (rb_apk s) = rb_full_key" "apk_addAction (rb_apk s) = AddRoleBinding"
  "apk_pruneAction (rb_apk s) = RemoveRoleBinding" "apk_contains (rb_apk s) = rb_scope_contains s"
  "apk_info (rb_apk s) = rb_scope_lookup s"
  by (simp_all add: rb_apk_def)

interpretation acl_walk: add_prune "acl_apk s" for s
  by unfold_locales (simp_all add: acl_apk_def scope_contains_def scope_lookup_def)

interpretation rb_walk: add_prune "rb_apk s" for s
  by unfold_locales (simp_all add: rb_apk_def rb_scope_contains_def rb_scope_lookup_def)

lemma stamp_owner_payload [simp]:
  "op_acl (stamp_owner a op) = op_acl op" "op_roleBinding (stamp_owner a op) = op_roleBinding op"
  "op_target (stamp_owner a op) = op_target op" "op_action (stamp_owner a op) = op_action op"
  "op_topic (stamp_owner a op) = op_topic op"
  by (simp_all add: stamp_owner_def)

lemma acl_payload [simp]:
  "op_acl (add_op (acl_apk s) a) = Some (acl_to_state a)"
  "op_acl (prune_op (acl_apk s) a) = Some (acl_to_state a)"
  by (simp_all add: add_op_def prune_op_def acl_apk_def Let_def split: option.split)

lemma rb_payload [simp]:
  "op_roleBinding (add_op (rb_apk s) b) = Some b"
  "op_roleBinding (prune_op (rb_apk s) b) = Some b"
  by (simp_all add: add_op_def prune_op_def rb_apk_def Let_def split: option.split)

subsection \<open>The actions of each diff\<close>

lemmas topic_op_defs = topic_op_def create_topic_op_def partition_ops_def config_op_def
  replication_ops_def Let_def

lemma topic_op_simps [simp]:
  "op_action (topic_op dt a) = a" "op_target (topic_op dt a) = dt_name dt"
  "op_mode (topic_op dt a) = dt_mode dt"
  by (simp_all add: topic_op_def)

lemma create_topic_op_simps [simp]:
  "op_action (create_topic_op dt) = CreateTopic" "op_target (create_topic_op dt) = dt_name dt"
  by (simp_all add: create_topic_op_def)

lemma partition_ops_actions:
  "op \<in> set (partition_ops dt lt) \<Longrightarrow>
   op_target op = dt_name dt \<and> op_action op \<in> {Rejected, IncreasePartitions}"
  by (auto simp: partition_ops_def split: if_splits)

lemma config_op_actions:
  "op \<in> set (config_op dt lt k) \<Longrightarrow> op_target op = dt_name dt \<and> op_action op = UpdateTopicConfig"
  by (simp add: config_op_def Let_def split: if_split_asm)

lemma replication_ops_actions:
  "op \<in> set (replication_ops dt lt) \<Longrightarrow>
   op_target op = dt_name dt \<and> op_action op = UpdateReplicationFactor"
  by (simp add: replication_ops_def split: if_split_asm)

lemma topic_ops_for_actions:
  assumes "op \<in> set (topic_ops_for dt t)"
  shows "op_target op = dt_name dt \<and>
    op_action op \<in> {CreateTopic, UpdateTopicConfig, IncreasePartitions, UpdateReplicationFactor, Rejected}"
proof (cases t)
  case None
  then show ?thesis using assms by (simp add: topic_ops_for_def)
next
  case (Some lt)
  then consider "op \<in> set (partition_ops dt lt)" | k where "op \<in> set (config_op dt lt k)"
    | "op \<in> set (replication_ops dt lt)"
    using assms by (auto simp: topic_ops_for_def)
  then show ?thesis
    by cases (auto dest: partition_ops_actions config_op_actions replication_ops_actions)
qed

lemma compute_topic_actions:
  "op \<in> set (compute_topic_ops d l) \<Longrightarrow> op_target op \<in> dt_name ` set (d_topics d) \<and>
   op_action op \<in> {CreateTopic, UpdateTopicConfig, IncreasePartitions, UpdateReplicationFactor, Rejected}"
  using topic_ops_for_actions by (fastforce simp: compute_topic_ops_def Let_def)

lemma compute_acl_actions:
  "op \<in> set (compute_acl_ops d l) \<Longrightarrow> op_action op \<in> {CreateAcl, DeleteAcl}"
  using acl_walk.action_cases by (fastforce simp: compute_acl_ops_def split: prod.splits)

lemma compute_role_binding_actions:
  "op \<in> set (compute_role_binding_ops d l) \<Longrightarrow> op_action op \<in> {AddRoleBinding, RemoveRoleBinding}"
  using rb_walk.action_cases by (fastforce simp: compute_role_binding_ops_def)

lemma compatibility_op_simps [simp]:
  "op_action (compatibility_op ds lv g) \<in> {RaiseSchemaCompatibility, LowerSchemaCompatibility}"
  "op_target (compatibility_op ds lv g) = ds_subject ds"
  "op_subject (compatibility_op ds lv g) = ds_subject ds"
  "op_compatibility (compatibility_op ds lv g) = ds_compatibility ds"
  "op_topic (compatibility_op ds lv g) = ds_topic ds"
  by (simp_all add: compatibility_op_def Let_def)

lemma register_op_simps [simp]:
  "op_action (register_op ds) = RegisterSchema" "op_subject (register_op ds) = ds_subject ds"
  "op_schemaDef (register_op ds) = ds_definition ds" "op_topic (register_op ds) = ds_topic ds"
  by (simp_all add: register_op_def)

lemma superseded_op_simps [simp]:
  "op_action (superseded_op ds v v') = SchemaSuperseded"
  "op_subject (superseded_op ds v v') = ds_subject ds" "op_topic (superseded_op ds v v') = ds_topic ds"
  by (simp_all add: superseded_op_def)

lemma schema_ops_for_actions:
  "op \<in> set (schema_ops_for l ds p) \<Longrightarrow> op_topic op = ds_topic ds \<and> op_subject op = ds_subject ds \<and>
   op_action op \<in> {RegisterSchema, RaiseSchemaCompatibility, LowerSchemaCompatibility, SchemaSuperseded}"
  using compatibility_op_simps(1) [of ds]
  by (auto simp: schema_ops_for_def Let_def split: option.splits if_splits)

lemma compute_schema_actions:
  "op \<in> set (compute_schema_ops d l) \<Longrightarrow>
   op_action op \<in> {RegisterSchema, RaiseSchemaCompatibility, LowerSchemaCompatibility, SchemaSuperseded}"
  using schema_ops_for_actions by (fastforce simp: compute_schema_ops_def Let_def)

lemma quota_op_simps [simp]:
  "op_action (quota_op dq a m) = a" "op_quotaLimits (quota_op dq a m) = m"
  "op_quotaEntity (quota_op dq a m) = quota_entity_components (dq_entity dq)"
  by (simp_all add: quota_op_def)

lemma compute_quota_actions:
  "op \<in> set (compute_quota_ops d l) \<Longrightarrow> op_action op \<in> {SetQuota, UpdateQuota, RemoveQuota}"
  by (auto simp: compute_quota_ops_def quota_ops_for_def Let_def split: option.splits if_splits)

lemma user_op_simps [simp]:
  "op_action (user_op du a) = a" "op_scramUser (user_op du a) = cr_username (du_credential du)"
  "op_scramMechanism (user_op du a) = cr_mechanism (du_credential du)"
  "op_scramDeleteMechanism (user_op du a) = []"
  by (simp_all add: user_op_def Let_def)

lemma user_ops_for_actions:
  "op \<in> set (user_ops_for rot m du) \<Longrightarrow> op_scramUser op = cr_username (du_credential du) \<and>
   op_action op \<in> {CreateScramCredential, UpdateScramCredential, RotateScramCredential}"
  by (cases "mget m (cr_mechanism (du_credential du))")
     (simp_all add: user_ops_for_def Let_def split: if_split_asm)

lemma compute_user_actions:
  "op \<in> set (compute_user_ops d l) \<Longrightarrow>
   op_scramUser op \<in> (cr_username \<circ> du_credential) ` set (d_users d) \<and>
   op_action op \<in> {CreateScramCredential, UpdateScramCredential, RotateScramCredential}"
  using user_ops_for_actions by (fastforce simp: compute_user_ops_def)

lemma new_mirror_op_simps [simp]:
  "op_action (new_mirror_op dm a m) = a" "op_target (new_mirror_op dm a m) = dm_topicName dm"
  "op_mode (new_mirror_op dm a m) = dm_mode dm"
  by (simp_all add: new_mirror_op_def)

lemma set_mirror_identity_simps [simp]:
  "op_action (set_mirror_identity dm op) = op_action op"
  "op_target (set_mirror_identity dm op) = op_target op"
  "op_mirrorLink (set_mirror_identity dm op) = dm_linkName dm"
  "op_mirrorSource (set_mirror_identity dm op) = dm_sourceTopicName dm"
  "op_mirrorNameExplicit (set_mirror_identity dm op) = dm_topicNameExplicit dm"
  by (simp_all add: set_mirror_identity_def)

lemma absent_mirror_actions:
  "op \<in> set (absent_mirror_ops dm link) \<Longrightarrow> op_action op \<in> {Rejected, CreateMirrorTopic}"
  by (auto simp: absent_mirror_ops_def Let_def split: if_splits option.splits)

lemma mirror_health_actions:
  "op \<in> set (mirror_health_ops dm m) \<Longrightarrow>
   op_action op \<in> {MirrorTopicUnhealthy, MirrorTopicProgressing} \<and> op_target op = dm_topicName dm"
  by (auto simp: mirror_health_ops_def split: status_class.splits)

lemma mirror_replication_actions:
  "op \<in> set (mirror_replication_ops dm lt) \<Longrightarrow>
   op_action op = UnsupportedReplicationFactorChange \<and> op_target op = dm_topicName dm"
  by (simp add: mirror_replication_ops_def split: if_split_asm)

lemma mirror_config_actions:
  "op \<in> set (mirror_config_op dm link lt k) \<Longrightarrow>
   op_action op \<in> {Rejected, UpdateMirrorTopicConfig} \<and> op_target op = dm_topicName dm"
  by (cases "link_managed_rejection link k") (simp_all add: mirror_config_op_def Let_def split: if_split_asm)

lemma live_mirror_actions:
  assumes "op \<in> set (live_mirror_ops dm link s)"
  shows "op_action op \<in> {Rejected, MirrorTopicUnhealthy, MirrorTopicProgressing,
     UnsupportedReplicationFactorChange, UpdateMirrorTopicConfig}"
proof -
  consider m where "op \<in> set (mirror_health_ops dm m)" | lt where "op \<in> set (mirror_replication_ops dm lt)"
    | lt k where "op \<in> set (mirror_config_op dm link lt k)"
    using assms by (auto simp: live_mirror_ops_def Let_def)
  then show ?thesis
    by cases (auto dest: mirror_health_actions mirror_replication_actions mirror_config_actions)
qed

definition mirror_actions :: "action set" where
  "mirror_actions =
     {CreateMirrorTopic, UpdateMirrorTopicConfig} \<union> (Collect finding - {SchemaSuperseded})"

lemma mirror_ops_for_cases:
  assumes "op \<in> set (mirror_ops_for dm snap)"
  obtains (finding) "finding (op_action op)" "op_action op \<noteq> SchemaSuperseded"
  | (absent) s link where "snap = Some s" "complete s" "sn_links s (dm_linkName dm) = Some link"
      "li_configErr link = None"
      "check_prefix link (dm_topicName dm) (dm_sourceTopicName dm) (dm_topicNameExplicit dm) = None"
      "classify s (dm_topicName dm) = Absent" "op \<in> set (absent_mirror_ops dm link)"
  | (live) s link where "snap = Some s" "complete s" "sn_links s (dm_linkName dm) = Some link"
      "li_configErr link = None"
      "check_prefix link (dm_topicName dm) (dm_sourceTopicName dm) (dm_topicNameExplicit dm) = None"
      "classify s (dm_topicName dm) = MirrorTopic"
      "mi_linkName (mirror_at s (dm_topicName dm)) = dm_linkName dm"
      "mi_sourceTopicName (mirror_at s (dm_topicName dm)) = dm_sourceTopicName dm"
      "op \<in> set (live_mirror_ops dm link s)"
proof -
  have fin: ?thesis if "op = new_mirror_op dm a m" "finding a" "a \<noteq> SchemaSuperseded" for a m
    using that finding by simp
  note fd = finding_def
  show ?thesis
  proof (cases snap)
    case None
    then show ?thesis using assms by (intro fin) (auto simp: mirror_ops_for_def fd)
  next
    case (Some s)
    note s = this
    show ?thesis
    proof (cases "complete s \<and> (\<exists>link. sn_links s (dm_linkName dm) = Some link \<and> li_configErr link = None \<and>
        check_prefix link (dm_topicName dm) (dm_sourceTopicName dm) (dm_topicNameExplicit dm) = None)")
      case False
      then show ?thesis using assms s
        by (cases "sn_links s (dm_linkName dm)")
           (auto simp: mirror_ops_for_def fd intro!: finding split: if_splits option.splits)
    next
      case True
      then obtain link where link: "complete s" "sn_links s (dm_linkName dm) = Some link"
        "li_configErr link = None"
        "check_prefix link (dm_topicName dm) (dm_sourceTopicName dm) (dm_topicNameExplicit dm) = None"
        by blast
      show ?thesis
      proof (cases "classify s (dm_topicName dm)")
        case Absent
        then show ?thesis using assms s link by (intro absent) (simp_all add: mirror_ops_for_def Let_def)
      next
        case MirrorTopic
        show ?thesis
        proof (cases "mi_linkName (mirror_at s (dm_topicName dm)) = dm_linkName dm \<and>
            mi_sourceTopicName (mirror_at s (dm_topicName dm)) = dm_sourceTopicName dm")
          case True
          then show ?thesis using assms s link MirrorTopic
            by (intro live) (simp_all add: mirror_ops_for_def Let_def)
        next
          case False
          then show ?thesis using assms s link MirrorTopic
            by (intro finding) (auto simp: mirror_ops_for_def Let_def fd)
        qed
      qed (use assms s link in \<open>auto simp: mirror_ops_for_def Let_def fd intro!: finding split: if_splits\<close>)
    qed
  qed
qed

lemma mirror_ops_for_actions:
  "op \<in> set (mirror_ops_for dm s) \<Longrightarrow> op_action op \<in> mirror_actions"
  by (erule mirror_ops_for_cases)
     (auto simp: mirror_actions_def finding_def dest!: absent_mirror_actions live_mirror_actions)

lemma compute_mirror_actions:
  "op \<in> set (compute_mirror_ops d l) \<Longrightarrow> op_action op \<in> mirror_actions"
  using mirror_ops_for_actions by (fastforce simp: compute_mirror_ops_def split: if_splits)

subsection \<open>Guards\<close>

lemma guard_op_Some:
  "guard_op s dt = Some op \<Longrightarrow> op_target op = dt_name dt \<and> op_action op \<in> {Rejected, StateReadError}"
  by (auto simp: guard_op_def split: classification.splits)

lemma guard_op_None:
  "guard_op s dt = None \<longleftrightarrow> classify s (dt_name dt) \<in> {Absent, Normal, StoppedFormerMirror}"
  by (auto simp: guard_op_def split: classification.splits)

lemma guards_loop_Some:
  "mget (guards_loop s dts out) n = Some op \<Longrightarrow>
   mget out n = Some op \<or> (\<exists>dt \<in> set dts. dt_name dt = n \<and> guard_op s dt = Some op)"
proof (induction dts arbitrary: out)
  case Nil
  then show ?case by simp
next
  case (Cons dt dts)
  then show ?case
    by (cases "guard_op s dt") (fastforce simp: update_conv' split: if_splits)+
qed

lemma guards_loop_dom:
  "mget (guards_loop s dts out) n \<noteq> None \<longleftrightarrow>
   mget out n \<noteq> None \<or> (\<exists>dt \<in> set dts. dt_name dt = n \<and> guard_op s dt \<noteq> None)"
proof (induction dts arbitrary: out)
  case Nil
  then show ?case by simp
next
  case (Cons dt dts)
  then show ?case by (cases "guard_op s dt") (auto simp: update_conv')
qed

lemma guarded_topics_dom:
  "mget (guarded_topics d l) n \<noteq> None \<longleftrightarrow>
   (\<exists>s. l_mirrors l = Some s \<and> n \<in> dt_name ` set (d_topics d) \<and>
      classify s n \<in> {MirrorTopic, StoppingMirror, UnknownTopic})"
proof (cases "l_mirrors l")
  case None
  then show ?thesis by (simp add: guarded_topics_def)
next
  case (Some s)
  have g: "guard_op s dt \<noteq> None \<longleftrightarrow> classify s (dt_name dt) \<in> {MirrorTopic, StoppingMirror, UnknownTopic}" for dt
    by (cases "classify s (dt_name dt)") (simp_all add: guard_op_def)
  have "mget (guarded_topics d l) n \<noteq> None \<longleftrightarrow>
      (\<exists>dt \<in> set (d_topics d). dt_name dt = n \<and> guard_op s dt \<noteq> None)"
    using guards_loop_dom [of s "d_topics d" "[]" n] Some by (simp add: guarded_topics_def)
  also have "\<dots> \<longleftrightarrow> n \<in> dt_name ` set (d_topics d) \<and> classify s n \<in> {MirrorTopic, StoppingMirror, UnknownTopic}"
    unfolding g by blast
  finally show ?thesis using Some by simp
qed

lemma guarded_topics_Some:
  "mget (guarded_topics d l) n = Some op \<Longrightarrow>
   op_target op = n \<and> op_action op \<in> {Rejected, StateReadError}"
  by (auto simp: guarded_topics_def split: option.splits dest!: guards_loop_Some guard_op_Some)

lemma guard_ops_mem:
  "op \<in> set (guard_ops g) \<longleftrightarrow> (\<exists>n. mget g n = Some op)"
  by (force simp: guard_ops_def dom_def)

lemma unsorted_ops_cases:
  "op \<in> set (unsorted_ops d l) \<longleftrightarrow>
     op \<in> set (filter_topic_ops (guarded_topics d l) (compute_topic_ops d l)) \<or>
     op \<in> set (guard_ops (guarded_topics d l)) \<or>
     op \<in> set (filter_acl_ops (guarded_topics d l) (compute_acl_ops d l)) \<or>
     op \<in> set (filter_schema_ops (guarded_topics d l) (compute_schema_ops d l)) \<or>
     op \<in> set (compute_quota_ops d l) \<or> op \<in> set (compute_role_binding_ops d l) \<or>
     op \<in> set (compute_user_ops d l) \<or> op \<in> set (compute_mirror_ops d l)"
proof (cases "guarded_topics d l = []")
  case True
  have "filter_topic_ops [] xs = xs" "filter_acl_ops [] xs = xs" "filter_schema_ops [] xs = xs" for xs
    by (simp_all add: filter_topic_ops_def filter_acl_ops_def filter_schema_ops_def split: option.split)
  then show ?thesis using True by (simp add: unsorted_ops_def Let_def guard_ops_def)
next
  case False
  then show ?thesis by (simp add: unsorted_ops_def Let_def)
qed

lemma set_compute [simp]: "set (compute d l) = set (unsorted_ops d l)"
  by (simp add: compute_def)

lemmas part_actions = compute_topic_actions compute_acl_actions compute_schema_actions
  compute_quota_actions compute_role_binding_actions compute_user_actions compute_mirror_actions

lemma guard_ops_actions:
  "op \<in> set (guard_ops (guarded_topics d l)) \<Longrightarrow> op_action op \<in> {Rejected, StateReadError}"
  using guarded_topics_Some by (fastforce simp: guard_ops_mem)

text \<open>The actions of the parts of the operation list; two parts share findings only.\<close>

lemma not_in_part:
  "op_action op \<notin> {CreateTopic, UpdateTopicConfig, IncreasePartitions, UpdateReplicationFactor, Rejected} \<Longrightarrow>
     op \<notin> set (compute_topic_ops d l)"
  "op_action op \<notin> {Rejected, StateReadError} \<Longrightarrow> op \<notin> set (guard_ops (guarded_topics d l))"
  "op_action op \<notin> {CreateAcl, DeleteAcl} \<Longrightarrow> op \<notin> set (compute_acl_ops d l)"
  "op_action op \<notin> {RegisterSchema, RaiseSchemaCompatibility, LowerSchemaCompatibility, SchemaSuperseded} \<Longrightarrow>
     op \<notin> set (compute_schema_ops d l)"
  "op_action op \<notin> {SetQuota, UpdateQuota, RemoveQuota} \<Longrightarrow> op \<notin> set (compute_quota_ops d l)"
  "op_action op \<notin> {AddRoleBinding, RemoveRoleBinding} \<Longrightarrow> op \<notin> set (compute_role_binding_ops d l)"
  "op_action op \<notin> {CreateScramCredential, UpdateScramCredential, RotateScramCredential} \<Longrightarrow>
     op \<notin> set (compute_user_ops d l)"
  "op_action op \<notin> mirror_actions \<Longrightarrow> op \<notin> set (compute_mirror_ops d l)"
  using part_actions [of op d l] guard_ops_actions [of op d l] by blast+

end
