(* ===== verification/Diff_Props.thy ===== *)
theory Diff_Props
  imports Diff_Facts
begin

section \<open>Properties of the diff\<close>

text \<open>
  What \<open>Compute\<close> may and may not emit, exactly when it creates and prunes, that it fails closed on
  unreadable mirror state, and that its output does not depend on the order of its inputs.
\<close>

subsection \<open>Actions\<close>

lemma compute_actions_bounded:
  assumes "op \<in> set (compute d l)"
  shows "op_action op \<notin> {DeleteTopic, DeleteSubject, DeleteScramCredential, NoOp}"
  using assms unfolding set_compute unsorted_ops_cases
proof (elim disjE)
  assume "op \<in> set (guard_ops (guarded_topics d l))"
  then show ?thesis using guarded_topics_Some by (fastforce simp: guard_ops_mem)
next
  assume "op \<in> set (compute_mirror_ops d l)"
  from compute_mirror_actions [OF this] show ?thesis by (auto simp: mirror_actions_def finding_def)
qed (auto simp: filter_topic_ops_def filter_acl_ops_def filter_schema_ops_def
    dest!: compute_topic_actions compute_acl_actions compute_schema_actions compute_quota_actions
      compute_role_binding_actions compute_user_actions)

lemma live_mechs_dom:
  "mget (live_mechs cs u m) k \<noteq> None \<longleftrightarrow> mget m k \<noteq> None \<or> (\<exists>c \<in> set cs. scr_user c = u \<and> scr_mechanism c = k)"
  by (induction cs arbitrary: m) (auto simp: update_conv')

lemma user_ops_drop:
  assumes "op \<in> set (user_ops_for rot m du)" "op_scramDeleteMechanism op \<noteq> []"
  shows "op_action op = UpdateScramCredential \<and> mget m (op_scramMechanism op) = None \<and>
    op_scramMechanism op = cr_mechanism (du_credential du) \<and> mget m (op_scramDeleteMechanism op) \<noteq> None"
proof (cases "mget m (cr_mechanism (du_credential du))")
  case None
  have "hd (mkeys m) \<in> set (mkeys m)" if "m \<noteq> []"
  proof -
    have "mkeys m \<noteq> []" using that by (metis mkeys_def remdups_eq_nil_iff sort_key_simps(1) set_empty set_sort map_is_Nil_conv)
    then show ?thesis by (rule hd_in_set)
  qed
  then show ?thesis using None assms by (auto simp: user_ops_for_def Let_def split: if_splits)
next
  case (Some i)
  then show ?thesis using assms by (auto simp: user_ops_for_def Let_def split: if_splits)
qed

text \<open>
  C35. What a diff may take away. It schedules no deletion of a topic or a schema subject and no
  \<open>DeleteScramCredential\<close>. A credential is dropped in one case only, inside an update that first writes the
  declared one: the user is declared, it has no live credential of the declared mechanism, and the
  mechanism dropped is another live one of the same user. And a quota operation removes only keys that the
  entity has live and its declared quota does not have.
\<close>

theorem compute_never_deletes:
  assumes "op \<in> set (compute d l)"
  shows "op_action op \<notin> {DeleteTopic, DeleteSubject, DeleteScramCredential, NoOp} \<and>
    (op_action op \<in> {CreateScramCredential, UpdateScramCredential, RotateScramCredential} \<and>
       op_scramDeleteMechanism op \<noteq> [] \<longrightarrow>
       op_action op = UpdateScramCredential \<and>
       (\<exists>du \<in> set (d_users d). op_scramUser op = cr_username (du_credential du) \<and>
          op_scramMechanism op = cr_mechanism (du_credential du)) \<and>
       (\<exists>c \<in> set (l_scramCredentials l). scr_user c = op_scramUser op \<and> scr_mechanism c = op_scramDeleteMechanism op) \<and>
       \<not> (\<exists>c \<in> set (l_scramCredentials l). scr_user c = op_scramUser op \<and> scr_mechanism c = op_scramMechanism op)) \<and>
    (op_action op = RemoveQuota \<longrightarrow>
       (\<exists>dq \<in> set (d_quotas d). \<exists>lq \<in> set (l_quotas l). live_quota_key lq = entity_key (dq_entity dq) \<and>
          op_quotaEntity op = quota_entity_components (dq_entity dq) \<and>
          (\<forall>k \<in> fst ` set (op_quotaLimits op). mget (dq_limits dq) k = None \<and> mget (qst_limits lq) k \<noteq> None)))"
proof (intro conjI impI)
  show "op_action op \<notin> {DeleteTopic, DeleteSubject, DeleteScramCredential, NoOp}"
    by (rule compute_actions_bounded [OF assms])
next
  assume a: "op_action op \<in> {CreateScramCredential, UpdateScramCredential, RotateScramCredential} \<and>
    op_scramDeleteMechanism op \<noteq> []"
  then have "op \<in> set (compute_user_ops d l)"
    using assms by (auto simp: not_in_part unsorted_ops_cases filter_topic_ops_def filter_acl_ops_def
        filter_schema_ops_def mirror_actions_def finding_def)
  then obtain du where du: "du \<in> set (d_users d)"
    "op \<in> set (user_ops_for (d_rotatePasswords d) (live_mechs (l_scramCredentials l) (cr_username (du_credential du)) []) du)"
    by (auto simp: compute_user_ops_def)
  note drop = user_ops_drop [OF du(2) a [THEN conjunct2]] user_ops_for_actions [OF du(2)]
  show "op_action op = UpdateScramCredential" using drop by blast
  show "\<exists>du \<in> set (d_users d). op_scramUser op = cr_username (du_credential du) \<and>
      op_scramMechanism op = cr_mechanism (du_credential du)" using du(1) drop by blast
  show "\<exists>c \<in> set (l_scramCredentials l). scr_user c = op_scramUser op \<and> scr_mechanism c = op_scramDeleteMechanism op"
    using drop live_mechs_dom [of "l_scramCredentials l" "op_scramUser op" "[]" "op_scramDeleteMechanism op"] by auto
  show "\<not> (\<exists>c \<in> set (l_scramCredentials l). scr_user c = op_scramUser op \<and> scr_mechanism c = op_scramMechanism op)"
    using drop live_mechs_dom [of "l_scramCredentials l" "op_scramUser op" "[]" "op_scramMechanism op"] by auto
next
  assume a: "op_action op = RemoveQuota"
  then have "op \<in> set (compute_quota_ops d l)"
    using assms by (auto simp: not_in_part unsorted_ops_cases filter_topic_ops_def filter_acl_ops_def
        filter_schema_ops_def mirror_actions_def finding_def)
  then obtain dq where dq: "dq \<in> set (d_quotas d)"
    "op \<in> set (quota_ops_for dq (index_by live_quota_key (l_quotas l) Map.empty (entity_key (dq_entity dq))))"
    by (auto simp: compute_quota_ops_def Let_def)
  then obtain lq where lq: "index_by live_quota_key (l_quotas l) Map.empty (entity_key (dq_entity dq)) = Some lq"
    using a by (auto simp: quota_ops_for_def split: option.splits)
  then have op: "op = quota_op dq RemoveQuota (map (\<lambda>k. (k, 0)) (filter (\<lambda>k. mget (dq_limits dq) k = None) (mkeys (qst_limits lq))))"
    using a dq(2) by (auto simp: quota_ops_for_def Let_def split: if_splits)
  show "\<exists>dq \<in> set (d_quotas d). \<exists>lq \<in> set (l_quotas l). live_quota_key lq = entity_key (dq_entity dq) \<and>
      op_quotaEntity op = quota_entity_components (dq_entity dq) \<and>
      (\<forall>k \<in> fst ` set (op_quotaLimits op). mget (dq_limits dq) k = None \<and> mget (qst_limits lq) k \<noteq> None)"
    using dq(1) index_by_empty_Some [OF lq] by (intro bexI [of _ dq] bexI [of _ lq]) (auto simp: op)
qed

definition changed_user :: operation where
  "changed_user = hd (compute
     (empty_desired\<lparr>d_users := [\<lparr>du_credential = \<lparr>cr_username = ''svc'', cr_mechanism = ''SCRAM-SHA-512'',
        cr_iterations = 0\<rparr>, du_passwordRef = None\<rparr>]\<rparr>)
     (empty_live\<lparr>l_scramCredentials := [\<lparr>scr_user = ''svc'', scr_mechanism = ''SCRAM-SHA-256'', scr_iterations = 4096\<rparr>]\<rparr>))"

theorem compute_never_deletes_witness:
  "op_action changed_user = UpdateScramCredential \<and> op_scramDeleteMechanism changed_user = ''SCRAM-SHA-256'' \<and>
   op_action changed_user \<notin> {DeleteTopic, DeleteSubject, DeleteScramCredential, NoOp}"
proof (intro conjI)
  show "op_action changed_user = UpdateScramCredential" "op_scramDeleteMechanism changed_user = ''SCRAM-SHA-256''"
    by code_simp+
  have "changed_user \<in> set (compute
     (empty_desired\<lparr>d_users := [\<lparr>du_credential = \<lparr>cr_username = ''svc'', cr_mechanism = ''SCRAM-SHA-512'',
        cr_iterations = 0\<rparr>, du_passwordRef = None\<rparr>]\<rparr>)
     (empty_live\<lparr>l_scramCredentials := [\<lparr>scr_user = ''svc'', scr_mechanism = ''SCRAM-SHA-256'', scr_iterations = 4096\<rparr>]\<rparr>))"
    unfolding changed_user_def by (rule hd_in_set) code_simp
  then show "op_action changed_user \<notin> {DeleteTopic, DeleteSubject, DeleteScramCredential, NoOp}"
    by (rule compute_never_deletes [THEN conjunct1])
qed

subsection \<open>ACLs and role bindings\<close>

lemma compute_acl_walk:
  "compute_acl_ops d l =
     add_prune_ops (acl_apk (snd (prune_inputs d))) (d_acls d) (fst (prune_inputs d)) (l_acls l)"
  by (simp add: compute_acl_ops_def split: prod.split)

text \<open>Which part of the operation list an action can come from.\<close>

lemma compute_acl_part:
  assumes "op_action op \<in> {CreateAcl, DeleteAcl}"
  shows "op \<in> set (compute d l) \<longleftrightarrow> op \<in> set (filter_acl_ops (guarded_topics d l) (compute_acl_ops d l))"
  using assms
  by (elim insertE emptyE)
     (simp_all add: not_in_part unsorted_ops_cases filter_topic_ops_def filter_schema_ops_def
       filter_acl_ops_def mirror_actions_def finding_def)

lemma compute_role_binding_part:
  assumes "op_action op \<in> {AddRoleBinding, RemoveRoleBinding}"
  shows "op \<in> set (compute d l) \<longleftrightarrow> op \<in> set (compute_role_binding_ops d l)"
  using assms
  by (elim insertE emptyE)
     (simp_all add: not_in_part unsorted_ops_cases filter_topic_ops_def filter_schema_ops_def
       filter_acl_ops_def mirror_actions_def finding_def)

lemma compute_topic_part:
  assumes "op_action op \<in> {CreateTopic, UpdateTopicConfig, IncreasePartitions, UpdateReplicationFactor}"
  shows "op \<in> set (compute d l) \<longleftrightarrow> op \<in> set (filter_topic_ops (guarded_topics d l) (compute_topic_ops d l))"
  using assms
  by (elim insertE emptyE)
     (simp_all add: not_in_part unsorted_ops_cases filter_schema_ops_def filter_acl_ops_def
       mirror_actions_def finding_def)

definition is_schema_plan_action :: "action \<Rightarrow> bool" where
  "is_schema_plan_action a \<longleftrightarrow> a \<in> {RegisterSchema, RaiseSchemaCompatibility, LowerSchemaCompatibility,
     SchemaSuperseded}"

lemma compute_schema_part:
  assumes "is_schema_plan_action (op_action op)"
  shows "op \<in> set (compute d l) \<longleftrightarrow>
    op \<in> set (filter_schema_ops (guarded_topics d l) (compute_schema_ops d l))"
  using assms unfolding is_schema_plan_action_def
  by (elim insertE emptyE)
     (simp_all add: not_in_part unsorted_ops_cases filter_topic_ops_def filter_acl_ops_def
       mirror_actions_def finding_def)

text \<open>
  C34. Prune safety. \<open>Compute\<close> emits a \<open>DeleteAcl\<close> exactly for the live tuples that no covering
  resource desires and that lie in the managed scope, stamped with the scope's consent and mode.
\<close>

theorem delete_acl_iff:
  "op \<in> set (compute d l) \<and> op_action op = DeleteAcl \<longleftrightarrow>
   (\<exists>a \<in> set (l_acls l). \<exists>info.
      full_key a \<notin> full_key ` set (fst (prune_inputs d)) \<and>
      scope_lookup (snd (prune_inputs d)) a = Some info \<and>
      op = prune_op (acl_apk (snd (prune_inputs d))) a \<and>
      op_acl op = Some (acl_to_state a) \<and> op_pruneAllowed op = si_prune info \<and> op_mode op = si_mode info)"
  (is "?L \<longleftrightarrow> ?R")
proof
  assume L: ?L
  then have "op \<in> set (compute_acl_ops d l)"
    using compute_acl_part [of op d l] by (simp add: filter_acl_ops_def)
  then show ?R
    using L acl_walk.pruneE [of op "snd (prune_inputs d)" "d_acls d" "fst (prune_inputs d)" "l_acls l"]
      acl_walk.prune_op_covered
    by (simp add: compute_acl_walk) (metis acl_payload(2))
next
  assume ?R
  then obtain a info where a: "a \<in> set (l_acls l)" "full_key a \<notin> full_key ` set (fst (prune_inputs d))"
    "scope_lookup (snd (prune_inputs d)) a = Some info"
    and op: "op = prune_op (acl_apk (snd (prune_inputs d))) a" by blast
  have act: "op_action op = DeleteAcl" by (simp add: op)
  have "scope_contains (snd (prune_inputs d)) a"
    using a(3) by (simp add: scope_contains_def scope_lookup_def)
  then have "op \<in> set (compute_acl_ops d l)"
    unfolding compute_acl_walk acl_walk.set_ops using a op by simp
  then show ?L using compute_acl_part [of op d l] act by (simp add: filter_acl_ops_def)
qed

text \<open>
  \<open>Compute\<close> emits a \<open>CreateAcl\<close> exactly for the desired tuples that are not live, except
  those on the literal topic resource of a topic whose mirror state forbids touching it.
\<close>

theorem create_acl_iff:
  "op \<in> set (compute d l) \<and> op_action op = CreateAcl \<longleftrightarrow>
   (\<exists>a \<in> set (d_acls d).
      full_key a \<notin> full_key ` set (l_acls l) \<and>
      \<not> (acl_resourceType a = ''topic'' \<and> acl_patternType a = ''literal'' \<and>
         mget (guarded_topics d l) (acl_resourceName a) \<noteq> None) \<and>
      op = add_op (acl_apk (snd (prune_inputs d))) a \<and>
      op_acl op = Some (acl_to_state a) \<and> op_mode op = acl_mode a)"
  (is "?L \<longleftrightarrow> ?R")
proof
  assume L: ?L
  then have "op \<in> set (filter_acl_ops (guarded_topics d l) (compute_acl_ops d l))"
    using compute_acl_part [of op d l] by simp
  then have m: "op \<in> set (add_prune_ops (acl_apk (snd (prune_inputs d))) (d_acls d)
      (fst (prune_inputs d)) (l_acls l))"
    and g: "\<not> (case op_acl op of None \<Rightarrow> False | Some a \<Rightarrow> as_resourceType a = ''topic'' \<and>
      as_patternType a = ''literal'' \<and> mget (guarded_topics d l) (as_resourceName a) \<noteq> None)"
    using L by (simp_all add: filter_acl_ops_def compute_acl_walk)
  have "op_action op = apk_addAction (acl_apk (snd (prune_inputs d)))" using L by simp
  with m obtain a where a: "a \<in> set (d_acls d)" "full_key a \<notin> full_key ` set (l_acls l)"
    "op = add_op (acl_apk (snd (prune_inputs d))) a"
    by (rule acl_walk.addE) simp
  have "op_acl op = Some (acl_to_state a)" "op_mode op = acl_mode a"
    by (simp_all add: a(3) acl_walk.add_op_mode) (simp add: acl_apk_def)
  then show ?R using a g by (auto simp: acl_to_state_def)
next
  assume ?R
  then obtain a where a: "a \<in> set (d_acls d)" "full_key a \<notin> full_key ` set (l_acls l)"
    "\<not> (acl_resourceType a = ''topic'' \<and> acl_patternType a = ''literal'' \<and>
         mget (guarded_topics d l) (acl_resourceName a) \<noteq> None)"
    and op: "op = add_op (acl_apk (snd (prune_inputs d))) a" "op_acl op = Some (acl_to_state a)" by blast
  have act: "op_action op = CreateAcl" by (simp add: op)
  have "op \<in> set (compute_acl_ops d l)"
    unfolding compute_acl_walk acl_walk.set_ops using a op by simp
  then have "op \<in> set (filter_acl_ops (guarded_topics d l) (compute_acl_ops d l))"
    using a(3) op(2) by (simp add: filter_acl_ops_def acl_to_state_def)
  then show ?L using compute_acl_part [of op d l] act by simp
qed

text \<open>
  Role bindings: an add exactly for each desired binding that is not live, a removal exactly
  for each live binding in scope that is outside the keep-set, with the scope's consent.
\<close>

theorem role_binding_ops_iff:
  "(op \<in> set (compute d l) \<and> op_action op = AddRoleBinding \<longleftrightarrow>
    (\<exists>b \<in> set (d_roleBindings d). rb_full_key b \<notin> rb_full_key ` set (l_roleBindings l) \<and>
       op = add_op (rb_apk (d_roleBindingScope d)) b)) \<and>
   (op \<in> set (compute d l) \<and> op_action op = RemoveRoleBinding \<longleftrightarrow>
    (\<exists>b \<in> set (l_roleBindings l). \<exists>info.
       rb_full_key b \<notin> rb_full_key ` set (role_binding_prune_keep d) \<and>
       rb_scope_lookup (d_roleBindingScope d) b = Some info \<and>
       op = prune_op (rb_apk (d_roleBindingScope d)) b \<and> op_roleBinding op = Some b \<and>
       op_pruneAllowed op = si_prune info))"
proof (intro conjI)
  let ?k = "rb_apk (d_roleBindingScope d)"
  have mem: "op \<in> set (compute d l) \<and> op_action op = a \<longleftrightarrow>
      op \<in> set (add_prune_ops ?k (d_roleBindings d) (role_binding_prune_keep d) (l_roleBindings l)) \<and>
      op_action op = a" if "a \<in> {AddRoleBinding, RemoveRoleBinding}" for a
    using compute_role_binding_part [of op d l] that by (auto simp: compute_role_binding_ops_def)
  show "op \<in> set (compute d l) \<and> op_action op = AddRoleBinding \<longleftrightarrow>
    (\<exists>b \<in> set (d_roleBindings d). rb_full_key b \<notin> rb_full_key ` set (l_roleBindings l) \<and>
       op = add_op ?k b)"
    by (subst mem) (auto simp: rb_walk.set_ops)
  show "op \<in> set (compute d l) \<and> op_action op = RemoveRoleBinding \<longleftrightarrow>
    (\<exists>b \<in> set (l_roleBindings l). \<exists>info.
       rb_full_key b \<notin> rb_full_key ` set (role_binding_prune_keep d) \<and>
       rb_scope_lookup (d_roleBindingScope d) b = Some info \<and>
       op = prune_op ?k b \<and> op_roleBinding op = Some b \<and> op_pruneAllowed op = si_prune info)"
    (is "?L \<longleftrightarrow> ?R")
  proof
    assume ?L
    then have m: "op \<in> set (add_prune_ops ?k (d_roleBindings d) (role_binding_prune_keep d)
        (l_roleBindings l))" and act: "op_action op = apk_pruneAction ?k"
      using mem [of RemoveRoleBinding] by simp_all
    from rb_walk.pruneE [OF m act] show ?R using rb_walk.prune_op_covered by fastforce
  next
    assume ?R
    then obtain b info where b: "b \<in> set (l_roleBindings l)" "op = prune_op ?k b"
      "rb_full_key b \<notin> rb_full_key ` set (role_binding_prune_keep d)"
      "rb_scope_lookup (d_roleBindingScope d) b = Some info" by blast
    have "rb_scope_contains (d_roleBindingScope d) b"
      using b(4) by (simp add: rb_scope_contains_def rb_scope_lookup_def)
    then show ?L using b by (subst mem) (simp_all add: rb_walk.set_ops)
  qed
qed

subsection \<open>Fail-closed mirror state\<close>

lemma guarded_absent:
  assumes "mget (guarded_topics d l) n \<noteq> None"
  shows "op \<in> set (compute d l) \<Longrightarrow> op_target op = n \<Longrightarrow> op_action op \<notin>
      {CreateTopic, UpdateTopicConfig, IncreasePartitions, UpdateReplicationFactor}"
  using assms compute_topic_part [of op d l] by (auto simp: filter_topic_ops_def)

text \<open>
  C36. A declared topic whose live state is a mirror, a stopping mirror or unknown is never mutated:
  it gets no topic operation, no schema operation it owns and no ACL creation on its literal
  resource; a finding (\<open>Rejected\<close> or \<open>StateReadError\<close>) is emitted in their place.
\<close>

theorem guarded_topic_untouched:
  assumes "l_mirrors l = Some s" "n \<in> dt_name ` set (d_topics d)" "n \<noteq> []"
    and "classify s n \<in> {MirrorTopic, StoppingMirror, UnknownTopic}"
  shows "{op \<in> set (compute d l). op_target op = n \<and>
       op_action op \<in> {CreateTopic, UpdateTopicConfig, IncreasePartitions, UpdateReplicationFactor}} = {} \<and>
     {op \<in> set (compute d l). is_schema_plan_action (op_action op) \<and> op_topic op = n} = {} \<and>
     {op \<in> set (compute d l). op_action op = CreateAcl \<and> (\<exists>a. op_acl op = Some a \<and>
        as_resourceType a = ''topic'' \<and> as_patternType a = ''literal'' \<and> as_resourceName a = n)} = {} \<and>
     (\<exists>op \<in> set (compute d l). op_target op = n \<and> op_action op \<in> {Rejected, StateReadError})"
proof (intro conjI)
  have g: "mget (guarded_topics d l) n \<noteq> None"
    unfolding guarded_topics_dom using assms by blast
  show "{op \<in> set (compute d l). op_target op = n \<and>
      op_action op \<in> {CreateTopic, UpdateTopicConfig, IncreasePartitions, UpdateReplicationFactor}} = {}"
    using guarded_absent [OF g] by blast
  show "{op \<in> set (compute d l). op_action op = CreateAcl \<and> (\<exists>a. op_acl op = Some a \<and>
        as_resourceType a = ''topic'' \<and> as_patternType a = ''literal'' \<and> as_resourceName a = n)} = {}"
    using g compute_acl_part [of _ d l] by (auto simp: filter_acl_ops_def)
  show "{op \<in> set (compute d l). is_schema_plan_action (op_action op) \<and> op_topic op = n} = {}"
    using g assms(3) compute_schema_part [of _ d l] by (auto simp: filter_schema_ops_def)
  obtain op where op: "mget (guarded_topics d l) n = Some op" using g by blast
  then have "op \<in> set (compute d l)" unfolding set_compute unsorted_ops_cases guard_ops_mem by blast
  with guarded_topics_Some [OF op] show "\<exists>op \<in> set (compute d l).
      op_target op = n \<and> op_action op \<in> {Rejected, StateReadError}" by blast
qed

definition sample_topic :: "string \<Rightarrow> desired_topic" where
  "sample_topic n =
     \<lparr>dt_kind = ''KafkaTopic'', dt_namespace = ''ns'', dt_name = n, dt_partitions = 3,
      dt_replicationFactor = 0, dt_config = [], dt_mode = ''Enforce'', dt_ignoreFields = []\<rparr>"

theorem guarded_topic_untouched_witness:
  "{op \<in> set (compute (empty_desired\<lparr>d_topics := [sample_topic ''t'']\<rparr>)
        (empty_live\<lparr>l_mirrors := Some (empty_snapshot ''a'' ''a'')\<rparr>)). op_target op = ''t'' \<and>
      op_action op \<in> {CreateTopic, UpdateTopicConfig, IncreasePartitions, UpdateReplicationFactor}} = {}"
  using guarded_topic_untouched [of "empty_live\<lparr>l_mirrors := Some (empty_snapshot ''a'' ''a'')\<rparr>"
      "empty_snapshot ''a'' ''a''" "''t''" "empty_desired\<lparr>d_topics := [sample_topic ''t'']\<rparr>"]
  by (simp add: empty_live_def empty_desired_def sample_topic_def classify_def complete_def
      empty_snapshot_def)

lemma compute_mirror_part:
  assumes "op_action op \<in> {CreateMirrorTopic, UpdateMirrorTopicConfig}"
  shows "op \<in> set (compute d l) \<longleftrightarrow> (\<exists>dm \<in> set (d_mirrors d). op \<in> set (mirror_ops_for dm (l_mirrors l)))"
  using assms
  by (elim insertE emptyE)
     (simp_all add: not_in_part unsorted_ops_cases filter_topic_ops_def filter_schema_ops_def
       filter_acl_ops_def mirror_actions_def finding_def compute_mirror_ops_def)

lemma link_managed_rejection_None:
  "link_managed_rejection link k = None \<longleftrightarrow> link_managed link k = (False, True)"
  by (auto simp: link_managed_rejection_def split: prod.split)

lemma absent_mirror_create:
  "op \<in> set (absent_mirror_ops dm link) \<and> op_action op = CreateMirrorTopic \<longleftrightarrow>
     link_active link \<and>
     {k \<in> set (mkeys (dm_config dm)). link_managed link k \<noteq> (False, True)} = {} \<and>
     op = (set_mirror_identity dm (new_mirror_op dm CreateMirrorTopic []))
            \<lparr>op_replicationFactor := dm_replicationFactor dm, op_config := dm_config dm\<rparr>"
proof -
  let ?rej = "\<lambda>k. case link_managed_rejection link k of None \<Rightarrow> []
     | Some msg \<Rightarrow> [(new_mirror_op dm Rejected msg)\<lparr>op_field := k, op_to := map_value (dm_config dm) k\<rparr>]"
  have empty: "concat (map ?rej (mkeys (dm_config dm))) = [] \<longleftrightarrow>
      {k \<in> set (mkeys (dm_config dm)). link_managed link k \<noteq> (False, True)} = {}"
    by (auto simp: link_managed_rejection_None [symmetric] simp del: set_mkeys split: option.split)
  have rej: "op_action o' = Rejected" if "o' \<in> set (concat (map ?rej ks))" for o' ks
    using that by (auto split: option.splits)
  show ?thesis
  proof (cases "link_active link \<and> concat (map ?rej (mkeys (dm_config dm))) = []")
    case True
    then have "absent_mirror_ops dm link = [(set_mirror_identity dm (new_mirror_op dm CreateMirrorTopic []))
        \<lparr>op_replicationFactor := dm_replicationFactor dm, op_config := dm_config dm\<rparr>]"
      by (simp add: absent_mirror_ops_def Let_def)
    then show ?thesis using True empty by auto
  next
    case False
    then have "op_action op \<noteq> CreateMirrorTopic" if "op \<in> set (absent_mirror_ops dm link)"
      using that rej [of op "mkeys (dm_config dm)"]
      by (auto simp: absent_mirror_ops_def Let_def split: if_split_asm)
    then show ?thesis using False empty by blast
  qed
qed

text \<open>
  A mirror topic is created only on a complete snapshot where the topic is absent, its link is
  known, readable and ACTIVE, the name satisfies the link prefix, and no declared config key is
  (or might be) link-managed; then and only then.
\<close>

theorem create_mirror_iff:
  "op \<in> set (compute d l) \<and> op_action op = CreateMirrorTopic \<longleftrightarrow>
   (\<exists>dm \<in> set (d_mirrors d). \<exists>s link.
      l_mirrors l = Some s \<and> classify s (dm_topicName dm) = Absent \<and>
      sn_links s (dm_linkName dm) = Some link \<and> li_configErr link = None \<and>
      check_prefix link (dm_topicName dm) (dm_sourceTopicName dm) (dm_topicNameExplicit dm) = None \<and>
      link_active link \<and>
      {k \<in> set (mkeys (dm_config dm)). link_managed link k \<noteq> (False, True)} = {} \<and>
      op = (set_mirror_identity dm (new_mirror_op dm CreateMirrorTopic []))
             \<lparr>op_replicationFactor := dm_replicationFactor dm, op_config := dm_config dm\<rparr>)"
  (is "?L \<longleftrightarrow> ?R")
proof
  assume L: ?L
  then obtain dm where dm: "dm \<in> set (d_mirrors d)" "op \<in> set (mirror_ops_for dm (l_mirrors l))"
    using compute_mirror_part [of op d l] by auto
  from dm(2) show ?R
  proof (cases rule: mirror_ops_for_cases)
    case finding
    then show ?thesis using L by (simp add: finding_def)
  next
    case (absent s link)
    then have "op \<in> set (absent_mirror_ops dm link) \<and> op_action op = CreateMirrorTopic" using L by simp
    then show ?thesis unfolding absent_mirror_create using dm(1) absent by blast
  next
    case (live s link)
    then show ?thesis using L live_mirror_actions by fastforce
  qed
next
  assume ?R
  then obtain dm s link where dm: "dm \<in> set (d_mirrors d)" "l_mirrors l = Some s"
      "classify s (dm_topicName dm) = Absent" "sn_links s (dm_linkName dm) = Some link"
      "li_configErr link = None"
      "check_prefix link (dm_topicName dm) (dm_sourceTopicName dm) (dm_topicNameExplicit dm) = None"
    and c: "link_active link"
      "{k \<in> set (mkeys (dm_config dm)). link_managed link k \<noteq> (False, True)} = {}"
      "op = (set_mirror_identity dm (new_mirror_op dm CreateMirrorTopic []))
             \<lparr>op_replicationFactor := dm_replicationFactor dm, op_config := dm_config dm\<rparr>"
    by (elim bexE exE conjE)
  have op: "op \<in> set (absent_mirror_ops dm link)" "op_action op = CreateMirrorTopic"
    using absent_mirror_create [THEN iffD2, OF conjI, OF c(1) conjI, OF c(2,3)] by simp_all
  have "complete s" using dm(3) classify_Absent by blast
  then have "op \<in> set (mirror_ops_for dm (l_mirrors l))"
    using dm op(1) by (simp add: mirror_ops_for_def Let_def)
  then show ?L using compute_mirror_part [of op d l] dm(1) op(2) by auto
qed

text \<open>
  Without a complete snapshot nothing on the mirror path is planned: no mirror is created or
  altered, and, when a snapshot was attempted, no declared topic is touched either.
\<close>

theorem incomplete_snapshot_plans_nothing:
  assumes "\<not> complete s" "l_mirrors l = Some s"
  shows "op_action ` set (compute d l) \<inter>
     {CreateTopic, UpdateTopicConfig, IncreasePartitions, UpdateReplicationFactor,
      CreateMirrorTopic, UpdateMirrorTopicConfig} = {}"
proof -
  have topics: "op_action op \<notin> {CreateTopic, UpdateTopicConfig, IncreasePartitions, UpdateReplicationFactor}"
    if "op \<in> set (compute d l)" for op
  proof
    assume a: "op_action op \<in> {CreateTopic, UpdateTopicConfig, IncreasePartitions, UpdateReplicationFactor}"
    then have "op \<in> set (compute_topic_ops d l)"
      using compute_topic_part [OF a] that by (simp add: filter_topic_ops_def)
    then have "op_target op \<in> dt_name ` set (d_topics d)" by (rule compute_topic_actions [THEN conjunct1])
    then have "mget (guarded_topics d l) (op_target op) \<noteq> None"
      unfolding guarded_topics_dom using assms classify_incomplete by auto
    from guarded_absent [OF this that] a show False by simp
  qed
  have mirrors: "op_action op \<notin> {CreateMirrorTopic, UpdateMirrorTopicConfig}"
    if "op \<in> set (compute d l)" for op
  proof
    assume a: "op_action op \<in> {CreateMirrorTopic, UpdateMirrorTopicConfig}"
    from that have "\<exists>dm \<in> set (d_mirrors d). op \<in> set (mirror_ops_for dm (l_mirrors l))"
      unfolding compute_mirror_part [OF a] .
    then obtain dm where "op \<in> set (mirror_ops_for dm (l_mirrors l))" by (rule bexE)
    then have "op_action op = StateReadError" using assms by (simp add: mirror_ops_for_def)
    then show False using a by simp
  qed
  show ?thesis using topics mirrors by blast
qed

theorem incomplete_snapshot_plans_nothing_witness:
  "op_action ` set (compute (empty_desired\<lparr>d_topics := [sample_topic ''t'']\<rparr>)
      (empty_live\<lparr>l_mirrors := Some (empty_snapshot ''a'' ''b'')\<rparr>)) \<inter>
     {CreateTopic, UpdateTopicConfig, IncreasePartitions, UpdateReplicationFactor,
      CreateMirrorTopic, UpdateMirrorTopicConfig} = {}"
  using incomplete_snapshot_plans_nothing [of "empty_snapshot ''a'' ''b''"
      "empty_live\<lparr>l_mirrors := Some (empty_snapshot ''a'' ''b'')\<rparr>"
      "empty_desired\<lparr>d_topics := [sample_topic ''t'']\<rparr>"]
  by (simp add: empty_snapshot_def complete_def)

subsection \<open>Schemas\<close>

lemma schema_ops_member:
  "op \<in> set (compute_schema_ops d l) \<Longrightarrow> \<exists>ds \<in> set (d_schemas d).
     op \<in> set (schema_ops_for l ds (index_by ss_subject (l_schemas l) Map.empty (ds_subject ds)))"
  by (auto simp: compute_schema_ops_def Let_def)

lemma compat_not_register [simp]:
  "op_action (compatibility_op ds lv g) \<noteq> RegisterSchema"
  "op_action (compatibility_op ds lv g) \<noteq> SchemaSuperseded"
  using compatibility_op_simps(1) [of ds lv g] by auto

text \<open>
  A schema is registered only for a manifest that has a definition, and on an existing subject
  only when the latest live definition differs and the desired one is not an older registered
  version. So a governance-mode manifest (no definition) never writes a version, and a superseded
  one never loops on registration.
\<close>

theorem register_schema_only_when_needed:
  assumes "op \<in> set (compute d l)" "op_action op = RegisterSchema"
  shows "\<exists>ds \<in> set (d_schemas d). op = register_op ds \<and> ds_definition ds \<noteq> [] \<and>
    (case index_by ss_subject (l_schemas l) Map.empty (ds_subject ds) of
       None \<Rightarrow> True
     | Some ls \<Rightarrow> \<not> schema_equal (ds_type ds) (ds_definition ds) (sch_definition (ss_schema ls)) \<and>
         l_supersededSchemas l (ds_subject ds) = None)"
proof -
  have "op \<in> set (compute_schema_ops d l)"
    using assms compute_schema_part [of op d l] by (simp add: is_schema_plan_action_def filter_schema_ops_def)
  then obtain ds where ds: "ds \<in> set (d_schemas d)"
    "op \<in> set (schema_ops_for l ds (index_by ss_subject (l_schemas l) Map.empty (ds_subject ds)))"
    using schema_ops_member by blast
  let ?p = "index_by ss_subject (l_schemas l) Map.empty (ds_subject ds)"
  have "op = register_op ds \<and> ds_definition ds \<noteq> [] \<and>
    (case ?p of None \<Rightarrow> True
     | Some ls \<Rightarrow> \<not> schema_equal (ds_type ds) (ds_definition ds) (sch_definition (ss_schema ls)) \<and>
         l_supersededSchemas l (ds_subject ds) = None)"
  proof (cases ?p)
    case None
    then show ?thesis using ds(2) assms(2) by (auto simp: schema_ops_for_def Let_def split: if_split_asm)
  next
    case (Some ls)
    then show ?thesis using ds(2) assms(2)
      by (auto simp: schema_ops_for_def Let_def split: if_split_asm option.splits)
  qed
  with ds(1) show ?thesis by blast
qed

definition sample_schema :: "string \<Rightarrow> string \<Rightarrow> desired_schema" where
  "sample_schema body level =
     \<lparr>ds_subject = ''t-value'', ds_topic = ''t'', ds_type = ''AVRO'', ds_definition = body,
      ds_compatibility = level, ds_mode = []\<rparr>"

lemma sample_schema_ops:
  "compute (empty_desired\<lparr>d_schemas := [sample_schema ''{}'' []]\<rparr>) empty_live =
     [register_op (sample_schema ''{}'' [])]"
  by (simp add: compute_def unsorted_ops_def Let_def guarded_topics_def compute_topic_ops_def
      compute_acl_ops_def prune_inputs_def add_prune_ops_def compute_schema_ops_def schema_ops_for_def
      compute_quota_ops_def compute_role_binding_ops_def role_binding_prune_keep_def
      compute_user_ops_def compute_mirror_ops_def empty_desired_def empty_live_def sample_schema_def)

theorem register_schema_only_when_needed_witness:
  "ds_definition (sample_schema ''{}'' []) \<noteq> []"
proof -
  have "register_op (sample_schema ''{}'' []) \<in>
      set (compute (empty_desired\<lparr>d_schemas := [sample_schema ''{}'' []]\<rparr>) empty_live)"
    by (simp only: sample_schema_ops) simp
  from register_schema_only_when_needed [OF this register_op_simps(1)] show ?thesis
    by (auto simp: empty_desired_def)
qed

text \<open>The level an absent subject level inherits.\<close>

definition baseline_level :: "string \<Rightarrow> string \<Rightarrow> string" where
  "baseline_level liveLevel globalLevel = (if liveLevel = [] then globalLevel else liveLevel)"

text \<open>
  Compatibility gating is sound: an ungated change never weakens the effective level. Against
  the baseline (the subject's level, else the registry's global one) an ungated change pins that
  very level or is strictly stronger, or there is no known baseline; everything else is the
  approval-gated \<open>LowerSchemaCompatibility\<close>.
\<close>

theorem compatibility_gate_sound:
  assumes "ds_compatibility ds \<noteq> liveLevel"
  shows "\<not> op_requiresApproval (compatibility_op ds liveLevel globalLevel) \<longleftrightarrow>
    ds_compatibility ds = baseline_level liveLevel globalLevel \<and> ds_compatibility ds \<noteq> [] \<or>
    compat_rank (ds_compatibility ds) > compat_rank (baseline_level liveLevel globalLevel)"
proof -
  have app: "op_requiresApproval (compatibility_op ds liveLevel globalLevel) \<longleftrightarrow>
      op_action (compatibility_op ds liveLevel globalLevel) = LowerSchemaCompatibility"
    using compatibility_op_simps(1) [of ds liveLevel globalLevel]
    by (auto simp: compatibility_op_def Let_def gate_of_def)
  show ?thesis
    unfolding app using assms(1) by (auto simp: compatibility_op_def Let_def baseline_level_def)
qed

theorem compatibility_gate_sound_witness:
  "op_requiresApproval (compatibility_op (sample_schema [] ''NONE'') [] ''BACKWARD'') \<and>
   \<not> op_requiresApproval (compatibility_op (sample_schema [] ''BACKWARD'') [] ''BACKWARD'')"
  using compatibility_gate_sound [of "sample_schema [] ''NONE''" "[]" "''BACKWARD''"]
    compatibility_gate_sound [of "sample_schema [] ''BACKWARD''" "[]" "''BACKWARD''"]
  by (simp add: sample_schema_def compat_rank_def baseline_level_def)

subsection \<open>Users\<close>

text \<open>
  Each declared user gets at most one operation, exactly by its live mechanisms: create when it
  has none, a mechanism change (naming a live OLD mechanism to drop) when it has only others, an
  iterations update when the declared one differs in a pinned count, a rotation only on request,
  and nothing when in sync.
\<close>

theorem user_ops_for_cases:
  "map op_action (user_ops_for rot m du) =
     (case mget m (cr_mechanism (du_credential du)) of
        Some iters \<Rightarrow>
          if cr_iterations (du_credential du) \<notin> {0, iters} then [UpdateScramCredential]
          else if rot then [RotateScramCredential] else []
      | None \<Rightarrow> if dom (mget m) = {} then [CreateScramCredential] else [UpdateScramCredential]) \<and>
   (op \<in> set (user_ops_for rot m du) \<and> op_scramDeleteMechanism op \<noteq> [] \<longrightarrow>
      op_scramDeleteMechanism op \<in> dom (mget m) \<and> cr_mechanism (du_credential du) \<notin> dom (mget m))"
proof
  have dom: "dom (mget m) = {} \<longleftrightarrow> m = []"
    by (cases m) (auto simp: dom_def split: if_splits)
  show "map op_action (user_ops_for rot m du) =
     (case mget m (cr_mechanism (du_credential du)) of
        Some iters \<Rightarrow>
          if cr_iterations (du_credential du) \<notin> {0, iters} then [UpdateScramCredential]
          else if rot then [RotateScramCredential] else []
      | None \<Rightarrow> if dom (mget m) = {} then [CreateScramCredential] else [UpdateScramCredential])"
    unfolding dom by (simp add: user_ops_for_def Let_def split: option.split)
  have hd: "hd (mkeys m) \<in> dom (mget m)" if "m \<noteq> []"
  proof -
    have "mkeys m \<noteq> []" using that dom by (metis set_mkeys set_empty)
    then show ?thesis by (metis hd_in_set set_mkeys)
  qed
  show "op \<in> set (user_ops_for rot m du) \<and> op_scramDeleteMechanism op \<noteq> [] \<longrightarrow>
      op_scramDeleteMechanism op \<in> dom (mget m) \<and> cr_mechanism (du_credential du) \<notin> dom (mget m)"
  proof (cases "mget m (cr_mechanism (du_credential du))")
    case None
    then show ?thesis using hd by (auto simp: user_ops_for_def Let_def)
  next
    case (Some i)
    then show ?thesis by (auto simp: user_ops_for_def Let_def)
  qed
qed

definition sample_user :: "int \<Rightarrow> desired_user" where
  "sample_user iters =
     \<lparr>du_credential = \<lparr>cr_username = ''svc'', cr_mechanism = ''SCRAM-SHA-512'', cr_iterations = iters\<rparr>,
      du_passwordRef = None\<rparr>"

theorem user_ops_for_cases_witness:
  "map op_action (user_ops_for False [(''SCRAM-SHA-256'', 4096)] (sample_user 0)) =
     [UpdateScramCredential]"
  using user_ops_for_cases [of False "[(''SCRAM-SHA-256'', 4096)]" "sample_user 0"]
  by (simp add: sample_user_def)

end
