(* ===== verification/Diff_Order.thy ===== *)
theory Diff_Order
  imports Diff_Props
begin

section \<open>The diff does not depend on input order\<close>

text \<open>
  \<open>Compute\<close> on permuted inputs. With distinct identities in each list, every per-kind diff returns
  the very same list, so \<open>Compute\<close> does: the determinism the golden tests and \<open>SliceStable\<close> rely on.
\<close>

lemma index_by_perm:
  assumes "mset xs = mset ys" "distinct (map f xs)"
  shows "index_by f xs m = index_by f ys m"
proof
  fix k
  have dy: "distinct (map f ys)" using assms by (metis mset_eq_imp_distinct_iff mset_map)
  have sy: "set xs = set ys" using assms(1) by (rule mset_eq_setD)
  show "index_by f xs m k = index_by f ys m k"
  proof (cases "k \<in> f ` set xs")
    case True
    then obtain x where "x \<in> set xs" "k = f x" by blast
    then show ?thesis
      using index_by_distinct [OF assms(2)] index_by_distinct [OF dy] sy by metis
  next
    case False
    then show ?thesis using sy by (simp add: index_by_notin)
  qed
qed

lemma sort_key_distinct_perm:
  "mset xs = mset ys \<Longrightarrow> distinct (map f xs) \<Longrightarrow> sort_key f xs = sort_key f ys"
  by (rule sort_key_perm_eq) (simp_all add: inj_on_set_distinct_map)

lemma add_prune_ops_perm:
  assumes "mset des = mset des'" "distinct (map (apk_key k) des)" "set keep = set keep'"
    "mset lv = mset lv'" "distinct (map (apk_key k) lv)"
  shows "add_prune_ops k des keep lv = add_prune_ops k des' keep' lv'"
  using sort_key_distinct_perm [OF assms(1,2)] sort_key_distinct_perm [OF assms(4,5)]
    mset_eq_setD [OF assms(4)] assms(3)
  by (simp add: add_prune_ops_def)

lemma find_unique:
  assumes "set xs = set ys" "\<And>x y. x \<in> set xs \<Longrightarrow> y \<in> set xs \<Longrightarrow> P x \<Longrightarrow> P y \<Longrightarrow> x = y"
  shows "find P xs = find P ys"
proof (cases "find P xs")
  case None
  then have "find P ys = None" using assms(1) by (simp add: find_None_iff)
  then show ?thesis using None by simp
next
  case (Some x)
  then have x: "x \<in> set xs" "P x" using find_SomeD [OF Some] by simp_all
  then have "find P ys \<noteq> None" using assms(1) by (auto simp: find_None_iff)
  then obtain y where y: "find P ys = Some y" by blast
  then have "y \<in> set xs" "P y" using find_SomeD [OF y] assms(1) by simp_all
  then show ?thesis using x y Some assms(2) by simp
qed

lemma find_append:
  "find P (xs @ ys) = (case find P xs of None \<Rightarrow> find P ys | Some x \<Rightarrow> Some x)"
  by (induction xs) auto

text \<open>The live mechanisms of a user, and what the user diff reads of them.\<close>

lemma mget_live_mechs:
  "mget (live_mechs cs u m) k =
     (case find (\<lambda>c. scr_user c = u \<and> scr_mechanism c = k) (rev cs) of
        Some c \<Rightarrow> Some (scr_iterations c)
      | None \<Rightarrow> mget m k)"
  by (induction cs arbitrary: m) (auto simp: update_conv' find_append split: option.split)

lemma user_ops_for_cong:
  assumes "mget m = mget m'"
  shows "user_ops_for rot m du = user_ops_for rot m' du"
proof -
  have "mkeys m = mkeys m'" using assms by (intro mkeys_dom_cong) simp
  moreover have "m = [] \<longleftrightarrow> m' = []"
    using assms by (metis list.set_intros(1) map_of.simps(1) map_of_eq_None_iff image_eqI
        list.exhaust list.set_map)
  ultimately show ?thesis using assms by (simp add: user_ops_for_def Let_def split: option.split)
qed

lemma live_mechs_perm:
  assumes "mset cs = mset cs'" "distinct (map (\<lambda>c. (scr_user c, scr_mechanism c)) cs)"
  shows "mget (live_mechs cs u m) = mget (live_mechs cs' u m)"
proof
  fix k
  have inj: "inj_on (\<lambda>c. (scr_user c, scr_mechanism c)) (set cs)"
    by (rule inj_on_set_distinct_map [OF assms(2)])
  have "find (\<lambda>c. scr_user c = u \<and> scr_mechanism c = k) (rev cs) =
      find (\<lambda>c. scr_user c = u \<and> scr_mechanism c = k) (rev cs')"
    by (rule find_unique) (use mset_eq_setD [OF assms(1)] inj in \<open>auto dest: inj_onD\<close>)
  then show "mget (live_mechs cs u m) k = mget (live_mechs cs' u m) k"
    by (simp add: mget_live_mechs)
qed

text \<open>Guards.\<close>

lemma mget_guards_loop:
  assumes "distinct (map dt_name dts)"
  shows "mget (guards_loop s dts []) n = Some op \<longleftrightarrow>
    (\<exists>dt \<in> set dts. dt_name dt = n \<and> guard_op s dt = Some op)"
proof
  assume "mget (guards_loop s dts []) n = Some op"
  from guards_loop_Some [OF this] show "\<exists>dt \<in> set dts. dt_name dt = n \<and> guard_op s dt = Some op" by simp
next
  assume "\<exists>dt \<in> set dts. dt_name dt = n \<and> guard_op s dt = Some op"
  then obtain dt where dt: "dt \<in> set dts" "dt_name dt = n" "guard_op s dt = Some op" by blast
  then have "mget (guards_loop s dts []) n \<noteq> None" using guards_loop_dom [of s dts "[]" n] by auto
  then obtain op' where op': "mget (guards_loop s dts []) n = Some op'" by blast
  then obtain dt' where "dt' \<in> set dts" "dt_name dt' = n" "guard_op s dt' = Some op'"
    using guards_loop_Some [OF op'] by auto
  then have "dt' = dt" using dt inj_onD [OF inj_on_set_distinct_map [OF assms]] by metis
  then show "mget (guards_loop s dts []) n = Some op" using dt op' \<open>guard_op s dt' = Some op'\<close> by simp
qed

lemma mget_eqI: "(\<And>k v. mget m k = Some v \<longleftrightarrow> mget m' k = Some v) \<Longrightarrow> mget m = mget m'"
  by (rule ext) (metis not_None_eq)

lemma guards_perm:
  assumes "mset (d_topics d) = mset (d_topics d')" "distinct (map dt_name (d_topics d))"
    "l_mirrors l = l_mirrors l'"
  shows "mget (guarded_topics d l) = mget (guarded_topics d' l')"
proof -
  have "distinct (map dt_name (d_topics d'))"
    using assms(1,2) by (metis mset_eq_imp_distinct_iff mset_map)
  then show ?thesis
    using mset_eq_setD [OF assms(1)] assms(2,3)
    by (auto simp: guarded_topics_def mget_guards_loop intro!: mget_eqI split: option.split)
qed

lemma filter_guards_cong:
  assumes "mget g = mget g'"
  shows "filter_topic_ops g ops = filter_topic_ops g' ops" "filter_acl_ops g ops = filter_acl_ops g' ops"
    "filter_schema_ops g ops = filter_schema_ops g' ops" "guard_ops g = guard_ops g'"
proof -
  have "mkeys g = mkeys g'" using assms by (intro mkeys_dom_cong) simp
  then show "guard_ops g = guard_ops g'" using assms by (simp add: guard_ops_def)
qed (unfold filter_topic_ops_def filter_acl_ops_def filter_schema_ops_def assms, (rule refl)+)

lemma unsorted_ops_unguarded:
  "unsorted_ops d l =
     filter_topic_ops (guarded_topics d l) (compute_topic_ops d l) @ guard_ops (guarded_topics d l) @
     filter_acl_ops (guarded_topics d l) (compute_acl_ops d l) @
     filter_schema_ops (guarded_topics d l) (compute_schema_ops d l) @
     compute_quota_ops d l @ compute_role_binding_ops d l @ compute_user_ops d l @ compute_mirror_ops d l"
proof (cases "guarded_topics d l = []")
  case True
  have "filter_acl_ops [] xs = xs" for xs
    unfolding filter_acl_ops_def by (rule filter_True) (simp split: option.split)
  then show ?thesis
    using True by (simp add: unsorted_ops_def guard_ops_def filter_topic_ops_def filter_schema_ops_def)
qed (simp add: unsorted_ops_def Let_def)

subsection \<open>Compute\<close>

text \<open>Distinct identities in every input list, and two inputs equal up to the order of their lists.\<close>

definition distinct_inputs :: "desired \<Rightarrow> live \<Rightarrow> bool" where
  "distinct_inputs d l \<longleftrightarrow>
     distinct (map dt_name (d_topics d)) \<and> distinct (map tst_name (l_topics l)) \<and>
     distinct (map full_key (d_acls d)) \<and> distinct (map full_key (l_acls l)) \<and>
     distinct (map ds_subject (d_schemas d)) \<and> distinct (map ss_subject (l_schemas l)) \<and>
     distinct (map (\<lambda>q. entity_key (dq_entity q)) (d_quotas d)) \<and> distinct (map live_quota_key (l_quotas l)) \<and>
     distinct (map rb_full_key (d_roleBindings d)) \<and> distinct (map rb_full_key (l_roleBindings l)) \<and>
     distinct (map (\<lambda>u. cr_username (du_credential u)) (d_users d)) \<and>
     distinct (map (\<lambda>c. (scr_user c, scr_mechanism c)) (l_scramCredentials l)) \<and>
     distinct (map dm_topicName (d_mirrors d))"

definition same_up_to_order :: "desired \<times> live \<Rightarrow> desired \<times> live \<Rightarrow> bool" where
  "same_up_to_order x y \<longleftrightarrow>
     (case (x, y) of ((d, l), (d', l')) \<Rightarrow>
       mset (d_topics d) = mset (d_topics d') \<and> mset (l_topics l) = mset (l_topics l') \<and>
       mset (d_acls d) = mset (d_acls d') \<and> mset (l_acls l) = mset (l_acls l') \<and>
       mset (d_schemas d) = mset (d_schemas d') \<and> mset (l_schemas l) = mset (l_schemas l') \<and>
       mset (d_quotas d) = mset (d_quotas d') \<and> mset (l_quotas l) = mset (l_quotas l') \<and>
       mset (d_roleBindings d) = mset (d_roleBindings d') \<and>
       mset (l_roleBindings l) = mset (l_roleBindings l') \<and>
       mset (d_users d) = mset (d_users d') \<and> mset (l_scramCredentials l) = mset (l_scramCredentials l') \<and>
       mset (d_mirrors d) = mset (d_mirrors d') \<and>
       set (d_pruneDesired d) = set (d_pruneDesired d') \<and>
       set (d_roleBindingPruneDesired d) = set (d_roleBindingPruneDesired d') \<and>
       d_scope d = d_scope d' \<and> d_pruneScope d = d_pruneScope d' \<and>
       d_pruneAggregateSet d = d_pruneAggregateSet d' \<and>
       d_roleBindingScope d = d_roleBindingScope d' \<and>
       d_roleBindingPruneAggregateSet d = d_roleBindingPruneAggregateSet d' \<and>
       d_rotatePasswords d = d_rotatePasswords d' \<and> l_supersededSchemas l = l_supersededSchemas l' \<and>
       l_globalCompatibility l = l_globalCompatibility l' \<and> l_mirrors l = l_mirrors l')"

text \<open>
  C37. \<open>Compute\<close> does not depend on the order of its inputs. Take inputs in which every list is free of
  duplicate identities: the desired and live topics by name, ACLs and role bindings by full key, schemas
  by subject, quotas by entity key; the desired users by name, the live credentials by user and mechanism,
  and the desired mirrors by topic name. Reordering any of these lists, the two prune
  keep-sets included, while the scopes, flags, superseded schemas, global compatibility and mirror state
  stay the same, does not change the operation list at all.
\<close>

theorem compute_order_independent:
  assumes "distinct_inputs d l" "same_up_to_order (d, l) (d', l')"
  shows "compute d l = compute d' l'"
proof -
  note dis = assms(1) [unfolded distinct_inputs_def]
  note eq = assms(2) [unfolded same_up_to_order_def prod.case]
  have topics: "compute_topic_ops d l = compute_topic_ops d' l'"
    using dis eq index_by_perm [of "l_topics l" "l_topics l'" tst_name]
      sort_key_distinct_perm [of "d_topics d" "d_topics d'" dt_name]
    by (simp add: compute_topic_ops_def)
  have keep: "set (fst (prune_inputs d)) = set (fst (prune_inputs d'))"
      "snd (prune_inputs d) = snd (prune_inputs d')"
    using eq mset_eq_setD [of "d_acls d" "d_acls d'"] by (simp_all add: prune_inputs_def)
  have acls: "compute_acl_ops d l = compute_acl_ops d' l'"
    using dis eq keep add_prune_ops_perm [of "d_acls d" "d_acls d'" "acl_apk (snd (prune_inputs d))"
        "fst (prune_inputs d)" "fst (prune_inputs d')" "l_acls l" "l_acls l'"]
    by (simp add: compute_acl_ops_def case_prod_beta)
  have keep_rb: "set (role_binding_prune_keep d) = set (role_binding_prune_keep d')"
    using eq mset_eq_setD [of "d_roleBindings d" "d_roleBindings d'"]
    by (simp add: role_binding_prune_keep_def)
  have rbs: "compute_role_binding_ops d l = compute_role_binding_ops d' l'"
    using dis eq keep_rb add_prune_ops_perm [of "d_roleBindings d" "d_roleBindings d'"
        "rb_apk (d_roleBindingScope d)" "role_binding_prune_keep d" "role_binding_prune_keep d'"
        "l_roleBindings l" "l_roleBindings l'"]
    by (simp add: compute_role_binding_ops_def)
  have s: "l_supersededSchemas l = l_supersededSchemas l'"
    "l_globalCompatibility l = l_globalCompatibility l'" using eq by simp_all
  have schema_for: "schema_ops_for l = schema_ops_for l'"
    by (intro ext) (simp only: schema_ops_for_def s)
  have schemas: "compute_schema_ops d l = compute_schema_ops d' l'"
    using dis eq index_by_perm [of "l_schemas l" "l_schemas l'" ss_subject]
      sort_key_distinct_perm [of "d_schemas d" "d_schemas d'" ds_subject] schema_for
    by (simp add: compute_schema_ops_def)
  have quotas: "compute_quota_ops d l = compute_quota_ops d' l'"
    using dis eq index_by_perm [of "l_quotas l" "l_quotas l'" live_quota_key]
      sort_key_distinct_perm [of "d_quotas d" "d_quotas d'" "\<lambda>q. entity_key (dq_entity q)"]
    by (simp add: compute_quota_ops_def)
  have user_for: "user_ops_for r (live_mechs (l_scramCredentials l) u []) du =
      user_ops_for r (live_mechs (l_scramCredentials l') u []) du" for r u du
    using dis eq by (intro user_ops_for_cong live_mechs_perm) simp_all
  have users: "compute_user_ops d l = compute_user_ops d' l'"
    using dis eq sort_key_distinct_perm [of "d_users d" "d_users d'" "\<lambda>u. cr_username (du_credential u)"]
    by (simp add: compute_user_ops_def user_for)
  have mirrors: "compute_mirror_ops d l = compute_mirror_ops d' l'"
    using dis eq sort_key_distinct_perm [of "d_mirrors d" "d_mirrors d'" dm_topicName]
    by (auto simp: compute_mirror_ops_def)
  have "mget (guarded_topics d l) = mget (guarded_topics d' l')"
    using dis eq by (intro guards_perm) simp_all
  note g = filter_guards_cong [OF this]
  show ?thesis
    unfolding compute_def unsorted_ops_unguarded g topics acls rbs schemas quotas users mirrors ..
qed

theorem compute_order_independent_witness:
  "compute (empty_desired\<lparr>d_topics := [sample_topic ''a'', sample_topic ''b'']\<rparr>) empty_live =
   compute (empty_desired\<lparr>d_topics := [sample_topic ''b'', sample_topic ''a'']\<rparr>) empty_live"
  by (rule compute_order_independent)
     (simp_all add: distinct_inputs_def same_up_to_order_def empty_desired_def empty_live_def
       sample_topic_def)

end
