(* ===== verification/Defaulting.thy ===== *)
theory Defaulting
  imports Access
begin

section \<open>Defaulting (internal/defaulting)\<close>

text \<open>
  The in-place defaulting of loaded resources. Each function returns the updated resource. The
  order of assignments is immaterial (they write different fields) except that the mode default
  follows the allocation of a nil \<open>Reconciliation\<close>, which \<open>default_reconciliation\<close> does in one go.
\<close>

definition placement_constraints_key :: string where
  "placement_constraints_key = ''confluent.placement.constraints''"

definition default_reconciliation :: "reconciliation option \<Rightarrow> reconciliation option" where
  "default_reconciliation r =
     (let r' = (case r of None \<Rightarrow> \<lparr>rec_mode = []\<rparr> | Some x \<Rightarrow> x)
      in Some (if rec_mode r' = [] then r'\<lparr>rec_mode := ''Enforce''\<rparr> else r'))"

definition default_topic :: "kafka_topic \<Rightarrow> cluster_defaults option \<Rightarrow> kafka_topic" where
  "default_topic tp clusterDefaults =
     (let sp = kt_spec tp;
          hasPlacement = mget (kts_config sp) placement_constraints_key \<noteq> None
      in tp\<lparr>kt_spec := sp\<lparr>
           kts_topicName := (if kts_topicName sp = [] then om_name (kt_meta tp) else kts_topicName sp),
           kts_deletionPolicy :=
             (if kts_deletionPolicy sp = [] then
                (case clusterDefaults of
                   Some d \<Rightarrow> (if cd_topicDeletionPolicy d \<noteq> [] then cd_topicDeletionPolicy d
                              else ''Orphan'')
                 | None \<Rightarrow> ''Orphan'')
              else kts_deletionPolicy sp),
           kts_reconciliation := default_reconciliation (kts_reconciliation sp),
           kts_replicationFactor :=
             (if kts_replicationFactor sp = None \<and> \<not> hasPlacement then
                (case clusterDefaults of None \<Rightarrow> None | Some d \<Rightarrow> cd_replicationFactor d)
              else kts_replicationFactor sp)\<rparr>\<rparr>)"

definition default_mirror_topic :: "kafka_mirror_topic \<Rightarrow> kafka_mirror_topic" where
  "default_mirror_topic m =
     (let sp = km_spec m
      in m\<lparr>km_spec := sp\<lparr>
           kms_deletionPolicy := (if kms_deletionPolicy sp = [] then ''Orphan'' else kms_deletionPolicy sp),
           kms_reconciliation := default_reconciliation (kms_reconciliation sp)\<rparr>\<rparr>)"

definition default_rule :: "acl_rule \<Rightarrow> acl_rule" where
  "default_rule r =
     r\<lparr>rule_permission := (if rule_permission r = [] then ''Allow'' else rule_permission r),
       rule_host := (if rule_host r = [] then ''*'' else rule_host r),
       rule_resource := (rule_resource r)\<lparr>ar_patternType :=
         (if ar_patternType (rule_resource r) = [] then ''literal''
          else ar_patternType (rule_resource r))\<rparr>\<rparr>"

definition default_policy :: "kafka_access_policy \<Rightarrow> kafka_access_policy" where
  "default_policy pol =
     (let sp = ap_spec pol
      in pol\<lparr>ap_spec := sp\<lparr>
           aps_deletionPolicy := (if aps_deletionPolicy sp = [] then ''Delete'' else aps_deletionPolicy sp),
           aps_reconciliation := default_reconciliation (aps_reconciliation sp),
           aps_rules := map default_rule (aps_rules sp)\<rparr>\<rparr>)"

definition default_cluster :: "kafka_cluster \<Rightarrow> kafka_cluster" where
  "default_cluster cl = cl"

definition default_user :: "kafka_user \<Rightarrow> kafka_user" where
  "default_user u =
     (let sp = ku_spec u
      in u\<lparr>ku_spec := sp\<lparr>
           kus_username := (if kus_username sp = [] then om_name (ku_meta u) else kus_username sp),
           kus_mechanism := (if kus_mechanism sp = [] then ''SCRAM-SHA-512'' else kus_mechanism sp),
           kus_deletionPolicy :=
             (if kus_deletionPolicy sp = [] then ''Delete'' else kus_deletionPolicy sp)\<rparr>\<rparr>)"

definition default_role_binding :: "kafka_role_binding \<Rightarrow> kafka_role_binding" where
  "default_role_binding rb =
     (let sp = kr_spec rb
      in rb\<lparr>kr_spec := sp\<lparr>krs_deletionPolicy :=
           (if krs_deletionPolicy sp = [] then ''Delete'' else krs_deletionPolicy sp)\<rparr>\<rparr>)"

lemma default_reconciliation_idem [simp]:
  "default_reconciliation (default_reconciliation r) = default_reconciliation r"
  by (auto simp: default_reconciliation_def Let_def)

text \<open>Defaulting is idempotent, provided a resource has a name.\<close>

lemma default_topic_idem: "default_topic (default_topic tp cd) cd = default_topic tp cd"
  by (cases cd) (simp_all add: default_topic_def Let_def)

lemma default_rule_idem [simp]: "default_rule (default_rule r) = default_rule r"
  by (simp add: default_rule_def)

lemma default_policy_idem: "default_policy (default_policy p) = default_policy p"
  by (simp add: default_policy_def Let_def)

text \<open>Defaulting does not change what is compiled, and the topic name it writes is the resolved one.\<close>

lemma default_topic_resolved: "resolved_topic_name (default_topic tp cd) = resolved_topic_name tp"
  by (simp add: resolved_topic_name_def default_topic_def Let_def)

lemma compile_rule_default: "compile_rule (default_rule r) = compile_rule r"
  by (simp add: compile_rule_def default_rule_def)

lemma compile_policy_default: "compile_policy (default_policy p) = compile_policy p"
  by (simp add: compile_policy_def default_policy_def Let_def comp_def compile_rule_default)

lemma compile_topic_default: "compile_topic (default_topic tp cd) = compile_topic tp"
proof -
  have "kts_access (kt_spec (default_topic tp cd)) = kts_access (kt_spec tp)"
    by (simp add: default_topic_def Let_def)
  then show ?thesis by (simp add: compile_topic_def default_topic_resolved)
qed

end
