(* ===== verification/Executor.thy ===== *)
theory Executor
  imports Diff
begin

section \<open>The executor (internal/executor)\<close>

text \<open>
  Best-effort execution of an operation list against the clients: dependency order, the mode,
  gate and prerequisite checks of \<open>applyOne\<close>, and dispatch. The clients share one world \<open>'w\<close>; a nil
  interface value is \<^term>\<open>None\<close>. \<open>failedTopics\<close> is a set of topic names, threaded through the run.
\<close>

record 'w mirrors_writer =
  mw_createMirror :: "operation \<Rightarrow> 'w act"
  mw_alterMirrorConfig :: "operation \<Rightarrow> 'w act"

record 'w clients =
  cl_kafka :: "'w admin_client"
  cl_schema :: "'w schema_client option"
  cl_mds :: "'w mds_client option"
  cl_mirrors :: "'w mirrors_writer option"
  cl_passwords :: "(value_from \<Rightarrow> go_error + string) option"

definition errRESTNotConfigured :: go_error where
  "errRESTNotConfigured = [T ''Kafka REST not configured'']"

record approvals =
  appr_delete :: bool
  appr_destructive :: bool
  appr_prune :: bool

definition no_approvals :: approvals where
  "no_approvals = \<lparr>appr_delete = False, appr_destructive = False, appr_prune = False\<rparr>"

datatype status =
  StSucceeded | StFailed | StSkipped | StBlocked | StRejected | StReportOnly | StPruneDisabled
  | StUnsupported

record op_result =
  res_op :: operation
  res_status :: status
  res_err :: go_error

definition counts :: "op_result list \<Rightarrow> status \<Rightarrow> nat" where
  "counts results st = length (filter (\<lambda>r. res_status r = st) results)"

definition result_ok :: "op_result list \<Rightarrow> bool" where
  "result_ok results \<longleftrightarrow>
     list_all (\<lambda>r. \<not> (res_status r \<noteq> StSucceeded \<and> res_status r \<noteq> StReportOnly \<and>
       res_status r \<noteq> StPruneDisabled)) results"

subsection \<open>Execution order\<close>

definition is_acl_op :: "action \<Rightarrow> bool" where
  "is_acl_op a \<longleftrightarrow> a = CreateAcl \<or> a = DeleteAcl"

definition is_schema_op :: "action \<Rightarrow> bool" where
  "is_schema_op a \<longleftrightarrow> a = RegisterSchema \<or> a = RaiseSchemaCompatibility \<or>
     a = LowerSchemaCompatibility \<or> a = DeleteSubject \<or> a = SchemaSuperseded"

definition is_role_binding_op :: "action \<Rightarrow> bool" where
  "is_role_binding_op a \<longleftrightarrow> a = AddRoleBinding \<or> a = RemoveRoleBinding"

fun partition_loop ::
    "operation list \<Rightarrow> operation list \<Rightarrow> operation list \<Rightarrow> operation list \<Rightarrow> operation list \<Rightarrow>
     operation list" where
  "partition_loop topics acls schemas rbs [] = topics @ acls @ schemas @ rbs"
| "partition_loop topics acls schemas rbs (op # ops) =
     (if is_acl_op (op_action op) then partition_loop topics (acls @ [op]) schemas rbs ops
      else if is_schema_op (op_action op) then partition_loop topics acls (schemas @ [op]) rbs ops
      else if is_role_binding_op (op_action op) then
        partition_loop topics acls schemas (rbs @ [op]) ops
      else partition_loop (topics @ [op]) acls schemas rbs ops)"

definition execution_order :: "operation list \<Rightarrow> operation list" where
  "execution_order ops = partition_loop [] [] [] [] ops"

subsection \<open>Dispatch\<close>

definition to_mds :: "role_binding \<Rightarrow> mds_role_binding" where
  "to_mds rb =
     \<lparr>mrb_principal = rb_principal rb, mrb_role = rb_role rb,
      mrb_scope = \<lparr>msc_type = sc_type (rb_scope_of rb),
        msc_kafkaCluster = sc_kafkaCluster (rb_scope_of rb),
        msc_subCluster = sc_subCluster (rb_scope_of rb)\<rparr>,
      mrb_resource = map_option (\<lambda>r. \<lparr>mrp_type = rp_type r, mrp_name = rp_name r,
        mrp_patternType = rp_patternType r\<rparr>) (rb_resource rb)\<rparr>"

definition dispatch_role_binding :: "'w mds_client option \<Rightarrow> operation \<Rightarrow> 'w act" where
  "dispatch_role_binding client op w =
     (case client of
        None \<Rightarrow> (w, Some [T ''MDS not configured''])
      | Some c \<Rightarrow>
          (case op_roleBinding op of
             None \<Rightarrow> (w, Some [T (action_name (op_action op)), T '' operation '', Q (op_target op),
               T '' has no RoleBinding payload''])
           | Some b \<Rightarrow>
               (if op_action op = AddRoleBinding then mc_addRoleBinding c (to_mds b) w
                else if op_action op = RemoveRoleBinding then mc_removeRoleBinding c (to_mds b) w
                else (w, Some [T ''unsupported role-binding operation '',
                       T (action_name (op_action op))]))))"

definition dispatch_schema :: "'w schema_client option \<Rightarrow> operation \<Rightarrow> 'w act" where
  "dispatch_schema client op w =
     (case client of
        None \<Rightarrow> (w, Some [T ''schema registry not configured''])
      | Some c \<Rightarrow>
          (if op_action op = RegisterSchema then
             sc_registerSchema c (op_subject op)
               \<lparr>sch_type = op_schemaType op, sch_definition = op_schemaDef op\<rparr> w
           else if op_action op = RaiseSchemaCompatibility \<or> op_action op = LowerSchemaCompatibility
             then sc_setCompatibility c (op_subject op) (op_compatibility op) w
           else if op_action op = DeleteSubject then sc_deleteSubject c (op_subject op) w
           else (w, Some [T ''unsupported schema operation '', T (action_name (op_action op))])))"

definition upsert_scram :: "'w clients \<Rightarrow> operation \<Rightarrow> 'w act" where
  "upsert_scram c op w =
     (case op_passwordRef op of
        None \<Rightarrow> (w, Some [T (action_name (op_action op)), T '' operation '', Q (op_target op),
            T '' has no password reference''])
      | Some vf \<Rightarrow>
          (case cl_passwords c of
             None \<Rightarrow> (w, Some [T (action_name (op_action op)), T '' operation '', Q (op_target op),
                 T '': no password resolver configured''])
           | Some resolve \<Rightarrow>
               (case resolve vf of
                  Inl e \<Rightarrow> (w, Some ([T ''resolving password for user '', Q (op_scramUser op), T '': ''] @ e))
                | Inr password \<Rightarrow>
                    (case ac_upsertScram (cl_kafka c)
                            \<lparr>su_user = op_scramUser op, su_mechanism = op_scramMechanism op,
                             su_iterations = op_scramIterations op, su_password = password\<rparr> w of
                       (w', Some e) \<Rightarrow> (w', Some e)
                     | (w', None) \<Rightarrow>
                         (if op_scramDeleteMechanism op \<noteq> [] then
                            (case ac_deleteScram (cl_kafka c) (op_scramUser op)
                                    (op_scramDeleteMechanism op) w' of
                               (w'', None) \<Rightarrow> (w'', None)
                             | (w'', Some e) \<Rightarrow> (w'', Some
                                 ([T ''upserted '', T (op_scramMechanism op),
                                   T '' credential for user '', Q (op_scramUser op),
                                   T '' but failed to delete the old '', T (op_scramDeleteMechanism op),
                                   T ('' credential (the principal now has BOTH mechanisms; this cannot be retried via re-apply '' @
                                     [CHR 0xE2, CHR 0x80, CHR 0x94] @
                                     '' delete the old credential manually or via the operator): '')] @ e)))
                          else (w', None))))))"

definition note_failed :: "string \<Rightarrow> go_error option \<Rightarrow> string set \<Rightarrow> string set" where
  "note_failed topic err failed = (if err \<noteq> None then insert topic failed else failed)"

definition dispatch ::
    "'w clients \<Rightarrow> operation \<Rightarrow> 'w \<Rightarrow> string set \<Rightarrow> 'w \<times> string set \<times> go_error option" where
  "dispatch c op w failed =
     (if is_schema_op (op_action op) then
        (case dispatch_schema (cl_schema c) op w of (w', e) \<Rightarrow> (w', failed, e))
      else if is_role_binding_op (op_action op) then
        (case dispatch_role_binding (cl_mds c) op w of (w', e) \<Rightarrow> (w', failed, e))
      else
        let client = cl_kafka c;
            plain = (\<lambda>r. case r of (w', e) \<Rightarrow> (w', failed, e))
        in case op_action op of
          CreateTopic \<Rightarrow>
            (case ac_createTopic client
                    \<lparr>tsp_name = op_target op, tsp_partitions = op_partitions op,
                     tsp_replicationFactor = op_replicationFactor op, tsp_config = op_config op\<rparr> w of
               (w', e) \<Rightarrow> (w', note_failed (op_target op) e failed, e))
        | CreateMirrorTopic \<Rightarrow>
            (case cl_mirrors c of
               None \<Rightarrow> (w, insert (op_target op) failed, Some errRESTNotConfigured)
             | Some m \<Rightarrow>
                 (case mw_createMirror m op w of
                    (w', e) \<Rightarrow> (w', note_failed (op_target op) e failed, e)))
        | UpdateMirrorTopicConfig \<Rightarrow>
            (case cl_mirrors c of
               None \<Rightarrow> (w, failed, Some errRESTNotConfigured)
             | Some m \<Rightarrow> plain (mw_alterMirrorConfig m op w))
        | UpdateTopicConfig \<Rightarrow>
            plain (ac_updateTopicConfig client (op_target op) [(op_field op, op_to op)] w)
        | IncreasePartitions \<Rightarrow> plain (ac_createPartitions client (op_target op) (op_partitions op) w)
        | DeleteTopic \<Rightarrow> plain (ac_deleteTopic client (op_target op) w)
        | CreateAcl \<Rightarrow>
            (case op_acl op of
               None \<Rightarrow> (w, failed, Some [T ''CreateAcl operation '', Q (op_target op), T '' has no ACL''])
             | Some a \<Rightarrow> plain (ac_createACLs client [a] w))
        | DeleteAcl \<Rightarrow>
            (case op_acl op of
               None \<Rightarrow> (w, failed, Some [T ''DeleteAcl operation '', Q (op_target op), T '' has no ACL''])
             | Some a \<Rightarrow> plain (ac_deleteACLs client [a] w))
        | SetQuota \<Rightarrow> plain (ac_setQuota client (op_quotaEntity op) (op_quotaLimits op) w)
        | UpdateQuota \<Rightarrow> plain (ac_setQuota client (op_quotaEntity op) (op_quotaLimits op) w)
        | RemoveQuota \<Rightarrow>
            plain (ac_deleteQuota client (op_quotaEntity op) (mkeys (op_quotaLimits op)) w)
        | CreateScramCredential \<Rightarrow> plain (upsert_scram c op w)
        | UpdateScramCredential \<Rightarrow> plain (upsert_scram c op w)
        | RotateScramCredential \<Rightarrow> plain (upsert_scram c op w)
        | DeleteScramCredential \<Rightarrow>
            plain (ac_deleteScram client (op_scramUser op) (op_scramMechanism op) w)
        | _ \<Rightarrow> (w, failed, Some [T ''unsupported operation '', T (action_name (op_action op))]))"

subsection \<open>One operation\<close>

definition mk_result :: "operation \<Rightarrow> status \<Rightarrow> go_error \<Rightarrow> op_result" where
  "mk_result op st e = \<lparr>res_op = op, res_status = st, res_err = e\<rparr>"

text \<open>
  The early returns of \<open>applyOne\<close>, in order: mode gate, findings, gates, unsupported changes,
  prerequisite skips. \<^term>\<open>None\<close> falls through to dispatch.
\<close>

definition gate_verdict :: "operation \<Rightarrow> approvals \<Rightarrow> status option" where
  "gate_verdict op ap =
     (case gate_of (op_action op) of
        GateDelete \<Rightarrow> (if \<not> appr_delete ap then Some StBlocked else None)
      | GateDestructive \<Rightarrow> (if \<not> appr_destructive ap then Some StBlocked else None)
      | GatePrune \<Rightarrow> (if \<not> appr_prune ap \<and> \<not> op_pruneAllowed op then Some StPruneDisabled else None)
      | GateNone \<Rightarrow> None)"

definition pre_verdict :: "operation \<Rightarrow> approvals \<Rightarrow> string set \<Rightarrow> (status \<times> go_error) option" where
  "pre_verdict op ap failed =
     (if report_only op then Some (StReportOnly, [])
      else if op_action op = Rejected then Some (StRejected, [])
      else if op_action op = MirrorTopicProgressing then Some (StReportOnly, [])
      else if op_action op \<in> {MirrorTopicUnhealthy, MirrorTopicStopping, MirrorTopicPromoted,
                              UnsupportedReplicationFactorChange} then
        Some (StUnsupported, op_message op)
      else if op_action op = StateReadError then Some (StFailed, op_message op)
      else if op_action op = SchemaSuperseded then
        Some (StUnsupported,
          if op_message op = [] then
            [T ''manifest schema is an older version of subject '', T (op_subject op),
             T ''; update the manifest or roll the registry forward'']
          else op_message op)
      else case gate_verdict op ap of
        Some st \<Rightarrow> Some (st, [])
      | None \<Rightarrow>
          (if op_action op = UpdateReplicationFactor then
             Some (StUnsupported, [T ''replication factor changes are not supported; recreate the topic or use kafka-reassign-partitions''])
           else if op_action op = CreateAcl \<and>
                (case op_acl op of None \<Rightarrow> False
                 | Some a \<Rightarrow> as_resourceType a = ''topic'' \<and> as_resourceName a \<in> failed)
             then Some (StSkipped, [])
           else if is_schema_op (op_action op) \<and> op_topic op \<noteq> [] \<and> op_topic op \<in> failed
             then Some (StSkipped, [])
           else None))"

definition apply_one ::
    "'w clients \<Rightarrow> approvals \<Rightarrow> operation \<Rightarrow> 'w \<Rightarrow> string set \<Rightarrow> 'w \<times> string set \<times> op_result" where
  "apply_one c ap op w failed =
     (case pre_verdict op ap failed of
        Some (st, e) \<Rightarrow> (w, failed, mk_result op st e)
      | None \<Rightarrow>
          (case dispatch c op w failed of
             (w', failed', Some e) \<Rightarrow> (w', failed', mk_result op StFailed e)
           | (w', failed', None) \<Rightarrow> (w', failed', mk_result op StSucceeded [])))"

fun apply_loop ::
    "'w clients \<Rightarrow> approvals \<Rightarrow> operation list \<Rightarrow> 'w \<Rightarrow> string set \<Rightarrow> 'w \<times> string set \<times> op_result list" where
  "apply_loop c ap [] w failed = (w, failed, [])"
| "apply_loop c ap (op # ops) w failed =
     (case apply_one c ap op w failed of
        (w', failed', r) \<Rightarrow>
          (case apply_loop c ap ops w' failed' of (w'', failed'', rs) \<Rightarrow> (w'', failed'', r # rs)))"

definition apply_ops :: "'w clients \<Rightarrow> operation list \<Rightarrow> approvals \<Rightarrow> 'w \<Rightarrow> 'w \<times> op_result list" where
  "apply_ops c ops ap w =
     (case apply_loop c ap (execution_order ops) w {} of (w', _, rs) \<Rightarrow> (w', rs))"

subsection \<open>Lemmas on the execution order\<close>

lemma partition_loop_eq:
  "partition_loop ts as ss rs ops =
     (ts @ filter (\<lambda>op. \<not> is_acl_op (op_action op) \<and> \<not> is_schema_op (op_action op) \<and>
              \<not> is_role_binding_op (op_action op)) ops) @
     (as @ filter (\<lambda>op. is_acl_op (op_action op)) ops) @
     (ss @ filter (\<lambda>op. is_schema_op (op_action op)) ops) @
     (rs @ filter (\<lambda>op. is_role_binding_op (op_action op)) ops)"
  by (induction ops arbitrary: ts as ss rs)
     (auto simp: is_acl_op_def is_schema_op_def is_role_binding_op_def)

lemma execution_order_eq:
  "execution_order ops =
     filter (\<lambda>op. \<not> is_acl_op (op_action op) \<and> \<not> is_schema_op (op_action op) \<and>
       \<not> is_role_binding_op (op_action op)) ops @
     filter (\<lambda>op. is_acl_op (op_action op)) ops @
     filter (\<lambda>op. is_schema_op (op_action op)) ops @
     filter (\<lambda>op. is_role_binding_op (op_action op)) ops"
  by (simp add: execution_order_def partition_loop_eq)

lemma mset_execution_order [simp]: "mset (execution_order ops) = mset ops"
  unfolding execution_order_eq
  by (induction ops) (auto simp: is_acl_op_def is_schema_op_def is_role_binding_op_def)

lemma set_execution_order [simp]: "set (execution_order ops) = set ops"
  using mset_execution_order by (metis set_mset_mset)

subsection \<open>Lemmas on the run\<close>

text \<open>An operation with an early verdict touches nothing.\<close>

lemma apply_one_pre:
  "pre_verdict op ap failed = Some (st, e) \<Longrightarrow>
   apply_one c ap op w failed = (w, failed, mk_result op st e)"
  by (simp add: apply_one_def)

lemma gate_verdict_status: "gate_verdict op ap = Some st \<Longrightarrow> st \<in> {StBlocked, StPruneDisabled}"
  by (auto simp: gate_verdict_def split: gate.splits if_splits)

lemma pre_verdict_not_succeeded:
  "pre_verdict op ap failed = Some (st, e) \<Longrightarrow> st \<noteq> StSucceeded"
  by (auto simp: pre_verdict_def dest: gate_verdict_status split: if_splits option.splits)

lemma apply_one_op [simp]: "res_op (snd (snd (apply_one c ap op w failed))) = op"
  by (auto simp: apply_one_def mk_result_def split: option.split prod.split)

lemma apply_one_status:
  assumes "apply_one c ap op w failed = (w', failed', r)"
    and "res_status r \<notin> {StSucceeded, StFailed}"
  shows "w' = w \<and> failed' = failed"
  using assms by (auto simp: apply_one_def mk_result_def split: option.splits prod.splits)

lemma dispatched_iff:
  "pre_verdict op ap failed = None \<Longrightarrow>
   \<not> report_only op \<and> \<not> finding (op_action op) \<and> gate_verdict op ap = None \<and>
   op_action op \<noteq> UpdateReplicationFactor"
  by (auto simp: pre_verdict_def finding_def split: if_splits option.splits)

lemma apply_loop_append:
  "apply_loop c ap (xs @ ys) w f =
     (case apply_loop c ap xs w f of
        (w', f', rs) \<Rightarrow> (case apply_loop c ap ys w' f' of (w'', f'', rs') \<Rightarrow> (w'', f'', rs @ rs')))"
  by (induction xs arbitrary: w f) (auto split: prod.split)

lemma apply_loop_ops:
  "apply_loop c ap ops w f = (w', f', rs) \<Longrightarrow> map res_op rs = ops"
proof (induction ops arbitrary: w f w' f' rs)
  case Nil
  then show ?case by simp
next
  case (Cons op ops)
  obtain w1 f1 r where one: "apply_one c ap op w f = (w1, f1, r)" by (metis prod_cases3)
  obtain w2 f2 rs' where rest: "apply_loop c ap ops w1 f1 = (w2, f2, rs')" by (metis prod_cases3)
  have "rs = r # rs'" using Cons.prems by (simp add: one rest)
  moreover have "res_op r = op" using apply_one_op [of c ap op w f] by (simp add: one)
  ultimately show ?case using Cons.IH [OF rest] by simp
qed

lemma apply_one_failed_mono:
  "apply_one c ap op w f = (w', f', r) \<Longrightarrow> f \<subseteq> f'"
  by (auto simp: apply_one_def dispatch_def Let_def note_failed_def
      split: option.splits prod.splits if_splits action.splits)

lemma apply_loop_mono: "apply_loop c ap ops w f = (w', f', rs) \<Longrightarrow> f \<subseteq> f'"
proof (induction ops arbitrary: w f w' f' rs)
  case Nil
  then show ?case by simp
next
  case (Cons op ops)
  obtain w1 f1 r1 where one: "apply_one c ap op w f = (w1, f1, r1)" by (metis prod_cases3)
  obtain w2 f2 rs2 where rest: "apply_loop c ap ops w1 f1 = (w2, f2, rs2)" by (metis prod_cases3)
  have "f' = f2" using Cons.prems by (simp add: one rest)
  then show ?case using apply_one_failed_mono [OF one] Cons.IH [OF rest] by simp
qed

end
