(* ===== verification/Mirror_Writer.thy ===== *)
theory Mirror_Writer
  imports Executor Diff_Props
begin

section \<open>The mirror writer (internal/mirror/writer.go)\<close>

text \<open>
  The only two writes of the mirror path. Each takes a fresh snapshot of the current world and
  re-checks the rules of the diff; a check that fails returns a \<open>pre-write check:\<close> error and leaves the
  world as it is.
\<close>

definition pre_write :: "message \<Rightarrow> go_error" where
  "pre_write m = T ''pre-write check: '' # m"

definition fresh_link ::
    "'w admin_client \<Rightarrow> 'w rest_client \<Rightarrow> operation \<Rightarrow> 'w \<Rightarrow> go_error + snapshot \<times> link_info" where
  "fresh_link k r op w =
     (let s = read_snapshot k r [op_mirrorLink op] w
      in if \<not> complete s then
           Inl (pre_write ([T ''cannot read mirror state for '', T (op_target op), T '': ''] @
             (case sn_err s of Some e \<Rightarrow> e | None \<Rightarrow> [T ''%!w(<nil>)''])))
         else
           (case sn_links s (op_mirrorLink op) of
              None \<Rightarrow> Inl (pre_write [T ''link '', Q (op_mirrorLink op),
                T '' not found on the destination cluster''])
            | Some l \<Rightarrow>
                (case li_configErr l of
                   Some e \<Rightarrow> Inl (pre_write ([T ''cannot read link '', Q (op_mirrorLink op),
                     T '' configs: ''] @ e))
                 | None \<Rightarrow> Inr (s, l))))"

definition check_key :: "link_info \<Rightarrow> string \<Rightarrow> go_error option" where
  "check_key l key =
     (let (managed, known) = link_managed l key
      in if \<not> known then
           Some (pre_write [T ''cannot determine whether '', T key, T '' is link-managed: link '',
             Q (ln_name (li_link l)), T '' does not report topic.config.sync.include''])
         else if managed then
           Some (pre_write [T ''config '', T key, T '' is link-managed by link '',
             Q (ln_name (li_link l))])
         else None)"

text \<open>The loop over the sorted config keys, left at the first error.\<close>

fun check_keys :: "link_info \<Rightarrow> string list \<Rightarrow> go_error option" where
  "check_keys l [] = None"
| "check_keys l (k # ks) = (case check_key l k of Some e \<Rightarrow> Some e | None \<Rightarrow> check_keys l ks)"

definition mirror_request :: "operation \<Rightarrow> create_mirror_request" where
  "mirror_request op =
     \<lparr>cmr_linkName = op_mirrorLink op, cmr_sourceTopicName = op_mirrorSource op,
      cmr_mirrorTopicName = op_target op, cmr_replicationFactor = op_replicationFactor op,
      cmr_configs = op_config op\<rparr>"

definition post_mirror :: "'w rest_client \<Rightarrow> operation \<Rightarrow> 'w act" where
  "post_mirror r op w =
     (case rc_createMirror r (mirror_request op) w of
        (w', Some e) \<Rightarrow> (w', Some ([T ''create mirror '', T (op_target op),
            T '': outcome unknown, re-run diff before retrying: ''] @ e))
      | (w', None) \<Rightarrow> (w', None))"

definition create_mirror :: "'w admin_client \<Rightarrow> 'w rest_client \<Rightarrow> operation \<Rightarrow> 'w act" where
  "create_mirror k r op w =
     (case fresh_link k r op w of
        Inl e \<Rightarrow> (w, Some e)
      | Inr (s, l) \<Rightarrow>
          if classify s (op_target op) \<noteq> Absent then
            (w, Some (pre_write [T ''topic '', T (op_target op), T '' is now '',
              T (classification_name (classify s (op_target op))), T '', not Absent'']))
          else if \<not> link_active l then
            (w, Some (pre_write [T ''link '', Q (op_mirrorLink op), T '' is '',
              T (ln_state (li_link l)), T '', not ACTIVE'']))
          else
            (case check_prefix l (op_target op) (op_mirrorSource op) (op_mirrorNameExplicit op) of
               Some e \<Rightarrow> (w, Some (pre_write e))
             | None \<Rightarrow>
                 (case check_keys l (mkeys (op_config op)) of
                    Some e \<Rightarrow> (w, Some e)
                  | None \<Rightarrow> post_mirror r op w)))"

definition post_config :: "'w rest_client \<Rightarrow> operation \<Rightarrow> 'w act" where
  "post_config r op w =
     (case rc_alterTopicConfigs r (op_target op) [(op_field op, op_to op)] w of
        (w', Some e) \<Rightarrow> (w', Some ([T ''alter mirror '', T (op_target op), T '' config '',
            T (op_field op), T '': ''] @ e))
      | (w', None) \<Rightarrow> (w', None))"

definition alter_mirror_config ::
    "'w admin_client \<Rightarrow> 'w rest_client \<Rightarrow> operation \<Rightarrow> 'w act" where
  "alter_mirror_config k r op w =
     (case fresh_link k r op w of
        Inl e \<Rightarrow> (w, Some e)
      | Inr (s, l) \<Rightarrow>
          if classify s (op_target op) \<noteq> MirrorTopic then
            (w, Some (pre_write [T ''topic '', T (op_target op), T '' is now '',
              T (classification_name (classify s (op_target op))), T '', not a live mirror'']))
          else
            let m = mirror_at s (op_target op)
            in if mi_linkName m \<noteq> op_mirrorLink op \<or> mi_sourceTopicName m \<noteq> op_mirrorSource op then
                 (w, Some (pre_write [T ''topic '', T (op_target op), T '' is a mirror of '',
                   T (mi_sourceTopicName m), T '' on link '', T (mi_linkName m), T ''; planned '',
                   T (op_mirrorSource op), T '' on '', T (op_mirrorLink op)]))
               else
                 (case check_key l (op_field op) of
                    Some e \<Rightarrow> (w, Some e)
                  | None \<Rightarrow> post_config r op w))"

text \<open>The value implementing the executor's \<open>Mirrors\<close> interface.\<close>

definition mirror_writer :: "'w admin_client \<Rightarrow> 'w rest_client \<Rightarrow> 'w mirrors_writer" where
  "mirror_writer k r =
     \<lparr>mw_createMirror = create_mirror k r, mw_alterMirrorConfig = alter_mirror_config k r\<rparr>"

subsection \<open>The checks\<close>

definition refused :: "'w \<Rightarrow> 'w \<times> go_error option \<Rightarrow> bool" where
  "refused w res \<longleftrightarrow> (\<exists>e. res = (w, Some (pre_write e)))"

lemma refusedI [intro]: "refused w (w, Some (pre_write e))"
  by (auto simp: refused_def)

lemma check_key_None: "check_key l k = None \<longleftrightarrow> link_managed l k = (False, True)"
  by (auto simp: check_key_def split: prod.splits)

lemma check_key_Some: "check_key l k = Some e \<Longrightarrow> \<exists>m. e = pre_write m"
  by (auto simp: check_key_def split: prod.splits if_splits)

lemma check_keys_None:
  "check_keys l ks = None \<longleftrightarrow> (\<forall>k \<in> set ks. link_managed l k = (False, True))"
  by (induction ks) (simp_all add: check_key_None [symmetric] split: option.split)

lemma check_keys_Some: "check_keys l ks = Some e \<Longrightarrow> \<exists>m. e = pre_write m"
  by (induction ks) (auto dest: check_key_Some split: option.splits)

lemma fresh_link_Inr:
  "fresh_link k r op w = Inr (s, l) \<longleftrightarrow>
     s = read_snapshot k r [op_mirrorLink op] w \<and> complete s \<and>
     sn_links s (op_mirrorLink op) = Some l \<and> li_configErr l = None"
  by (auto simp: fresh_link_def Let_def split: option.splits)

lemma fresh_link_Inl: "fresh_link k r op w = Inl e \<Longrightarrow> \<exists>m. e = pre_write m"
  by (auto simp: fresh_link_def Let_def split: option.splits if_splits)

text \<open>What a creation needs of a snapshot, and what a config change needs.\<close>

definition creatable :: "snapshot \<Rightarrow> operation \<Rightarrow> bool" where
  "creatable s op \<longleftrightarrow> classify s (op_target op) = Absent \<and>
     (case sn_links s (op_mirrorLink op) of
        None \<Rightarrow> False
      | Some l \<Rightarrow> li_configErr l = None \<and> link_active l \<and>
          check_prefix l (op_target op) (op_mirrorSource op) (op_mirrorNameExplicit op) = None \<and>
          list_all (\<lambda>k. link_managed l k = (False, True)) (mkeys (op_config op)))"

definition alterable :: "snapshot \<Rightarrow> operation \<Rightarrow> bool" where
  "alterable s op \<longleftrightarrow> classify s (op_target op) = MirrorTopic \<and>
     mi_linkName (mirror_at s (op_target op)) = op_mirrorLink op \<and>
     mi_sourceTopicName (mirror_at s (op_target op)) = op_mirrorSource op \<and>
     (case sn_links s (op_mirrorLink op) of
        None \<Rightarrow> False
      | Some l \<Rightarrow> li_configErr l = None \<and> link_managed l (op_field op) = (False, True))"

lemma create_mirror_cases:
  "if creatable (read_snapshot k r [op_mirrorLink op] w) op
   then create_mirror k r op w = post_mirror r op w
   else refused w (create_mirror k r op w)"
proof (cases "fresh_link k r op w")
  case (Inl e)
  then have "\<not> creatable (read_snapshot k r [op_mirrorLink op] w) op"
    using fresh_link_Inr [of k r op w]
    by (auto simp: creatable_def classify_Absent split: option.splits)
  then show ?thesis using Inl fresh_link_Inl [OF Inl] by (auto simp: create_mirror_def)
next
  case (Inr sl)
  obtain s l where sl: "sl = (s, l)" by (cases sl)
  have s: "read_snapshot k r [op_mirrorLink op] w = s" "sn_links s (op_mirrorLink op) = Some l"
    "li_configErr l = None"
    using Inr fresh_link_Inr [of k r op w s l] by (auto simp: sl)
  show ?thesis
    unfolding s(1) using s(2,3) Inr check_keys_None [of l "mkeys (op_config op)"]
    by (auto simp: creatable_def create_mirror_def sl list_all_iff dest: check_keys_Some
        split: option.splits)
qed

lemma alter_mirror_config_cases:
  "if alterable (read_snapshot k r [op_mirrorLink op] w) op
   then alter_mirror_config k r op w = post_config r op w
   else refused w (alter_mirror_config k r op w)"
proof (cases "fresh_link k r op w")
  case (Inl e)
  then have "\<not> alterable (read_snapshot k r [op_mirrorLink op] w) op"
    using fresh_link_Inr [of k r op w]
    by (auto simp: alterable_def classify_MirrorTopic split: option.splits)
  then show ?thesis using Inl fresh_link_Inl [OF Inl] by (auto simp: alter_mirror_config_def)
next
  case (Inr sl)
  obtain s l where sl: "sl = (s, l)" by (cases sl)
  have s: "read_snapshot k r [op_mirrorLink op] w = s" "sn_links s (op_mirrorLink op) = Some l"
    "li_configErr l = None"
    using Inr fresh_link_Inr [of k r op w s l] by (auto simp: sl)
  show ?thesis
    unfolding s(1) using s(2,3) Inr check_key_None [of l "op_field op"]
    by (auto simp: alterable_def alter_mirror_config_def sl Let_def dest: check_key_Some
        split: option.splits)
qed

subsection \<open>Plan and write\<close>

text \<open>The creation the diff plans for a declared mirror, whatever the snapshot it plans on.\<close>

definition planned_create :: "desired_mirror \<Rightarrow> operation" where
  "planned_create dm =
     (set_mirror_identity dm (new_mirror_op dm CreateMirrorTopic []))
       \<lparr>op_replicationFactor := dm_replicationFactor dm, op_config := dm_config dm\<rparr>"

lemma planned_create_simps [simp]:
  "op_action (planned_create dm) = CreateMirrorTopic"
  "op_target (planned_create dm) = dm_topicName dm"
  "op_mirrorLink (planned_create dm) = dm_linkName dm"
  "op_mirrorSource (planned_create dm) = dm_sourceTopicName dm"
  "op_mirrorNameExplicit (planned_create dm) = dm_topicNameExplicit dm"
  "op_config (planned_create dm) = dm_config dm"
  by (simp_all add: planned_create_def set_mirror_identity_def new_mirror_op_def)

lemma absent_mirror_planned_create:
  "planned_create dm \<in> set (absent_mirror_ops dm link) \<longleftrightarrow>
     link_active link \<and> list_all (\<lambda>k. link_managed link k = (False, True)) (mkeys (dm_config dm))"
proof -
  have "planned_create dm \<in> set (absent_mirror_ops dm link) \<longleftrightarrow>
      planned_create dm \<in> set (absent_mirror_ops dm link) \<and> op_action (planned_create dm) = CreateMirrorTopic"
    by simp
  then show ?thesis
    unfolding absent_mirror_create by (auto simp: planned_create_def list_all_iff)
qed

lemma planned_create_iff_creatable:
  "planned_create dm \<in> set (mirror_ops_for dm (Some s)) \<longleftrightarrow> creatable s (planned_create dm)"
proof
  assume "planned_create dm \<in> set (mirror_ops_for dm (Some s))"
  then show "creatable s (planned_create dm)"
  proof (cases rule: mirror_ops_for_cases)
    case finding
    then show ?thesis by (simp add: finding_def)
  next
    case (absent s' link)
    then show ?thesis by (simp add: creatable_def absent_mirror_planned_create)
  next
    case (live s' link)
    then show ?thesis using live_mirror_actions by fastforce
  qed
next
  assume c: "creatable s (planned_create dm)"
  then have "complete s" by (auto simp: creatable_def classify_Absent)
  then show "planned_create dm \<in> set (mirror_ops_for dm (Some s))"
    using c by (auto simp: creatable_def mirror_ops_for_def Let_def absent_mirror_planned_create
        split: option.splits)
qed

text \<open>
  Plan time is not write time: for every declared mirror, the writer posts the planned creation
  exactly when the diff, run again on a snapshot read at write time, would still plan it; in every
  other case it returns a pre-write error and the world is unchanged. The two check lists of diff
  and writer therefore agree.
\<close>

theorem create_mirror_agrees_with_plan:
  "if planned_create dm \<in> set (mirror_ops_for dm (Some (read_snapshot k r [dm_linkName dm] w)))
   then create_mirror k r (planned_create dm) w = post_mirror r (planned_create dm) w
   else refused w (create_mirror k r (planned_create dm) w)"
  using create_mirror_cases [of k r "planned_create dm" w]
  by (simp add: planned_create_iff_creatable)

lemma mirror_update_alterable:
  assumes "op \<in> set (mirror_ops_for dm (Some s))" "op_action op = UpdateMirrorTopicConfig"
  shows "alterable s op \<and> op_mirrorLink op = dm_linkName dm \<and> op_target op = dm_topicName dm"
  using assms(1)
proof (cases rule: mirror_ops_for_cases)
  case finding
  then show ?thesis using assms(2) by (simp add: finding_def)
next
  case (absent s' link)
  then show ?thesis using assms(2) absent_mirror_actions by fastforce
next
  case (live s' link)
  obtain lt key where "op \<in> set (mirror_config_op dm link lt key)"
    using live(9) assms(2) by (auto simp: live_mirror_ops_def Let_def
        dest: mirror_health_actions mirror_replication_actions)
  then show ?thesis using live assms(2)
    by (auto simp: mirror_config_op_def Let_def alterable_def set_mirror_identity_def
        new_mirror_op_def link_managed_rejection_None [symmetric] split: option.splits if_splits)
qed

text \<open>
  A mirror's configuration is written only when a snapshot read at write time still shows a live
  mirror of the same source on the same link and the key as not link-managed, and then with
  exactly the planned key and value; otherwise the writer returns a pre-write error and the world is
  unchanged. Whatever the diff would plan on that fresh snapshot passes the check.
\<close>

theorem alter_mirror_config_rechecks:
  "(if alterable (read_snapshot k r [op_mirrorLink op] w) op
    then alter_mirror_config k r op w = post_config r op w
    else refused w (alter_mirror_config k r op w)) \<and>
   {o' \<in> set (mirror_ops_for dm (Some s)). op_action o' = UpdateMirrorTopicConfig} \<subseteq>
     Collect (alterable s)"
  using alter_mirror_config_cases [of k r op w] mirror_update_alterable by blast

end
