(* ===== verification/Cli_Plan.thy ===== *)
theory Cli_Plan
  imports Executor Mirror_Writer
begin

section \<open>The CLI run (internal/cli: diff.go, live.go, apply.go, verify.go)\<close>

text \<open>
  \<open>computeOps\<close> from the assembled plan on: read the live state of exactly the kinds the manifests
  declare, hand desired and live state to the diff, and keep the clients for the executor. Then the
  exit codes of \<open>apply\<close> and \<open>verify\<close>. The client constructors are parameters (a service of this run);
  an absent service is \<^term>\<open>None\<close>, a constructor error a left value. Every error is exit code 2.
\<close>

subsection \<open>Plan and services\<close>

text \<open>The fields of \<open>pipeline.Plan\<close> that \<open>computeOps\<close> reads.\<close>

record plan =
  pl_selectedCluster :: string
  pl_mirrors :: "desired_mirror list"
  pl_topics :: "desired_topic list"
  pl_schemas :: "desired_schema list"
  pl_acls :: "acl list"
  pl_quotas :: "desired_quota list"
  pl_roleBindings :: "role_binding list"
  pl_users :: "desired_user list"
  pl_scope :: managed_scope
  pl_roleBindingScope :: rb_managed_scope

record 'w services =
  sv_kafka :: "'w admin_client"
  sv_mds :: "go_error + 'w mds_client option"
  sv_schema :: "go_error + 'w schema_client option"
  sv_rest :: "go_error + 'w rest_client option"
  sv_passwords :: "value_from \<Rightarrow> go_error + string"

definition and_then :: "'e + 'a \<Rightarrow> ('a \<Rightarrow> 'e + 'b) \<Rightarrow> 'e + 'b" where
  "and_then x f = (case x of Inl e \<Rightarrow> Inl e | Inr a \<Rightarrow> f a)"

lemma and_then_simps [simp]: "and_then (Inl e) f = Inl e" "and_then (Inr a) f = f a"
  by (simp_all add: and_then_def)

lemma and_then_Inr: "and_then x f = Inr b \<longleftrightarrow> (\<exists>a. x = Inr a \<and> f a = Inr b)"
  by (cases x) auto

definition read_when :: "bool \<Rightarrow> ('w, 'a list) query \<Rightarrow> 'w \<Rightarrow> go_error + 'a list" where
  "read_when wanted q w = (if wanted then q w else Inr [])"

subsection \<open>Conversions of live state\<close>

definition from_mds_role_binding :: "mds_role_binding \<Rightarrow> role_binding" where
  "from_mds_role_binding rb =
     \<lparr>rb_principal = mrb_principal rb, rb_role = mrb_role rb,
      rb_scope_of = \<lparr>sc_type = msc_type (mrb_scope rb), sc_kafkaCluster = msc_kafkaCluster (mrb_scope rb),
        sc_subCluster = msc_subCluster (mrb_scope rb)\<rparr>,
      rb_resource = map_option (\<lambda>r. \<lparr>rp_type = mrp_type r, rp_name = mrp_name r,
        rp_patternType = mrp_patternType r\<rparr>) (mrb_resource rb),
      rb_mode = [], rb_sourceKind = [], rb_sourceNamespace = [], rb_sourceName = [], rb_prune = False\<rparr>"

definition from_mds_role_bindings :: "mds_role_binding list \<Rightarrow> role_binding list" where
  "from_mds_role_bindings rbs = map from_mds_role_binding rbs"

definition live_acl :: "acl_state \<Rightarrow> acl" where
  "live_acl s = mk_acl (as_principal s) (as_host s) (as_resourceType s) (as_resourceName s)
     (as_patternType s) (as_operation s) (as_permission s)"

definition live_acls :: "acl_state list \<Rightarrow> acl list" where
  "live_acls states = map live_acl states"

subsection \<open>Reading one kind\<close>

text \<open>The role-binding scopes of the desired set, first-seen, each listed once.\<close>

fun distinct_scopes :: "rb_scope set \<Rightarrow> role_binding list \<Rightarrow> rb_scope list" where
  "distinct_scopes seen [] = []"
| "distinct_scopes seen (b # bs) =
     (if rb_scope_of b \<in> seen then distinct_scopes seen bs
      else rb_scope_of b # distinct_scopes (insert (rb_scope_of b) seen) bs)"

definition to_mds_scope :: "rb_scope \<Rightarrow> mds_scope" where
  "to_mds_scope s =
     \<lparr>msc_type = sc_type s, msc_kafkaCluster = sc_kafkaCluster s, msc_subCluster = sc_subCluster s\<rparr>"

fun list_scopes :: "'w mds_client \<Rightarrow> rb_scope list \<Rightarrow> 'w \<Rightarrow> go_error + role_binding list" where
  "list_scopes c [] w = Inr []"
| "list_scopes c (s # ss) w =
     and_then (mc_listRoleBindings c (to_mds_scope s) w) (\<lambda>listed.
       and_then (list_scopes c ss w) (\<lambda>rest. Inr (from_mds_role_bindings listed @ rest)))"

definition read_role_bindings :: "'w services \<Rightarrow> plan \<Rightarrow> 'w \<Rightarrow> go_error + role_binding list" where
  "read_role_bindings sv pl w =
     (if pl_roleBindings pl = [] then Inr []
      else and_then (sv_mds sv) (\<lambda>client.
        case client of
          None \<Rightarrow> Inl [T ''MDS not configured for cluster '', Q (pl_selectedCluster pl)]
        | Some c \<Rightarrow> list_scopes c (distinct_scopes {} (pl_roleBindings pl)) w))"

definition read_users :: "'w services \<Rightarrow> plan \<Rightarrow> 'w \<Rightarrow> go_error + scram_credential list" where
  "read_users sv pl w =
     read_when (pl_users pl \<noteq> [])
       (ac_listScram (sv_kafka sv) (map (\<lambda>du. cr_username (du_credential du)) (pl_users pl))) w"

text \<open>
  One desired subject: its live state, if any, and the older version it is registered as, if the
  desired schema differs from the latest one but is registered.
\<close>

definition read_subject ::
    "'w schema_client \<Rightarrow> desired_schema \<Rightarrow> 'w \<Rightarrow> go_error + subject_state list \<times> int option" where
  "read_subject c ds w =
     and_then (sc_getSubject c (ds_subject ds) w) (\<lambda>st.
       case st of
         None \<Rightarrow>
           if ds_definition ds = [] then
             and_then (sc_getCompatibility c (ds_subject ds) w) (\<lambda>level.
               Inr ([\<lparr>ss_subject = ds_subject ds, ss_id = 0, ss_version = 0,
                       ss_schema = \<lparr>sch_type = [], sch_definition = []\<rparr>, ss_compatibility = level\<rparr>], None))
           else Inr ([], None)
       | Some st \<Rightarrow>
           and_then (sc_getCompatibility c (ds_subject ds) w) (\<lambda>level.
             let entry = [st\<lparr>ss_compatibility := level\<rparr>]
             in if ds_definition ds = [] \<or>
                   schema_equal (ds_type ds) (ds_definition ds) (sch_definition (ss_schema st))
                then Inr (entry, None)
                else and_then (sc_lookupSchema c (ds_subject ds)
                         \<lparr>sch_type = ds_type ds, sch_definition = ds_definition ds\<rparr> w) (\<lambda>v.
                       Inr (entry, if v > 0 then Some v else None))))"

fun read_subjects ::
    "'w schema_client \<Rightarrow> desired_schema list \<Rightarrow> 'w \<Rightarrow> go_error + subject_state list \<times> (string \<rightharpoonup> int)" where
  "read_subjects c [] w = Inr ([], Map.empty)"
| "read_subjects c (ds # dss) w =
     and_then (read_subject c ds w) (\<lambda>(entry, old).
       and_then (read_subjects c dss w) (\<lambda>(entries, superseded).
         Inr (entry @ entries,
           (case old of None \<Rightarrow> Map.empty | Some v \<Rightarrow> [ds_subject ds \<mapsto> v]) ++ superseded)))"

definition read_schemas ::
    "'w services \<Rightarrow> plan \<Rightarrow> 'w \<Rightarrow> go_error + string \<times> subject_state list \<times> (string \<rightharpoonup> int)" where
  "read_schemas sv pl w =
     (if pl_schemas pl = [] then Inr ([], [], Map.empty)
      else and_then (sv_schema sv) (\<lambda>client.
        case client of
          None \<Rightarrow> Inl [T ''schema registry not configured for cluster '', Q (pl_selectedCluster pl)]
        | Some c \<Rightarrow>
            let globalCompat = (case sc_getGlobalCompatibility c w of Inl _ \<Rightarrow> [] | Inr level \<Rightarrow> level)
            in and_then (read_subjects c (pl_schemas pl) w) (\<lambda>(entries, superseded).
                 Inr (globalCompat, entries, superseded))))"

fun link_names :: "string set \<Rightarrow> desired_mirror list \<Rightarrow> string list" where
  "link_names seen [] = []"
| "link_names seen (m # ms) =
     (if dm_linkName m \<in> seen then link_names seen ms
      else dm_linkName m # link_names (insert (dm_linkName m) seen) ms)"

definition read_mirrors :: "'w services \<Rightarrow> plan \<Rightarrow> 'w \<Rightarrow> go_error + snapshot option" where
  "read_mirrors sv pl w =
     (if pl_topics pl = [] \<and> pl_mirrors pl = [] then Inr None
      else and_then (sv_rest sv) (\<lambda>client. Inr
        (map_option (\<lambda>c. read_snapshot (sv_kafka sv) c (link_names {} (pl_mirrors pl)) w) client)))"

subsection \<open>Reading live state, computing the operations\<close>

definition read_live :: "'w services \<Rightarrow> plan \<Rightarrow> 'w \<Rightarrow> go_error + live" where
  "read_live sv pl w =
     and_then (read_when (pl_topics pl \<noteq> []) (ac_listTopics (sv_kafka sv)) w) (\<lambda>topics.
     and_then (read_when (pl_acls pl \<noteq> []) (ac_listACLs (sv_kafka sv)) w) (\<lambda>acls.
     and_then (read_when (pl_quotas pl \<noteq> []) (ac_listQuotas (sv_kafka sv)) w) (\<lambda>quotas.
     and_then (read_role_bindings sv pl w) (\<lambda>bindings.
     and_then (read_users sv pl w) (\<lambda>scram.
     and_then (read_schemas sv pl w) (\<lambda>(globalCompat, schemas, superseded).
     and_then (read_mirrors sv pl w) (\<lambda>mirrors.
       Inr \<lparr>l_topics = topics, l_acls = live_acls acls, l_schemas = schemas, l_quotas = quotas,
            l_roleBindings = bindings, l_scramCredentials = scram, l_supersededSchemas = superseded,
            l_globalCompatibility = globalCompat, l_globalCompatibilityErr = [],
            l_mirrors = mirrors\<rparr>)))))))"

definition plan_desired :: "plan \<Rightarrow> bool \<Rightarrow> desired" where
  "plan_desired pl rotatePasswords =
     \<lparr>d_topics = pl_topics pl, d_mirrors = pl_mirrors pl, d_acls = pl_acls pl,
      d_schemas = pl_schemas pl, d_quotas = pl_quotas pl, d_users = pl_users pl,
      d_scope = pl_scope pl, d_rotatePasswords = rotatePasswords,
      d_roleBindings = pl_roleBindings pl, d_roleBindingScope = pl_roleBindingScope pl,
      d_roleBindingPruneDesired = [], d_roleBindingPruneAggregateSet = False,
      d_pruneDesired = [], d_pruneScope = Map.empty, d_pruneAggregateSet = False\<rparr>"

text \<open>The clients \<open>computeOps\<close> hands back: the ones it had to build.\<close>

definition built :: "bool \<Rightarrow> go_error + 'c option \<Rightarrow> 'c option" where
  "built wanted r = (if wanted then (case r of Inl _ \<Rightarrow> None | Inr c \<Rightarrow> c) else None)"

definition run_clients :: "'w services \<Rightarrow> plan \<Rightarrow> 'w clients" where
  "run_clients sv pl =
     \<lparr>cl_kafka = sv_kafka sv,
      cl_schema = built (pl_schemas pl \<noteq> []) (sv_schema sv),
      cl_mds = built (pl_roleBindings pl \<noteq> []) (sv_mds sv),
      cl_mirrors = map_option (mirror_writer (sv_kafka sv))
        (built (pl_topics pl \<noteq> [] \<or> pl_mirrors pl \<noteq> []) (sv_rest sv)),
      cl_passwords = (if pl_users pl \<noteq> [] then Some (sv_passwords sv) else None)\<rparr>"

definition compute_ops :: "'w services \<Rightarrow> plan \<Rightarrow> bool \<Rightarrow> 'w \<Rightarrow> go_error + operation list" where
  "compute_ops sv pl rotatePasswords w =
     and_then (read_live sv pl w) (\<lambda>l. Inr (compute (plan_desired pl rotatePasswords) l))"

subsection \<open>Exit codes\<close>

fun apply_exit_code :: "op_result list \<Rightarrow> nat" where
  "apply_exit_code [] = 3"
| "apply_exit_code (r # rs) =
     (if res_status r \<in> {StSucceeded, StReportOnly, StPruneDisabled, StBlocked}
      then apply_exit_code rs else 2)"

text \<open>The \<open>apply\<close> command: the exit code and the world it leaves.\<close>

definition apply_cmd :: "'w services \<Rightarrow> plan \<Rightarrow> bool \<Rightarrow> approvals \<Rightarrow> 'w \<Rightarrow> 'w \<times> nat" where
  "apply_cmd sv pl rotatePasswords ap w =
     (case compute_ops sv pl rotatePasswords w of
        Inl _ \<Rightarrow> (w, 2)
      | Inr ops \<Rightarrow>
          (case apply_ops (run_clients sv pl) ops ap w of
             (w', rs) \<Rightarrow> (w', if result_ok rs then 0 else apply_exit_code rs)))"

fun verify_drift :: "operation list \<Rightarrow> nat" where
  "verify_drift [] = 0"
| "verify_drift (op # ops) =
     (if informational (op_action op) then verify_drift ops
      else if op_mode op \<noteq> ModeObserveOnly then 1 else verify_drift ops)"

definition verify_cmd :: "'w services \<Rightarrow> plan \<Rightarrow> 'w \<Rightarrow> nat" where
  "verify_cmd sv pl w =
     (case compute_ops sv pl False w of
        Inl _ \<Rightarrow> 2
      | Inr ops \<Rightarrow>
          if list_ex (\<lambda>op. operational_error (op_action op)) ops then 2 else verify_drift ops)"

end
