(* ===== verification/Go_Std.thy ===== *)
theory Go_Std
  imports Json
begin

section \<open>Go standard library functions of the validation layer\<close>

text \<open>
  The functions of \<open>path\<close>, \<open>net\<close>, \<open>strings\<close> and \<open>unicode/utf8\<close> that tenancy and validation call,
  over byte strings: \<open>path.Match\<close> (globs over namespaces), \<open>net.ParseIP\<close> (as a test), and
  \<open>strings.ToLower\<close> as far as its result can be compared with an ASCII string.
\<close>

subsection \<open>strings.ToLower\<close>

text \<open>
  ASCII letters fold to lower case. Two runes outside ASCII fold into it: U+0130 to \<open>i\<close> and U+212A
  to \<open>k\<close>. Every other rune stays outside ASCII whatever its case, so its bytes are left alone:
  the code only looks the result up among ASCII strings.
\<close>

definition lower_byte :: "char \<Rightarrow> char" where
  "lower_byte c = (if CHR ''A'' \<le> c \<and> c \<le> CHR ''Z'' then char_of ((of_char c :: nat) + 32) else c)"

fun to_lower :: "string \<Rightarrow> string" where
  "to_lower [] = []"
| "to_lower (a # s) =
     (case s of
        b # t \<Rightarrow>
          (if a = CHR 0xC4 \<and> b = CHR 0xB0 then CHR ''i'' # to_lower t
           else
             (case t of
                c # u \<Rightarrow>
                  (if a = CHR 0xE2 \<and> b = CHR 0x84 \<and> c = CHR 0xAA then CHR ''k'' # to_lower u
                   else lower_byte a # to_lower s)
              | [] \<Rightarrow> lower_byte a # to_lower s))
      | [] \<Rightarrow> [lower_byte a])"

lemma to_lower_examples: "to_lower ''IdempotentWRITE'' = ''idempotentwrite''" "to_lower [] = []"
  by code_simp+

subsection \<open>utf8.DecodeRuneInString\<close>

text \<open>The rune and its length; an ill-formed head is the error rune with length 1, or 0 at the end.\<close>

definition rune_error :: int where
  "rune_error = 0xFFFD"

definition decode_rune :: "string \<Rightarrow> int \<times> nat" where
  "decode_rune s =
     (case s of
        [] \<Rightarrow> (rune_error, 0)
      | _ \<Rightarrow>
        (let b = (\<lambda>i. of_char (s ! i) mod 64 :: int); a = of_char (s ! 0) :: int
         in if rune_len s = 1 then (a, 1)
            else if rune_len s = 2 then ((a mod 32) * 64 + b 1, 2)
            else if rune_len s = 3 then ((a mod 16) * 4096 + b 1 * 64 + b 2, 3)
            else if rune_len s = 4 then ((a mod 8) * 262144 + b 1 * 4096 + b 2 * 64 + b 3, 4)
            else (rune_error, 1)))"

subsection \<open>path.Match\<close>

text \<open>
  \<open>scanChunk\<close>: the leading stars, then the pattern up to the next star outside a character class.
  A backslash takes the next byte with it.
\<close>

fun chunk_len :: "bool \<Rightarrow> string \<Rightarrow> nat" where
  "chunk_len inrange [] = 0"
| "chunk_len inrange [c] = (if c = CHR ''*'' \<and> \<not> inrange then 0 else 1)"
| "chunk_len inrange (c # d # s) =
     (if c = CHR 0x5C then 2 + chunk_len inrange s
      else if c = CHR ''*'' \<and> \<not> inrange then 0
      else 1 + chunk_len (if c = CHR ''['' then True else if c = CHR '']'' then False else inrange) (d # s))"

definition scan_chunk :: "string \<Rightarrow> bool \<times> string \<times> string" where
  "scan_chunk pattern =
     (let p = dropWhile (\<lambda>c. c = CHR ''*'') pattern; n = chunk_len False p
      in (p \<noteq> pattern, take n p, drop n p))"

text \<open>\<open>getEsc\<close>: a possibly escaped rune of a character class; \<^term>\<open>None\<close> is \<open>ErrBadPattern\<close>.\<close>

definition class_rune :: "string \<Rightarrow> (int \<times> string) option" where
  "class_rune body =
     (case decode_rune body of
        (r, n) \<Rightarrow>
          (if body = [] \<or> (r = rune_error \<and> n = 1) \<or> drop n body = [] then None
           else Some (r, drop n body)))"

definition get_esc :: "string \<Rightarrow> (int \<times> string) option" where
  "get_esc chunk =
     (case chunk of
        [] \<Rightarrow> None
      | c # rest \<Rightarrow>
          (if c = CHR ''-'' \<or> c = CHR '']'' then None
           else if c = CHR 0x5C then class_rune rest else class_rune chunk))"

lemma get_esc_shorter: "get_esc chunk = Some (r, rest) \<Longrightarrow> length rest < length chunk"
  by (auto simp: get_esc_def class_rune_def decode_rune_def Let_def rune_error_def split: list.splits if_splits prod.splits)

text \<open>The ranges of a character class up to its closing bracket: whether \<open>r\<close> is in one, and the rest.\<close>

function class_ranges :: "int \<Rightarrow> string \<Rightarrow> bool \<Rightarrow> bool \<Rightarrow> (bool \<times> string) option" where
  "class_ranges r chunk started matched =
     (if chunk \<noteq> [] \<and> hd chunk = CHR '']'' \<and> started then Some (matched, tl chunk)
      else case get_esc chunk of
        None \<Rightarrow> None
      | Some (lo, c1) \<Rightarrow>
          (if hd c1 = CHR ''-'' then
             (case get_esc (tl c1) of
                None \<Rightarrow> None
              | Some (hi, c2) \<Rightarrow> class_ranges r c2 True (matched \<or> lo \<le> r \<and> r \<le> hi))
           else class_ranges r c1 True (matched \<or> lo = r)))"
  by pat_completeness auto
termination
  by (relation "measure (\<lambda>(r, chunk, started, matched). length chunk)")
    (auto dest!: get_esc_shorter)

declare class_ranges.simps [simp del]

lemma class_ranges_shorter: "class_ranges r chunk st m = Some (m', rest) \<Longrightarrow> length rest < length chunk"
proof (induction r chunk st m rule: class_ranges.induct)
  case (1 r chunk st m)
  show ?case
  proof (cases "chunk \<noteq> [] \<and> hd chunk = CHR '']'' \<and> st")
    case True
    then show ?thesis using "1.prems" by (auto simp: class_ranges.simps [of r chunk])
  next
    case False
    then obtain lo c1 where e: "get_esc chunk = Some (lo, c1)"
      using "1.prems" by (auto simp: class_ranges.simps [of r chunk] split: option.splits if_splits)
    show ?thesis
    proof (cases "hd c1 = CHR ''-''")
      case True
      then obtain hi c2 where e2: "get_esc (tl c1) = Some (hi, c2)"
        using "1.prems" False e by (auto simp: class_ranges.simps [of r chunk] split: option.splits)
      have "length rest < length c2"
        using "1.IH"(1) [OF False e refl True e2 refl] "1.prems" False True e e2
        by (simp add: class_ranges.simps [of r chunk])
      then show ?thesis using get_esc_shorter [OF e] get_esc_shorter [OF e2] by simp
    next
      case nodash: False
      have "length rest < length c1"
        using "1.IH"(2) [OF False e refl nodash] "1.prems" False nodash e
        by (simp add: class_ranges.simps [of r chunk])
      then show ?thesis using get_esc_shorter [OF e] by simp
    qed
  qed
qed

text \<open>
  \<open>matchChunk\<close>: the subject is \<^term>\<open>None\<close> once the match has failed; the chunk is then still checked
  for well-formedness. The result is \<^term>\<open>None\<close> for \<open>ErrBadPattern\<close>, else what is left of the
  subject if it matched.
\<close>

definition eat_byte :: "char \<Rightarrow> string option \<Rightarrow> string option" where
  "eat_byte c s = (case s of Some (d # t) \<Rightarrow> if c = d then Some t else None | _ \<Rightarrow> None)"

definition eat_any :: "string option \<Rightarrow> string option" where
  "eat_any s =
     (case s of
        Some (d # t) \<Rightarrow> if d = CHR ''/'' then None else Some (drop (snd (decode_rune (d # t))) (d # t))
      | _ \<Rightarrow> None)"

definition class_subject :: "string option \<Rightarrow> int \<times> string option" where
  "class_subject s =
     (case s of
        Some (d # t) \<Rightarrow> (case decode_rune (d # t) of (r, n) \<Rightarrow> (r, Some (drop n (d # t))))
      | _ \<Rightarrow> (0, None))"

definition class_body :: "string \<Rightarrow> bool \<times> string" where
  "class_body cs = (case cs of c # b \<Rightarrow> if c = CHR ''^'' then (True, b) else (False, cs) | [] \<Rightarrow> (False, cs))"

function match_chunk :: "string \<Rightarrow> string option \<Rightarrow> string option option" where
  "match_chunk [] s = Some s"
| "match_chunk (c # cs) s =
     (if c = CHR ''['' then
        (case class_subject s of (r, s') \<Rightarrow>
           case class_body cs of (negated, body) \<Rightarrow>
             case class_ranges r body False False of
               None \<Rightarrow> None
             | Some (m, rest) \<Rightarrow> match_chunk rest (if m = negated then None else s'))
      else if c = CHR ''?'' then match_chunk cs (eat_any s)
      else if c = CHR 0x5C then
        (if cs = [] then None else match_chunk (tl cs) (eat_byte (hd cs) s))
      else match_chunk cs (eat_byte c s))"
  by pat_completeness auto
termination
  by (relation "measure (\<lambda>(chunk, s). length chunk)")
    (auto simp: class_body_def split: list.splits if_splits dest!: class_ranges_shorter)

text \<open>The loop over the positions a star can skip to, then the syntax check of an unmatched rest.\<close>

fun skip_match :: "string \<Rightarrow> bool \<Rightarrow> string \<Rightarrow> string option option" where
  "skip_match chunk lastp [] = Some None"
| "skip_match chunk lastp (c # name) =
     (if c = CHR ''/'' then Some None
      else case match_chunk chunk (Some name) of
        None \<Rightarrow> None
      | Some (Some t) \<Rightarrow> (if lastp \<and> t \<noteq> [] then skip_match chunk lastp name else Some (Some t))
      | Some None \<Rightarrow> skip_match chunk lastp name)"

lemma chunk_len_pos: "p \<noteq> [] \<Longrightarrow> hd p \<noteq> CHR ''*'' \<Longrightarrow> 0 < chunk_len False p"
  by (cases "(False, p)" rule: chunk_len.cases) auto

lemma scan_chunk_shorter:
  assumes "scan_chunk p = (star, chunk, rest)" "p \<noteq> []"
  shows "length rest < length p"
proof -
  let ?q = "dropWhile (\<lambda>c. c = CHR ''*'') p"
  have r: "rest = drop (chunk_len False ?q) ?q" using assms(1) by (simp add: scan_chunk_def Let_def)
  show ?thesis
  proof (cases "?q = []")
    case True
    have "rest = []" unfolding r True by simp
    then show ?thesis using assms(2) by simp
  next
    case False
    then have "0 < chunk_len False ?q" using chunk_len_pos [OF False] hd_dropWhile [OF False] by simp
    then have "length rest < length ?q" using r False by (cases ?q) auto
    also have "... \<le> length p" by (rule length_dropWhile_le)
    finally show ?thesis .
  qed
qed

function check_rest :: "string \<Rightarrow> bool option" where
  "check_rest rest =
     (if rest = [] then Some False
      else case scan_chunk rest of
        (_, chunk, r) \<Rightarrow> (case match_chunk chunk (Some []) of None \<Rightarrow> None | Some _ \<Rightarrow> check_rest r))"
  by pat_completeness auto
termination
  by (relation "measure length") (auto dest: scan_chunk_shorter [OF sym])

text \<open>\<^term>\<open>None\<close> is \<open>ErrBadPattern\<close>.\<close>

function path_match :: "string \<Rightarrow> string \<Rightarrow> bool option" where
  "path_match pattern name =
     (if pattern = [] then Some (name = [])
      else case scan_chunk pattern of
        (star, chunk, rest) \<Rightarrow>
          (if star \<and> chunk = [] then Some (CHR ''/'' \<notin> set name)
           else case match_chunk chunk (Some name) of
             None \<Rightarrow> None
           | Some m \<Rightarrow>
               (if m \<noteq> None \<and> (the m = [] \<or> rest \<noteq> []) then path_match rest (the m)
                else if \<not> star then check_rest rest
                else case skip_match chunk (rest = []) name of
                  None \<Rightarrow> None
                | Some None \<Rightarrow> check_rest rest
                | Some (Some t) \<Rightarrow> path_match rest t)))"
  by pat_completeness auto
termination
  by (relation "measure (\<lambda>(pattern, name). length pattern)") (auto dest: scan_chunk_shorter [OF sym])

declare check_rest.simps [simp del] path_match.simps [simp del]

lemma path_match_examples:
  "path_match ''team-*'' ''team-payments'' = Some True" "path_match ''team-*'' ''payments'' = Some False"
  "path_match ''*-prod'' ''a-prod-prod'' = Some True" "path_match ''[a-c]?'' ''b1'' = Some True"
  "path_match ''[^a]*'' ''abc'' = Some False" "path_match ''['' ''x'' = None" "path_match ''a[]b'' ''x'' = None"
  "path_match ''*'' ''a/b'' = Some False" "path_match ''x*[-'' ''y'' = None"
  by code_simp+

subsection \<open>net.ParseIP\<close>

definition ipv4_field :: "string \<Rightarrow> bool" where
  "ipv4_field s \<longleftrightarrow> s \<noteq> [] \<and> list_all is_digit s \<and> (length s > 1 \<longrightarrow> hd s \<noteq> CHR ''0'') \<and>
     foldl (\<lambda>v c. 10 * v + (byte c - 0x30)) 0 s \<le> 255"

definition parse_ipv4 :: "string \<Rightarrow> bool" where
  "parse_ipv4 s \<longleftrightarrow> length (split_on CHR ''.'' s) = 4 \<and> list_all ipv4_field (split_on CHR ''.'' s)"

definition is_hex :: "char \<Rightarrow> bool" where
  "is_hex c \<longleftrightarrow> hex_val c \<noteq> None"

text \<open>\<open>n\<close> of the eight groups are read, \<open>ell\<close> says whether the ellipsis was.\<close>

definition ipv6_done :: "nat \<Rightarrow> bool \<Rightarrow> bool" where
  "ipv6_done n ell \<longleftrightarrow> (if n < 8 then ell else \<not> ell)"

function ipv6_groups :: "nat \<Rightarrow> bool \<Rightarrow> string \<Rightarrow> bool" where
  "ipv6_groups n ell s =
     (if 8 \<le> n then s = [] \<and> \<not> ell
      else
        let hex = takeWhile is_hex s; rest = dropWhile is_hex s
        in if hex = [] \<or> 4 < length hex then False
           else if rest = [] then ipv6_done (n + 1) ell
           else if hd rest = CHR ''.'' then
             (ell \<or> n = 6) \<and> n + 2 \<le> 8 \<and> parse_ipv4 s \<and> ipv6_done (n + 2) ell
           else if hd rest \<noteq> CHR '':'' \<or> tl rest = [] then False
           else if hd (tl rest) = CHR '':'' then
             (if ell then False
              else if tl (tl rest) = [] then ipv6_done (n + 1) True
              else ipv6_groups (n + 1) True (tl (tl rest)))
           else ipv6_groups (n + 1) ell (tl rest))"
  by pat_completeness auto
termination
  by (relation "measure (\<lambda>(n, ell, s). 8 - n)") auto

declare ipv6_groups.simps [simp del]

definition parse_ipv6 :: "string \<Rightarrow> bool" where
  "parse_ipv6 s \<longleftrightarrow> CHR ''%'' \<notin> set s \<and>
     (if prefix ''::'' s then s = ''::'' \<or> ipv6_groups 0 True (drop 2 s) else ipv6_groups 0 False s)"

text \<open>Whether \<open>net.ParseIP\<close> is non-nil. An address with a zone is not an IP to it.\<close>

definition parse_ip :: "string \<Rightarrow> bool" where
  "parse_ip s \<longleftrightarrow>
     (case dropWhile (\<lambda>c. c \<noteq> CHR ''.'' \<and> c \<noteq> CHR '':'' \<and> c \<noteq> CHR ''%'') s of
        [] \<Rightarrow> False
      | c # _ \<Rightarrow> (if c = CHR ''.'' then parse_ipv4 s else if c = CHR '':'' then parse_ipv6 s else False))"

lemma parse_ip_examples:
  "parse_ip ''10.0.0.1''" "\<not> parse_ip ''10.0.0.256''" "\<not> parse_ip ''10.0.00.1''" "\<not> parse_ip ''10.0.0''"
  "parse_ip ''::1''" "parse_ip ''fe80::1:2''" "parse_ip ''::ffff:10.1.2.3''" "\<not> parse_ip ''fe80::1%eth0''"
  "\<not> parse_ip ''1:2:3:4:5:6:7''" "\<not> parse_ip ''1::2::3''" "parse_ip ''1:2:3:4:5:6:7:8''" "\<not> parse_ip ''host''"
  by code_simp+

end
