(* ===== verification/Validation.thy ===== *)
theory Validation
  imports Go_Std Wire Rbac Quota User
begin

section \<open>Manifest validation (internal/validation)\<close>

text \<open>
  \<open>Validate\<close> and its shape checks, each returning the errors in the source's order. A clause
  \<open>if cond then errs = append(errs, e)\<close> is \<open>flag cond e\<close>. The identity-collision maps of \<open>Validate\<close>
  (key to the first resource's name) are threaded through the resource loops. \<open>net/url.Parse\<close> is a
  parameter: of its result the code reads whether it failed, whether it carries user information,
  the scheme, the host and the path.
\<close>

definition flag :: "bool \<Rightarrow> message \<Rightarrow> go_error list" where
  "flag cond e = (if cond then [e] else [])"

lemma flag_Nil [simp]: "flag c e = [] \<longleftrightarrow> \<not> c"
  by (simp add: flag_def)

definition valid_modes :: "string list" where
  "valid_modes = [''Enforce'', ''DetectOnly'', ''ObserveOnly'']"

definition valid_resource_types :: "string list" where
  "valid_resource_types = [''topic'', ''group'', ''cluster'', ''transactionalId'', ''delegationToken'']"

definition valid_pattern_types :: "string list" where
  "valid_pattern_types = [''literal'', ''prefixed'']"

definition valid_permissions :: "string list" where
  "valid_permissions = [''Allow'', ''Deny'']"

definition valid_ops :: "string list" where
  "valid_ops = [''Read'', ''Write'', ''Create'', ''Delete'', ''Alter'', ''Describe'', ''ClusterAction'',
     ''DescribeConfigs'', ''AlterConfigs'', ''IdempotentWrite'', ''All'']"

definition valid_schema_formats :: "string list" where
  "valid_schema_formats = [''AVRO'', ''JSON'', ''PROTOBUF'']"

definition valid_subject_strategies :: "string list" where
  "valid_subject_strategies = [''TopicName'', ''RecordName'', ''TopicRecordName'', ''Custom'']"

definition valid_compatibilities :: "string list" where
  "valid_compatibilities = [''NONE'', ''BACKWARD'', ''BACKWARD_TRANSITIVE'', ''FORWARD'', ''FORWARD_TRANSITIVE'',
     ''FULL'', ''FULL_TRANSITIVE'']"

definition valid_user_mechanisms :: "string list" where
  "valid_user_mechanisms = [''SCRAM-SHA-256'', ''SCRAM-SHA-512'']"

text \<open>The regular expressions: \<open>^(partitions|replicationFactor|config\\..+)$\<close> and \<open>[\\x00-\\x20\\x7f,=]\<close>.\<close>

definition valid_ignore_field :: "string \<Rightarrow> bool" where
  "valid_ignore_field f \<longleftrightarrow> f = ''partitions'' \<or> f = ''replicationFactor'' \<or>
     (has_prefix f ''config.'' \<and> trim_prefix f ''config.'' \<noteq> [] \<and> CHR 0x0A \<notin> set (trim_prefix f ''config.''))"

definition username_forbidden :: "string \<Rightarrow> bool" where
  "username_forbidden s \<longleftrightarrow> list_ex (\<lambda>c. byte c \<le> 0x20 \<or> byte c = 0x7F \<or> c = CHR '','' \<or> c = CHR ''='') s"

definition canonical_op :: "string \<Rightarrow> string option" where
  "canonical_op lower = find (\<lambda>op. to_lower op = lower) valid_ops"

definition op_error :: "message \<Rightarrow> string \<Rightarrow> go_error" where
  "op_error pre oper =
     (case canonical_op (to_lower oper) of
        Some canon \<Rightarrow> pre @ [T '': invalid operation '', Q oper,
          T '' (operations are case-sensitive; use '', Q canon, T '')'']
      | None \<Rightarrow> pre @ [T '': invalid operation '', Q oper])"

definition invalid_ops :: "message \<Rightarrow> string list \<Rightarrow> go_error list" where
  "invalid_ops pre opers = concat (map (\<lambda>oper. flag (oper \<notin> set valid_ops) (op_error pre oper)) opers)"

definition placement_key :: string where
  "placement_key = ''confluent.placement.constraints''"

text \<open>The mode and deletion-policy clauses the kinds share.\<close>

definition mode_errors :: "string \<Rightarrow> string \<Rightarrow> reconciliation option \<Rightarrow> go_error list" where
  "mode_errors kind name rec =
     (case rec of
        None \<Rightarrow> []
      | Some r \<Rightarrow> flag (rec_mode r \<noteq> [] \<and> rec_mode r \<notin> set valid_modes)
          [T kind, T '' '', T name, T '': invalid reconciliation.mode '', Q (rec_mode r)])"

definition deletion_policy_errors :: "string \<Rightarrow> string \<Rightarrow> string \<Rightarrow> go_error list" where
  "deletion_policy_errors kind name policy =
     flag (policy \<noteq> [] \<and> policy \<noteq> ''Orphan'' \<and> policy \<noteq> ''Delete'')
       [T kind, T '' '', T name, T '': invalid deletionPolicy '', Q policy]"

subsection \<open>ValidateAccessPolicyShape\<close>

definition rule_errors :: "string \<Rightarrow> nat \<Rightarrow> acl_rule \<Rightarrow> go_error list" where
  "rule_errors name i r =
     (let pre = [T ''KafkaAccessPolicy '', T name, T '' rule '', T (nat_str i)]
      in flag (rule_principal r = []) (pre @ [T '': principal required'']) @
         flag (ar_type (rule_resource r) = [] \<or> ar_type (rule_resource r) \<notin> set valid_resource_types)
           (pre @ [T '': invalid resource type '', Q (ar_type (rule_resource r))]) @
         flag (ar_name (rule_resource r) = []) (pre @ [T '': resource name required'']) @
         flag (ar_patternType (rule_resource r) \<noteq> [] \<and>
             ar_patternType (rule_resource r) \<notin> set valid_pattern_types)
           (pre @ [T '': invalid patternType '', Q (ar_patternType (rule_resource r))]) @
         flag (rule_permission r \<noteq> [] \<and> rule_permission r \<notin> set valid_permissions)
           (pre @ [T '': invalid permission '', Q (rule_permission r)]) @
         flag (rule_operations r = []) (pre @ [T '': at least one operation required'']) @
         invalid_ops pre (rule_operations r))"

definition validate_access_policy_shape :: "kafka_access_policy \<Rightarrow> go_error list" where
  "validate_access_policy_shape pol =
     (let name = om_name (ap_meta pol); spec = ap_spec pol; kind = ''KafkaAccessPolicy''
      in flag (om_apiVersion (ap_meta pol) \<noteq> API_VERSION)
           [T kind, T '' '', T name, T '': apiVersion must be '', T API_VERSION] @
         flag (aps_rules spec = []) [T kind, T '' '', T name, T '': spec.rules must not be empty''] @
         deletion_policy_errors kind name (aps_deletionPolicy spec) @
         mode_errors kind name (aps_reconciliation spec) @
         concat (map (\<lambda>(i, r). rule_errors name i r) (enumerate 0 (aps_rules spec))))"

subsection \<open>ValidateQuotaShape\<close>

definition negative :: "float64 option \<Rightarrow> bool" where
  "negative l = (case l of None \<Rightarrow> False | Some x \<Rightarrow> x < 0)"

definition quota_entity_errors :: "string \<Rightarrow> quota_entity_spec \<Rightarrow> go_error list" where
  "quota_entity_errors name e =
     (let hasUser = (qe_user e \<noteq> [] \<or> qe_userDefault e);
          hasClientId = (qe_clientId e \<noteq> [] \<or> qe_clientIdDefault e);
          hasIp = (qe_ip e \<noteq> [] \<or> qe_ipDefault e);
          pre = [T ''KafkaQuota '', T name]
      in flag (\<not> hasUser \<and> \<not> hasClientId \<and> \<not> hasIp)
           (pre @ [T '': spec.entity must have at least one of user, clientId, userDefault, clientIdDefault, ip, ipDefault'']) @
         flag (hasIp \<and> (hasUser \<or> hasClientId))
           (pre @ [T '': spec.entity.ip/ipDefault is a separate quota dimension and cannot be combined with user/clientId components'']) @
         flag (qe_ip e \<noteq> [] \<and> qe_ipDefault e)
           (pre @ [T '': spec.entity.ip and spec.entity.ipDefault are mutually exclusive'']) @
         flag (qe_ip e \<noteq> [] \<and> \<not> parse_ip (qe_ip e))
           (pre @ [T '': spec.entity.ip must be a valid IPv4 or IPv6 address, got '', Q (qe_ip e)]) @
         flag (qe_user e \<noteq> [] \<and> qe_userDefault e)
           (pre @ [T '': spec.entity.user and spec.entity.userDefault are mutually exclusive'']) @
         flag (qe_clientId e \<noteq> [] \<and> qe_clientIdDefault e)
           (pre @ [T '': spec.entity.clientId and spec.entity.clientIdDefault are mutually exclusive'']) @
         (if qe_user e = [] then []
          else if \<not> has_prefix (qe_user e) ''User:'' then
            [pre @ [T '': spec.entity.user must be in \"User:\" form (e.g. \"User:alice\"), got '', Q (qe_user e)]]
          else flag (trim_prefix (qe_user e) ''User:'' = [])
            (pre @ [T '': spec.entity.user has \"User:\" prefix but requires a non-empty name after it''])) @
         flag (qe_clientId e \<noteq> [] \<and> trim_space (qe_clientId e) = [])
           (pre @ [T '': spec.entity.clientId must not be blank (whitespace-only)'']))"

definition quota_limit_errors :: "string \<Rightarrow> bool \<Rightarrow> quota_limits_spec \<Rightarrow> go_error list" where
  "quota_limit_errors name hasIp l =
     (let pre = [T ''KafkaQuota '', T name];
          throughputSet = (ql_producerByteRate l \<noteq> None \<or> ql_consumerByteRate l \<noteq> None \<or>
            ql_requestPercentage l \<noteq> None \<or> ql_controllerMutationRate l \<noteq> None)
      in flag (\<not> throughputSet \<and> ql_connectionCreationRate l = None)
           (pre @ [T '': spec.limits must have at least one of producerByteRate, consumerByteRate, requestPercentage, controllerMutationRate, connectionCreationRate'']) @
         flag (negative (ql_producerByteRate l)) (pre @ [T '': spec.limits.producerByteRate must be >= 0'']) @
         flag (negative (ql_consumerByteRate l)) (pre @ [T '': spec.limits.consumerByteRate must be >= 0'']) @
         flag (negative (ql_requestPercentage l)) (pre @ [T '': spec.limits.requestPercentage must be >= 0'']) @
         flag (negative (ql_controllerMutationRate l)) (pre @ [T '': spec.limits.controllerMutationRate must be >= 0'']) @
         flag (negative (ql_connectionCreationRate l)) (pre @ [T '': spec.limits.connectionCreationRate must be >= 0'']) @
         (if hasIp then flag throughputSet
            (pre @ [T '': an ip entity may set only connectionCreationRate (producerByteRate/consumerByteRate/requestPercentage/controllerMutationRate are not valid on ip)''])
          else flag (ql_connectionCreationRate l \<noteq> None)
            (pre @ [T '': spec.limits.connectionCreationRate is valid only on an ip entity''])))"

definition validate_quota_shape :: "kafka_quota \<Rightarrow> go_error list" where
  "validate_quota_shape q =
     (let name = om_name (kq_meta q); e = kqs_entity (kq_spec q)
      in quota_entity_errors name e @
         quota_limit_errors name (qe_ip e \<noteq> [] \<or> qe_ipDefault e) (kqs_limits (kq_spec q)))"

subsection \<open>ValidateClusterAuthorization\<close>

definition validate_cluster_authorization :: "kafka_cluster \<Rightarrow> go_error list" where
  "validate_cluster_authorization c =
     (case kcs_authorization (kc_spec c) of
        None \<Rightarrow> []
      | Some az \<Rightarrow>
          concat (map (\<lambda>b. flag (b \<noteq> ''acl'' \<and> b \<noteq> ''rbac'')
            [T ''KafkaCluster '', T (om_name (kc_meta c)), T '': authorization.accessBackends entry '', Q b,
             T '' is invalid (must be \"acl\" or \"rbac\")'']) (az_accessBackends az)) @
          flag (has_access_backend (Some c) ''rbac'' \<and> az_mds az = None)
            [T ''KafkaCluster '', T (om_name (kc_meta c)),
             T '': authorization.accessBackends includes \"rbac\" but authorization.mds is not configured''])"

subsection \<open>ValidateRoleBindingShape\<close>

definition rb_resource_types_by_scope_type :: "string \<Rightarrow> string list option" where
  "rb_resource_types_by_scope_type = map_of
     [(''kafka'', [''Topic'', ''Group'', ''Cluster'', ''TransactionalId'']),
      (''schema-registry'', [''Subject'', ''Cluster'']),
      (''connect'', [''Connector'', ''Cluster'']),
      (''ksql'', [''KsqlCluster'', ''Cluster''])]"

definition principal_errors :: "message \<Rightarrow> string \<Rightarrow> go_error list" where
  "principal_errors pre prin =
     (if prin = [] then [pre @ [T '': spec.principal must be non-empty'']]
      else if has_prefix prin ''User:'' then
        flag (trim_prefix prin ''User:'' = [])
          (pre @ [T '': spec.principal has \"User:\" prefix but requires a non-empty name after it''])
      else if has_prefix prin ''Group:'' then
        flag (trim_prefix prin ''Group:'' = [])
          (pre @ [T '': spec.principal has \"Group:\" prefix but requires a non-empty name after it''])
      else [pre @ [T '': spec.principal must be in \"User:<name>\" or \"Group:<name>\" form, got '', Q prin]])"

definition role_resource_errors :: "string \<Rightarrow> string \<Rightarrow> nat \<Rightarrow> role_resource \<Rightarrow> go_error list" where
  "role_resource_errors name scopeType i res =
     (let pre = [T ''KafkaRoleBinding '', T name, T '' resource '', T (nat_str i)]
      in flag (rr_name res = []) (pre @ [T '': name must be non-empty'']) @
         flag (rr_patternType res \<noteq> [] \<and> rr_patternType res \<notin> set valid_pattern_types)
           (pre @ [T '': invalid patternType '', Q (rr_patternType res)]) @
         (if rr_type res = [] then [pre @ [T '': type must be non-empty'']]
          else case rb_resource_types_by_scope_type scopeType of
            None \<Rightarrow> []
          | Some types \<Rightarrow> flag (rr_type res \<notin> set types)
              (pre @ [T '': invalid resource type '', Q (rr_type res), T '' for scope.type '', Q scopeType])))"

definition role_presence_errors :: "message \<Rightarrow> string \<Rightarrow> role_resource list \<Rightarrow> go_error list" where
  "role_presence_errors pre role resources =
     (case classify_role role of
        (RoleClusterScoped, True) \<Rightarrow> flag (resources \<noteq> [])
          (pre @ [T '': role '', Q role, T '' is cluster-scoped and must not have spec.resources''])
      | (RoleResourceScoped, True) \<Rightarrow> flag (resources = [])
          (pre @ [T '': role '', Q role, T '' is resource-scoped and requires at least one entry in spec.resources''])
      | _ \<Rightarrow> [])"

definition validate_role_binding_shape :: "kafka_role_binding \<Rightarrow> go_error list" where
  "validate_role_binding_shape rb =
     (let name = om_name (kr_meta rb); spec = kr_spec rb; kind = ''KafkaRoleBinding'';
          pre = [T kind, T '' '', T name]; scopeType = rbs_type (krs_scope spec)
      in flag (om_apiVersion (kr_meta rb) \<noteq> API_VERSION) (pre @ [T '': apiVersion must be '', T API_VERSION]) @
         principal_errors pre (krs_principal spec) @
         flag (krs_role spec = []) (pre @ [T '': spec.role must be non-empty'']) @
         flag (rb_resource_types_by_scope_type scopeType = None)
           (pre @ [T '': invalid scope.type '', Q scopeType,
              T '' (must be kafka, schema-registry, connect, or ksql)'']) @
         deletion_policy_errors kind name (krs_deletionPolicy spec) @
         mode_errors kind name (krs_reconciliation spec) @
         role_presence_errors pre (krs_role spec) (krs_resources spec) @
         concat (map (\<lambda>(i, res). role_resource_errors name scopeType i res) (enumerate 0 (krs_resources spec))))"

subsection \<open>ValidateUserShape\<close>

definition count_value_sources :: "value_source \<Rightarrow> nat" where
  "count_value_sources src =
     of_bool (vs_env src \<noteq> []) + of_bool (vs_file src \<noteq> []) + of_bool (vs_secretKeyRef src \<noteq> None) +
     of_bool (vs_inline src \<noteq> []) + of_bool (vs_configMapKeyRef src \<noteq> None)"

definition is_empty_value_from :: "value_from \<Rightarrow> bool" where
  "is_empty_value_from vf \<longleftrightarrow> count_value_sources (vf_valueFrom vf) = 0"

definition password_source_errors :: "message \<Rightarrow> value_source \<Rightarrow> go_error list" where
  "password_source_errors pre src =
     (let n = count_value_sources src
      in flag (vs_inline src \<noteq> [])
           (pre @ [T '': spec.password.valueFrom.inline is not allowed for a password (plaintext password would be committed to git); use env, file, or secretKeyRef instead'']) @
         flag (vs_configMapKeyRef src \<noteq> None)
           (pre @ [T '': spec.password.valueFrom.configMapKeyRef is not allowed for passwords (ConfigMaps are not secret storage); use secretKeyRef (operator) or env/file (CLI)'']) @
         (if n = 0 then
            [pre @ [T '': spec.password.valueFrom must specify exactly one source (env, file, or secretKeyRef); none set'']]
          else flag (n > 1)
            (pre @ [T '': spec.password.valueFrom must specify exactly one source (env, file, or secretKeyRef); '',
               T (nat_str n), T '' set''])))"

definition password_errors :: "message \<Rightarrow> user_password option \<Rightarrow> go_error list" where
  "password_errors pre password =
     (case password of
        None \<Rightarrow> [pre @ [T '': spec.password is required (set spec.password.valueFrom or spec.password.generate)'']]
      | Some p \<Rightarrow>
          (case (up_valueFrom p, up_generate p) of
             (None, None) \<Rightarrow>
               [pre @ [T '': spec.password must set exactly one of valueFrom or generate; neither set'']]
           | (Some _, Some _) \<Rightarrow>
               [pre @ [T '': spec.password must set exactly one of valueFrom or generate; both set'']]
           | (Some src, None) \<Rightarrow> password_source_errors pre src
           | (None, Some _) \<Rightarrow> []))"

definition validate_user_shape :: "kafka_user \<Rightarrow> go_error list" where
  "validate_user_shape u =
     (let name = om_name (ku_meta u); spec = ku_spec u; kind = ''KafkaUser''; pre = [T kind, T '' '', T name]
      in flag (om_apiVersion (ku_meta u) \<noteq> API_VERSION) (pre @ [T '': apiVersion must be '', T API_VERSION]) @
         (if kus_username spec = [] then [pre @ [T '': spec.username must be non-empty'']]
          else flag (username_forbidden (kus_username spec))
            (pre @ [T '': spec.username '', Q (kus_username spec),
               T '' contains a forbidden character (whitespace, control characters, NUL, '=', and ',' are not allowed)''])) @
         flag (kus_mechanism spec \<noteq> [] \<and> kus_mechanism spec \<notin> set valid_user_mechanisms)
           (pre @ [T '': invalid mechanism '', Q (kus_mechanism spec), T '' (must be SCRAM-SHA-256 or SCRAM-SHA-512)'']) @
         (case kus_iterations spec of
            None \<Rightarrow> []
          | Some it \<Rightarrow> flag (it < 4096 \<or> it > 16384)
              (pre @ [T '': spec.iterations must be between 4096 and 16384, got '', T (itoa it)])) @
         password_errors pre (kus_password spec) @
         flag (cr_name (kus_clusterRef spec) = []) (pre @ [T '': spec.clusterRef.name is required'']) @
         deletion_policy_errors kind name (kus_deletionPolicy spec))"

subsection \<open>ValidateMirrorTopicShape\<close>

definition validate_mirror_topic_shape :: "kafka_mirror_topic \<Rightarrow> go_error list" where
  "validate_mirror_topic_shape m =
     (let name = om_name (km_meta m); spec = km_spec m; pre = [T ''KafkaMirrorTopic '', T name]
      in flag (name = []) [T ''KafkaMirrorTopic: metadata.name must be non-empty''] @
         flag (om_apiVersion (km_meta m) \<noteq> API_VERSION) (pre @ [T '': apiVersion must be '', T API_VERSION]) @
         flag (cr_name (kms_clusterRef spec) = []) (pre @ [T '': spec.clusterRef.name is required'']) @
         flag (kms_linkName spec = []) (pre @ [T '': spec.linkName is required'']) @
         flag (kms_sourceTopicName spec = []) (pre @ [T '': spec.sourceTopicName is required'']) @
         flag (case kms_replicationFactor spec of None \<Rightarrow> False | Some rf \<Rightarrow> rf < 1)
           (pre @ [T '': spec.replicationFactor must be >= 1'']) @
         flag (mget (kms_config spec) [] \<noteq> None) (pre @ [T '': spec.config keys must be non-empty'']) @
         mode_errors ''KafkaMirrorTopic'' name (kms_reconciliation spec) @
         flag (kms_deletionPolicy spec \<noteq> [] \<and> kms_deletionPolicy spec \<noteq> ''Orphan'')
           (pre @ [T '': deletionPolicy '', Q (kms_deletionPolicy spec),
              T '' is not supported; mirror topics are always orphaned in this version'']))"

subsection \<open>Cluster configurations\<close>

definition validate_tls_shape :: "string \<Rightarrow> string \<Rightarrow> tls_config option \<Rightarrow> go_error list" where
  "validate_tls_shape clusterName path tls =
     (case tls of
        None \<Rightarrow> []
      | Some c \<Rightarrow>
          (let hasCert = (tls_clientCert c \<noteq> None); hasKey = (tls_clientKey c \<noteq> None);
               pre = [T ''KafkaCluster '', T clusterName, T '': '', T path]
           in flag (hasCert \<noteq> hasKey)
                (pre @ [T ''.clientCert and '', T path, T ''.clientKey must be set together (one is missing)'']) @
              flag ((hasCert \<or> hasKey) \<and> \<not> tls_enabled c)
                (pre @ [T ''.clientCert/'', T path, T ''.clientKey require '', T path, T ''.enabled: true''])))"

definition oauth_errors :: "message \<Rightarrow> oauth_config option \<Rightarrow> go_error list" where
  "oauth_errors pre oauth =
     (case oauth of
        None \<Rightarrow> [pre @ [T ''mechanism OAUTHBEARER requires auth.oauth to be set'']]
      | Some o' \<Rightarrow>
          flag (oa_tokenEndpoint o' = []) (pre @ [T ''auth.oauth.tokenEndpoint must be non-empty'']) @
          flag (is_empty_value_from (oa_clientID o')) (pre @ [T ''auth.oauth.clientId must specify a secret source'']) @
          flag (is_empty_value_from (oa_clientSecret o'))
            (pre @ [T ''auth.oauth.clientSecret must specify a secret source'']))"

definition validate_auth_config :: "string \<Rightarrow> auth_config \<Rightarrow> tls_config option \<Rightarrow> go_error list" where
  "validate_auth_config clusterName a tls =
     (let pre = [T ''KafkaCluster '', T clusterName, T '': '']; mech = au_mechanism a
      in if mech \<in> {[], ''None'', ''PLAIN'', ''SCRAM-SHA-256'', ''SCRAM-SHA-512''} then
           flag (au_oauth a \<noteq> None) (pre @ [T ''auth.oauth must not be set for mechanism '', Q mech])
         else if mech = ''OAUTHBEARER'' then
           flag (au_scram a \<noteq> None)
             (pre @ [T ''auth.scram is not allowed with mechanism OAUTHBEARER (use auth.oauth)'']) @
           oauth_errors pre (au_oauth a)
         else if mech = ''mTLS'' then
           flag (case tls of None \<Rightarrow> True | Some c \<Rightarrow> \<not> tls_enabled c)
             (pre @ [T ''mechanism mTLS requires tls.enabled: true'']) @
           flag (case tls of None \<Rightarrow> True | Some c \<Rightarrow> tls_clientCert c = None)
             (pre @ [T ''mechanism mTLS requires tls.clientCert to be set'']) @
           flag (case tls of None \<Rightarrow> True | Some c \<Rightarrow> tls_clientKey c = None)
             (pre @ [T ''mechanism mTLS requires tls.clientKey to be set'']) @
           flag (au_scram a \<noteq> None) (pre @ [T ''auth.scram must not be set for mechanism mTLS'']) @
           flag (au_oauth a \<noteq> None) (pre @ [T ''auth.oauth must not be set for mechanism mTLS''])
         else [pre @ [T ''unknown auth mechanism '', Q mech]])"

definition bad_glob_errors :: "(nat \<Rightarrow> message) \<Rightarrow> string list \<Rightarrow> go_error list" where
  "bad_glob_errors pre patterns =
     concat (map (\<lambda>(i, pattern). flag (path_match pattern ''probe'' = None)
       (pre i @ [T '': invalid glob pattern '', Q pattern, T '': syntax error in pattern''])) (enumerate 0 patterns))"

definition prefix_rule_errors :: "string \<Rightarrow> nat \<Rightarrow> topic_prefix_rule \<Rightarrow> go_error list" where
  "prefix_rule_errors clusterName i rule =
     (let pre = [T ''KafkaCluster '', T clusterName, T '': tenancy.topicPrefixes['', T (nat_str i), T '']'']
      in flag (tpr_namespaces rule = []) (pre @ [T '': namespaces must be non-empty'']) @
         flag (tpr_prefixes rule = []) (pre @ [T '': prefixes must be non-empty'']) @
         bad_glob_errors (\<lambda>j. pre @ [T ''.namespaces['', T (nat_str j), T '']'']) (tpr_namespaces rule))"

definition validate_tenancy_config :: "string \<Rightarrow> tenancy_config \<Rightarrow> go_error list" where
  "validate_tenancy_config clusterName t =
     bad_glob_errors
       (\<lambda>i. [T ''KafkaCluster '', T clusterName, T '': tenancy.allowedNamespaces['', T (nat_str i), T '']''])
       (tc_allowedNamespaces t) @
     concat (map (\<lambda>(i, rule). prefix_rule_errors clusterName i rule) (enumerate 0 (tc_topicPrefixes t)))"

text \<open>What \<open>url.Parse\<close> returns, as far as it is read.\<close>

record url_parts =
  ul_user :: bool
  ul_scheme :: string
  ul_host :: string
  ul_path :: string

type_synonym url_parser = "string \<Rightarrow> url_parts option"

definition trim_right_slash :: "string \<Rightarrow> string" where
  "trim_right_slash s = rev (dropWhile (\<lambda>c. c = CHR ''/'') (rev s))"

definition rest_endpoint_errors :: "url_parser \<Rightarrow> message \<Rightarrow> string \<Rightarrow> go_error list" where
  "rest_endpoint_errors parse_url pre endpoint =
     (if endpoint = [] then [pre @ [T ''rest.endpoint is required'']]
      else case parse_url endpoint of
        None \<Rightarrow> [pre @ [T ''rest.endpoint '', Q endpoint, T '' must be an http or https URL'']]
      | Some u \<Rightarrow>
          (if ul_user u then [pre @ [T ''rest.endpoint must not contain credentials; use rest.auth'']]
           else if (ul_scheme u \<noteq> ''http'' \<and> ul_scheme u \<noteq> ''https'') \<or> ul_host u = [] then
             [pre @ [T ''rest.endpoint '', Q endpoint, T '' must be an http or https URL'']]
           else flag (has_suffix (trim_right_slash (ul_path u)) ''/v3'')
             (pre @ [T ''rest.endpoint must not include /v3 (the client appends it)''])))"

definition rest_auth_errors :: "message \<Rightarrow> mds_auth \<Rightarrow> tls_config option \<Rightarrow> go_error list" where
  "rest_auth_errors pre a tls =
     (if ma_type a = ''basic'' then
        flag (ma_username a = None \<or> ma_password a = None)
          (pre @ [T ''rest.auth.type basic requires username and password''])
      else if ma_type a = ''bearer'' then
        flag (ma_token a = None) (pre @ [T ''rest.auth.type bearer requires token''])
      else if ma_type a = ''mtls'' then
        flag (case tls of None \<Rightarrow> True | Some c \<Rightarrow> tls_clientCert c = None \<or> tls_clientKey c = None)
          (pre @ [T ''rest.auth.type mtls requires rest.tls.clientCert and rest.tls.clientKey''])
      else [pre @ [T ''unknown rest.auth.type '', Q (ma_type a), T '' (must be basic, bearer or mtls)'']])"

definition validate_cluster_rest :: "url_parser \<Rightarrow> kafka_cluster \<Rightarrow> go_error list" where
  "validate_cluster_rest parse_url c =
     (case kcs_rest (kc_spec c) of
        None \<Rightarrow> []
      | Some r \<Rightarrow>
          (let k = om_name (kc_meta c); pre = [T ''KafkaCluster '', T k, T '': '']
           in rest_endpoint_errors parse_url pre (krc_endpoint r) @
              (case krc_auth r of None \<Rightarrow> [] | Some a \<Rightarrow> rest_auth_errors pre a (krc_tls r)) @
              validate_tls_shape k ''rest.tls'' (krc_tls r)))"

text \<open>The body of the loop over the cluster configurations; \<open>k\<close> is the key of the map.\<close>

definition cluster_errors :: "url_parser \<Rightarrow> string \<Rightarrow> kafka_cluster \<Rightarrow> go_error list" where
  "cluster_errors parse_url k cl =
     (let spec = kc_spec cl; pre = [T ''KafkaCluster '', T k]
      in flag (om_name (kc_meta cl) = []) (pre @ [T '': metadata.name must be non-empty'']) @
         flag (om_apiVersion (kc_meta cl) \<noteq> API_VERSION) (pre @ [T '': apiVersion must be '', T API_VERSION]) @
         (case kcs_schemaRegistry spec of
            None \<Rightarrow> []
          | Some sr \<Rightarrow>
              (case src_auth sr of
                 None \<Rightarrow> []
               | Some a \<Rightarrow> flag (sra_type a \<noteq> [] \<and> sra_type a \<noteq> ''basic'')
                   (pre @ [T '': unknown schemaRegistry.auth.type '', Q (sra_type a),
                      T '' (only \"basic\" is supported)'']))) @
         (case kcs_defaults spec of
            None \<Rightarrow> []
          | Some d \<Rightarrow> flag (cd_topicDeletionPolicy d \<noteq> [] \<and> cd_topicDeletionPolicy d \<noteq> ''Orphan'' \<and>
                cd_topicDeletionPolicy d \<noteq> ''Delete'')
              (pre @ [T '': invalid defaults.topicDeletionPolicy '', Q (cd_topicDeletionPolicy d),
                 T '' (must be Orphan or Delete)''])) @
         validate_tls_shape k ''tls'' (kcs_tls spec) @
         (case kcs_schemaRegistry spec of
            None \<Rightarrow> [] | Some sr \<Rightarrow> validate_tls_shape k ''schemaRegistry.tls'' (src_tls sr)) @
         (case kcs_authorization spec of
            None \<Rightarrow> []
          | Some az \<Rightarrow>
              (case az_mds az of
                 None \<Rightarrow> [] | Some mds \<Rightarrow> validate_tls_shape k ''authorization.mds.tls'' (mds_tls mds))) @
         validate_cluster_rest parse_url cl @
         (case kcs_auth spec of None \<Rightarrow> [] | Some a \<Rightarrow> validate_auth_config k a (kcs_tls spec)) @
         (case kcs_tenancy spec of None \<Rightarrow> [] | Some t \<Rightarrow> validate_tenancy_config k t) @
         validate_cluster_authorization cl)"

subsection \<open>Topics\<close>

definition producer_errors :: "string \<Rightarrow> nat \<Rightarrow> producer_access \<Rightarrow> go_error list" where
  "producer_errors name i p =
     (let pre = [T ''KafkaTopic '', T name]
      in flag (pa_principal p = []) (pre @ [T '': producer principal must be non-empty'']) @
         flag (pa_host p \<noteq> [] \<and> trim_space (pa_host p) = []) (pre @ [T '': access producer host must not be blank'']) @
         invalid_ops (pre @ [T '' producer '', T (nat_str i)]) (pa_operations p))"

definition consumer_errors :: "string \<Rightarrow> nat \<Rightarrow> consumer_access \<Rightarrow> go_error list" where
  "consumer_errors name i c =
     (let pre = [T ''KafkaTopic '', T name]
      in flag (ca_principal c = []) (pre @ [T '': consumer principal must be non-empty'']) @
         flag (ca_group c = []) (pre @ [T '': consumer group must be non-empty'']) @
         flag (ca_host c \<noteq> [] \<and> trim_space (ca_host c) = []) (pre @ [T '': access consumer host must not be blank'']) @
         invalid_ops (pre @ [T '' consumer '', T (nat_str i), T '' topicOperations'']) (ca_topicOperations c) @
         invalid_ops (pre @ [T '' consumer '', T (nat_str i), T '' groupOperations'']) (ca_groupOperations c))"

definition validate_value_source :: "message \<Rightarrow> value_from \<Rightarrow> go_error list" where
  "validate_value_source path vf =
     (let n = count_value_sources (vf_valueFrom vf)
      in if n = 0 then
           [path @ [T '': valueFrom must specify exactly one source (env, file, secretKeyRef, inline, or configMapKeyRef); none set'']]
         else flag (n > 1)
           (path @ [T '': valueFrom must specify exactly one source (env, file, secretKeyRef, inline, or configMapKeyRef); '',
              T (nat_str n), T '' set'']))"

definition effective_strategy :: "topic_schema \<Rightarrow> string" where
  "effective_strategy sc = (if ts_subjectStrategy sc = [] then ''TopicName'' else ts_subjectStrategy sc)"

definition strategy_errors :: "message \<Rightarrow> topic_schema \<Rightarrow> go_error list" where
  "strategy_errors pre sc =
     (let strategy = effective_strategy sc
      in if strategy \<notin> set valid_subject_strategies then []
         else
           (if strategy = ''RecordName'' \<or> strategy = ''TopicRecordName'' then
              flag (ts_valueSchema sc = None)
                (pre @ [T '': subjectStrategy '', Q strategy,
                   T '' requires valueSchema (the subject is derived from the schema body; governance mode has no body to extract from)''])
            else if strategy = ''Custom'' then
              flag (ts_valueSubject sc = [])
                (pre @ [T '': subjectStrategy Custom requires spec.schema.valueSubject'']) @
              flag (ts_keySchema sc \<noteq> None \<and> ts_keySubject sc = [])
                (pre @ [T '': subjectStrategy Custom with a keySchema requires spec.schema.keySubject'']) @
              flag (ts_valueSubject sc \<noteq> [] \<and> ts_keySubject sc \<noteq> [] \<and> ts_valueSubject sc = ts_keySubject sc)
                (pre @ [T '': subjectStrategy Custom: valueSubject and keySubject must differ (both resolve to '',
                   Q (ts_valueSubject sc), T '')''])
            else []) @
           flag (strategy \<noteq> ''Custom'' \<and> (ts_valueSubject sc \<noteq> [] \<or> ts_keySubject sc \<noteq> []))
             (pre @ [T '': spec.schema.valueSubject/keySubject are only valid with subjectStrategy Custom'']))"

definition topic_schema_errors :: "message \<Rightarrow> topic_schema \<Rightarrow> go_error list" where
  "topic_schema_errors pre sc =
     flag (ts_format sc \<notin> set valid_schema_formats)
       (pre @ [T '': invalid schema format '', Q (ts_format sc), T '' (must be one of AVRO, JSON, PROTOBUF)'']) @
     flag (effective_strategy sc \<notin> set valid_subject_strategies)
       (pre @ [T '': invalid subjectStrategy '', Q (ts_subjectStrategy sc)]) @
     flag (ts_compatibility sc \<noteq> [] \<and> ts_compatibility sc \<notin> set valid_compatibilities)
       (pre @ [T '': invalid compatibility '', Q (ts_compatibility sc)]) @
     strategy_errors pre sc @
     (if ts_valueSchema sc = None \<and> ts_keySchema sc = None then
        flag (ts_compatibility sc = [])
          (pre @ [T '': spec.schema without valueSchema/keySchema manages compatibility only (governance mode) and requires spec.schema.compatibility''])
      else
        (case ts_valueSchema sc of
           None \<Rightarrow> [] | Some vf \<Rightarrow> validate_value_source (pre @ [T '': spec.schema.valueSchema'']) vf) @
        (case ts_keySchema sc of
           None \<Rightarrow> [] | Some vf \<Rightarrow> validate_value_source (pre @ [T '': spec.schema.keySchema'']) vf))"

text \<open>The topic loop's body up to the identity check.\<close>

definition topic_shape_errors :: "kafka_topic \<Rightarrow> go_error list" where
  "topic_shape_errors tp =
     (let name = om_name (kt_meta tp); spec = kt_spec tp; pre = [T ''KafkaTopic '', T name]
      in flag (name = []) [T ''KafkaTopic: metadata.name must be non-empty''] @
         flag (om_apiVersion (kt_meta tp) \<noteq> API_VERSION) (pre @ [T '': apiVersion must be '', T API_VERSION]) @
         flag (cr_name (kts_clusterRef spec) = []) (pre @ [T '': spec.clusterRef.name is required'']) @
         flag (kts_partitions spec < 1) (pre @ [T '': spec.partitions must be >= 1'']) @
         flag (case kts_replicationFactor spec of None \<Rightarrow> False | Some rf \<Rightarrow> rf < 1)
           (pre @ [T '': spec.replicationFactor must be >= 1'']) @
         flag (kts_replicationFactor spec \<noteq> None \<and> mget (kts_config spec) placement_key \<noteq> None)
           (pre @ [T '': spec.replicationFactor and config '', Q placement_key,
              T '' are mutually exclusive; omit replicationFactor and let the placement constraint determine replication'']) @
         mode_errors ''KafkaTopic'' name (kts_reconciliation spec) @
         deletion_policy_errors ''KafkaTopic'' name (kts_deletionPolicy spec) @
         (case kts_drift spec of
            None \<Rightarrow> []
          | Some d \<Rightarrow> concat (map (\<lambda>f. flag (\<not> valid_ignore_field f)
              (pre @ [T '': invalid drift.ignoreFields entry '', Q f,
                 T '' (must be \"partitions\", \"replicationFactor\", or \"config.<key>\")''])) (dc_ignoreFields d))) @
         concat (map (\<lambda>(i, p). producer_errors name i p) (enumerate 0 (ta_producers (kts_access spec)))) @
         concat (map (\<lambda>(i, c). consumer_errors name i c) (enumerate 0 (ta_consumers (kts_access spec)))) @
         (case kts_schema spec of None \<Rightarrow> [] | Some sc \<Rightarrow> topic_schema_errors pre sc))"

subsection \<open>Identity collisions\<close>

text \<open>
  The collision maps of \<open>Validate\<close>: a resource whose key is taken is an error naming the holder, else
  it takes the key. The loops over topics, mirror topics, quotas and users have this step between
  the errors of the resource itself (\<open>bef\<close>) and those of its cluster reference (\<open>aft\<close>).
\<close>

definition claim :: "(string \<rightharpoonup> string) \<Rightarrow> string \<Rightarrow> string \<Rightarrow> (string \<Rightarrow> go_error) \<Rightarrow>
    (string \<rightharpoonup> string) \<times> go_error list" where
  "claim seen key name collision =
     (case seen key of Some prev \<Rightarrow> (seen, [collision prev]) | None \<Rightarrow> (seen(key \<mapsto> name), []))"

fun claim_loop :: "('a \<Rightarrow> string) \<Rightarrow> ('a \<Rightarrow> string) \<Rightarrow> ('a \<Rightarrow> string \<Rightarrow> go_error) \<Rightarrow> ('a \<Rightarrow> go_error list) \<Rightarrow>
    ('a \<Rightarrow> go_error list) \<Rightarrow> (string \<rightharpoonup> string) \<Rightarrow> 'a list \<Rightarrow> (string \<rightharpoonup> string) \<times> go_error list" where
  "claim_loop key name collision bef aft seen [] = (seen, [])"
| "claim_loop key name collision bef aft seen (x # xs) =
     (case claim seen (key x) (name x) (collision x) of
        (seen', es) \<Rightarrow>
          (case claim_loop key name collision bef aft seen' xs of
             (seen'', rest) \<Rightarrow> (seen'', bef x @ es @ aft x @ rest)))"

type_synonym clusters = "(string, kafka_cluster) gomap"

definition unresolved :: "string \<Rightarrow> string \<Rightarrow> string \<Rightarrow> go_error" where
  "unresolved kind name clusterRef =
     [T kind, T '' '', T name, T '' references cluster '', Q clusterRef,
      T '', but no KafkaCluster config with that name was provided'']"

definition cluster_ref_errors :: "clusters option \<Rightarrow> string \<Rightarrow> string \<Rightarrow> string \<Rightarrow> go_error list" where
  "cluster_ref_errors cs kind name clusterRef =
     (case cs of None \<Rightarrow> [] | Some m \<Rightarrow> flag (mget m clusterRef = None) (unresolved kind name clusterRef))"

subsubsection \<open>Topics and mirror topics\<close>

definition topic_cluster :: "kafka_topic \<Rightarrow> string" where
  "topic_cluster tp = cr_name (kts_clusterRef (kt_spec tp))"

definition topic_claim_key :: "kafka_topic \<Rightarrow> string" where
  "topic_claim_key tp = topic_cluster tp @ [NUL] @ resolved_topic_name tp"

definition topic_cluster_errors :: "clusters option \<Rightarrow> kafka_topic \<Rightarrow> go_error list" where
  "topic_cluster_errors cs tp =
     (case cs of
        None \<Rightarrow> []
      | Some m \<Rightarrow>
          (case mget m (topic_cluster tp) of
             None \<Rightarrow> [unresolved ''KafkaTopic'' (om_name (kt_meta tp)) (topic_cluster tp)]
           | Some cl \<Rightarrow>
               flag (kts_schema (kt_spec tp) \<noteq> None \<and>
                   (case kcs_schemaRegistry (kc_spec cl) of None \<Rightarrow> True | Some sr \<Rightarrow> src_endpoint sr = []))
                 [T ''KafkaTopic '', T (om_name (kt_meta tp)), T '': spec.schema requires KafkaCluster '',
                  Q (topic_cluster tp), T '' to configure schemaRegistry'']))"

definition topic_collision :: "kafka_topic \<Rightarrow> string \<Rightarrow> go_error" where
  "topic_collision tp prev =
     [T ''KafkaTopic '', T (om_name (kt_meta tp)), T '' collides with '', T prev,
      T '': both resolve to topicName '', Q (resolved_topic_name tp), T '' on cluster '', Q (topic_cluster tp)]"

definition mirror_cluster :: "kafka_mirror_topic \<Rightarrow> string" where
  "mirror_cluster m = cr_name (kms_clusterRef (km_spec m))"

definition mirror_claim_key :: "kafka_mirror_topic \<Rightarrow> string" where
  "mirror_claim_key m = mirror_cluster m @ [NUL] @ effective_topic_name (km_spec m)"

definition mirror_collision :: "kafka_mirror_topic \<Rightarrow> string \<Rightarrow> go_error" where
  "mirror_collision m prev =
     [T ''KafkaMirrorTopic '', T (om_name (km_meta m)), T '' collides with '', T prev,
      T '': both resolve to topic '', Q (effective_topic_name (km_spec m)), T '' on cluster '', Q (mirror_cluster m)]"

definition mirror_cluster_errors :: "clusters option \<Rightarrow> kafka_mirror_topic \<Rightarrow> go_error list" where
  "mirror_cluster_errors cs m =
     (case cs of
        None \<Rightarrow> []
      | Some cm \<Rightarrow>
          (case mget cm (mirror_cluster m) of
             None \<Rightarrow> [unresolved ''KafkaMirrorTopic'' (om_name (km_meta m)) (mirror_cluster m)]
           | Some cl \<Rightarrow> flag (kcs_rest (kc_spec cl) = None)
               [T ''KafkaMirrorTopic '', T (om_name (km_meta m)), T '': cluster '', Q (mirror_cluster m),
                T '' has no spec.rest; mirror topics need Kafka REST v3'']))"

subsubsection \<open>Role bindings\<close>

definition rb_cluster :: "kafka_role_binding \<Rightarrow> string" where
  "rb_cluster rb = cr_name (krs_clusterRef (kr_spec rb))"

definition scope_id_errors :: "kafka_role_binding \<Rightarrow> mds_clusters \<Rightarrow> go_error list" where
  "scope_id_errors rb ids =
     (let pre = [T ''KafkaRoleBinding '', T (om_name (kr_meta rb)), T '': scope.type '',
            Q (rbs_type (krs_scope (kr_spec rb))), T '' requires cluster '', Q (rb_cluster rb)];
          typ = rbs_type (krs_scope (kr_spec rb))
      in flag (mc_kafkaCluster ids = [])
           [T ''KafkaRoleBinding '', T (om_name (kr_meta rb)), T '': cluster '', Q (rb_cluster rb),
            T '' authorization.mds.clusters.kafkaCluster must be set''] @
         (if typ = ''schema-registry'' then flag (mc_schemaRegistryCluster ids = [])
            (pre @ [T '' authorization.mds.clusters.schemaRegistryCluster to be set''])
          else if typ = ''connect'' then flag (mc_connectCluster ids = [])
            (pre @ [T '' authorization.mds.clusters.connectCluster to be set''])
          else if typ = ''ksql'' then flag (mc_ksqlCluster ids = [])
            (pre @ [T '' authorization.mds.clusters.ksqlCluster to be set''])
          else []))"

definition binding_collision :: "kafka_role_binding \<Rightarrow> string \<Rightarrow> go_error" where
  "binding_collision rb prev =
     [T ''KafkaRoleBinding '', T (om_name (kr_meta rb)), T '' collides with '', T prev,
      T '': both produce the same role binding identity on cluster '', Q (rb_cluster rb)]"

definition binding_claims :: "(string \<rightharpoonup> string) \<Rightarrow> kafka_role_binding \<Rightarrow> mds_config \<Rightarrow>
    (string \<rightharpoonup> string) \<times> go_error list" where
  "binding_claims seen rb mds =
     (if mc_kafkaCluster (mds_clusters_of mds) = [] then (seen, [])
      else case rbac_compile rb mds of
        Inl _ \<Rightarrow> (seen, [])
      | Inr compiled \<Rightarrow>
          claim_loop (\<lambda>b. rb_cluster rb @ [NUL] @ rb_full_key b) (\<lambda>b. om_name (kr_meta rb))
            (\<lambda>b. binding_collision rb) (\<lambda>b. []) (\<lambda>b. []) seen compiled)"

text \<open>One round of the loop; its \<open>continue\<close>s are the branches that leave \<open>seen\<close> alone.\<close>

definition binding_round :: "clusters option \<Rightarrow> (string \<rightharpoonup> string) \<Rightarrow> kafka_role_binding \<Rightarrow>
    (string \<rightharpoonup> string) \<times> go_error list" where
  "binding_round cs seen rb =
     (case cs of
        None \<Rightarrow> (seen, [])
      | Some m \<Rightarrow>
          (case mget m (rb_cluster rb) of
             None \<Rightarrow> (seen, [unresolved ''KafkaRoleBinding'' (om_name (kr_meta rb)) (rb_cluster rb)])
           | Some cl \<Rightarrow>
               (case Option.bind (kcs_authorization (kc_spec cl)) az_mds of
                  None \<Rightarrow>
                    (seen, [[T ''KafkaRoleBinding '', T (om_name (kr_meta rb)), T '': cluster '', Q (rb_cluster rb),
                       T '' does not have authorization.mds configured (required for role bindings)'']])
                | Some mds \<Rightarrow>
                    (case binding_claims seen rb mds of
                       (seen', es) \<Rightarrow> (seen', scope_id_errors rb (mds_clusters_of mds) @ es)))))"

fun binding_loop :: "clusters option \<Rightarrow> (string \<rightharpoonup> string) \<Rightarrow> kafka_role_binding list \<Rightarrow> go_error list" where
  "binding_loop cs seen [] = []"
| "binding_loop cs seen (rb # rbs) =
     (case binding_round cs seen rb of
        (seen', es) \<Rightarrow> validate_role_binding_shape rb @ es @ binding_loop cs seen' rbs)"

subsubsection \<open>Policies, quotas and users\<close>

definition policy_errors :: "clusters option \<Rightarrow> kafka_access_policy \<Rightarrow> go_error list" where
  "policy_errors cs pol =
     (let name = om_name (ap_meta pol); ref = cr_name (aps_clusterRef (ap_spec pol))
      in flag (name = []) [T ''KafkaAccessPolicy: metadata.name must be non-empty''] @
         flag (ref = []) [T ''KafkaAccessPolicy '', T name, T '': spec.clusterRef.name is required''] @
         validate_access_policy_shape pol @ cluster_ref_errors cs ''KafkaAccessPolicy'' name ref)"

definition quota_cluster :: "kafka_quota \<Rightarrow> string" where
  "quota_cluster q = cr_name (kqs_clusterRef (kq_spec q))"

definition quota_claim_key :: "kafka_quota \<Rightarrow> string" where
  "quota_claim_key q = quota_cluster q @ [NUL] @ entity_key (dq_entity (quota_compile q))"

definition quota_collision :: "kafka_quota \<Rightarrow> string \<Rightarrow> go_error" where
  "quota_collision q prev =
     [T ''KafkaQuota '', T (om_name (kq_meta q)), T '' collides with '', T prev,
      T '': both resolve to the same entity on cluster '', Q (quota_cluster q)]"

definition user_cluster :: "kafka_user \<Rightarrow> string" where
  "user_cluster u = cr_name (kus_clusterRef (ku_spec u))"

definition user_claim_key :: "kafka_user \<Rightarrow> string" where
  "user_claim_key u = user_key (user_cluster u) (kus_username (ku_spec u))"

definition user_collision :: "kafka_user \<Rightarrow> string \<Rightarrow> go_error" where
  "user_collision u prev =
     [T ''KafkaUser '', T (om_name (ku_meta u)), T '' collides with '', T prev,
      T '': both resolve to username '', Q (kus_username (ku_spec u)), T '' on cluster '', Q (user_cluster u)]"

subsection \<open>Validate\<close>

record validation_input =
  vi_topics :: "kafka_topic list"
  vi_policies :: "kafka_access_policy list"
  vi_clusters :: "clusters option"
  vi_quotas :: "kafka_quota list"
  vi_roleBindings :: "kafka_role_binding list"
  vi_users :: "kafka_user list"
  vi_mirrorTopics :: "kafka_mirror_topic list"

definition validate_clusters :: "url_parser \<Rightarrow> clusters option \<Rightarrow> go_error list" where
  "validate_clusters parse_url cs =
     (case cs of
        None \<Rightarrow> []
      | Some m \<Rightarrow> concat (map (\<lambda>k. cluster_errors parse_url k (the (mget m k))) (mkeys m)))"

definition validate :: "url_parser \<Rightarrow> validation_input \<Rightarrow> go_error list" where
  "validate parse_url vin =
     (let cs = vi_clusters vin
      in case claim_loop topic_claim_key (\<lambda>tp. om_name (kt_meta tp)) topic_collision topic_shape_errors
             (topic_cluster_errors cs) Map.empty (vi_topics vin) of
        (seen, topicErrs) \<Rightarrow>
          topicErrs @
          snd (claim_loop mirror_claim_key (\<lambda>m. om_name (km_meta m)) mirror_collision
             validate_mirror_topic_shape (mirror_cluster_errors cs) seen (vi_mirrorTopics vin)) @
          concat (map (policy_errors cs) (vi_policies vin)) @
          snd (claim_loop quota_claim_key (\<lambda>q. om_name (kq_meta q)) quota_collision validate_quota_shape
             (\<lambda>q. cluster_ref_errors cs ''KafkaQuota'' (om_name (kq_meta q)) (quota_cluster q))
             Map.empty (vi_quotas vin)) @
          binding_loop cs Map.empty (vi_roleBindings vin) @
          snd (claim_loop user_claim_key (\<lambda>u. om_name (ku_meta u)) user_collision validate_user_shape
             (\<lambda>u. cluster_ref_errors cs ''KafkaUser'' (om_name (ku_meta u)) (user_cluster u))
             Map.empty (vi_users vin)) @
          validate_clusters parse_url cs)"

end
