(* ===== verification/Recordname.thy ===== *)
theory Recordname
  imports Json Types Wire
begin

section \<open>Schema Registry subjects (internal/schemaregistry/recordname)\<close>

text \<open>
  The record name carried by a schema body and the subjects of a topic. \<open>json.Unmarshal\<close> and
  \<open>json.Valid\<close> take the whole input (text after the value is an error, unlike \<open>Decoder.Decode\<close>). Where
  an error wraps a library error, the library's text is left out of the message.
\<close>

subsection \<open>What is used of encoding/json and regexp\<close>

definition json_unmarshal :: "string \<Rightarrow> json option" where
  "json_unmarshal s =
     (case parse_value (2 * length s + 2) 0 s of
        None \<Rightarrow> None
      | Some (v, rest) \<Rightarrow> if skip_ws rest = [] then Some v else None)"

definition json_valid :: "string \<Rightarrow> bool" where
  "json_valid s \<longleftrightarrow> json_unmarshal s \<noteq> None"

text \<open>
  A key of a struct field is matched exactly or, failing that, after folding: ASCII letters to upper
  case, and the two runes outside ASCII that fold to an ASCII letter (the long s and the Kelvin sign).
\<close>

fun fold_name :: "string \<Rightarrow> string" where
  "fold_name [] = []"
| "fold_name (c # s) =
     (if prefix [CHR 0xC5, CHR 0xBF] (c # s) then CHR ''S'' # fold_name (drop 1 s)
      else if prefix [CHR 0xE2, CHR 0x84, CHR 0xAA] (c # s) then CHR ''K'' # fold_name (drop 2 s)
      else (if 0x61 \<le> byte c \<and> byte c \<le> 0x7A then char_of (byte c - 0x20) else c) # fold_name s)"

text \<open>\<open>\s\<close> of RE2, and an ASCII identifier.\<close>

definition re_space :: "char \<Rightarrow> bool" where
  "re_space c \<longleftrightarrow> c \<in> {CHR 0x09, CHR 0x0A, CHR 0x0C, CHR 0x0D, CHR 0x20}"

definition ident_start :: "char \<Rightarrow> bool" where
  "ident_start c \<longleftrightarrow> 0x41 \<le> byte c \<and> byte c \<le> 0x5A \<or> 0x61 \<le> byte c \<and> byte c \<le> 0x7A \<or> c = CHR ''_''"

definition ident_char :: "char \<Rightarrow> bool" where
  "ident_char c \<longleftrightarrow> ident_start c \<or> is_digit c"

text \<open>
  The common front of both expressions: white space, the keyword, white space, and an identifier of
  the given characters. The identifier is taken greedily: after the longest one comes no further
  identifier character, so \<open>\b\<close> holds there.
\<close>

definition scan_decl :: "string \<Rightarrow> (char \<Rightarrow> bool) \<Rightarrow> string \<Rightarrow> (string \<times> string) option" where
  "scan_decl keyword ok line =
     (let s = dropWhile re_space line; rest = drop (length keyword) s; s' = dropWhile re_space rest
      in if \<not> prefix keyword s \<or> s' = rest \<or> s' = [] \<or> \<not> ident_start (hd s') then None
         else Some (takeWhile ok s', dropWhile ok s'))"

definition proto_message :: "string \<Rightarrow> string option" where
  "proto_message line = map_option fst (scan_decl ''message'' ident_char line)"

definition proto_package :: "string \<Rightarrow> string option" where
  "proto_package line =
     (case scan_decl ''package'' (\<lambda>c. ident_char c \<or> c = CHR ''.'') line of
        None \<Rightarrow> None
      | Some (name, rest) \<Rightarrow> if prefix '';'' (dropWhile re_space rest) then Some name else None)"

subsection \<open>Extract\<close>

text \<open>
  Decoding into the struct of \<open>extractAvro\<close>: the members in document order, a string sets the field, null
  leaves it, any other value is a type error that is reported at the end.
\<close>

definition set_field :: "json \<Rightarrow> string \<Rightarrow> string option" where
  "set_field v old = (case v of JString s \<Rightarrow> Some s | JNull \<Rightarrow> Some old | _ \<Rightarrow> None)"

definition field_of :: "string \<Rightarrow> string option" where
  "field_of key =
     (if key \<in> {''name'', ''namespace''} then Some key
      else if fold_name key = ''NAME'' then Some ''name''
      else if fold_name key = ''NAMESPACE'' then Some ''namespace'' else None)"

fun avro_fields :: "string \<Rightarrow> string \<Rightarrow> (string \<times> json) list \<Rightarrow> (string \<times> string) option" where
  "avro_fields name namespace [] = Some (name, namespace)"
| "avro_fields name namespace ((key, v) # members) =
     (case field_of key of
        None \<Rightarrow> avro_fields name namespace members
      | Some field \<Rightarrow>
          (if field = ''name'' then
             (case set_field v name of None \<Rightarrow> None | Some name' \<Rightarrow> avro_fields name' namespace members)
           else
             (case set_field v namespace of None \<Rightarrow> None | Some ns \<Rightarrow> avro_fields name ns members)))"

definition avro_doc :: "string \<Rightarrow> (string \<times> string) option" where
  "avro_doc definition =
     (case json_unmarshal definition of
        Some (JObject members) \<Rightarrow> avro_fields [] [] members
      | Some JNull \<Rightarrow> Some ([], [])
      | _ \<Rightarrow> None)"

definition extract_avro :: "string \<Rightarrow> go_error + string" where
  "extract_avro definition =
     (case avro_doc definition of
        None \<Rightarrow> Inl [T ''invalid AVRO schema JSON'']
      | Some (name, namespace) \<Rightarrow>
          (if name = [] then Inl [T ''AVRO schema has no top-level \"name\"'']
           else if namespace = [] \<or> CHR ''.'' \<in> set name then Inr name
           else Inr (namespace @ ''.'' @ name)))"

definition extract_json :: "string \<Rightarrow> go_error + string" where
  "extract_json definition =
     (case json_unmarshal definition of
        Some (JObject members) \<Rightarrow>
          (case map_of (rev members) ''title'' of
             None \<Rightarrow> Inl [T ''JSON schema has no top-level \"title\"'']
           | Some raw \<Rightarrow>
               (case set_field raw [] of
                  None \<Rightarrow> Inl [T ''JSON schema \"title\" must be a string'']
                | Some title \<Rightarrow>
                    (if title = [] then Inl [T ''JSON schema \"title\" must be non-empty''] else Inr title)))
      | Some JNull \<Rightarrow> Inl [T ''JSON schema has no top-level \"title\"'']
      | _ \<Rightarrow> Inl [T ''invalid JSON schema''])"

text \<open>The line scanner: the package (set once) and the first message.\<close>

fun proto_scan :: "string \<Rightarrow> string list \<Rightarrow> string \<times> string" where
  "proto_scan pkg [] = (pkg, [])"
| "proto_scan pkg (line # lines) =
     (case (if pkg = [] then proto_package line else None) of
        Some p \<Rightarrow> proto_scan p lines
      | None \<Rightarrow>
          (case proto_message line of
             Some m \<Rightarrow> (pkg, m)
           | None \<Rightarrow> proto_scan pkg lines))"

definition extract_proto :: "string \<Rightarrow> go_error + string" where
  "extract_proto definition =
     (case proto_scan [] (split_on CHR 0x0A definition) of
        (pkg, msg) \<Rightarrow>
          (if msg = [] then Inl [T ''PROTOBUF schema has no top-level message declaration'']
           else if pkg = [] then Inr msg else Inr (pkg @ ''.'' @ msg)))"

definition extract_name :: "string \<Rightarrow> string \<Rightarrow> go_error + string" where
  "extract_name format definition =
     (if format = ''AVRO'' then extract_avro definition
      else if format = ''JSON'' then extract_json definition
      else if format = ''PROTOBUF'' then extract_proto definition
      else Inl [T ''cannot extract record name: unsupported schema format '', Q format])"

subsection \<open>Subjects\<close>

definition record_subject :: "string \<Rightarrow> string \<Rightarrow> string \<Rightarrow> string" where
  "record_subject strategy topicName recordFullName =
     (if strategy = ''TopicRecordName'' then topicName @ ''-'' @ recordFullName else recordFullName)"

definition body_subject :: "string \<Rightarrow> string \<Rightarrow> string \<Rightarrow> string \<Rightarrow> string \<Rightarrow> go_error + string" where
  "body_subject role strategy topicName format body =
     (if body = [] then Inr []
      else case extract_name format body of
        Inl e \<Rightarrow> Inl (T role # T '' schema: '' # e)
      | Inr rn \<Rightarrow> Inr (record_subject strategy topicName rn))"

definition same_subject :: "string \<Rightarrow> string \<Rightarrow> message \<Rightarrow> go_error" where
  "same_subject subject strategy advice =
     [T ''value and key schemas resolve to the same subject '', Q subject, T '' (strategy '', T strategy, T ''): ''] @ advice"

definition subjects :: "string \<Rightarrow> string \<Rightarrow> topic_schema \<Rightarrow> string \<Rightarrow> string \<Rightarrow> go_error + string \<times> string" where
  "subjects strategy topicName schema valueDef keyDef =
     (if strategy \<in> {[], ''TopicName''} then
        Inr (topicName @ ''-value'', if keyDef \<noteq> [] then topicName @ ''-key'' else [])
      else if strategy \<in> {''RecordName'', ''TopicRecordName''} then
        (case body_subject ''value'' strategy topicName (ts_format schema) valueDef of
           Inl e \<Rightarrow> Inl e
         | Inr vs \<Rightarrow>
             (case body_subject ''key'' strategy topicName (ts_format schema) keyDef of
                Inl e \<Rightarrow> Inl e
              | Inr ks \<Rightarrow>
                  (if vs \<noteq> [] \<and> ks \<noteq> [] \<and> vs = ks then
                     Inl (same_subject vs strategy [T ''rename one record to avoid clobbering the subject''])
                   else Inr (vs, ks))))
      else if strategy = ''Custom'' then
        (let vs = ts_valueSubject schema; ks = ts_keySubject schema
         in if vs \<noteq> [] \<and> ks \<noteq> [] \<and> vs = ks then
              Inl (same_subject vs strategy [T ''valueSubject and keySubject must differ''])
            else Inr (vs, ks))
      else Inl [T ''unsupported subjectStrategy '', Q strategy])"

lemma recordname_examples:
  "subjects [] ''orders'' s ''x'' [] = Inr (''orders-value'', [])"
  "extract_proto (join [CHR 0x0A] [''syntax = 3;'', '' package a.b ;'', ''message Order {'', ''message Line {'']) =
     Inr ''a.b.Order''"
  "extract_avro ''{\"Name\":\"x\",\"name\":\"Order\",\"namespace\":\"a.b\"}'' = Inr ''a.b.Order''"
  "extract_avro ''{\"name\":\"a.b.Order\",\"namespace\":\"z\"}'' = Inr ''a.b.Order''"
  "extract_json ''{\"title\":1}'' = Inl [T ''JSON schema \"title\" must be a string'']"
  "extract_proto ''message 1x'' = Inl [T ''PROTOBUF schema has no top-level message declaration'']"
  "fold_name [CHR ''n'', CHR ''a'', CHR ''M'', CHR 0xC5, CHR 0xBF] = ''NAMS''"
  by (simp add: subjects_def, code_simp+)

subsection \<open>What the subjects are\<close>

lemma extract_name_nonempty: "extract_name format body = Inr rn \<Longrightarrow> rn \<noteq> []"
  by (auto simp: extract_name_def extract_avro_def extract_json_def extract_proto_def
      split: if_splits option.splits prod.splits json.splits)

lemma body_subject_empty: "body_subject role strategy topicName format body = Inr s \<Longrightarrow> s = [] \<longleftrightarrow> body = []"
  by (auto simp: body_subject_def record_subject_def dest: extract_name_nonempty split: if_splits sum.splits)

text \<open>The value and the key of a topic never share a subject.\<close>

lemma subjects_differ:
  assumes "subjects strategy topicName schema valueDef keyDef = Inr (vs, ks)" "ks \<noteq> []"
  shows "vs \<noteq> ks"
  using assms by (auto simp: subjects_def Let_def split: if_splits sum.splits)

end
