(* ===== verification/Go_Path.thy ===== *)
theory Go_Path
  imports Prelude
begin

section \<open>Go's path/filepath on Unix\<close>

text \<open>
  What the code uses of \<open>path/filepath\<close>: \<open>IsAbs\<close>, \<open>Clean\<close>, \<open>Join\<close> of two elements, \<open>Dir\<close>, \<open>Rel\<close>.
  A path is cleaned element by element: empty elements and \<open>.\<close> are dropped, \<open>..\<close> removes the element
  before it, and is kept only at the front of a relative path.
\<close>

definition is_abs :: "string \<Rightarrow> bool" where
  "is_abs p = has_prefix p ''/''"

text \<open>The kept elements, innermost first.\<close>

definition clean_step :: "bool \<Rightarrow> string list \<Rightarrow> string \<Rightarrow> string list" where
  "clean_step rooted kept e =
     (if e = [] \<or> e = ''.'' then kept
      else if e = ''..'' then
        (case kept of
           [] \<Rightarrow> if rooted then [] else [''..'']
         | k # ks \<Rightarrow> if k = ''..'' then ''..'' # kept else ks)
      else e # kept)"

definition clean_parts :: "string \<Rightarrow> string list" where
  "clean_parts p = rev (foldl (clean_step (is_abs p)) [] (split_on CHR ''/'' p))"

definition render_path :: "bool \<Rightarrow> string list \<Rightarrow> string" where
  "render_path rooted parts =
     (if rooted then CHR ''/'' # join ''/'' parts else if parts = [] then ''.'' else join ''/'' parts)"

definition path_clean :: "string \<Rightarrow> string" where
  "path_clean p = render_path (is_abs p) (clean_parts p)"

definition path_join :: "string \<Rightarrow> string \<Rightarrow> string" where
  "path_join a b =
     (if a \<noteq> [] then path_clean (a @ ''/'' @ b) else if b \<noteq> [] then path_clean b else [])"

text \<open>\<open>Dir\<close>: everything up to and including the last slash, cleaned.\<close>

definition path_dir :: "string \<Rightarrow> string" where
  "path_dir p = path_clean (rev (dropWhile (\<lambda>c. c \<noteq> CHR ''/'') (rev p)))"

fun strip_common :: "'a list \<Rightarrow> 'a list \<Rightarrow> 'a list \<times> 'a list" where
  "strip_common (b # bs) (t # ts) = (if b = t then strip_common bs ts else (b # bs, t # ts))"
| "strip_common bs ts = (bs, ts)"

text \<open>
  \<open>Rel\<close> on cleaned paths. The elements of the base left after the common front are climbed, which is
  not possible over a \<open>..\<close>.
\<close>

definition path_rel :: "string \<Rightarrow> string \<Rightarrow> string option" where
  "path_rel basepath targpath =
     (if path_clean targpath = path_clean basepath then Some ''.''
      else if is_abs (path_clean basepath) \<noteq> is_abs (path_clean targpath) then None
      else case strip_common (clean_parts basepath) (clean_parts targpath) of
        (bs, ts) \<Rightarrow>
          if bs \<noteq> [] \<and> hd bs = ''..'' then None
          else Some (join ''/'' (map (\<lambda>_. ''..'') bs @ (if ts = [] \<and> clean_parts targpath = [] \<and>
            \<not> is_abs targpath then [''.''] else ts))))"

lemma path_examples:
  "path_clean ''a//b/./../c'' = ''a/c''" "path_clean ''/../x'' = ''/x''" "path_clean ''../a/../..'' = ''../..''"
  "path_clean [] = ''.''" "path_clean ''/'' = ''/''" "path_clean ''a/..'' = ''.''"
  "path_join ''team/topics'' ''../schemas/x.avsc'' = ''team/schemas/x.avsc''"
  "path_dir ''team/topics/orders.yaml'' = ''team/topics''" "path_dir ''orders.yaml'' = ''.''"
  "path_dir ''/orders.yaml'' = ''/''" "path_dir ''..'' = ''.''"
  "path_rel ''a/b'' ''a/b/c/d'' = Some ''c/d''" "path_rel ''a/b/c'' ''a/d'' = Some ''../../d''"
  "path_rel ''.'' ''..'' = Some ''..''" "path_rel ''..'' ''a'' = None" "path_rel ''/'' ''/a'' = Some ''a''"
  "path_rel ''a'' ''.'' = Some ''../.''" "path_rel ''/a'' ''a'' = None"
  by code_simp+

subsection \<open>Cleaned paths\<close>

text \<open>A cleaned list of elements: proper names, after a run of \<open>..\<close> when the path is relative.\<close>

definition proper_name :: "string \<Rightarrow> bool" where
  "proper_name e \<longleftrightarrow> e \<notin> {[], ''.'', ''..''} \<and> CHR ''/'' \<notin> set e"

definition clean_list :: "bool \<Rightarrow> string list \<Rightarrow> bool" where
  "clean_list rooted parts \<longleftrightarrow>
     (\<exists>n names. parts = replicate n ''..'' @ names \<and> list_all proper_name names \<and> (rooted \<longrightarrow> n = 0))"

lemma split_on_parts: "x \<in> set (split_on c s) \<Longrightarrow> c \<notin> set x"
  by (induction s arbitrary: x) (auto split: if_splits list.splits)

lemma clean_step_list:
  assumes "clean_list r (rev kept)" "CHR ''/'' \<notin> set e"
  shows "clean_list r (rev (clean_step r kept e))"
proof -
  obtain n names where k: "rev kept = replicate n ''..'' @ names" "list_all proper_name names" "r \<longrightarrow> n = 0"
    using assms(1) by (auto simp: clean_list_def)
  consider "e = [] \<or> e = ''.''" | "e = ''..''" | "proper_name e"
    using assms(2) by (auto simp: proper_name_def)
  then show ?thesis
  proof cases
    case 1
    then show ?thesis using assms(1) by (simp add: clean_step_def)
  next
    case 2
    show ?thesis
    proof (cases names rule: rev_cases)
      case Nil
      then have "kept = replicate n ''..''" using k(1) by (metis append_Nil2 rev_replicate rev_swap)
      then have "rev (clean_step r kept e) = (if r then [] else replicate (Suc n) ''..'')"
        using k(3) 2 by (cases n) (auto simp: clean_step_def replicate_append_same)
      then show ?thesis unfolding clean_list_def
        by (intro exI [of _ "if r then 0 else Suc n"] exI [of _ "[]"]) simp
    next
      case (snoc ns x)
      then have "kept = x # rev (replicate n ''..'' @ ns)" using k(1) by (metis append_assoc rev_rev_ident rev.simps(2) rev_append append_Cons append_Nil rev_eq_Cons_iff)
      moreover have "x \<noteq> ''..''" using k(2) snoc by (auto simp: proper_name_def)
      ultimately have "rev (clean_step r kept e) = replicate n ''..'' @ ns"
        using 2 by (simp add: clean_step_def)
      then show ?thesis using k snoc by (auto simp: clean_list_def)
    qed
  next
    case 3
    then have "rev (clean_step r kept e) = replicate n ''..'' @ (names @ [e])"
      using k(1) by (simp add: clean_step_def proper_name_def)
    then show ?thesis unfolding clean_list_def using k 3
      by (intro exI [of _ n] exI [of _ "names @ [e]"]) simp
  qed
qed

lemma clean_parts_list: "clean_list (is_abs p) (clean_parts p)"
proof -
  have "clean_list r (rev (foldl (clean_step r) kept es))"
    if "clean_list r (rev kept)" "\<forall>e \<in> set es. CHR ''/'' \<notin> set e" for r kept es
    using that by (induction es arbitrary: kept) (auto simp: clean_step_list)
  moreover have "clean_list r []" for r by (auto simp: clean_list_def)
  ultimately show ?thesis unfolding clean_parts_def using split_on_parts by (metis rev.simps(1))
qed

text \<open>Cleaning a cleaned path changes nothing: it is its elements and whether it is rooted.\<close>

lemma foldl_clean_list:
  assumes "clean_list r parts"
  shows "foldl (clean_step r) [] parts = rev parts"
proof -
  obtain n names where p: "parts = replicate n ''..'' @ names" "list_all proper_name names" "r \<longrightarrow> n = 0"
    using assms by (auto simp: clean_list_def)
  have dots: "foldl (clean_step r) (replicate k ''..'') (replicate n ''..'') = replicate (k + n) ''..''" if "\<not> r" for k
    using that
  proof (induction n arbitrary: k)
    case 0
    then show ?case by simp
  next
    case (Suc n)
    have "clean_step r (replicate k ''..'') ''..'' = replicate (Suc k) ''..''"
      using Suc.prems by (cases k) (simp_all add: clean_step_def)
    then show ?case using Suc.IH [of "Suc k"] Suc.prems by simp
  qed
  have names: "foldl (clean_step r) kept ns = rev ns @ kept" if "list_all proper_name ns" for kept ns
    using that by (induction ns arbitrary: kept) (auto simp: clean_step_def proper_name_def)
  have "foldl (clean_step r) [] (replicate n ''..'') = replicate n ''..''"
    using dots [of 0] p(3) by (cases r) simp_all
  then show ?thesis using names [OF p(2)] p(1) by simp
qed

lemma clean_list_elem: "clean_list r parts \<Longrightarrow> e \<in> set parts \<Longrightarrow> e \<noteq> [] \<and> CHR ''/'' \<notin> set e"
proof -
  assume "clean_list r parts" "e \<in> set parts"
  then obtain n names where "e \<in> set (replicate n ''..'' @ names)" "list_all proper_name names"
    unfolding clean_list_def by blast
  then have "e = ''..'' \<or> proper_name e" by (auto simp: list_all_iff set_replicate_conv_if split: if_splits)
  then show ?thesis by (auto simp: proper_name_def)
qed

lemma clean_parts_render:
  assumes "clean_list r parts"
  shows "is_abs (render_path r parts) = r" "clean_parts (render_path r parts) = parts"
proof -
  have split: "split_on CHR ''/'' (join ''/'' parts) = (if parts = [] then [[]] else parts)"
    using clean_list_elem [OF assms] by (simp add: split_on_join)
  have first: "\<not> is_abs (join ''/'' (x # xs))" if "parts = x # xs" for x xs
    using clean_list_elem [OF assms, of x] that
    by (cases x; cases xs) (auto simp: is_abs_def has_prefix_def)
  show abs: "is_abs (render_path r parts) = r"
    using first by (cases parts) (auto simp: render_path_def is_abs_def has_prefix_def)
  have skip: "clean_step b kept [] = kept" "clean_step b kept ''.'' = kept" for b kept
    by (simp_all add: clean_step_def)
  show "clean_parts (render_path r parts) = parts"
  proof (cases "parts = []")
    case True
    then show ?thesis by (simp add: clean_parts_def render_path_def skip)
  next
    case False
    then show ?thesis
      using split foldl_clean_list [OF assms] abs
      by (cases r) (simp_all add: clean_parts_def render_path_def skip)
  qed
qed

lemma path_clean_clean [simp]:
  "is_abs (path_clean p) = is_abs p" "clean_parts (path_clean p) = clean_parts p" "path_clean (path_clean p) = path_clean p"
proof -
  show c: "is_abs (path_clean p) = is_abs p" "clean_parts (path_clean p) = clean_parts p"
    unfolding path_clean_def by (rule clean_parts_render [OF clean_parts_list])+
  show "path_clean (path_clean p) = path_clean p"
    unfolding path_clean_def [of "path_clean p"] c by (rule path_clean_def [symmetric])
qed

lemma path_clean_eq: "path_clean p = path_clean q \<longleftrightarrow> is_abs p = is_abs q \<and> clean_parts p = clean_parts q"
proof
  assume "path_clean p = path_clean q"
  then show "is_abs p = is_abs q \<and> clean_parts p = clean_parts q"
    using path_clean_clean(1,2) [of p] path_clean_clean(1,2) [of q] by simp
next
  assume "is_abs p = is_abs q \<and> clean_parts p = clean_parts q"
  then show "path_clean p = path_clean q" by (simp only: path_clean_def)
qed

subsection \<open>Lexical containment\<close>

text \<open>The path lies in the directory or below it, with no \<open>..\<close> on the way.\<close>

definition path_under :: "string \<Rightarrow> string \<Rightarrow> bool" where
  "path_under dir p \<longleftrightarrow>
     is_abs p = is_abs dir \<and> (\<exists>names. clean_parts p = clean_parts dir @ names \<and> list_all proper_name names)"

lemma strip_common_split: "strip_common bs ts = (bs', ts') \<Longrightarrow> \<exists>cs. bs = cs @ bs' \<and> ts = cs @ ts'"
  by (induction bs ts rule: strip_common.induct) (auto split: if_splits intro: exI [of _ "_ # _"])

lemma clean_list_suffix:
  assumes "clean_list r (xs @ ts)" "ts = [] \<or> hd ts \<noteq> ''..''"
  shows "list_all proper_name ts"
proof -
  obtain n names where p: "xs @ ts = replicate n ''..'' @ names" "list_all proper_name names"
    using assms(1) by (auto simp: clean_list_def)
  show ?thesis
  proof (cases "length xs < n")
    case True
    then have "ts = drop (length xs) (replicate n ''..'' @ names)" using p(1) by (metis append_eq_conv_conj)
    then have "ts = replicate (n - length xs) ''..'' @ names" using True by simp
    then have "hd ts = ''..''" "ts \<noteq> []" using True by (cases "n - length xs"; simp)+
    then show ?thesis using assms(2) by simp
  next
    case False
    have "ts = drop (length xs) (replicate n ''..'' @ names)" using p(1) by (metis append_eq_conv_conj)
    then have "ts = drop (length xs - n) names" using False by simp
    then show ?thesis using p(2) by (auto simp: list_all_iff dest: in_set_dropD)
  qed
qed

lemma path_rel_under:
  assumes "path_rel dir p = Some rel" "rel \<noteq> ''..''" "\<not> has_prefix rel ''../''"
  shows "path_under dir p"
proof (cases "path_clean p = path_clean dir")
  case True
  then show ?thesis by (simp add: path_under_def path_clean_eq)
next
  case False
  then have abs: "is_abs dir = is_abs p" using assms(1) by (simp add: path_rel_def split: if_splits)
  obtain bs ts where st: "strip_common (clean_parts dir) (clean_parts p) = (bs, ts)" by (metis surj_pair)
  obtain cs where cs: "clean_parts dir = cs @ bs" "clean_parts p = cs @ ts"
    using strip_common_split [OF st] by blast
  have dots: "join ''/'' (''..'' # es) = ''..'' \<or> has_prefix (join ''/'' (''..'' # es)) ''../''" for es
    by (cases es) (auto simp: has_prefix_def)
  have rel: "rel = join ''/'' (map (\<lambda>_. ''..'') bs @ (if ts = [] \<and> clean_parts p = [] \<and> \<not> is_abs p then [''.''] else ts))"
    using assms(1) False abs
    by (cases "bs \<noteq> [] \<and> hd bs = ''..''") (auto simp only: path_rel_def st path_clean_clean prod.case if_False if_True
        option.inject option.distinct simp_thms)
  have bs: "bs = []"
  proof (cases bs)
    case (Cons b bs')
    then show ?thesis
      using assms(2,3) dots [of "map (\<lambda>_. ''..'') bs' @ (if ts = [] \<and> clean_parts p = [] \<and> \<not> is_abs p then [''.''] else ts)"]
      unfolding rel by (simp only: list.map append.simps simp_thms)
  qed
  have ts: "ts \<noteq> []" using False cs abs bs by (auto simp: path_clean_eq)
  then have "hd ts \<noteq> ''..''" using rel assms(2,3) dots bs by (cases ts) auto
  then have "list_all proper_name ts"
    using clean_list_suffix [of "is_abs p" cs ts] clean_parts_list [of p] cs(2) by simp
  then show ?thesis using cs bs abs by (auto simp: path_under_def)
qed

end
