(* ===== verification/Secrets.thy ===== *)
theory Secrets
  imports Go_Path Wire
begin

section \<open>Secret references and file confinement (internal/secrets)\<close>

text \<open>
  The path confinement of file references and the CLI resolver. The environment and the file system
  are parameters: a variable is set or not, a file is read or fails with the text of the error.
\<close>

record cli_env =
  env_var :: "string \<Rightarrow> string option"
  read_file :: "string \<Rightarrow> string + string"

text \<open>\<open>escapes\<close>: whether the cleaned path leaves the directory.\<close>

definition path_escapes :: "string \<Rightarrow> string \<Rightarrow> bool" where
  "path_escapes dir p =
     (case path_rel (path_clean dir) p of
        None \<Rightarrow> True
      | Some rel \<Rightarrow> rel = ''..'' \<or> has_prefix rel ''../'')"

definition escape_error :: "string \<Rightarrow> go_error" where
  "escape_error file = [T ''file reference '', Q file, T '' escapes the base directory'']"

definition safe_join_under :: "string \<Rightarrow> string \<Rightarrow> string \<Rightarrow> go_error + string" where
  "safe_join_under joinDir confineDir file =
     (if is_abs file then Inr file
      else
        (let j = (if joinDir = [] then ''.'' else joinDir);
             c = (if confineDir = [] then ''.'' else confineDir);
             joined = path_join j file
         in if path_escapes c joined then Inl (escape_error file) else Inr joined))"

definition safe_join :: "string \<Rightarrow> string \<Rightarrow> go_error + string" where
  "safe_join baseDir file =
     (if is_abs file then Inr file
      else
        (let b = (if baseDir = [] then ''.'' else baseDir); joined = path_join b file
         in if path_escapes b joined then Inl (escape_error file) else Inr joined))"

definition trim_newlines :: "string \<Rightarrow> string" where
  "trim_newlines s = rev (dropWhile (\<lambda>c. c = CHR 0x0D \<or> c = CHR 0x0A) (rev s))"

definition resolve_secret :: "cli_env \<Rightarrow> string \<Rightarrow> value_from \<Rightarrow> go_error + string" where
  "resolve_secret env baseDir vf =
     (let src = vf_valueFrom vf
      in if vs_inline src \<noteq> [] then Inr (vs_inline src)
         else if vs_env src \<noteq> [] then
           (case env_var env (vs_env src) of
              None \<Rightarrow> Inl [T ''env var '', Q (vs_env src), T '' not set'']
            | Some v \<Rightarrow> Inr v)
         else if vs_file src \<noteq> [] then
           (case safe_join baseDir (vs_file src) of
              Inl e \<Rightarrow> Inl e
            | Inr path \<Rightarrow>
                (case read_file env path of
                   Inl e \<Rightarrow> Inl [T ''reading secret file '', Q path, T '': '', T e]
                 | Inr b \<Rightarrow> Inr (trim_newlines b)))
         else if vs_secretKeyRef src \<noteq> None then
           Inl [T ''secretKeyRef is not supported in CLI mode (use env or file)'']
         else if vs_configMapKeyRef src \<noteq> None then
           Inl [T ''configMapKeyRef is not supported in CLI mode'']
         else Inl [T ''no secret source specified (set env or file)''])"

subsection \<open>A relative reference stays below its directory\<close>

lemma safe_join_self: "safe_join baseDir file = safe_join_under baseDir baseDir file"
  by (simp add: safe_join_def safe_join_under_def Let_def)

lemma dot_under [simp]: "path_under ''.'' p \<longleftrightarrow> path_under [] p"
proof -
  have "is_abs ''.'' = is_abs []" "clean_parts ''.'' = clean_parts []" by code_simp+
  then show ?thesis by (simp add: path_under_def)
qed

lemma path_under_clean [simp]: "path_under (path_clean d) p = path_under d p"
  by (simp add: path_under_def)

lemma not_escaping: "\<not> path_escapes d p \<Longrightarrow> path_under d p"
  using path_rel_under [of "path_clean d" p] by (auto simp: path_escapes_def split: option.splits)

text \<open>
  C32. File references are confined: when \<open>SafeJoinUnder\<close> accepts a relative reference, the joined path
  is clean and lies, element by element, in or below the confining directory with no \<open>..\<close> left after
  it. An absolute reference is passed through unchanged.
\<close>

theorem safe_join_confined:
  assumes "safe_join_under joinDir confineDir file = Inr p"
  shows "if is_abs file then p = file else path_clean p = p \<and> path_under confineDir p"
proof (cases "is_abs file")
  case True
  then show ?thesis using assms by (simp add: safe_join_under_def)
next
  case False
  let ?j = "if joinDir = [] then ''.'' else joinDir" and ?c = "if confineDir = [] then ''.'' else confineDir"
  have joined: "p = path_join ?j file" "\<not> path_escapes ?c p"
    using assms False by (auto simp: safe_join_under_def Let_def split: if_splits)
  have "path_clean p = p" using joined(1) by (simp add: path_join_def)
  moreover have "path_under confineDir p"
    using not_escaping [OF joined(2)] by (cases "confineDir = []") simp_all
  ultimately show ?thesis using False by simp
qed

theorem safe_join_confined_witness:
  "safe_join_under ''team/topics'' ''team'' ''../schemas/order.avsc'' = Inr ''team/schemas/order.avsc'' \<and>
   path_under ''team'' ''team/schemas/order.avsc'' \<and>
   safe_join_under ''team/topics'' ''team'' ''../../secrets'' = Inl (escape_error ''../../secrets'')"
proof -
  have ok: "safe_join_under ''team/topics'' ''team'' ''../schemas/order.avsc'' = Inr ''team/schemas/order.avsc''"
    by code_simp
  have rel: "\<not> is_abs ''../schemas/order.avsc''" by code_simp
  have "safe_join_under ''team/topics'' ''team'' ''../../secrets'' = Inl (escape_error ''../../secrets'')"
    by code_simp
  then show ?thesis using safe_join_confined [OF ok] rel ok by simp
qed

end
