(* ===== verification/Pipeline.thy ===== *)
theory Pipeline
  imports Cli_Plan Validation Defaulting Recordname Secrets
begin

section \<open>The CLI pipeline (internal/pipeline)\<close>

text \<open>
  \<open>Build\<close>: load, split by kind, select a cluster, filter, default, validate, compile. What the two calls
  of the loader return, the environment and \<open>strconv.Quote\<close> are parameters. A \<open>loaded\<close> object has one
  field per kind, as in the loader; a topic carries the source it was loaded from (the code keeps it in
  a map from the topic's pointer).
\<close>

record loaded =
  lo_source :: string
  lo_topic :: "kafka_topic option"
  lo_policy :: "kafka_access_policy option"
  lo_cluster :: "kafka_cluster option"
  lo_quota :: "kafka_quota option"
  lo_roleBinding :: "kafka_role_binding option"
  lo_user :: "kafka_user option"
  lo_mirrorTopic :: "kafka_mirror_topic option"

record build_options =
  bo_manifests :: "go_error + loaded list"
  bo_clusterConfigs :: "(go_error + loaded list) option"
  bo_cluster :: string
  bo_requireClusters :: bool

text \<open>The local variables of \<open>Build\<close> that hold the resources.\<close>

record manifests =
  mf_topics :: "(kafka_topic \<times> string) list"
  mf_policies :: "kafka_access_policy list"
  mf_quotas :: "kafka_quota list"
  mf_roleBindings :: "kafka_role_binding list"
  mf_users :: "kafka_user list"
  mf_mirrors :: "kafka_mirror_topic list"
  mf_clusters :: clusters

datatype binding_error =
    NoMds string string string
  | CompileFailed string string rbac_error
  | TopicNoMds string string string
  | TopicCompileFailed string string rbac_error

datatype build_error =
    LoadFailed go_error
  | NoClusterConfig
  | SelectedNotFound string
  | Invalid "go_error list"
  | GenerateUnsupported "string list"
  | AclConflicts "access_error list"
  | SchemaErrors "go_error list"
  | BindingErrors "binding_error list"
  | BindingCollisions "rbac_error list"

subsection \<open>Loading\<close>

definition no_manifests :: manifests where
  "no_manifests =
     \<lparr>mf_topics = [], mf_policies = [], mf_quotas = [], mf_roleBindings = [], mf_users = [], mf_mirrors = [],
      mf_clusters = []\<rparr>"

definition put_cluster :: "clusters \<Rightarrow> kafka_cluster \<Rightarrow> clusters" where
  "put_cluster cs cl = AList.update (om_name (kc_meta cl)) cl cs"

definition add_object :: "manifests \<Rightarrow> loaded \<Rightarrow> manifests" where
  "add_object m ob =
     (case lo_topic ob of Some t \<Rightarrow> m\<lparr>mf_topics := mf_topics m @ [(t, lo_source ob)]\<rparr>
      | None \<Rightarrow>
     (case lo_policy ob of Some p \<Rightarrow> m\<lparr>mf_policies := mf_policies m @ [p]\<rparr>
      | None \<Rightarrow>
     (case lo_cluster ob of Some c \<Rightarrow> m\<lparr>mf_clusters := put_cluster (mf_clusters m) c\<rparr>
      | None \<Rightarrow>
     (case lo_quota ob of Some q \<Rightarrow> m\<lparr>mf_quotas := mf_quotas m @ [q]\<rparr>
      | None \<Rightarrow>
     (case lo_roleBinding ob of Some b \<Rightarrow> m\<lparr>mf_roleBindings := mf_roleBindings m @ [b]\<rparr>
      | None \<Rightarrow>
     (case lo_user ob of Some u \<Rightarrow> m\<lparr>mf_users := mf_users m @ [u]\<rparr>
      | None \<Rightarrow>
     (case lo_mirrorTopic ob of Some mt \<Rightarrow> m\<lparr>mf_mirrors := mf_mirrors m @ [mt]\<rparr>
      | None \<Rightarrow> m)))))))"

definition split_objects :: "loaded list \<Rightarrow> manifests" where
  "split_objects objs = foldl add_object no_manifests objs"

definition add_cluster_configs :: "loaded list \<Rightarrow> manifests \<Rightarrow> manifests" where
  "add_cluster_configs objs m =
     m\<lparr>mf_clusters := foldl put_cluster (mf_clusters m) (List.map_filter lo_cluster objs)\<rparr>"

definition load_all :: "build_options \<Rightarrow> build_error + manifests" where
  "load_all opts =
     (case bo_manifests opts of
        Inl e \<Rightarrow> Inl (LoadFailed e)
      | Inr objs \<Rightarrow>
          (case bo_clusterConfigs opts of
             None \<Rightarrow> Inr (split_objects objs)
           | Some (Inl e) \<Rightarrow> Inl (LoadFailed e)
           | Some (Inr cfg) \<Rightarrow> Inr (add_cluster_configs cfg (split_objects objs))))"

subsection \<open>Selecting, filtering, defaulting\<close>

definition clusters_loaded :: "manifests \<Rightarrow> bool" where
  "clusters_loaded m \<longleftrightarrow> mf_clusters m \<noteq> []"

definition select_cluster :: "build_options \<Rightarrow> manifests \<Rightarrow> build_error + string" where
  "select_cluster opts m =
     (if bo_requireClusters opts \<and> \<not> clusters_loaded m then Inl NoClusterConfig
      else if bo_cluster opts \<noteq> [] then
        (if clusters_loaded m \<and> mget (mf_clusters m) (bo_cluster opts) = None
         then Inl (SelectedNotFound (bo_cluster opts)) else Inr (bo_cluster opts))
      else Inr (case mf_clusters m of [(name, cl)] \<Rightarrow> name | _ \<Rightarrow> []))"

definition policy_cluster :: "kafka_access_policy \<Rightarrow> string" where
  "policy_cluster p = cr_name (aps_clusterRef (ap_spec p))"

definition filter_cluster :: "string \<Rightarrow> manifests \<Rightarrow> manifests" where
  "filter_cluster name m =
     (if name = [] then m
      else m\<lparr>mf_topics := filter (\<lambda>(t, src). topic_cluster t = name) (mf_topics m),
        mf_policies := filter (\<lambda>p. policy_cluster p = name) (mf_policies m),
        mf_quotas := filter (\<lambda>q. quota_cluster q = name) (mf_quotas m),
        mf_roleBindings := filter (\<lambda>b. rb_cluster b = name) (mf_roleBindings m),
        mf_users := filter (\<lambda>u. user_cluster u = name) (mf_users m),
        mf_mirrors := filter (\<lambda>t. mirror_cluster t = name) (mf_mirrors m)\<rparr>)"

definition cluster_of :: "manifests \<Rightarrow> string \<Rightarrow> kafka_cluster option" where
  "cluster_of m name = mget (mf_clusters m) name"

definition apply_defaults :: "manifests \<Rightarrow> manifests" where
  "apply_defaults m =
     m\<lparr>mf_topics := map (\<lambda>(t, src).
          (default_topic t (Option.bind (cluster_of m (topic_cluster t)) (\<lambda>cl. kcs_defaults (kc_spec cl))), src))
          (mf_topics m),
        mf_policies := map default_policy (mf_policies m),
        mf_clusters := map (\<lambda>(name, cl). (name, default_cluster cl)) (mf_clusters m),
        mf_users := map default_user (mf_users m),
        mf_mirrors := map default_mirror_topic (mf_mirrors m)\<rparr>"

subsection \<open>Validation\<close>

definition validation_input_of :: "manifests \<Rightarrow> validation_input" where
  "validation_input_of m =
     \<lparr>vi_topics = map fst (mf_topics m), vi_policies = mf_policies m,
      vi_clusters = (if clusters_loaded m then Some (mf_clusters m) else None), vi_quotas = mf_quotas m,
      vi_roleBindings = mf_roleBindings m, vi_users = mf_users m, vi_mirrorTopics = mf_mirrors m\<rparr>"

definition generates_password :: "kafka_user \<Rightarrow> bool" where
  "generates_password u \<longleftrightarrow>
     (case kus_password (ku_spec u) of None \<Rightarrow> False | Some p \<Rightarrow> up_generate p \<noteq> None)"

definition check_manifests :: "url_parser \<Rightarrow> manifests \<Rightarrow> build_error + unit" where
  "check_manifests parse_url m =
     (let verrs = validate parse_url (validation_input_of m); gen = filter generates_password (mf_users m)
      in if verrs \<noteq> [] then Inl (Invalid verrs)
         else if gen \<noteq> [] then Inl (GenerateUnsupported (map (\<lambda>u. om_name (ku_meta u)) gen))
         else Inr ())"

subsection \<open>ACLs\<close>

text \<open>The mode of a defaulted resource; the pointer is never nil after defaulting.\<close>

definition mode_of :: "reconciliation option \<Rightarrow> string" where
  "mode_of r = (case r of None \<Rightarrow> [] | Some x \<Rightarrow> rec_mode x)"

definition stamp_acls :: "acl list \<Rightarrow> string \<Rightarrow> string \<Rightarrow> string \<Rightarrow> string \<Rightarrow> acl list" where
  "stamp_acls acls kind namespace name mode =
     map (\<lambda>a. a\<lparr>acl_mode := mode, acl_sourceKind := kind, acl_sourceNamespace := namespace,
       acl_sourceName := name\<rparr>) acls"

text \<open>The groups by cluster, in first-seen order.\<close>

definition add_acls :: "(string, acl list) gomap \<Rightarrow> string \<times> acl list \<Rightarrow> (string, acl list) gomap" where
  "add_acls groups entry =
     (case mget groups (fst entry) of
        None \<Rightarrow> groups @ [entry]
      | Some old \<Rightarrow> AList.update (fst entry) (old @ snd entry) groups)"

definition acl_entries :: "manifests \<Rightarrow> (string \<times> acl list) list" where
  "acl_entries m =
     map (\<lambda>(t, src). (topic_cluster t,
         stamp_acls (compile_topic t) ''KafkaTopic'' (om_namespace (kt_meta t)) (om_name (kt_meta t))
           (mode_of (kts_reconciliation (kt_spec t)))))
       (filter (\<lambda>(t, src). has_access_backend (cluster_of m (topic_cluster t)) ''acl'') (mf_topics m)) @
     map (\<lambda>p. (policy_cluster p,
         stamp_acls (compile_policy p) ''KafkaAccessPolicy'' (om_namespace (ap_meta p)) (om_name (ap_meta p))
           (mode_of (aps_reconciliation (ap_spec p))))) (mf_policies m)"

definition acl_groups :: "manifests \<Rightarrow> (string, acl list) gomap" where
  "acl_groups m = foldl add_acls [] (acl_entries m)"

definition desired_acls :: "string \<Rightarrow> manifests \<Rightarrow> build_error + acl list" where
  "desired_acls selected m =
     (let groups = acl_groups m;
          errs = concat (map (\<lambda>(name, as). snd (build_acl_set as)) groups);
          built = map (\<lambda>(name, as). (name, fst (build_acl_set as))) groups
      in if errs \<noteq> [] then Inl (AclConflicts errs)
         else Inr (if selected \<noteq> [] then (case mget built selected of None \<Rightarrow> [] | Some as \<Rightarrow> as)
                   else (case built of [(name, as)] \<Rightarrow> as | _ \<Rightarrow> [])))"

subsection \<open>Topics and mirror topics\<close>

definition desired_topic_of :: "kafka_topic \<Rightarrow> desired_topic" where
  "desired_topic_of t =
     (let sp = kt_spec t
      in \<lparr>dt_kind = ''KafkaTopic'', dt_namespace = om_namespace (kt_meta t), dt_name = resolved_topic_name t,
          dt_partitions = kts_partitions sp,
          dt_replicationFactor = (case kts_replicationFactor sp of None \<Rightarrow> 0 | Some rf \<Rightarrow> rf),
          dt_config = kts_config sp, dt_mode = mode_of (kts_reconciliation sp),
          dt_ignoreFields = (case kts_drift sp of None \<Rightarrow> [] | Some d \<Rightarrow> dc_ignoreFields d)\<rparr>)"

definition desired_mirror_of :: "kafka_mirror_topic \<Rightarrow> desired_mirror" where
  "desired_mirror_of m =
     (let sp = km_spec m
      in \<lparr>dm_kind = ''KafkaMirrorTopic'', dm_namespace = om_namespace (km_meta m), dm_name = om_name (km_meta m),
          dm_linkName = kms_linkName sp, dm_sourceTopicName = kms_sourceTopicName sp,
          dm_topicName = effective_topic_name sp, dm_topicNameExplicit = (kms_topicName sp \<noteq> []),
          dm_replicationFactor = (case kms_replicationFactor sp of None \<Rightarrow> 0 | Some rf \<Rightarrow> rf),
          dm_config = kms_config sp, dm_mode = mode_of (kms_reconciliation sp)\<rparr>)"

subsection \<open>Schemas\<close>

text \<open>The file a reference of a schema body names: relative to the manifest, confined to its parent.\<close>

definition schema_path :: "string \<Rightarrow> string \<Rightarrow> go_error + string" where
  "schema_path baseDir file = safe_join_under baseDir (path_dir baseDir) file"

definition resolve_schema_body ::
    "cli_env \<Rightarrow> string \<Rightarrow> string \<Rightarrow> string \<Rightarrow> value_from option \<Rightarrow> string \<Rightarrow> go_error + string" where
  "resolve_schema_body env role name baseDir vf format =
     (case vf of
        None \<Rightarrow> Inr []
      | Some v \<Rightarrow>
          (let src = vf_valueFrom v; pre = [T ''KafkaTopic '', T name]
           in and_then
                (if vs_inline src \<noteq> [] then Inr (vs_inline src)
                 else if vs_configMapKeyRef src \<noteq> None then
                   Inl (pre @ [T '': configMapKeyRef is not supported in CLI mode''])
                 else case schema_path baseDir (vs_file src) of
                     Inl e \<Rightarrow> Inl (pre @ T '': '' # e)
                   | Inr path \<Rightarrow>
                       (case read_file env path of
                          Inl e \<Rightarrow> Inl (pre @ [T '': reading schema file '', Q path, T '': '', T e])
                        | Inr content \<Rightarrow>
                            (if content = [] then Inl (pre @ [T '': schema file '', Q path, T '' is empty''])
                             else Inr content)))
                (\<lambda>body. if format \<in> {''AVRO'', ''JSON''} \<and> \<not> json_valid body
                   then Inl (pre @ [T '': '', T role, T '' schema body is not valid JSON'']) else Inr body)))"

definition base_dir_of :: "string \<Rightarrow> string" where
  "base_dir_of src = (if src \<noteq> [] \<and> src \<noteq> ''stdin'' then path_dir src else ''.'')"

text \<open>
  The confinement of a schema reference is against the lexical parent of the manifest's directory. For a
  manifest in the working directory, or above it, that is the working directory itself, so references
  that the sibling layout allows anywhere else are refused.
\<close>

lemma schema_path_examples:
  "schema_path (base_dir_of ''team/topics/orders.yaml'') ''../schemas/order.avsc'' = Inr ''team/schemas/order.avsc''"
  "schema_path (base_dir_of ''orders.yaml'') ''../schemas/order.avsc'' = Inl (escape_error ''../schemas/order.avsc'')"
  "schema_path (base_dir_of ''../orders.yaml'') ''order.avsc'' = Inl (escape_error ''order.avsc'')"
  by code_simp+

definition desired_schema_of :: "kafka_topic \<Rightarrow> topic_schema \<Rightarrow> string \<Rightarrow> string \<Rightarrow> desired_schema" where
  "desired_schema_of t sc subject body =
     \<lparr>ds_subject = subject, ds_topic = resolved_topic_name t, ds_type = ts_format sc, ds_definition = body,
      ds_compatibility = ts_compatibility sc, ds_mode = mode_of (kts_reconciliation (kt_spec t))\<rparr>"

definition left_errors :: "'e + 'a \<Rightarrow> 'e list" where
  "left_errors x = (case x of Inl e \<Rightarrow> [e] | Inr _ \<Rightarrow> [])"

definition topic_schemas :: "cli_env \<Rightarrow> kafka_topic \<times> string \<Rightarrow> go_error list + desired_schema list" where
  "topic_schemas env entry =
     (case kts_schema (kt_spec (fst entry)) of
        None \<Rightarrow> Inr []
      | Some sc \<Rightarrow>
          (let t = fst entry; name = om_name (kt_meta t); baseDir = base_dir_of (snd entry);
               valueDef = resolve_schema_body env ''value'' name baseDir (ts_valueSchema sc) (ts_format sc);
               keyDef = resolve_schema_body env ''key'' name baseDir (ts_keySchema sc) (ts_format sc)
           in (case (valueDef, keyDef) of
                 (Inr vd, Inr kd) \<Rightarrow>
                   (case subjects (ts_subjectStrategy sc) (resolved_topic_name t) sc vd kd of
                      Inl e \<Rightarrow> Inl [[T ''KafkaTopic '', T name, T '': ''] @ e]
                    | Inr (vs, ks) \<Rightarrow>
                        Inr (if vd = [] \<and> kd = [] then [desired_schema_of t sc vs []]
                             else (if vd \<noteq> [] then [desired_schema_of t sc vs vd] else []) @
                                  (if kd \<noteq> [] then [desired_schema_of t sc ks kd] else [])))
               | _ \<Rightarrow> Inl (left_errors valueDef @ left_errors keyDef))))"

definition desired_schemas :: "cli_env \<Rightarrow> manifests \<Rightarrow> build_error + desired_schema list" where
  "desired_schemas env m =
     (let rs = map (topic_schemas env) (mf_topics m);
          errs = concat (map (case_sum id (\<lambda>_. [])) rs)
      in if errs \<noteq> [] then Inl (SchemaErrors errs) else Inr (concat (map (case_sum (\<lambda>_. []) id) rs)))"

subsection \<open>Quotas and users\<close>

text \<open>
  The flat lists feed the diff of one cluster: all resources when a cluster is selected, or when they
  all name the same one; none otherwise.
\<close>

definition single_cluster :: "string \<Rightarrow> string list \<Rightarrow> bool" where
  "single_cluster selected names \<longleftrightarrow> selected \<noteq> [] \<or> length (remdups names) = 1"

definition desired_quotas :: "string \<Rightarrow> manifests \<Rightarrow> desired_quota list" where
  "desired_quotas selected m =
     (if single_cluster selected (map quota_cluster (mf_quotas m)) then map quota_compile (mf_quotas m) else [])"

definition desired_users :: "string \<Rightarrow> manifests \<Rightarrow> desired_user list" where
  "desired_users selected m =
     (if single_cluster selected (map user_cluster (mf_users m)) then map compile_desired_user (mf_users m)
      else [])"

subsection \<open>Role bindings\<close>

definition mds_of :: "kafka_cluster option \<Rightarrow> mds_config option" where
  "mds_of cl = Option.bind cl (\<lambda>c. Option.bind (kcs_authorization (kc_spec c)) az_mds)"

definition compile_explicit :: "manifests \<Rightarrow> kafka_role_binding \<Rightarrow> binding_error + role_binding list" where
  "compile_explicit m rb =
     (case mds_of (cluster_of m (rb_cluster rb)) of
        None \<Rightarrow> Inl (NoMds (om_namespace (kr_meta rb)) (om_name (kr_meta rb)) (rb_cluster rb))
      | Some mds \<Rightarrow>
          (case rbac_compile rb mds of
             Inl e \<Rightarrow> Inl (CompileFailed (om_namespace (kr_meta rb)) (om_name (kr_meta rb)) e)
           | Inr bs \<Rightarrow> Inr bs))"

definition rbac_topic :: "manifests \<Rightarrow> kafka_topic \<Rightarrow> bool" where
  "rbac_topic m t \<longleftrightarrow> cluster_of m (topic_cluster t) \<noteq> None \<and>
     has_access_backend (cluster_of m (topic_cluster t)) ''rbac''"

definition compile_topic_bindings ::
    "(string \<Rightarrow> string) \<Rightarrow> manifests \<Rightarrow> kafka_topic \<Rightarrow> binding_error + role_binding list \<times> string list" where
  "compile_topic_bindings quote m t =
     (if \<not> rbac_topic m t then Inr ([], [])
      else case mds_of (cluster_of m (topic_cluster t)) of
        None \<Rightarrow> Inl (TopicNoMds (om_namespace (kt_meta t)) (om_name (kt_meta t)) (topic_cluster t))
      | Some mds \<Rightarrow>
          (case compile_topic_access quote t mds of
             Inl e \<Rightarrow> Inl (TopicCompileFailed (om_namespace (kt_meta t)) (om_name (kt_meta t)) e)
           | Inr r \<Rightarrow> Inr r))"

definition binding_clusters :: "manifests \<Rightarrow> string list" where
  "binding_clusters m =
     map rb_cluster (mf_roleBindings m) @
     map topic_cluster (filter (rbac_topic m) (map fst (mf_topics m)))"

definition rights :: "('e + 'a) list \<Rightarrow> 'a list" where
  "rights xs = concat (map (case_sum (\<lambda>_. []) (\<lambda>a. [a])) xs)"

definition desired_bindings ::
    "(string \<Rightarrow> string) \<Rightarrow> string \<Rightarrow> manifests \<Rightarrow> build_error + role_binding list \<times> string list" where
  "desired_bindings quote selected m =
     (let es = (if clusters_loaded m then map (compile_explicit m) (mf_roleBindings m) else []);
          ts = (if clusters_loaded m then map (compile_topic_bindings quote m \<circ> fst) (mf_topics m) else []);
          errs = concat (map left_errors es) @ concat (map left_errors ts);
          compiled = concat (rights es) @ concat (map fst (rights ts));
          (set, collisions) = build_binding_set compiled
      in if errs \<noteq> [] then Inl (BindingErrors errs)
         else if collisions \<noteq> [] then Inl (BindingCollisions collisions)
         else Inr (if single_cluster selected (binding_clusters m) then set else [],
                   concat (map snd (rights ts))))"

subsection \<open>Build\<close>

text \<open>The assembled plan: the desired state \<open>computeOps\<close> reads, and the resources it was built from.\<close>

record build_result =
  br_plan :: plan
  br_manifests :: manifests
  br_rbacWarnings :: "string list"

definition compile_plan ::
    "(string \<Rightarrow> string) \<Rightarrow> cli_env \<Rightarrow> string \<Rightarrow> manifests \<Rightarrow> build_error + build_result" where
  "compile_plan quote env selected m =
     and_then (desired_acls selected m) (\<lambda>acls.
     and_then (desired_schemas env m) (\<lambda>schemas.
     and_then (desired_bindings quote selected m) (\<lambda>(bindings, warnings).
       Inr \<lparr>br_plan =
              \<lparr>pl_selectedCluster = selected, pl_mirrors = map desired_mirror_of (mf_mirrors m),
               pl_topics = map (desired_topic_of \<circ> fst) (mf_topics m), pl_schemas = schemas, pl_acls = acls,
               pl_quotas = desired_quotas selected m, pl_roleBindings = bindings,
               pl_users = desired_users selected m, pl_scope = build_acl_scope acls,
               pl_roleBindingScope = build_rb_scope bindings\<rparr>,
            br_manifests = m, br_rbacWarnings = sorted_warnings warnings\<rparr>)))"

definition build ::
    "url_parser \<Rightarrow> (string \<Rightarrow> string) \<Rightarrow> cli_env \<Rightarrow> build_options \<Rightarrow> build_error + build_result" where
  "build parse_url quote env opts =
     and_then (load_all opts) (\<lambda>loaded.
     and_then (select_cluster opts loaded) (\<lambda>selected.
       let m = apply_defaults (filter_cluster (bo_cluster opts) loaded)
       in and_then (check_manifests parse_url m) (\<lambda>_. compile_plan quote env selected m)))"

end
