(* ===== verification/Tenancy.thy ===== *)
theory Tenancy
  imports Go_Std Types Wire
begin

section \<open>Tenancy (internal/tenancy)\<close>

text \<open>
  The namespace allow-list and name-prefix rules of \<open>KafkaCluster.spec.tenancy\<close>. A check returns
  \<^term>\<open>None\<close> for a nil error. A bad glob pattern is a non-match. The properties at the end say what a
  passed check guarantees: a prefix-restricted namespace only ever names resources under one of its
  prefixes, and never a resource a prefix cannot scope.
\<close>

definition show_list :: "string list \<Rightarrow> string" where
  "show_list xs = ''['' @ join '' '' xs @ '']''"

definition namespace_matches_rule :: "string list \<Rightarrow> string \<Rightarrow> bool" where
  "namespace_matches_rule patterns namespace \<longleftrightarrow>
     list_ex (\<lambda>pattern. path_match pattern namespace = Some True) patterns"

fun allowed_loop :: "topic_prefix_rule list \<Rightarrow> string \<Rightarrow> string list" where
  "allowed_loop [] namespace = []"
| "allowed_loop (rule # rules) namespace =
     (if namespace_matches_rule (tpr_namespaces rule) namespace then tpr_prefixes rule else []) @
     allowed_loop rules namespace"

definition allowed_prefixes :: "tenancy_config \<Rightarrow> string \<Rightarrow> string list" where
  "allowed_prefixes t namespace = allowed_loop (tc_topicPrefixes t) namespace"

text \<open>
  Go's \<open>append\<close> of nothing to a nil slice is nil, so \<open>allowed != nil\<close> is the test for a non-empty
  list, also when the matching rules carry no prefix.
\<close>

definition is_prefix_restricted :: "tenancy_config option \<Rightarrow> string \<Rightarrow> bool" where
  "is_prefix_restricted tc namespace =
     (case tc of None \<Rightarrow> False | Some t \<Rightarrow> allowed_prefixes t namespace \<noteq> [])"

definition check_namespace_list :: "tenancy_config \<Rightarrow> string \<Rightarrow> go_error option" where
  "check_namespace_list t namespace =
     (if tc_allowedNamespaces t = [] then None
      else if namespace_matches_rule (tc_allowedNamespaces t) namespace then None
      else Some [T ''tenancy: namespace '', Q namespace, T '' is not in the cluster's allowedNamespaces '',
             T (show_list (tc_allowedNamespaces t))])"

definition check_prefix_allowed :: "string list \<Rightarrow> string \<Rightarrow> string \<Rightarrow> string \<Rightarrow> go_error option" where
  "check_prefix_allowed allowed namespace kind name =
     (if allowed = [] then None
      else if list_ex (has_prefix name) allowed then None
      else Some [T ''tenancy: '', T kind, T '' '', Q name, T '' in namespace '', Q namespace,
             T '' does not start with any allowed prefix '', T (show_list allowed)])"

definition check_name_prefix :: "tenancy_config \<Rightarrow> string \<Rightarrow> string \<Rightarrow> string \<Rightarrow> go_error option" where
  "check_name_prefix t namespace kind name =
     (if tc_topicPrefixes t = [] then None
      else check_prefix_allowed (allowed_prefixes t namespace) namespace kind name)"

definition or_else :: "'e option \<Rightarrow> 'e option \<Rightarrow> 'e option" where
  "or_else a b = (case a of Some e \<Rightarrow> Some e | None \<Rightarrow> b)"

lemma or_else_None [simp]: "or_else a b = None \<longleftrightarrow> a = None \<and> b = None"
  by (simp add: or_else_def split: option.split)

definition check_tenancy :: "tenancy_config option \<Rightarrow> string \<Rightarrow> string \<Rightarrow> go_error option" where
  "check_tenancy tc namespace topicName =
     (case tc of
        None \<Rightarrow> None
      | Some t \<Rightarrow> or_else (check_namespace_list t namespace)
          (check_name_prefix t namespace ''topic'' topicName))"

definition check_namespace :: "tenancy_config option \<Rightarrow> string \<Rightarrow> go_error option" where
  "check_namespace tc namespace =
     (case tc of None \<Rightarrow> None | Some t \<Rightarrow> check_namespace_list t namespace)"

definition check_resource ::
    "tenancy_config option \<Rightarrow> string \<Rightarrow> string \<Rightarrow> string \<Rightarrow> string \<Rightarrow> go_error option" where
  "check_resource tc namespace resourceType resourceName patternType =
     (case tc of
        None \<Rightarrow> None
      | Some t \<Rightarrow> or_else (check_namespace_list t namespace)
          (if resourceType = ''topic'' then check_name_prefix t namespace ''topic'' resourceName
           else if resourceType = ''group'' then check_name_prefix t namespace ''group'' resourceName
           else if allowed_prefixes t namespace \<noteq> [] then
             Some [T ''tenancy: namespace '', Q namespace,
               T '' is restricted to name prefixes, but a '', Q resourceType,
               T '' resource cannot be scoped by a name prefix and is denied (only topic and group resources are allowed; allowed prefixes '',
               T (show_list (allowed_prefixes t namespace)), T '')'']
           else None))"

fun check_role_resources :: "string list \<Rightarrow> string \<Rightarrow> nat \<Rightarrow> role_resource list \<Rightarrow> go_error option" where
  "check_role_resources allowed namespace i [] = None"
| "check_role_resources allowed namespace i (res # rest) =
     or_else
       (if rr_type res = ''Topic'' then check_prefix_allowed allowed namespace ''topic'' (rr_name res)
        else if rr_type res = ''Group'' then check_prefix_allowed allowed namespace ''group'' (rr_name res)
        else Some [T ''tenancy: namespace '', Q namespace,
               T '' is restricted to name prefixes, but role-binding resource '', T (nat_str i),
               T '' has type '', Q (rr_type res),
               T '' which cannot be scoped by a name prefix and is denied (only Topic and Group resources are allowed; allowed prefixes '',
               T (show_list allowed), T '')''])
       (check_role_resources allowed namespace (Suc i) rest)"

definition check_role_binding ::
    "tenancy_config option \<Rightarrow> string \<Rightarrow> role_resource list \<Rightarrow> go_error option" where
  "check_role_binding tc namespace resources =
     (case tc of
        None \<Rightarrow> None
      | Some t \<Rightarrow> or_else (check_namespace_list t namespace)
          (let allowed = allowed_prefixes t namespace
           in if allowed = [] then None
              else if resources = [] then
                Some [T ''tenancy: namespace '', Q namespace,
                  T '' is restricted to name prefixes, but a cluster-scoped role binding (no spec.resources) cannot be scoped by a name prefix and is denied (allowed prefixes '',
                  T (show_list allowed), T '')'']
              else check_role_resources allowed namespace 0 resources))"

subsection \<open>What a passed check guarantees\<close>

lemma check_name_prefix_None:
  "check_name_prefix t namespace kind name = None \<longleftrightarrow>
     allowed_prefixes t namespace = [] \<or> (\<exists>p \<in> set (allowed_prefixes t namespace). has_prefix name p)"
  by (auto simp: check_name_prefix_def check_prefix_allowed_def allowed_prefixes_def list_ex_iff)

lemma check_role_resources_None:
  "allowed \<noteq> [] \<Longrightarrow> check_role_resources allowed namespace i resources = None \<longleftrightarrow>
     (\<forall>r \<in> set resources. rr_type r \<in> {''Topic'', ''Group''} \<and> (\<exists>p \<in> set allowed. has_prefix (rr_name r) p))"
  by (induction resources arbitrary: i) (auto simp: check_prefix_allowed_def list_ex_iff)

lemma set_allowed_loop:
  "set (allowed_loop rules namespace) =
     (\<Union>r \<in> {r \<in> set rules. namespace_matches_rule (tpr_namespaces r) namespace}. set (tpr_prefixes r))"
  by (induction rules) auto

text \<open>Whether a name is one the rules leave to the namespace.\<close>

definition name_allowed :: "tenancy_config \<Rightarrow> string \<Rightarrow> string \<Rightarrow> bool" where
  "name_allowed t namespace name \<longleftrightarrow>
     (\<exists>r \<in> set (tc_topicPrefixes t). namespace_matches_rule (tpr_namespaces r) namespace \<and>
        (\<exists>p \<in> set (tpr_prefixes r). has_prefix name p))"

lemma name_allowed_iff:
  "name_allowed t namespace name \<longleftrightarrow> (\<exists>p \<in> set (allowed_prefixes t namespace). has_prefix name p)"
  by (auto simp: name_allowed_def allowed_prefixes_def set_allowed_loop)

text \<open>
  C31. Tenancy isolation: for a prefix-restricted namespace, a KafkaTopic passes exactly when the
  namespace is on the allow-list and one rule matching the namespace has a prefix of the topic name;
  an access-policy resource passes exactly when, besides, it is a topic or a group (never a cluster,
  transactional id or delegation token); a role binding passes exactly when it names at least one
  resource and all of them are topics or groups under such a prefix (so no cluster-scoped binding).
\<close>

theorem prefix_restricted_isolated:
  assumes "is_prefix_restricted (Some t) namespace"
  shows "(check_tenancy (Some t) namespace name = None \<longleftrightarrow>
      check_namespace (Some t) namespace = None \<and> name_allowed t namespace name) \<and>
    (check_resource (Some t) namespace typ name pattern = None \<longleftrightarrow>
      check_namespace (Some t) namespace = None \<and> typ \<in> {''topic'', ''group''} \<and> name_allowed t namespace name) \<and>
    (check_role_binding (Some t) namespace resources = None \<longleftrightarrow>
      check_namespace (Some t) namespace = None \<and> resources \<noteq> [] \<and>
      (\<forall>r \<in> set resources. rr_type r \<in> {''Topic'', ''Group''} \<and> name_allowed t namespace (rr_name r)))"
  using assms
  by (auto simp: is_prefix_restricted_def check_tenancy_def check_namespace_def check_resource_def
      check_role_binding_def check_name_prefix_None check_role_resources_None name_allowed_iff Let_def)

definition sample_tenancy :: tenancy_config where
  "sample_tenancy =
     \<lparr>tc_allowedNamespaces = [''team-*''],
      tc_topicPrefixes = [\<lparr>tpr_namespaces = [''team-pay*''], tpr_prefixes = [''payments.'']\<rparr>]\<rparr>"

theorem prefix_restricted_isolated_witness:
  "check_tenancy (Some sample_tenancy) ''team-payments'' ''payments.orders'' = None \<and>
   check_tenancy (Some sample_tenancy) ''team-payments'' ''orders'' \<noteq> None \<and>
   check_resource (Some sample_tenancy) ''team-payments'' ''cluster'' ''kafka-cluster'' ''literal'' \<noteq> None \<and>
   check_role_binding (Some sample_tenancy) ''team-payments'' [] \<noteq> None"
proof -
  have restricted: "is_prefix_restricted (Some sample_tenancy) ''team-payments''" by code_simp
  have listed: "check_namespace (Some sample_tenancy) ''team-payments'' = None" by code_simp
  have match: "path_match ''team-pay*'' ''team-payments'' = Some True" by code_simp
  have own: "name_allowed sample_tenancy ''team-payments'' n \<longleftrightarrow> has_prefix n ''payments.''" for n
    by (simp add: name_allowed_def sample_tenancy_def namespace_matches_rule_def match)
  show ?thesis
    using prefix_restricted_isolated [OF restricted, of "''payments.orders''" "''cluster''" "''literal''" "[]"]
      prefix_restricted_isolated [OF restricted, of "''orders''" "''cluster''" "''literal''" "[]"]
      prefix_restricted_isolated [OF restricted, of "''kafka-cluster''" "''cluster''" "''literal''" "[]"] listed
    by (simp add: own has_prefix_def)
qed

text \<open>
  Rules compose additively: adding a prefix rule to a namespace that already has one never takes a
  name away from it (the allowed set is the union over all matching rules).
\<close>

lemma more_rules_more_names:
  assumes "is_prefix_restricted (Some t) namespace" "check_tenancy (Some t) namespace name = None"
  shows "check_tenancy (Some (t\<lparr>tc_topicPrefixes := tc_topicPrefixes t @ rules\<rparr>)) namespace name = None"
proof -
  let ?t = "t\<lparr>tc_topicPrefixes := tc_topicPrefixes t @ rules\<rparr>"
  have "allowed_loop (xs @ ys) n = allowed_loop xs n @ allowed_loop ys n" for xs ys n
    by (induction xs) auto
  then have more: "set (allowed_prefixes t namespace) \<subseteq> set (allowed_prefixes ?t namespace)"
    by (simp add: allowed_prefixes_def)
  have "check_namespace_list ?t namespace = check_namespace_list t namespace"
    by (simp add: check_namespace_list_def)
  then show ?thesis
    using assms more by (auto simp: is_prefix_restricted_def check_tenancy_def check_name_prefix_None)
qed

end
