(* ===== verification/Validation_Props.thy ===== *)
theory Validation_Props
  imports Validation Tenancy
begin

section \<open>What validation accepts\<close>

text \<open>
  \<open>Validate\<close> refines an order-free specification: every resource well formed on its own, every cluster
  reference resolved, identities unique. Then what acceptance gives the compilers.
\<close>

subsection \<open>The claim loop\<close>

lemma claim_simps [simp]:
  "dom (fst (claim seen k n c)) = insert k (dom seen)"
  "snd (claim seen k n c) = [] \<longleftrightarrow> k \<notin> dom seen"
  by (auto simp: claim_def split: option.splits)

lemma claim_loop_Cons:
  "fst (claim_loop key name coll bef aft seen (x # xs)) =
     fst (claim_loop key name coll bef aft (fst (claim seen (key x) (name x) (coll x))) xs)"
  "snd (claim_loop key name coll bef aft seen (x # xs)) =
     bef x @ snd (claim seen (key x) (name x) (coll x)) @ aft x @
     snd (claim_loop key name coll bef aft (fst (claim seen (key x) (name x) (coll x))) xs)"
  by (simp_all split: prod.split)

lemma claim_loop_dom: "dom (fst (claim_loop key name coll bef aft seen xs)) = dom seen \<union> key ` set xs"
  by (induction xs arbitrary: seen) (auto simp only: claim_loop_Cons claim_simps claim_loop.simps(1) fst_conv
      list.set image_insert image_empty)

lemma claim_loop_ok:
  "snd (claim_loop key name coll bef aft seen xs) = [] \<longleftrightarrow>
     (\<forall>x \<in> set xs. bef x = [] \<and> aft x = []) \<and> distinct (map key xs) \<and> key ` set xs \<inter> dom seen = {}"
proof (induction xs arbitrary: seen)
  case Nil
  then show ?case by simp
next
  case (Cons x xs)
  show ?case unfolding claim_loop_Cons append_is_Nil_conv Cons.IH claim_simps by auto
qed

subsection \<open>Role bindings\<close>

definition binding_mds :: "clusters \<Rightarrow> kafka_role_binding \<Rightarrow> mds_config option" where
  "binding_mds m rb =
     Option.bind (mget m (rb_cluster rb)) (\<lambda>cl. Option.bind (kcs_authorization (kc_spec cl)) az_mds)"

lemma validated_scope_compiles:
  assumes "scope_id_errors rb (mds_clusters_of mds) = []"
  obtains compiled where "rbac_compile rb mds = Inr compiled" "mc_kafkaCluster (mds_clusters_of mds) \<noteq> []"
  using assms
  by (cases "resolve_scope (rbs_type (krs_scope (kr_spec rb))) (mds_clusters_of mds)")
    (auto simp: scope_id_errors_def rbac_compile_def resolve_scope_def Let_def split: if_splits)

text \<open>The identities a binding claims on its cluster.\<close>

definition binding_claim_keys :: "clusters \<Rightarrow> kafka_role_binding \<Rightarrow> string list" where
  "binding_claim_keys m rb =
     (case binding_mds m rb of
        None \<Rightarrow> []
      | Some mds \<Rightarrow>
          (case rbac_compile rb mds of
             Inl _ \<Rightarrow> []
           | Inr compiled \<Rightarrow> map (\<lambda>b. rb_cluster rb @ [NUL] @ rb_full_key b) compiled))"

definition binding_accepted :: "clusters \<Rightarrow> kafka_role_binding \<Rightarrow> bool" where
  "binding_accepted m rb \<longleftrightarrow>
     (case binding_mds m rb of None \<Rightarrow> False | Some mds \<Rightarrow> scope_id_errors rb (mds_clusters_of mds) = [])"

lemma binding_round_ok:
  "snd (binding_round (Some m) seen rb) = [] \<longleftrightarrow>
     binding_accepted m rb \<and> distinct (binding_claim_keys m rb) \<and> set (binding_claim_keys m rb) \<inter> dom seen = {}"
proof (cases "binding_mds m rb")
  case None
  show ?thesis
  proof (cases "mget m (rb_cluster rb)")
    case None
    then show ?thesis by (simp add: binding_round_def binding_accepted_def binding_mds_def)
  next
    case (Some cl)
    then have "Option.bind (kcs_authorization (kc_spec cl)) az_mds = None"
      using None by (simp add: binding_mds_def)
    then show ?thesis by (simp add: binding_round_def binding_accepted_def None Some)
  qed
next
  case (Some mds)
  then obtain cl where cl: "mget m (rb_cluster rb) = Some cl"
    "Option.bind (kcs_authorization (kc_spec cl)) az_mds = Some mds"
    by (auto simp: binding_mds_def bind_eq_Some_conv)
  have split: "snd (binding_round (Some m) seen rb) = [] \<longleftrightarrow>
      scope_id_errors rb (mds_clusters_of mds) = [] \<and> snd (binding_claims seen rb mds) = []"
    by (simp add: binding_round_def cl split: prod.split)
  show ?thesis
  proof (cases "scope_id_errors rb (mds_clusters_of mds) = []")
    case True
    then obtain compiled where c: "rbac_compile rb mds = Inr compiled" "mc_kafkaCluster (mds_clusters_of mds) \<noteq> []"
      by (rule validated_scope_compiles)
    show ?thesis unfolding split
      by (auto simp: binding_claims_def c claim_loop_ok binding_accepted_def Some True binding_claim_keys_def o_def)
  next
    case False
    then show ?thesis unfolding split by (simp add: binding_accepted_def Some)
  qed
qed

lemma binding_round_dom:
  assumes "snd (binding_round (Some m) seen rb) = []"
  shows "dom (fst (binding_round (Some m) seen rb)) = dom seen \<union> set (binding_claim_keys m rb)"
proof -
  have acc: "binding_accepted m rb" using assms by (simp add: binding_round_ok)
  then obtain mds where mds: "binding_mds m rb = Some mds" "scope_id_errors rb (mds_clusters_of mds) = []"
    by (auto simp: binding_accepted_def split: option.splits)
  then obtain cl where cl: "mget m (rb_cluster rb) = Some cl"
    "Option.bind (kcs_authorization (kc_spec cl)) az_mds = Some mds"
    by (auto simp: binding_mds_def bind_eq_Some_conv)
  obtain compiled where c: "rbac_compile rb mds = Inr compiled" "mc_kafkaCluster (mds_clusters_of mds) \<noteq> []"
    using mds(2) by (rule validated_scope_compiles)
  have "fst (binding_round (Some m) seen rb) = fst (binding_claims seen rb mds)"
    by (simp add: binding_round_def cl split: prod.split)
  then show ?thesis by (simp add: binding_claims_def c claim_loop_dom binding_claim_keys_def mds(1))
qed

lemma binding_loop_ok:
  "binding_loop (Some m) seen rbs = [] \<longleftrightarrow>
     (\<forall>rb \<in> set rbs. validate_role_binding_shape rb = [] \<and> binding_accepted m rb) \<and>
     distinct (concat (map (binding_claim_keys m) rbs)) \<and>
     set (concat (map (binding_claim_keys m) rbs)) \<inter> dom seen = {}"
proof (induction rbs arbitrary: seen)
  case Nil
  then show ?case by simp
next
  case (Cons rb rbs)
  obtain s es where round: "binding_round (Some m) seen rb = (s, es)" by (metis surj_pair)
  show ?case
  proof (cases "es = []")
    case True
    then have "dom s = dom seen \<union> set (binding_claim_keys m rb)"
      using binding_round_dom [of m seen rb] by (simp add: round)
    then show ?thesis
      using Cons.IH [of s] binding_round_ok [of m seen rb] True by (auto simp: round)
  next
    case False
    then show ?thesis using binding_round_ok [of m seen rb] by (auto simp: round)
  qed
qed

lemma binding_loop_none: "binding_loop None seen rbs = [] \<longleftrightarrow> (\<forall>rb \<in> set rbs. validate_role_binding_shape rb = [])"
  by (induction rbs arbitrary: seen) (auto simp: binding_round_def)

subsection \<open>The specification\<close>

text \<open>What acceptance means, resource by resource and over the set, with no order.\<close>

definition resources_ok :: "url_parser \<Rightarrow> validation_input \<Rightarrow> bool" where
  "resources_ok parse_url v \<longleftrightarrow>
     (let cs = vi_clusters v
      in list_all (\<lambda>t. topic_shape_errors t = [] \<and> topic_cluster_errors cs t = []) (vi_topics v) \<and>
         list_all (\<lambda>m. validate_mirror_topic_shape m = [] \<and> mirror_cluster_errors cs m = []) (vi_mirrorTopics v) \<and>
         list_all (\<lambda>p. policy_errors cs p = []) (vi_policies v) \<and>
         list_all (\<lambda>q. validate_quota_shape q = [] \<and>
           cluster_ref_errors cs ''KafkaQuota'' (om_name (kq_meta q)) (quota_cluster q) = []) (vi_quotas v) \<and>
         list_all (\<lambda>rb. validate_role_binding_shape rb = [] \<and>
           (case cs of None \<Rightarrow> True | Some m \<Rightarrow> binding_accepted m rb)) (vi_roleBindings v) \<and>
         list_all (\<lambda>u. validate_user_shape u = [] \<and>
           cluster_ref_errors cs ''KafkaUser'' (om_name (ku_meta u)) (user_cluster u) = []) (vi_users v) \<and>
         (case cs of
            None \<Rightarrow> True
          | Some m \<Rightarrow> list_all (\<lambda>k. cluster_errors parse_url k (the (mget m k)) = []) (mkeys m)))"

definition identities_unique :: "validation_input \<Rightarrow> bool" where
  "identities_unique v \<longleftrightarrow>
     distinct (map topic_claim_key (vi_topics v) @ map mirror_claim_key (vi_mirrorTopics v)) \<and>
     distinct (map quota_claim_key (vi_quotas v)) \<and> distinct (map user_claim_key (vi_users v)) \<and>
     (case vi_clusters v of
        None \<Rightarrow> True
      | Some m \<Rightarrow> distinct (concat (map (binding_claim_keys m) (vi_roleBindings v))))"

lemma validate_accepted_iff:
  "validate parse_url v = [] \<longleftrightarrow> resources_ok parse_url v \<and> identities_unique v"
proof -
  let ?cs = "vi_clusters v"
  obtain seen topicErrs where topics: "claim_loop topic_claim_key (\<lambda>tp. om_name (kt_meta tp)) topic_collision
      topic_shape_errors (topic_cluster_errors ?cs) Map.empty (vi_topics v) = (seen, topicErrs)"
    by (metis surj_pair)
  have seen: "dom seen = topic_claim_key ` set (vi_topics v)"
    using claim_loop_dom [of topic_claim_key "\<lambda>tp. om_name (kt_meta tp)" topic_collision topic_shape_errors
        "topic_cluster_errors ?cs" Map.empty "vi_topics v"] by (simp add: topics)
  have "topicErrs = [] \<longleftrightarrow> (\<forall>t \<in> set (vi_topics v). topic_shape_errors t = [] \<and> topic_cluster_errors ?cs t = []) \<and>
      distinct (map topic_claim_key (vi_topics v))"
    using claim_loop_ok [of topic_claim_key "\<lambda>tp. om_name (kt_meta tp)" topic_collision topic_shape_errors
        "topic_cluster_errors ?cs" Map.empty "vi_topics v"] by (simp add: topics)
  moreover have "binding_loop ?cs Map.empty (vi_roleBindings v) = [] \<longleftrightarrow>
      list_all (\<lambda>rb. validate_role_binding_shape rb = [] \<and>
        (case ?cs of None \<Rightarrow> True | Some m \<Rightarrow> binding_accepted m rb)) (vi_roleBindings v) \<and>
      (case ?cs of None \<Rightarrow> True | Some m \<Rightarrow> distinct (concat (map (binding_claim_keys m) (vi_roleBindings v))))"
    by (cases ?cs) (auto simp: binding_loop_none binding_loop_ok list_all_iff)
  moreover have "validate_clusters parse_url ?cs = [] \<longleftrightarrow>
      (case ?cs of None \<Rightarrow> True | Some m \<Rightarrow> list_all (\<lambda>k. cluster_errors parse_url k (the (mget m k)) = []) (mkeys m))"
    by (cases ?cs) (auto simp: validate_clusters_def list_all_iff)
  ultimately show ?thesis
    unfolding validate_def resources_ok_def identities_unique_def Let_def topics prod.case append_is_Nil_conv
      claim_loop_ok seen concat_eq_Nil_conv
    by (auto simp: list_all_iff distinct_append simp del: distinct_concat_iff)
qed

text \<open>
  C30. Validation accepts exactly the well-formed sets: \<open>Validate\<close> returns no error if and only if every
  resource passes its own checks and its cluster reference, every cluster configuration is valid, and
  the identities are unique: (cluster, topic name) over topics and mirror topics together, (cluster,
  entity) over quotas, (cluster, username) over users, and (cluster, binding identity) over everything
  the role bindings compile to.
\<close>

theorem validate_accepts_iff:
  "validate parse_url v = [] \<longleftrightarrow> resources_ok parse_url v \<and> identities_unique v"
  by (rule validate_accepted_iff)

subsection \<open>Accepted quotas compile to well-typed quotas\<close>

text \<open>
  The two quota dimensions of a Kafka broker. A client quota names a user, a client id or both and sets
  throughput limits; an ip quota names one address and sets the connection rate. Every limit is set
  once and is not negative; a named component has a name.
\<close>

definition throughput_keys :: "string set" where
  "throughput_keys =
     {key_producer_byte_rate, key_consumer_byte_rate, key_request_percentage, key_controller_mutation_rate}"

definition quota_typed :: "desired_quota \<Rightarrow> bool" where
  "quota_typed d \<longleftrightarrow>
     (map co_type (dq_entity d) \<in> {[''user''], [''client-id''], [''user'', ''client-id'']} \<and>
        fst ` set (dq_limits d) \<subseteq> throughput_keys \<or>
      map co_type (dq_entity d) = [''ip''] \<and> fst ` set (dq_limits d) \<subseteq> {key_connection_creation_rate}) \<and>
     dq_limits d \<noteq> [] \<and> distinct (map fst (dq_limits d)) \<and> (\<forall>(k, x) \<in> set (dq_limits d). 0 \<le> x) \<and>
     Some [] \<notin> co_name ` set (dq_entity d)"

lemma quota_limit_facts:
  "fst ` set (quota_limit k v) = (if v = None then {} else {k})"
  "quota_limit k v = [] \<longleftrightarrow> v = None"
  "(\<forall>(k', x) \<in> set (quota_limit k v). 0 \<le> x) \<longleftrightarrow> \<not> negative v"
  by (cases v; auto simp: quota_limit_def negative_def)+

lemma quota_component_named:
  "Some [] \<in> co_name ` set (quota_component t named dflt name) \<longleftrightarrow> named \<noteq> [] \<and> name = []"
  by (auto simp: quota_component_def)

lemma validated_quota_well_typed:
  assumes "validate_quota_shape q = []"
  shows "quota_typed (quota_compile q)"
proof -
  let ?e = "kqs_entity (kq_spec q)" and ?l = "kqs_limits (kq_spec q)"
  have entity: "quota_entity_errors (om_name (kq_meta q)) ?e = []"
    and limits: "quota_limit_errors (om_name (kq_meta q)) (qe_ip ?e \<noteq> [] \<or> qe_ipDefault ?e) ?l = []"
    using assms by (simp_all add: validate_quota_shape_def Let_def)
  have shape: "map co_type (dq_entity (quota_compile q)) \<in> {[''user''], [''client-id''], [''user'', ''client-id'']} \<and>
        \<not> (qe_ip ?e \<noteq> [] \<or> qe_ipDefault ?e) \<or>
      map co_type (dq_entity (quota_compile q)) = [''ip''] \<and> (qe_ip ?e \<noteq> [] \<or> qe_ipDefault ?e)"
    using entity by (auto simp: quota_entity_errors_def quota_compile_def Let_def quota_component_types)
  have named: "Some [] \<notin> co_name ` set (dq_entity (quota_compile q))"
    using entity by (auto simp: quota_entity_errors_def quota_compile_def Let_def image_Un quota_component_named
        split: if_splits)
  have bounds: "dq_limits (quota_compile q) \<noteq> []" "\<forall>(k, x) \<in> set (dq_limits (quota_compile q)). 0 \<le> x"
    using limits by (auto simp: quota_limit_errors_def quota_compile_def Let_def quota_limit_facts ball_Un)
  have keys: "fst ` set (dq_limits (quota_compile q)) \<subseteq>
      (if qe_ip ?e \<noteq> [] \<or> qe_ipDefault ?e then {key_connection_creation_rate} else throughput_keys)"
    using limits
    by (auto simp: quota_limit_errors_def quota_compile_def Let_def throughput_keys_def quota_limit_facts image_Un
        split: if_splits)
  show ?thesis
    using shape named bounds keys quota_compile_distinct_limits [of q] by (auto simp: quota_typed_def)
qed

text \<open>
  C40. A quota that passes \<open>ValidateQuotaShape\<close> compiles to a well-typed quota: its components are a
  user, a client id, both in this order, or one ip alone; a client entity carries throughput limits only
  and an ip entity the connection rate only; at least one limit is set, each once, none negative; and no
  component name is empty after the \<open>User:\<close> prefix is cut.
\<close>

theorem validated_quota_typed:
  assumes "validate_quota_shape q = []"
  shows "quota_typed (quota_compile q)"
  using assms by (rule validated_quota_well_typed)

definition sample_client_quota :: kafka_quota where
  "sample_client_quota =
     \<lparr>kq_meta = mk_meta ''team-a'' ''billing'',
      kq_spec = \<lparr>kqs_clusterRef = \<lparr>cr_name = ''prod''\<rparr>,
        kqs_entity = \<lparr>qe_user = ''User:billing'', qe_clientId = [], qe_userDefault = False,
          qe_clientIdDefault = True, qe_ip = [], qe_ipDefault = False\<rparr>,
        kqs_limits = \<lparr>ql_producerByteRate = Some 1024, ql_consumerByteRate = None,
          ql_requestPercentage = Some 0, ql_controllerMutationRate = None, ql_connectionCreationRate = None\<rparr>,
        kqs_reconciliation = None\<rparr>\<rparr>"

lemma sample_client_quota_valid: "validate_quota_shape sample_client_quota = []"
  by code_simp

theorem validated_quota_typed_witness: "quota_typed (quota_compile sample_client_quota)"
  by (rule validated_quota_typed [OF sample_client_quota_valid])

end
