(* ===== verification/Kafka_Mock.thy ===== *)
theory Kafka_Mock
  imports Wire
begin

section \<open>The in-memory Kafka cluster (internal/kafka/mock)\<close>

text \<open>
  The implementation of \<open>kafka.AdminClient\<close> that ships with the CLI: state seeded from a file, every
  mutating call recorded, failures injected per call signature (an injected failure is recorded
  and does not mutate). Reads and writes of the interface, one definition per method, over the
  client's state. \<open>sort.Slice\<close> orders the reads.
\<close>

record scram_entry =
  sce_user :: string
  sce_mechanism :: string
  sce_iterations :: int
  sce_upsertCount :: int

record kafka_mock =
  km_topics :: "topic_state list"
  km_acls :: "acl_state list"
  km_quotas :: "(string, quota_state) gomap"
  km_scramCreds :: "(string, scram_entry) gomap"
  km_calls :: "string list"
  km_failures :: "(string, go_error) gomap"
  km_clusterID :: string

definition km_fail_key :: "string \<Rightarrow> string \<Rightarrow> string" where
  "km_fail_key meth target = (if target = [] then meth else meth @ '' '' @ target)"

definition km_fail_on :: "string \<Rightarrow> string \<Rightarrow> go_error \<Rightarrow> kafka_mock \<Rightarrow> kafka_mock" where
  "km_fail_on meth target err c =
     c\<lparr>km_failures := AList.update (km_fail_key meth target) err (km_failures c)\<rparr>"

definition km_record :: "string \<Rightarrow> kafka_mock act" where
  "km_record sig c = (c\<lparr>km_calls := km_calls c @ [sig]\<rparr>, mget (km_failures c) sig)"

text \<open>The shape of every mutating method: record the call, return the injected failure if any.\<close>

definition km_mutate :: "string \<Rightarrow> kafka_mock act \<Rightarrow> kafka_mock act" where
  "km_mutate sig body c =
     (case km_record sig c of (c', Some e) \<Rightarrow> (c', Some e) | (c', None) \<Rightarrow> body c')"

definition km_read :: "string \<Rightarrow> (kafka_mock \<Rightarrow> 'a) \<Rightarrow> (kafka_mock, 'a) query" where
  "km_read meth f c =
     (case mget (km_failures c) (km_fail_key meth []) of Some e \<Rightarrow> Inl e | None \<Rightarrow> Inr (f c))"

subsection \<open>Topics\<close>

fun index_from :: "nat \<Rightarrow> topic_state list \<Rightarrow> string \<Rightarrow> nat option" where
  "index_from i [] name = None"
| "index_from i (t # ts) name = (if tst_name t = name then Some i else index_from (Suc i) ts name)"

definition km_index_of_topic :: "kafka_mock \<Rightarrow> string \<Rightarrow> nat option" where
  "km_index_of_topic c name = index_from 0 (km_topics c) name"

definition km_get_topic :: "string \<Rightarrow> (kafka_mock, topic_state option) query" where
  "km_get_topic name c = Inr (find (\<lambda>t. tst_name t = name) (km_topics c))"

definition km_list_topics :: "(kafka_mock, topic_state list) query" where
  "km_list_topics = km_read ''ListTopics'' (\<lambda>c. sort_key tst_name (km_topics c))"

definition km_describe_topic_configs :: "string \<Rightarrow> (kafka_mock, config_entry list) query" where
  "km_describe_topic_configs topic c =
     (case km_index_of_topic c topic of
        None \<Rightarrow> Inl [T ''topic '', Q topic, T '' not found'']
      | Some i \<Rightarrow>
          let cfg = tst_config (km_topics c ! i)
          in Inr (map (\<lambda>k. \<lparr>ce_name = k, ce_value = the (mget cfg k), ce_default = False\<rparr>) (mkeys cfg)))"

definition km_create_topic :: "topic_spec \<Rightarrow> kafka_mock act" where
  "km_create_topic t =
     km_mutate (''CreateTopic '' @ tsp_name t) (\<lambda>c.
       if km_index_of_topic c (tsp_name t) \<noteq> None then
         (c, Some [T ''topic already exists: '', T (tsp_name t)])
       else
         (c\<lparr>km_topics := km_topics c @
             [\<lparr>tst_name = tsp_name t, tst_partitions = tsp_partitions t,
               tst_replicationFactor = tsp_replicationFactor t, tst_config = tsp_config t\<rparr>]\<rparr>, None))"

definition set_config :: "(string, string) gomap \<Rightarrow> (string, string) gomap \<Rightarrow> (string, string) gomap" where
  "set_config kvs cfg = fold (\<lambda>(k, v). AList.update k v) kvs cfg"

definition km_update_topic_config :: "string \<Rightarrow> (string, string) gomap \<Rightarrow> kafka_mock act" where
  "km_update_topic_config topic kvs =
     km_mutate (''UpdateTopicConfig '' @ topic) (\<lambda>c.
       case km_index_of_topic c topic of
         None \<Rightarrow> (c, Some [T ''topic not found: '', T topic])
       | Some i \<Rightarrow>
           let t = km_topics c ! i
           in (c\<lparr>km_topics := (km_topics c)[i := t\<lparr>tst_config := set_config kvs (tst_config t)\<rparr>]\<rparr>, None))"

definition km_create_partitions :: "string \<Rightarrow> int \<Rightarrow> kafka_mock act" where
  "km_create_partitions topic cnt =
     km_mutate (''CreatePartitions '' @ topic @ '' '' @ itoa cnt) (\<lambda>c.
       case km_index_of_topic c topic of
         None \<Rightarrow> (c, Some [T ''topic not found: '', T topic])
       | Some i \<Rightarrow>
           let t = km_topics c ! i
           in if cnt < tst_partitions t then
                (c, Some [T ''cannot decrease partitions for '', T topic, T '': '', T (itoa cnt),
                   T '' < '', T (itoa (tst_partitions t))])
              else (c\<lparr>km_topics := (km_topics c)[i := t\<lparr>tst_partitions := cnt\<rparr>]\<rparr>, None))"

definition km_delete_topic :: "string \<Rightarrow> kafka_mock act" where
  "km_delete_topic topic =
     km_mutate (''DeleteTopic '' @ topic) (\<lambda>c.
       case km_index_of_topic c topic of
         None \<Rightarrow> (c, None)
       | Some i \<Rightarrow> (c\<lparr>km_topics := take i (km_topics c) @ drop (Suc i) (km_topics c)\<rparr>, None))"

subsection \<open>ACLs\<close>

definition km_acl_key :: "acl_state \<Rightarrow> string" where
  "km_acl_key a =
     nul_join [as_principal a, as_resourceType a, as_resourceName a, as_patternType a,
       as_operation a, as_host a, as_permission a]"

definition km_list_acls :: "(kafka_mock, acl_state list) query" where
  "km_list_acls = km_read ''ListACLs'' (\<lambda>c. sort_key km_acl_key (km_acls c))"

definition km_create_acls :: "acl_state list \<Rightarrow> kafka_mock act" where
  "km_create_acls acls =
     km_mutate (''CreateACLs '' @ nat_str (length acls)) (\<lambda>c. (c\<lparr>km_acls := km_acls c @ acls\<rparr>, None))"

definition km_delete_acls :: "acl_state list \<Rightarrow> kafka_mock act" where
  "km_delete_acls acls =
     km_mutate (''DeleteACLs '' @ nat_str (length acls)) (\<lambda>c.
       if acls = [] then (c, None)
       else (c\<lparr>km_acls := filter (\<lambda>a. a \<notin> set acls) (km_acls c)\<rparr>, None))"

subsection \<open>Quotas\<close>

definition km_quota_key :: "quota_entity_component list \<Rightarrow> string" where
  "km_quota_key e =
     join ''|'' (map (\<lambda>c. qc_type c @ ''='' @
         (case qc_name c of None \<Rightarrow> ''<default>'' | Some n \<Rightarrow> n)) (sort_key qc_type e))"

definition set_limits :: "(string, float64) gomap \<Rightarrow> (string, float64) gomap \<Rightarrow> (string, float64) gomap" where
  "set_limits kvs old = fold (\<lambda>(k, v). AList.update k v) kvs old"

definition km_upsert_quota ::
    "quota_entity_component list \<Rightarrow> (string, float64) gomap \<Rightarrow> kafka_mock \<Rightarrow> kafka_mock" where
  "km_upsert_quota e limits c =
     (let key = km_quota_key e;
          existing = (case mget (km_quotas c) key of
              Some q \<Rightarrow> q | None \<Rightarrow> \<lparr>qst_entity = sort_key qc_type e, qst_limits = []\<rparr>)
      in c\<lparr>km_quotas := AList.update key
             (existing\<lparr>qst_limits := set_limits limits (qst_limits existing)\<rparr>) (km_quotas c)\<rparr>)"

definition km_list_quotas :: "(kafka_mock, quota_state list) query" where
  "km_list_quotas = km_read ''ListQuotas'' (\<lambda>c. map (\<lambda>k. the (mget (km_quotas c) k)) (mkeys (km_quotas c)))"

definition km_set_quota ::
    "quota_entity_component list \<Rightarrow> (string, float64) gomap \<Rightarrow> kafka_mock act" where
  "km_set_quota e limits =
     km_mutate (''SetQuota '' @ km_quota_key e) (\<lambda>c. (km_upsert_quota e limits c, None))"

definition km_delete_quota :: "quota_entity_component list \<Rightarrow> string list \<Rightarrow> kafka_mock act" where
  "km_delete_quota e ks =
     km_mutate (''DeleteQuota '' @ km_quota_key e) (\<lambda>c.
       case mget (km_quotas c) (km_quota_key e) of
         None \<Rightarrow> (c, None)
       | Some q \<Rightarrow>
           let left = fold AList.delete ks (qst_limits q)
           in (if left = [] then c\<lparr>km_quotas := AList.delete (km_quota_key e) (km_quotas c)\<rparr>
               else c\<lparr>km_quotas := AList.update (km_quota_key e) (q\<lparr>qst_limits := left\<rparr>) (km_quotas c)\<rparr>,
               None))"

subsection \<open>SCRAM credentials\<close>

definition km_scram_key :: "string \<Rightarrow> string \<Rightarrow> string" where
  "km_scram_key user mechanism = nul_join [user, mechanism]"

definition km_seed_scram :: "string \<Rightarrow> string \<Rightarrow> int \<Rightarrow> kafka_mock \<Rightarrow> kafka_mock" where
  "km_seed_scram user mechanism iterations c =
     c\<lparr>km_scramCreds := AList.update (km_scram_key user mechanism)
         \<lparr>sce_user = user, sce_mechanism = mechanism, sce_iterations = iterations, sce_upsertCount = 0\<rparr>
         (km_scramCreds c)\<rparr>"

definition km_list_scram :: "string list \<Rightarrow> (kafka_mock, scram_credential list) query" where
  "km_list_scram usernames c =
     Inr (map (\<lambda>e. \<lparr>scr_user = sce_user e, scr_mechanism = sce_mechanism e,
                    scr_iterations = sce_iterations e\<rparr>)
       (filter (\<lambda>e. usernames = [] \<or> sce_user e \<in> set usernames)
         (map (\<lambda>k. the (mget (km_scramCreds c) k)) (mkeys (km_scramCreds c)))))"

definition default_scram_iterations :: int where
  "default_scram_iterations = 4096"

definition km_upsert_scram :: "scram_upsert \<Rightarrow> kafka_mock act" where
  "km_upsert_scram u =
     (let key = km_scram_key (su_user u) (su_mechanism u)
      in km_mutate (''UpsertScramCredential '' @ key) (\<lambda>c.
           let iterations = (if su_iterations u = 0 then default_scram_iterations else su_iterations u);
               e = (case mget (km_scramCreds c) key of
                      Some e \<Rightarrow> e
                    | None \<Rightarrow> \<lparr>sce_user = su_user u, sce_mechanism = su_mechanism u,
                               sce_iterations = 0, sce_upsertCount = 0\<rparr>)
           in (c\<lparr>km_scramCreds := AList.update key
                  (e\<lparr>sce_iterations := iterations, sce_upsertCount := sce_upsertCount e + 1\<rparr>)
                  (km_scramCreds c)\<rparr>, None)))"

definition km_delete_scram :: "string \<Rightarrow> string \<Rightarrow> kafka_mock act" where
  "km_delete_scram user mechanism =
     (let key = km_scram_key user mechanism
      in km_mutate (''DeleteScramCredential '' @ key) (\<lambda>c.
           (c\<lparr>km_scramCreds := AList.delete key (km_scramCreds c)\<rparr>, None)))"

definition km_scram_upsert_count :: "kafka_mock \<Rightarrow> string \<Rightarrow> string \<Rightarrow> int" where
  "km_scram_upsert_count c user mechanism =
     (case mget (km_scramCreds c) (km_scram_key user mechanism) of
        None \<Rightarrow> 0 | Some e \<Rightarrow> sce_upsertCount e)"

subsection \<open>The client\<close>

definition km_cluster_id :: "(kafka_mock, string) query" where
  "km_cluster_id c =
     (case mget (km_failures c) (km_fail_key ''ClusterID'' []) of
        Some e \<Rightarrow> Inl e
      | None \<Rightarrow> (if km_clusterID c = [] then Inl [T ''mock: cluster id not set''] else Inr (km_clusterID c)))"

definition km_new :: "topic_state list \<Rightarrow> acl_state list \<Rightarrow> kafka_mock" where
  "km_new topics acls =
     \<lparr>km_topics = topics, km_acls = acls, km_quotas = [], km_scramCreds = [], km_calls = [],
      km_failures = [], km_clusterID = []\<rparr>"

definition km_new_with_quotas :: "topic_state list \<Rightarrow> acl_state list \<Rightarrow> quota_state list \<Rightarrow> kafka_mock" where
  "km_new_with_quotas topics acls quotas =
     fold (\<lambda>q. km_upsert_quota (qst_entity q) (qst_limits q)) quotas (km_new topics acls)"

definition km_new_with_scram ::
    "topic_state list \<Rightarrow> acl_state list \<Rightarrow> scram_credential list \<Rightarrow> kafka_mock" where
  "km_new_with_scram topics acls creds =
     fold (\<lambda>cr. km_seed_scram (scr_user cr) (scr_mechanism cr) (scr_iterations cr)) creds (km_new topics acls)"

definition km_set_cluster_id :: "string \<Rightarrow> kafka_mock \<Rightarrow> kafka_mock" where
  "km_set_cluster_id clusterID c = c\<lparr>km_clusterID := clusterID\<rparr>"

definition kafka_mock_client :: "kafka_mock admin_client" where
  "kafka_mock_client =
     \<lparr>ac_getTopic = km_get_topic, ac_listTopics = km_list_topics, ac_clusterID = km_cluster_id, ac_listACLs = km_list_acls,
      ac_createTopic = km_create_topic, ac_updateTopicConfig = km_update_topic_config,
      ac_createPartitions = km_create_partitions, ac_deleteTopic = km_delete_topic,
      ac_createACLs = km_create_acls, ac_deleteACLs = km_delete_acls,
      ac_listQuotas = km_list_quotas, ac_setQuota = km_set_quota, ac_deleteQuota = km_delete_quota,
      ac_listScram = km_list_scram, ac_upsertScram = km_upsert_scram,
      ac_deleteScram = km_delete_scram\<rparr>"

end
