(* ===== verification/Other_Mocks.thy ===== *)
theory Other_Mocks
  imports Kafka_Mock Executor
begin

section \<open>The other in-memory services (internal/mds/mock, schemaregistry/mock, kafkarest/mock)\<close>

text \<open>
  The in-memory implementations of \<open>mds.Client\<close>, \<open>schemaregistry.Client\<close> and \<open>kafkarest.Client\<close>, with
  the same conventions as the Kafka one.
\<close>

subsection \<open>Metadata Service\<close>

record mds_mock =
  mm_bindings :: "(string, mds_role_binding) gomap"
  mm_calls :: "string list"
  mm_failures :: "(string, go_error) gomap"

definition mm_new :: "mds_role_binding list \<Rightarrow> mds_mock" where
  "mm_new initial =
     \<lparr>mm_bindings = fold (\<lambda>rb. AList.update (mds_key rb) rb) initial [], mm_calls = [],
      mm_failures = []\<rparr>"

definition mm_fail_on :: "string \<Rightarrow> string \<Rightarrow> go_error \<Rightarrow> mds_mock \<Rightarrow> mds_mock" where
  "mm_fail_on meth key err m =
     m\<lparr>mm_failures := AList.update (meth @ '' '' @ key) err (mm_failures m)\<rparr>"

definition mm_record :: "string \<Rightarrow> string \<Rightarrow> mds_mock act" where
  "mm_record meth key m =
     (let sig = meth @ '' '' @ key
      in (m\<lparr>mm_calls := mm_calls m @ [sig]\<rparr>, mget (mm_failures m) sig))"

definition mm_list_role_bindings :: "mds_scope \<Rightarrow> (mds_mock, mds_role_binding list) query" where
  "mm_list_role_bindings scope m =
     Inr (sort_key mds_key (filter (\<lambda>rb.
         msc_kafkaCluster (mrb_scope rb) = msc_kafkaCluster scope \<and>
         msc_type (mrb_scope rb) = msc_type scope \<and>
         msc_subCluster (mrb_scope rb) = msc_subCluster scope)
       (map (\<lambda>k. the (mget (mm_bindings m) k)) (mkeys (mm_bindings m)))))"

definition mm_add_role_binding :: "mds_role_binding \<Rightarrow> mds_mock act" where
  "mm_add_role_binding rb m =
     (let key = mds_key rb
      in case mm_record ''AddRoleBinding'' key m of
           (m', Some e) \<Rightarrow> (m', Some e)
         | (m', None) \<Rightarrow>
             (if mget (mm_bindings m') key = None
              then m'\<lparr>mm_bindings := AList.update key rb (mm_bindings m')\<rparr> else m', None))"

definition mm_remove_role_binding :: "mds_role_binding \<Rightarrow> mds_mock act" where
  "mm_remove_role_binding rb m =
     (let key = mds_key rb
      in case mm_record ''RemoveRoleBinding'' key m of
           (m', Some e) \<Rightarrow> (m', Some e)
         | (m', None) \<Rightarrow> (m'\<lparr>mm_bindings := AList.delete key (mm_bindings m')\<rparr>, None))"

definition mds_mock_client :: "mds_mock mds_client" where
  "mds_mock_client =
     \<lparr>mc_listRoleBindings = mm_list_role_bindings, mc_addRoleBinding = mm_add_role_binding,
      mc_removeRoleBinding = mm_remove_role_binding\<rparr>"

subsection \<open>Schema Registry\<close>

record subject_entry =
  se_versions :: "schema list"
  se_ids :: "int list"
  se_compatibility :: string

record schema_mock =
  sm_subjects :: "(string, subject_entry) gomap"
  sm_globalCompatibility :: string
  sm_nextID :: int
  sm_checkResult :: bool
  sm_calls :: "string list"
  sm_failures :: "(string, go_error) gomap"

definition sm_new :: schema_mock where
  "sm_new =
     \<lparr>sm_subjects = [], sm_globalCompatibility = [], sm_nextID = 0, sm_checkResult = True,
      sm_calls = [], sm_failures = []\<rparr>"

definition sm_set_check_result :: "bool \<Rightarrow> schema_mock \<Rightarrow> schema_mock" where
  "sm_set_check_result ok c = c\<lparr>sm_checkResult := ok\<rparr>"

definition sm_set_global_compatibility :: "string \<Rightarrow> schema_mock \<Rightarrow> schema_mock" where
  "sm_set_global_compatibility level c = c\<lparr>sm_globalCompatibility := level\<rparr>"

text \<open>\<open>Seed\<close>: the versions in order, each under the next id; no call is recorded.\<close>

definition sm_seed :: "string \<Rightarrow> string \<Rightarrow> string \<Rightarrow> string list \<Rightarrow> schema_mock \<Rightarrow> schema_mock" where
  "sm_seed subject typ compatibility versions c =
     c\<lparr>sm_nextID := sm_nextID c + int (length versions),
       sm_subjects := AList.update subject
         \<lparr>se_versions = map (\<lambda>body. \<lparr>sch_type = typ, sch_definition = body\<rparr>) versions,
          se_ids = map (\<lambda>i. sm_nextID c + int i + 1) [0..<length versions],
          se_compatibility = compatibility\<rparr> (sm_subjects c)\<rparr>"

definition sm_fail_on :: "string \<Rightarrow> string \<Rightarrow> go_error \<Rightarrow> schema_mock \<Rightarrow> schema_mock" where
  "sm_fail_on meth subject err c =
     c\<lparr>sm_failures := AList.update (meth @ '' '' @ subject) err (sm_failures c)\<rparr>"

definition sm_list_subjects :: "(schema_mock, string list) query" where
  "sm_list_subjects c = Inr (mkeys (sm_subjects c))"

definition sm_check_compatibility :: "string \<Rightarrow> schema \<Rightarrow> (schema_mock, bool) query" where
  "sm_check_compatibility subject s c = Inr (sm_checkResult c)"

definition sm_record :: "string \<Rightarrow> string \<Rightarrow> string \<Rightarrow> schema_mock act" where
  "sm_record sig meth subject c =
     (c\<lparr>sm_calls := sm_calls c @ [sig]\<rparr>, mget (sm_failures c) (meth @ '' '' @ subject))"

definition sm_get_subject :: "string \<Rightarrow> (schema_mock, subject_state option) query" where
  "sm_get_subject subject c =
     Inr (case mget (sm_subjects c) subject of
            None \<Rightarrow> None
          | Some e \<Rightarrow>
              (if se_versions e = [] then None
               else Some \<lparr>ss_subject = subject, ss_id = last (se_ids e),
                      ss_version = int (length (se_versions e)), ss_schema = last (se_versions e),
                      ss_compatibility = se_compatibility e\<rparr>))"

fun lookup_version :: "int \<Rightarrow> schema \<Rightarrow> schema list \<Rightarrow> int" where
  "lookup_version i s [] = 0"
| "lookup_version i s (v # vs) =
     (if sch_type v = sch_type s \<and> trim_space (sch_definition v) = trim_space (sch_definition s)
      then i else lookup_version (i + 1) s vs)"

definition sm_lookup_schema :: "string \<Rightarrow> schema \<Rightarrow> (schema_mock, int) query" where
  "sm_lookup_schema subject s c =
     Inr (case mget (sm_subjects c) subject of
            None \<Rightarrow> 0 | Some e \<Rightarrow> lookup_version 1 s (se_versions e))"

definition sm_register_schema :: "string \<Rightarrow> schema \<Rightarrow> schema_mock act" where
  "sm_register_schema subject s c =
     (case sm_record (''RegisterSchema '' @ subject) ''RegisterSchema'' subject c of
        (c', Some e) \<Rightarrow> (c', Some e)
      | (c', None) \<Rightarrow>
          (case mget (sm_subjects c') subject of
             None \<Rightarrow>
               (c'\<lparr>sm_nextID := sm_nextID c' + 1,
                   sm_subjects := AList.update subject
                     \<lparr>se_versions = [s], se_ids = [sm_nextID c' + 1], se_compatibility = []\<rparr>
                     (sm_subjects c')\<rparr>, None)
           | Some e \<Rightarrow>
               (if se_versions e \<noteq> [] \<and> last (se_versions e) = s then (c', None)
                else
                  (c'\<lparr>sm_nextID := sm_nextID c' + 1,
                      sm_subjects := AList.update subject
                        (e\<lparr>se_versions := se_versions e @ [s], se_ids := se_ids e @ [sm_nextID c' + 1]\<rparr>)
                        (sm_subjects c')\<rparr>, None))))"

definition sm_get_compatibility :: "string \<Rightarrow> (schema_mock, string) query" where
  "sm_get_compatibility subject c =
     Inr (case mget (sm_subjects c) subject of None \<Rightarrow> [] | Some e \<Rightarrow> se_compatibility e)"

definition sm_get_global_compatibility :: "(schema_mock, string) query" where
  "sm_get_global_compatibility c = Inr (sm_globalCompatibility c)"

definition sm_set_compatibility :: "string \<Rightarrow> string \<Rightarrow> schema_mock act" where
  "sm_set_compatibility subject level c =
     (case sm_record (''SetCompatibility '' @ subject @ '' '' @ level) ''SetCompatibility'' subject c of
        (c', Some e) \<Rightarrow> (c', Some e)
      | (c', None) \<Rightarrow>
          let e = (case mget (sm_subjects c') subject of
                     Some e \<Rightarrow> e | None \<Rightarrow> \<lparr>se_versions = [], se_ids = [], se_compatibility = []\<rparr>)
          in (c'\<lparr>sm_subjects := AList.update subject (e\<lparr>se_compatibility := level\<rparr>) (sm_subjects c')\<rparr>,
              None))"

definition sm_delete_subject :: "string \<Rightarrow> schema_mock act" where
  "sm_delete_subject subject c =
     (case sm_record (''DeleteSubject '' @ subject) ''DeleteSubject'' subject c of
        (c', Some e) \<Rightarrow> (c', Some e)
      | (c', None) \<Rightarrow> (c'\<lparr>sm_subjects := AList.delete subject (sm_subjects c')\<rparr>, None))"

definition schema_mock_client :: "schema_mock schema_client" where
  "schema_mock_client =
     \<lparr>sc_listSubjects = sm_list_subjects, sc_getSubject = sm_get_subject, sc_lookupSchema = sm_lookup_schema,
      sc_getCompatibility = sm_get_compatibility,
      sc_getGlobalCompatibility = sm_get_global_compatibility,
      sc_registerSchema = sm_register_schema, sc_setCompatibility = sm_set_compatibility,
      sc_deleteSubject = sm_delete_subject\<rparr>"

subsection \<open>Kafka REST\<close>

record rest_mock =
  rm_clusterID :: string
  rm_links :: "rest_link list"
  rm_configs :: "(string, (string, string) gomap) gomap"
  rm_mirrors :: "rest_mirror list"
  rm_failures :: "(string, go_error) gomap"
  rm_created :: "create_mirror_request list"
  rm_altered :: "(string, (string, string) gomap) gomap"

definition rm_new :: "string \<Rightarrow> rest_mock" where
  "rm_new clusterID =
     \<lparr>rm_clusterID = clusterID, rm_links = [], rm_configs = [], rm_mirrors = [], rm_failures = [],
      rm_created = [], rm_altered = []\<rparr>"

definition rm_add_link :: "rest_link \<Rightarrow> (string, string) gomap \<Rightarrow> rest_mock \<Rightarrow> rest_mock" where
  "rm_add_link l configs c =
     c\<lparr>rm_links := rm_links c @ [l], rm_configs := AList.update (ln_name l) configs (rm_configs c)\<rparr>"

definition rm_add_mirror :: "rest_mirror \<Rightarrow> rest_mock \<Rightarrow> rest_mock" where
  "rm_add_mirror m c = c\<lparr>rm_mirrors := rm_mirrors c @ [m]\<rparr>"

definition rm_fail :: "string \<Rightarrow> go_error \<Rightarrow> rest_mock \<Rightarrow> rest_mock" where
  "rm_fail meth err c = c\<lparr>rm_failures := AList.update meth err (rm_failures c)\<rparr>"

definition rm_read :: "string \<Rightarrow> (rest_mock \<Rightarrow> go_error + 'a) \<Rightarrow> (rest_mock, 'a) query" where
  "rm_read meth f c = (case mget (rm_failures c) meth of Some e \<Rightarrow> Inl e | None \<Rightarrow> f c)"

definition rm_cluster_id :: "(rest_mock, string) query" where
  "rm_cluster_id = rm_read ''ClusterID'' (\<lambda>c.
     if rm_clusterID c = [] then Inl [T ''mock: rest cluster id not set''] else Inr (rm_clusterID c))"

definition rm_list_links :: "(rest_mock, rest_link list) query" where
  "rm_list_links = rm_read ''ListLinks'' (\<lambda>c. Inr (sort_key ln_name (rm_links c)))"

definition rm_link_configs :: "string \<Rightarrow> (rest_mock, (string, string) gomap) query" where
  "rm_link_configs link = rm_read ''LinkConfigs'' (\<lambda>c.
     case mget (rm_configs c) link of
       None \<Rightarrow> Inl [T ''link '', Q link, T '': kafkarest: not found'']
     | Some cfg \<Rightarrow> Inr cfg)"

definition rm_list_mirrors :: "(rest_mock, rest_mirror list) query" where
  "rm_list_mirrors = rm_read ''ListMirrors'' (\<lambda>c.
     Inr (sort_key (\<lambda>m. (mi_linkName m, mi_mirrorTopicName m)) (rm_mirrors c)))"

definition rm_create_mirror :: "create_mirror_request \<Rightarrow> rest_mock act" where
  "rm_create_mirror r c =
     (case mget (rm_failures c) ''CreateMirror'' of
        Some e \<Rightarrow> (c, Some e)
      | None \<Rightarrow>
          (c\<lparr>rm_created := rm_created c @ [r],
             rm_mirrors := rm_mirrors c @
               [\<lparr>mi_linkName = cmr_linkName r, mi_mirrorTopicName = cmr_mirrorTopicName r,
                 mi_sourceTopicName = cmr_sourceTopicName r, mi_status = ''ACTIVE'',
                 mi_numPartitions = 0, mi_stateTimeMs = 0\<rparr>]\<rparr>, None))"

definition rm_alter_topic_configs :: "string \<Rightarrow> (string, string) gomap \<Rightarrow> rest_mock act" where
  "rm_alter_topic_configs topic kvs c =
     (case mget (rm_failures c) ''AlterTopicConfigs'' of
        Some e \<Rightarrow> (c, Some e)
      | None \<Rightarrow>
          (let old = (case mget (rm_altered c) topic of None \<Rightarrow> [] | Some cfg \<Rightarrow> cfg)
           in (c\<lparr>rm_altered := AList.update topic (set_config kvs old) (rm_altered c)\<rparr>, None)))"

definition rest_mock_client :: "rest_mock rest_client" where
  "rest_mock_client =
     \<lparr>rc_clusterID = rm_cluster_id, rc_listLinks = rm_list_links, rc_linkConfigs = rm_link_configs,
      rc_listMirrors = rm_list_mirrors, rc_createMirror = rm_create_mirror,
      rc_alterTopicConfigs = rm_alter_topic_configs\<rparr>"

end
