(* ===== verification/Executor_Props.thy ===== *)
theory Executor_Props
  imports Executor Diff_Order
begin

section \<open>Properties of the executor\<close>

text \<open>
  Accounting, order, gates, the inertness of everything that is not eligible, and the
  prerequisite skips, for any clients.
\<close>

subsection \<open>Accounting and order\<close>

text \<open>The group \<open>executionOrder\<close> puts an operation in.\<close>

definition exec_rank :: "operation \<Rightarrow> nat" where
  "exec_rank op =
     (if is_acl_op (op_action op) then 1 else if is_schema_op (op_action op) then 2
      else if is_role_binding_op (op_action op) then 3 else 0)"

lemma execution_order_rank:
  "execution_order ops =
     filter (\<lambda>op. exec_rank op = 0) ops @ filter (\<lambda>op. exec_rank op = 1) ops @
     filter (\<lambda>op. exec_rank op = 2) ops @ filter (\<lambda>op. exec_rank op = 3) ops"
proof -
  have "is_acl_op a \<longrightarrow> \<not> is_schema_op a \<and> \<not> is_role_binding_op a"
    "is_schema_op a \<longrightarrow> \<not> is_role_binding_op a" for a
    by (auto simp: is_acl_op_def is_schema_op_def is_role_binding_op_def)
  then show ?thesis
    unfolding execution_order_eq exec_rank_def
    by (intro arg_cong2 [where f = append] filter_cong refl) auto
qed

lemma sorted_map_filter_same: "sorted (map f (filter (\<lambda>x. f x = k) xs))"
  by (induction xs) auto

text \<open>
  Execution is a stable reordering into dependency order: every operation runs exactly once,
  topics before ACLs before schemas before role bindings, and within a group in the given order.
\<close>

theorem execution_order_stable:
  "mset (execution_order ops) = mset ops \<and> sorted (map exec_rank (execution_order ops)) \<and>
   (\<forall>g. filter (\<lambda>op. exec_rank op = g) (execution_order ops) = filter (\<lambda>op. exec_rank op = g) ops)"
proof (intro conjI allI)
  show "sorted (map exec_rank (execution_order ops))"
    unfolding execution_order_rank by (auto simp: sorted_append sorted_map_filter_same)
  fix g :: nat
  consider "g = 0" | "g = 1" | "g = 2" | "g = 3" | "g > 3" by linarith
  then show "filter (\<lambda>op. exec_rank op = g) (execution_order ops) = filter (\<lambda>op. exec_rank op = g) ops"
    unfolding execution_order_rank
    by cases (auto simp: exec_rank_def filter_empty_conv intro!: filter_cong)
qed simp

text \<open>
  Best effort: whatever fails, every planned operation gets exactly one result, in execution
  order.
\<close>

theorem apply_ops_accounts:
  "map res_op (snd (apply_ops c ops ap w)) = execution_order ops"
  using apply_loop_ops by (fastforce simp: apply_ops_def split: prod.split)

subsection \<open>Eligibility\<close>

text \<open>
  An operation may be dispatched only when its resource enforces, it is not a finding, and its
  gate is open.
\<close>

definition eligible :: "approvals \<Rightarrow> operation \<Rightarrow> bool" where
  "eligible ap op \<longleftrightarrow> \<not> report_only op \<and> \<not> finding (op_action op) \<and> gate_verdict op ap = None"

lemma not_eligible_pre: "\<not> eligible ap op \<Longrightarrow> pre_verdict op ap f \<noteq> None"
  using dispatched_iff [of op ap f] unfolding eligible_def by blast

lemma not_eligible_pre_indep:
  assumes "\<not> eligible ap op"
  shows "pre_verdict op ap f = pre_verdict op ap f'"
proof (cases "report_only op \<or> finding (op_action op)")
  case True
  then show ?thesis by (auto simp: pre_verdict_def finding_def)
next
  case False
  then obtain st where "gate_verdict op ap = Some st" using assms by (auto simp: eligible_def)
  then show ?thesis by (simp add: pre_verdict_def)
qed

lemma apply_loop_inert:
  "apply_loop c ap ops w f = (w', f', rs) \<Longrightarrow>
   apply_loop c ap (filter (eligible ap) ops) w f = (w', f', filter (\<lambda>r. eligible ap (res_op r)) rs)"
proof (induction ops arbitrary: w f w' f' rs)
  case Nil
  then show ?case by simp
next
  case (Cons op ops)
  obtain w1 f1 r where one: "apply_one c ap op w f = (w1, f1, r)" by (metis prod_cases3)
  obtain w2 f2 rs2 where rest: "apply_loop c ap ops w1 f1 = (w2, f2, rs2)" by (metis prod_cases3)
  have r: "res_op r = op" using apply_one_op [of c ap op w f] by (simp add: one)
  have res: "w' = w2" "f' = f2" "rs = r # rs2" using Cons.prems by (simp_all add: one rest)
  show ?case
  proof (cases "eligible ap op")
    case True
    then show ?thesis using Cons.IH [OF rest] by (simp add: one res r)
  next
    case False
    then obtain v where "pre_verdict op ap f = Some v" using not_eligible_pre by blast
    then have "w1 = w" "f1 = f" using one by (cases v; simp add: apply_one_def)+
    then show ?thesis using Cons.IH [OF rest] False by (simp add: res r)
  qed
qed

lemma execution_order_filter: "execution_order (filter P ops) = filter P (execution_order ops)"
  by (simp add: execution_order_rank conj_commute)

text \<open>
  Operations of DetectOnly/ObserveOnly resources, findings, and gated operations without their
  approval are inert: dropping them from the plan changes neither the final state of the cluster
  nor the outcome of any other operation.
\<close>

theorem ineligible_inert:
  "apply_ops c (filter (eligible ap) ops) ap w =
     (fst (apply_ops c ops ap w),
      filter (\<lambda>r. eligible ap (res_op r)) (snd (apply_ops c ops ap w)))"
proof -
  obtain w' f' rs where run: "apply_loop c ap (execution_order ops) w {} = (w', f', rs)"
    by (metis prod_cases3)
  from apply_loop_inert [OF run] show ?thesis
    by (simp add: apply_ops_def run execution_order_filter)
qed

lemma apply_loop_result:
  "apply_loop c ap ops w f = (w', f', rs) \<Longrightarrow> r \<in> set rs \<Longrightarrow>
   \<exists>op \<in> set ops. \<exists>v g v' g'. f \<subseteq> g \<and> g' \<subseteq> f' \<and> apply_one c ap op v g = (v', g', r)"
proof (induction ops arbitrary: w f w' f' rs)
  case Nil
  then show ?case by simp
next
  case (Cons op ops)
  obtain w1 f1 r1 where one: "apply_one c ap op w f = (w1, f1, r1)" by (metis prod_cases3)
  obtain w2 f2 rs2 where rest: "apply_loop c ap ops w1 f1 = (w2, f2, rs2)" by (metis prod_cases3)
  have res: "f' = f2" "rs = r1 # rs2" using Cons.prems(1) by (simp_all add: one rest)
  have mono: "f \<subseteq> f1" using apply_one_failed_mono [OF one] .
  have mono2: "f1 \<subseteq> f2" using apply_loop_mono [OF rest] .
  show ?case
  proof (cases "r = r1")
    case True
    then show ?thesis using one res mono2 by (metis list.set_intros(1) subset_refl)
  next
    case False
    then have "r \<in> set rs2" using Cons.prems(2) res by simp
    from Cons.IH [OF rest this] show ?thesis using mono res by (meson list.set_intros(2) subset_trans)
  qed
qed

lemma attempted_eligible:
  assumes "r \<in> set (snd (apply_ops c ops ap w))" "res_status r \<in> {StSucceeded, StFailed}"
  shows "eligible ap (res_op r) \<or> op_action (res_op r) = StateReadError"
proof -
  obtain w' f' rs where run: "apply_loop c ap (execution_order ops) w {} = (w', f', rs)"
    by (metis prod_cases3)
  then have "r \<in> set rs" using assms(1) by (simp add: apply_ops_def)
  from apply_loop_result [OF run this] obtain op v g v' g' where
    one: "apply_one c ap op v g = (v', g', r)" by blast
  have op: "res_op r = op" using apply_one_op [of c ap op v g] by (simp add: one)
  show ?thesis
  proof (cases "pre_verdict op ap g")
    case None
    then show ?thesis using dispatched_iff [OF None] by (simp add: eligible_def op)
  next
    case (Some ve)
    then show ?thesis using one assms(2)
      by (cases ve) (auto simp: apply_one_def mk_result_def pre_verdict_def op
          dest: gate_verdict_status split: if_splits option.splits)
  qed
qed

text \<open>
  C1. Consent before mutation: an operation is attempted (it succeeded, or failed in a client) only
  if its resource enforces and its gate is open: a deletion with \<open>--allow-delete\<close>, a destructive
  change with \<open>--allow-destructive\<close>, a prune with \<open>--prune\<close> or the operation's own consent.
\<close>

theorem attempted_needs_consent:
  assumes "r \<in> set (snd (apply_ops c ops ap w))" "res_status r \<in> {StSucceeded, StFailed}"
    "op_action (res_op r) \<noteq> StateReadError"
  shows "op_mode (res_op r) \<notin> {ModeDetectOnly, ModeObserveOnly} \<and>
    (case gate_of (op_action (res_op r)) of
       GateNone \<Rightarrow> True
     | GateDelete \<Rightarrow> appr_delete ap
     | GateDestructive \<Rightarrow> appr_destructive ap
     | GatePrune \<Rightarrow> appr_prune ap \<or> op_pruneAllowed (res_op r))"
proof -
  have "eligible ap (res_op r)" using attempted_eligible [OF assms(1,2)] assms(3) by simp
  then show ?thesis
    by (auto simp: eligible_def report_only_def gate_verdict_def split: gate.splits if_splits)
qed

subsection \<open>Prerequisite skips\<close>

text \<open>The operations that depend on a topic.\<close>

definition depends_on :: "string \<Rightarrow> operation \<Rightarrow> bool" where
  "depends_on t op \<longleftrightarrow>
     op_action op = CreateAcl \<and> (\<exists>a. op_acl op = Some a \<and> as_resourceType a = ''topic'' \<and>
       as_resourceName a = t) \<or>
     is_schema_op (op_action op) \<and> op_topic op = t \<and> t \<noteq> []"

lemma depends_on_rank: "depends_on t op \<Longrightarrow> exec_rank op \<in> {1, 2}"
  by (auto simp: depends_on_def exec_rank_def is_acl_op_def)

lemma depends_on_pre:
  "depends_on t op \<Longrightarrow> t \<in> f \<Longrightarrow> \<exists>st e. pre_verdict op ap f = Some (st, e) \<and> st \<notin> {StSucceeded, StFailed}"
  by (cases "gate_verdict op ap")
     (auto simp: depends_on_def pre_verdict_def is_schema_op_def dest!: gate_verdict_status)

lemma create_failed:
  assumes "apply_one c ap op w f = (w', f', r)" "res_status r = StFailed"
    "op_action op \<in> {CreateTopic, CreateMirrorTopic}"
  shows "op_target op \<in> f'"
proof -
  have "pre_verdict op ap f = None"
    using assms by (cases "pre_verdict op ap f")
      (auto simp: apply_one_def mk_result_def pre_verdict_def gate_verdict_def gate_of_def is_schema_op_def
        split: if_splits)
  then show ?thesis
    using assms by (auto simp: apply_one_def mk_result_def dispatch_def Let_def note_failed_def
        is_schema_op_def is_role_binding_op_def split: prod.splits option.splits)
qed

lemma apply_loop_skips:
  assumes "apply_loop c ap ops w f = (w', f', rs)" "t \<in> f" "r \<in> set rs" "depends_on t (res_op r)"
  shows "res_status r \<notin> {StSucceeded, StFailed}"
proof -
  obtain op v g v' g' where one: "f \<subseteq> g" "apply_one c ap op v g = (v', g', r)"
    using apply_loop_result [OF assms(1,3)] by blast
  then have op: "res_op r = op" using apply_one_op [of c ap op v g] by simp
  obtain st e where "pre_verdict op ap g = Some (st, e)" "st \<notin> {StSucceeded, StFailed}"
    using depends_on_pre [of t op g ap] assms(2,4) one(1) op by auto
  then show ?thesis using one(2) by (auto simp: apply_one_def mk_result_def)
qed

lemma execution_order_split:
  obtains deps where "execution_order ops = filter (\<lambda>op. exec_rank op = 0) ops @ deps"
    "\<forall>op \<in> set deps. exec_rank op \<noteq> 0"
  by (rule that [OF execution_order_rank]) auto

text \<open>
  C38. When the creation of a topic (or mirror topic) fails, nothing that depends on it is attempted
  in the run: neither an ACL on the topic nor a schema of its subjects, whatever their order in
  the plan.
\<close>

theorem failed_topic_skips_dependents:
  assumes "r \<in> set (snd (apply_ops c ops ap w))" "res_status r = StFailed"
    "op_action (res_op r) \<in> {CreateTopic, CreateMirrorTopic}"
    "r' \<in> set (snd (apply_ops c ops ap w))" "depends_on (op_target (res_op r)) (res_op r')"
  shows "res_status r' \<notin> {StSucceeded, StFailed}"
proof -
  obtain deps where split: "execution_order ops = filter (\<lambda>op. exec_rank op = 0) ops @ deps"
    and rank: "\<forall>op \<in> set deps. exec_rank op \<noteq> 0" by (rule execution_order_split)
  obtain w1 f1 rs1 where a: "apply_loop c ap (filter (\<lambda>op. exec_rank op = 0) ops) w {} = (w1, f1, rs1)"
    by (metis prod_cases3)
  obtain w2 f2 rs2 where b: "apply_loop c ap deps w1 f1 = (w2, f2, rs2)" by (metis prod_cases3)
  have rs: "snd (apply_ops c ops ap w) = rs1 @ rs2"
    by (simp add: apply_ops_def split apply_loop_append a b)
  have ops1: "map res_op rs1 = filter (\<lambda>op. exec_rank op = 0) ops" "map res_op rs2 = deps"
    using apply_loop_ops [OF a] apply_loop_ops [OF b] by simp_all
  have r_rank: "exec_rank (res_op r) = 0"
    using assms(3) by (auto simp: exec_rank_def is_acl_op_def is_schema_op_def is_role_binding_op_def)
  have "r \<in> set rs1"
  proof (rule ccontr)
    assume "r \<notin> set rs1"
    then have "res_op r \<in> set (map res_op rs2)" using assms(1) rs by auto
    then show False using r_rank rank ops1(2) by simp
  qed
  from apply_loop_result [OF a this] obtain op v g v' g' where
    one: "g' \<subseteq> f1" "apply_one c ap op v g = (v', g', r)" by blast
  have "res_op r = op" using one(2) apply_one_op [of c ap op v g] by simp
  then have "op_target (res_op r) \<in> f1" using create_failed [OF one(2) assms(2)] assms(3) one(1) by auto
  moreover have "r' \<in> set rs2"
  proof (rule ccontr)
    assume "r' \<notin> set rs2"
    then have "res_op r' \<in> set (map res_op rs1)" using assms(4) rs by auto
    then show False using depends_on_rank [OF assms(5)] ops1(1) by auto
  qed
  ultimately show ?thesis using apply_loop_skips [OF b] assms(5) by blast
qed

subsection \<open>The wire key\<close>

text \<open>
  The layout invariant the two packages pin: converting a role binding to the MDS wire type
  keeps its identity key byte for byte, for every binding.
\<close>

theorem mds_key_to_mds: "mds_key (to_mds b) = rb_full_key b"
  by (simp add: mds_key_def to_mds_def rb_full_key_def resource_key_def Let_def split: option.split)

subsection \<open>Witnesses\<close>

text \<open>A client whose every write fails and reads nothing.\<close>

definition down_client :: "unit admin_client" where
  "down_client =
     \<lparr>ac_getTopic = (\<lambda>_ _. Inr None), ac_listTopics = (\<lambda>_. Inr []), ac_clusterID = (\<lambda>_. Inr ''k''), ac_listACLs = (\<lambda>_. Inr []),
      ac_createTopic = (\<lambda>_ w. (w, Some [T ''down''])),
      ac_updateTopicConfig = (\<lambda>_ _ w. (w, Some [T ''down''])),
      ac_createPartitions = (\<lambda>_ _ w. (w, Some [T ''down''])),
      ac_deleteTopic = (\<lambda>_ w. (w, Some [T ''down''])),
      ac_createACLs = (\<lambda>_ w. (w, None)), ac_deleteACLs = (\<lambda>_ w. (w, None)),
      ac_listQuotas = (\<lambda>_. Inr []), ac_setQuota = (\<lambda>_ _ w. (w, None)),
      ac_deleteQuota = (\<lambda>_ _ w. (w, None)), ac_listScram = (\<lambda>_ _. Inr []),
      ac_upsertScram = (\<lambda>_ w. (w, None)), ac_deleteScram = (\<lambda>_ _ w. (w, None))\<rparr>"

definition down_clients :: "unit clients" where
  "down_clients =
     \<lparr>cl_kafka = down_client, cl_schema = None, cl_mds = None, cl_mirrors = None,
      cl_passwords = None\<rparr>"

definition sample_create :: operation where
  "sample_create = (new_op CreateTopic)\<lparr>op_target := ''t''\<rparr>"

definition sample_acl_op :: "action \<Rightarrow> bool \<Rightarrow> operation" where
  "sample_acl_op act consent =
     (new_op act)\<lparr>op_target := ''a'', op_pruneAllowed := consent,
       op_acl := Some \<lparr>as_principal = ''User:a'', as_host = ''*'', as_resourceType = ''topic'',
         as_resourceName = ''t'', as_patternType = ''literal'', as_operation = ''Read'',
         as_permission = ''Allow''\<rparr>\<rparr>"

lemma sample_run:
  "snd (apply_ops down_clients [sample_acl_op CreateAcl False, sample_create] no_approvals ()) =
     [mk_result sample_create StFailed [T ''down''],
      mk_result (sample_acl_op CreateAcl False) StSkipped []]"
  by (simp add: apply_ops_def execution_order_eq apply_one_def pre_verdict_def gate_verdict_def
      gate_of_def report_only_def ModeDetectOnly_def ModeObserveOnly_def dispatch_def Let_def
      down_clients_def down_client_def sample_create_def sample_acl_op_def note_failed_def
      is_acl_op_def is_schema_op_def is_role_binding_op_def)

theorem failed_topic_skips_dependents_witness:
  "res_status (mk_result (sample_acl_op CreateAcl False) StSkipped []) \<notin> {StSucceeded, StFailed}"
  by (rule failed_topic_skips_dependents
        [of "mk_result sample_create StFailed [T ''down'']" down_clients
           "[sample_acl_op CreateAcl False, sample_create]" no_approvals "()"])
     (simp_all only: sample_run, simp_all add: mk_result_def sample_create_def sample_acl_op_def
       depends_on_def)

lemma sample_prune_run:
  "snd (apply_ops down_clients [sample_acl_op DeleteAcl True] no_approvals ()) =
     [mk_result (sample_acl_op DeleteAcl True) StSucceeded []]"
  by (simp add: apply_ops_def execution_order_eq apply_one_def pre_verdict_def gate_verdict_def
      gate_of_def report_only_def ModeDetectOnly_def ModeObserveOnly_def dispatch_def Let_def
      down_clients_def down_client_def sample_acl_op_def no_approvals_def
      is_acl_op_def is_schema_op_def is_role_binding_op_def)

theorem attempted_needs_consent_witness:
  "appr_prune no_approvals \<or> op_pruneAllowed (sample_acl_op DeleteAcl True)"
proof -
  have "mk_result (sample_acl_op DeleteAcl True) StSucceeded [] \<in>
      set (snd (apply_ops down_clients [sample_acl_op DeleteAcl True] no_approvals ()))"
    by (simp only: sample_prune_run) simp
  from attempted_needs_consent [OF this] show ?thesis
    by (simp add: mk_result_def sample_acl_op_def gate_of_def)
qed

end
