(* ===== verification/Run_Store.thy ===== *)
theory Run_Store
  imports Executor_Props
begin

section \<open>What a run does to a store\<close>

text \<open>
  The contract between the executor and a service it writes to, as locales over the executor's
  clients. \<open>obs w k\<close> is what the service stores under key \<open>k\<close> in world \<open>w\<close>, \<open>eff op\<close> the effect an
  operation has on it when it succeeds, \<open>ok\<close> an invariant of the world. The laws speak of one
  dispatched operation; the lemmas tell what a whole run leaves behind. The in-memory services
  interpret them in \<^theory_text>\<open>Mock_World\<close>.
\<close>

lemma run_ops:
  assumes "apply_ops c ops ap w = (w', rs)"
  shows "res_op ` set rs = set ops"
proof -
  obtain f' where "apply_loop c ap (execution_order ops) w {} = (w', f', rs)"
    using assms by (auto simp: apply_ops_def split: prod.splits)
  then have "map res_op rs = execution_order ops" by (rule apply_loop_ops)
  then have "res_op ` set rs = set (execution_order ops)" by (metis set_map)
  also have "... = set ops" unfolding execution_order_rank by (auto simp: exec_rank_def)
  finally show ?thesis .
qed

locale run_effect =
  fixes c :: "'w clients"
    and obs :: "'w \<Rightarrow> 'k \<Rightarrow> 'v"
    and eff :: "operation \<Rightarrow> 'k \<Rightarrow> 'v \<Rightarrow> 'v"
    and ok :: "'w \<Rightarrow> bool"
  assumes success: "ok w \<Longrightarrow> dispatch c op w failed = (w', failed', None) \<Longrightarrow>
      obs w' k = eff op k (obs w k)"
    and keeps: "ok w \<Longrightarrow> dispatch c op w failed = (w', failed', res) \<Longrightarrow> ok w'"
begin

text \<open>The effect of one result on the value under a key.\<close>

definition step :: "'k \<Rightarrow> op_result \<Rightarrow> 'v \<Rightarrow> 'v" where
  "step k r = (if res_status r = StSucceeded then eff (res_op r) k else id)"

lemma one_succeeded:
  assumes "ok w" "apply_one c ap op w f = (w', f', r)" "res_status r \<noteq> StFailed"
  shows "ok w' \<and> obs w' k = step k r (obs w k)"
proof (cases "pre_verdict op ap f")
  case (Some v)
  then show ?thesis using assms by (cases v) (auto simp: apply_one_def step_def mk_result_def dest: pre_verdict_not_succeeded)
next
  case None
  obtain w1 f1 e where d: "dispatch c op w f = (w1, f1, e)" by (metis prod_cases3)
  then have "e = None" using None assms(2,3) by (cases e) (auto simp: apply_one_def mk_result_def)
  then show ?thesis
    using None assms(2) d success [OF assms(1), of op f w1 f1 k] keeps [OF assms(1) d]
    by (auto simp: apply_one_def step_def mk_result_def)
qed

lemma loop_succeeded:
  assumes "ok w" "apply_loop c ap ops w f = (w', f', rs)" "\<forall>r \<in> set rs. res_status r \<noteq> StFailed"
  shows "ok w' \<and> obs w' k = fold (step k) rs (obs w k)"
  using assms
proof (induction ops arbitrary: w f f' rs)
  case Nil
  then show ?case by simp
next
  case (Cons op ops)
  obtain w1 f1 r where one: "apply_one c ap op w f = (w1, f1, r)" by (metis prod_cases3)
  obtain w2 f2 rs2 where rest: "apply_loop c ap ops w1 f1 = (w2, f2, rs2)" by (metis prod_cases3)
  have res: "w' = w2" "rs = r # rs2" using Cons.prems(2) by (simp_all add: one rest)
  have s: "ok w1 \<and> obs w1 k = step k r (obs w k)"
    using one_succeeded [OF Cons.prems(1) one] Cons.prems(3) by (simp add: res)
  have "ok w2 \<and> obs w2 k = fold (step k) rs2 (obs w1 k)"
    using Cons.IH [of w1 f1 f2 rs2] s Cons.prems(3) rest by (simp add: res)
  then show ?case using s by (simp add: res)
qed

lemma run_succeeded:
  assumes "ok w" "apply_ops c ops ap w = (w', rs)" "\<forall>r \<in> set rs. res_status r \<noteq> StFailed"
  shows "ok w' \<and> obs w' k = fold (step k) rs (obs w k)"
  using assms loop_succeeded [OF assms(1), of ap "execution_order ops" "{}"]
  by (auto simp: apply_ops_def split: prod.splits)

end

text \<open>A store whose failed writes leave it as it was.\<close>

locale atomic_store = run_effect +
  assumes failure: "ok w \<Longrightarrow> dispatch c op w failed = (w', failed', Some e) \<Longrightarrow> obs w' k = obs w k"
begin

lemma one_run:
  assumes "ok w" "apply_one c ap op w f = (w', f', r)"
  shows "ok w' \<and> obs w' k = step k r (obs w k)"
proof (cases "res_status r = StFailed \<and> pre_verdict op ap f = None")
  case False
  then show ?thesis
  proof (cases "pre_verdict op ap f")
    case (Some v)
    then show ?thesis using assms by (cases v) (auto simp: apply_one_def step_def mk_result_def dest: pre_verdict_not_succeeded)
  next
    case None
    then show ?thesis using False one_succeeded [OF assms] by blast
  qed
next
  case True
  obtain w1 f1 e where d: "dispatch c op w f = (w1, f1, e)" by (metis prod_cases3)
  then obtain e' where "e = Some e'" using True assms(2) by (cases e) (auto simp: apply_one_def mk_result_def)
  then show ?thesis
    using True assms(2) d failure [OF assms(1), of op f w1 f1 e' k] keeps [OF assms(1) d]
    by (auto simp: apply_one_def step_def mk_result_def)
qed

lemma loop_run:
  assumes "ok w" "apply_loop c ap ops w f = (w', f', rs)"
  shows "ok w' \<and> obs w' k = fold (step k) rs (obs w k)"
  using assms
proof (induction ops arbitrary: w f f' rs)
  case Nil
  then show ?case by simp
next
  case (Cons op ops)
  obtain w1 f1 r where one: "apply_one c ap op w f = (w1, f1, r)" by (metis prod_cases3)
  obtain w2 f2 rs2 where rest: "apply_loop c ap ops w1 f1 = (w2, f2, rs2)" by (metis prod_cases3)
  have res: "w' = w2" "rs = r # rs2" using Cons.prems(2) by (simp_all add: one rest)
  have s: "ok w1 \<and> obs w1 k = step k r (obs w k)" by (rule one_run [OF Cons.prems(1) one])
  have "ok w2 \<and> obs w2 k = fold (step k) rs2 (obs w1 k)"
    using Cons.IH [of w1 f1 f2 rs2] s rest by (simp add: res)
  then show ?case using s by (simp add: res)
qed

lemma run:
  assumes "ok w" "apply_ops c ops ap w = (w', rs)"
  shows "ok w' \<and> obs w' k = fold (step k) rs (obs w k)"
  using assms loop_run [OF assms(1), of ap "execution_order ops" "{}"]
  by (auto simp: apply_ops_def split: prod.splits)

end

text \<open>A store of present or absent entries: operations add an entry, delete one, or leave it alone.\<close>

locale member_store =
  fixes c :: "'w clients"
    and obs :: "'w \<Rightarrow> 'k \<Rightarrow> bool"
    and adds dels :: "operation \<Rightarrow> 'k option"
    and ok :: "'w \<Rightarrow> bool"
  assumes m_success: "ok w \<Longrightarrow> dispatch c op w failed = (w', failed', None) \<Longrightarrow>
      obs w' k \<longleftrightarrow> adds op = Some k \<or> obs w k \<and> dels op \<noteq> Some k"
    and m_keeps: "ok w \<Longrightarrow> dispatch c op w failed = (w', failed', res) \<Longrightarrow> ok w'"
    and m_failure: "ok w \<Longrightarrow> dispatch c op w failed = (w', failed', Some e) \<Longrightarrow> obs w' k \<longleftrightarrow> obs w k"

sublocale member_store \<subseteq> atomic_store c obs "\<lambda>op k v. adds op = Some k \<or> v \<and> dels op \<noteq> Some k" ok
  by unfold_locales (auto simp: m_success dest: m_keeps m_failure)

context member_store
begin

text \<open>A run that never both adds and deletes one entry.\<close>

lemma fold_no_adds:
  "\<forall>r \<in> set rs. adds (res_op r) \<noteq> Some k \<Longrightarrow>
   fold (step k) rs v \<longleftrightarrow> v \<and> (\<forall>r \<in> set rs. res_status r = StSucceeded \<longrightarrow> dels (res_op r) \<noteq> Some k)"
proof (induction rs arbitrary: v)
  case (Cons r rs)
  have "step k r v \<longleftrightarrow> v \<and> (res_status r = StSucceeded \<longrightarrow> dels (res_op r) \<noteq> Some k)"
    using Cons.prems by (simp add: step_def)
  then show ?case using Cons by simp
qed simp

lemma fold_no_dels:
  "\<forall>r \<in> set rs. dels (res_op r) \<noteq> Some k \<Longrightarrow>
   fold (step k) rs v \<longleftrightarrow> v \<or> (\<exists>r \<in> set rs. res_status r = StSucceeded \<and> adds (res_op r) = Some k)"
proof (induction rs arbitrary: v)
  case (Cons r rs)
  have "step k r v \<longleftrightarrow> v \<or> (res_status r = StSucceeded \<and> adds (res_op r) = Some k)"
    using Cons.prems by (auto simp: step_def)
  then show ?case using Cons by simp
qed simp

lemma fold_step:
  assumes "\<forall>r \<in> set rs. \<forall>r' \<in> set rs. adds (res_op r) = Some k \<longrightarrow> dels (res_op r') \<noteq> Some k"
  shows "fold (step k) rs v \<longleftrightarrow>
    (\<exists>r \<in> set rs. res_status r = StSucceeded \<and> adds (res_op r) = Some k) \<or>
    v \<and> (\<forall>r \<in> set rs. res_status r = StSucceeded \<longrightarrow> dels (res_op r) \<noteq> Some k)"
proof (cases "\<exists>r \<in> set rs. adds (res_op r) = Some k")
  case True
  then have "\<forall>r \<in> set rs. dels (res_op r) \<noteq> Some k" using assms by blast
  then show ?thesis using fold_no_dels [of rs k v] by blast
next
  case False
  then show ?thesis using fold_no_adds [of rs k v] by blast
qed

lemma run_member:
  assumes "ok w" "apply_ops c ops ap w = (w', rs)"
    and "\<forall>op \<in> set ops. \<forall>op' \<in> set ops. adds op = Some k \<longrightarrow> dels op' \<noteq> Some k"
  shows "obs w' k \<longleftrightarrow>
    (\<exists>r \<in> set rs. res_status r = StSucceeded \<and> adds (res_op r) = Some k) \<or>
    obs w k \<and> (\<forall>r \<in> set rs. res_status r = StSucceeded \<longrightarrow> dels (res_op r) \<noteq> Some k)"
proof -
  have "res_op ` set rs = set ops" using run_ops [OF assms(2)] by simp
  then have "\<forall>r \<in> set rs. \<forall>r' \<in> set rs. adds (res_op r) = Some k \<longrightarrow> dels (res_op r') \<noteq> Some k"
    using assms(3) by blast
  then show ?thesis using run [OF assms(1,2)] fold_step by simp
qed

end

end
