(* ===== verification/Mock_World.thy ===== *)
theory Mock_World
  imports Other_Mocks Mirror_Writer Run_Store
begin

section \<open>Running the executor on the in-memory services\<close>

text \<open>
  The world the CLI runs in when a cluster carries the mock annotations (internal/cli/live.go): the
  four in-memory services side by side. The clients are lifted to it, the executor's \<open>Clients\<close> value
  is built from them, and the store locales are interpreted on it: ACLs, role bindings, quotas and
  topics as atomic stores, SCRAM credentials as a store of successful effects only (a mechanism
  change is two calls).
\<close>

record cli_world =
  cw_kafka :: kafka_mock
  cw_mds :: mds_mock
  cw_schema :: schema_mock
  cw_rest :: rest_mock

definition on_kafka :: "kafka_mock act \<Rightarrow> cli_world act" where
  "on_kafka f w = (case f (cw_kafka w) of (s, e) \<Rightarrow> (w\<lparr>cw_kafka := s\<rparr>, e))"

definition on_mds :: "mds_mock act \<Rightarrow> cli_world act" where
  "on_mds f w = (case f (cw_mds w) of (s, e) \<Rightarrow> (w\<lparr>cw_mds := s\<rparr>, e))"

definition on_schema :: "schema_mock act \<Rightarrow> cli_world act" where
  "on_schema f w = (case f (cw_schema w) of (s, e) \<Rightarrow> (w\<lparr>cw_schema := s\<rparr>, e))"

definition on_rest :: "rest_mock act \<Rightarrow> cli_world act" where
  "on_rest f w = (case f (cw_rest w) of (s, e) \<Rightarrow> (w\<lparr>cw_rest := s\<rparr>, e))"

definition world_admin :: "cli_world admin_client" where
  "world_admin =
     \<lparr>ac_getTopic = (\<lambda>n w. km_get_topic n (cw_kafka w)), ac_listTopics = (\<lambda>w. km_list_topics (cw_kafka w)),
      ac_clusterID = (\<lambda>w. km_cluster_id (cw_kafka w)),
      ac_listACLs = (\<lambda>w. km_list_acls (cw_kafka w)),
      ac_createTopic = (\<lambda>t. on_kafka (km_create_topic t)),
      ac_updateTopicConfig = (\<lambda>t kvs. on_kafka (km_update_topic_config t kvs)),
      ac_createPartitions = (\<lambda>t n. on_kafka (km_create_partitions t n)),
      ac_deleteTopic = (\<lambda>t. on_kafka (km_delete_topic t)),
      ac_createACLs = (\<lambda>as. on_kafka (km_create_acls as)),
      ac_deleteACLs = (\<lambda>as. on_kafka (km_delete_acls as)),
      ac_listQuotas = (\<lambda>w. km_list_quotas (cw_kafka w)),
      ac_setQuota = (\<lambda>e l. on_kafka (km_set_quota e l)),
      ac_deleteQuota = (\<lambda>e ks. on_kafka (km_delete_quota e ks)),
      ac_listScram = (\<lambda>us w. km_list_scram us (cw_kafka w)),
      ac_upsertScram = (\<lambda>u. on_kafka (km_upsert_scram u)),
      ac_deleteScram = (\<lambda>u m. on_kafka (km_delete_scram u m))\<rparr>"

definition world_mds :: "cli_world mds_client" where
  "world_mds =
     \<lparr>mc_listRoleBindings = (\<lambda>s w. mm_list_role_bindings s (cw_mds w)),
      mc_addRoleBinding = (\<lambda>b. on_mds (mm_add_role_binding b)),
      mc_removeRoleBinding = (\<lambda>b. on_mds (mm_remove_role_binding b))\<rparr>"

definition world_schema :: "cli_world schema_client" where
  "world_schema =
     \<lparr>sc_listSubjects = (\<lambda>w. sm_list_subjects (cw_schema w)),
      sc_getSubject = (\<lambda>s w. sm_get_subject s (cw_schema w)),
      sc_lookupSchema = (\<lambda>s d w. sm_lookup_schema s d (cw_schema w)),
      sc_getCompatibility = (\<lambda>s w. sm_get_compatibility s (cw_schema w)),
      sc_getGlobalCompatibility = (\<lambda>w. sm_get_global_compatibility (cw_schema w)),
      sc_registerSchema = (\<lambda>s d. on_schema (sm_register_schema s d)),
      sc_setCompatibility = (\<lambda>s l. on_schema (sm_set_compatibility s l)),
      sc_deleteSubject = (\<lambda>s. on_schema (sm_delete_subject s))\<rparr>"

definition world_rest :: "cli_world rest_client" where
  "world_rest =
     \<lparr>rc_clusterID = (\<lambda>w. rm_cluster_id (cw_rest w)), rc_listLinks = (\<lambda>w. rm_list_links (cw_rest w)),
      rc_linkConfigs = (\<lambda>l w. rm_link_configs l (cw_rest w)),
      rc_listMirrors = (\<lambda>w. rm_list_mirrors (cw_rest w)),
      rc_createMirror = (\<lambda>r. on_rest (rm_create_mirror r)),
      rc_alterTopicConfigs = (\<lambda>t kvs. on_rest (rm_alter_topic_configs t kvs))\<rparr>"

text \<open>
  Which of the optional clients a run has is up to the manifests, so each is either configured on
  this world or absent.
\<close>

definition world_clients ::
    "bool \<Rightarrow> bool \<Rightarrow> bool \<Rightarrow> (value_from \<Rightarrow> go_error + string) option \<Rightarrow> cli_world clients" where
  "world_clients hasSchema hasMDS hasREST passwords =
     \<lparr>cl_kafka = world_admin, cl_schema = (if hasSchema then Some world_schema else None),
      cl_mds = (if hasMDS then Some world_mds else None),
      cl_mirrors = (if hasREST then Some (mirror_writer world_admin world_rest) else None),
      cl_passwords = passwords\<rparr>"

subsection \<open>Frames of the client calls\<close>

named_theorems frame "what a client call leaves unchanged"

lemma on_frames [frame]:
  "cw_mds (fst (on_kafka f w)) = cw_mds w" "cw_schema (fst (on_kafka f w)) = cw_schema w"
  "cw_kafka (fst (on_mds g w)) = cw_kafka w" "cw_schema (fst (on_mds g w)) = cw_schema w"
  "cw_kafka (fst (on_schema h w)) = cw_kafka w" "cw_mds (fst (on_schema h w)) = cw_mds w"
  "cw_kafka (fst (on_rest i w)) = cw_kafka w" "cw_mds (fst (on_rest i w)) = cw_mds w"
  "cw_schema (fst (on_rest i w)) = cw_schema w"
  by (simp_all add: on_kafka_def on_mds_def on_schema_def on_rest_def split: prod.split)

lemma on_own:
  "cw_kafka (fst (on_kafka f w)) = fst (f (cw_kafka w))" "snd (on_kafka f w) = snd (f (cw_kafka w))"
  "cw_mds (fst (on_mds g w)) = fst (g (cw_mds w))" "snd (on_mds g w) = snd (g (cw_mds w))"
  by (simp_all add: on_kafka_def on_mds_def split: prod.split)

lemma post_frames [frame]:
  "cw_kafka (fst (post_mirror world_rest op w)) = cw_kafka w"
  "cw_mds (fst (post_mirror world_rest op w)) = cw_mds w"
  "cw_kafka (fst (post_config world_rest op w)) = cw_kafka w"
  "cw_mds (fst (post_config world_rest op w)) = cw_mds w"
  using on_frames(7,8) [of "rm_create_mirror (mirror_request op)" w]
    on_frames(7,8) [of "rm_alter_topic_configs (op_target op) [(op_field op, op_to op)]" w]
  by (auto simp: post_mirror_def post_config_def world_rest_def split: prod.split option.split)

lemma writer_frames [frame]:
  "cw_kafka (fst (create_mirror k world_rest op w)) = cw_kafka w"
  "cw_mds (fst (create_mirror k world_rest op w)) = cw_mds w"
  "cw_kafka (fst (alter_mirror_config k world_rest op w)) = cw_kafka w"
  "cw_mds (fst (alter_mirror_config k world_rest op w)) = cw_mds w"
  using create_mirror_cases [of k world_rest op w] alter_mirror_config_cases [of k world_rest op w]
  by (auto simp: frame refused_def split: if_splits)

lemma km_mutate_frame:
  assumes "\<And>c. F (fst (body c)) = F c" "\<And>c xs. F (c\<lparr>km_calls := xs\<rparr>) = F c"
  shows "F (fst (km_mutate sig body c)) = F c"
  using assms by (simp add: km_mutate_def km_record_def split: option.split)

lemmas km_defs = km_create_topic_def km_update_topic_config_def km_create_partitions_def
  km_delete_topic_def km_create_acls_def km_delete_acls_def km_set_quota_def km_upsert_quota_def
  km_delete_quota_def km_upsert_scram_def km_delete_scram_def

lemma km_acl_frames [frame]:
  "km_acls (fst (km_create_topic t c)) = km_acls c"
  "km_acls (fst (km_update_topic_config n kvs c)) = km_acls c"
  "km_acls (fst (km_create_partitions n i c)) = km_acls c"
  "km_acls (fst (km_delete_topic n c)) = km_acls c"
  "km_acls (fst (km_set_quota e l c)) = km_acls c"
  "km_acls (fst (km_delete_quota e ks c)) = km_acls c"
  "km_acls (fst (km_upsert_scram u c)) = km_acls c"
  "km_acls (fst (km_delete_scram n m c)) = km_acls c"
  unfolding km_defs Let_def
  by (rule km_mutate_frame; simp add: Let_def split: option.split)+

lemma km_topic_frames [frame]:
  "km_topics (fst (km_create_acls as c)) = km_topics c"
  "km_topics (fst (km_delete_acls as c)) = km_topics c"
  "km_topics (fst (km_set_quota e l c)) = km_topics c"
  "km_topics (fst (km_delete_quota e ks c)) = km_topics c"
  "km_topics (fst (km_upsert_scram u c)) = km_topics c"
  "km_topics (fst (km_delete_scram n m c)) = km_topics c"
  unfolding km_defs Let_def
  by (rule km_mutate_frame; simp add: Let_def split: option.split)+

lemma km_quota_frames [frame]:
  "km_quotas (fst (km_create_topic t c)) = km_quotas c"
  "km_quotas (fst (km_update_topic_config n kvs c)) = km_quotas c"
  "km_quotas (fst (km_create_partitions n i c)) = km_quotas c"
  "km_quotas (fst (km_delete_topic n c)) = km_quotas c"
  "km_quotas (fst (km_create_acls as c)) = km_quotas c"
  "km_quotas (fst (km_delete_acls as c)) = km_quotas c"
  "km_quotas (fst (km_upsert_scram u c)) = km_quotas c"
  "km_quotas (fst (km_delete_scram n m c)) = km_quotas c"
  unfolding km_defs Let_def
  by (rule km_mutate_frame; simp add: Let_def split: option.split)+

lemma km_scram_frames [frame]:
  "km_scramCreds (fst (km_create_topic t c)) = km_scramCreds c"
  "km_scramCreds (fst (km_update_topic_config n kvs c)) = km_scramCreds c"
  "km_scramCreds (fst (km_create_partitions n i c)) = km_scramCreds c"
  "km_scramCreds (fst (km_delete_topic n c)) = km_scramCreds c"
  "km_scramCreds (fst (km_create_acls as c)) = km_scramCreds c"
  "km_scramCreds (fst (km_delete_acls as c)) = km_scramCreds c"
  "km_scramCreds (fst (km_set_quota e l c)) = km_scramCreds c"
  "km_scramCreds (fst (km_delete_quota e ks c)) = km_scramCreds c"
  unfolding km_defs Let_def
  by (rule km_mutate_frame; simp add: Let_def split: option.split)+

subsection \<open>One dispatched operation\<close>

text \<open>
  The dispatch of an operation on the world, seen through a projection that the calls of other
  kinds leave alone: only the calls of the kind itself remain.
\<close>

lemma upsert_scram_frame:
  assumes "\<And>u w. F (fst (ac_upsertScram (cl_kafka c) u w)) = F w"
    "\<And>n m w. F (fst (ac_deleteScram (cl_kafka c) n m w)) = F w"
  shows "F (fst (upsert_scram c op w)) = F w"
proof -
  have "F w1 = F w" if "ac_upsertScram (cl_kafka c) u w = (w1, e)" for u w1 e
    using assms(1) [of u w] by (simp add: that)
  moreover have "F w2 = F w1" if "ac_deleteScram (cl_kafka c) n m w1 = (w2, e)" for n m w1 w2 e
    using assms(2) [of n m w1] by (simp add: that)
  ultimately show ?thesis
    unfolding upsert_scram_def
    by (auto split: option.split sum.split prod.split)
qed

lemma world_admin_simps [simp]:
  "ac_createTopic world_admin t = on_kafka (km_create_topic t)"
  "ac_updateTopicConfig world_admin n kvs = on_kafka (km_update_topic_config n kvs)"
  "ac_createPartitions world_admin n i = on_kafka (km_create_partitions n i)"
  "ac_deleteTopic world_admin n = on_kafka (km_delete_topic n)"
  "ac_createACLs world_admin as = on_kafka (km_create_acls as)"
  "ac_deleteACLs world_admin as = on_kafka (km_delete_acls as)"
  "ac_setQuota world_admin e l = on_kafka (km_set_quota e l)"
  "ac_deleteQuota world_admin e ks = on_kafka (km_delete_quota e ks)"
  "ac_upsertScram world_admin u = on_kafka (km_upsert_scram u)"
  "ac_deleteScram world_admin n mech = on_kafka (km_delete_scram n mech)"
  by (simp_all add: world_admin_def)

lemma world_clients_simps [simp]:
  "cl_kafka (world_clients s m r p) = world_admin"
  "cl_schema (world_clients s m r p) = (if s then Some world_schema else None)"
  "cl_mds (world_clients s m r p) = (if m then Some world_mds else None)"
  "cl_mirrors (world_clients s m r p) = (if r then Some (mirror_writer world_admin world_rest) else None)"
  "mc_addRoleBinding world_mds b = on_mds (mm_add_role_binding b)"
  "mc_removeRoleBinding world_mds b = on_mds (mm_remove_role_binding b)"
  "sc_registerSchema world_schema n d = on_schema (sm_register_schema n d)"
  "sc_setCompatibility world_schema n l = on_schema (sm_set_compatibility n l)"
  "sc_deleteSubject world_schema n = on_schema (sm_delete_subject n)"
  "mw_createMirror (mirror_writer k rc) op = create_mirror k rc op"
  "mw_alterMirrorConfig (mirror_writer k rc) op = alter_mirror_config k rc op"
  by (simp_all add: world_clients_def world_mds_def world_schema_def mirror_writer_def)

lemmas dispatch_simps = dispatch_def dispatch_schema_def dispatch_role_binding_def is_schema_op_def
  is_role_binding_op_def frame on_own split_beta

lemma scram_frames:
  "km_acls (cw_kafka (fst (upsert_scram (world_clients s m r p) op w))) = km_acls (cw_kafka w)"
  "km_topics (cw_kafka (fst (upsert_scram (world_clients s m r p) op w))) = km_topics (cw_kafka w)"
  "km_quotas (cw_kafka (fst (upsert_scram (world_clients s m r p) op w))) = km_quotas (cw_kafka w)"
  "cw_mds (fst (upsert_scram (world_clients s m r p) op w)) = cw_mds w"
  by (rule upsert_scram_frame [where F = "\<lambda>w. km_acls (cw_kafka w)"], simp_all add: frame on_own)
    (rule upsert_scram_frame [where F = "\<lambda>w. km_topics (cw_kafka w)"], simp_all add: frame on_own,
     rule upsert_scram_frame [where F = "\<lambda>w. km_quotas (cw_kafka w)"], simp_all add: frame on_own,
     rule upsert_scram_frame [where F = cw_mds], simp_all add: frame on_own)

lemma dispatch_acls:
  assumes "dispatch (world_clients s m r p) op w f = (w', f', e)"
  shows "case (op_action op, op_acl op) of
       (CreateAcl, Some a) \<Rightarrow> (cw_kafka w', e) = km_create_acls [a] (cw_kafka w)
     | (DeleteAcl, Some a) \<Rightarrow> (cw_kafka w', e) = km_delete_acls [a] (cw_kafka w)
     | _ \<Rightarrow> km_acls (cw_kafka w') = km_acls (cw_kafka w)"
proof -
  have "w' = fst (dispatch (world_clients s m r p) op w f)"
    "e = snd (snd (dispatch (world_clients s m r p) op w f))" by (simp_all add: assms)
  then show ?thesis
    using scram_frames [of s m r p op w]
    by (cases "op_action op") (simp_all add: dispatch_simps split: option.split)
qed

lemma dispatch_quotas:
  assumes "dispatch (world_clients s m r p) op w f = (w', f', e)"
  shows "case op_action op of
       SetQuota \<Rightarrow> (cw_kafka w', e) = km_set_quota (op_quotaEntity op) (op_quotaLimits op) (cw_kafka w)
     | UpdateQuota \<Rightarrow> (cw_kafka w', e) = km_set_quota (op_quotaEntity op) (op_quotaLimits op) (cw_kafka w)
     | RemoveQuota \<Rightarrow>
         (cw_kafka w', e) = km_delete_quota (op_quotaEntity op) (mkeys (op_quotaLimits op)) (cw_kafka w)
     | _ \<Rightarrow> km_quotas (cw_kafka w') = km_quotas (cw_kafka w)"
proof -
  have "w' = fst (dispatch (world_clients s m r p) op w f)"
    "e = snd (snd (dispatch (world_clients s m r p) op w f))" by (simp_all add: assms)
  then show ?thesis
    using scram_frames [of s m r p op w]
    by (cases "op_action op") (simp_all add: dispatch_simps split: option.split)
qed

lemma dispatch_topics:
  assumes "dispatch (world_clients s m r p) op w f = (w', f', e)"
  shows "case op_action op of
       CreateTopic \<Rightarrow> (cw_kafka w', e) = km_create_topic
           \<lparr>tsp_name = op_target op, tsp_partitions = op_partitions op,
            tsp_replicationFactor = op_replicationFactor op, tsp_config = op_config op\<rparr> (cw_kafka w)
     | UpdateTopicConfig \<Rightarrow>
         (cw_kafka w', e) = km_update_topic_config (op_target op) [(op_field op, op_to op)] (cw_kafka w)
     | IncreasePartitions \<Rightarrow>
         (cw_kafka w', e) = km_create_partitions (op_target op) (op_partitions op) (cw_kafka w)
     | DeleteTopic \<Rightarrow> (cw_kafka w', e) = km_delete_topic (op_target op) (cw_kafka w)
     | _ \<Rightarrow> km_topics (cw_kafka w') = km_topics (cw_kafka w)"
proof -
  have "w' = fst (dispatch (world_clients s m r p) op w f)"
    "e = snd (snd (dispatch (world_clients s m r p) op w f))" by (simp_all add: assms)
  then show ?thesis
    using scram_frames [of s m r p op w]
    by (cases "op_action op") (simp_all add: dispatch_simps split: option.split)
qed

lemma dispatch_bindings:
  assumes "dispatch (world_clients s m r p) op w f = (w', f', e)"
  shows "case (m, op_action op, op_roleBinding op) of
       (True, AddRoleBinding, Some b) \<Rightarrow> (cw_mds w', e) = mm_add_role_binding (to_mds b) (cw_mds w)
     | (True, RemoveRoleBinding, Some b) \<Rightarrow>
         (cw_mds w', e) = mm_remove_role_binding (to_mds b) (cw_mds w)
     | _ \<Rightarrow> cw_mds w' = cw_mds w \<and> (op_action op \<in> {AddRoleBinding, RemoveRoleBinding} \<longrightarrow> e \<noteq> None)"
proof -
  have "w' = fst (dispatch (world_clients s m r p) op w f)"
    "e = snd (snd (dispatch (world_clients s m r p) op w f))" by (simp_all add: assms)
  then show ?thesis
    using scram_frames [of s m r p op w]
    by (cases "op_action op"; cases m) (simp_all add: dispatch_simps split: option.split)
qed

subsection \<open>ACLs\<close>

definition acl_adds :: "operation \<Rightarrow> acl_state option" where
  "acl_adds op = (if op_action op = CreateAcl then op_acl op else None)"

definition acl_dels :: "operation \<Rightarrow> acl_state option" where
  "acl_dels op = (if op_action op = DeleteAcl then op_acl op else None)"

lemma km_create_acls_cases:
  "km_create_acls as c = (c', e) \<Longrightarrow>
   km_acls c' = (if e = None then km_acls c @ as else km_acls c)"
  by (auto simp: km_create_acls_def km_mutate_def km_record_def split: option.splits)

lemma km_delete_acls_cases:
  "km_delete_acls as c = (c', e) \<Longrightarrow>
   km_acls c' = (if e = None then filter (\<lambda>a. a \<notin> set as) (km_acls c) else km_acls c)"
  by (auto simp: km_delete_acls_def km_mutate_def km_record_def split: option.splits if_splits)

lemma dispatch_acl_set:
  assumes "dispatch (world_clients s m r p) op w f = (w', f', e)"
  shows "a \<in> set (km_acls (cw_kafka w')) \<longleftrightarrow>
    (if e = None then acl_adds op = Some a \<or> a \<in> set (km_acls (cw_kafka w)) \<and> acl_dels op \<noteq> Some a
     else a \<in> set (km_acls (cw_kafka w)))"
  using dispatch_acls [OF assms]
  by (auto simp: acl_adds_def acl_dels_def split: action.splits option.splits
      dest!: km_create_acls_cases [OF sym] km_delete_acls_cases [OF sym])

interpretation acl_store: member_store "world_clients s m r p"
    "\<lambda>w a. a \<in> set (km_acls (cw_kafka w))" acl_adds acl_dels "\<lambda>_. True" for s m r p
  by unfold_locales (auto dest!: dispatch_acl_set)

subsection \<open>Role bindings\<close>

definition rb_adds :: "operation \<Rightarrow> string option" where
  "rb_adds op =
     (if op_action op = AddRoleBinding then map_option (\<lambda>b. mds_key (to_mds b)) (op_roleBinding op)
      else None)"

definition rb_dels :: "operation \<Rightarrow> string option" where
  "rb_dels op =
     (if op_action op = RemoveRoleBinding then map_option (\<lambda>b. mds_key (to_mds b)) (op_roleBinding op)
      else None)"

lemma mm_add_cases:
  "mm_add_role_binding b c = (c', e) \<Longrightarrow>
   k \<in> dom (mget (mm_bindings c')) \<longleftrightarrow> (e = None \<and> k = mds_key b) \<or> k \<in> dom (mget (mm_bindings c))"
  by (auto simp: mm_add_role_binding_def mm_record_def Let_def update_conv' split: option.splits if_splits)

lemma mm_remove_cases:
  "mm_remove_role_binding b c = (c', e) \<Longrightarrow>
   k \<in> dom (mget (mm_bindings c')) \<longleftrightarrow> k \<in> dom (mget (mm_bindings c)) \<and> (e = None \<longrightarrow> k \<noteq> mds_key b)"
  by (auto simp: mm_remove_role_binding_def mm_record_def Let_def delete_conv' split: option.splits if_splits)

lemma dispatch_bindings_cases:
  assumes "dispatch (world_clients s m r p) op w f = (w', f', e)"
  obtains (other) "cw_mds w' = cw_mds w" "e = None \<Longrightarrow> rb_adds op = None \<and> rb_dels op = None"
  | (add) b where "op_roleBinding op = Some b" "rb_adds op = Some (mds_key (to_mds b))" "rb_dels op = None"
      "mm_add_role_binding (to_mds b) (cw_mds w) = (cw_mds w', e)"
  | (remove) b where "op_roleBinding op = Some b" "rb_adds op = None" "rb_dels op = Some (mds_key (to_mds b))"
      "mm_remove_role_binding (to_mds b) (cw_mds w) = (cw_mds w', e)"
proof (cases "m \<and> op_action op \<in> {AddRoleBinding, RemoveRoleBinding} \<and> op_roleBinding op \<noteq> None")
  case False
  show ?thesis
  proof (rule other)
    show "cw_mds w' = cw_mds w"
      using dispatch_bindings [OF assms] False by (cases m; cases "op_action op") auto
    show "rb_adds op = None \<and> rb_dels op = None" if "e = None"
      using dispatch_bindings [OF assms] False that
      by (cases m; cases "op_action op") (auto simp: rb_adds_def rb_dels_def)
  qed
next
  case True
  then obtain b where b: "op_roleBinding op = Some b" by blast
  from True consider "op_action op = AddRoleBinding" | "op_action op = RemoveRoleBinding" by blast
  then show ?thesis
  proof cases
    case 1
    then show ?thesis using True b dispatch_bindings [OF assms] add [of b]
      by (simp add: rb_adds_def rb_dels_def)
  next
    case 2
    then show ?thesis using True b dispatch_bindings [OF assms] remove [of b]
      by (simp add: rb_adds_def rb_dels_def)
  qed
qed

lemma dispatch_binding_keys:
  assumes "dispatch (world_clients s m r p) op w f = (w', f', e)"
  shows "k \<in> dom (mget (mm_bindings (cw_mds w'))) \<longleftrightarrow>
    (if e = None then rb_adds op = Some k \<or> k \<in> dom (mget (mm_bindings (cw_mds w))) \<and> rb_dels op \<noteq> Some k
     else k \<in> dom (mget (mm_bindings (cw_mds w))))"
  using assms
proof (cases rule: dispatch_bindings_cases)
  case other
  then show ?thesis by simp
next
  case (add b)
  show ?thesis using mm_add_cases [OF add(4), of k] add(2,3) by auto
next
  case (remove b)
  show ?thesis using mm_remove_cases [OF remove(4), of k] remove(2,3) by auto
qed

text \<open>Every binding is stored under its own key.\<close>

definition mds_keyed :: "mds_mock \<Rightarrow> bool" where
  "mds_keyed c \<longleftrightarrow> (\<forall>k b. mget (mm_bindings c) k = Some b \<longrightarrow> mds_key b = k)"

lemma mm_add_keyed: "mm_add_role_binding b c = (c', e) \<Longrightarrow> mds_keyed c \<Longrightarrow> mds_keyed c'"
  by (auto simp: mm_add_role_binding_def mm_record_def Let_def mds_keyed_def update_conv'
      split: option.splits if_splits)

lemma mm_remove_keyed: "mm_remove_role_binding b c = (c', e) \<Longrightarrow> mds_keyed c \<Longrightarrow> mds_keyed c'"
  by (auto simp: mm_remove_role_binding_def mm_record_def Let_def mds_keyed_def delete_conv'
      split: option.splits if_splits)

lemma dispatch_keyed:
  assumes "dispatch (world_clients s m r p) op w f = (w', f', e)" "mds_keyed (cw_mds w)"
  shows "mds_keyed (cw_mds w')"
  using assms(1)
  by (cases rule: dispatch_bindings_cases) (use assms(2) in \<open>auto dest: mm_add_keyed mm_remove_keyed\<close>)

interpretation rb_store: member_store "world_clients s m r p"
    "\<lambda>w k. k \<in> dom (mget (mm_bindings (cw_mds w)))" rb_adds rb_dels "\<lambda>w. mds_keyed (cw_mds w)"
    for s m r p
proof
  fix w op failed w' failed' res
  assume "mds_keyed (cw_mds w)" "dispatch (world_clients s m r p) op w failed = (w', failed', res)"
  then show "mds_keyed (cw_mds w')" by (rule dispatch_keyed [rotated])
qed (use dispatch_binding_keys in auto)

text \<open>The bindings themselves: an add keeps an existing entry, nothing else changes one.\<close>

definition rb_eff :: "operation \<Rightarrow> string \<Rightarrow> mds_role_binding option \<Rightarrow> mds_role_binding option" where
  "rb_eff op k v =
     (if rb_adds op = Some k then
        (case v of Some b \<Rightarrow> Some b | None \<Rightarrow> map_option to_mds (op_roleBinding op))
      else if rb_dels op = Some k then None
      else v)"

lemma mm_add_values:
  "mm_add_role_binding b c = (c', e) \<Longrightarrow>
   mget (mm_bindings c') k =
     (if e = None \<and> k = mds_key b \<and> mget (mm_bindings c) k = None then Some b else mget (mm_bindings c) k)"
  by (auto simp: mm_add_role_binding_def mm_record_def Let_def update_conv' split: option.splits if_splits)

lemma mm_remove_values:
  "mm_remove_role_binding b c = (c', e) \<Longrightarrow>
   mget (mm_bindings c') k = (if e = None \<and> k = mds_key b then None else mget (mm_bindings c) k)"
  by (auto simp: mm_remove_role_binding_def mm_record_def Let_def delete_conv' split: option.splits if_splits)

lemma dispatch_binding_values:
  assumes "dispatch (world_clients s m r p) op w f = (w', f', e)"
  shows "mget (mm_bindings (cw_mds w')) k =
    (if e = None then rb_eff op k (mget (mm_bindings (cw_mds w)) k) else mget (mm_bindings (cw_mds w)) k)"
  using assms
proof (cases rule: dispatch_bindings_cases)
  case other
  then show ?thesis by (simp add: rb_eff_def)
next
  case (add b)
  then show ?thesis using mm_add_values [OF add(4), of k] by (auto simp: rb_eff_def split: option.split)
next
  case (remove b)
  show ?thesis using mm_remove_values [OF remove(4), of k] remove(1-3) by (auto simp: rb_eff_def)
qed

interpretation rb_values: atomic_store "world_clients s m r p"
    "\<lambda>w. mget (mm_bindings (cw_mds w))" rb_eff "\<lambda>w. mds_keyed (cw_mds w)" for s m r p
proof
  fix w op failed w' failed' res
  assume "mds_keyed (cw_mds w)" "dispatch (world_clients s m r p) op w failed = (w', failed', res)"
  then show "mds_keyed (cw_mds w')" by (rule dispatch_keyed [rotated])
qed (use dispatch_binding_values in auto)

lemma rb_values_kept:
  assumes "\<forall>r \<in> set rs. res_status r = StSucceeded \<longrightarrow> rb_dels (res_op r) \<noteq> Some k"
  shows "fold (rb_values.step k) rs (Some b) = Some b"
  using assms by (induction rs) (auto simp: rb_values.step_def rb_eff_def)

end
