(* ===== verification/Mock_Stores.thy ===== *)
theory Mock_Stores
  imports Mock_World
begin

section \<open>Topics, quotas and credentials as stores\<close>

text \<open>
  The keyed state of the in-memory cluster: topics by name, quotas by entity key, SCRAM credentials by
  user and mechanism. Each is a store of the executor in the sense of \<^theory_text>\<open>Run_Store\<close>.
\<close>

subsection \<open>Quotas\<close>

definition quota_after :: "quota_entity_component list \<Rightarrow> (string, float64) gomap \<Rightarrow> quota_state option \<Rightarrow> quota_state" where
  "quota_after e l v =
     (let q = (case v of Some q \<Rightarrow> q | None \<Rightarrow> \<lparr>qst_entity = sort_key qc_type e, qst_limits = []\<rparr>)
      in q\<lparr>qst_limits := set_limits l (qst_limits q)\<rparr>)"

definition quota_removed :: "string list \<Rightarrow> quota_state option \<Rightarrow> quota_state option" where
  "quota_removed ks v =
     (case v of None \<Rightarrow> None
      | Some q \<Rightarrow>
          let left = fold AList.delete ks (qst_limits q)
          in if left = [] then None else Some (q\<lparr>qst_limits := left\<rparr>))"

definition quota_eff :: "operation \<Rightarrow> string \<Rightarrow> quota_state option \<Rightarrow> quota_state option" where
  "quota_eff op k v =
     (if km_quota_key (op_quotaEntity op) \<noteq> k then v
      else if op_action op \<in> {SetQuota, UpdateQuota} then
        Some (quota_after (op_quotaEntity op) (op_quotaLimits op) v)
      else if op_action op = RemoveQuota then quota_removed (mkeys (op_quotaLimits op)) v
      else v)"

lemma km_set_quota_cases:
  "km_set_quota e l c = (c', r) \<Longrightarrow>
   mget (km_quotas c') k =
     (if r = None \<and> k = km_quota_key e then Some (quota_after e l (mget (km_quotas c) k))
      else mget (km_quotas c) k)"
  by (auto simp: km_set_quota_def km_mutate_def km_record_def km_upsert_quota_def quota_after_def
      Let_def update_conv' split: option.splits)

lemma km_delete_quota_cases:
  "km_delete_quota e ks c = (c', r) \<Longrightarrow>
   mget (km_quotas c') k =
     (if r = None \<and> k = km_quota_key e then quota_removed ks (mget (km_quotas c) k)
      else mget (km_quotas c) k)"
  by (auto simp: km_delete_quota_def km_mutate_def km_record_def quota_removed_def
      Let_def update_conv' delete_conv' split: option.splits if_splits)

lemma dispatch_quota_store:
  assumes "dispatch (world_clients s m r p) op w f = (w', f', e)"
  shows "mget (km_quotas (cw_kafka w')) k =
    (if e = None then quota_eff op k (mget (km_quotas (cw_kafka w)) k)
     else mget (km_quotas (cw_kafka w)) k)"
proof (cases "op_action op \<in> {SetQuota, UpdateQuota, RemoveQuota}")
  case False
  then have "km_quotas (cw_kafka w') = km_quotas (cw_kafka w)"
    using dispatch_quotas [OF assms] by (cases "op_action op") auto
  then show ?thesis using False by (auto simp: quota_eff_def)
next
  case True
  then consider "op_action op \<in> {SetQuota, UpdateQuota}" | "op_action op = RemoveQuota" by blast
  then show ?thesis
  proof cases
    case 1
    then have "km_set_quota (op_quotaEntity op) (op_quotaLimits op) (cw_kafka w) = (cw_kafka w', e)"
      using dispatch_quotas [OF assms] by auto
    from km_set_quota_cases [OF this] show ?thesis using 1 by (auto simp: quota_eff_def)
  next
    case 2
    then have "km_delete_quota (op_quotaEntity op) (mkeys (op_quotaLimits op)) (cw_kafka w) = (cw_kafka w', e)"
      using dispatch_quotas [OF assms] by auto
    from km_delete_quota_cases [OF this] show ?thesis using 2 by (auto simp: quota_eff_def)
  qed
qed

lemma sort_key_idem [simp]: "sort_key f (sort_key f xs) = sort_key f xs"
  by (rule sort_key_id_if_sorted) simp

lemma km_quota_key_sorted [simp]: "km_quota_key (sort_key qc_type e) = km_quota_key e"
  by (simp add: km_quota_key_def)

text \<open>Every quota is stored under the key of its entity.\<close>

definition quota_keyed :: "kafka_mock \<Rightarrow> bool" where
  "quota_keyed c \<longleftrightarrow> (\<forall>k q. mget (km_quotas c) k = Some q \<longrightarrow> km_quota_key (qst_entity q) = k)"

lemma quota_eff_keyed:
  "quota_eff op k v = Some q \<Longrightarrow> (\<And>q'. v = Some q' \<Longrightarrow> km_quota_key (qst_entity q') = k) \<Longrightarrow>
   km_quota_key (qst_entity q) = k"
  by (auto simp: quota_eff_def quota_after_def quota_removed_def Let_def split: if_splits option.splits)

interpretation quota_store: atomic_store "world_clients s m r p"
    "\<lambda>w. mget (km_quotas (cw_kafka w))" quota_eff "\<lambda>w. quota_keyed (cw_kafka w)" for s m r p
proof
  fix w op failed w' failed' res
  assume "quota_keyed (cw_kafka w)" "dispatch (world_clients s m r p) op w failed = (w', failed', res)"
  then show "quota_keyed (cw_kafka w')"
    using dispatch_quota_store [of s m r p op w failed w' failed' res] quota_eff_keyed
    unfolding quota_keyed_def by (metis (mono_tags, lifting))
qed (use dispatch_quota_store in auto)

subsection \<open>Topics\<close>

definition topic_eff :: "operation \<Rightarrow> string \<Rightarrow> topic_state option \<Rightarrow> topic_state option" where
  "topic_eff op n v =
     (if op_target op \<noteq> n then v
      else if op_action op = CreateTopic then
        Some \<lparr>tst_name = n, tst_partitions = op_partitions op,
          tst_replicationFactor = op_replicationFactor op, tst_config = op_config op\<rparr>
      else if op_action op = UpdateTopicConfig then
        map_option (\<lambda>t. t\<lparr>tst_config := set_config [(op_field op, op_to op)] (tst_config t)\<rparr>) v
      else if op_action op = IncreasePartitions then
        map_option (\<lambda>t. t\<lparr>tst_partitions := op_partitions op\<rparr>) v
      else if op_action op = DeleteTopic then None
      else v)"

definition topic_named :: "kafka_mock \<Rightarrow> string \<Rightarrow> topic_state option" where
  "topic_named c n = find (\<lambda>t. tst_name t = n) (km_topics c)"

lemma index_from_None: "index_from i ts n = None \<longleftrightarrow> n \<notin> tst_name ` set ts"
  by (induction ts arbitrary: i) auto

lemma index_from_Some:
  "index_from i ts n = Some j \<Longrightarrow>
   \<exists>us t vs. ts = us @ t # vs \<and> j = i + length us \<and> tst_name t = n \<and> n \<notin> tst_name ` set us"
proof (induction ts arbitrary: i)
  case Nil
  then show ?case by simp
next
  case (Cons a ts)
  show ?case
  proof (cases "tst_name a = n")
    case True
    then show ?thesis using Cons.prems by (intro exI [of _ "[]"]) auto
  next
    case False
    then obtain us t vs where "ts = us @ t # vs" "j = Suc i + length us" "tst_name t = n"
      "n \<notin> tst_name ` set us" using Cons.IH [of "Suc i"] Cons.prems by auto
    then show ?thesis using False by (intro exI [of _ "a # us"]) auto
  qed
qed

lemma find_in_append: "find P (xs @ ys) = (case find P xs of Some x \<Rightarrow> Some x | None \<Rightarrow> find P ys)"
  by (induction xs) auto

lemma find_name_None: "find (\<lambda>t. tst_name t = n) ts = None \<longleftrightarrow> n \<notin> tst_name ` set ts"
  by (auto simp: find_None_iff)

lemma index_of_topic_cases:
  obtains (absent) "km_index_of_topic c n = None" "topic_named c n = None" "n \<notin> tst_name ` set (km_topics c)"
  | (present) us t vs where "km_index_of_topic c n = Some (length us)" "km_topics c = us @ t # vs"
      "tst_name t = n" "n \<notin> tst_name ` set us" "topic_named c n = Some t"
proof (cases "km_index_of_topic c n")
  case None
  then show ?thesis using absent
    by (simp add: km_index_of_topic_def index_from_None topic_named_def find_name_None)
next
  case (Some j)
  then obtain us t vs where "km_topics c = us @ t # vs" "j = length us" "tst_name t = n"
    "n \<notin> tst_name ` set us" unfolding km_index_of_topic_def by (auto dest: index_from_Some)
  moreover then have "topic_named c n = Some t"
    using find_name_None [of n us] by (simp add: topic_named_def find_in_append)
  ultimately show ?thesis using present Some by blast
qed

definition topic_names_distinct :: "kafka_mock \<Rightarrow> bool" where
  "topic_names_distinct c \<longleftrightarrow> distinct (map tst_name (km_topics c))"

lemma calls_irrelevant [simp]:
  "topic_named (c\<lparr>km_calls := x\<rparr>) = topic_named c"
  "topic_names_distinct (c\<lparr>km_calls := x\<rparr>) = topic_names_distinct c"
  "km_index_of_topic (c\<lparr>km_calls := x\<rparr>) = km_index_of_topic c"
  by (auto simp: topic_named_def topic_names_distinct_def km_index_of_topic_def fun_eq_iff)

lemma km_mutate_cases:
  assumes "km_mutate sig body c = (c', e)"
  obtains (injected) x err where "e = Some err" "c' = c\<lparr>km_calls := x\<rparr>"
  | (body) x where "body (c\<lparr>km_calls := x\<rparr>) = (c', e)"
proof (cases "mget (km_failures c) sig")
  case None
  then show ?thesis using assms body by (simp add: km_mutate_def km_record_def)
next
  case (Some err)
  then have "e = Some err \<and> c' = c\<lparr>km_calls := km_calls c @ [sig]\<rparr>"
    using assms by (auto simp: km_mutate_def km_record_def)
  then show ?thesis using injected by blast
qed

lemma topic_named_update:
  assumes "km_topics c = us @ t # vs" "tst_name t' = tst_name t" "tst_name t \<notin> tst_name ` set us"
    "km_topics c' = us @ t' # vs"
  shows "topic_named c' n = (if n = tst_name t then Some t' else topic_named c n)"
    "topic_names_distinct c' = topic_names_distinct c"
  using assms find_name_None [of "tst_name t" us]
  by (auto simp: topic_named_def topic_names_distinct_def find_in_append split: option.split)

lemma topic_named_remove:
  assumes "km_topics c = us @ t # vs" "km_topics c' = us @ vs" "topic_names_distinct c"
  shows "topic_named c' n = (if n = tst_name t then None else topic_named c n)"
    "topic_names_distinct c'"
  using assms find_name_None [of "tst_name t" us] find_name_None [of "tst_name t" vs]
  by (auto simp: topic_named_def topic_names_distinct_def find_in_append split: option.split)

text \<open>The four mutations: the state of every topic name after the call.\<close>

lemma km_create_topic_cases:
  assumes "km_create_topic t c = (c', e)"
  shows "topic_named c' n =
    (if e = None \<and> n = tsp_name t then
       Some \<lparr>tst_name = n, tst_partitions = tsp_partitions t,
         tst_replicationFactor = tsp_replicationFactor t, tst_config = tsp_config t\<rparr>
     else topic_named c n) \<and> (topic_names_distinct c \<longrightarrow> topic_names_distinct c')"
  using assms unfolding km_create_topic_def
proof (cases rule: km_mutate_cases)
  case injected
  then show ?thesis by simp
next
  case (body x)
  show ?thesis
  proof (cases rule: index_of_topic_cases [of c "tsp_name t"])
    case absent
    then show ?thesis using body find_name_None [of "tsp_name t" "km_topics c"]
      by (auto simp: topic_named_def topic_names_distinct_def find_in_append split: option.split)
  next
    case present
    then show ?thesis using body by auto
  qed
qed

lemma km_update_topic_config_cases:
  assumes "km_update_topic_config tn kvs c = (c', e)"
  shows "topic_named c' n =
    (if e = None \<and> n = tn then map_option (\<lambda>t. t\<lparr>tst_config := set_config kvs (tst_config t)\<rparr>) (topic_named c n)
     else topic_named c n) \<and> (topic_names_distinct c \<longrightarrow> topic_names_distinct c')"
  using assms unfolding km_update_topic_config_def
proof (cases rule: km_mutate_cases)
  case injected
  then show ?thesis by simp
next
  case (body x)
  show ?thesis
  proof (cases rule: index_of_topic_cases [of c tn])
    case absent
    then show ?thesis using body by auto
  next
    case (present us t vs)
    let ?t = "t\<lparr>tst_config := set_config kvs (tst_config t)\<rparr>"
    have c': "km_topics c' = us @ ?t # vs" "e = None"
      using body present by (auto simp: Let_def)
    show ?thesis
      using topic_named_update(1) [OF present(2) _ _ c'(1), of n]
        topic_named_update(2) [OF present(2) _ _ c'(1)] present c'(2) by auto
  qed
qed

lemma km_create_partitions_cases:
  assumes "km_create_partitions tn cnt c = (c', e)"
  shows "topic_named c' n =
    (if e = None \<and> n = tn then map_option (\<lambda>t. t\<lparr>tst_partitions := cnt\<rparr>) (topic_named c n)
     else topic_named c n) \<and> (topic_names_distinct c \<longrightarrow> topic_names_distinct c')"
  using assms unfolding km_create_partitions_def
proof (cases rule: km_mutate_cases)
  case injected
  then show ?thesis by simp
next
  case (body x)
  show ?thesis
  proof (cases rule: index_of_topic_cases [of c tn])
    case absent
    then show ?thesis using body by auto
  next
    case (present us t vs)
    show ?thesis
    proof (cases "cnt < tst_partitions t")
      case True
      then show ?thesis using body present by (auto simp: Let_def)
    next
      case False
      then have c': "km_topics c' = us @ (t\<lparr>tst_partitions := cnt\<rparr>) # vs" "e = None"
        using body present by (auto simp: Let_def)
      show ?thesis
        using topic_named_update(1) [OF present(2) _ _ c'(1), of n]
        topic_named_update(2) [OF present(2) _ _ c'(1)] present c'(2) by auto
    qed
  qed
qed

lemma km_delete_topic_cases:
  assumes "km_delete_topic tn c = (c', e)" "topic_names_distinct c"
  shows "topic_named c' n = (if e = None \<and> n = tn then None else topic_named c n) \<and>
    topic_names_distinct c'"
  using assms(1) unfolding km_delete_topic_def
proof (cases rule: km_mutate_cases)
  case injected
  then show ?thesis using assms(2) by simp
next
  case (body x)
  show ?thesis
  proof (cases rule: index_of_topic_cases [of c tn])
    case absent
    then show ?thesis using body assms(2) by auto
  next
    case (present us t vs)
    then have c': "km_topics c' = us @ vs" "e = None" using body by auto
    show ?thesis
      using topic_named_remove(1) [OF present(2) c'(1) assms(2), of n]
        topic_named_remove(2) [OF present(2) c'(1) assms(2)] present c'(2) by auto
  qed
qed

lemma dispatch_topic_store:
  assumes "dispatch (world_clients s m r p) op w f = (w', f', e)" "topic_names_distinct (cw_kafka w)"
  shows "topic_named (cw_kafka w') n =
    (if e = None then topic_eff op n (topic_named (cw_kafka w) n) else topic_named (cw_kafka w) n) \<and>
    topic_names_distinct (cw_kafka w')"
proof (cases "op_action op \<in> {CreateTopic, UpdateTopicConfig, IncreasePartitions, DeleteTopic}")
  case False
  then have "km_topics (cw_kafka w') = km_topics (cw_kafka w)"
    using dispatch_topics [OF assms(1)] by (cases "op_action op") auto
  then show ?thesis using False assms(2)
    by (auto simp: topic_eff_def topic_named_def topic_names_distinct_def)
next
  case True
  then consider "op_action op = CreateTopic" | "op_action op = UpdateTopicConfig"
    | "op_action op = IncreasePartitions" | "op_action op = DeleteTopic" by blast
  then show ?thesis
  proof cases
    case 1
    with dispatch_topics [OF assms(1)] show ?thesis
      using assms(2) by (auto simp: topic_eff_def dest!: km_create_topic_cases [OF sym, of _ _ _ _ n])
  next
    case 2
    with dispatch_topics [OF assms(1)] show ?thesis
      using assms(2) by (auto simp: topic_eff_def dest!: km_update_topic_config_cases [OF sym, of _ _ _ _ _ n])
  next
    case 3
    with dispatch_topics [OF assms(1)] show ?thesis
      using assms(2) by (auto simp: topic_eff_def dest!: km_create_partitions_cases [OF sym, of _ _ _ _ _ n])
  next
    case 4
    with dispatch_topics [OF assms(1)] km_delete_topic_cases [OF sym assms(2), of "cw_kafka w'" e "op_target op" n]
    show ?thesis by (auto simp: topic_eff_def)
  qed
qed

interpretation topic_store: atomic_store "world_clients s m r p"
    "\<lambda>w. topic_named (cw_kafka w)" topic_eff "\<lambda>w. topic_names_distinct (cw_kafka w)" for s m r p
  by unfold_locales (use dispatch_topic_store in auto)

end
