(* ===== verification/Convergence.thy ===== *)
theory Convergence
  imports Cli_Plan Mock_Stores
begin

section \<open>What a run achieves\<close>

text \<open>
  Diff, executor and services together: read the live state, plan, apply, read again, plan again.
  For the kinds that are sets of entries (ACLs, role bindings) the second plan is exactly what the run
  did not get done, whatever failed; for the keyed kinds a run without failures leaves nothing to do.
\<close>

context add_prune
begin

text \<open>
  \<open>L\<close> and \<open>L'\<close> are the live items before and after, \<open>succ\<close> the operations that succeeded. The
  assumptions say what the store did; the desired set is its own keep-set.
\<close>

lemma retry:
  assumes D: "inj_on (apk_key k) (set D)"
    and from_L: "\<And>x. x \<in> set L' \<Longrightarrow> 
      x \<in> set L \<and> \<not> (apk_contains k x \<and> apk_key k x \<notin> apk_key k ` set D \<and> succ (prune_op k x)) \<or>
      (\<exists>it \<in> set D. apk_key k x = apk_key k it \<and> apk_key k it \<notin> apk_key k ` set L \<and> succ (add_op k it))"
    and keeps: "\<And>x. x \<in> set L \<Longrightarrow>
      \<not> (apk_contains k x \<and> apk_key k x \<notin> apk_key k ` set D \<and> succ (prune_op k x)) \<Longrightarrow> x \<in> set L'"
    and adds: "\<And>it. it \<in> set D \<Longrightarrow> apk_key k it \<notin> apk_key k ` set L \<Longrightarrow> succ (add_op k it) \<Longrightarrow>
      apk_key k it \<in> apk_key k ` set L'"
  shows "set (add_prune_ops k D D L') = {op \<in> set (add_prune_ops k D D L). \<not> succ op}"
proof -
  have creates: "add_op k ` {it \<in> set D. apk_key k it \<notin> apk_key k ` set L'} =
      {op \<in> add_op k ` {it \<in> set D. apk_key k it \<notin> apk_key k ` set L}. \<not> succ op}"
  proof (intro subset_antisym subsetI)
    fix op assume "op \<in> add_op k ` {it \<in> set D. apk_key k it \<notin> apk_key k ` set L'}"
    then obtain it where it: "it \<in> set D" "apk_key k it \<notin> apk_key k ` set L'" "op = add_op k it" by blast
    have "apk_key k it \<notin> apk_key k ` set L"
    proof
      assume "apk_key k it \<in> apk_key k ` set L"
      then obtain x where "x \<in> set L" "apk_key k x = apk_key k it" by (metis imageE)
      then show False using keeps [of x] it(1,2) by (metis imageI)
    qed
    then show "op \<in> {op \<in> add_op k ` {it \<in> set D. apk_key k it \<notin> apk_key k ` set L}. \<not> succ op}"
      using it adds by blast
  next
    fix op assume "op \<in> {op \<in> add_op k ` {it \<in> set D. apk_key k it \<notin> apk_key k ` set L}. \<not> succ op}"
    then obtain it where it: "it \<in> set D" "apk_key k it \<notin> apk_key k ` set L" "op = add_op k it" "\<not> succ op"
      by blast
    have "apk_key k it \<notin> apk_key k ` set L'"
    proof
      assume "apk_key k it \<in> apk_key k ` set L'"
      then obtain x where x: "x \<in> set L'" "apk_key k x = apk_key k it" by (metis imageE)
      then have "x \<notin> set L" using it(2) by (metis imageI)
      then obtain it2 where "it2 \<in> set D" "apk_key k x = apk_key k it2" "succ (add_op k it2)"
        using from_L [OF x(1)] by blast
      then show False using D it x(2) by (metis inj_onD)
    qed
    then show "op \<in> add_op k ` {it \<in> set D. apk_key k it \<notin> apk_key k ` set L'}" using it by blast
  qed
  have prunes: "prune_op k ` {it \<in> set L'. apk_contains k it \<and> apk_key k it \<notin> apk_key k ` set D} =
      {op \<in> prune_op k ` {it \<in> set L. apk_contains k it \<and> apk_key k it \<notin> apk_key k ` set D}. \<not> succ op}"
  proof -
    have "x \<in> set L' \<longleftrightarrow> x \<in> set L \<and> \<not> succ (prune_op k x)"
      if "apk_contains k x" "apk_key k x \<notin> apk_key k ` set D" for x
      using from_L [of x] keeps [of x] that by (metis imageI)
    then show ?thesis by blast
  qed
  show ?thesis unfolding set_ops creates prunes by blast
qed

end

subsection \<open>The run on the in-memory services\<close>

definition world_services ::
    "bool \<Rightarrow> bool \<Rightarrow> bool \<Rightarrow> (value_from \<Rightarrow> go_error + string) \<Rightarrow> cli_world services" where
  "world_services hasSchema hasMDS hasREST passwords =
     \<lparr>sv_kafka = world_admin, sv_mds = Inr (if hasMDS then Some world_mds else None),
      sv_schema = Inr (if hasSchema then Some world_schema else None),
      sv_rest = Inr (if hasREST then Some world_rest else None), sv_passwords = passwords\<rparr>"

lemma run_clients_world:
  "run_clients (world_services s m r pw) pl =
     world_clients (s \<and> pl_schemas pl \<noteq> []) (m \<and> pl_roleBindings pl \<noteq> [])
       (r \<and> (pl_topics pl \<noteq> [] \<or> pl_mirrors pl \<noteq> [])) (if pl_users pl \<noteq> [] then Some pw else None)"
  by (simp add: run_clients_def world_services_def world_clients_def built_def)

text \<open>The operations of a run that did succeed.\<close>

definition succeeded :: "op_result list \<Rightarrow> operation \<Rightarrow> bool" where
  "succeeded rs op \<longleftrightarrow> (\<exists>r \<in> set rs. res_op r = op \<and> res_status r = StSucceeded)"

lemma read_live_fields:
  assumes "read_live sv pl w = Inr l"
  shows "read_when (pl_topics pl \<noteq> []) (ac_listTopics (sv_kafka sv)) w = Inr (l_topics l)"
    "\<exists>acls. read_when (pl_acls pl \<noteq> []) (ac_listACLs (sv_kafka sv)) w = Inr acls \<and> l_acls l = live_acls acls"
    "read_when (pl_quotas pl \<noteq> []) (ac_listQuotas (sv_kafka sv)) w = Inr (l_quotas l)"
    "read_role_bindings sv pl w = Inr (l_roleBindings l)"
    "read_users sv pl w = Inr (l_scramCredentials l)"
    "read_schemas sv pl w = Inr (l_globalCompatibility l, l_schemas l, l_supersededSchemas l)"
    "read_mirrors sv pl w = Inr (l_mirrors l)"
  using assms unfolding read_live_def by (auto simp: and_then_Inr)

subsection \<open>ACLs\<close>

lemma acl_to_state_live [simp]: "acl_to_state (live_acl a) = a"
  by (simp add: acl_to_state_def live_acl_def mk_acl_def)

lemma full_key_state: "acl_to_state a = acl_to_state b \<Longrightarrow> full_key a = full_key b"
  by (simp add: acl_to_state_def full_key_def subject_key_def)

lemma world_live_acls:
  assumes "read_live (world_services s m r pw) pl w = Inr l" "pl_acls pl \<noteq> []"
  shows "set (l_acls l) = live_acl ` set (km_acls (cw_kafka w))"
  using read_live_fields(2) [OF assms(1)] assms(2)
  by (auto simp: read_when_def world_services_def world_admin_def km_list_acls_def km_read_def
      live_acls_def split: option.splits)

lemma acl_ops_unguarded:
  assumes "guarded_topics d l = []"
  shows "{op \<in> set (compute d l). is_acl_op (op_action op)} = set (compute_acl_ops d l)"
proof -
  have "filter_acl_ops (guarded_topics d l) xs = xs" for xs
    using assms by (simp add: filter_acl_ops_def split: option.split)
  then have "op \<in> set (compute d l) \<longleftrightarrow> op \<in> set (compute_acl_ops d l)" if "is_acl_op (op_action op)" for op
    using compute_acl_part [of op d l] that by (auto simp: is_acl_op_def)
  moreover have "is_acl_op (op_action op)" if "op \<in> set (compute_acl_ops d l)" for op
    using compute_acl_actions [OF that] by (auto simp: is_acl_op_def)
  ultimately show ?thesis by blast
qed

lemma plan_acl_ops:
  "compute_acl_ops (plan_desired pl rot) l = add_prune_ops (acl_apk (pl_scope pl)) (pl_acls pl) (pl_acls pl) (l_acls l)"
  by (simp add: compute_acl_ops_def prune_inputs_def plan_desired_def)

text \<open>Which entry an operation of a diff adds or deletes.\<close>

abbreviation acl_walk_of :: "desired \<Rightarrow> acl add_prune_kind" where
  "acl_walk_of d \<equiv> acl_apk (snd (prune_inputs d))"

lemma compute_acl_adds:
  assumes "op \<in> set (compute d l)" "acl_adds op = Some a"
  obtains it where "it \<in> set (d_acls d)" "full_key it \<notin> full_key ` set (l_acls l)"
    "op = add_op (acl_walk_of d) it" "acl_to_state it = a"
proof -
  have act: "op_action op = CreateAcl" "op_acl op = Some a"
    using assms(2) by (auto simp: acl_adds_def split: if_splits)
  then have "op \<in> set (compute_acl_ops d l)"
    using compute_acl_part [of op d l] assms(1) by (simp add: filter_acl_ops_def)
  then show ?thesis using act that
    by (auto simp: compute_acl_walk acl_walk.set_ops)
qed

lemma compute_acl_dels:
  assumes "op \<in> set (compute d l)" "acl_dels op = Some a"
  obtains x where "x \<in> set (l_acls l)" "full_key x \<notin> full_key ` set (fst (prune_inputs d))"
    "scope_contains (snd (prune_inputs d)) x" "op = prune_op (acl_walk_of d) x" "acl_to_state x = a"
proof -
  have act: "op_action op = DeleteAcl" "op_acl op = Some a"
    using assms(2) by (auto simp: acl_dels_def split: if_splits)
  then have "op \<in> set (compute_acl_ops d l)"
    using compute_acl_part [of op d l] assms(1) by (simp add: filter_acl_ops_def)
  then show ?thesis using act that
    by (auto simp: compute_acl_walk acl_walk.set_ops)
qed

text \<open>No topic is guarded when the plan has none, or when the cluster has no REST client.\<close>

lemma plan_unguarded:
  assumes "read_live (world_services s m r pw) pl w = Inr l" "\<not> (r \<and> pl_topics pl \<noteq> [])"
  shows "guarded_topics (plan_desired pl rot) l = []"
proof (cases "pl_topics pl = []")
  case True
  then show ?thesis by (simp add: guarded_topics_def plan_desired_def split: option.split)
next
  case False
  then have "l_mirrors l = None" using read_live_fields(7) [OF assms(1)] assms(2)
    by (auto simp: read_mirrors_def world_services_def split: if_splits)
  then show ?thesis by (simp add: guarded_topics_def)
qed

text \<open>The ACLs after a run: what was there and not deleted, and what was created.\<close>

lemma acls_after_compute:
  assumes L: "set (l_acls l) = live_acl ` set (km_acls (cw_kafka w))"
    and run: "apply_ops (world_clients s m r pw) (compute d l) ap w = (w', rs)"
  shows "a \<in> set (km_acls (cw_kafka w')) \<longleftrightarrow>
    (\<exists>it \<in> set (d_acls d). acl_to_state it = a \<and> full_key it \<notin> full_key ` set (l_acls l) \<and>
       succeeded rs (add_op (acl_walk_of d) it)) \<or>
    a \<in> set (km_acls (cw_kafka w)) \<and>
      \<not> (scope_contains (snd (prune_inputs d)) (live_acl a) \<and> full_key (live_acl a) \<notin> full_key ` set (fst (prune_inputs d)) \<and>
        succeeded rs (prune_op (acl_walk_of d) (live_acl a)))"
proof -
  let ?ops = "compute d l" and ?k = "acl_walk_of d"
  have disjoint: "dels \<noteq> Some b" if "op \<in> set ?ops" "op' \<in> set ?ops" "acl_adds op = Some b" "acl_dels op' = dels"
    for op op' b dels
  proof
    note prems = that
    assume "dels = Some b"
    then have del: "acl_dels op' = Some b" using prems(4) by simp
    obtain it where "full_key it \<notin> full_key ` set (l_acls l)" "acl_to_state it = b"
      by (rule compute_acl_adds [OF prems(1,3)])
    moreover obtain x where "x \<in> set (l_acls l)" "acl_to_state x = b"
      by (rule compute_acl_dels [OF prems(2) del])
    ultimately show False using full_key_state by (metis imageI)
  qed
  have ops: "res_op ` set rs = set ?ops" by (rule run_ops [OF run])
  have "a \<in> set (km_acls (cw_kafka w')) \<longleftrightarrow>
      (\<exists>r \<in> set rs. res_status r = StSucceeded \<and> acl_adds (res_op r) = Some a) \<or>
      a \<in> set (km_acls (cw_kafka w)) \<and>
        (\<forall>r \<in> set rs. res_status r = StSucceeded \<longrightarrow> acl_dels (res_op r) \<noteq> Some a)"
    using disjoint by (intro acl_store.run_member [OF TrueI run]) blast
  moreover have "(\<exists>r \<in> set rs. res_status r = StSucceeded \<and> acl_adds (res_op r) = Some a) \<longleftrightarrow>
      (\<exists>it \<in> set (d_acls d). acl_to_state it = a \<and> full_key it \<notin> full_key ` set (l_acls l) \<and>
         succeeded rs (add_op ?k it))" (is "?A \<longleftrightarrow> ?B")
  proof
    assume ?A
    then obtain r where r: "r \<in> set rs" "res_status r = StSucceeded" "acl_adds (res_op r) = Some a" by blast
    moreover have "res_op r \<in> set ?ops" using ops r(1) by blast
    ultimately show ?B by (elim compute_acl_adds) (auto simp: succeeded_def)
  next
    assume ?B
    then show ?A by (auto simp: succeeded_def acl_adds_def intro!: bexI)
  qed
  moreover have "(\<exists>r \<in> set rs. res_status r = StSucceeded \<and> acl_dels (res_op r) = Some a) \<longleftrightarrow>
      scope_contains (snd (prune_inputs d)) (live_acl a) \<and> full_key (live_acl a) \<notin> full_key ` set (fst (prune_inputs d)) \<and>
        succeeded rs (prune_op ?k (live_acl a))" (is "?A \<longleftrightarrow> ?B") if "a \<in> set (km_acls (cw_kafka w))"
  proof
    assume ?A
    then obtain r where r: "r \<in> set rs" "res_status r = StSucceeded" "acl_dels (res_op r) = Some a" by blast
    have "res_op r \<in> set ?ops" using ops r(1) by blast
    then obtain x where x: "x \<in> set (l_acls l)" "full_key x \<notin> full_key ` set (fst (prune_inputs d))"
      "scope_contains (snd (prune_inputs d)) x" "res_op r = prune_op ?k x" "acl_to_state x = a"
      using r(3) by (elim compute_acl_dels)
    then have "x = live_acl a" using L by auto
    then show ?B using x r by (auto simp: succeeded_def)
  next
    assume ?B
    then show ?A by (auto simp: succeeded_def acl_dels_def intro!: bexI)
  qed
  ultimately show ?thesis by blast
qed

lemma acls_after_run:
  assumes read: "read_live (world_services s m r pw) pl w = Inr l" and ne: "pl_acls pl \<noteq> []"
    and run: "apply_ops (run_clients (world_services s m r pw) pl) (compute (plan_desired pl rot) l) ap w = (w', rs)"
  shows "a \<in> set (km_acls (cw_kafka w')) \<longleftrightarrow>
    (\<exists>it \<in> set (pl_acls pl). acl_to_state it = a \<and> full_key it \<notin> full_key ` set (l_acls l) \<and>
       succeeded rs (add_op (acl_apk (pl_scope pl)) it)) \<or>
    a \<in> set (km_acls (cw_kafka w)) \<and>
      \<not> (scope_contains (pl_scope pl) (live_acl a) \<and> full_key (live_acl a) \<notin> full_key ` set (pl_acls pl) \<and>
        succeeded rs (prune_op (acl_apk (pl_scope pl)) (live_acl a)))"
  using acls_after_compute [OF world_live_acls [OF read ne] run [unfolded run_clients_world], of a]
  by (simp add: prune_inputs_def plan_desired_def)

lemma acl_retry:
  assumes "distinct (map full_key (pl_acls pl))" "\<not> (r \<and> pl_topics pl \<noteq> [])"
    and "read_live (world_services s m r pw) pl w = Inr l"
    and "apply_ops (run_clients (world_services s m r pw) pl) (compute (plan_desired pl rot) l) ap w
      = (w', rs)"
    and "read_live (world_services s m r pw) pl w' = Inr l'"
  shows "{op \<in> set (compute (plan_desired pl rot) l'). is_acl_op (op_action op)} =
    {op \<in> set (compute (plan_desired pl rot) l). is_acl_op (op_action op) \<and> \<not> succeeded rs op}"
proof -
  let ?k = "acl_apk (pl_scope pl)" and ?D = "pl_acls pl"
  have "set (add_prune_ops ?k ?D ?D (l_acls l')) =
      {op \<in> set (add_prune_ops ?k ?D ?D (l_acls l)). \<not> succeeded rs op}"
  proof (cases "?D = []")
    case True
    have "l_acls l0 = []" if "read_live (world_services s m r pw) pl w0 = Inr l0" for w0 l0
      using read_live_fields(2) [OF that] True by (auto simp: read_when_def live_acls_def)
    then show ?thesis using assms(3,5) True by (simp add: add_prune_ops_def)
  next
    case False
    have L: "set (l_acls l) = live_acl ` set (km_acls (cw_kafka w))"
      "set (l_acls l') = live_acl ` set (km_acls (cw_kafka w'))"
      using world_live_acls assms(3,5) False by blast+
    note after = acls_after_run [OF assms(3) False assms(4)]
    have key: "full_key (live_acl (acl_to_state it)) = full_key it" for it
      by (rule full_key_state) simp
    show ?thesis
    proof (rule acl_walk.retry, unfold acl_apk_simps)
      show "inj_on full_key (set ?D)" using assms(1) by (simp add: distinct_map)
    next
      fix x assume "x \<in> set (l_acls l')"
      then obtain a where a: "x = live_acl a" "a \<in> set (km_acls (cw_kafka w'))" using L(2) by blast
      then show "x \<in> set (l_acls l) \<and> \<not> (scope_contains (pl_scope pl) x \<and>
            full_key x \<notin> full_key ` set ?D \<and> succeeded rs (prune_op ?k x)) \<or>
          (\<exists>it \<in> set ?D. full_key x = full_key it \<and> full_key it \<notin> full_key ` set (l_acls l) \<and>
            succeeded rs (add_op ?k it))"
        using after [of a] L(1) key by auto
    next
      fix x assume "x \<in> set (l_acls l)" "\<not> (scope_contains (pl_scope pl) x \<and>
          full_key x \<notin> full_key ` set ?D \<and> succeeded rs (prune_op ?k x))"
      then show "x \<in> set (l_acls l')" using after L by auto
    next
      fix it assume "it \<in> set ?D" "full_key it \<notin> full_key ` set (l_acls l)" "succeeded rs (add_op ?k it)"
      then have "acl_to_state it \<in> set (km_acls (cw_kafka w'))" using after by blast
      then show "full_key it \<in> full_key ` set (l_acls l')" using L(2) key [of it] by (metis imageI)
    qed
  qed
  moreover have "set (compute_acl_ops (plan_desired pl rot) l0) =
      set (add_prune_ops ?k ?D ?D (l_acls l0))" for l0
    by (simp only: plan_acl_ops)
  ultimately show ?thesis
    using acl_ops_unguarded [OF plan_unguarded [OF assms(3,2)], of rot]
      acl_ops_unguarded [OF plan_unguarded [OF assms(5,2)], of rot] by blast
qed

text \<open>
  C4. Applying a plan makes exactly the progress it reports on ACLs: after a run on the in-memory
  cluster, whatever succeeded, failed, was gated or skipped, the ACL operations of the next plan are
  exactly those of this plan that did not succeed (where no mirror guard withholds a topic's ACLs). So
  a repeated apply converges, and nothing that succeeded is planned again.
\<close>

theorem acl_retry_plan:
  assumes "distinct (map full_key (pl_acls pl))" "\<not> (r \<and> pl_topics pl \<noteq> [])"
    and "read_live (world_services s m r pw) pl w = Inr l"
    and "apply_ops (run_clients (world_services s m r pw) pl) (compute (plan_desired pl rot) l) ap w
      = (w', rs)"
    and "read_live (world_services s m r pw) pl w' = Inr l'"
  shows "{op \<in> set (compute (plan_desired pl rot) l'). is_acl_op (op_action op)} =
    {op \<in> set (compute (plan_desired pl rot) l). is_acl_op (op_action op) \<and> \<not> succeeded rs op}"
  using assms by (rule acl_retry)

subsection \<open>Role bindings\<close>

lemma to_mds_from_mds [simp]: "to_mds (from_mds_role_binding b) = b"
  by (cases b; cases "mrb_scope b"; cases "mrb_resource b")
    (auto simp: to_mds_def from_mds_role_binding_def)

lemma mds_key_conv: "mds_key (to_mds b) = rb_full_key b"
  by (simp add: mds_key_def to_mds_def rb_full_key_def resource_key_def Let_def split: option.split)

lemma rb_full_key_from_mds [simp]: "rb_full_key (from_mds_role_binding b) = mds_key b"
  by (metis mds_key_conv to_mds_from_mds)

lemma set_distinct_scopes: "set (distinct_scopes seen bs) = rb_scope_of ` set bs - seen"
  by (induction bs arbitrary: seen) auto

text \<open>The bindings stored in one of the plan's scopes.\<close>

definition bindings_in_scope :: "plan \<Rightarrow> cli_world \<Rightarrow> mds_role_binding set" where
  "bindings_in_scope pl w =
     {b \<in> ran (mget (mm_bindings (cw_mds w))). mrb_scope b \<in> to_mds_scope ` rb_scope_of ` set (pl_roleBindings pl)}"

lemma set_mvalues: "(\<lambda>k. the (mget m k)) ` dom (mget m) = ran (mget m)"
  by (force simp: ran_def dom_def)

lemma set_list_scope:
  "mc_listRoleBindings world_mds sc w = Inr bs \<Longrightarrow>
   set bs = {b \<in> ran (mget (mm_bindings (cw_mds w))). mrb_scope b = sc}"
  by (auto simp: world_mds_def mm_list_role_bindings_def set_mvalues intro: mds_scope.equality)

lemma set_list_scopes:
  "list_scopes world_mds ss w = Inr bs \<Longrightarrow>
   set bs = from_mds_role_binding ` {b \<in> ran (mget (mm_bindings (cw_mds w))). mrb_scope b \<in> to_mds_scope ` set ss}"
proof (induction ss arbitrary: bs)
  case Nil
  then show ?case by simp
next
  case (Cons sc ss)
  then obtain listed rest where l: "mc_listRoleBindings world_mds (to_mds_scope sc) w = Inr listed"
    "list_scopes world_mds ss w = Inr rest" "bs = from_mds_role_bindings listed @ rest"
    by (auto simp: and_then_Inr)
  show ?case using set_list_scope [OF l(1)] Cons.IH [OF l(2)] l(3)
    by (auto simp: from_mds_role_bindings_def)
qed

lemma world_live_bindings:
  assumes "read_live (world_services s m r pw) pl w = Inr l" "pl_roleBindings pl \<noteq> []"
  shows "set (l_roleBindings l) = from_mds_role_binding ` bindings_in_scope pl w"
  using read_live_fields(4) [OF assms(1)] assms(2)
  by (auto simp: read_role_bindings_def world_services_def bindings_in_scope_def set_distinct_scopes
      dest!: set_list_scopes split: if_splits)

lemma plan_rb_ops:
  "compute_role_binding_ops (plan_desired pl rot) l =
     add_prune_ops (rb_apk (pl_roleBindingScope pl)) (pl_roleBindings pl) (pl_roleBindings pl) (l_roleBindings l)"
  by (simp add: compute_role_binding_ops_def role_binding_prune_keep_def plan_desired_def)

lemma rb_ops_part:
  "{op \<in> set (compute d l). is_role_binding_op (op_action op)} = set (compute_role_binding_ops d l)"
  using compute_role_binding_part [of _ d l] compute_role_binding_actions [of _ d l]
  by (auto simp: is_role_binding_op_def)

lemma plan_rb_adds:
  assumes "op \<in> set (compute (plan_desired pl rot) l)" "rb_adds op = Some k"
  obtains it where "it \<in> set (pl_roleBindings pl)" "rb_full_key it \<notin> rb_full_key ` set (l_roleBindings l)"
    "op = add_op (rb_apk (pl_roleBindingScope pl)) it" "rb_full_key it = k"
proof -
  have act: "op_action op = AddRoleBinding" "\<exists>b. op_roleBinding op = Some b \<and> rb_full_key b = k"
    using assms(2) by (auto simp: rb_adds_def mds_key_conv split: if_splits)
  then have "op \<in> set (compute_role_binding_ops (plan_desired pl rot) l)"
    using compute_role_binding_part [of op "plan_desired pl rot" l] assms(1) by simp
  then show ?thesis using act that by (auto simp: plan_rb_ops rb_walk.set_ops)
qed

lemma plan_rb_dels:
  assumes "op \<in> set (compute (plan_desired pl rot) l)" "rb_dels op = Some k"
  obtains x where "x \<in> set (l_roleBindings l)" "rb_full_key x \<notin> rb_full_key ` set (pl_roleBindings pl)"
    "rb_scope_contains (pl_roleBindingScope pl) x" "op = prune_op (rb_apk (pl_roleBindingScope pl)) x"
    "rb_full_key x = k"
proof -
  have act: "op_action op = RemoveRoleBinding" "\<exists>b. op_roleBinding op = Some b \<and> rb_full_key b = k"
    using assms(2) by (auto simp: rb_dels_def mds_key_conv split: if_splits)
  then have "op \<in> set (compute_role_binding_ops (plan_desired pl rot) l)"
    using compute_role_binding_part [of op "plan_desired pl rot" l] assms(1) by simp
  then show ?thesis using act that by (auto simp: plan_rb_ops rb_walk.set_ops)
qed

text \<open>
  The bindings after a run, by key. The identity key is the whole identity when no field holds a NUL
  (\<open>plain\<close>), so an added key is an added binding.
\<close>

definition plain_bindings :: "plan \<Rightarrow> cli_world \<Rightarrow> bool" where
  "plain_bindings pl w \<longleftrightarrow> mds_keyed (cw_mds w) \<and>
     (\<forall>b \<in> set (pl_roleBindings pl). list_all nul_free (rb_fields b)) \<and>
     (\<forall>b \<in> ran (mget (mm_bindings (cw_mds w))). list_all nul_free (rb_fields (from_mds_role_binding b)))"

lemma rb_fields_from_mds [simp]: "rb_fields (from_mds_role_binding (to_mds b)) = rb_fields b"
  by (cases "rb_resource b") (simp_all add: rb_fields_def from_mds_role_binding_def to_mds_def)

lemma plain_scope:
  assumes "plain_bindings pl w" "b \<in> ran (mget (mm_bindings (cw_mds w)))" "it \<in> set (pl_roleBindings pl)"
    "mds_key b = rb_full_key it"
  shows "mrb_scope b = to_mds_scope (rb_scope_of it)"
proof -
  have "rb_full_key (from_mds_role_binding b) = rb_full_key it" using assms(4) by simp
  then have "rb_identity (from_mds_role_binding b) = rb_identity it"
    using assms(1-3) rb_full_key_inject [of "from_mds_role_binding b" it]
    by (auto simp: plain_bindings_def)
  then have "rb_scope_of it = rb_scope_of (from_mds_role_binding b)" by (simp add: rb_identity_def)
  then show ?thesis by (simp add: to_mds_scope_def from_mds_role_binding_def)
qed

lemma rb_values_new:
  assumes "fold (rb_values.step k) rs v = Some b" "v = None"
  shows "\<exists>r \<in> set rs. rb_adds (res_op r) = Some k \<and> map_option to_mds (op_roleBinding (res_op r)) = Some b"
proof -
  have "fold (rb_values.step k) rs v = Some b \<Longrightarrow> v = Some b \<or>
      (\<exists>r \<in> set rs. rb_adds (res_op r) = Some k \<and> map_option to_mds (op_roleBinding (res_op r)) = Some b)" for v
    by (induction rs arbitrary: v) (fastforce simp: rb_values.step_def rb_eff_def split: if_splits option.splits)+
  then show ?thesis using assms by blast
qed

lemma keyed_bindings:
  assumes "mds_keyed (cw_mds w)"
  shows "b \<in> ran (mget (mm_bindings (cw_mds w))) \<longleftrightarrow> mget (mm_bindings (cw_mds w)) (mds_key b) = Some b"
  using assms by (auto simp: mds_keyed_def ran_def)

text \<open>One run of the plan on the bindings: the state before and after, what was read and reported.\<close>

definition binding_run ::
    "plan \<Rightarrow> cli_world \<Rightarrow> live \<Rightarrow> cli_world \<Rightarrow> op_result list \<Rightarrow> bool" where
  "binding_run pl w l w' rs \<longleftrightarrow> plain_bindings pl w \<and> pl_roleBindings pl \<noteq> [] \<and>
     (\<exists>s m r pw rot ap. read_live (world_services s m r pw) pl w = Inr l \<and>
        apply_ops (run_clients (world_services s m r pw) pl) (compute (plan_desired pl rot) l) ap w = (w', rs))"

abbreviation stored_bindings :: "cli_world \<Rightarrow> string \<Rightarrow> mds_role_binding option" where
  "stored_bindings w \<equiv> mget (mm_bindings (cw_mds w))"

lemma binding_run_live:
  assumes "binding_run pl w l w' rs"
  shows "set (l_roleBindings l) = from_mds_role_binding ` bindings_in_scope pl w"
    "rb_full_key ` set (l_roleBindings l) = mds_key ` bindings_in_scope pl w"
proof -
  show "set (l_roleBindings l) = from_mds_role_binding ` bindings_in_scope pl w"
    using assms world_live_bindings unfolding binding_run_def by blast
  then show "rb_full_key ` set (l_roleBindings l) = mds_key ` bindings_in_scope pl w"
    by (simp add: image_image)
qed

lemma binding_run_added:
  assumes "binding_run pl w l w' rs" "r \<in> set rs" "rb_adds (res_op r) = Some k"
  obtains it where "it \<in> set (pl_roleBindings pl)" "rb_full_key it = k"
    "rb_full_key it \<notin> rb_full_key ` set (l_roleBindings l)"
    "res_op r = add_op (rb_apk (pl_roleBindingScope pl)) it"
proof -
  obtain s m q pw rot ap where run: "apply_ops (run_clients (world_services s m q pw) pl)
      (compute (plan_desired pl rot) l) ap w = (w', rs)"
    using assms(1) by (auto simp: binding_run_def)
  then have "res_op r \<in> set (compute (plan_desired pl rot) l)" using run_ops [OF run] assms(2) by blast
  then show ?thesis using assms(3) that by (elim plan_rb_adds)
qed

lemma binding_run_removed:
  assumes "binding_run pl w l w' rs" "r \<in> set rs" "rb_dels (res_op r) = Some k"
  obtains y where "y \<in> bindings_in_scope pl w" "mds_key y = k" "k \<notin> rb_full_key ` set (pl_roleBindings pl)"
    "rb_scope_contains (pl_roleBindingScope pl) (from_mds_role_binding y)"
    "res_op r = prune_op (rb_apk (pl_roleBindingScope pl)) (from_mds_role_binding y)"
proof -
  obtain s m q pw rot ap where run: "apply_ops (run_clients (world_services s m q pw) pl)
      (compute (plan_desired pl rot) l) ap w = (w', rs)"
    using assms(1) by (auto simp: binding_run_def)
  then have "res_op r \<in> set (compute (plan_desired pl rot) l)" using run_ops [OF run] assms(2) by blast
  then obtain x where x: "x \<in> set (l_roleBindings l)" "rb_full_key x \<notin> rb_full_key ` set (pl_roleBindings pl)"
    "rb_scope_contains (pl_roleBindingScope pl) x"
    "res_op r = prune_op (rb_apk (pl_roleBindingScope pl)) x" "rb_full_key x = k"
    using assms(3) by (elim plan_rb_dels)
  obtain y where "x = from_mds_role_binding y" "y \<in> bindings_in_scope pl w"
    using x(1) binding_run_live(1) [OF assms(1)] by blast
  then show ?thesis using that x by auto
qed

lemma binding_run_store:
  assumes "binding_run pl w l w' rs"
  shows "mds_keyed (cw_mds w')"
    "stored_bindings w' k = fold (rb_values.step k) rs (stored_bindings w k)"
    "k \<in> dom (stored_bindings w') \<longleftrightarrow>
      (\<exists>r \<in> set rs. res_status r = StSucceeded \<and> rb_adds (res_op r) = Some k) \<or>
      k \<in> dom (stored_bindings w) \<and> (\<forall>r \<in> set rs. res_status r = StSucceeded \<longrightarrow> rb_dels (res_op r) \<noteq> Some k)"
proof -
  obtain s m r pw rot ap where run: "apply_ops (run_clients (world_services s m r pw) pl)
      (compute (plan_desired pl rot) l) ap w = (w', rs)"
    using assms by (auto simp: binding_run_def)
  have keyed: "mds_keyed (cw_mds w)" using assms by (simp add: binding_run_def plain_bindings_def)
  note run' = run [unfolded run_clients_world]
  show "mds_keyed (cw_mds w')" using rb_store.run [OF keyed run'] by blast
  show "stored_bindings w' k = fold (rb_values.step k) rs (stored_bindings w k)"
    using rb_values.run [OF keyed run'] by blast
  have "rb_dels op' \<noteq> Some k"
    if "op \<in> set (compute (plan_desired pl rot) l)" "op' \<in> set (compute (plan_desired pl rot) l)"
      "rb_adds op = Some k" for op op'
  proof
    note prems = that
    assume del: "rb_dels op' = Some k"
    obtain r r' where r: "r \<in> set rs" "res_op r = op" "r' \<in> set rs" "res_op r' = op'"
      using run_ops [OF run] prems(1,2) by (metis imageE)
    then have "k \<notin> mds_key ` bindings_in_scope pl w"
      using binding_run_added [OF assms r(1)] prems(3) binding_run_live(2) [OF assms] by metis
    then show False using binding_run_removed [OF assms r(3)] r(4) del by blast
  qed
  then show "k \<in> dom (stored_bindings w') \<longleftrightarrow>
      (\<exists>r \<in> set rs. res_status r = StSucceeded \<and> rb_adds (res_op r) = Some k) \<or>
      k \<in> dom (stored_bindings w) \<and> (\<forall>r \<in> set rs. res_status r = StSucceeded \<longrightarrow> rb_dels (res_op r) \<noteq> Some k)"
    by (intro rb_store.run_member [OF keyed run']) blast
qed

lemma binding_run_stays:
  assumes "binding_run pl w l w' rs" "stored_bindings w k = Some b"
    "\<forall>r \<in> set rs. res_status r = StSucceeded \<longrightarrow> rb_dels (res_op r) \<noteq> Some k"
  shows "stored_bindings w' k = Some b"
  using binding_run_store(2) [OF assms(1), of k] rb_values_kept [OF assms(3), of b] assms(2) by simp

text \<open>What is in the plan's scopes after the run was there and not removed, or was added.\<close>

lemma binding_run_origin:
  assumes run: "binding_run pl w l w' rs" and b: "b \<in> bindings_in_scope pl w'"
  shows "b \<in> bindings_in_scope pl w \<and>
        \<not> succeeded rs (prune_op (rb_apk (pl_roleBindingScope pl)) (from_mds_role_binding b)) \<or>
      (\<exists>it \<in> set (pl_roleBindings pl). mds_key b = rb_full_key it \<and>
        rb_full_key it \<notin> rb_full_key ` set (l_roleBindings l) \<and>
        succeeded rs (add_op (rb_apk (pl_roleBindingScope pl)) it))"
proof (cases "\<exists>r \<in> set rs. res_status r = StSucceeded \<and> rb_adds (res_op r) = Some (mds_key b)")
  case True
  then obtain r where r: "r \<in> set rs" "res_status r = StSucceeded" "rb_adds (res_op r) = Some (mds_key b)"
    by blast
  from binding_run_added [OF run r(1,3)] show ?thesis using r(1,2) unfolding succeeded_def by metis
next
  case False
  have b': "stored_bindings w' (mds_key b) = Some b"
    "mrb_scope b \<in> to_mds_scope ` rb_scope_of ` set (pl_roleBindings pl)"
    using b keyed_bindings [OF binding_run_store(1) [OF run]] by (auto simp: bindings_in_scope_def)
  then have old: "mds_key b \<in> dom (stored_bindings w)"
    "\<forall>r \<in> set rs. res_status r = StSucceeded \<longrightarrow> rb_dels (res_op r) \<noteq> Some (mds_key b)"
    using binding_run_store(3) [OF run, of "mds_key b"] False by blast+
  then obtain b0 where "stored_bindings w (mds_key b) = Some b0" by blast
  then have "stored_bindings w (mds_key b) = Some b" using binding_run_stays [OF run _ old(2)] b'(1) by simp
  then have "b \<in> bindings_in_scope pl w" using b'(2) by (auto simp: bindings_in_scope_def intro: ranI)
  moreover have "\<not> succeeded rs (prune_op (rb_apk (pl_roleBindingScope pl)) (from_mds_role_binding b))"
    using old(2) by (auto simp: succeeded_def rb_dels_def)
  ultimately show ?thesis by blast
qed

lemma binding_run_keeps:
  assumes run: "binding_run pl w l w' rs" and b: "b \<in> bindings_in_scope pl w"
    and not_pruned: "\<not> (rb_scope_contains (pl_roleBindingScope pl) (from_mds_role_binding b) \<and>
        mds_key b \<notin> rb_full_key ` set (pl_roleBindings pl) \<and>
        succeeded rs (prune_op (rb_apk (pl_roleBindingScope pl)) (from_mds_role_binding b)))"
  shows "b \<in> bindings_in_scope pl w'"
proof -
  have keyed: "mds_keyed (cw_mds w)" using run by (simp add: binding_run_def plain_bindings_def)
  have "rb_dels (res_op r) \<noteq> Some (mds_key b)" if r: "r \<in> set rs" "res_status r = StSucceeded" for r
  proof
    assume "rb_dels (res_op r) = Some (mds_key b)"
    from binding_run_removed [OF run r(1) this] obtain y where y: "y \<in> bindings_in_scope pl w"
      "mds_key y = mds_key b" "mds_key b \<notin> rb_full_key ` set (pl_roleBindings pl)"
      "rb_scope_contains (pl_roleBindingScope pl) (from_mds_role_binding y)"
      "res_op r = prune_op (rb_apk (pl_roleBindingScope pl)) (from_mds_role_binding y)"
      by blast
    then have "y = b" using b keyed_bindings [OF keyed] by (auto simp: bindings_in_scope_def)
    then show False using y not_pruned r by (auto simp: succeeded_def)
  qed
  then have "stored_bindings w' (mds_key b) = Some b"
    using binding_run_stays [OF run] b keyed_bindings [OF keyed] by (auto simp: bindings_in_scope_def)
  then show ?thesis using b by (auto simp: bindings_in_scope_def intro: ranI)
qed

lemma binding_run_fresh:
  assumes run: "binding_run pl w l w' rs" and it: "it \<in> set (pl_roleBindings pl)"
    and new: "rb_full_key it \<notin> rb_full_key ` set (l_roleBindings l)"
  shows "stored_bindings w (rb_full_key it) = None"
proof (rule ccontr)
  assume "stored_bindings w (rb_full_key it) \<noteq> None"
  then obtain b0 where b0: "stored_bindings w (rb_full_key it) = Some b0" by blast
  have plain: "plain_bindings pl w" using run by (simp add: binding_run_def)
  then have key: "mds_key b0 = rb_full_key it" using b0 by (auto simp: plain_bindings_def mds_keyed_def)
  have "b0 \<in> ran (stored_bindings w)" using b0 by (rule ranI)
  then have "b0 \<in> bindings_in_scope pl w"
    using plain_scope [OF plain _ it key] it by (auto simp: bindings_in_scope_def)
  then show False using new key binding_run_live(2) [OF run] by (metis imageI)
qed

lemma binding_run_adds:
  assumes run: "binding_run pl w l w' rs" and it: "it \<in> set (pl_roleBindings pl)"
    and new: "rb_full_key it \<notin> rb_full_key ` set (l_roleBindings l)"
    and succ: "succeeded rs (add_op (rb_apk (pl_roleBindingScope pl)) it)"
  shows "rb_full_key it \<in> mds_key ` bindings_in_scope pl w'"
proof -
  let ?k = "rb_full_key it"
  have "\<exists>r \<in> set rs. res_status r = StSucceeded \<and> rb_adds (res_op r) = Some ?k"
    using succ by (auto simp: succeeded_def rb_adds_def mds_key_conv)
  then obtain b where b: "stored_bindings w' ?k = Some b" using binding_run_store(3) [OF run] by blast
  then have "fold (rb_values.step ?k) rs (stored_bindings w ?k) = Some b"
    using binding_run_store(2) [OF run] by simp
  from rb_values_new [OF this binding_run_fresh [OF run it new]] obtain r where r: "r \<in> set rs"
    "rb_adds (res_op r) = Some ?k" "map_option to_mds (op_roleBinding (res_op r)) = Some b" by blast
  obtain it2 where "it2 \<in> set (pl_roleBindings pl)" "res_op r = add_op (rb_apk (pl_roleBindingScope pl)) it2"
    using binding_run_added [OF run r(1,2)] by blast
  then have "mrb_scope b \<in> to_mds_scope ` rb_scope_of ` set (pl_roleBindings pl)"
    using r(3) by (auto simp: to_mds_def to_mds_scope_def)
  moreover have "mds_key b = ?k" using binding_run_store(1) [OF run] b by (auto simp: mds_keyed_def)
  ultimately show ?thesis using b by (auto simp: bindings_in_scope_def image_iff intro: ranI)
qed

lemma rb_retry:
  assumes "distinct (map rb_full_key (pl_roleBindings pl))" "plain_bindings pl w"
    and "read_live (world_services s m r pw) pl w = Inr l"
    and "apply_ops (run_clients (world_services s m r pw) pl) (compute (plan_desired pl rot) l) ap w
      = (w', rs)"
    and "read_live (world_services s m r pw) pl w' = Inr l'"
  shows "{op \<in> set (compute (plan_desired pl rot) l'). is_role_binding_op (op_action op)} =
    {op \<in> set (compute (plan_desired pl rot) l). is_role_binding_op (op_action op) \<and> \<not> succeeded rs op}"
proof -
  let ?k = "rb_apk (pl_roleBindingScope pl)" and ?D = "pl_roleBindings pl"
  have "set (add_prune_ops ?k ?D ?D (l_roleBindings l')) =
      {op \<in> set (add_prune_ops ?k ?D ?D (l_roleBindings l)). \<not> succeeded rs op}"
  proof (cases "?D = []")
    case True
    have "l_roleBindings l0 = []" if "read_live (world_services s m r pw) pl w0 = Inr l0" for w0 l0
      using read_live_fields(4) [OF that] True by (simp add: read_role_bindings_def)
    then show ?thesis using assms(3,5) True by (simp add: add_prune_ops_def)
  next
    case False
    have run: "binding_run pl w l w' rs" unfolding binding_run_def using assms(2-4) False by blast
    note L = binding_run_live(1) [OF run] and L' = world_live_bindings [OF assms(5) False]
    show ?thesis
    proof (rule rb_walk.retry, unfold rb_apk_simps)
      show "inj_on rb_full_key (set ?D)" using assms(1) by (simp add: distinct_map)
    next
      fix x assume "x \<in> set (l_roleBindings l')"
      then obtain b where b: "x = from_mds_role_binding b" "b \<in> bindings_in_scope pl w'" using L' by blast
      show "x \<in> set (l_roleBindings l) \<and> \<not> (rb_scope_contains (pl_roleBindingScope pl) x \<and>
            rb_full_key x \<notin> rb_full_key ` set ?D \<and> succeeded rs (prune_op ?k x)) \<or>
          (\<exists>it \<in> set ?D. rb_full_key x = rb_full_key it \<and>
            rb_full_key it \<notin> rb_full_key ` set (l_roleBindings l) \<and> succeeded rs (add_op ?k it))"
        using binding_run_origin [OF run b(2)] unfolding b(1) L by fastforce
    next
      fix x assume "x \<in> set (l_roleBindings l)" "\<not> (rb_scope_contains (pl_roleBindingScope pl) x \<and>
          rb_full_key x \<notin> rb_full_key ` set ?D \<and> succeeded rs (prune_op ?k x))"
      then show "x \<in> set (l_roleBindings l')" using binding_run_keeps [OF run] by (auto simp: L L')
    next
      fix it assume "it \<in> set ?D" "rb_full_key it \<notin> rb_full_key ` set (l_roleBindings l)"
        "succeeded rs (add_op ?k it)"
      then have "rb_full_key it \<in> mds_key ` bindings_in_scope pl w'" by (rule binding_run_adds [OF run])
      then show "rb_full_key it \<in> rb_full_key ` set (l_roleBindings l')" by (simp add: L' image_image)
    qed
  qed
  moreover have "set (compute_role_binding_ops (plan_desired pl rot) l0) =
      set (add_prune_ops ?k ?D ?D (l_roleBindings l0))" for l0
    by (simp only: plan_rb_ops)
  ultimately show ?thesis
    using rb_ops_part [of "plan_desired pl rot" l] rb_ops_part [of "plan_desired pl rot" l'] by blast
qed

text \<open>
  Applying a plan makes exactly the progress it reports on role bindings: when no identity field
  holds a NUL byte, after a run on the in-memory MDS the role-binding operations of the next plan are
  exactly those of this plan that did not succeed, whatever failed or was withheld, with or without
  the other services.
\<close>

theorem rb_retry_plan:
  assumes "distinct (map rb_full_key (pl_roleBindings pl))" "plain_bindings pl w"
    and "read_live (world_services s m r pw) pl w = Inr l"
    and "apply_ops (run_clients (world_services s m r pw) pl) (compute (plan_desired pl rot) l) ap w
      = (w', rs)"
    and "read_live (world_services s m r pw) pl w' = Inr l'"
  shows "{op \<in> set (compute (plan_desired pl rot) l'). is_role_binding_op (op_action op)} =
    {op \<in> set (compute (plan_desired pl rot) l). is_role_binding_op (op_action op) \<and> \<not> succeeded rs op}"
  using assms by (rule rb_retry)

subsection \<open>A concrete run\<close>

text \<open>
  One desired ACL and one desired binding against a cluster that holds another ACL of the same
  resource and an MDS that holds nothing; deleting ACLs is broken.
\<close>

definition sample_world :: cli_world where
  "sample_world =
     \<lparr>cw_kafka = km_fail_on ''DeleteACLs'' ''1'' [T ''down''] (km_new [] [acl_to_state (sample_acl True ''Write'')]),
      cw_mds = mm_new [], cw_schema = sm_new, cw_rest = rm_new []\<rparr>"

definition sample_plan :: plan where
  "sample_plan =
     \<lparr>pl_selectedCluster = ''dev'', pl_mirrors = [], pl_topics = [], pl_schemas = [],
      pl_acls = [sample_acl True ''Read''], pl_quotas = [],
      pl_roleBindings = [sample_binding ''KafkaTopic'' ''t'' ''orders''], pl_users = [],
      pl_scope = build_acl_scope [sample_acl True ''Read''],
      pl_roleBindingScope = build_rb_scope [sample_binding ''KafkaTopic'' ''t'' ''orders'']\<rparr>"

abbreviation sample_services :: "cli_world services" where
  "sample_services \<equiv> world_services False True False (\<lambda>_. Inl [])"

definition sample_run_returns :: bool where
  "sample_run_returns \<longleftrightarrow>
     (case read_live sample_services sample_plan sample_world of
        Inl _ \<Rightarrow> False
      | Inr l \<Rightarrow>
          (case apply_ops (run_clients sample_services sample_plan)
                  (compute (plan_desired sample_plan False) l) no_approvals sample_world of
             (w', rs) \<Rightarrow> (case read_live sample_services sample_plan w' of Inl _ \<Rightarrow> False | Inr _ \<Rightarrow> True)))"

lemma sample_run_returns: "sample_run_returns" by code_simp

lemma sample_run_obtain:
  obtains l w' rs l' where "read_live sample_services sample_plan sample_world = Inr l"
    "apply_ops (run_clients sample_services sample_plan)
       (compute (plan_desired sample_plan False) l) no_approvals sample_world = (w', rs)"
    "read_live sample_services sample_plan w' = Inr l'"
  using sample_run_returns by (auto simp: sample_run_returns_def split: sum.splits prod.splits)

theorem acl_retry_plan_witness:
  "\<exists>l w' rs l'. read_live sample_services sample_plan sample_world = Inr l \<and>
     apply_ops (run_clients sample_services sample_plan)
       (compute (plan_desired sample_plan False) l) no_approvals sample_world = (w', rs) \<and>
     read_live sample_services sample_plan w' = Inr l' \<and>
     {op \<in> set (compute (plan_desired sample_plan False) l'). is_acl_op (op_action op)} =
     {op \<in> set (compute (plan_desired sample_plan False) l). is_acl_op (op_action op) \<and> \<not> succeeded rs op}"
proof -
  obtain l w' rs l' where run: "read_live sample_services sample_plan sample_world = Inr l"
    "apply_ops (run_clients sample_services sample_plan)
       (compute (plan_desired sample_plan False) l) no_approvals sample_world = (w', rs)"
    "read_live sample_services sample_plan w' = Inr l'"
    by (rule sample_run_obtain)
  have keys: "distinct (map full_key (pl_acls sample_plan))" by (simp add: sample_plan_def)
  have no_rest: "\<not> (False \<and> pl_topics sample_plan \<noteq> [])" by simp
  from acl_retry_plan [OF keys no_rest run] show ?thesis using run by blast
qed

theorem rb_retry_plan_witness:
  "\<exists>l w' rs l'. read_live sample_services sample_plan sample_world = Inr l \<and>
     apply_ops (run_clients sample_services sample_plan)
       (compute (plan_desired sample_plan False) l) no_approvals sample_world = (w', rs) \<and>
     read_live sample_services sample_plan w' = Inr l' \<and>
     {op \<in> set (compute (plan_desired sample_plan False) l'). is_role_binding_op (op_action op)} =
     {op \<in> set (compute (plan_desired sample_plan False) l). is_role_binding_op (op_action op) \<and>
        \<not> succeeded rs op}"
proof -
  obtain l w' rs l' where run: "read_live sample_services sample_plan sample_world = Inr l"
    "apply_ops (run_clients sample_services sample_plan)
       (compute (plan_desired sample_plan False) l) no_approvals sample_world = (w', rs)"
    "read_live sample_services sample_plan w' = Inr l'"
    by (rule sample_run_obtain)
  have keys: "distinct (map rb_full_key (pl_roleBindings sample_plan))" by (simp add: sample_plan_def)
  have plain: "plain_bindings sample_plan sample_world"
    by (simp add: plain_bindings_def mds_keyed_def sample_world_def mm_new_def sample_plan_def
        sample_binding_def rb_fields_def nul_free_def NUL_def)
  from rb_retry_plan [OF keys plain run] show ?thesis using run by blast
qed

end
