(* ===== verification/Cli_Props.thy ===== *)
theory Cli_Props
  imports Convergence
begin

section \<open>Properties of the CLI run\<close>

text \<open>
  The exit codes of \<open>apply\<close> and \<open>verify\<close> over whole runs, and the reads a run needs.
\<close>

subsection \<open>Reads that repeat\<close>

text \<open>
  The in-memory cluster's injected failures are configuration: no call changes them, so a read that
  succeeded before a run succeeds after it.
\<close>

lemma km_mutate_failures:
  assumes "\<And>c. km_failures (fst (body c)) = km_failures c"
  shows "km_failures (fst (km_mutate sig body c)) = km_failures c"
  using assms by (simp add: km_mutate_def km_record_def split: option.split)

lemma km_failures_frames [frame]:
  "km_failures (fst (km_create_topic t c)) = km_failures c"
  "km_failures (fst (km_update_topic_config n kvs c)) = km_failures c"
  "km_failures (fst (km_create_partitions n i c)) = km_failures c"
  "km_failures (fst (km_delete_topic n c)) = km_failures c"
  "km_failures (fst (km_create_acls as c)) = km_failures c"
  "km_failures (fst (km_delete_acls as c)) = km_failures c"
  "km_failures (fst (km_set_quota e l c)) = km_failures c"
  "km_failures (fst (km_delete_quota e ks c)) = km_failures c"
  "km_failures (fst (km_upsert_scram u c)) = km_failures c"
  "km_failures (fst (km_delete_scram n m c)) = km_failures c"
  unfolding km_defs Let_def
  by (rule km_mutate_failures; simp add: km_upsert_quota_def Let_def split: option.split)+

lemma scram_failures:
  "km_failures (cw_kafka (fst (upsert_scram (world_clients s m r p) op w))) = km_failures (cw_kafka w)"
  by (rule upsert_scram_frame [where F = "\<lambda>w. km_failures (cw_kafka w)"], simp_all add: frame on_own)

lemma dispatch_failures:
  assumes "dispatch (world_clients s m r p) op w f = (w', f', e)"
  shows "km_failures (cw_kafka w') = km_failures (cw_kafka w)"
proof -
  have "w' = fst (dispatch (world_clients s m r p) op w f)" by (simp add: assms)
  then show ?thesis
    using scram_failures [of s m r p op w]
    by (cases "op_action op") (simp_all add: dispatch_simps km_failures_frames split: option.split)
qed

interpretation injected: atomic_store "world_clients s m r p" "\<lambda>w k. mget (km_failures (cw_kafka w)) k"
    "\<lambda>op k v. v" "\<lambda>w. True" for s m r p
  by unfold_locales (auto dest: dispatch_failures)

lemma injected_kept:
  assumes "apply_ops (world_clients s m r p) ops ap w = (w', rs)"
  shows "mget (km_failures (cw_kafka w')) = mget (km_failures (cw_kafka w))"
proof
  fix k
  have "fold (injected.step k) rs v = v" for v
    by (induction rs) (simp_all add: injected.step_def)
  then show "mget (km_failures (cw_kafka w')) k = mget (km_failures (cw_kafka w)) k"
    using injected.run [OF TrueI assms, of k] by simp
qed

text \<open>A plan of ACLs and role bindings only.\<close>

definition access_only :: "plan \<Rightarrow> bool" where
  "access_only pl \<longleftrightarrow> pl_topics pl = [] \<and> pl_mirrors pl = [] \<and> pl_schemas pl = [] \<and> pl_quotas pl = [] \<and>
     pl_users pl = []"

lemma list_scopes_world: "\<exists>bs. list_scopes world_mds ss w = Inr bs"
  by (induction ss) (auto simp: world_mds_def mm_list_role_bindings_def)

lemma read_live_again:
  assumes "access_only pl" "read_live (world_services s m r pw) pl w = Inr l"
    and "mget (km_failures (cw_kafka w')) = mget (km_failures (cw_kafka w))"
  obtains l' where "read_live (world_services s m r pw) pl w' = Inr l'"
proof -
  let ?sv = "world_services s m r pw"
  have acls: "\<exists>xs. read_when (pl_acls pl \<noteq> []) (ac_listACLs (sv_kafka ?sv)) w' = Inr xs"
    using read_live_fields(2) [OF assms(2)] assms(3)
    by (auto simp: read_when_def world_services_def world_admin_def km_list_acls_def km_read_def
        split: option.splits if_splits)
  have bindings: "\<exists>xs. read_role_bindings ?sv pl w' = Inr xs"
    using read_live_fields(4) [OF assms(2)] list_scopes_world
    by (auto simp: read_role_bindings_def world_services_def split: if_splits)
  obtain mirrors where "read_mirrors ?sv pl w' = Inr mirrors"
    using assms(1) by (simp add: read_mirrors_def access_only_def)
  then have "\<exists>l'. read_live ?sv pl w' = Inr l'"
    using assms(1) acls bindings
    by (auto simp: read_live_def access_only_def read_when_def [of False] read_schemas_def read_users_def)
  then show ?thesis using that by blast
qed

subsection \<open>The plan of an access-only run\<close>

lemma access_compute:
  assumes "access_only pl"
  shows "set (compute (plan_desired pl rot) l) =
    set (add_prune_ops (acl_apk (pl_scope pl)) (pl_acls pl) (pl_acls pl) (l_acls l)) \<union>
    set (add_prune_ops (rb_apk (pl_roleBindingScope pl)) (pl_roleBindings pl) (pl_roleBindings pl) (l_roleBindings l))"
proof -
  have g: "guarded_topics (plan_desired pl rot) l = []"
    using assms by (simp add: guarded_topics_def plan_desired_def access_only_def split: option.split)
  show ?thesis using assms
    by (simp add: unsorted_ops_def g plan_acl_ops plan_rb_ops)
      (simp add: compute_topic_ops_def compute_schema_ops_def compute_quota_ops_def compute_user_ops_def
        compute_mirror_ops_def plan_desired_def access_only_def)
qed

lemma access_actions:
  assumes "access_only pl" "op \<in> set (compute (plan_desired pl rot) l)"
  shows "is_acl_op (op_action op) \<or> is_role_binding_op (op_action op)"
  using assms(2) unfolding access_compute [OF assms(1)]
  by (auto simp: is_acl_op_def is_role_binding_op_def acl_walk.set_ops rb_walk.set_ops)

text \<open>One result of a run whose operations are ACL and binding writes and prunes are approved.\<close>

lemma approved_result:
  assumes "apply_one c ap op w f = (w', f', r)" "appr_prune ap"
    "is_acl_op (op_action op) \<or> is_role_binding_op (op_action op)"
  shows "res_status r = StReportOnly \<longleftrightarrow> report_only op" "res_status r \<noteq> StPruneDisabled"
proof -
  have act: "op_action op \<in> {CreateAcl, DeleteAcl, AddRoleBinding, RemoveRoleBinding}"
    using assms(3) by (auto simp: is_acl_op_def is_role_binding_op_def)
  then have gate: "gate_verdict op ap = None" using assms(2) by (auto simp: gate_verdict_def gate_of_def)
  have "pre_verdict op ap f = (if report_only op then Some (StReportOnly, []) else None) \<or>
      \<not> report_only op \<and> pre_verdict op ap f = Some (StSkipped, [])"
    using act unfolding pre_verdict_def gate
    by (cases "op_action op") (simp_all add: is_schema_op_def split: option.split)
  then show "res_status r = StReportOnly \<longleftrightarrow> report_only op" "res_status r \<noteq> StPruneDisabled"
    using assms(1) by (auto simp: apply_one_def mk_result_def split: prod.splits option.splits if_splits)
qed

subsection \<open>Verify after apply\<close>

lemma apply_exit_code_not_0 [simp]: "apply_exit_code rs \<noteq> 0"
  by (induction rs rule: apply_exit_code.induct) auto

text \<open>When a pruning run exits 0, the operations left are exactly the report-only ones.\<close>

lemma clean_run_left:
  assumes "access_only pl" "appr_prune ap"
    and run: "apply_ops c (compute (plan_desired pl rot) l) ap w = (w', rs)" and "result_ok rs"
    and op: "op \<in> set (compute (plan_desired pl rot) l)"
  shows "succeeded rs op \<longleftrightarrow> \<not> report_only op"
proof -
  have kind: "is_acl_op (op_action op) \<or> is_role_binding_op (op_action op)"
    using access_actions [OF assms(1) op] .
  obtain w1 f1 where loop: "apply_loop c ap (execution_order (compute (plan_desired pl rot) l)) w {} = (w1, f1, rs)"
    using run by (auto simp: apply_ops_def split: prod.splits)
  have status: "res_status r = StReportOnly \<longleftrightarrow> report_only op"
      "res_status r \<noteq> StPruneDisabled" if r: "r \<in> set rs" "res_op r = op" for r
  proof -
    obtain o' v g v' g' where one: "apply_one c ap o' v g = (v', g', r)"
      using apply_loop_result [OF loop r(1)] by blast
    then have "o' = op" using apply_one_op [of c ap o' v g] r(2) by simp
    then show "res_status r = StReportOnly \<longleftrightarrow> report_only op" "res_status r \<noteq> StPruneDisabled"
      using approved_result [OF one assms(2)] kind by blast+
  qed
  obtain r where r: "r \<in> set rs" "res_op r = op" using run_ops [OF run] op by (metis imageE)
  have "res_status r \<in> {StSucceeded, StReportOnly, StPruneDisabled}"
    using assms(4) r(1) by (auto simp: result_ok_def list_all_iff)
  then show ?thesis using status r by (auto simp: succeeded_def)
qed

lemma verify_drift_iff:
  "verify_drift ops =
     (if \<exists>op \<in> set ops. \<not> informational (op_action op) \<and> op_mode op \<noteq> ModeObserveOnly then 1 else 0)"
  by (induction ops) auto

lemma access_verify:
  assumes "access_only pl" "read_live sv pl w = Inr l"
  shows "verify_cmd sv pl w =
    (if \<exists>op \<in> set (compute (plan_desired pl False) l). op_mode op \<noteq> ModeObserveOnly then 1 else 0)"
proof -
  have "\<not> operational_error (op_action op) \<and> \<not> informational (op_action op)"
    if "op \<in> set (compute (plan_desired pl False) l)" for op
    using access_actions [OF assms(1) that]
    by (auto simp: operational_error_def informational_def is_acl_op_def is_role_binding_op_def)
  then show ?thesis
    unfolding verify_cmd_def compute_ops_def assms(2)
    by (auto simp del: set_compute simp: verify_drift_iff list_ex_iff)
qed

text \<open>
  C2. Verify after apply: on the in-memory services, when \<open>apply --prune\<close> of a plan of ACLs and role
  bindings exits 0, \<open>verify\<close> on the world it left exits 0 too, unless some planned operation belongs to
  a DetectOnly resource, and then it exits 1. (Live state that could be read before the run can be
  read after it.)
\<close>

theorem verify_after_apply:
  assumes "access_only pl" "distinct (map full_key (pl_acls pl))"
    "distinct (map rb_full_key (pl_roleBindings pl))" "plain_bindings pl w" "appr_prune ap"
    and "compute_ops (world_services s m r pw) pl rot w = Inr ops"
    and "apply_cmd (world_services s m r pw) pl rot ap w = (w', 0)"
  shows "verify_cmd (world_services s m r pw) pl w' =
    (if \<exists>op \<in> set ops. op_mode op = ModeDetectOnly then 1 else 0)"
proof -
  let ?sv = "world_services s m r pw" and ?D = "plan_desired pl rot"
  obtain l where l: "read_live ?sv pl w = Inr l" "ops = compute ?D l"
    using assms(6) by (auto simp: compute_ops_def and_then_Inr)
  obtain rs where run: "apply_ops (run_clients ?sv pl) (compute ?D l) ap w = (w', rs)" "result_ok rs"
    using assms(7) l
    by (cases "apply_ops (run_clients ?sv pl) (compute ?D l) ap w")
      (auto simp: apply_cmd_def assms(6) simp del: apply_exit_code.simps split: if_splits)
  note run' = run(1) [unfolded run_clients_world]
  obtain l' where l': "read_live ?sv pl w' = Inr l'"
    using read_live_again [OF assms(1) l(1) injected_kept [OF run']] by blast
  have no_rest: "\<not> (r \<and> pl_topics pl \<noteq> [])" using assms(1) by (simp add: access_only_def)
  have left: "set (compute ?D l') = {op \<in> set (compute ?D l). \<not> succeeded rs op}"
    using acl_retry [OF assms(2) no_rest l(1) run(1) l'] rb_retry [OF assms(3,4) l(1) run(1) l']
      access_actions [OF assms(1), of _ rot l] access_actions [OF assms(1), of _ rot l'] by blast
  have "set (compute (plan_desired pl False) l') = set (compute ?D l')"
    unfolding access_compute [OF assms(1)] by simp
  also have "... = {op \<in> set ops. report_only op}"
    using left clean_run_left [OF assms(1,5) run] by (auto simp del: set_compute simp: l(2))
  finally have eq: "set (compute (plan_desired pl False) l') = {op \<in> set ops. report_only op}" .
  show ?thesis unfolding access_verify [OF assms(1) l'] eq
    by (auto simp: report_only_def ModeDetectOnly_def ModeObserveOnly_def)
qed

definition pruning :: approvals where
  "pruning = no_approvals\<lparr>appr_prune := True\<rparr>"

definition healthy_world :: cli_world where
  "healthy_world = sample_world\<lparr>cw_kafka := km_new [] [acl_to_state (sample_acl True ''Write'')]\<rparr>"

theorem verify_after_apply_witness:
  "verify_cmd sample_services sample_plan
     (fst (apply_cmd sample_services sample_plan False pruning healthy_world)) = 0"
proof -
  have ops: "compute_ops sample_services sample_plan False healthy_world =
      Inr (projr (compute_ops sample_services sample_plan False healthy_world))"
    by code_simp
  have modes: "\<not> list_ex (\<lambda>op. op_mode op = ModeDetectOnly)
      (projr (compute_ops sample_services sample_plan False healthy_world))"
    by code_simp
  have code: "snd (apply_cmd sample_services sample_plan False pruning healthy_world) = 0" by code_simp
  have cmd: "apply_cmd sample_services sample_plan False pruning healthy_world =
      (fst (apply_cmd sample_services sample_plan False pruning healthy_world), 0)"
    using code by (metis prod.collapse)
  have "access_only sample_plan" "distinct (map full_key (pl_acls sample_plan))"
    "distinct (map rb_full_key (pl_roleBindings sample_plan))"
    by (simp_all add: access_only_def sample_plan_def)
  moreover have "plain_bindings sample_plan healthy_world"
    by (simp add: plain_bindings_def mds_keyed_def healthy_world_def sample_world_def mm_new_def
        sample_plan_def sample_binding_def rb_fields_def nul_free_def NUL_def)
  moreover have "appr_prune pruning" by (simp add: pruning_def)
  ultimately show ?thesis
    using verify_after_apply [OF _ _ _ _ _ ops cmd] modes by (auto simp: list_ex_iff)
qed

subsection \<open>Reads that are skipped\<close>

text \<open>A live state without the kinds the manifests do not declare: what a scoped run gets to see.\<close>

definition unread :: "plan \<Rightarrow> live \<Rightarrow> live" where
  "unread pl l =
     \<lparr>l_topics = (if pl_topics pl = [] then [] else l_topics l),
      l_acls = (if pl_acls pl = [] then [] else l_acls l),
      l_schemas = (if pl_schemas pl = [] then [] else l_schemas l),
      l_quotas = (if pl_quotas pl = [] then [] else l_quotas l),
      l_roleBindings = (if pl_roleBindings pl = [] then [] else l_roleBindings l),
      l_scramCredentials = (if pl_users pl = [] then [] else l_scramCredentials l),
      l_supersededSchemas = (if pl_schemas pl = [] then Map.empty else l_supersededSchemas l),
      l_globalCompatibility = (if pl_schemas pl = [] then [] else l_globalCompatibility l),
      l_globalCompatibilityErr = l_globalCompatibilityErr l,
      l_mirrors = (if pl_topics pl = [] \<and> pl_mirrors pl = [] then None else l_mirrors l)\<rparr>"

lemma unread_simps:
  "pl_topics pl \<noteq> [] \<Longrightarrow> l_topics (unread pl l) = l_topics l"
  "pl_acls pl \<noteq> [] \<Longrightarrow> l_acls (unread pl l) = l_acls l"
  "pl_schemas pl \<noteq> [] \<Longrightarrow> l_schemas (unread pl l) = l_schemas l"
  "pl_schemas pl \<noteq> [] \<Longrightarrow> l_supersededSchemas (unread pl l) = l_supersededSchemas l"
  "pl_schemas pl \<noteq> [] \<Longrightarrow> l_globalCompatibility (unread pl l) = l_globalCompatibility l"
  "pl_quotas pl \<noteq> [] \<Longrightarrow> l_quotas (unread pl l) = l_quotas l"
  "pl_roleBindings pl \<noteq> [] \<Longrightarrow> l_roleBindings (unread pl l) = l_roleBindings l"
  "pl_users pl \<noteq> [] \<Longrightarrow> l_scramCredentials (unread pl l) = l_scramCredentials l"
  "pl_topics pl \<noteq> [] \<or> pl_mirrors pl \<noteq> [] \<Longrightarrow> l_mirrors (unread pl l) = l_mirrors l"
  by (auto simp: unread_def)

text \<open>The scopes the pipeline builds: from the desired sets themselves.\<close>

definition own_scopes :: "plan \<Rightarrow> plan" where
  "own_scopes pl =
     pl\<lparr>pl_scope := build_acl_scope (pl_acls pl), pl_roleBindingScope := build_rb_scope (pl_roleBindings pl)\<rparr>"

lemma empty_scopes:
  "\<not> scope_contains (build_acl_scope []) a" "\<not> rb_scope_contains (build_rb_scope []) b"
  by (simp_all add: scope_contains_build rb_scope_contains_def build_rb_scope_def build_scope_def)

lemma schema_ops_for_cong:
  assumes "l_globalCompatibility l = l_globalCompatibility l'" "l_supersededSchemas l = l_supersededSchemas l'"
  shows "schema_ops_for l = schema_ops_for l'"
  unfolding schema_ops_for_def assms ..

text \<open>
  C33. Scoped reads: leaving out the live state of every kind the manifests do not declare (the reads
  the CLI skips, so that a least-privilege credential suffices) changes no operation, its order
  included, because the prune scopes are built from the desired sets.
\<close>

theorem scoped_reads_sound:
  "compute (plan_desired (own_scopes pl) rot) (unread pl l) = compute (plan_desired (own_scopes pl) rot) l"
proof -
  let ?d = "plan_desired (own_scopes pl) rot"
  have guards: "guarded_topics ?d (unread pl l) = guarded_topics ?d l"
    by (cases "pl_topics pl = []")
      (simp_all add: guarded_topics_def plan_desired_def own_scopes_def unread_def split: option.split)
  have topics: "compute_topic_ops ?d (unread pl l) = compute_topic_ops ?d l"
    by (cases "pl_topics pl = []")
      (simp_all add: compute_topic_ops_def plan_desired_def own_scopes_def unread_def)
  have acls: "compute_acl_ops ?d (unread pl l) = compute_acl_ops ?d l"
    by (cases "pl_acls pl = []")
      (simp_all add: plan_acl_ops own_scopes_def unread_def add_prune_ops_def empty_scopes)
  have bindings: "compute_role_binding_ops ?d (unread pl l) = compute_role_binding_ops ?d l"
    by (cases "pl_roleBindings pl = []")
      (simp_all add: plan_rb_ops own_scopes_def unread_def add_prune_ops_def empty_scopes)
  have schemas: "compute_schema_ops ?d (unread pl l) = compute_schema_ops ?d l"
    by (cases "pl_schemas pl = []")
      (simp_all add: compute_schema_ops_def plan_desired_def own_scopes_def
        schema_ops_for_cong [of "unread pl l" l] unread_simps)
  have quotas: "compute_quota_ops ?d (unread pl l) = compute_quota_ops ?d l"
    by (cases "pl_quotas pl = []")
      (simp_all add: compute_quota_ops_def plan_desired_def own_scopes_def unread_def)
  have users: "compute_user_ops ?d (unread pl l) = compute_user_ops ?d l"
    by (cases "pl_users pl = []")
      (simp_all add: compute_user_ops_def plan_desired_def own_scopes_def unread_def)
  have mirrors: "compute_mirror_ops ?d (unread pl l) = compute_mirror_ops ?d l"
    by (cases "pl_mirrors pl = []")
      (simp_all add: compute_mirror_ops_def plan_desired_def own_scopes_def unread_def)
  show ?thesis
    by (simp add: compute_def unsorted_ops_def guards topics acls bindings schemas quotas users mirrors)
qed

end
