(* ===== verification/Pipeline_Props.thy ===== *)
theory Pipeline_Props
  imports Pipeline Validation_Props Cli_Props
begin

section \<open>Properties of the pipeline\<close>

named_theorems stage_iff "when a stage of the pipeline returns"

lemmas [stage_iff] = and_then_Inr

subsection \<open>The stages\<close>

lemma build_Inr:
  "build parse_url quote env opts = Inr r \<longleftrightarrow>
     (\<exists>loaded selected. load_all opts = Inr loaded \<and> select_cluster opts loaded = Inr selected \<and>
        check_manifests parse_url (apply_defaults (filter_cluster (bo_cluster opts) loaded)) = Inr () \<and>
        compile_plan quote env selected (apply_defaults (filter_cluster (bo_cluster opts) loaded)) = Inr r)"
  by (auto simp: build_def stage_iff Let_def)

lemma and_then_Inl: "and_then x f = Inl e \<longleftrightarrow> x = Inl e \<or> (\<exists>a. x = Inr a \<and> f a = Inl e)"
  by (cases x) auto

lemma check_manifests_Inr [stage_iff]:
  "check_manifests parse_url m = Inr () \<longleftrightarrow>
     validate parse_url (validation_input_of m) = [] \<and> (\<forall>u \<in> set (mf_users m). \<not> generates_password u)"
  by (auto simp: check_manifests_def Let_def filter_empty_conv)

lemma desired_acls_Inr:
  "desired_acls selected m = Inr acls \<Longrightarrow> acls = [] \<or> (\<exists>as. acls = fst (build_acl_set as))"
  by (auto simp: desired_acls_def Let_def split: if_splits option.splits list.splits
      dest!: map_of_SomeD)

lemma acl_set_keys: "distinct (map full_key (fst (build_acl_set as)))"
  by (simp add: build_acl_set_eq acl_kind.map_key_desired_spec)

lemma binding_set_keys: "distinct (map rb_full_key (fst (build_binding_set bs)))"
proof -
  have "mset (map rb_full_key (fst (build_binding_set bs))) = mset (nub (map rb_full_key (accepted_bindings bs)))"
    by (rule build_binding_set_keys)
  then show ?thesis by (metis distinct_nub mset_eq_imp_distinct_iff)
qed

lemma desired_bindings_Inr:
  assumes "desired_bindings quote selected m = Inr (bs, ws)"
  shows "distinct (map rb_full_key bs)"
proof -
  have "bs = [] \<or> (\<exists>xs. bs = fst (build_binding_set xs))"
    using assms by (auto simp: desired_bindings_def Let_def case_prod_beta split: if_splits)
  then show ?thesis using binding_set_keys by auto
qed

subsection \<open>One cluster at a time\<close>

lemma default_clusters [simp]:
  "topic_cluster (default_topic t d) = topic_cluster t"
  "policy_cluster (default_policy p) = policy_cluster p"
  "user_cluster (default_user u) = user_cluster u"
  "mirror_cluster (default_mirror_topic mt) = mirror_cluster mt"
  by (simp_all add: topic_cluster_def default_topic_def policy_cluster_def default_policy_def user_cluster_def
      default_user_def mirror_cluster_def default_mirror_topic_def Let_def)

lemma default_map_id [simp]: "map (\<lambda>(name, cl). (name, default_cluster cl)) cs = cs"
  by (induction cs) (auto simp: default_cluster_def)

lemma apply_defaults_clusters [simp]:
  "mf_clusters (apply_defaults m) = mf_clusters m" "clusters_loaded (apply_defaults m) = clusters_loaded m"
  "cluster_of (apply_defaults m) = cluster_of m"
  by (simp_all add: apply_defaults_def clusters_loaded_def cluster_of_def fun_eq_iff)

lemma filter_cluster_clusters [simp]: "mf_clusters (filter_cluster name m) = mf_clusters m"
  by (simp add: filter_cluster_def)

text \<open>Whether a resource of the manifests names the cluster.\<close>

definition on_cluster :: "string \<Rightarrow> manifests \<Rightarrow> bool" where
  "on_cluster name m \<longleftrightarrow>
     (\<forall>t \<in> set (mf_topics m). topic_cluster (fst t) = name) \<and> (\<forall>p \<in> set (mf_policies m). policy_cluster p = name) \<and>
     (\<forall>q \<in> set (mf_quotas m). quota_cluster q = name) \<and> (\<forall>b \<in> set (mf_roleBindings m). rb_cluster b = name) \<and>
     (\<forall>u \<in> set (mf_users m). user_cluster u = name) \<and> (\<forall>mt \<in> set (mf_mirrors m). mirror_cluster mt = name)"

lemma on_cluster_defaults [simp]: "on_cluster name (apply_defaults m) = on_cluster name m"
  by (auto simp: on_cluster_def apply_defaults_def)

lemma on_cluster_filter: "name \<noteq> [] \<Longrightarrow> on_cluster name (filter_cluster name m)"
  by (auto simp: on_cluster_def filter_cluster_def)

lemma validate_accepted:
  "validate parse_url v = [] \<Longrightarrow> resources_ok parse_url v \<and> identities_unique v"
  by (simp add: validate_accepted_iff)

text \<open>Validation resolves every reference, so with one cluster loaded every resource names it.\<close>

lemma validated_on_cluster:
  assumes "validate parse_url (validation_input_of m) = []" "mf_clusters m = [(name, cl)]"
  shows "on_cluster name m"
proof -
  have ok: "resources_ok parse_url (validation_input_of m)" using validate_accepted [OF assms(1)] by simp
  have vi: "vi_clusters (validation_input_of m) = Some [(name, cl)]"
    by (simp add: validation_input_of_def clusters_loaded_def assms(2))
  have "topic_cluster t = name" if "(t, src) \<in> set (mf_topics m)" for t src
  proof -
    have "t \<in> set (vi_topics (validation_input_of m))" using that by (force simp: validation_input_of_def)
    then have "topic_cluster_errors (Some [(name, cl)]) t = []"
      using ok by (auto simp: resources_ok_def Let_def vi list_all_iff)
    then show ?thesis by (auto simp: topic_cluster_errors_def split: if_splits)
  qed
  moreover have "policy_cluster p = name" if "p \<in> set (mf_policies m)" for p
  proof -
    have "p \<in> set (vi_policies (validation_input_of m))" using that by (simp add: validation_input_of_def)
    then have "policy_errors (Some [(name, cl)]) p = []"
      using ok by (auto simp: resources_ok_def Let_def vi list_all_iff)
    then show ?thesis by (auto simp: policy_errors_def policy_cluster_def cluster_ref_errors_def Let_def split: if_splits)
  qed
  moreover have "quota_cluster q = name" if "q \<in> set (mf_quotas m)" for q
  proof -
    have "q \<in> set (vi_quotas (validation_input_of m))" using that by (simp add: validation_input_of_def)
    then have "cluster_ref_errors (Some [(name, cl)]) ''KafkaQuota'' (om_name (kq_meta q)) (quota_cluster q) = []"
      using ok by (auto simp: resources_ok_def Let_def vi list_all_iff)
    then show ?thesis by (auto simp: cluster_ref_errors_def split: if_splits)
  qed
  moreover have "rb_cluster b = name" if "b \<in> set (mf_roleBindings m)" for b
  proof -
    have "b \<in> set (vi_roleBindings (validation_input_of m))" using that by (simp add: validation_input_of_def)
    then have "binding_accepted [(name, cl)] b"
      using ok by (auto simp: resources_ok_def Let_def vi list_all_iff)
    then show ?thesis by (auto simp: binding_accepted_def binding_mds_def split: if_splits)
  qed
  moreover have "user_cluster u = name" if "u \<in> set (mf_users m)" for u
  proof -
    have "u \<in> set (vi_users (validation_input_of m))" using that by (simp add: validation_input_of_def)
    then have "cluster_ref_errors (Some [(name, cl)]) ''KafkaUser'' (om_name (ku_meta u)) (user_cluster u) = []"
      using ok by (auto simp: resources_ok_def Let_def vi list_all_iff)
    then show ?thesis by (auto simp: cluster_ref_errors_def split: if_splits)
  qed
  moreover have "mirror_cluster mt = name" if "mt \<in> set (mf_mirrors m)" for mt
  proof -
    have "mt \<in> set (vi_mirrorTopics (validation_input_of m))" using that by (simp add: validation_input_of_def)
    then have "mirror_cluster_errors (Some [(name, cl)]) mt = []"
      using ok by (auto simp: resources_ok_def Let_def vi list_all_iff)
    then show ?thesis by (auto simp: mirror_cluster_errors_def split: if_splits)
  qed
  ultimately show ?thesis by (auto simp: on_cluster_def)
qed

lemma selected_on_cluster:
  assumes "select_cluster opts loaded = Inr selected" "selected \<noteq> []"
    and "validate parse_url (validation_input_of (apply_defaults (filter_cluster (bo_cluster opts) loaded))) = []"
  shows "on_cluster selected (apply_defaults (filter_cluster (bo_cluster opts) loaded))"
proof (cases "bo_cluster opts = []")
  case True
  then obtain cl where "mf_clusters loaded = [(selected, cl)]"
    using assms(1,2) by (auto simp: select_cluster_def split: if_splits list.splits)
  then show ?thesis using validated_on_cluster [OF assms(3)] by simp
next
  case False
  then have "selected = bo_cluster opts" using assms(1) by (auto simp: select_cluster_def split: if_splits)
  then show ?thesis using on_cluster_filter [OF assms(2)] by simp
qed

subsection \<open>The plan is consistent\<close>

text \<open>The password reference of a user the CLI can honour: one source, and neither in plain text.\<close>

definition password_by_reference :: "desired_user \<Rightarrow> bool" where
  "password_by_reference du \<longleftrightarrow>
     (case du_passwordRef du of
        None \<Rightarrow> False
      | Some vf \<Rightarrow> count_value_sources (vf_valueFrom vf) = 1 \<and> vs_inline (vf_valueFrom vf) = [] \<and>
          vs_configMapKeyRef (vf_valueFrom vf) = None)"

definition plan_consistent :: "plan \<Rightarrow> bool" where
  "plan_consistent pl \<longleftrightarrow>
     distinct (map full_key (pl_acls pl)) \<and> distinct (map rb_full_key (pl_roleBindings pl)) \<and>
     pl_scope pl = build_acl_scope (pl_acls pl) \<and> pl_roleBindingScope pl = build_rb_scope (pl_roleBindings pl) \<and>
     list_all password_by_reference (pl_users pl) \<and> list_all quota_typed (pl_quotas pl) \<and>
     (if pl_selectedCluster pl = [] then True
      else distinct (map dt_name (pl_topics pl) @ map dm_topicName (pl_mirrors pl)) \<and>
        distinct (map (cr_username \<circ> du_credential) (pl_users pl)))"

lemma validated_password:
  assumes "validate_user_shape u = []" "\<not> generates_password u"
  shows "password_by_reference (compile_desired_user u)"
  using assms
  by (auto simp: validate_user_shape_def Let_def password_errors_def password_source_errors_def
      generates_password_def password_by_reference_def compile_desired_user_def
      split: option.splits if_splits)

lemma distinct_names:
  assumes "distinct (map topic_claim_key ts @ map mirror_claim_key ms)"
    "\<forall>t \<in> set ts. topic_cluster t = c" "\<forall>m \<in> set ms. mirror_cluster m = c"
  shows "distinct (map (dt_name \<circ> desired_topic_of) ts @ map (dm_topicName \<circ> desired_mirror_of) ms)"
proof -
  have "map topic_claim_key ts @ map mirror_claim_key ms =
      map (\<lambda>n. c @ [NUL] @ n) (map (dt_name \<circ> desired_topic_of) ts @ map (dm_topicName \<circ> desired_mirror_of) ms)"
    using assms(2,3)
    by (simp add: topic_claim_key_def mirror_claim_key_def desired_topic_of_def desired_mirror_of_def Let_def)
  then show ?thesis using assms(1) by (metis distinct_map)
qed

lemma distinct_usernames:
  assumes "distinct (map user_claim_key us)" "\<forall>u \<in> set us. user_cluster u = c"
  shows "distinct (map (cr_username \<circ> du_credential \<circ> compile_desired_user) us)"
proof -
  have "map user_claim_key us = map (\<lambda>n. c @ [NUL] @ n) (map (cr_username \<circ> du_credential \<circ> compile_desired_user) us)"
    using assms(2)
    by (simp add: user_claim_key_def user_key_def compile_desired_user_def user_compile_def)
  then show ?thesis using assms(1) by (metis distinct_map)
qed

lemma quota_typed_compile: "validate_quota_shape q = [] \<Longrightarrow> quota_typed (quota_compile q)"
  by (rule validated_quota_well_typed)

text \<open>
  C28. A built plan is consistent: one ACL and one role binding per identity, the managed scopes are those
  of the desired sets, every quota is well typed, every user's password is one reference to an environment
  variable, a file or a secret, and, when a cluster is selected, no two topics or mirror topics share a
  name and no two users a username. So the runs and retries of the plan are covered by the results on
  \<open>apply\<close> and \<open>verify\<close>.
\<close>

theorem build_plan_consistent:
  assumes "build parse_url quote env opts = Inr r"
  shows "plan_consistent (br_plan r)"
proof -
  obtain loaded selected where sel: "select_cluster opts loaded = Inr selected"
    and check: "check_manifests parse_url (apply_defaults (filter_cluster (bo_cluster opts) loaded)) = Inr ()"
    and compile: "compile_plan quote env selected (apply_defaults (filter_cluster (bo_cluster opts) loaded)) = Inr r"
    using assms by (auto simp: build_Inr)
  let ?m = "apply_defaults (filter_cluster (bo_cluster opts) loaded)"
  have valid: "validate parse_url (validation_input_of ?m) = []"
    and gen: "\<forall>u \<in> set (mf_users ?m). \<not> generates_password u"
    using check by (simp_all add: check_manifests_Inr)
  have ok: "resources_ok parse_url (validation_input_of ?m)" "identities_unique (validation_input_of ?m)"
    using validate_accepted [OF valid] by simp_all
  obtain acls schemas bs ws where parts: "desired_acls selected ?m = Inr acls"
      "desired_bindings quote selected ?m = Inr (bs, ws)"
    and pl: "pl_acls (br_plan r) = acls" "pl_roleBindings (br_plan r) = bs" "pl_scope (br_plan r) = build_acl_scope acls"
      "pl_roleBindingScope (br_plan r) = build_rb_scope bs" "pl_users (br_plan r) = desired_users selected ?m"
      "pl_quotas (br_plan r) = desired_quotas selected ?m" "pl_selectedCluster (br_plan r) = selected"
      "pl_topics (br_plan r) = map (desired_topic_of \<circ> fst) (mf_topics ?m)"
      "pl_mirrors (br_plan r) = map desired_mirror_of (mf_mirrors ?m)"
    using compile by (auto simp: compile_plan_def and_then_Inr)
  have users: "list_all (\<lambda>u. validate_user_shape u = []) (mf_users ?m)"
    and quotas: "list_all (\<lambda>q. validate_quota_shape q = []) (mf_quotas ?m)"
    using ok(1) by (simp_all add: resources_ok_def Let_def validation_input_of_def list_all_iff)
  have "list_all password_by_reference (desired_users selected ?m)"
    using users gen by (auto simp: desired_users_def list_all_iff intro: validated_password)
  moreover have "list_all quota_typed (desired_quotas selected ?m)"
    using quotas by (auto simp: desired_quotas_def list_all_iff intro: quota_typed_compile)
  moreover have "distinct (map full_key acls)" using desired_acls_Inr [OF parts(1)] acl_set_keys by auto
  moreover have "distinct (map rb_full_key bs)" by (rule desired_bindings_Inr [OF parts(2)])
  moreover have "distinct (map dt_name (pl_topics (br_plan r)) @ map dm_topicName (pl_mirrors (br_plan r))) \<and>
      distinct (map (cr_username \<circ> du_credential) (desired_users selected ?m))" if "selected \<noteq> []"
  proof -
    have on: "on_cluster selected ?m" by (rule selected_on_cluster [OF sel that valid])
    have uniq: "distinct (map topic_claim_key (map fst (mf_topics ?m)) @ map mirror_claim_key (mf_mirrors ?m))"
        "distinct (map user_claim_key (mf_users ?m))"
      using ok(2) by (simp_all only: identities_unique_def validation_input_of_def validation_input.simps)
    show ?thesis
      using distinct_names [OF uniq(1), of selected] distinct_usernames [OF uniq(2), of selected] on that
      by (simp add: pl on_cluster_def desired_users_def single_cluster_def o_def case_prod_beta)
  qed
  ultimately show ?thesis by (simp add: plan_consistent_def pl)
qed

subsection \<open>Other clusters do not matter\<close>

text \<open>Whether the resource an object holds names the cluster (a KafkaCluster always does).\<close>

definition names_cluster :: "string \<Rightarrow> loaded \<Rightarrow> bool" where
  "names_cluster name ob =
     (case lo_topic ob of Some t \<Rightarrow> topic_cluster t = name
      | None \<Rightarrow>
     (case lo_policy ob of Some p \<Rightarrow> policy_cluster p = name
      | None \<Rightarrow>
     (case lo_cluster ob of Some c \<Rightarrow> True
      | None \<Rightarrow>
     (case lo_quota ob of Some q \<Rightarrow> quota_cluster q = name
      | None \<Rightarrow>
     (case lo_roleBinding ob of Some b \<Rightarrow> rb_cluster b = name
      | None \<Rightarrow>
     (case lo_user ob of Some u \<Rightarrow> user_cluster u = name
      | None \<Rightarrow>
     (case lo_mirrorTopic ob of Some mt \<Rightarrow> mirror_cluster mt = name
      | None \<Rightarrow> True)))))))"

lemma filter_cluster_update:
  assumes "name \<noteq> []"
  shows "filter_cluster name (m\<lparr>mf_topics := ts\<rparr>) =
      (filter_cluster name m)\<lparr>mf_topics := filter (\<lambda>(t, src). topic_cluster t = name) ts\<rparr>"
    and "filter_cluster name (m\<lparr>mf_policies := xs_policy\<rparr>) =
      (filter_cluster name m)\<lparr>mf_policies := filter (\<lambda>x. policy_cluster x = name) xs_policy\<rparr>"
    and "filter_cluster name (m\<lparr>mf_quotas := xs_quota\<rparr>) =
      (filter_cluster name m)\<lparr>mf_quotas := filter (\<lambda>x. quota_cluster x = name) xs_quota\<rparr>"
    and "filter_cluster name (m\<lparr>mf_roleBindings := xs_roleBinding\<rparr>) =
      (filter_cluster name m)\<lparr>mf_roleBindings := filter (\<lambda>x. rb_cluster x = name) xs_roleBinding\<rparr>"
    and "filter_cluster name (m\<lparr>mf_users := xs_user\<rparr>) =
      (filter_cluster name m)\<lparr>mf_users := filter (\<lambda>x. user_cluster x = name) xs_user\<rparr>"
    and "filter_cluster name (m\<lparr>mf_mirrors := xs_mirrorTopic\<rparr>) =
      (filter_cluster name m)\<lparr>mf_mirrors := filter (\<lambda>x. mirror_cluster x = name) xs_mirrorTopic\<rparr>"
    and "filter_cluster name (m\<lparr>mf_clusters := cs\<rparr>) = (filter_cluster name m)\<lparr>mf_clusters := cs\<rparr>"
  using assms by (simp_all add: filter_cluster_def)

lemma filter_cluster_select:
  assumes "name \<noteq> []"
  shows "mf_topics (filter_cluster name m) = filter (\<lambda>(t, src). topic_cluster t = name) (mf_topics m)"
    and "mf_policies (filter_cluster name m) = filter (\<lambda>x. policy_cluster x = name) (mf_policies m)"
    and "mf_quotas (filter_cluster name m) = filter (\<lambda>x. quota_cluster x = name) (mf_quotas m)"
    and "mf_roleBindings (filter_cluster name m) = filter (\<lambda>x. rb_cluster x = name) (mf_roleBindings m)"
    and "mf_users (filter_cluster name m) = filter (\<lambda>x. user_cluster x = name) (mf_users m)"
    and "mf_mirrors (filter_cluster name m) = filter (\<lambda>x. mirror_cluster x = name) (mf_mirrors m)"
  using assms by (simp_all add: filter_cluster_def)

lemma filter_add_object:
  assumes "name \<noteq> []"
  shows "filter_cluster name (add_object m ob) =
    (if names_cluster name ob then add_object (filter_cluster name m) ob else filter_cluster name m)"
proof -
  note rules = add_object_def names_cluster_def filter_cluster_update [OF assms] filter_cluster_select [OF assms]
  consider (t) t where "lo_topic ob = Some t"
    | (p) x where "lo_topic ob = None" "lo_policy ob = Some x"
    | (c) x where "lo_topic ob = None" "lo_policy ob = None" "lo_cluster ob = Some x"
    | (q) x where "lo_topic ob = None" "lo_policy ob = None" "lo_cluster ob = None" "lo_quota ob = Some x"
    | (b) x where "lo_topic ob = None" "lo_policy ob = None" "lo_cluster ob = None" "lo_quota ob = None" "lo_roleBinding ob = Some x"
    | (u) x where "lo_topic ob = None" "lo_policy ob = None" "lo_cluster ob = None" "lo_quota ob = None" "lo_roleBinding ob = None" "lo_user ob = Some x"
    | (mt) x where "lo_topic ob = None" "lo_policy ob = None" "lo_cluster ob = None" "lo_quota ob = None" "lo_roleBinding ob = None" "lo_user ob = None" "lo_mirrorTopic ob = Some x"
    | (none) "lo_topic ob = None" "lo_policy ob = None" "lo_cluster ob = None" "lo_quota ob = None" "lo_roleBinding ob = None" "lo_user ob = None" "lo_mirrorTopic ob = None"
    by (metis option.exhaust)
  then show ?thesis
    by cases (simp_all add: rules)
qed

lemma filter_split_objects:
  assumes "name \<noteq> []"
  shows "filter_cluster name (foldl add_object m (filter (names_cluster name) objs)) =
    filter_cluster name (foldl add_object m objs)"
proof -
  have "filter_cluster name (foldl add_object m (filter (names_cluster name) objs)) =
      filter_cluster name (foldl add_object m' objs)"
    if "filter_cluster name m = filter_cluster name m'" for m m'
    using that
  proof (induction objs arbitrary: m m')
    case Nil
    then show ?case by simp
  next
    case (Cons ob objs)
    show ?case
      using Cons.IH [of "add_object m ob" "add_object m' ob"] Cons.IH [of m "add_object m' ob"] Cons.prems
        filter_add_object [OF assms, of m ob] filter_add_object [OF assms, of m' ob]
      by simp
  qed
  then show ?thesis by simp
qed

lemma filter_add_cluster_configs:
  "filter_cluster name (add_cluster_configs cfg m) = add_cluster_configs cfg (filter_cluster name m)"
  by (simp add: filter_cluster_def add_cluster_configs_def)

text \<open>
  C29. With \<open>--cluster\<close>, manifests of other clusters do not exist: \<open>Build\<close> returns the same plan, or the
  same error, as on the manifests that name the selected cluster alone (and the cluster configurations).
  No resource of another cluster can add an operation, block the run or fail its validation.
\<close>

theorem build_ignores_other_clusters:
  assumes "bo_cluster opts \<noteq> []" "bo_manifests opts = Inr objs"
  shows "build parse_url quote env
      (opts\<lparr>bo_manifests := Inr (filter (names_cluster (bo_cluster opts)) objs)\<rparr>) = build parse_url quote env opts"
proof -
  let ?n = "bo_cluster opts" and ?opts = "opts\<lparr>bo_manifests := Inr (filter (names_cluster (bo_cluster opts)) objs)\<rparr>"
  have filt: "filter_cluster ?n (split_objects (filter (names_cluster ?n) objs)) = filter_cluster ?n (split_objects objs)"
    unfolding split_objects_def by (rule filter_split_objects [OF assms(1)])
  have same: "(load_all ?opts = Inl e \<longleftrightarrow> load_all opts = Inl e) \<and>
      (\<forall>a b. load_all ?opts = Inr a \<longrightarrow> load_all opts = Inr b \<longrightarrow> filter_cluster ?n a = filter_cluster ?n b)" for e
    using assms(2) filt
    by (auto simp: load_all_def filter_add_cluster_configs split: option.split sum.split)
  show ?thesis
  proof (cases "load_all opts")
    case (Inl e)
    then have "load_all ?opts = Inl e" using same by simp
    then show ?thesis using Inl by (simp add: build_def)
  next
    case (Inr b)
    then obtain a where a: "load_all ?opts = Inr a" using same by (cases "load_all ?opts") auto
    then have f: "filter_cluster ?n a = filter_cluster ?n b" using same Inr by blast
    have cl: "mf_clusters a = mf_clusters b" using f by (metis filter_cluster_clusters)
    have "select_cluster ?opts a = select_cluster opts b"
      by (simp add: select_cluster_def clusters_loaded_def cl)
    then show ?thesis using f by (simp add: build_def Inr a)
  qed
qed

subsection \<open>Role bindings after validation\<close>

lemma validated_cluster:
  assumes "validate parse_url (validation_input_of m) = []" "cluster_of m name = Some cl"
    "has_access_backend (Some cl) ''rbac''"
  shows "mds_of (Some cl) \<noteq> None"
proof -
  have loaded: "vi_clusters (validation_input_of m) = Some (mf_clusters m)"
    using assms(2) by (auto simp: validation_input_of_def clusters_loaded_def cluster_of_def)
  have "name \<in> set (mkeys (mf_clusters m))" using assms(2) by (auto simp: cluster_of_def)
  then have "cluster_errors parse_url name (the (mget (mf_clusters m) name)) = []"
    using validate_accepted [OF assms(1)] by (auto simp: resources_ok_def Let_def loaded list_all_iff)
  then have "cluster_errors parse_url name cl = []" using assms(2) by (simp add: cluster_of_def)
  then have auth: "validate_cluster_authorization cl = []" by (simp add: cluster_errors_def Let_def)
  have "kcs_authorization (kc_spec cl) \<noteq> None"
    using assms(3) by (auto simp: has_access_backend_def effective_access_backends_def split: option.splits)
  then show ?thesis using auth assms(3)
    by (auto simp: validate_cluster_authorization_def mds_of_def split: option.splits)
qed

lemma validated_explicit:
  assumes "validate parse_url (validation_input_of m) = []" "clusters_loaded m" "rb \<in> set (mf_roleBindings m)"
  obtains mds bs where "binding_mds (mf_clusters m) rb = Some mds" "rbac_compile rb mds = Inr bs"
    "compile_explicit m rb = Inr bs"
proof -
  have "binding_accepted (mf_clusters m) rb"
    using validate_accepted [OF assms(1)] assms(2,3)
    by (auto simp: resources_ok_def Let_def validation_input_of_def list_all_iff)
  then obtain mds where mds: "binding_mds (mf_clusters m) rb = Some mds" "scope_id_errors rb (mds_clusters_of mds) = []"
    by (auto simp: binding_accepted_def split: option.splits)
  obtain bs where bs: "rbac_compile rb mds = Inr bs" using mds(2) by (rule validated_scope_compiles)
  have "mds_of (cluster_of m (rb_cluster rb)) = Some mds"
    using mds(1) by (simp add: mds_of_def cluster_of_def binding_mds_def)
  then have "compile_explicit m rb = Inr bs" by (simp add: compile_explicit_def bs)
  then show ?thesis using that mds(1) bs by blast
qed

lemma rbac_compile_explicit: "rbac_compile rb mds = Inr bs \<Longrightarrow> b \<in> set bs \<Longrightarrow> explicit_binding b"
  by (auto simp: rbac_compile_def Let_def explicit_binding_def split: sum.splits if_splits)

lemma topic_access_derived:
  "compile_topic_access quote t mds = Inr (bs, ws) \<Longrightarrow> b \<in> set bs \<Longrightarrow> \<not> explicit_binding b"
  by (auto simp: compile_topic_access_def Let_def explicit_binding_def topic_binding_def split: sum.splits)

lemma topic_access_error: "compile_topic_access quote t mds = Inl e \<Longrightarrow> e = KafkaClusterMissing"
  by (auto simp: compile_topic_access_def resolve_scope_def Let_def split: sum.splits if_splits)

lemma topic_binding_errors:
  assumes "validate parse_url (validation_input_of m) = []" "compile_topic_bindings quote m t = Inl e"
  shows "\<exists>ns name. e = TopicCompileFailed ns name KafkaClusterMissing"
proof -
  have rb: "rbac_topic m t" using assms(2) by (auto simp: compile_topic_bindings_def split: if_splits)
  then obtain cl where cl: "cluster_of m (topic_cluster t) = Some cl" by (auto simp: rbac_topic_def)
  then have "mds_of (Some cl) \<noteq> None"
    using validated_cluster [OF assms(1) cl] rb by (simp add: rbac_topic_def)
  then show ?thesis using assms(2) rb cl
    by (auto simp: compile_topic_bindings_def dest: topic_access_error split: if_splits option.splits sum.splits)
qed

lemma explicit_bindings_unique:
  assumes "validate parse_url (validation_input_of m) = []" "clusters_loaded m" "on_cluster c m"
  shows "distinct (map rb_full_key (concat (rights (map (compile_explicit m) (mf_roleBindings m)))))"
proof -
  have keys: "map (\<lambda>k. c @ [NUL] @ k) (map rb_full_key (concat (rights (map (compile_explicit m) rbs)))) =
      concat (map (binding_claim_keys (mf_clusters m)) rbs)" if "set rbs \<subseteq> set (mf_roleBindings m)" for rbs
    using that
  proof (induction rbs)
    case Nil
    then show ?case by (simp add: rights_def)
  next
    case (Cons rb rbs)
    then have rb: "rb \<in> set (mf_roleBindings m)" by simp
    obtain mds bs where c: "binding_mds (mf_clusters m) rb = Some mds" "rbac_compile rb mds = Inr bs"
        "compile_explicit m rb = Inr bs"
      by (rule validated_explicit [OF assms(1,2) rb])
    have "rb_cluster rb = c" using assms(3) rb by (simp add: on_cluster_def)
    then have "binding_claim_keys (mf_clusters m) rb = map (\<lambda>k. c @ [NUL] @ k) (map rb_full_key bs)"
      by (simp add: binding_claim_keys_def c)
    then show ?case using Cons by (simp add: rights_def c)
  qed
  have "distinct (concat (map (binding_claim_keys (mf_clusters m)) (mf_roleBindings m)))"
    using validate_accepted [OF assms(1)] assms(2)
    by (simp add: identities_unique_def validation_input_of_def del: distinct_concat_iff)
  then show ?thesis using keys [OF subset_refl] by (metis distinct_map)
qed

lemma rights_sets: "set (concat (rights xs)) = (\<Union>x \<in> set (rights xs). set x)" "y \<in> set (rights zs) \<longleftrightarrow> Inr y \<in> set zs"
  by (auto simp: rights_def split: sum.splits)

lemma no_collisions:
  assumes "validate parse_url (validation_input_of m) = []" "clusters_loaded m" "on_cluster c m"
  shows "snd (build_binding_set (concat (rights (map (compile_explicit m) (mf_roleBindings m))) @
      concat (map fst (rights (map (compile_topic_bindings quote m \<circ> fst) (mf_topics m)))))) = []"
proof -
  let ?es = "concat (rights (map (compile_explicit m) (mf_roleBindings m)))"
  let ?ts = "concat (map fst (rights (map (compile_topic_bindings quote m \<circ> fst) (mf_topics m))))"
  have "explicit_binding b" if "b \<in> set ?es" for b
    using that by (auto simp: rights_sets compile_explicit_def dest!: rbac_compile_explicit
        split: option.splits sum.splits)
  moreover have "\<not> explicit_binding b" if "b \<in> set ?ts" for b
    using that by (auto simp: rights_sets compile_topic_bindings_def
        split: option.splits sum.splits if_splits) (blast dest: topic_access_derived)
  moreover have "identity_unique ?es"
    using explicit_bindings_unique [OF assms] by (auto simp: identity_unique_def same_source_def distinct_map dest: inj_onD)
  ultimately show ?thesis
    using con_filter_explicit [of "[]" ?es] con_filter_derived [of ?ts]
    by (simp add: build_binding_set_eq con_filter_append identity_unique_def)
qed

text \<open>The failures of the stages before role bindings.\<close>

definition binding_failure :: "build_error \<Rightarrow> bool" where
  "binding_failure f \<longleftrightarrow> (case f of BindingErrors _ \<Rightarrow> True | BindingCollisions _ \<Rightarrow> True | _ \<Rightarrow> False)"

lemma earlier_failures:
  "load_all opts = Inl f \<Longrightarrow> \<not> binding_failure f" "select_cluster opts loaded = Inl f \<Longrightarrow> \<not> binding_failure f"
  "check_manifests parse_url m = Inl f \<Longrightarrow> \<not> binding_failure f" "desired_acls selected m = Inl f \<Longrightarrow> \<not> binding_failure f"
  "desired_schemas env m = Inl f \<Longrightarrow> \<not> binding_failure f"
  by (auto simp: binding_failure_def load_all_def select_cluster_def check_manifests_def desired_acls_def
      desired_schemas_def Let_def split: sum.splits option.splits if_splits)

lemma compile_plan_failure:
  assumes "compile_plan quote env selected m = Inl f" "binding_failure f"
  shows "desired_bindings quote selected m = Inl f"
  using assms by (auto simp: compile_plan_def and_then_Inl dest: earlier_failures)

lemma binding_stage:
  assumes "build parse_url quote env opts = Inl f" "binding_failure f"
  obtains loaded selected where "load_all opts = Inr loaded" "select_cluster opts loaded = Inr selected"
    "validate parse_url (validation_input_of (apply_defaults (filter_cluster (bo_cluster opts) loaded))) = []"
    "desired_bindings quote selected (apply_defaults (filter_cluster (bo_cluster opts) loaded)) = Inl f"
  using assms by (auto simp: build_def Let_def and_then_Inl check_manifests_Inr dest: earlier_failures compile_plan_failure)

lemma left_errors_set: "e \<in> set (concat (map left_errors xs)) \<longleftrightarrow> Inl e \<in> set xs"
  by (auto simp: left_errors_def split: sum.splits)

lemma binding_errors_origin:
  assumes "desired_bindings quote selected m = Inl (BindingErrors errs)" "e \<in> set errs"
  shows "clusters_loaded m \<and> ((\<exists>rb \<in> set (mf_roleBindings m). compile_explicit m rb = Inl e) \<or>
    (\<exists>t \<in> set (mf_topics m). compile_topic_bindings quote m (fst t) = Inl e))"
proof -
  let ?es = "if clusters_loaded m then map (compile_explicit m) (mf_roleBindings m) else []"
  let ?ts = "if clusters_loaded m then map (compile_topic_bindings quote m \<circ> fst) (mf_topics m) else []"
  have "errs = concat (map left_errors ?es) @ concat (map left_errors ?ts)"
    using assms(1) unfolding desired_bindings_def Let_def case_prod_beta
    by (simp only: split: if_splits) simp_all
  then have "Inl e \<in> set ?es \<or> Inl e \<in> set ?ts"
    using assms(2) by (simp only: set_append Un_iff left_errors_set)
  then show ?thesis by (auto simp: image_iff split: if_splits) (metis fst_conv)+
qed

text \<open>
  Validation leaves one way for role bindings to fail: \<open>Build\<close> reports a binding error only for a
  topic whose cluster maps its access block to RBAC without an MDS Kafka cluster id (never for an explicit
  KafkaRoleBinding, and never for a missing MDS), and it reports colliding bindings only when no single
  cluster is selected.
\<close>

theorem build_binding_failures:
  assumes "build parse_url quote env opts = Inl failure"
  shows "case failure of
      BindingErrors errs \<Rightarrow> list_all (\<lambda>e. case e of TopicCompileFailed ns name err \<Rightarrow> err = KafkaClusterMissing | _ \<Rightarrow> False) errs
    | BindingCollisions cs \<Rightarrow> (\<exists>m. load_all opts = Inr m \<and> select_cluster opts m = Inr [])
    | _ \<Rightarrow> True"
proof -
  have split: "?thesis" if "\<And>errs. failure = BindingErrors errs \<Longrightarrow>
      \<forall>e \<in> set errs. \<exists>ns name. e = TopicCompileFailed ns name KafkaClusterMissing"
    "\<And>cs. failure = BindingCollisions cs \<Longrightarrow> \<exists>m. load_all opts = Inr m \<and> select_cluster opts m = Inr []"
    using that by (cases failure) (force simp: list_all_iff split: binding_error.split)+
  show ?thesis
  proof (rule split)
    fix errs assume f: "failure = BindingErrors errs"
    then have "binding_failure failure" by (simp add: binding_failure_def)
    then obtain loaded selected where s: "validate parse_url (validation_input_of (apply_defaults (filter_cluster (bo_cluster opts) loaded))) = []"
      "desired_bindings quote selected (apply_defaults (filter_cluster (bo_cluster opts) loaded)) = Inl failure"
      by (rule binding_stage [OF assms])
    let ?m = "apply_defaults (filter_cluster (bo_cluster opts) loaded)"
    show "\<forall>e \<in> set errs. \<exists>ns name. e = TopicCompileFailed ns name KafkaClusterMissing"
    proof
      fix e assume e: "e \<in> set errs"
      have "clusters_loaded ?m" and origin: "(\<exists>rb \<in> set (mf_roleBindings ?m). compile_explicit ?m rb = Inl e) \<or>
          (\<exists>t \<in> set (mf_topics ?m). compile_topic_bindings quote ?m (fst t) = Inl e)"
        using binding_errors_origin [OF s(2) [unfolded f] e] by blast+
      then have "compile_explicit ?m rb \<noteq> Inl e" if "rb \<in> set (mf_roleBindings ?m)" for rb
        using validated_explicit [OF s(1) _ that] by (metis sum.distinct(1))
      then show "\<exists>ns name. e = TopicCompileFailed ns name KafkaClusterMissing"
        using origin topic_binding_errors [OF s(1)] by blast
    qed
  next
    fix cs assume f: "failure = BindingCollisions cs"
    then have "binding_failure failure" by (simp add: binding_failure_def)
    then obtain loaded selected where s: "load_all opts = Inr loaded" "select_cluster opts loaded = Inr selected"
      "validate parse_url (validation_input_of (apply_defaults (filter_cluster (bo_cluster opts) loaded))) = []"
      "desired_bindings quote selected (apply_defaults (filter_cluster (bo_cluster opts) loaded)) = Inl failure"
      by (rule binding_stage [OF assms])
    have "selected = []"
    proof (rule ccontr)
      assume "selected \<noteq> []"
      then have on: "on_cluster selected (apply_defaults (filter_cluster (bo_cluster opts) loaded))"
        by (rule selected_on_cluster [OF s(2) _ s(3)])
      show False
        using no_collisions [OF s(3) _ on, of quote] s(4) f
        by (auto simp: desired_bindings_def Let_def case_prod_beta rights_def build_binding_set_eq split: if_splits)
    qed
    then show "\<exists>m. load_all opts = Inr m \<and> select_cluster opts m = Inr []" using s by blast
  qed
qed

subsection \<open>A sample build\<close>

definition sample_meta :: "string \<Rightarrow> object_meta" where
  "sample_meta name =
     \<lparr>om_apiVersion = API_VERSION, om_name = name, om_namespace = ''team-a'', om_uid = [], om_generation = 1,
      om_annotations = []\<rparr>"

definition sample_object :: loaded where
  "sample_object =
     \<lparr>lo_source = ''team-a/topics.yaml'', lo_topic = None, lo_policy = None, lo_cluster = None, lo_quota = None,
      lo_roleBinding = None, lo_user = None, lo_mirrorTopic = None\<rparr>"

definition sample_topic_on :: "string \<Rightarrow> string \<Rightarrow> int \<Rightarrow> loaded" where
  "sample_topic_on clusterRef name partitions = sample_object\<lparr>lo_topic := Some
     \<lparr>kt_meta = sample_meta name,
      kt_spec = \<lparr>kts_clusterRef = \<lparr>cr_name = clusterRef\<rparr>, kts_topicName = [], kts_partitions = partitions,
        kts_replicationFactor = None, kts_config = [],
        kts_access = \<lparr>ta_producers = [\<lparr>pa_principal = ''User:app'', pa_host = [], pa_operations = []\<rparr>],
          ta_consumers = []\<rparr>,
        kts_schema = None, kts_reconciliation = None, kts_drift = None, kts_prune = False,
        kts_deletionPolicy = []\<rparr>\<rparr>\<rparr>"

definition sample_cluster_config :: "string \<Rightarrow> string \<Rightarrow> loaded" where
  "sample_cluster_config name kafkaId = sample_object\<lparr>lo_cluster := Some
     \<lparr>kc_meta = sample_meta name,
      kc_spec = \<lparr>kcs_bootstrapServers = ''b:9092'', kcs_tls = None, kcs_auth = None, kcs_schemaRegistry = None,
        kcs_defaults = None, kcs_tenancy = None,
        kcs_authorization = Some \<lparr>az_mds = Some
            \<lparr>mds_endpoint = ''https://mds'', mds_authn = None, mds_tls = None,
             mds_clusters_of = \<lparr>mc_kafkaCluster = kafkaId, mc_schemaRegistryCluster = [], mc_connectCluster = [],
               mc_ksqlCluster = []\<rparr>\<rparr>,
          az_accessBackends = [''acl'', ''rbac'']\<rparr>,
        kcs_rest = None\<rparr>\<rparr>\<rparr>"

definition sample_options :: "string \<Rightarrow> build_options" where
  "sample_options kafkaId =
     \<lparr>bo_manifests = Inr [sample_topic_on ''prod'' ''orders'' 3, sample_topic_on ''dev'' ''broken'' 0],
      bo_clusterConfigs = Some (Inr [sample_cluster_config ''prod'' kafkaId]), bo_cluster = ''prod'',
      bo_requireClusters = True\<rparr>"

definition sample_env :: cli_env where
  "sample_env = \<lparr>env_var = Map.empty, read_file = (\<lambda>p. Inl ''no such file'')\<rparr>"

definition sample_build :: "string \<Rightarrow> build_error + build_result" where
  "sample_build kafkaId =
     build (\<lambda>_. None) id sample_env (sample_options kafkaId)"

theorem build_plan_consistent_witness:
  "\<exists>r. sample_build ''k1'' = Inr r \<and> plan_consistent (br_plan r) \<and>
     map dt_name (pl_topics (br_plan r)) = [''orders''] \<and> length (pl_acls (br_plan r)) = 2 \<and>
     length (pl_roleBindings (br_plan r)) = 1"
proof -
  have ok: "case sample_build ''k1'' of Inl _ \<Rightarrow> False
      | Inr r \<Rightarrow> map dt_name (pl_topics (br_plan r)) = [''orders''] \<and> length (pl_acls (br_plan r)) = 2 \<and>
          length (pl_roleBindings (br_plan r)) = 1"
    by code_simp
  then obtain r where r: "sample_build ''k1'' = Inr r" by (cases "sample_build ''k1''") auto
  have "plan_consistent (br_plan r)"
    using build_plan_consistent r unfolding sample_build_def by blast
  then show ?thesis using r ok by auto
qed

theorem build_ignores_other_clusters_witness:
  "build (\<lambda>_. None) id sample_env
     ((sample_options ''k1'')\<lparr>bo_manifests := Inr [sample_topic_on ''prod'' ''orders'' 3]\<rparr>) =
   sample_build ''k1''"
proof -
  have "bo_cluster (sample_options ''k1'') \<noteq> []" and load: "bo_manifests (sample_options ''k1'') =
      Inr [sample_topic_on ''prod'' ''orders'' 3, sample_topic_on ''dev'' ''broken'' 0]"
    by (simp_all add: sample_options_def)
  moreover have "filter (names_cluster (bo_cluster (sample_options ''k1'')))
      [sample_topic_on ''prod'' ''orders'' 3, sample_topic_on ''dev'' ''broken'' 0] =
    [sample_topic_on ''prod'' ''orders'' 3]"
    by (simp add: sample_options_def names_cluster_def sample_topic_on_def topic_cluster_def)
  ultimately show ?thesis
    unfolding sample_build_def using build_ignores_other_clusters [of "sample_options ''k1''"] by metis
qed

theorem build_binding_failures_witness:
  "\<exists>errs. sample_build [] = Inl (BindingErrors errs) \<and> errs \<noteq> [] \<and>
     list_all (\<lambda>e. case e of TopicCompileFailed ns name err \<Rightarrow> err = KafkaClusterMissing | _ \<Rightarrow> False) errs"
proof -
  have "case sample_build [] of Inl (BindingErrors errs) \<Rightarrow> errs \<noteq> [] | _ \<Rightarrow> False"
    by code_simp
  then obtain errs where e: "sample_build [] = Inl (BindingErrors errs)" "errs \<noteq> []"
    by (auto split: sum.splits build_error.splits)
  show ?thesis
    using build_binding_failures [OF e(1) [unfolded sample_build_def]] e by (auto simp: sample_build_def)
qed

end
