(* ===== verification/Json_Fuel.thy ===== *)
theory Json_Fuel
  imports Json
begin

section \<open>The JSON reader needs no more fuel\<close>

text \<open>
  Every two calls of the reader consume a byte, so the fuel \<open>2 * length s + 2\<close> of \<open>json_decode\<close> and
  \<open>json_unmarshal\<close> never runs out: more fuel gives the same result.
\<close>

lemma skip_ws_length: "length (skip_ws s) \<le> length s"
  by (induction s) auto

lemma skip_ws_shorter: "skip_ws s = c # t \<Longrightarrow> length t < length s"
  using skip_ws_length [of s] by simp

lemma hex4_length: "hex4 s = Some (r, t) \<Longrightarrow> length t < length s"
  by (induction s rule: hex4.induct) (auto split: option.splits)

lemma low_surrogate_length: "low_surrogate s = Some (r, t) \<Longrightarrow> length t < length s"
  by (auto simp: low_surrogate_def split: list.splits if_splits option.splits dest!: hex4_length)

lemma surrogate_pair_length:
  "hex4 s = Some (r, t) \<Longrightarrow> low_surrogate t = Some (q, u) \<Longrightarrow> length u < length s"
  using hex4_length [of s r t] low_surrogate_length [of t q u] by simp

lemma scan_string_fuel: "length s < n \<Longrightarrow> length s < m \<Longrightarrow> scan_string n s = scan_string m s"
proof (induction s arbitrary: n m rule: length_induct)
  case (1 s)
  obtain n' m' where nm: "n = Suc n'" "m = Suc m'" using "1.prems" by (cases n; cases m) auto
  show ?case
  proof (cases s)
    case Nil
    then show ?thesis by (simp add: nm)
  next
    case (Cons c t)
    have same: "scan_string n' u = scan_string m' u" if "length u \<le> length t" for u
      using "1.IH" "1.prems" that by (simp add: Cons nm)
    have escaped: "scan_string n' v = scan_string m' v" if "hex4 u = Some (r, v)" "t = e # u" for r v e u
      by (rule same) (use hex4_length [OF that(1)] that(2) in simp)
    have paired: "scan_string n' v = scan_string m' v"
      if "hex4 u = Some (r, w)" "low_surrogate w = Some (q, v)" "t = e # u" for r v e u q w
      by (rule same) (use surrogate_pair_length [OF that(1,2)] that(3) in simp)
    consider (esc) "c = CHR 0x5C" | (plain) "c \<noteq> CHR 0x5C" by blast
    then show ?thesis
    proof cases
      case plain
      then show ?thesis by (cases "rune_len (c # t)") (simp_all add: Cons nm same)
    next
      case esc
      show ?thesis
      proof (cases t)
        case Nil
        then show ?thesis by (simp add: Cons nm esc)
      next
        case (Cons e u)
        note t = this
        have s: "s = c # e # u" by (simp add: \<open>s = c # t\<close> t)
        show ?thesis
        proof (cases "e = CHR ''u''")
          case False
          then show ?thesis using same [of u] by (cases "escape_val e") (simp_all add: s nm esc t)
        next
          case True
          show ?thesis
          proof (cases "hex4 u")
            case None
            then show ?thesis by (simp add: s nm esc True)
          next
            case (Some p)
            then obtain r w where p: "hex4 u = Some (r, w)" by (cases p) auto
            have w: "scan_string n' w = scan_string m' w" by (rule escaped [OF p t])
            show ?thesis
            proof (cases "low_surrogate w")
              case None
              then show ?thesis using w p by (simp add: s nm esc True)
            next
              case (Some q)
              then obtain lo v where q: "low_surrogate w = Some (lo, v)" by (cases q) auto
              show ?thesis using w p q paired [OF p q t] by (simp add: s nm esc True)
            qed
          qed
        qed
      qed
    qed
  qed
qed

lemma scan_string_length: "scan_string n s = Some (v, t) \<Longrightarrow> length t < length s"
proof (induction s arbitrary: n v t rule: length_induct)
  case (1 s)
  obtain n' where n: "n = Suc n'" using "1.prems" by (cases n) auto
  obtain c u where s: "s = c # u" using "1.prems" by (cases s) (auto simp: n)
  have ih: "length t < length s" if "scan_string n' x = Some (w, t)" "length x \<le> length u" for x w
  proof -
    have "length x < length s" using that(2) by (simp add: s)
    then have "length t < length x" using "1.IH" that(1) by blast
    then show ?thesis using that(2) by (simp add: s)
  qed
  have pair: "length y \<le> Suc (length x)" if "hex4 x = Some (r, w)" "low_surrogate w = Some (q, y)" for x y r w q
    using surrogate_pair_length [OF that] by simp
  show ?case
    using "1.prems"
    by (auto simp: s n split: if_splits list.splits option.splits nat.splits prod.splits
        dest!: ih dest: hex4_length low_surrogate_length) (use pair in blast)
qed

lemma scan_digits_length: "scan_digits s = Some (v, t) \<Longrightarrow> length t < length s"
  by (cases s) (auto simp: scan_digits_def less_Suc_eq_le length_dropWhile_le split: if_splits)

lemma scan_int_length: "scan_int s = Some (v, t) \<Longrightarrow> length t < length s"
  by (auto simp: scan_int_def split: list.splits if_splits dest: scan_digits_length)

lemma scan_frac_length: "scan_frac s = Some (v, t) \<Longrightarrow> length t \<le> length s"
  by (auto simp: scan_frac_def split: list.splits if_splits dest: scan_digits_length)

lemma scan_exp_length: "scan_exp s = Some (v, t) \<Longrightarrow> length t \<le> length s"
  by (auto simp: scan_exp_def split: list.splits if_splits dest: scan_digits_length)

lemma scan_number_length: "scan_number s = Some (v, t) \<Longrightarrow> length t < length s"
  by (auto simp: scan_number_def Let_def split: list.splits if_splits option.splits prod.splits
      dest!: scan_int_length scan_frac_length scan_exp_length)

lemma scan_literal_length: "scan_literal w v s = Some (x, t) \<Longrightarrow> length t \<le> length s"
  by (auto simp: scan_literal_def split: if_splits)

lemma parse_length:
  "parse_value n d s = Some (v, t) \<Longrightarrow> length t < length s"
  "parse_elems n d acc s = Some (v, t) \<Longrightarrow> length t < length s"
  "parse_members n d ms s = Some (v, t) \<Longrightarrow> length t < length s"
proof (induction n arbitrary: d s v t acc ms)
  case (Suc n)
  {
    case 1
    obtain c u where u: "skip_ws s = c # u" using 1 by (cases "skip_ws s") auto
    have "length t \<le> length u"
      using 1 u
      by (auto split: if_splits list.splits dest: Suc.IH scan_string_length scan_literal_length
          dest!: scan_number_length skip_ws_shorter)
    then show ?case using skip_ws_shorter [OF u] by simp
  next
    case 2
    then show ?case
      by (auto split: if_splits list.splits option.splits prod.splits dest!: Suc.IH skip_ws_shorter)
  next
    case 3
    then show ?case
      by (auto split: if_splits list.splits option.splits prod.splits
          dest!: Suc.IH skip_ws_shorter scan_string_length)
  }
qed simp_all

lemma parse_fuel:
  "2 * length s < n \<Longrightarrow> 2 * length s < m \<Longrightarrow> parse_value n d s = parse_value m d s"
  "2 * length s + 1 < n \<Longrightarrow> 2 * length s + 1 < m \<Longrightarrow> parse_elems n d acc s = parse_elems m d acc s"
  "2 * length s + 1 < n \<Longrightarrow> 2 * length s + 1 < m \<Longrightarrow> parse_members n d ms s = parse_members m d ms s"
proof (induction n arbitrary: m d s acc ms)
  case (Suc n)
  {
    case 1
    obtain m' where m: "m = Suc m'" using 1 by (cases m) auto
    show ?case
    proof (cases "skip_ws s")
      case Nil
      then show ?thesis by (simp add: m)
    next
      case (Cons c t)
      have "length t < length s" by (rule skip_ws_shorter [OF Cons])
      then have "parse_elems n (Suc d) [] t = parse_elems m' (Suc d) [] t"
        "parse_members n (Suc d) [] t = parse_members m' (Suc d) [] t"
        using 1 m by (auto intro!: Suc.IH)
      then show ?thesis by (simp only: m parse_value.simps Cons list.case)
    qed
  next
    case 2
    obtain m' where m: "m = Suc m'" using 2 by (cases m) auto
    have v: "parse_value n d s = parse_value m' d s" using 2 m by (auto intro!: Suc.IH)
    show ?case
    proof (cases "parse_value m' d s")
      case None
      then show ?thesis by (simp add: m v)
    next
      case (Some p)
      then obtain x t where p: "parse_value m' d s = Some (x, t)" by (cases p) auto
      show ?thesis
      proof (cases "skip_ws t")
        case Nil
        then show ?thesis by (simp add: m v p)
      next
        case (Cons c u)
        have "length u < length s" using skip_ws_shorter [OF Cons] parse_length(1) [OF p] by simp
        then have "parse_elems n d (acc @ [x]) u = parse_elems m' d (acc @ [x]) u"
          using 2 m by (auto intro!: Suc.IH)
        then show ?thesis by (simp add: m v p Cons)
      qed
    qed
  next
    case 3
    obtain m' where m: "m = Suc m'" using 3 by (cases m) auto
    have v: "parse_value n d u = parse_value m' d u" if "length u < length s" for u
      using 3 m that by (auto intro!: Suc.IH)
    have ms: "parse_members n d xs u = parse_members m' d xs u" if "length u < length s" for xs u
      using 3 m that by (auto intro!: Suc.IH)
    show ?case unfolding m parse_members.simps
    proof (rule list.case_cong [OF refl refl], rule if_cong [OF refl refl], rule option.case_cong [OF refl refl],
        simp only: split_paired_all prod.case, rule list.case_cong [OF refl refl], rule if_cong [OF refl refl])
      fix q t k t1 c t2
      assume q: "skip_ws s = q # t" "scan_string (length t + 1) t = Some (k, t1)" "skip_ws t1 = c # t2"
      have t2: "length t2 < length s"
        using skip_ws_shorter [OF q(1)] scan_string_length [OF q(2)] skip_ws_shorter [OF q(3)] by simp
      show "(case parse_value n d t2 of None \<Rightarrow> None
          | Some (x, t3) \<Rightarrow> (case skip_ws t3 of [] \<Rightarrow> None
              | e # t4 \<Rightarrow> if e = CHR '','' then parse_members n d (ms @ [(k, x)]) t4
                  else if e = CHR ''}'' then Some (JObject (ms @ [(k, x)]), t4) else None)) =
        (case parse_value m' d t2 of None \<Rightarrow> None
          | Some (x, t3) \<Rightarrow> (case skip_ws t3 of [] \<Rightarrow> None
              | e # t4 \<Rightarrow> if e = CHR '','' then parse_members m' d (ms @ [(k, x)]) t4
                  else if e = CHR ''}'' then Some (JObject (ms @ [(k, x)]), t4) else None))"
      proof (cases "parse_value m' d t2")
        case None
        then show ?thesis by (simp add: v [OF t2])
      next
        case (Some p)
        then obtain x t3 where p: "parse_value m' d t2 = Some (x, t3)" by (cases p) auto
        show ?thesis
        proof (cases "skip_ws t3")
          case Nil
          then show ?thesis by (simp add: v [OF t2] p)
        next
          case (Cons e t4)
          have "length t4 < length s" using skip_ws_shorter [OF Cons] parse_length(1) [OF p] t2 by simp
          then show ?thesis by (simp add: v [OF t2] p Cons ms)
        qed
      qed
    qed
  }
qed simp_all

subsection \<open>Property\<close>

text \<open>
  Reading a schema terminates with an answer of its own: the result of \<open>canonicalJSON\<close> does not
  depend on the fuel of the model. With any more fuel than \<open>2 * length s\<close> the reader returns the same
  value, or the same refusal, so \<^term>\<open>None\<close> always means malformed input.
\<close>

theorem canonical_json_fuel:
  "map_option (json_encode \<circ> fst) (parse_value (2 * length s + 1 + k) 0 s) = canonical_json s"
  using parse_fuel(1) [of s "2 * length s + 1 + k" "2 * length s + 2" 0]
  by (simp add: canonical_json_def json_decode_def option.map_comp)

end
