(* ===== verification/Operator_Locks.thy ===== *)
theory Operator_Locks
  imports Types
begin

section \<open>The operator's keyed locks (internal/operator/locking, controller/locks.go)\<close>

text \<open>
  The registry of named mutexes that serialises the reconcilers: a lock per cluster and substrate, and
  one per cluster, kind and broker identity. A pass of a controller is the sequence of its lock
  operations, of its scans for rival claimants and of its accesses to the broker; workers run passes
  concurrently, one step of one worker at a time. A nil registry (unit tests only) is left out, and a
  release function is called once (\<open>sync.OnceFunc\<close> makes the deferred second call a no-op).

  The finalizers of topics and role bindings access the identity of the deleted object without its
  identity lock, as the comment of locks.go says; they hold the substrate lock there, and a reconcile
  of these kinds accesses the identity under the same substrate lock.

  The lemmas show that no reachable state is deadlocked, that every schedule ends with every pass
  done, that no two workers are ever at an access to the same broker state, and which accesses can
  coincide with a rival's scan.
\<close>

subsection \<open>Keys\<close>

datatype lock_name =
    LockSubstrate string string
  | LockIdentity string string string

fun lock_key :: "lock_name \<Rightarrow> string" where
  "lock_key (LockSubstrate clusterKey substrate) = nul_join [''substrate'', clusterKey, substrate]"
| "lock_key (LockIdentity clusterKey kind identity) = nul_join [''identity'', clusterKey, kind, identity]"

definition substrate_acl :: string where
  "substrate_acl = ''acl''"

definition substrate_rbac :: string where
  "substrate_rbac = ''rbac''"

definition cluster_lock_key :: "kafka_cluster \<Rightarrow> string" where
  "cluster_lock_key cl = om_namespace (kc_meta cl) @ ''/'' @ om_name (kc_meta cl)"

definition role_binding_lock_identity :: "kafka_role_binding \<Rightarrow> string" where
  "role_binding_lock_identity rb =
     krs_principal (kr_spec rb) @ [NUL] @ krs_role (kr_spec rb) @ [NUL] @ rbs_type (krs_scope (kr_spec rb))"

subsection \<open>Lock spans\<close>

text \<open>
  \<open>Access\<close> marks a read or write of broker state, named as its lock is: the ACLs or the role bindings
  of a cluster, or one identity (a topic, a quota, a credential, a principal's role). \<open>Scan\<close> marks the
  read of the API server's objects that decides who claims an identity.
\<close>

datatype lock_action =
    Acquire string
  | Release string
  | Scan lock_name
  | Access lock_name

definition locked :: "lock_name \<Rightarrow> lock_action list \<Rightarrow> lock_action list" where
  "locked l body = Acquire (lock_key l) # body @ [Release (lock_key l)]"

definition lock_acl_then_rbac :: "string \<Rightarrow> lock_action list \<Rightarrow> lock_action list" where
  "lock_acl_then_rbac clusterKey body =
     locked (LockSubstrate clusterKey substrate_acl) (locked (LockSubstrate clusterKey substrate_rbac) body)"

definition lock_topic_substrates :: "kafka_cluster \<Rightarrow> lock_action list \<Rightarrow> lock_action list" where
  "lock_topic_substrates cl body =
     (if has_access_backend (Some cl) ''rbac'' then lock_acl_then_rbac (cluster_lock_key cl) body
      else locked (LockSubstrate (cluster_lock_key cl) substrate_acl) body)"

subsection \<open>The controllers' passes\<close>

text \<open>
  How far a pass gets: it ends before any lock (no cluster, nothing to do), at the duplicate gate or a
  client build, at the cluster-wide view, or it runs the engine (or the finalizer's clean-up). A call
  that fails within a stage only leaves out the accesses after it.
\<close>

datatype stage = NoLock | AtGate | AtView | ToEngine

definition acl_access :: "kafka_cluster \<Rightarrow> lock_action" where
  "acl_access cl = Access (LockSubstrate (cluster_lock_key cl) substrate_acl)"

definition rbac_access :: "kafka_cluster \<Rightarrow> lock_action" where
  "rbac_access cl = Access (LockSubstrate (cluster_lock_key cl) substrate_rbac)"

definition topic_lock :: "kafka_cluster \<Rightarrow> kafka_topic \<Rightarrow> lock_name" where
  "topic_lock cl t = LockIdentity (cluster_lock_key cl) ''KafkaTopic'' (resolved_topic_name t)"

definition role_binding_lock :: "kafka_cluster \<Rightarrow> kafka_role_binding \<Rightarrow> lock_name" where
  "role_binding_lock cl rb =
     LockIdentity (cluster_lock_key cl) ''KafkaRoleBinding'' (role_binding_lock_identity rb)"

definition topic_reconcile_pass :: "kafka_cluster \<Rightarrow> kafka_topic \<Rightarrow> stage \<Rightarrow> lock_action list" where
  "topic_reconcile_pass cl t stage =
     (let l = topic_lock cl t
      in case stage of
           NoLock \<Rightarrow> []
         | AtGate \<Rightarrow> locked l [Scan l]
         | AtView \<Rightarrow> locked l (Scan l # lock_topic_substrates cl [])
         | ToEngine \<Rightarrow> locked l (Scan l # lock_topic_substrates cl
             ([Access l, acl_access cl] @ (if has_access_backend (Some cl) ''rbac'' then [rbac_access cl] else []))))"

text \<open>
  \<open>deleteTopicState\<close>: the ACL lock is held to the end of the function, the ACLs are deleted first and
  the topic after them. No identity lock is taken.
\<close>

definition topic_finalize_pass :: "kafka_cluster \<Rightarrow> kafka_topic \<Rightarrow> stage \<Rightarrow> lock_action list" where
  "topic_finalize_pass cl t stage =
     (let s = LockSubstrate (cluster_lock_key cl) substrate_acl
      in case stage of
           AtView \<Rightarrow> locked s []
         | ToEngine \<Rightarrow> locked s [acl_access cl, Access (topic_lock cl t)]
         | _ \<Rightarrow> [])"

definition acl_pass :: "kafka_cluster \<Rightarrow> stage \<Rightarrow> lock_action list" where
  "acl_pass cl stage =
     (let l = LockSubstrate (cluster_lock_key cl) substrate_acl
      in case stage of
           AtView \<Rightarrow> locked l []
         | ToEngine \<Rightarrow> locked l [acl_access cl]
         | _ \<Rightarrow> [])"

text \<open>The gate of a role binding scans only where the cluster configures MDS.\<close>

definition role_binding_scan :: "kafka_cluster \<Rightarrow> lock_name \<Rightarrow> lock_action list" where
  "role_binding_scan cl l =
     (if Option.bind (kcs_authorization (kc_spec cl)) az_mds = None then [] else [Scan l])"

definition role_binding_reconcile_pass ::
    "kafka_cluster \<Rightarrow> kafka_role_binding \<Rightarrow> stage \<Rightarrow> lock_action list" where
  "role_binding_reconcile_pass cl rb stage =
     (let l = role_binding_lock cl rb;
          s = LockSubstrate (cluster_lock_key cl) substrate_rbac
      in case stage of
           NoLock \<Rightarrow> []
         | AtGate \<Rightarrow> locked l (role_binding_scan cl l)
         | AtView \<Rightarrow> locked l (role_binding_scan cl l @ locked s [])
         | ToEngine \<Rightarrow> locked l (role_binding_scan cl l @ locked s [Access l, rbac_access cl]))"

text \<open>\<open>handleDeletionWithClient\<close> removes the binding under the RBAC lock only.\<close>

definition role_binding_finalize_pass ::
    "kafka_cluster \<Rightarrow> kafka_role_binding \<Rightarrow> stage \<Rightarrow> lock_action list" where
  "role_binding_finalize_pass cl rb stage =
     (let s = LockSubstrate (cluster_lock_key cl) substrate_rbac
      in case stage of
           AtView \<Rightarrow> locked s []
         | ToEngine \<Rightarrow> locked s [Access (role_binding_lock cl rb), rbac_access cl]
         | _ \<Rightarrow> [])"

text \<open>A quota's or user's pass, on both paths: gate or co-claimant scan, then engine or clean-up.\<close>

definition identity_pass :: "kafka_cluster \<Rightarrow> string \<Rightarrow> string \<Rightarrow> stage \<Rightarrow> lock_action list" where
  "identity_pass cl kind identity stage =
     (let l = LockIdentity (cluster_lock_key cl) kind identity
      in case stage of
           NoLock \<Rightarrow> []
         | ToEngine \<Rightarrow> locked l [Scan l, Access l]
         | _ \<Rightarrow> locked l [Scan l])"

text \<open>
  One item of a controller's queue: the object is reconciled, or finalized when it is being deleted.
  Both paths of an access policy hold the ACL lock only, and both of a quota or user the identity lock.
\<close>

datatype pass =
    TopicReconcile kafka_topic
  | TopicFinalize kafka_topic
  | PolicyPass
  | RoleBindingReconcile kafka_role_binding
  | RoleBindingFinalize kafka_role_binding
  | QuotaPass string
  | UserPass string

fun pass_actions :: "pass \<times> kafka_cluster \<times> stage \<Rightarrow> lock_action list" where
  "pass_actions (TopicReconcile t, cl, stage) = topic_reconcile_pass cl t stage"
| "pass_actions (TopicFinalize t, cl, stage) = topic_finalize_pass cl t stage"
| "pass_actions (PolicyPass, cl, stage) = acl_pass cl stage"
| "pass_actions (RoleBindingReconcile rb, cl, stage) = role_binding_reconcile_pass cl rb stage"
| "pass_actions (RoleBindingFinalize rb, cl, stage) = role_binding_finalize_pass cl rb stage"
| "pass_actions (QuotaPass entity, cl, stage) = identity_pass cl ''KafkaQuota'' entity stage"
| "pass_actions (UserPass username, cl, stage) = identity_pass cl ''KafkaUser'' username stage"

text \<open>The identities a pass accesses without their lock.\<close>

fun finalizes :: "pass \<times> kafka_cluster \<times> stage \<Rightarrow> lock_name set" where
  "finalizes (TopicFinalize t, cl, ToEngine) = {topic_lock cl t}"
| "finalizes (RoleBindingFinalize rb, cl, ToEngine) = {role_binding_lock cl rb}"
| "finalizes _ = {}"

subsection \<open>Workers\<close>

text \<open>
  What each worker has left to do, and the holder of each mutex. \<open>lock\<close> of the registry creates a mutex
  on first use and blocks while it is held.
\<close>

record lock_system =
  ls_todo :: "nat \<Rightarrow> lock_action list"
  ls_holder :: "string \<Rightarrow> nat option"

definition start_workers :: "(nat \<Rightarrow> (pass \<times> kafka_cluster \<times> stage) list) \<Rightarrow> lock_system" where
  "start_workers queue =
     \<lparr>ls_todo = (\<lambda>w. concat (map pass_actions (queue w))), ls_holder = (\<lambda>_. None)\<rparr>"

inductive lock_step :: "lock_system \<Rightarrow> lock_system \<Rightarrow> bool" where
  acquire: "ls_todo s w = Acquire k # rest \<Longrightarrow> ls_holder s k = None \<Longrightarrow>
     lock_step s (s\<lparr>ls_todo := (ls_todo s)(w := rest), ls_holder := (ls_holder s)(k := Some w)\<rparr>)"
| release: "ls_todo s w = Release k # rest \<Longrightarrow>
     lock_step s (s\<lparr>ls_todo := (ls_todo s)(w := rest), ls_holder := (ls_holder s)(k := None)\<rparr>)"
| scan: "ls_todo s w = Scan l # rest \<Longrightarrow>
     lock_step s (s\<lparr>ls_todo := (ls_todo s)(w := rest)\<rparr>)"
| access: "ls_todo s w = Access l # rest \<Longrightarrow>
     lock_step s (s\<lparr>ls_todo := (ls_todo s)(w := rest)\<rparr>)"

inductive lock_reachable :: "(nat \<Rightarrow> (pass \<times> kafka_cluster \<times> stage) list) \<Rightarrow> lock_system \<Rightarrow> bool"
  for queue where
  lr_start: "lock_reachable queue (start_workers queue)"
| lr_step: "lock_reachable queue s \<Longrightarrow> lock_step s s' \<Longrightarrow> lock_reachable queue s'"

subsection \<open>The lock order\<close>

text \<open>The level of a key: identity before ACL before RBAC.\<close>

definition key_level :: "string \<Rightarrow> nat" where
  "key_level k =
     (if prefix (''identity'' @ [NUL]) k then 0 else if suffix ([NUL] @ substrate_acl) k then 1 else 2)"

lemma key_level_identity: "key_level (lock_key (LockIdentity ck kind i)) = 0"
  by (simp add: key_level_def nul_join_def)

lemma key_level_acl: "key_level (lock_key (LockSubstrate ck substrate_acl)) = 1"
  by (simp add: key_level_def nul_join_def substrate_acl_def suffix_def)

lemma key_level_rbac: "key_level (lock_key (LockSubstrate ck substrate_rbac)) = 2"
proof -
  have "\<not> suffix ([NUL] @ substrate_acl) (lock_key (LockSubstrate ck substrate_rbac))"
  proof
    assume "suffix ([NUL] @ substrate_acl) (lock_key (LockSubstrate ck substrate_rbac))"
    then obtain zs where "lock_key (LockSubstrate ck substrate_rbac) = zs @ [NUL] @ substrate_acl"
      by (auto simp: suffix_def)
    then have "last (lock_key (LockSubstrate ck substrate_rbac)) = CHR ''l''"
      by (simp add: substrate_acl_def)
    then show False by (simp add: nul_join_def substrate_rbac_def)
  qed
  then show ?thesis by (simp add: key_level_def nul_join_def)
qed

lemmas key_levels = key_level_identity key_level_acl key_level_rbac

text \<open>
  The lock under which every access to a state is made: a topic's is the ACL lock of its cluster and
  a role binding's the RBAC lock, which their reconciles and their finalizers both hold.
\<close>

fun guard_key :: "lock_name \<Rightarrow> string" where
  "guard_key (LockSubstrate ck substrate) = lock_key (LockSubstrate ck substrate)"
| "guard_key (LockIdentity ck kind i) =
     (if kind = ''KafkaTopic'' then lock_key (LockSubstrate ck substrate_acl)
      else if kind = ''KafkaRoleBinding'' then lock_key (LockSubstrate ck substrate_rbac)
      else lock_key (LockIdentity ck kind i))"

text \<open>
  A well-ordered sequence, from a stack of held keys: it acquires only above the level of every held
  key, releases the last acquired, scans only under the identity's lock, and accesses only under the
  state's guard and, outside the set of finalized identities, under its own lock.
\<close>

fun ordered_from :: "lock_name set \<Rightarrow> string list \<Rightarrow> lock_action list \<Rightarrow> bool" where
  "ordered_from F hs [] \<longleftrightarrow> hs = []"
| "ordered_from F hs (Acquire k # as) \<longleftrightarrow>
     (\<forall>h \<in> set hs. key_level h < key_level k) \<and> ordered_from F (k # hs) as"
| "ordered_from F hs (Release k # as) \<longleftrightarrow> hs \<noteq> [] \<and> hd hs = k \<and> ordered_from F (tl hs) as"
| "ordered_from F hs (Scan l # as) \<longleftrightarrow> lock_key l \<in> set hs \<and> ordered_from F hs as"
| "ordered_from F hs (Access l # as) \<longleftrightarrow>
     guard_key l \<in> set hs \<and> (l \<in> F \<or> lock_key l \<in> set hs) \<and> ordered_from F hs as"

lemma ordered_append:
  "ordered_from F hs a \<Longrightarrow> ordered_from F [] b \<Longrightarrow> ordered_from F hs (a @ b)"
  by (induction F hs a rule: ordered_from.induct) auto

lemma ordered_mono: "ordered_from F hs a \<Longrightarrow> F \<subseteq> G \<Longrightarrow> ordered_from G hs a"
  by (induction F hs a rule: ordered_from.induct) auto

lemma pass_ordered: "ordered_from (finalizes p) [] (pass_actions p)"
proof -
  obtain a cl stage where p: "p = (a, cl, stage)" by (cases p) auto
  show ?thesis unfolding p
    by (cases a; cases stage)
       (auto simp: topic_reconcile_pass_def topic_finalize_pass_def acl_pass_def role_binding_reconcile_pass_def
         role_binding_finalize_pass_def role_binding_scan_def identity_pass_def locked_def
         lock_topic_substrates_def lock_acl_then_rbac_def acl_access_def rbac_access_def topic_lock_def
         role_binding_lock_def key_levels Let_def simp del: lock_key.simps)
qed

definition finalized :: "(pass \<times> kafka_cluster \<times> stage) list \<Rightarrow> lock_name set" where
  "finalized ps = \<Union> (finalizes ` set ps)"

lemma passes_ordered: "ordered_from (finalized ps) [] (concat (map pass_actions ps))"
proof (induction ps)
  case (Cons p ps)
  have "ordered_from (finalized (p # ps)) [] (pass_actions p)"
    by (rule ordered_mono [OF pass_ordered]) (auto simp: finalized_def)
  moreover have "ordered_from (finalized (p # ps)) [] (concat (map pass_actions ps))"
    by (rule ordered_mono [OF Cons.IH]) (auto simp: finalized_def)
  ultimately show ?case by (simp add: ordered_append)
qed simp

subsection \<open>The invariant\<close>

text \<open>
  Each worker has a stack of held keys from which what it has left to do is well-ordered, and the
  holders are exactly the workers with the key on their stack.
\<close>

definition stacks_ok :: "(nat \<Rightarrow> lock_name set) \<Rightarrow> (nat \<Rightarrow> string list) \<Rightarrow> lock_system \<Rightarrow> bool" where
  "stacks_ok F st s \<longleftrightarrow>
     (\<forall>w. ordered_from (F w) (st w) (ls_todo s w)) \<and> (\<forall>w. distinct (st w)) \<and>
     (\<forall>k w. ls_holder s k = Some w \<longleftrightarrow> k \<in> set (st w))"

lemma stacks_ok_start: "stacks_ok (\<lambda>w. finalized (queue w)) (\<lambda>_. []) (start_workers queue)"
  by (simp add: stacks_ok_def start_workers_def passes_ordered)

lemma stacks_ok_step:
  assumes "lock_step s s'" "stacks_ok F st s"
  shows "\<exists>st'. stacks_ok F st' s'"
  using assms
proof (cases rule: lock_step.cases)
  case (acquire w k rest)
  have o: "ordered_from (F w) (st w) (Acquire k # rest)" using assms(2) acquire by (metis stacks_ok_def)
  have free: "k \<notin> set (st v)" for v
    using assms(2) acquire unfolding stacks_ok_def by (metis option.distinct(1))
  have "stacks_ok F (st(w := k # st w)) s'"
    using assms(2) acquire o free by (auto simp: stacks_ok_def)
  then show ?thesis by blast
next
  case (release w k rest)
  have o: "ordered_from (F w) (st w) (Release k # rest)" using assms(2) release by (metis stacks_ok_def)
  then obtain hs where st: "st w = k # hs" by (cases "st w") auto
  have other: "k \<notin> set (st v)" if "v \<noteq> w" for v
    using assms(2) st that unfolding stacks_ok_def by (metis list.set_intros(1) option.inject)
  have d: "k \<notin> set hs" "distinct hs" using assms(2) st unfolding stacks_ok_def by (metis distinct.simps(2))+
  have "stacks_ok F (st(w := hs)) s'"
    unfolding stacks_ok_def
  proof (intro conjI allI)
    fix v show "ordered_from (F v) ((st(w := hs)) v) (ls_todo s' v)"
      using assms(2) release o st by (auto simp: stacks_ok_def)
    show "distinct ((st(w := hs)) v)" using assms(2) d by (auto simp: stacks_ok_def)
    fix k'
    show "ls_holder s' k' = Some v \<longleftrightarrow> k' \<in> set ((st(w := hs)) v)"
      using assms(2) release st other d unfolding stacks_ok_def by (cases "k' = k"; cases "v = w") auto
  qed
  then show ?thesis by blast
next
  case (scan w l rest)
  have o: "ordered_from (F w) (st w) (Scan l # rest)" using assms(2) scan by (metis stacks_ok_def)
  have "stacks_ok F st s'" using assms(2) scan o by (auto simp: stacks_ok_def)
  then show ?thesis by blast
next
  case (access w l rest)
  have o: "ordered_from (F w) (st w) (Access l # rest)" using assms(2) access by (metis stacks_ok_def)
  have "stacks_ok F st s'" using assms(2) access o by (auto simp: stacks_ok_def)
  then show ?thesis by blast
qed

lemma reachable_stacks: "lock_reachable queue s \<Longrightarrow> \<exists>st. stacks_ok (\<lambda>w. finalized (queue w)) st s"
proof (induction rule: lock_reachable.induct)
  case lr_start
  show ?case using stacks_ok_start by blast
next
  case (lr_step s s')
  then show ?case using stacks_ok_step by blast
qed

subsection \<open>No deadlock\<close>

text \<open>
  A worker that cannot move waits for a key held by a worker with something left to do, which, if it
  waits in turn, does so for a key of a higher level. There are three levels.
\<close>

lemma blocked_waits:
  assumes "stacks_ok F st s" "\<nexists>s'. lock_step s s'" "ls_todo s w \<noteq> []"
  shows "\<exists>k rest v. ls_todo s w = Acquire k # rest \<and> ls_holder s k = Some v \<and> ls_todo s v \<noteq> []"
proof -
  obtain a rest where todo: "ls_todo s w = a # rest" using assms(3) by (cases "ls_todo s w") auto
  then obtain k where k: "a = Acquire k" "ls_holder s k \<noteq> None"
    using assms(2) lock_step.intros by (cases a) metis+
  then obtain v where v: "ls_holder s k = Some v" by auto
  have "st v \<noteq> []" using assms(1) v unfolding stacks_ok_def by (metis empty_iff empty_set)
  then have "ls_todo s v \<noteq> []" using assms(1) unfolding stacks_ok_def by (metis ordered_from.simps(1))
  then show ?thesis using todo k v by blast
qed

lemma waits_above:
  assumes "stacks_ok F st s" "ls_holder s k = Some v" "ls_todo s v = Acquire k' # rest"
  shows "key_level k < key_level k'"
proof -
  have "k \<in> set (st v)" "ordered_from (F v) (st v) (Acquire k' # rest)"
    using assms unfolding stacks_ok_def by metis+
  then show ?thesis by simp
qed

lemma not_stuck:
  assumes "stacks_ok F st s" "ls_todo s w \<noteq> []"
  shows "\<exists>s'. lock_step s s'"
proof (rule ccontr)
  assume stuck: "\<nexists>s'. lock_step s s'"
  have climb: "\<exists>k' rest u. ls_todo s v = Acquire k' # rest \<and> ls_holder s k' = Some u \<and> ls_todo s u \<noteq> [] \<and>
      key_level k < key_level k'" if "ls_holder s k = Some v" "ls_todo s v \<noteq> []" for k v
    using blocked_waits [OF assms(1) stuck that(2)] waits_above [OF assms(1) that(1)] by blast
  have ladder: "\<exists>k v. ls_holder s k = Some v \<and> ls_todo s v \<noteq> [] \<and> key_level k \<ge> n" for n
  proof (induction n)
    case 0
    show ?case using blocked_waits [OF assms(1) stuck assms(2)] by blast
  next
    case (Suc n)
    then obtain k v where "ls_holder s k = Some v" "ls_todo s v \<noteq> []" "key_level k \<ge> n" by blast
    then show ?case using climb [of k v] by fastforce
  qed
  obtain k where "key_level k \<ge> 3" using ladder [of 3] by blast
  then show False by (auto simp: key_level_def split: if_splits)
qed

text \<open>C6. No reachable state of the operator's workers is deadlocked: while any worker has something left
  to do, some worker can take a step, whatever passes the workers run, on whatever clusters, and
  however far each gets.\<close>

lemma workers_never_deadlock:
  assumes "lock_reachable queue s" "ls_todo s w \<noteq> []"
  shows "\<exists>s'. lock_step s s'"
  using reachable_stacks [OF assms(1)] not_stuck assms(2) by blast

subsection \<open>Every schedule ends\<close>

definition work_left :: "nat \<Rightarrow> lock_system \<Rightarrow> nat" where
  "work_left workers s = (\<Sum>w < workers. length (ls_todo s w))"

definition all_done :: "lock_system \<Rightarrow> bool" where
  "all_done s \<longleftrightarrow> (\<forall>w. ls_todo s w = []) \<and> (\<forall>k. ls_holder s k = None)"

lemma step_one_less:
  assumes "lock_step s s'"
  shows "\<exists>w a rest. ls_todo s w = a # rest \<and> ls_todo s' = (ls_todo s)(w := rest)"
  using assms by (cases rule: lock_step.cases) auto

lemma work_left_step:
  assumes "lock_step s s'" "\<And>w. w \<ge> n \<Longrightarrow> ls_todo s w = []"
  shows "work_left n s = Suc (work_left n s')"
proof -
  obtain w a rest where w: "ls_todo s w = a # rest" "ls_todo s' = (ls_todo s)(w := rest)"
    using step_one_less [OF assms(1)] by blast
  then have "w < n" using assms(2) by (metis list.distinct(1) not_le)
  then have "work_left n s = length (ls_todo s w) + (\<Sum>v \<in> {..<n} - {w}. length (ls_todo s v))"
    "work_left n s' = length rest + (\<Sum>v \<in> {..<n} - {w}. length (ls_todo s v))"
    using w by (auto simp: work_left_def sum.remove [of "{..<n}" w] intro: sum.cong)
  then show ?thesis using w by simp
qed

lemma reachable_idle:
  "lock_reachable queue s \<Longrightarrow> queue w = [] \<Longrightarrow> ls_todo s w = []"
proof (induction rule: lock_reachable.induct)
  case lr_start
  then show ?case by (simp add: start_workers_def)
next
  case (lr_step s s')
  then show ?case using step_one_less [OF lr_step.hyps(2)] by auto
qed

lemma run_shrinks:
  assumes "lock_reachable queue s" "\<And>w. w \<ge> n \<Longrightarrow> queue w = []" "(lock_step ^^ m) s s'"
  shows "lock_reachable queue s' \<and> work_left n s = m + work_left n s'"
  using assms(3)
proof (induction m arbitrary: s')
  case 0
  then show ?case using assms(1) by simp
next
  case (Suc m)
  then obtain t where t: "(lock_step ^^ m) s t" "lock_step t s'" by auto
  then have "lock_reachable queue t" "work_left n s = m + work_left n t" using Suc.IH by blast+
  moreover from this have "work_left n t = Suc (work_left n s')"
    using work_left_step [OF t(2)] reachable_idle assms(2) by blast
  ultimately show ?case using t(2) lock_reachable.lr_step by auto
qed

lemma stopped_all_done:
  assumes "lock_reachable queue s" "\<nexists>s'. lock_step s s'"
  shows "all_done s"
proof -
  obtain st where st: "stacks_ok (\<lambda>w. finalized (queue w)) st s" using reachable_stacks [OF assms(1)] by blast
  have todo: "ls_todo s w = []" for w using not_stuck [OF st] assms(2) by blast
  then have "st w = []" for w using st unfolding stacks_ok_def by (metis ordered_from.simps(1))
  then have "ls_holder s k = None" for k
    using st unfolding stacks_ok_def by (metis empty_iff empty_set not_Some_eq)
  then show ?thesis using todo by (simp add: all_done_def)
qed

text \<open>C7. Every schedule of finitely many workers ends, and well: a run takes at most as many steps as the
  workers' passes have lock operations and accesses, and where it cannot go on every pass is done
  and every lock is free.\<close>

lemma workers_run_to_completion:
  assumes "\<And>w. w \<ge> n \<Longrightarrow> queue w = []"
    and "(lock_step ^^ m) (start_workers queue) s"
  shows "m \<le> work_left n (start_workers queue) \<and> ((\<exists>s'. lock_step s s') \<or> all_done s)"
proof -
  have "lock_reachable queue s \<and> work_left n (start_workers queue) = m + work_left n s"
    by (rule run_shrinks [OF lock_reachable.lr_start assms(1) assms(2)])
  then show ?thesis using stopped_all_done by auto
qed

subsection \<open>Exclusion\<close>

text \<open>The action a worker takes next.\<close>

definition next_action :: "lock_system \<Rightarrow> nat \<Rightarrow> lock_action option" where
  "next_action s w = (case ls_todo s w of [] \<Rightarrow> None | a # _ \<Rightarrow> Some a)"

lemma next_actionE:
  assumes "next_action s w = Some a"
  obtains rest where "ls_todo s w = a # rest"
  using assms by (auto simp: next_action_def split: list.splits)

lemma access_holds:
  assumes "lock_reachable queue s" "next_action s w = Some (Access l)"
  shows "ls_holder s (guard_key l) = Some w" "l \<notin> finalized (queue w) \<Longrightarrow> ls_holder s (lock_key l) = Some w"
proof -
  obtain st where st: "stacks_ok (\<lambda>w. finalized (queue w)) st s" using reachable_stacks [OF assms(1)] by blast
  obtain rest where "ls_todo s w = Access l # rest" using assms(2) by (rule next_actionE)
  then have "ordered_from (finalized (queue w)) (st w) (Access l # rest)"
    using st unfolding stacks_ok_def by metis
  then have "guard_key l \<in> set (st w)" "l \<notin> finalized (queue w) \<Longrightarrow> lock_key l \<in> set (st w)" by auto
  then show "ls_holder s (guard_key l) = Some w" "l \<notin> finalized (queue w) \<Longrightarrow> ls_holder s (lock_key l) = Some w"
    using st unfolding stacks_ok_def by blast+
qed

lemma scan_holds:
  assumes "lock_reachable queue s" "next_action s w = Some (Scan l)"
  shows "ls_holder s (lock_key l) = Some w"
proof -
  obtain st where st: "stacks_ok (\<lambda>w. finalized (queue w)) st s" using reachable_stacks [OF assms(1)] by blast
  obtain rest where "ls_todo s w = Scan l # rest" using assms(2) by (rule next_actionE)
  then have "ordered_from (finalized (queue w)) (st w) (Scan l # rest)"
    using st unfolding stacks_ok_def by metis
  then show ?thesis using st unfolding stacks_ok_def by auto
qed

text \<open>C8. No race, for any two workers and any broker state: the ACLs or the role bindings of a cluster,
  or one identity. They are never both about to access it, finalizers included; they are never both
  about to scan for its claimants; and one is about to access an identity while the other is about
  to scan for it only where the first has in its queue the finalizer of a topic or role binding of
  that identity, which takes no identity lock.\<close>

lemma workers_exclude:
  assumes "lock_reachable queue s" "v \<noteq> w"
  shows "\<not> (next_action s v = Some (Access l) \<and> next_action s w = Some (Access l)) \<and>
    \<not> (next_action s v = Some (Scan l) \<and> next_action s w = Some (Scan l)) \<and>
    (next_action s v = Some (Access l) \<and> next_action s w = Some (Scan l) \<longrightarrow> l \<in> finalized (queue v))"
  using access_holds [OF assms(1), of v l] access_holds(1) [OF assms(1), of w l]
    scan_holds [OF assms(1), of v l] scan_holds [OF assms(1), of w l] assms(2)
  by (metis option.inject)

subsection \<open>Witnesses\<close>

text \<open>Two workers on one cluster: the finalizer of a topic and the reconcile of a rival of the same name.\<close>

definition sample_lock_cluster :: kafka_cluster where
  "sample_lock_cluster =
     \<lparr>kc_meta = mk_meta ''ns'' ''prod'',
      kc_spec = \<lparr>kcs_bootstrapServers = ''b:9092'', kcs_tls = None, kcs_auth = None, kcs_schemaRegistry = None,
        kcs_defaults = None, kcs_tenancy = None, kcs_authorization = None, kcs_rest = None\<rparr>\<rparr>"

definition sample_lock_topic :: "string \<Rightarrow> kafka_topic" where
  "sample_lock_topic name =
     \<lparr>kt_meta = mk_meta ''ns'' name,
      kt_spec = \<lparr>kts_clusterRef = \<lparr>cr_name = ''prod''\<rparr>, kts_topicName = ''orders'', kts_partitions = 1,
        kts_replicationFactor = None, kts_config = [], kts_access = \<lparr>ta_producers = [], ta_consumers = []\<rparr>,
        kts_schema = None, kts_reconciliation = None, kts_drift = None, kts_prune = False,
        kts_deletionPolicy = ''Delete''\<rparr>\<rparr>"

definition sample_queue :: "nat \<Rightarrow> (pass \<times> kafka_cluster \<times> stage) list" where
  "sample_queue w =
     (if w = 0 then [(TopicFinalize (sample_lock_topic ''old''), sample_lock_cluster, ToEngine)]
      else if w = 2 then [(TopicReconcile (sample_lock_topic ''new''), sample_lock_cluster, ToEngine)]
      else [])"

abbreviation "sample_acl \<equiv> LockSubstrate ''ns/prod'' ''acl''"
abbreviation "sample_identity \<equiv> LockIdentity ''ns/prod'' ''KafkaTopic'' ''orders''"

lemma sample_topic_lock: "topic_lock sample_lock_cluster (sample_lock_topic n) = sample_identity"
  by (simp add: topic_lock_def cluster_lock_key_def sample_lock_cluster_def sample_lock_topic_def mk_meta_def
      resolved_topic_name_def)

lemma sample_start:
  "ls_todo (start_workers sample_queue) 0 =
     [Acquire (lock_key sample_acl), Access sample_acl, Access sample_identity, Release (lock_key sample_acl)]"
  "ls_todo (start_workers sample_queue) 2 =
     [Acquire (lock_key sample_identity), Scan sample_identity, Acquire (lock_key sample_acl),
      Access sample_identity, Access sample_acl, Release (lock_key sample_acl), Release (lock_key sample_identity)]"
  "ls_holder (start_workers sample_queue) k = None"
proof -
  have rbac: "\<not> has_access_backend (Some sample_lock_cluster) ''rbac''"
    by (simp add: has_access_backend_def effective_access_backends_def sample_lock_cluster_def)
  have key: "cluster_lock_key sample_lock_cluster = ''ns/prod''"
    by (simp add: cluster_lock_key_def sample_lock_cluster_def mk_meta_def)
  show "ls_todo (start_workers sample_queue) 0 =
     [Acquire (lock_key sample_acl), Access sample_acl, Access sample_identity, Release (lock_key sample_acl)]"
    by (simp add: start_workers_def sample_queue_def topic_finalize_pass_def locked_def acl_access_def key
        sample_topic_lock substrate_acl_def Let_def)
  show "ls_todo (start_workers sample_queue) 2 =
     [Acquire (lock_key sample_identity), Scan sample_identity, Acquire (lock_key sample_acl),
      Access sample_identity, Access sample_acl, Release (lock_key sample_acl), Release (lock_key sample_identity)]"
    by (simp add: start_workers_def sample_queue_def topic_reconcile_pass_def locked_def acl_access_def key
        sample_topic_lock substrate_acl_def Let_def lock_topic_substrates_def rbac)
  show "ls_holder (start_workers sample_queue) k = None" by (simp add: start_workers_def)
qed

lemma workers_never_deadlock_witness: "\<exists>s'. lock_step (start_workers sample_queue) s'"
  by (rule workers_never_deadlock [OF lock_reachable.lr_start, of _ 0]) (simp add: sample_start)

lemma workers_run_to_completion_witness:
  "0 \<le> work_left 3 (start_workers sample_queue) \<and>
   ((\<exists>s'. lock_step (start_workers sample_queue) s') \<or> all_done (start_workers sample_queue))"
  by (rule workers_run_to_completion [where n = 3 and m = 0]) (simp_all add: sample_queue_def)

text \<open>
  The finalizer holds the ACL lock and is about to delete the topic, while the rival holds the identity
  lock and is about to scan.
\<close>

definition sample_overlap :: lock_system where
  "sample_overlap =
     \<lparr>ls_todo = (ls_todo (start_workers sample_queue))
        (0 := drop 2 (ls_todo (start_workers sample_queue) 0),
         2 := drop 1 (ls_todo (start_workers sample_queue) 2)),
      ls_holder = (\<lambda>_. None)(lock_key sample_acl := Some 0, lock_key sample_identity := Some 2)\<rparr>"

lemma sample_overlap_reachable: "lock_reachable sample_queue sample_overlap"
proof -
  let ?s0 = "start_workers sample_queue"
  let ?s1 = "?s0\<lparr>ls_todo := (ls_todo ?s0)(0 := drop 1 (ls_todo ?s0 0)),
    ls_holder := (ls_holder ?s0)(lock_key sample_acl := Some 0)\<rparr>"
  let ?s2 = "?s1\<lparr>ls_todo := (ls_todo ?s1)(0 := drop 2 (ls_todo ?s0 0))\<rparr>"
  let ?s3 = "?s2\<lparr>ls_todo := (ls_todo ?s2)(2 := drop 1 (ls_todo ?s0 2)),
    ls_holder := (ls_holder ?s2)(lock_key sample_identity := Some 2)\<rparr>"
  have "lock_reachable sample_queue ?s1"
    by (rule lock_reachable.lr_step [OF lock_reachable.lr_start], rule lock_step.acquire)
       (simp_all add: sample_start)
  then have "lock_reachable sample_queue ?s2"
    by (rule lock_reachable.lr_step, intro lock_step.access) (simp add: sample_start)
  then have "lock_reachable sample_queue ?s3"
    by (rule lock_reachable.lr_step, intro lock_step.acquire) (simp_all add: sample_start nul_join_def)
  moreover have "?s3 = sample_overlap"
    by (simp add: sample_overlap_def fun_upd_twist start_workers_def)
  ultimately show ?thesis by simp
qed

lemma sample_overlap_next:
  "next_action sample_overlap 0 = Some (Access sample_identity)"
  "next_action sample_overlap 2 = Some (Scan sample_identity)"
  by (simp_all add: next_action_def sample_overlap_def sample_start)

lemma workers_exclude_witness:
  "next_action sample_overlap 0 = Some (Access sample_identity) \<and>
   next_action sample_overlap 2 = Some (Scan sample_identity) \<and>
   sample_identity \<in> finalized (sample_queue 0) \<and> next_action sample_overlap 2 \<noteq> Some (Access sample_identity)"
  using workers_exclude [OF sample_overlap_reachable, of 0 2 sample_identity]
  by (simp add: sample_overlap_next)

text \<open>Distinct names never share a mutex, as long as the cluster keys and kinds hold no NUL byte.\<close>

lemma nul_head_inject:
  assumes "nul_free a" "nul_free b"
  shows "a @ NUL # x = b @ NUL # y \<longleftrightarrow> a = b \<and> x = y"
proof
  assume eq: "a @ NUL # x = b @ NUL # y"
  have "takeWhile (\<lambda>c. c \<noteq> NUL) (a @ NUL # x) = a" "takeWhile (\<lambda>c. c \<noteq> NUL) (b @ NUL # y) = b"
    using assms by (auto simp: nul_free_def takeWhile_append)
  then show "a = b \<and> x = y" using eq by (metis append_same_eq list.inject same_append_eq)
qed simp

fun lock_name_ok :: "lock_name \<Rightarrow> bool" where
  "lock_name_ok (LockSubstrate clusterKey substrate) \<longleftrightarrow> nul_free clusterKey"
| "lock_name_ok (LockIdentity clusterKey kind identity) \<longleftrightarrow> nul_free clusterKey \<and> nul_free kind"

lemma lock_key_inject: "lock_name_ok l \<Longrightarrow> lock_name_ok l' \<Longrightarrow> lock_key l = lock_key l' \<longleftrightarrow> l = l'"
  by (cases l; cases l') (auto simp: nul_join_def nul_head_inject)

end
