(* ===== verification/Reconcile_Status.thy ===== *)
theory Reconcile_Status
  imports Cli_Plan Tenancy
begin

section \<open>Statuses of the operator's reconcile engine (internal/operator/reconcile)\<close>

text \<open>
  The status structs of \<^verbatim>\<open>types.go\<close> and the helpers of \<^verbatim>\<open>reconcile.go\<close> that fill them from a list of
  operations or an executor result.

  \<open>Conditions\<close> is seeded from the stored status and only ever changed through apimachinery's
  \<open>meta.SetStatusCondition\<close> and \<open>meta.RemoveStatusCondition\<close>, which are not part of the repository. A
  status therefore records the calls made, in order; so does the terminal-outcome counter
  \<open>operator.RecordReconcileTerminal\<close>. \<open>last_call\<close> is the last call about a condition type, which
  decides that condition (\<^term>\<open>None\<close>: it keeps its stored value). \<open>quote\<close> is \<open>strconv.Quote\<close>.
\<close>

subsection \<open>Statuses\<close>

record condition =
  cn_type :: string
  cn_status :: bool
  cn_reason :: string
  cn_message :: string
  cn_generation :: int

datatype status_call =
    SetStatusCondition condition
  | RemoveStatusCondition string
  | RecordReconcileTerminal string string

record drift_status =
  dr_detected :: bool
  dr_fields :: "string list"

text \<open>The fields all kinds share.\<close>

record base_status =
  st_observedGeneration :: int
  st_phase :: string
  st_lastCheckedTime :: nat
  st_lastAppliedTime :: "nat option"
  st_calls :: "status_call list"

record observed_schema =
  os_valueSubject :: string
  os_valueSchemaID :: int
  os_compatibility :: string

record topic_status = base_status +
  ktt_observedTopic :: "topic_state option"
  ktt_schema :: "observed_schema option"
  ktt_drift :: "drift_status option"

record policy_status = base_status +
  kpt_observedRules :: "acl_rule list"
  kpt_drift :: "drift_status option"

record quota_status = base_status +
  kqt_observedLimits :: "quota_limits_spec option"
  kqt_drift :: "drift_status option"

record role_binding_status = base_status +
  krt_observedResources :: "role_resource list"

record applied_password_ref =
  apr_secretName :: string
  apr_resourceVersion :: string

record user_status = base_status +
  kut_appliedPasswordRef :: "applied_password_ref option"
  kut_generatedSecretName :: string

subsection \<open>Conditions\<close>

definition add_call :: "status_call \<Rightarrow> 'a base_status_scheme \<Rightarrow> 'a base_status_scheme" where
  "add_call c st = st\<lparr>st_calls := st_calls st @ [c]\<rparr>"

definition set_cond ::
    "string \<Rightarrow> bool \<Rightarrow> string \<Rightarrow> string \<Rightarrow> int \<Rightarrow> 'a base_status_scheme \<Rightarrow> 'a base_status_scheme" where
  "set_cond typ status reason msg gen =
     add_call (SetStatusCondition \<lparr>cn_type = typ, cn_status = status, cn_reason = reason, cn_message = msg,
       cn_generation = gen\<rparr>)"

definition remove_cond :: "string \<Rightarrow> 'a base_status_scheme \<Rightarrow> 'a base_status_scheme" where
  "remove_cond typ = add_call (RemoveStatusCondition typ)"

definition set_phase :: "string \<Rightarrow> 'a base_status_scheme \<Rightarrow> 'a base_status_scheme" where
  "set_phase p st = st\<lparr>st_phase := p\<rparr>"

definition set_terminal_reasons ::
    "string \<Rightarrow> string \<Rightarrow> string \<Rightarrow> string \<Rightarrow> int \<Rightarrow> 'a base_status_scheme \<Rightarrow> 'a base_status_scheme" where
  "set_terminal_reasons kind failedReason readyReason msg gen st =
     add_call (RecordReconcileTerminal kind failedReason)
       (set_cond ''Ready'' False readyReason msg gen
         (set_cond ''ValidationFailed'' True failedReason msg gen st))"

definition set_terminal ::
    "string \<Rightarrow> string \<Rightarrow> string \<Rightarrow> int \<Rightarrow> 'a base_status_scheme \<Rightarrow> 'a base_status_scheme" where
  "set_terminal kind reason msg gen = set_terminal_reasons kind reason reason msg gen"

fun about :: "string \<Rightarrow> status_call \<Rightarrow> bool" where
  "about typ (SetStatusCondition c) \<longleftrightarrow> cn_type c = typ"
| "about typ (RemoveStatusCondition t) \<longleftrightarrow> t = typ"
| "about typ (RecordReconcileTerminal kind reason) \<longleftrightarrow> False"

definition last_call :: "string \<Rightarrow> 'a base_status_scheme \<Rightarrow> status_call option" where
  "last_call typ st = find (about typ) (rev (st_calls st))"

definition cond_is :: "string \<Rightarrow> bool \<Rightarrow> string \<Rightarrow> 'a base_status_scheme \<Rightarrow> bool" where
  "cond_is typ status reason st \<longleftrightarrow>
     (case last_call typ st of
        Some (SetStatusCondition c) \<Rightarrow> cn_status c = status \<and> cn_reason c = reason
      | _ \<Rightarrow> False)"

subsection \<open>Messages\<close>

definition render :: "(string \<Rightarrow> string) \<Rightarrow> message \<Rightarrow> string" where
  "render quote m = concat (map (case_piece id quote) m)"

definition join_err_msgs :: "(string \<Rightarrow> string) \<Rightarrow> go_error list \<Rightarrow> string" where
  "join_err_msgs quote errs = join ''; '' (map (render quote) errs)"

fun status_name :: "status \<Rightarrow> string" where
  "status_name StSucceeded = ''Succeeded''"
| "status_name StFailed = ''Failed''"
| "status_name StSkipped = ''Skipped''"
| "status_name StBlocked = ''Blocked''"
| "status_name StRejected = ''Rejected''"
| "status_name StReportOnly = ''ReportOnly''"
| "status_name StPruneDisabled = ''PruneDisabled''"
| "status_name StUnsupported = ''Unsupported''"

definition status_detail :: "(string \<Rightarrow> string) \<Rightarrow> op_result \<Rightarrow> string" where
  "status_detail quote r =
     (if render quote (res_err r) \<noteq> []
      then status_name (res_status r) @ '' ('' @ render quote (res_err r) @ '')''
      else status_name (res_status r))"

definition op_label :: "operation \<Rightarrow> string" where
  "op_label op = action_name (op_action op) @ '' '' @ op_target op"

definition not_succeeded :: "op_result list \<Rightarrow> op_result list" where
  "not_succeeded rs = filter (\<lambda>r. res_status r \<noteq> StSucceeded) rs"

definition unresolved_fields :: "op_result list \<Rightarrow> string list" where
  "unresolved_fields rs =
     sort (map (\<lambda>r. op_label (res_op r) @ '' ['' @ status_name (res_status r) @ '']'') (not_succeeded rs))"

definition failure_line :: "(string \<Rightarrow> string) \<Rightarrow> op_result \<Rightarrow> string" where
  "failure_line quote r = op_label (res_op r) @ '': '' @ status_detail quote r"

definition apply_failure_msg :: "(string \<Rightarrow> string) \<Rightarrow> op_result list \<Rightarrow> string" where
  "apply_failure_msg quote rs = join ''; '' (sort (map (failure_line quote) (not_succeeded rs)))"

definition apply_retry_error :: "(string \<Rightarrow> string) \<Rightarrow> op_result list \<Rightarrow> go_error option" where
  "apply_retry_error quote rs =
     (let n = counts rs StFailed
      in if n > 0 then Some [T ''apply incomplete: '', T (nat_str n), T '' failed operation(s): '',
           T (apply_failure_msg quote rs)] else None)"

definition pending_ops :: "operation list \<Rightarrow> operation list" where
  "pending_ops ops = filter (\<lambda>op. op_action op \<noteq> NoOp) ops"

definition drift_fields :: "operation list \<Rightarrow> string list" where
  "drift_fields ops = sort (map op_label (filter (\<lambda>op. op_action op \<noteq> NoOp) ops))"

subsection \<open>The drift and Ready skeleton\<close>

text \<open>
  \<open>driftTarget\<close>: conditions and phase are fields of every status; \<open>put_drift\<close> writes the \<open>Drift\<close> field
  of the kinds that have one and is the identity for the others.
\<close>

definition finish_detect_only ::
    "(drift_status \<Rightarrow> 'a base_status_scheme \<Rightarrow> 'a base_status_scheme) \<Rightarrow> operation list \<Rightarrow> int \<Rightarrow> bool \<Rightarrow>
     'a base_status_scheme \<Rightarrow> 'a base_status_scheme" where
  "finish_detect_only put_drift ops gen observe st =
     (let pending = pending_ops ops; drifted = (pending \<noteq> []); fields = drift_fields pending;
          st1 = put_drift \<lparr>dr_detected = drifted, dr_fields = fields\<rparr> st;
          st2 = (if drifted then set_cond ''DriftDetected'' True ''DriftDetected'' (join ''; '' fields) gen st1
                 else set_cond ''DriftDetected'' False ''InSync'' ''no drift detected'' gen st1)
      in if observe then
           set_cond ''Ready'' True ''Observed'' ''observe-only: drift reported, not enforced'' gen
             (set_phase ''Ready'' st2)
         else if drifted then
           set_cond ''Ready'' False ''Drifted'' ''detect-only: drift present, not enforced'' gen
             (set_phase ''Drifted'' st2)
         else set_cond ''Ready'' True ''InSync'' ''no drift detected'' gen (set_phase ''Ready'' st2))"

definition unresolved_count :: "op_result list \<Rightarrow> nat" where
  "unresolved_count rs =
     counts rs StBlocked + counts rs StFailed + counts rs StRejected + counts rs StSkipped +
     counts rs StPruneDisabled + counts rs StUnsupported"

definition finish_enforce ::
    "(string \<Rightarrow> string) \<Rightarrow> (drift_status \<Rightarrow> 'a base_status_scheme \<Rightarrow> 'a base_status_scheme) \<Rightarrow>
     op_result list \<Rightarrow> int \<Rightarrow> 'a base_status_scheme \<Rightarrow> 'a base_status_scheme" where
  "finish_enforce quote put_drift rs gen st =
     (let drifted = (unresolved_count rs > 0);
          st1 = put_drift \<lparr>dr_detected = drifted, dr_fields = unresolved_fields rs\<rparr> st;
          st2 = (if drifted then
                   set_cond ''DriftDetected'' True ''ApplyIncomplete'' (join ''; '' (unresolved_fields rs)) gen st1
                 else set_cond ''DriftDetected'' False ''InSync'' ''reconciled clean'' gen st1)
      in if result_ok rs then
           set_cond ''Ready'' True ''Reconciled'' ''all operations succeeded'' gen (set_phase ''Ready'' st2)
         else set_cond ''Ready'' False ''ApplyIncomplete'' (apply_failure_msg quote rs) gen
                (set_phase ''Error'' st2))"

subsection \<open>Area conditions\<close>

text \<open>The one-area kinds: \<open>applyPolicyDetectOnly\<close> and its analogues for quotas and role bindings.\<close>

definition area_detect_only :: "string \<Rightarrow> operation list \<Rightarrow> int \<Rightarrow> 'a base_status_scheme \<Rightarrow> 'a base_status_scheme" where
  "area_detect_only typ ops gen st =
     (if pending_ops ops \<noteq> [] then set_cond typ False ''DriftPending'' ''out of sync'' gen st
      else set_cond typ True ''InSync'' ''in sync'' gen st)"

definition area_enforce ::
    "(string \<Rightarrow> string) \<Rightarrow> string \<Rightarrow> string \<Rightarrow> op_result list \<Rightarrow> int \<Rightarrow>
     'a base_status_scheme \<Rightarrow> 'a base_status_scheme" where
  "area_enforce quote typ okMsg rs gen st =
     (if result_ok rs then set_cond typ True ''Reconciled'' okMsg gen st
      else set_cond typ False ''ApplyIncomplete'' (apply_failure_msg quote rs) gen st)"

definition is_acl_action :: "action \<Rightarrow> bool" where
  "is_acl_action a \<longleftrightarrow> a = CreateAcl \<or> a = DeleteAcl"

definition is_schema_action :: "action \<Rightarrow> bool" where
  "is_schema_action a \<longleftrightarrow> a = RegisterSchema \<or> a = RaiseSchemaCompatibility \<or>
     a = LowerSchemaCompatibility \<or> a = DeleteSubject \<or> a = SchemaSuperseded"

definition is_topic_action :: "action \<Rightarrow> bool" where
  "is_topic_action a \<longleftrightarrow> \<not> is_acl_action a \<and> \<not> is_schema_action a"

definition area_outcome :: "(string \<Rightarrow> string) \<Rightarrow> op_result list \<Rightarrow> (action \<Rightarrow> bool) \<Rightarrow> bool \<times> string" where
  "area_outcome quote rs pred =
     (case filter (\<lambda>r. pred (op_action (res_op r)) \<and> res_status r \<noteq> StSucceeded) rs of
        [] \<Rightarrow> (True, [])
      | r # _ \<Rightarrow> (False, failure_line quote r))"

definition set_sync_cond ::
    "string \<Rightarrow> bool \<Rightarrow> string \<Rightarrow> int \<Rightarrow> 'a base_status_scheme \<Rightarrow> 'a base_status_scheme" where
  "set_sync_cond typ synced pendingReason gen st =
     (if synced then set_cond typ True ''InSync'' ''in sync'' gen st
      else set_cond typ False pendingReason ''out of sync'' gen st)"

definition set_outcome_cond ::
    "string \<Rightarrow> bool \<times> string \<Rightarrow> int \<Rightarrow> 'a base_status_scheme \<Rightarrow> 'a base_status_scheme" where
  "set_outcome_cond typ outcome gen st =
     (if fst outcome then set_cond typ True ''Reconciled'' ''in sync'' gen st
      else set_cond typ False ''ApplyIncomplete'' (snd outcome) gen st)"

definition topic_conditions_from_ops ::
    "operation list \<Rightarrow> bool \<Rightarrow> bool \<Rightarrow> int \<Rightarrow> bool \<Rightarrow> 'a base_status_scheme \<Rightarrow> 'a base_status_scheme" where
  "topic_conditions_from_ops ops schemaDeclared schemaUnresolved gen observe st =
     (let pending = map op_action (pending_ops ops);
          reason = (if observe then ''Observed'' else ''DriftPending'');
          st1 = set_sync_cond ''TopicSynced'' (\<not> list_ex is_topic_action pending) reason gen st;
          st2 = set_sync_cond ''TopicAccessSynced'' (\<not> list_ex is_acl_action pending) reason gen st1
      in if schemaDeclared \<and> \<not> schemaUnresolved then
           set_sync_cond ''SchemaSynced'' (\<not> list_ex is_schema_action pending) reason gen st2
         else st2)"

definition topic_conditions_from_result ::
    "(string \<Rightarrow> string) \<Rightarrow> op_result list \<Rightarrow> bool \<Rightarrow> bool \<Rightarrow> int \<Rightarrow>
     'a base_status_scheme \<Rightarrow> 'a base_status_scheme" where
  "topic_conditions_from_result quote rs schemaDeclared schemaUnresolved gen st =
     (let st1 = set_outcome_cond ''TopicSynced'' (area_outcome quote rs is_topic_action) gen st;
          st2 = set_outcome_cond ''TopicAccessSynced'' (area_outcome quote rs is_acl_action) gen st1
      in if schemaDeclared \<and> \<not> schemaUnresolved then
           set_outcome_cond ''SchemaSynced'' (area_outcome quote rs is_schema_action) gen st2
         else st2)"

subsection \<open>Shared steps of the kinds\<close>

definition start_status :: "int \<Rightarrow> nat \<Rightarrow> base_status" where
  "start_status gen now =
     \<lparr>st_observedGeneration = gen, st_phase = [], st_lastCheckedTime = now, st_lastAppliedTime = None,
      st_calls = []\<rparr>"

definition fail_terminal ::
    "string \<Rightarrow> string \<Rightarrow> string \<Rightarrow> int \<Rightarrow> 'a base_status_scheme \<Rightarrow> 'a base_status_scheme" where
  "fail_terminal kind reason msg gen st = set_terminal kind reason msg gen (set_phase ''Error'' st)"

definition mark_valid :: "int \<Rightarrow> 'a base_status_scheme \<Rightarrow> 'a base_status_scheme" where
  "mark_valid gen = set_cond ''ValidationFailed'' False ''Valid'' ''spec validated'' gen"

definition annotation :: "object_meta \<Rightarrow> string \<Rightarrow> string" where
  "annotation m k = (case mget (om_annotations m) k of None \<Rightarrow> [] | Some v \<Rightarrow> v)"

definition approvals_from_annotations :: "object_meta \<Rightarrow> approvals" where
  "approvals_from_annotations m =
     \<lparr>appr_delete = (annotation m ''gitops.monedula.dev/allow-delete'' = ''true''),
      appr_destructive = (annotation m ''gitops.monedula.dev/allow-destructive'' = ''true''),
      appr_prune = False\<rparr>"

definition cluster_tenancy :: "kafka_cluster option \<Rightarrow> tenancy_config option" where
  "cluster_tenancy cl = Option.bind cl (\<lambda>c. kcs_tenancy (kc_spec c))"

end
