(* ===== verification/Reconcile.thy ===== *)
theory Reconcile
  imports Reconcile_Status Validation Defaulting Recordname
begin

section \<open>The reconcile engine: topics and access policies (internal/operator/reconcile/reconcile.go)\<close>

text \<open>
  One pass of the engine over a KafkaTopic or a KafkaAccessPolicy: validate, compile, read the live
  state, diff, and - in Enforce mode only - apply. The clients act on a world \<open>'w\<close>; a pass returns the
  next world, the status to write and the retryable error, if any. Parameters: \<open>metav1.Now\<close>,
  \<open>strconv.Quote\<close>, \<open>url.Parse\<close> and the resolver of schema bodies.
\<close>

record reconcile_env =
  re_quote :: "string \<Rightarrow> string"
  re_parseUrl :: url_parser
  re_now :: nat
  re_resolve :: "value_from \<Rightarrow> go_error + string"

subsection \<open>The cluster-wide ACL view\<close>

record cluster_acl_view =
  cav_desiredACLs :: "acl list"
  cav_scope :: managed_scope
  cav_conflicts :: "conflict list"

definition view_topic_acls :: "cluster_defaults option \<Rightarrow> kafka_cluster option \<Rightarrow> kafka_topic \<Rightarrow> acl list" where
  "view_topic_acls clusterDefaults cluster tp =
     (let tp' = default_topic tp clusterDefaults
      in if \<not> has_access_backend cluster ''acl'' then []
         else stamp_prune (stamp_source (compile_topic tp') ''KafkaTopic'' (om_namespace (kt_meta tp'))
                (om_name (kt_meta tp'))) (kts_prune (kt_spec tp')))"

definition view_policy_acls :: "kafka_access_policy \<Rightarrow> acl list" where
  "view_policy_acls pol =
     (let pol' = default_policy pol
      in stamp_prune (stamp_source (compile_policy pol') ''KafkaAccessPolicy'' (om_namespace (ap_meta pol'))
           (om_name (ap_meta pol'))) (aps_prune (ap_spec pol')))"

definition view_sort_key :: "acl \<Rightarrow> string" where
  "view_sort_key a =
     full_key a @ ''|'' @ acl_sourceKind a @ ''|'' @ acl_sourceNamespace a @ ''|'' @ acl_sourceName a"

definition view_acls ::
    "kafka_topic list \<Rightarrow> kafka_access_policy list \<Rightarrow> cluster_defaults option \<Rightarrow> kafka_cluster option \<Rightarrow> acl list" where
  "view_acls topics policies clusterDefaults cluster =
     sort_key view_sort_key (concat (map (view_topic_acls clusterDefaults cluster) topics) @
       concat (map view_policy_acls policies))"

definition build_cluster_acl_view ::
    "kafka_topic list \<Rightarrow> kafka_access_policy list \<Rightarrow> cluster_defaults option \<Rightarrow> kafka_cluster option \<Rightarrow>
     cluster_acl_view" where
  "build_cluster_acl_view topics policies clusterDefaults cluster =
     (let all = view_acls topics policies clusterDefaults cluster; union = fst (build_acl_set all)
      in \<lparr>cav_desiredACLs = union, cav_scope = build_acl_scope union, cav_conflicts = conflicts all\<rparr>)"

subsection \<open>Checks before any live read\<close>

definition fill_api_version :: "object_meta \<Rightarrow> object_meta" where
  "fill_api_version m = (if om_apiVersion m = [] then m\<lparr>om_apiVersion := API_VERSION\<rparr> else m)"

definition validation_clusters :: "string \<Rightarrow> kafka_cluster option \<Rightarrow> clusters option" where
  "validation_clusters refName cluster =
     map_option (\<lambda>cl.
       let m = fill_api_version (kc_meta cl);
           m' = (if om_name m = [] then m\<lparr>om_name := refName\<rparr> else m)
       in [(refName, cl\<lparr>kc_meta := m'\<rparr>)]) cluster"

definition only_input :: "clusters option \<Rightarrow> validation_input" where
  "only_input cs =
     \<lparr>vi_topics = [], vi_policies = [], vi_clusters = cs, vi_quotas = [], vi_roleBindings = [], vi_users = [],
      vi_mirrorTopics = []\<rparr>"

definition access_error_text :: "access_error \<Rightarrow> go_error" where
  "access_error_text e =
     (case e of AclConflict subject \<Rightarrow> [T ''ACL conflict: '', T subject, T '' requested as both Allow and Deny''])"

fun first_denial :: "('a \<Rightarrow> go_error option) \<Rightarrow> 'a list \<Rightarrow> go_error option" where
  "first_denial check [] = None"
| "first_denial check (x # xs) = (case check x of Some e \<Rightarrow> Some e | None \<Rightarrow> first_denial check xs)"

text \<open>
  The gates common to topics and policies, in the code's order: validation, tenancy, the resource's own
  Allow/Deny conflicts. The left value is the status of a terminal outcome.
\<close>

definition preflight ::
    "(string \<Rightarrow> string) \<Rightarrow> string \<Rightarrow> int \<Rightarrow> go_error list \<Rightarrow> go_error option \<Rightarrow> acl list \<Rightarrow>
     'a base_status_scheme \<Rightarrow> 'a base_status_scheme + acl list" where
  "preflight quote kind gen verrs denial acls st =
     (if verrs \<noteq> [] then Inl (fail_terminal kind ''ValidationFailed'' (join_err_msgs quote verrs) gen st)
      else case denial of
        Some e \<Rightarrow> Inl (fail_terminal kind ''TenancyDenied'' (render quote e) gen st)
      | None \<Rightarrow>
          (case build_acl_set acls of (desired, errs) \<Rightarrow>
             if errs \<noteq> [] then
               Inl (set_terminal_reasons kind ''ACLConflict'' ''ValidationFailed''
                 (join_err_msgs quote (map access_error_text errs)) gen (set_phase ''Error'' st))
             else Inr desired))"

subsection \<open>Desired schemas\<close>

definition resolve_body :: "reconcile_env \<Rightarrow> value_from option \<Rightarrow> go_error + string" where
  "resolve_body env vf = (case vf of None \<Rightarrow> Inr [] | Some v \<Rightarrow> re_resolve env v)"

definition schema_entry :: "topic_schema \<Rightarrow> string \<Rightarrow> string \<Rightarrow> string \<Rightarrow> string \<Rightarrow> desired_schema" where
  "schema_entry sc topicName subject body mode =
     \<lparr>ds_subject = subject, ds_topic = topicName, ds_type = ts_format sc, ds_definition = body,
      ds_compatibility = ts_compatibility sc, ds_mode = mode\<rparr>"

definition topic_mode :: "kafka_topic \<Rightarrow> string" where
  "topic_mode t = (case kts_reconciliation (kt_spec t) of None \<Rightarrow> [] | Some r \<Rightarrow> rec_mode r)"

definition build_desired_schemas ::
    "reconcile_env \<Rightarrow> kafka_topic \<Rightarrow> string \<Rightarrow> topic_schema \<Rightarrow> go_error + desired_schema list \<times> string" where
  "build_desired_schemas env topic topicName sc =
     and_then (resolve_body env (ts_valueSchema sc)) (\<lambda>valueDef.
     and_then (resolve_body env (ts_keySchema sc)) (\<lambda>keyDef.
     and_then (subjects (ts_subjectStrategy sc) topicName sc valueDef keyDef) (\<lambda>(valueSubject, keySubject).
       Inr (if valueDef = [] \<and> keyDef = [] then
              [schema_entry sc topicName valueSubject [] (topic_mode topic)]
            else (if valueDef \<noteq> [] then [schema_entry sc topicName valueSubject valueDef []] else []) @
                 (if keyDef \<noteq> [] then [schema_entry sc topicName keySubject keyDef []] else []),
            valueSubject))))"

definition prefixed_error :: "string \<Rightarrow> go_error + 'a \<Rightarrow> go_error + 'a" where
  "prefixed_error pre r = (case r of Inl e \<Rightarrow> Inl (T pre # e) | Inr a \<Rightarrow> Inr a)"

definition managed_subjects :: "reconcile_env \<Rightarrow> kafka_topic \<Rightarrow> go_error + string list" where
  "managed_subjects env topic =
     (case kts_schema (kt_spec topic) of
        None \<Rightarrow> Inr []
      | Some sc \<Rightarrow>
          (let name = resolved_topic_name topic;
               hasValue = (ts_valueSchema sc \<noteq> None); hasKey = (ts_keySchema sc \<noteq> None)
           in if \<not> hasValue \<and> \<not> hasKey then Inr []
              else if ts_subjectStrategy sc = [] \<or> ts_subjectStrategy sc = ''TopicName'' then
                Inr ((if hasValue then [name @ ''-value''] else []) @ (if hasKey then [name @ ''-key''] else []))
              else if ts_subjectStrategy sc = ''Custom'' then
                Inr ((if hasValue \<and> ts_valueSubject sc \<noteq> [] then [ts_valueSubject sc] else []) @
                     (if hasKey \<and> ts_keySubject sc \<noteq> [] then [ts_keySubject sc] else []))
              else
                and_then (prefixed_error ''resolve value schema body for subject computation: ''
                    (resolve_body env (ts_valueSchema sc))) (\<lambda>valueDef.
                and_then (prefixed_error ''resolve key schema body for subject computation: ''
                    (resolve_body env (ts_keySchema sc))) (\<lambda>keyDef.
                and_then (subjects (ts_subjectStrategy sc) name sc valueDef keyDef) (\<lambda>(vs, ks).
                  Inr ((if vs \<noteq> [] then [vs] else []) @ (if ks \<noteq> [] then [ks] else [])))))))"

subsection \<open>Live state\<close>

definition named_error :: "string \<Rightarrow> string \<Rightarrow> go_error + 'a \<Rightarrow> go_error + 'a" where
  "named_error what name r = (case r of Inl e \<Rightarrow> Inl ([T what, T '' '', Q name, T '': ''] @ e) | Inr a \<Rightarrow> Inr a)"

definition observe_subject :: "'w schema_client \<Rightarrow> desired_schema \<Rightarrow> 'w \<Rightarrow> live \<Rightarrow> go_error + live" where
  "observe_subject sr ds w l =
     and_then (named_error ''get subject'' (ds_subject ds) (sc_getSubject sr (ds_subject ds) w)) (\<lambda>found.
       let compat = named_error ''get compatibility'' (ds_subject ds) (sc_getCompatibility sr (ds_subject ds) w)
       in case found of
            None \<Rightarrow>
              if ds_definition ds = [] then
                and_then compat (\<lambda>level. Inr (l\<lparr>l_schemas := l_schemas l @
                  [\<lparr>ss_subject = ds_subject ds, ss_id = 0, ss_version = 0,
                    ss_schema = \<lparr>sch_type = [], sch_definition = []\<rparr>, ss_compatibility = level\<rparr>]\<rparr>))
              else Inr l
          | Some st \<Rightarrow>
              and_then compat (\<lambda>level.
                let l' = l\<lparr>l_schemas := l_schemas l @ [st\<lparr>ss_compatibility := level\<rparr>]\<rparr>
                in if ds_definition ds = [] \<or>
                      schema_equal (ds_type ds) (ds_definition ds) (sch_definition (ss_schema st))
                   then Inr l'
                   else and_then (named_error ''lookup schema'' (ds_subject ds)
                          (sc_lookupSchema sr (ds_subject ds)
                             \<lparr>sch_type = ds_type ds, sch_definition = ds_definition ds\<rparr> w)) (\<lambda>v.
                        Inr (if v > 0
                             then l'\<lparr>l_supersededSchemas := (l_supersededSchemas l')(ds_subject ds \<mapsto> v)\<rparr>
                             else l'))))"

fun observe_subjects :: "'w schema_client \<Rightarrow> desired_schema list \<Rightarrow> 'w \<Rightarrow> live \<Rightarrow> go_error + live" where
  "observe_subjects sr [] w l = Inr l"
| "observe_subjects sr (ds # dss) w l = and_then (observe_subject sr ds w l) (observe_subjects sr dss w)"

text \<open>Without a registry there are no desired schemas, so \<open>sr\<close> is not read.\<close>

definition observe_schemas ::
    "(string \<Rightarrow> string) \<Rightarrow> 'w schema_client option \<Rightarrow> desired_schema list \<Rightarrow> 'w \<Rightarrow> live \<Rightarrow> go_error + live" where
  "observe_schemas quote sr dss w l =
     (case sr of
        None \<Rightarrow> Inr l
      | Some c \<Rightarrow>
          (if dss = [] then Inr l
           else observe_subjects c dss w
             (case sc_getGlobalCompatibility c w of
                Inl e \<Rightarrow> l\<lparr>l_globalCompatibilityErr := render quote e\<rparr>
              | Inr level \<Rightarrow> l\<lparr>l_globalCompatibility := level\<rparr>)))"

definition observe_topic_live ::
    "(string \<Rightarrow> string) \<Rightarrow> 'w admin_client \<Rightarrow> 'w schema_client option \<Rightarrow> string \<Rightarrow> desired_schema list \<Rightarrow> 'w \<Rightarrow>
     go_error + live" where
  "observe_topic_live quote k sr topicName dss w =
     and_then (named_error ''get topic'' topicName (ac_getTopic k topicName w)) (\<lambda>lt.
     and_then (prefixed_error ''list ACLs: '' (ac_listACLs k w)) (\<lambda>acls.
       observe_schemas quote sr dss w
         (empty_live\<lparr>l_topics := (case lt of None \<Rightarrow> [] | Some t \<Rightarrow> [t]), l_acls := live_acls acls\<rparr>)))"

definition observed_schema :: "subject_state list \<Rightarrow> string \<Rightarrow> observed_schema option" where
  "observed_schema subs valueSubject =
     (if valueSubject = [] then None
      else map_option (\<lambda>s. \<lparr>os_valueSubject = ss_subject s, os_valueSchemaID = ss_id s,
          os_compatibility = ss_compatibility s\<rparr>)
        (find (\<lambda>s. ss_subject s = valueSubject) subs))"

definition live_topic_by_name :: "topic_state list \<Rightarrow> string \<Rightarrow> topic_state option" where
  "live_topic_by_name ts name = find (\<lambda>t. tst_name t = name) ts"

subsection \<open>Conditions of the topic pass\<close>

definition set_acl_conflict_condition ::
    "cluster_acl_view option \<Rightarrow> string \<Rightarrow> string \<Rightarrow> string \<Rightarrow> int \<Rightarrow>
     'a base_status_scheme \<Rightarrow> 'a base_status_scheme" where
  "set_acl_conflict_condition view kind namespace name gen st =
     (case view of
        None \<Rightarrow> remove_cond ''ACLConflict'' st
      | Some v \<Rightarrow>
          (let isParty = (\<lambda>a. acl_sourceKind a = kind \<and> acl_sourceNamespace a = namespace \<and> acl_sourceName a = name)
           in case find (\<lambda>cf. isParty (cf_a cf) \<or> isParty (cf_b cf)) (cav_conflicts v) of
                None \<Rightarrow> set_cond ''ACLConflict'' False ''NoConflict'' ''no cross-resource ACL conflict'' gen st
              | Some cf \<Rightarrow>
                  (let other = (if isParty (cf_a cf) then cf_b cf else cf_a cf)
                   in set_cond ''ACLConflict'' True ''CrossResourceConflict''
                        (''ACL '' @ cf_subject cf @ '' conflicts Allow/Deny with '' @ acl_sourceKind other @ ''/'' @
                         acl_sourceNamespace other @ ''/'' @ acl_sourceName other @
                         '' on the same tuple; the tuple is dropped from the applied set'') gen st)))"

definition set_schema_registry_degraded ::
    "bool \<Rightarrow> string \<Rightarrow> int \<Rightarrow> 'a base_status_scheme \<Rightarrow> 'a base_status_scheme" where
  "set_schema_registry_degraded fetchAttempted err gen st =
     (if \<not> fetchAttempted then remove_cond ''SchemaRegistryDegraded'' st
      else if err \<noteq> [] then
        set_cond ''SchemaRegistryDegraded'' True ''GlobalCompatibilityFetchFailed''
          (''could not read Schema Registry global compatibility; first-time compatibility sets classify as Raise: '' @
           err) gen st
      else set_cond ''SchemaRegistryDegraded'' False ''GlobalCompatibilityRead''
        ''global compatibility level read successfully'' gen st)"

definition schema_superseded_message :: "operation list \<Rightarrow> message" where
  "schema_superseded_message ops =
     (case find (\<lambda>op. op_action op = SchemaSuperseded) ops of None \<Rightarrow> [] | Some op \<Rightarrow> op_message op)"

definition set_invalid_mode ::
    "(string \<Rightarrow> string) \<Rightarrow> string \<Rightarrow> string \<Rightarrow> int \<Rightarrow> 'a base_status_scheme \<Rightarrow> 'a base_status_scheme" where
  "set_invalid_mode quote kind mode gen =
     fail_terminal kind ''ValidationFailed'' (''invalid reconciliation.mode '' @ quote mode) gen"

definition live_state_error ::
    "(string \<Rightarrow> string) \<Rightarrow> go_error \<Rightarrow> int \<Rightarrow> 'a base_status_scheme \<Rightarrow> 'a base_status_scheme" where
  "live_state_error quote e gen st =
     set_cond ''Ready'' False ''LiveStateError'' (render quote e) gen (set_phase ''Error'' st)"

subsection \<open>Role bindings of a topic's access block\<close>

record cluster_role_binding_view =
  crv_desiredBindings :: "role_binding list"
  crv_desiredScope :: rb_managed_scope

definition rbac_error_text :: "rbac_error \<Rightarrow> go_error" where
  "rbac_error_text e =
     (case e of
        KafkaClusterMissing \<Rightarrow> [T ''rbac: MDSClusters.KafkaCluster is required but empty'']
      | SubClusterMissing field scopeType \<Rightarrow>
          [T ''rbac: MDSClusters.'', T field, T '' is required for scope type '', Q scopeType, T '' but empty'']
      | RoleBindingConflict key ns1 n1 ns2 n2 \<Rightarrow>
          [T ''role binding conflict: '', T key, T '' desired by both '', T ns1, T ''/'', T n1, T '' and '',
           T ns2, T ''/'', T n2])"

fun dedup_role_bindings :: "string set \<Rightarrow> role_binding list \<Rightarrow> role_binding list" where
  "dedup_role_bindings seen [] = []"
| "dedup_role_bindings seen (b # bs) =
     (if rb_full_key b \<in> seen then dedup_role_bindings seen bs
      else b # dedup_role_bindings (insert (rb_full_key b) seen) bs)"

text \<open>
  The live bindings of the scopes the desired set names. All bindings of one resource have one scope,
  so the order in which the code ranges over its map of scopes does not matter.
\<close>

definition read_live_bindings :: "'w mds_client \<Rightarrow> role_binding list \<Rightarrow> 'w \<Rightarrow> go_error + role_binding list" where
  "read_live_bindings c bs w =
     and_then (list_scopes c (distinct_scopes {} bs) w) (\<lambda>listed. Inr (dedup_role_bindings {} listed))"

definition binding_desired :: "role_binding list \<Rightarrow> cluster_role_binding_view option \<Rightarrow> desired" where
  "binding_desired bs view =
     (let d = empty_desired\<lparr>d_roleBindings := bs\<rparr>
      in case view of
           None \<Rightarrow> d\<lparr>d_roleBindingScope := build_rb_scope bs\<rparr>
         | Some v \<Rightarrow> set_role_binding_prune_set (crv_desiredBindings v)
             (d\<lparr>d_roleBindingScope := crv_desiredScope v\<rparr>))"

definition mds_clients :: "'w admin_client \<Rightarrow> 'w mds_client \<Rightarrow> 'w clients" where
  "mds_clients k c = \<lparr>cl_kafka = k, cl_schema = None, cl_mds = Some c, cl_mirrors = None, cl_passwords = None\<rparr>"

definition effective_mode :: "string \<Rightarrow> string" where
  "effective_mode m = (if m = [] then ModeEnforce else m)"

text \<open>
  \<open>k\<close> is the admin client field of the executor's clients, nil in the code on this path: no operation
  of a role-binding diff reaches it.
\<close>

definition reconcile_topic_role_bindings ::
    "reconcile_env \<Rightarrow> kafka_topic \<Rightarrow> mds_config \<Rightarrow> 'w admin_client \<Rightarrow> 'w mds_client \<Rightarrow>
     cluster_role_binding_view option \<Rightarrow> topic_status \<Rightarrow> 'w \<Rightarrow> 'w \<times> topic_status \<times> go_error option" where
  "reconcile_topic_role_bindings env topic mdsCfg k c view st w =
     (let gen = om_generation (kt_meta topic); quote = re_quote env
      in case compile_topic_access quote topic mdsCfg of
           Inl e \<Rightarrow>
             (w, set_phase ''Error'' (set_terminal ''kafkatopic'' ''ValidationFailed''
                (render quote (T ''compile topic access role bindings: '' # rbac_error_text e)) gen st), None)
         | Inr (compiled, warns) \<Rightarrow>
             (let st1 = (if warns \<noteq> [] then set_cond ''RBACCoarsened'' True ''RBACCoarsened''
                           (join ''; '' (sorted_warnings warns)) gen st
                         else set_cond ''RBACCoarsened'' False ''RBACCoarsened'' ''no coarsening'' gen st);
                  desired = stamp_rb_prune compiled (kts_prune (kt_spec topic))
              in case read_live_bindings c desired w of
                   Inl e \<Rightarrow>
                     (w, set_cond ''RoleBindingSynced'' False ''LiveStateError'' (render quote e) gen
                        (set_cond ''MDSReachable'' False ''LiveStateError'' (render quote e) gen st1), Some e)
                 | Inr live \<Rightarrow>
                     (let st2 = set_cond ''MDSReachable'' True ''Observed'' ''listed live role bindings'' gen st1;
                          ops = compute (binding_desired desired view) (empty_live\<lparr>l_roleBindings := live\<rparr>);
                          mode = effective_mode (topic_mode topic)
                      in if mode = ModeDetectOnly \<or> mode = ModeObserveOnly then
                           (w, area_detect_only ''RoleBindingSynced'' ops gen st2, None)
                         else case apply_ops (mds_clients k c) ops no_approvals w of
                           (w', rs) \<Rightarrow>
                             (w', area_enforce quote ''RoleBindingSynced'' ''all role-binding operations succeeded''
                                rs gen (st2\<lparr>st_lastAppliedTime := Some (re_now env)\<rparr>),
                              apply_retry_error quote rs))))"

subsection \<open>ReconcileTopic\<close>

definition start_topic_status :: "int \<Rightarrow> nat \<Rightarrow> topic_status" where
  "start_topic_status gen now =
     base_status.extend (start_status gen now)
       (topic_status.fields None None None)"

definition put_topic_drift :: "drift_status \<Rightarrow> topic_status \<Rightarrow> topic_status" where
  "put_topic_drift d st = st\<lparr>ktt_drift := Some d\<rparr>"

definition prepared_topic :: "kafka_topic \<Rightarrow> kafka_cluster option \<Rightarrow> kafka_topic" where
  "prepared_topic topic cluster =
     (let t = default_topic topic (Option.bind cluster (\<lambda>cl. kcs_defaults (kc_spec cl)))
      in t\<lparr>kt_meta := fill_api_version (kt_meta t)\<rparr>)"

definition topic_errors :: "url_parser \<Rightarrow> kafka_topic \<Rightarrow> kafka_cluster option \<Rightarrow> go_error list" where
  "topic_errors parse_url topic cluster =
     validate parse_url ((only_input (validation_clusters (topic_cluster topic) cluster))\<lparr>vi_topics := [topic]\<rparr>)"

definition topic_denial :: "tenancy_config option \<Rightarrow> kafka_topic \<Rightarrow> go_error option" where
  "topic_denial tc topic =
     or_else (check_tenancy tc (om_namespace (kt_meta topic)) (kts_topicName (kt_spec topic)))
       (first_denial (\<lambda>c. check_resource tc (om_namespace (kt_meta topic)) ''group'' (ca_group c) ''literal'')
          (ta_consumers (kts_access (kt_spec topic))))"

definition topic_acls :: "kafka_topic \<Rightarrow> kafka_cluster option \<Rightarrow> acl list" where
  "topic_acls topic cluster = (if has_access_backend cluster ''acl'' then compile_topic topic else [])"

text \<open>The desired schemas, the value subject, and the resolve error ("" when there is none).\<close>

definition topic_desired_schemas ::
    "reconcile_env \<Rightarrow> kafka_topic \<Rightarrow> bool \<Rightarrow> desired_schema list \<times> string \<times> string" where
  "topic_desired_schemas env topic hasRegistry =
     (case kts_schema (kt_spec topic) of
        None \<Rightarrow> ([], [], [])
      | Some sc \<Rightarrow>
          (if \<not> hasRegistry then ([], [], [])
           else case build_desired_schemas env topic (kts_topicName (kt_spec topic)) sc of
             Inl e \<Rightarrow> ([], [], render (re_quote env) e)
           | Inr (dss, subject) \<Rightarrow> (dss, subject, [])))"

definition topic_desired ::
    "kafka_topic \<Rightarrow> acl list \<Rightarrow> desired_schema list \<Rightarrow> cluster_acl_view option \<Rightarrow> desired" where
  "topic_desired topic acls dss view =
     (let sp = kt_spec topic;
          dt = \<lparr>dt_kind = ''KafkaTopic'', dt_namespace = om_namespace (kt_meta topic), dt_name = kts_topicName sp,
            dt_partitions = kts_partitions sp,
            dt_replicationFactor = (case kts_replicationFactor sp of None \<Rightarrow> 0 | Some rf \<Rightarrow> rf),
            dt_config = kts_config sp, dt_mode = [],
            dt_ignoreFields = (case kts_drift sp of None \<Rightarrow> [] | Some dr \<Rightarrow> dc_ignoreFields dr)\<rparr>;
          d = empty_desired\<lparr>d_topics := [dt], d_acls := acls, d_scope := build_acl_scope acls, d_schemas := dss\<rparr>
      in case view of None \<Rightarrow> d | Some v \<Rightarrow> set_prune_aggregate (cav_desiredACLs v) (cav_scope v) d)"

definition topic_clients :: "'w admin_client \<Rightarrow> 'w schema_client option \<Rightarrow> 'w clients" where
  "topic_clients k sr = \<lparr>cl_kafka = k, cl_schema = sr, cl_mds = None, cl_mirrors = None, cl_passwords = None\<rparr>"

text \<open>
  The mode switch: world, live state, status and retryable error, or the terminal status of an unknown
  mode.
\<close>

definition run_topic_mode ::
    "reconcile_env \<Rightarrow> kafka_topic \<Rightarrow> 'w admin_client \<Rightarrow> 'w schema_client option \<Rightarrow> desired_schema list \<Rightarrow>
     bool \<Rightarrow> bool \<Rightarrow> operation list \<Rightarrow> live \<Rightarrow> topic_status \<Rightarrow> 'w \<Rightarrow>
     topic_status + 'w \<times> live \<times> topic_status \<times> go_error option" where
  "run_topic_mode env topic k sr dss declared noSchema ops l st w =
     (let gen = om_generation (kt_meta topic); quote = re_quote env; mode = topic_mode topic
      in if mode = ModeDetectOnly then
           Inr (w, l, topic_conditions_from_ops ops declared noSchema gen False
             (finish_detect_only put_topic_drift ops gen False st), None)
         else if mode = ModeObserveOnly then
           Inr (w, l, topic_conditions_from_ops ops declared noSchema gen True
             (finish_detect_only put_topic_drift ops gen True st), None)
         else if mode = ModeEnforce then
           (case apply_ops (topic_clients k sr) ops (approvals_from_annotations (kt_meta topic)) w of
              (w', rs) \<Rightarrow>
                Inr (w',
                  (case observe_topic_live quote k sr (kts_topicName (kt_spec topic)) dss w' of
                     Inl _ \<Rightarrow> l | Inr l' \<Rightarrow> l'),
                  finish_enforce quote put_topic_drift rs gen
                    (topic_conditions_from_result quote rs declared noSchema gen
                      (st\<lparr>st_lastAppliedTime := Some (re_now env)\<rparr>)),
                  apply_retry_error quote rs))
         else Inl (set_invalid_mode quote ''kafkatopic'' mode gen st))"

text \<open>Conditions and observed state after the mode switch; \<open>l0\<close> is the observation before it.\<close>

definition topic_observed ::
    "reconcile_env \<Rightarrow> kafka_topic \<Rightarrow> cluster_acl_view option \<Rightarrow> operation list \<Rightarrow> bool \<Rightarrow> string \<Rightarrow> live \<Rightarrow> live \<Rightarrow>
     topic_status \<Rightarrow> topic_status" where
  "topic_observed env topic view ops fetched valueSubject l0 l st =
     (let gen = om_generation (kt_meta topic); msg = render (re_quote env) (schema_superseded_message ops);
          st1 = (if msg \<noteq> [] then set_cond ''SchemaSynced'' False ''SchemaSuperseded'' msg gen st else st);
          st2 = (case live_topic_by_name (l_topics l) (kts_topicName (kt_spec topic)) of
                   None \<Rightarrow> st1 | Some lt \<Rightarrow> st1\<lparr>ktt_observedTopic := Some lt\<rparr>);
          st3 = st2\<lparr>ktt_schema := observed_schema (l_schemas l) valueSubject\<rparr>
      in set_acl_conflict_condition view ''KafkaTopic'' (om_namespace (kt_meta topic)) (om_name (kt_meta topic)) gen
           (set_schema_registry_degraded fetched (l_globalCompatibilityErr l0) gen st3))"

definition topic_rbac ::
    "reconcile_env \<Rightarrow> kafka_topic \<Rightarrow> kafka_cluster option \<Rightarrow> 'w admin_client \<Rightarrow> 'w mds_client option \<Rightarrow>
     cluster_role_binding_view option \<Rightarrow> topic_status \<Rightarrow> go_error option \<Rightarrow> 'w \<Rightarrow>
     'w \<times> topic_status \<times> go_error option" where
  "topic_rbac env topic cluster k mdsClient rbView st retryErr w =
     (let gen = om_generation (kt_meta topic); quote = re_quote env
      in if \<not> has_access_backend cluster ''rbac'' then
           (w, remove_cond ''MDSReachable'' (remove_cond ''RoleBindingSynced'' (remove_cond ''RBACCoarsened'' st)),
            retryErr)
         else case Option.bind cluster (\<lambda>cl. Option.bind (kcs_authorization (kc_spec cl)) az_mds) of
           None \<Rightarrow>
             (w, set_phase ''Error'' (set_terminal ''kafkatopic'' ''ValidationFailed''
                ''accessBackends includes \"rbac\" but cluster has no authorization.mds configured'' gen st), None)
         | Some mdsCfg \<Rightarrow>
             (case mdsClient of
                None \<Rightarrow>
                  (let msg = ''rbac backend active but no MDS client available''
                   in (w, set_cond ''Ready'' False ''LiveStateError'' msg gen
                          (set_cond ''MDSReachable'' False ''LiveStateError'' msg gen st), Some [T msg]))
              | Some c \<Rightarrow>
                  (case reconcile_topic_role_bindings env topic mdsCfg k c rbView st w of
                     (w', st', None) \<Rightarrow> (w', st', retryErr)
                   | (w', st', Some e) \<Rightarrow>
                       (w', set_cond ''Ready'' False ''ApplyIncomplete''
                          (''role binding reconcile failed: '' @ render quote e) gen st',
                        case retryErr of None \<Rightarrow> Some e | Some e0 \<Rightarrow> Some e0))))"

definition reconcile_topic ::
    "reconcile_env \<Rightarrow> kafka_topic \<Rightarrow> kafka_cluster option \<Rightarrow> 'w admin_client \<Rightarrow> 'w schema_client option \<Rightarrow>
     cluster_acl_view option \<Rightarrow> 'w mds_client option \<Rightarrow> cluster_role_binding_view option \<Rightarrow> 'w \<Rightarrow>
     'w \<times> topic_status \<times> go_error option" where
  "reconcile_topic env topic0 cluster k sr view mdsClient rbView w =
     (let topic = prepared_topic topic0 cluster; gen = om_generation (kt_meta topic); quote = re_quote env;
          st0 = start_topic_status gen (re_now env)
      in case preflight quote ''kafkatopic'' gen (topic_errors (re_parseUrl env) topic cluster)
                (topic_denial (cluster_tenancy cluster) topic) (topic_acls topic cluster) st0 of
           Inl st \<Rightarrow> (w, st, None)
         | Inr acls0 \<Rightarrow>
             (let acls = stamp_prune acls0 (kts_prune (kt_spec topic));
                  st1 = mark_valid gen st0;
                  declared = (kts_schema (kt_spec topic) \<noteq> None \<and> sr \<noteq> None);
                  (dss, valueSubject, resolveErr) = topic_desired_schemas env topic (sr \<noteq> None);
                  st2 = (if declared then st1 else remove_cond ''SchemaSynced'' st1)
              in case observe_topic_live quote k sr (kts_topicName (kt_spec topic)) dss w of
                   Inl e \<Rightarrow> (w, live_state_error quote e gen st2, Some e)
                 | Inr l \<Rightarrow>
                     (let ops = compute (topic_desired topic acls dss view) l;
                          st3 = (if resolveErr \<noteq> [] then
                              set_cond ''SchemaSynced'' False ''SchemaUnresolved''
                                (''schema not resolved (file-based refs are unsupported in operator mode): '' @
                                 resolveErr) gen st2
                            else st2)
                      in case run_topic_mode env topic k sr dss declared (resolveErr \<noteq> []) ops l st3 w of
                           Inl st \<Rightarrow> (w, st, None)
                         | Inr (w', l', st4, retryErr) \<Rightarrow>
                             topic_rbac env topic cluster k mdsClient rbView
                               (topic_observed env topic view ops (declared \<and> resolveErr = []) valueSubject l l' st4)
                               retryErr w')))"

subsection \<open>ReconcilePolicy\<close>

definition start_policy_status :: "int \<Rightarrow> nat \<Rightarrow> policy_status" where
  "start_policy_status gen now = base_status.extend (start_status gen now) (policy_status.fields [] None)"

definition put_policy_drift :: "drift_status \<Rightarrow> policy_status \<Rightarrow> policy_status" where
  "put_policy_drift d st = st\<lparr>kpt_drift := Some d\<rparr>"

definition prepared_policy :: "kafka_access_policy \<Rightarrow> kafka_access_policy" where
  "prepared_policy pol = (let p = default_policy pol in p\<lparr>ap_meta := fill_api_version (ap_meta p)\<rparr>)"

definition policy_spec_errors :: "url_parser \<Rightarrow> kafka_access_policy \<Rightarrow> kafka_cluster option \<Rightarrow> go_error list" where
  "policy_spec_errors parse_url pol cluster =
     validate parse_url
       ((only_input (validation_clusters (cr_name (aps_clusterRef (ap_spec pol))) cluster))\<lparr>vi_policies := [pol]\<rparr>)"

definition policy_denial :: "tenancy_config option \<Rightarrow> kafka_access_policy \<Rightarrow> go_error option" where
  "policy_denial tc pol =
     first_denial (\<lambda>r. check_resource tc (om_namespace (ap_meta pol)) (ar_type (rule_resource r))
         (ar_name (rule_resource r)) (ar_patternType (rule_resource r)))
       (aps_rules (ap_spec pol))"

definition policy_desired :: "acl list \<Rightarrow> cluster_acl_view option \<Rightarrow> desired" where
  "policy_desired acls view =
     (let d = empty_desired\<lparr>d_acls := acls, d_scope := build_acl_scope acls\<rparr>
      in case view of None \<Rightarrow> d | Some v \<Rightarrow> set_prune_aggregate (cav_desiredACLs v) (cav_scope v) d)"

definition policy_mode :: "kafka_access_policy \<Rightarrow> string" where
  "policy_mode pol = (case aps_reconciliation (ap_spec pol) of None \<Rightarrow> [] | Some r \<Rightarrow> rec_mode r)"

definition reconcile_policy ::
    "reconcile_env \<Rightarrow> kafka_access_policy \<Rightarrow> kafka_cluster option \<Rightarrow> 'w admin_client \<Rightarrow>
     cluster_acl_view option \<Rightarrow> 'w \<Rightarrow> 'w \<times> policy_status \<times> go_error option" where
  "reconcile_policy env pol0 cluster k view w =
     (let pol = prepared_policy pol0; gen = om_generation (ap_meta pol); quote = re_quote env;
          st0 = start_policy_status gen (re_now env);
          conflictCond = set_acl_conflict_condition view ''KafkaAccessPolicy'' (om_namespace (ap_meta pol))
            (om_name (ap_meta pol)) gen
      in case preflight quote ''kafkaaccesspolicy'' gen (policy_spec_errors (re_parseUrl env) pol cluster)
                (policy_denial (cluster_tenancy cluster) pol) (compile_policy pol) st0 of
           Inl st \<Rightarrow> (w, st, None)
         | Inr acls0 \<Rightarrow>
             (let acls = stamp_prune acls0 (aps_prune (ap_spec pol)); st1 = mark_valid gen st0
              in case ac_listACLs k w of
                   Inl e \<Rightarrow> (w, live_state_error quote e gen st1, Some e)
                 | Inr states \<Rightarrow>
                     (let ops = compute (policy_desired acls view) (empty_live\<lparr>l_acls := live_acls states\<rparr>);
                          st2 = st1\<lparr>kpt_observedRules := aps_rules (ap_spec pol)\<rparr>; mode = policy_mode pol
                      in if mode = ModeDetectOnly \<or> mode = ModeObserveOnly then
                           (w, conflictCond (finish_detect_only put_policy_drift ops gen (mode = ModeObserveOnly)
                              (area_detect_only ''AccessPolicySynced'' ops gen st2)), None)
                         else if mode = ModeEnforce then
                           (case apply_ops (topic_clients k None) ops (approvals_from_annotations (ap_meta pol)) w of
                              (w', rs) \<Rightarrow>
                                (w', conflictCond (finish_enforce quote put_policy_drift rs gen
                                   (area_enforce quote ''AccessPolicySynced'' ''all ACL operations succeeded'' rs gen
                                     (st2\<lparr>st_lastAppliedTime := Some (re_now env)\<rparr>))),
                                 apply_retry_error quote rs))
                         else (w, set_invalid_mode quote ''kafkaaccesspolicy'' mode gen st2, None))))"

end
