(* ===== verification/Reconcile_Kinds.thy ===== *)
theory Reconcile_Kinds
  imports Reconcile
begin

section \<open>The reconcile engine: quotas, role bindings, users, clusters (internal/operator/reconcile)\<close>

text \<open>
  \<^verbatim>\<open>quota.go\<close>, \<^verbatim>\<open>rolebinding.go\<close>, \<^verbatim>\<open>user.go\<close> and \<^verbatim>\<open>cluster_readiness.go\<close>: the same pass as for topics, with
  the kind's compiler and client, and - for users - the password, which comes from a referenced Secret
  or is generated into a Secret of the operator's own. The Secret store acts on the same world as the
  clients; \<open>random\<close> is the result of \<open>crypto/rand.Read\<close> on 32 bytes.
\<close>

subsection \<open>ReconcileQuota\<close>

definition start_quota_status :: "int \<Rightarrow> nat \<Rightarrow> quota_status" where
  "start_quota_status gen now = base_status.extend (start_status gen now) (quota_status.fields None None)"

definition put_quota_drift :: "drift_status \<Rightarrow> quota_status \<Rightarrow> quota_status" where
  "put_quota_drift d st = st\<lparr>kqt_drift := Some d\<rparr>"

definition observed_quota_limits :: "quota_state list \<Rightarrow> entity \<Rightarrow> quota_limits_spec option" where
  "observed_quota_limits live entity =
     map_option (\<lambda>qs.
         \<lparr>ql_producerByteRate = mget (qst_limits qs) ''producer_byte_rate'',
          ql_consumerByteRate = mget (qst_limits qs) ''consumer_byte_rate'',
          ql_requestPercentage = mget (qst_limits qs) ''request_percentage'',
          ql_controllerMutationRate = mget (qst_limits qs) ''controller_mutation_rate'',
          ql_connectionCreationRate = None\<rparr>)
       (find (\<lambda>qs. entity_key (live_quota_entity (qst_entity qs)) = entity_key entity) live)"

definition quota_mode :: "kafka_quota \<Rightarrow> string" where
  "quota_mode q =
     (case kqs_reconciliation (kq_spec q) of None \<Rightarrow> ModeEnforce | Some r \<Rightarrow> effective_mode (rec_mode r))"

definition reconcile_quota ::
    "reconcile_env \<Rightarrow> kafka_quota \<Rightarrow> kafka_cluster option \<Rightarrow> 'w admin_client \<Rightarrow> 'w \<Rightarrow>
     'w \<times> quota_status \<times> go_error option" where
  "reconcile_quota env q cluster k w =
     (let gen = om_generation (kq_meta q); quote = re_quote env; st0 = start_quota_status gen (re_now env);
          verrs = validate_quota_shape q
      in if verrs \<noteq> [] then
           (w, fail_terminal ''kafkaquota'' ''ValidationFailed'' (join_err_msgs quote verrs) gen st0, None)
         else case check_namespace (cluster_tenancy cluster) (om_namespace (kq_meta q)) of
           Some e \<Rightarrow> (w, fail_terminal ''kafkaquota'' ''TenancyDenied'' (render quote e) gen st0, None)
         | None \<Rightarrow>
             (let st1 = mark_valid gen st0; compiled = quota_compile q
              in case ac_listQuotas k w of
                   Inl e \<Rightarrow>
                     (w, set_cond ''Ready'' False ''LiveStateError'' (render quote e) gen
                        (set_cond ''ClusterReachable'' False ''LiveStateError'' (render quote e) gen
                          (set_phase ''Error'' st1)), Some e)
                 | Inr live \<Rightarrow>
                     (let st2 = set_cond ''ClusterReachable'' True ''Observed'' ''listed live quotas'' gen st1;
                          ops = compute (empty_desired\<lparr>d_quotas := [compiled]\<rparr>) (empty_live\<lparr>l_quotas := live\<rparr>);
                          mode = quota_mode q
                      in if mode = ModeDetectOnly \<or> mode = ModeObserveOnly then
                           (w, (finish_detect_only put_quota_drift ops gen (mode = ModeObserveOnly)
                                (area_detect_only ''QuotaSynced'' ops gen st2))
                                \<lparr>kqt_observedLimits := observed_quota_limits live (dq_entity compiled)\<rparr>, None)
                         else if mode = ModeEnforce then
                           (case apply_ops (topic_clients k None) ops (approvals_from_annotations (kq_meta q)) w of
                              (w', rs) \<Rightarrow>
                                (let relive = (case ac_listQuotas k w' of Inl _ \<Rightarrow> live | Inr l \<Rightarrow> l)
                                 in (w', (finish_enforce quote put_quota_drift rs gen
                                       (area_enforce quote ''QuotaSynced'' ''all quota operations succeeded'' rs gen
                                         (st2\<lparr>st_lastAppliedTime := Some (re_now env)\<rparr>)))
                                       \<lparr>kqt_observedLimits := observed_quota_limits relive (dq_entity compiled)\<rparr>,
                                     apply_retry_error quote rs)))
                         else (w, set_invalid_mode quote ''kafkaquota'' mode gen st2, None))))"

subsection \<open>ReconcileRoleBinding\<close>

definition start_role_binding_status :: "int \<Rightarrow> nat \<Rightarrow> role_binding_status" where
  "start_role_binding_status gen now =
     base_status.extend (start_status gen now) (role_binding_status.fields [])"

text \<open>The status of a role binding, like a user's, has no drift field: the drift is discarded.\<close>

definition discard_drift :: "drift_status \<Rightarrow> 'a base_status_scheme \<Rightarrow> 'a base_status_scheme" where
  "discard_drift d st = st"

definition role_binding_mode :: "kafka_role_binding \<Rightarrow> string" where
  "role_binding_mode rb =
     (case krs_reconciliation (kr_spec rb) of None \<Rightarrow> ModeEnforce | Some r \<Rightarrow> effective_mode (rec_mode r))"

definition reconcile_role_binding ::
    "reconcile_env \<Rightarrow> kafka_role_binding \<Rightarrow> kafka_cluster option \<Rightarrow> 'w admin_client \<Rightarrow> 'w mds_client \<Rightarrow>
     cluster_role_binding_view option \<Rightarrow> 'w \<Rightarrow> 'w \<times> role_binding_status \<times> go_error option" where
  "reconcile_role_binding env rb0 cluster k c view w =
     (let rb = rb0\<lparr>kr_meta := fill_api_version (kr_meta rb0)\<rparr>; gen = om_generation (kr_meta rb);
          quote = re_quote env; st0 = start_role_binding_status gen (re_now env); kind = ''kafkarolebinding'';
          verrs = validate_role_binding_shape rb
      in if verrs \<noteq> [] then (w, fail_terminal kind ''ValidationFailed'' (join_err_msgs quote verrs) gen st0, None)
         else case check_role_binding (cluster_tenancy cluster) (om_namespace (kr_meta rb))
                     (krs_resources (kr_spec rb)) of
           Some e \<Rightarrow> (w, fail_terminal kind ''TenancyDenied'' (render quote e) gen st0, None)
         | None \<Rightarrow>
             (let st1 = mark_valid gen st0
              in case Option.bind cluster (\<lambda>cl. Option.bind (kcs_authorization (kc_spec cl)) az_mds) of
                   None \<Rightarrow>
                     (w, fail_terminal kind ''ValidationFailed'' ''cluster has no authorization.mds configured'' gen st1,
                      None)
                 | Some mdsCfg \<Rightarrow>
             (case rbac_compile rb mdsCfg of
                Inl e \<Rightarrow>
                  (w, fail_terminal kind ''ValidationFailed''
                     (render quote (T ''compile role bindings: '' # rbac_error_text e)) gen st1, None)
              | Inr compiled \<Rightarrow>
             (let desired = stamp_rb_prune compiled (krs_prune (kr_spec rb))
              in case read_live_bindings c desired w of
                   Inl e \<Rightarrow>
                     (w, set_cond ''Ready'' False ''LiveStateError'' (render quote e) gen
                        (set_cond ''MDSReachable'' False ''LiveStateError'' (render quote e) gen
                          (set_phase ''Error'' st1)), Some e)
                 | Inr live \<Rightarrow>
             (let st2 = set_cond ''MDSReachable'' True ''Observed'' ''listed live role bindings'' gen st1;
                  ops = compute (binding_desired desired view) (empty_live\<lparr>l_roleBindings := live\<rparr>);
                  mode = role_binding_mode rb
              in if mode = ModeDetectOnly \<or> mode = ModeObserveOnly then
                   (w, (finish_detect_only discard_drift ops gen (mode = ModeObserveOnly)
                        (area_detect_only ''RoleBindingSynced'' ops gen st2))
                        \<lparr>krt_observedResources := krs_resources (kr_spec rb)\<rparr>, None)
                 else if mode = ModeEnforce then
                   (case apply_ops (mds_clients k c) ops no_approvals w of
                      (w', rs) \<Rightarrow>
                        (w', (finish_enforce quote discard_drift rs gen
                           (area_enforce quote ''RoleBindingSynced'' ''all role-binding operations succeeded'' rs gen
                             (st2\<lparr>st_lastAppliedTime := Some (re_now env)\<rparr>)))
                           \<lparr>krt_observedResources := krs_resources (kr_spec rb)\<rparr>, apply_retry_error quote rs))
                 else (w, set_invalid_mode quote kind mode gen st2, None))))))"

subsection \<open>Passwords of a user\<close>

record password_secret =
  psec_data :: "(string, string) gomap"
  psec_resourceVersion :: string
  psec_owned :: bool

record 'w secret_store =
  pss_getSecret :: "string \<Rightarrow> ('w, password_secret option) query"
  pss_createOwnedSecret :: "string \<Rightarrow> (string, string) gomap \<Rightarrow> 'w act"
  pss_updateOwnedSecret :: "string \<Rightarrow> (string, string) gomap \<Rightarrow> 'w act"

text \<open>\<open>passwordSource\<close>: exactly one of its three shapes applies.\<close>

datatype password_source =
    TerminalSource string message
  | TransientSource go_error
  | Sourced (pwd_password: string) (pwd_rotate: bool) (pwd_appliedRef: "applied_password_ref option")
      (pwd_secretName: string)

definition source_referenced_password ::
    "secret_key_ref option \<Rightarrow> user_status option \<Rightarrow> 'w secret_store \<Rightarrow> 'w \<Rightarrow> password_source" where
  "source_referenced_password keyRef prior store w =
     (case keyRef of
        None \<Rightarrow> TerminalSource ''ValidationFailed''
          [T ''spec.password.valueFrom must use secretKeyRef in operator mode '',
           T ''(env/file are CLI-only, and a ConfigMap is not a secret store)'']
      | Some ref \<Rightarrow>
          (case pss_getSecret store (skr_name ref) w of
             Inl e \<Rightarrow> TransientSource ([T ''reading password secret '', Q (skr_name ref), T '': ''] @ e)
           | Inr None \<Rightarrow> TransientSource [T ''password secret '', Q (skr_name ref), T '' not found'']
           | Inr (Some sec) \<Rightarrow>
               (case mget (psec_data sec) (skr_key ref) of
                  None \<Rightarrow> TransientSource [T ''password secret '', Q (skr_name ref), T '' has no key '', Q (skr_key ref)]
                | Some v \<Rightarrow>
                    (let applied = \<lparr>apr_secretName = skr_name ref, apr_resourceVersion = psec_resourceVersion sec\<rparr>
                     in Sourced v (Option.bind prior kut_appliedPasswordRef \<noteq> Some applied) (Some applied) []))))"

definition generated_secret_data :: "credential \<Rightarrow> string \<Rightarrow> (string, string) gomap" where
  "generated_secret_data cred password =
     [(''username'', cr_username cred), (''password'', password), (''mechanism'', cr_mechanism cred)]"

text \<open>\<open>base64.RawURLEncoding\<close>: six bits at a time, no padding.\<close>

definition base64_alphabet :: string where
  "base64_alphabet =
     ''ABCDEFGHIJKLMNOPQRSTUVWXYZabcdefghijklmnopqrstuvwxyz0123456789-_''"

definition base64_char :: "nat \<Rightarrow> char" where
  "base64_char n = base64_alphabet ! n"

fun raw_url_encode :: "string \<Rightarrow> string" where
  "raw_url_encode [] = []"
| "raw_url_encode [a] =
     [base64_char (of_char a div 4), base64_char (of_char a mod 4 * 16)]"
| "raw_url_encode [a, b] =
     [base64_char (of_char a div 4), base64_char (of_char a mod 4 * 16 + of_char b div 16),
      base64_char (of_char b mod 16 * 4)]"
| "raw_url_encode (a # b # c # rest) =
     [base64_char (of_char a div 4), base64_char (of_char a mod 4 * 16 + of_char b div 16),
      base64_char (of_char b mod 16 * 4 + of_char c div 64), base64_char (of_char c mod 64)] @
     raw_url_encode rest"

definition generate_password :: "go_error + string \<Rightarrow> go_error + string" where
  "generate_password random =
     (case random of Inl e \<Rightarrow> Inl (T ''generating password: '' # e) | Inr bytes \<Rightarrow> Inr (raw_url_encode bytes))"

text \<open>Mint a password and write it to the Secret with \<open>put\<close>, before anything else happens with it.\<close>

definition mint_password ::
    "go_error + string \<Rightarrow> credential \<Rightarrow> string \<Rightarrow> string \<Rightarrow> ((string, string) gomap \<Rightarrow> 'w act) \<Rightarrow> 'w \<Rightarrow>
     'w \<times> password_source" where
  "mint_password random cred verb name put w =
     (case generate_password random of
        Inl e \<Rightarrow> (w, TransientSource e)
      | Inr pw \<Rightarrow>
          (case put (generated_secret_data cred pw) w of
             (w', Some e) \<Rightarrow> (w', TransientSource ([T verb, T '' generated secret '', Q name, T '': ''] @ e))
           | (w', None) \<Rightarrow> (w', Sourced pw True None name)))"

definition secret_value :: "password_secret \<Rightarrow> string \<Rightarrow> string" where
  "secret_value sec key = (case mget (psec_data sec) key of None \<Rightarrow> [] | Some v \<Rightarrow> v)"

definition source_generated_password ::
    "go_error + string \<Rightarrow> string \<Rightarrow> credential \<Rightarrow> 'w secret_store \<Rightarrow> 'w \<Rightarrow> 'w \<times> password_source" where
  "source_generated_password random userName cred store w =
     (let name = userName @ ''-kafka-credentials''
      in case pss_getSecret store name w of
           Inl e \<Rightarrow> (w, TransientSource ([T ''reading generated secret '', Q name, T '': ''] @ e))
         | Inr None \<Rightarrow> mint_password random cred ''creating'' name (pss_createOwnedSecret store name) w
         | Inr (Some sec) \<Rightarrow>
             (if \<not> psec_owned sec then
                (w, TerminalSource ''ForeignSecret''
                   [T ''secret '', Q name, T '' already exists and is not owned by this KafkaUser; '',
                    T (''refusing to adopt or overwrite it '' @ [CHR 0xE2, CHR 0x80, CHR 0x94] @
                       '' delete or rename that Secret (or this KafkaUser) to proceed'')])
              else if secret_value sec ''password'' \<noteq> [] then
                (let pw = secret_value sec ''password''
                 in if secret_value sec ''username'' \<noteq> cr_username cred \<or>
                       secret_value sec ''mechanism'' \<noteq> cr_mechanism cred then
                      (case pss_updateOwnedSecret store name (generated_secret_data cred pw) w of
                         (w', Some e) \<Rightarrow> (w', TransientSource ([T ''updating generated secret '', Q name, T '': ''] @ e))
                       | (w', None) \<Rightarrow> (w', Sourced pw False None name))
                    else (w, Sourced pw False None name))
              else mint_password random cred ''updating'' name (pss_updateOwnedSecret store name) w))"

definition generates :: "kafka_user \<Rightarrow> bool" where
  "generates u \<longleftrightarrow> (case kus_password (ku_spec u) of None \<Rightarrow> False | Some p \<Rightarrow> up_generate p \<noteq> None)"

definition password_key_ref :: "kafka_user \<Rightarrow> secret_key_ref option" where
  "password_key_ref u =
     Option.bind (kus_password (ku_spec u)) (\<lambda>p. Option.bind (up_valueFrom p) vs_secretKeyRef)"

definition source_user_password ::
    "go_error + string \<Rightarrow> kafka_user \<Rightarrow> user_status option \<Rightarrow> credential \<Rightarrow> 'w secret_store \<Rightarrow> 'w \<Rightarrow>
     'w \<times> password_source" where
  "source_user_password random u prior cred store w =
     (if generates u then source_generated_password random (om_name (ku_meta u)) cred store w
      else (w, source_referenced_password (password_key_ref u) prior store w))"

subsection \<open>ReconcileUser\<close>

text \<open>The password-tracking fields of the stored status are carried over.\<close>

definition start_user_status :: "int \<Rightarrow> nat \<Rightarrow> user_status option \<Rightarrow> user_status" where
  "start_user_status gen now prior =
     base_status.extend (start_status gen now)
       (user_status.fields (Option.bind prior kut_appliedPasswordRef)
          (case prior of None \<Rightarrow> [] | Some p \<Rightarrow> kut_generatedSecretName p))"

definition user_clients :: "'w admin_client \<Rightarrow> string \<Rightarrow> 'w clients" where
  "user_clients k password =
     \<lparr>cl_kafka = k, cl_schema = None, cl_mds = None, cl_mirrors = None, cl_passwords = Some (\<lambda>_. Inr password)\<rparr>"

definition with_password_ref :: "string \<Rightarrow> desired_user \<Rightarrow> desired_user" where
  "with_password_ref secretName du =
     (if du_passwordRef du = None then
        du\<lparr>du_passwordRef := Some \<lparr>vf_valueFrom =
          \<lparr>vs_env = [], vs_file = [],
           vs_secretKeyRef = Some \<lparr>skr_name = secretName, skr_key = ''password''\<rparr>, vs_inline = [],
           vs_configMapKeyRef = None\<rparr>\<rparr>\<rparr>
      else du)"

definition apply_user ::
    "reconcile_env \<Rightarrow> kafka_user \<Rightarrow> desired_user \<Rightarrow> scram_credential list \<Rightarrow> password_source \<Rightarrow>
     'w admin_client \<Rightarrow> user_status \<Rightarrow> 'w \<Rightarrow> 'w \<times> user_status \<times> go_error option" where
  "apply_user env u desired live ps k st w =
     (let gen = om_generation (ku_meta u); quote = re_quote env;
          st1 = (if generates u
                 then st\<lparr>kut_generatedSecretName := pwd_secretName ps, kut_appliedPasswordRef := None\<rparr>
                 else st\<lparr>kut_generatedSecretName := []\<rparr>);
          ops = compute (empty_desired\<lparr>d_users := [with_password_ref (pwd_secretName ps) desired],
                    d_rotatePasswords := pwd_rotate ps\<rparr>) (empty_live\<lparr>l_scramCredentials := live\<rparr>)
      in case apply_ops (user_clients k (pwd_password ps)) ops (approvals_from_annotations (ku_meta u)) w of
           (w', rs) \<Rightarrow>
             (let st2 = finish_enforce quote discard_drift rs gen
                    (area_enforce quote ''UserSynced'' ''all SCRAM credential operations succeeded'' rs gen
                      (st1\<lparr>st_lastAppliedTime := Some (re_now env)\<rparr>))
              in (w', if result_ok rs \<and> pwd_appliedRef ps \<noteq> None
                      then st2\<lparr>kut_appliedPasswordRef := pwd_appliedRef ps\<rparr> else st2,
                  apply_retry_error quote rs)))"

definition prepared_user :: "kafka_user \<Rightarrow> kafka_user" where
  "prepared_user u0 = (let u = default_user u0 in u\<lparr>ku_meta := fill_api_version (ku_meta u)\<rparr>)"

definition reconcile_user ::
    "reconcile_env \<Rightarrow> go_error + string \<Rightarrow> kafka_user \<Rightarrow> user_status option \<Rightarrow> kafka_cluster option \<Rightarrow>
     'w admin_client \<Rightarrow> 'w secret_store \<Rightarrow> 'w \<Rightarrow> 'w \<times> user_status \<times> go_error option" where
  "reconcile_user env random u0 prior cluster k store w =
     (let u = prepared_user u0; gen = om_generation (ku_meta u); quote = re_quote env; kind = ''kafkauser'';
          st0 = start_user_status gen (re_now env) prior; verrs = validate_user_shape u
      in if verrs \<noteq> [] then (w, fail_terminal kind ''ValidationFailed'' (join_err_msgs quote verrs) gen st0, None)
         else case check_namespace (cluster_tenancy cluster) (om_namespace (ku_meta u)) of
           Some e \<Rightarrow> (w, fail_terminal kind ''TenancyDenied'' (render quote e) gen st0, None)
         | None \<Rightarrow>
             (let st1 = mark_valid gen st0; desired = compile_desired_user u
              in case ac_listScram k [cr_username (du_credential desired)] w of
                   Inl e \<Rightarrow>
                     (w, set_cond ''Ready'' False ''LiveStateError'' (render quote e) gen
                        (set_cond ''ClusterReachable'' False ''LiveStateError'' (render quote e) gen
                          (set_phase ''Error'' st1)), Some e)
                 | Inr live \<Rightarrow>
                     (let st2 = set_cond ''ClusterReachable'' True ''Observed'' ''listed live SCRAM credentials'' gen st1
                      in case source_user_password random u prior (du_credential desired) store w of
                           (w', TerminalSource reason msg) \<Rightarrow>
                             (w', fail_terminal kind reason (render quote msg) gen st2, None)
                         | (w', TransientSource e) \<Rightarrow>
                             (w', set_cond ''Ready'' False ''PasswordUnresolved'' (render quote e) gen
                                (set_phase ''Error'' st2), Some e)
                         | (w', ps) \<Rightarrow> apply_user env u desired live ps k st2 w')))"

subsection \<open>ReconcileCluster\<close>

definition finalize_cluster_ready :: "bool \<Rightarrow> int \<Rightarrow> base_status \<Rightarrow> base_status" where
  "finalize_cluster_ready ready gen st =
     (if ready then set_cond ''Ready'' True ''AllReady'' ''cluster reachable'' gen (set_phase ''Ready'' st)
      else set_cond ''Ready'' False ''NotReady'' ''cluster not ready'' gen (set_phase ''Error'' st))"

definition reconcile_cluster ::
    "reconcile_env \<Rightarrow> kafka_cluster \<Rightarrow> 'w admin_client \<Rightarrow> 'w schema_client option \<Rightarrow> 'w \<Rightarrow> base_status" where
  "reconcile_cluster env cl k sr w =
     (let gen = om_generation (kc_meta cl); quote = re_quote env; st0 = start_status gen (re_now env);
          (reachable, st1) = (case ac_listTopics k w of
              Inl e \<Rightarrow> (False, set_cond ''Authenticated'' False ''Unreachable'' ''cluster not reachable'' gen
                 (set_cond ''ClusterReachable'' False ''Unreachable'' (render quote e) gen st0))
            | Inr _ \<Rightarrow> (True, set_cond ''Authenticated'' True ''Authenticated'' ''admin API call authenticated'' gen
                 (set_cond ''ClusterReachable'' True ''Reachable'' ''admin API reachable'' gen st0)));
          (srOK, st2) = (case sr of
              None \<Rightarrow> (True, remove_cond ''SchemaRegistryReachable'' st1)
            | Some c \<Rightarrow>
                (case sc_listSubjects c w of
                   Inl e \<Rightarrow> (False, set_cond ''SchemaRegistryReachable'' False ''Unreachable'' (render quote e) gen st1)
                 | Inr _ \<Rightarrow> (True, set_cond ''SchemaRegistryReachable'' True ''Reachable''
                     ''schema registry reachable'' gen st1)))
      in finalize_cluster_ready (reachable \<and> srOK) gen st2)"

definition set_cluster_clients_error ::
    "(string \<Rightarrow> string) \<Rightarrow> int \<Rightarrow> go_error \<Rightarrow> base_status \<Rightarrow> base_status" where
  "set_cluster_clients_error quote gen e st =
     set_cond ''Ready'' False ''NotReady'' ''could not build cluster clients'' gen
       (set_cond ''ClusterReachable'' False ''Unreachable'' (render quote e) gen st)"

end
