(* ===== verification/Reconcile_Facts.thy ===== *)
theory Reconcile_Facts
  imports Reconcile_Kinds Convergence
begin

section \<open>Facts about the reconcile engine\<close>

text \<open>
  What the status helpers leave unchanged, the gates a pass goes through before it writes, and what an
  enforcing pass over an access policy does to the in-memory cluster.
\<close>

subsection \<open>Frames of the status helpers\<close>

named_theorems status_frame "what a status helper leaves unchanged"

lemma calls_frame [status_frame]:
  "st_phase (set_cond t b r m g st) = st_phase st" "st_phase (remove_cond t st) = st_phase st"
  "st_phase (set_terminal_reasons k f r m g st) = st_phase st" "st_phase (mark_valid g st) = st_phase st"
  by (simp_all add: set_cond_def remove_cond_def set_terminal_reasons_def mark_valid_def add_call_def)

lemma phase_set [status_frame]:
  "st_phase (set_phase p st) = p" "st_phase (fail_terminal k r m g st) = ''Error''"
  "st_phase (set_invalid_mode q k m g st) = ''Error''" "st_phase (live_state_error q e g st) = ''Error''"
  by (simp_all add: set_phase_def fail_terminal_def set_terminal_def set_invalid_mode_def
      live_state_error_def status_frame)

lemma conflict_cond_frame [status_frame]:
  "st_phase (set_acl_conflict_condition v k ns n g st) = st_phase st"
  by (simp add: set_acl_conflict_condition_def Let_def status_frame split: option.split)

lemma area_frame [status_frame]: "st_phase (area_enforce q t m rs g st) = st_phase st"
  by (simp add: area_enforce_def status_frame)

lemma finish_enforce_ready:
  "st_phase (finish_enforce q put rs g st) = (if result_ok rs then ''Ready'' else ''Error'')"
  by (simp add: finish_enforce_def Let_def status_frame)

lemma preflight_error: "preflight q k g verrs denial acls st = Inl st' \<Longrightarrow> st_phase st' = ''Error''"
  by (auto simp: preflight_def status_frame split: option.splits prod.splits if_splits)

lemma preflight_passes:
  "preflight q k g verrs denial acls st = Inr desired \<longleftrightarrow>
     verrs = [] \<and> denial = None \<and> build_acl_set acls = (desired, [])"
  by (auto simp: preflight_def split: option.splits prod.splits)

lemma policy_drift_frame [status_frame]:
  "kpt_drift (set_cond t b r m g st) = kpt_drift st" "kpt_drift (set_phase p st) = kpt_drift st"
  "kpt_drift (remove_cond t st) = kpt_drift st"
  by (simp_all add: set_cond_def remove_cond_def add_call_def set_phase_def)

lemma conflict_cond_drift [status_frame]:
  "kpt_drift (set_acl_conflict_condition v k ns n g st) = kpt_drift st"
  by (simp add: set_acl_conflict_condition_def Let_def status_frame split: option.split)

lemma finish_enforce_drift:
  "kpt_drift (finish_enforce q put_policy_drift rs g st) =
     Some \<lparr>dr_detected = (unresolved_count rs > 0), dr_fields = unresolved_fields rs\<rparr>"
  by (simp add: finish_enforce_def Let_def status_frame put_policy_drift_def)

text \<open>A status without drift: nothing was withheld, skipped or failed.\<close>

lemma no_drift_all_done:
  assumes "unresolved_fields rs = []"
  shows "\<forall>r \<in> set rs. res_status r = StSucceeded"
proof -
  have "set (unresolved_fields rs) = {}" using assms by simp
  then show ?thesis by (auto simp: unresolved_fields_def not_succeeded_def)
qed

subsection \<open>Gates before a write\<close>

lemma topic_rbac_reads:
  assumes "topic_mode topic \<in> {ModeDetectOnly, ModeObserveOnly}"
  shows "fst (topic_rbac env topic cluster k mds view st e w) = w"
proof -
  have "fst (reconcile_topic_role_bindings env topic cfg k c view st w) = w" for cfg c
    using assms unfolding reconcile_topic_role_bindings_def Let_def
    by (auto simp: effective_mode_def ModeDetectOnly_def ModeObserveOnly_def split: sum.split)
  then have "w1 = w" if "reconcile_topic_role_bindings env topic cfg k c view st w = (w1, st1, e1)"
    for cfg c w1 st1 e1
    using that by (metis fst_conv)
  then show ?thesis
    unfolding topic_rbac_def Let_def by (auto split: option.split prod.split)
qed

lemma topic_mode_reads:
  assumes "topic_mode topic \<noteq> ModeEnforce"
  shows "fst (case run_topic_mode env topic k sr dss declared noSchema ops l st w of
      Inl st1 \<Rightarrow> (w, st1, None)
    | Inr (w1, l1, st1, e1) \<Rightarrow> topic_rbac env topic cluster k mds view (F l1 st1) e1 w1) = w"
proof -
  have "topic_mode topic \<noteq> ModeDetectOnly \<Longrightarrow> topic_mode topic \<noteq> ModeObserveOnly \<Longrightarrow> ?thesis"
    using assms by (simp add: run_topic_mode_def Let_def)
  moreover have "topic_mode topic = ModeDetectOnly \<Longrightarrow> ?thesis"
    by (simp add: run_topic_mode_def Let_def topic_rbac_reads)
  moreover have "topic_mode topic = ModeObserveOnly \<Longrightarrow> ?thesis"
    by (simp add: run_topic_mode_def Let_def topic_rbac_reads ModeDetectOnly_def ModeObserveOnly_def)
  ultimately show ?thesis by blast
qed

lemma topic_gates:
  assumes "fst (reconcile_topic env t cluster k sr view mds rbView w) \<noteq> w"
  shows "topic_mode (prepared_topic t cluster) = ModeEnforce \<and>
    topic_errors (re_parseUrl env) (prepared_topic t cluster) cluster = [] \<and>
    topic_denial (cluster_tenancy cluster) (prepared_topic t cluster) = None \<and>
    snd (build_acl_set (topic_acls (prepared_topic t cluster) cluster)) = []"
proof -
  let ?t = "prepared_topic t cluster"
  obtain acls0 where pass: "preflight (re_quote env) ''kafkatopic'' (om_generation (kt_meta ?t))
      (topic_errors (re_parseUrl env) ?t cluster) (topic_denial (cluster_tenancy cluster) ?t)
      (topic_acls ?t cluster) (start_topic_status (om_generation (kt_meta ?t)) (re_now env)) = Inr acls0"
    using assms by (cases "preflight (re_quote env) ''kafkatopic'' (om_generation (kt_meta ?t))
      (topic_errors (re_parseUrl env) ?t cluster) (topic_denial (cluster_tenancy cluster) ?t)
      (topic_acls ?t cluster) (start_topic_status (om_generation (kt_meta ?t)) (re_now env))")
      (simp_all add: reconcile_topic_def Let_def)
  obtain dss subject resolveErr where ds: "topic_desired_schemas env ?t (sr \<noteq> None) = (dss, subject, resolveErr)"
    by (metis prod_cases3)
  have "topic_mode ?t = ModeEnforce"
  proof (rule ccontr)
    assume other: "topic_mode ?t \<noteq> ModeEnforce"
    have "fst (reconcile_topic env t cluster k sr view mds rbView w) = w"
    proof (cases "observe_topic_live (re_quote env) k sr (kts_topicName (kt_spec ?t)) dss w")
      case (Inl e)
      show ?thesis unfolding reconcile_topic_def Let_def pass ds sum.case prod.case Inl by simp
    next
      case (Inr l)
      show ?thesis
        unfolding reconcile_topic_def Let_def pass ds sum.case prod.case Inr
        by (rule topic_mode_reads [OF other])
    qed
    then show False using assms by simp
  qed
  then show ?thesis using pass by (simp add: preflight_passes)
qed

lemma policy_gates:
  assumes "fst (reconcile_policy env p cluster k view w) \<noteq> w"
  shows "policy_mode (prepared_policy p) = ModeEnforce \<and>
    policy_spec_errors (re_parseUrl env) (prepared_policy p) cluster = [] \<and>
    policy_denial (cluster_tenancy cluster) (prepared_policy p) = None \<and>
    snd (build_acl_set (compile_policy (prepared_policy p))) = []"
proof -
  let ?p = "prepared_policy p"
  obtain acls0 where "preflight (re_quote env) ''kafkaaccesspolicy'' (om_generation (ap_meta ?p))
      (policy_spec_errors (re_parseUrl env) ?p cluster) (policy_denial (cluster_tenancy cluster) ?p)
      (compile_policy ?p) (start_policy_status (om_generation (ap_meta ?p)) (re_now env)) = Inr acls0"
    using assms by (simp add: reconcile_policy_def Let_def split: sum.splits)
  moreover from this have "policy_mode ?p = ModeEnforce"
    using assms by (auto simp: reconcile_policy_def Let_def split: sum.splits if_splits)
  ultimately show ?thesis by (simp add: preflight_passes)
qed

lemma quota_gates:
  assumes "fst (reconcile_quota env q cluster k w) \<noteq> w"
  shows "quota_mode q = ModeEnforce \<and> validate_quota_shape q = [] \<and>
    check_namespace (cluster_tenancy cluster) (om_namespace (kq_meta q)) = None"
  using assms by (auto simp: reconcile_quota_def Let_def split: sum.splits if_splits option.splits)

definition prepared_role_binding :: "kafka_role_binding \<Rightarrow> kafka_role_binding" where
  "prepared_role_binding rb = rb\<lparr>kr_meta := fill_api_version (kr_meta rb)\<rparr>"

lemma role_binding_gates:
  assumes "fst (reconcile_role_binding env rb cluster k c view w) \<noteq> w"
  shows "role_binding_mode rb = ModeEnforce \<and> validate_role_binding_shape (prepared_role_binding rb) = [] \<and>
    check_role_binding (cluster_tenancy cluster) (om_namespace (kr_meta rb)) (krs_resources (kr_spec rb)) = None"
proof -
  have m: "role_binding_mode (prepared_role_binding rb) = role_binding_mode rb"
    "kr_spec (prepared_role_binding rb) = kr_spec rb"
    "om_namespace (kr_meta (prepared_role_binding rb)) = om_namespace (kr_meta rb)"
    by (simp_all add: role_binding_mode_def prepared_role_binding_def fill_api_version_def)
  show ?thesis
    using assms unfolding m(3) [symmetric] m(2) [symmetric] m(1) [symmetric]
    unfolding reconcile_role_binding_def prepared_role_binding_def [symmetric]
    by (auto simp: Let_def split: sum.splits if_splits option.splits)
qed

subsection \<open>An enforcing pass over a policy, on the in-memory cluster\<close>

text \<open>The live ACLs of the in-memory cluster, by identity.\<close>

definition live_keys :: "cli_world \<Rightarrow> string set" where
  "live_keys w = (\<lambda>a. full_key (live_acl a)) ` set (km_acls (cw_kafka w))"

lemma topic_clients_world: "topic_clients world_admin None = world_clients False False False None"
  by (simp add: topic_clients_def world_clients_def)

text \<open>A Ready pass in Enforce mode is a completed run of the diff.\<close>

lemma policy_ready_run:
  assumes run: "reconcile_policy env p cluster k view w = (w', st, err)"
    and mode: "policy_mode (prepared_policy p) = ModeEnforce" and ready: "st_phase st = ''Ready''"
  obtains acls0 states rs where
    "build_acl_set (compile_policy (prepared_policy p)) = (acls0, [])" "ac_listACLs k w = Inr states"
    "apply_ops (topic_clients k None)
       (compute (policy_desired (stamp_prune acls0 (aps_prune (ap_spec (prepared_policy p)))) view)
         (empty_live\<lparr>l_acls := live_acls states\<rparr>))
       (approvals_from_annotations (ap_meta (prepared_policy p))) w = (w', rs)"
    "result_ok rs"
    "kpt_drift st = Some \<lparr>dr_detected = (unresolved_count rs > 0), dr_fields = unresolved_fields rs\<rparr>"
proof -
  let ?p = "prepared_policy p"
  have not_reading: "ModeEnforce \<noteq> ModeDetectOnly" "ModeEnforce \<noteq> ModeObserveOnly"
    by (simp_all add: ModeEnforce_def ModeDetectOnly_def ModeObserveOnly_def)
  let ?pre = "preflight (re_quote env) ''kafkaaccesspolicy'' (om_generation (ap_meta ?p))
      (policy_spec_errors (re_parseUrl env) ?p cluster) (policy_denial (cluster_tenancy cluster) ?p)
      (compile_policy ?p) (start_policy_status (om_generation (ap_meta ?p)) (re_now env))"
  note unf = run [unfolded reconcile_policy_def Let_def]
  obtain acls0 where pre: "?pre = Inr acls0"
  proof (cases ?pre)
    case (Inl st0)
    then have "st = st0" using unf by simp
    then show ?thesis using preflight_error [OF Inl] ready by simp
  qed
  obtain states where states: "ac_listACLs k w = Inr states"
  proof (cases "ac_listACLs k w")
    case (Inl e)
    then show ?thesis using unf ready by (auto simp: pre status_frame)
  qed
  obtain w1 rs where ap: "apply_ops (topic_clients k None)
       (compute (policy_desired (stamp_prune acls0 (aps_prune (ap_spec ?p))) view)
         (empty_live\<lparr>l_acls := live_acls states\<rparr>))
       (approvals_from_annotations (ap_meta ?p)) w = (w1, rs)" by fastforce
  have res: "w' = w1" "st_phase st = (if result_ok rs then ''Ready'' else ''Error'')"
    "kpt_drift st = Some \<lparr>dr_detected = (unresolved_count rs > 0), dr_fields = unresolved_fields rs\<rparr>"
    using unf by (auto simp: pre states mode not_reading ap status_frame finish_enforce_ready
        finish_enforce_drift)
  then have "result_ok rs" using ready by (simp split: if_splits)
  then show thesis using that pre states ap res by (simp add: preflight_passes)
qed

lemma policy_desired_simps:
  "d_acls (policy_desired acls view) = acls"
  "prune_inputs (policy_desired acls (Some v)) = (cav_desiredACLs v, cav_scope v)"
  by (auto simp: policy_desired_def set_prune_aggregate_def prune_inputs_def Let_def split: option.split)

lemma world_list_acls: "ac_listACLs world_admin w = Inr states \<Longrightarrow> set states = set (km_acls (cw_kafka w))"
  by (auto simp: world_admin_def km_list_acls_def km_read_def split: option.splits)

text \<open>The operator does not stamp ACLs with a mode, so no create operation is report-only.\<close>

lemma policy_acl_mode:
  assumes "a \<in> set (stamp_prune (fst (build_acl_set (compile_policy pol))) b)"
  shows "acl_mode a = []"
proof -
  have m: "acl_mode c = []" if "c \<in> set (compile_policy pol)" for c
    using that by (auto simp: compile_policy_def compile_rule_def mk_acl_def)
  obtain a0 where a0: "a0 \<in> set (fst (build_acl_set (compile_policy pol)))" "acl_mode a = acl_mode a0"
    using assms by (auto simp: stamp_prune_def)
  then show ?thesis using m by (elim acl_set_entry) (auto simp: accepted_acls_def)
qed

text \<open>
  An operation that is eligible up to its gate has either succeeded or been withheld by the gate, when
  the run is OK.
\<close>

lemma ok_run_succeeded:
  assumes run: "apply_ops c ops ap w = (w', rs)" "result_ok rs" "op \<in> set ops" and elig: "eligible ap op"
  shows "succeeded rs op"
proof -
  obtain r where r: "r \<in> set rs" "res_op r = op" using run_ops [OF run(1)] run(3) by (metis imageE)
  obtain w1 f1 where loop: "apply_loop c ap (execution_order ops) w {} = (w1, f1, rs)"
    using run(1) by (auto simp: apply_ops_def split: prod.splits)
  obtain op1 v g v' g' where one: "apply_one c ap op1 v g = (v', g', r)"
    using apply_loop_result [OF loop r(1)] by blast
  then have op: "op1 = op" using r(2) apply_one_op [of c ap op1 v g] by simp
  have "res_status r \<notin> {StReportOnly, StPruneDisabled}"
    using one elig unfolding op
    by (auto simp: apply_one_def mk_result_def pre_verdict_def eligible_def finding_def
        split: if_splits option.splits prod.splits)
  then show ?thesis using r run(2) by (auto simp: succeeded_def result_ok_def list_all_iff)
qed

lemma acl_gates: "gate_of CreateAcl = GateNone" "gate_of DeleteAcl = GatePrune"
  by (simp_all add: gate_of_def)

lemma acl_apk_mode: "si_mode (apk_attr (acl_apk s) a) = acl_mode a"
  by (simp add: acl_apk_def)

lemma acl_add_eligible:
  "acl_mode a = [] \<Longrightarrow> eligible ap (add_op (acl_apk s) a)"
  by (simp add: eligible_def report_only_def acl_walk.add_op_mode acl_apk_mode finding_def gate_verdict_def
      acl_gates ModeDetectOnly_def ModeObserveOnly_def)

lemma acl_prune_eligible:
  "scope_lookup s a = Some info \<Longrightarrow> si_prune info \<Longrightarrow> si_mode info \<notin> {ModeDetectOnly, ModeObserveOnly} \<Longrightarrow>
   eligible ap (prune_op (acl_apk s) a)"
  using acl_walk.prune_op_covered [of s a info]
  by (simp add: eligible_def report_only_def finding_def gate_verdict_def acl_gates)

lemma stamp_prune_keys [simp]: "full_key ` set (stamp_prune acls b) = full_key ` set acls"
proof -
  have "full_key (a\<lparr>acl_prune := b\<rparr>) = full_key a" for a by (simp add: full_key_def subject_key_def)
  then show ?thesis by (simp add: stamp_prune_def image_image)
qed

text \<open>Without a conflict the desired set has the identities of its input.\<close>

lemma error_free_keys:
  assumes "build_acl_set acls = (acls0, [])"
  shows "full_key ` set acls0 = full_key ` set acls"
proof -
  have "rejected_acls acls = []" "acls0 = desired_spec full_key acl_attribution (accepted_acls acls)"
    using assms by (auto simp: build_acl_set_eq)
  moreover from this have "set (accepted_acls acls) = set acls"
    by (auto simp: rejected_acls_def accepted_acls_def filter_empty_conv)
  moreover have "full_key ` set (desired_spec full_key acl_attribution acls1) = full_key ` set acls1" for acls1
    using acl_kind.map_key_desired_spec [of acls1] by (metis set_map set_nub)
  ultimately show ?thesis by simp
qed

text \<open>
  What a Ready pass does: it adds those of the policy's ACLs that are absent and removes strays - live
  ACLs the view covers and nobody desires - as far as their prune operations succeeded.
\<close>

definition stray :: "cluster_acl_view \<Rightarrow> acl_state \<Rightarrow> bool" where
  "stray v a \<longleftrightarrow>
     scope_contains (cav_scope v) (live_acl a) \<and> full_key (live_acl a) \<notin> full_key ` set (cav_desiredACLs v)"

definition pass_effect ::
    "kafka_access_policy \<Rightarrow> cluster_acl_view \<Rightarrow> acl list \<Rightarrow> op_result list \<Rightarrow> cli_world \<Rightarrow> cli_world \<Rightarrow> bool" where
  "pass_effect p v acls rs w w' \<longleftrightarrow>
     full_key ` set acls = full_key ` set (compile_policy (prepared_policy p)) \<and>
     (\<forall>a. a \<in> set (km_acls (cw_kafka w')) \<longleftrightarrow>
        (\<exists>it \<in> set acls. acl_to_state it = a \<and> full_key it \<notin> live_keys w) \<or>
        a \<in> set (km_acls (cw_kafka w)) \<and>
          \<not> (stray v a \<and> succeeded rs (prune_op (acl_apk (cav_scope v)) (live_acl a)))) \<and>
     (\<forall>a \<in> set (km_acls (cw_kafka w)). stray v a \<longrightarrow>
        prune_op (acl_apk (cav_scope v)) (live_acl a) \<in> res_op ` set rs \<and>
        (eligible (approvals_from_annotations (ap_meta (prepared_policy p)))
           (prune_op (acl_apk (cav_scope v)) (live_acl a)) \<longrightarrow>
         succeeded rs (prune_op (acl_apk (cav_scope v)) (live_acl a))))"

lemma policy_ready_effect:
  assumes "reconcile_policy env p cluster world_admin (Some v) w = (w', st, err)"
    and "policy_mode (prepared_policy p) = ModeEnforce" "st_phase st = ''Ready''"
  obtains acls rs where "pass_effect p v acls rs w w'" 
    "kpt_drift st = Some \<lparr>dr_detected = (unresolved_count rs > 0), dr_fields = unresolved_fields rs\<rparr>"
proof -
  let ?p = "prepared_policy p"
  obtain acls0 states rs where run:
    "build_acl_set (compile_policy ?p) = (acls0, [])" "ac_listACLs world_admin w = Inr states"
    "apply_ops (topic_clients world_admin None)
       (compute (policy_desired (stamp_prune acls0 (aps_prune (ap_spec ?p))) (Some v))
         (empty_live\<lparr>l_acls := live_acls states\<rparr>))
       (approvals_from_annotations (ap_meta ?p)) w = (w', rs)"
    "result_ok rs"
    "kpt_drift st = Some \<lparr>dr_detected = (unresolved_count rs > 0), dr_fields = unresolved_fields rs\<rparr>"
    by (rule policy_ready_run [OF assms])
  let ?acls = "stamp_prune acls0 (aps_prune (ap_spec ?p))" and ?s = "cav_scope v"
  let ?d = "policy_desired ?acls (Some v)" and ?l = "empty_live\<lparr>l_acls := live_acls states\<rparr>"
  have L: "set (l_acls ?l) = live_acl ` set (km_acls (cw_kafka w))"
    using world_list_acls [OF run(2)] by (simp add: live_acls_def)
  have keys: "full_key ` set (l_acls ?l) = live_keys w" unfolding L live_keys_def by (simp add: image_image)
  have ops: "op \<in> set (compute ?d ?l)" if "op \<in> set (add_prune_ops (acl_apk ?s) ?acls (cav_desiredACLs v) (l_acls ?l))" for op
    using that acl_ops_unguarded [of ?d ?l]
    by (auto simp: compute_acl_walk policy_desired_simps guarded_topics_def empty_live_def)
  have ok: "succeeded rs op" if "op \<in> set (compute ?d ?l)" "eligible (approvals_from_annotations (ap_meta ?p)) op" for op
    using ok_run_succeeded [OF run(3,4)] that by blast
  note after = acls_after_compute [OF L run(3) [unfolded topic_clients_world], unfolded policy_desired_simps]
  have added: "succeeded rs (add_op (acl_apk ?s) it)" if "it \<in> set ?acls" "full_key it \<notin> live_keys w" for it
  proof (rule ok)
    have "full_key it \<notin> full_key ` set (l_acls ?l)" using that(2) unfolding keys .
    then show "add_op (acl_apk ?s) it \<in> set (compute ?d ?l)"
      using that(1) by (intro ops) (simp add: acl_walk.set_ops)
    show "eligible (approvals_from_annotations (ap_meta ?p)) (add_op (acl_apk ?s) it)"
      using policy_acl_mode [of it ?p "aps_prune (ap_spec ?p)"] that(1) run(1) by (intro acl_add_eligible) simp
  qed
  have pruned: "prune_op (acl_apk ?s) (live_acl a) \<in> set (compute ?d ?l)"
    if "a \<in> set (km_acls (cw_kafka w))" "scope_contains ?s (live_acl a)"
      "full_key (live_acl a) \<notin> full_key ` set (cav_desiredACLs v)" for a
    using that L by (intro ops) (auto simp: acl_walk.set_ops)
  have same: "full_key ` set ?acls = full_key ` set (compile_policy ?p)"
    using error_free_keys [OF run(1)] by simp
  have "pass_effect p v ?acls rs w w'"
    unfolding pass_effect_def
  proof (intro conjI allI ballI impI)
    show "full_key ` set ?acls = full_key ` set (compile_policy ?p)" by (rule same)
    show "a \<in> set (km_acls (cw_kafka w')) \<longleftrightarrow>
       (\<exists>it \<in> set ?acls. acl_to_state it = a \<and> full_key it \<notin> live_keys w) \<or>
       a \<in> set (km_acls (cw_kafka w)) \<and>
         \<not> (stray v a \<and> succeeded rs (prune_op (acl_apk ?s) (live_acl a)))" for a
      using after [of a] added unfolding keys stray_def by auto
    fix a assume a: "a \<in> set (km_acls (cw_kafka w))" "stray v a"
    show "prune_op (acl_apk ?s) (live_acl a) \<in> res_op ` set rs"
      using pruned [of a] a run_ops [OF run(3)] by (simp add: stray_def)
    assume "eligible (approvals_from_annotations (ap_meta ?p)) (prune_op (acl_apk ?s) (live_acl a))"
    then show "succeeded rs (prune_op (acl_apk ?s) (live_acl a))"
      using ok pruned [of a] a by (simp add: stray_def)
  qed
  then show thesis using that run(5) by blast
qed

text \<open>After the pass a key is live when it was added or a live ACL of it survived.\<close>

lemma live_state_key: "full_key (live_acl (acl_to_state it)) = full_key it"
  by (rule full_key_state) simp

lemma effect_added:
  assumes "pass_effect p v acls rs w w'" "it \<in> set acls" "full_key it \<notin> live_keys w"
  shows "full_key it \<in> live_keys w'"
proof -
  have "acl_to_state it \<in> set (km_acls (cw_kafka w'))" using assms unfolding pass_effect_def by blast
  then show ?thesis unfolding live_keys_def using live_state_key [of it] by (metis image_eqI)
qed

lemma effect_kept:
  assumes "pass_effect p v acls rs w w'" "a \<in> set (km_acls (cw_kafka w))" "\<not> stray v a"
  shows "full_key (live_acl a) \<in> live_keys w'"
proof -
  have "a \<in> set (km_acls (cw_kafka w'))" using assms unfolding pass_effect_def by blast
  then show ?thesis unfolding live_keys_def by blast
qed

lemma effect_origin:
  assumes "pass_effect p v acls rs w w'" "a \<in> set (km_acls (cw_kafka w'))"
  obtains (added) it where "it \<in> set acls" "a = acl_to_state it" "full_key (live_acl a) \<notin> live_keys w"
  | (old) "a \<in> set (km_acls (cw_kafka w))"
      "stray v a \<Longrightarrow> \<not> succeeded rs (prune_op (acl_apk (cav_scope v)) (live_acl a))"
proof -
  have "(\<exists>it \<in> set acls. acl_to_state it = a \<and> full_key it \<notin> live_keys w) \<or>
        a \<in> set (km_acls (cw_kafka w)) \<and>
          \<not> (stray v a \<and> succeeded rs (prune_op (acl_apk (cav_scope v)) (live_acl a)))"
    using assms unfolding pass_effect_def by blast
  then show thesis using added old live_state_key by metis
qed

lemma effect_prunes:
  assumes "pass_effect p v acls rs w w'" "a \<in> set (km_acls (cw_kafka w))" "stray v a"
  shows "prune_op (acl_apk (cav_scope v)) (live_acl a) \<in> res_op ` set rs"
    "eligible (approvals_from_annotations (ap_meta (prepared_policy p)))
       (prune_op (acl_apk (cav_scope v)) (live_acl a)) \<Longrightarrow>
     succeeded rs (prune_op (acl_apk (cav_scope v)) (live_acl a))"
  using assms unfolding pass_effect_def by blast+

end
