(* ===== verification/Reconcile_Props.thy ===== *)
theory Reconcile_Props
  imports Reconcile_Facts
begin

section \<open>What a pass of the reconcile engine guarantees\<close>

text \<open>
  Which passes write at all, what a Ready policy means on the in-memory cluster, that the cluster-wide
  view shields other resources' ACLs from pruning, what happens to the loser of an Allow/Deny conflict,
  and what the password bookkeeping of a user does across passes.
\<close>

subsection \<open>Gates\<close>

text \<open>
  C9. A pass of the engine changes the cluster (or a Secret's mirror image of it) only for a resource
  that is in Enforce mode, valid, allowed by the cluster's tenancy configuration and free of
  Allow/Deny conflicts of its own: a pass that fails one of these checks, or runs in DetectOnly or
  ObserveOnly mode, leaves the world exactly as it was - for topics, access policies, quotas and role
  bindings alike.
\<close>

theorem writes_are_gated:
  "(fst (reconcile_topic env t cluster k sr view mds rbView w) \<noteq> w \<longrightarrow>
      topic_mode (prepared_topic t cluster) = ModeEnforce \<and>
      topic_errors (re_parseUrl env) (prepared_topic t cluster) cluster = [] \<and>
      topic_denial (cluster_tenancy cluster) (prepared_topic t cluster) = None \<and>
      snd (build_acl_set (topic_acls (prepared_topic t cluster) cluster)) = []) \<and>
   (fst (reconcile_policy env p cluster k view w) \<noteq> w \<longrightarrow>
      policy_mode (prepared_policy p) = ModeEnforce \<and>
      policy_spec_errors (re_parseUrl env) (prepared_policy p) cluster = [] \<and>
      policy_denial (cluster_tenancy cluster) (prepared_policy p) = None \<and>
      snd (build_acl_set (compile_policy (prepared_policy p))) = []) \<and>
   (fst (reconcile_quota env q cluster k w) \<noteq> w \<longrightarrow>
      quota_mode q = ModeEnforce \<and> validate_quota_shape q = [] \<and>
      check_namespace (cluster_tenancy cluster) (om_namespace (kq_meta q)) = None) \<and>
   (fst (reconcile_role_binding env rb cluster k c rbView w) \<noteq> w \<longrightarrow>
      role_binding_mode rb = ModeEnforce \<and> validate_role_binding_shape (prepared_role_binding rb) = [] \<and>
      check_role_binding (cluster_tenancy cluster) (om_namespace (kr_meta rb)) (krs_resources (kr_spec rb)) = None)"
  by (intro conjI impI topic_gates policy_gates quota_gates role_binding_gates)

subsection \<open>Access policies and the cluster-wide view\<close>


text \<open>
  C12. The loser of a cross-resource Allow/Deny conflict flaps: an enforcing pass over a policy that
  reports itself reconciled without drift toggles every ACL of the policy that the cluster-wide union
  dropped while its scope entry stayed - it creates the ACL when it is absent and deletes it when it
  is live.
\<close>

theorem conflict_loser_flaps:
  assumes run: "reconcile_policy env p cluster world_admin (Some v) w = (w', st, err)"
    and mode: "policy_mode (prepared_policy p) = ModeEnforce" and ready: "st_phase st = ''Ready''"
    and clean: "kpt_drift st = Some \<lparr>dr_detected = False, dr_fields = []\<rparr>"
    and loser: "x \<in> set (compile_policy (prepared_policy p))" "full_key x \<notin> full_key ` set (cav_desiredACLs v)"
    and scope: "\<forall>a \<in> set (km_acls (cw_kafka w)).
      full_key (live_acl a) = full_key x \<longrightarrow> scope_contains (cav_scope v) (live_acl a)"
  shows "full_key x \<in> live_keys w' \<longleftrightarrow> full_key x \<notin> live_keys w"
proof -
  obtain acls rs where eff: "pass_effect p v acls rs w w'"
    and drift: "kpt_drift st = Some \<lparr>dr_detected = (unresolved_count rs > 0), dr_fields = unresolved_fields rs\<rparr>"
    by (rule policy_ready_effect [OF run mode ready])
  have all_done: "\<forall>r \<in> set rs. res_status r = StSucceeded"
    using drift clean by (intro no_drift_all_done) simp
  obtain it where it: "it \<in> set acls" "full_key it = full_key x"
    using eff loser(1) unfolding pass_effect_def by (metis imageE image_eqI)
  have "full_key x \<notin> live_keys w'" if live: "full_key x \<in> live_keys w"
  proof
    assume "full_key x \<in> live_keys w'"
    then obtain a where a: "a \<in> set (km_acls (cw_kafka w'))" "full_key (live_acl a) = full_key x"
      unfolding live_keys_def by auto
    show False
      using eff a(1)
    proof (cases rule: effect_origin)
      case (added it2)
      then show False using live a(2) by simp
    next
      case old
      then have s: "stray v a" using scope loser(2) a(2) by (simp add: stray_def)
      have "succeeded rs (prune_op (acl_apk (cav_scope v)) (live_acl a))"
        using effect_prunes(1) [OF eff old(1) s] all_done unfolding succeeded_def by auto
      then show False using old(2) [OF s] by blast
    qed
  qed
  then show ?thesis using effect_added [OF eff it(1)] it(2) by auto
qed

subsection \<open>The shield of the view\<close>

lemma run_spares:
  assumes run: "apply_ops (world_clients s m r pw) (compute d l) ap w = (w', rs)"
    and a: "a \<in> set (km_acls (cw_kafka w))"
    and spared: "\<And>x. acl_to_state x = a \<Longrightarrow>
      full_key x \<in> full_key ` set (fst (prune_inputs d)) \<or> \<not> scope_contains (snd (prune_inputs d)) x"
  shows "a \<in> set (km_acls (cw_kafka w'))"
proof -
  have "\<forall>r \<in> set rs. acl_dels (res_op r) \<noteq> Some a"
  proof (intro ballI notI)
    fix r assume r: "r \<in> set rs" "acl_dels (res_op r) = Some a"
    then have "res_op r \<in> set (compute d l)" using run_ops [OF run] by blast
    from this r(2) show False
    proof (rule compute_acl_dels)
      fix x assume "full_key x \<notin> full_key ` set (fst (prune_inputs d))"
        "scope_contains (snd (prune_inputs d)) x" "acl_to_state x = a"
      then show False using spared [of x] by blast
    qed
  qed
  then show ?thesis using acl_store.run [OF TrueI run] acl_store.fold_no_dels a by blast
qed

lemma view_prune_inputs:
  "prune_inputs (topic_desired t acls dss (Some v)) = (cav_desiredACLs v, cav_scope v)"
  "prune_inputs (binding_desired bs rbView) = ([], Map.empty)"
  by (auto simp: topic_desired_def binding_desired_def set_prune_aggregate_def set_role_binding_prune_set_def
      prune_inputs_def empty_desired_def Let_def split: option.split)

definition world_registry :: "bool \<Rightarrow> cli_world schema_client option" where
  "world_registry hasSchema = (if hasSchema then Some world_schema else None)"

definition world_mds_client :: "bool \<Rightarrow> cli_world mds_client option" where
  "world_mds_client hasMDS = (if hasMDS then Some world_mds else None)"

lemma world_topic_clients:
  "topic_clients world_admin (world_registry hasSchema) = world_clients hasSchema False False None"
  "mds_clients world_admin world_mds = world_clients False True False None"
  by (simp_all add: topic_clients_def mds_clients_def world_clients_def world_registry_def)

lemma shielded_key:
  assumes "full_key (live_acl a) \<in> full_key ` set D" "acl_to_state x = a"
  shows "full_key x \<in> full_key ` set D"
  using assms full_key_state [of x "live_acl a"] by simp

lemma topic_rbac_spares:
  assumes "a \<in> set (km_acls (cw_kafka w))"
  shows "a \<in> set (km_acls (cw_kafka (fst (topic_rbac env t cluster world_admin (world_mds_client hasMDS) rbView st e w))))"
proof -
  have "a \<in> set (km_acls (cw_kafka w1))"
    if "reconcile_topic_role_bindings env t cfg world_admin world_mds rbView st w = (w1, st1, e1)" for cfg w1 st1 e1
  proof -
    have "a \<in> set (km_acls (cw_kafka w2))"
      if "apply_ops (mds_clients world_admin world_mds) (compute (binding_desired bs rbView) l) ap w = (w2, rs)"
      for bs l ap w2 rs
      using that [unfolded world_topic_clients] assms
      by (rule run_spares) (simp add: view_prune_inputs scope_contains_def)
    then show ?thesis using that assms
      by (auto simp: reconcile_topic_role_bindings_def Let_def split: sum.splits prod.splits if_splits)
  qed
  then show ?thesis using assms
    by (auto simp: topic_rbac_def world_mds_client_def Let_def split: option.splits prod.splits)
qed

lemma topic_pass_spares:
  assumes a: "a \<in> set (km_acls (cw_kafka w))" and keep: "full_key (live_acl a) \<in> full_key ` set (cav_desiredACLs v)"
  shows "a \<in> set (km_acls (cw_kafka (fst (reconcile_topic env t cluster world_admin (world_registry hasSchema)
    (Some v) (world_mds_client hasMDS) rbView w))))"
proof -
  let ?t = "prepared_topic t cluster" and ?sr = "world_registry hasSchema"
  obtain dss subject resolveErr where ds: "topic_desired_schemas env ?t (?sr \<noteq> None) = (dss, subject, resolveErr)"
    by (metis prod_cases3)
  have mode: "a \<in> set (km_acls (cw_kafka (fst
      (case run_topic_mode env ?t world_admin ?sr dss1 declared noSchema
          (compute (topic_desired ?t acls dss1 (Some v)) l) l st w of
        Inl st1 \<Rightarrow> (w, st1, None)
      | Inr (w1, l1, st1, e1) \<Rightarrow>
          topic_rbac env ?t cluster world_admin (world_mds_client hasMDS) rbView (F l1 st1) e1 w1))))"
    for dss1 declared noSchema acls l st F
  proof (cases "run_topic_mode env ?t world_admin ?sr dss1 declared noSchema
      (compute (topic_desired ?t acls dss1 (Some v)) l) l st w")
    case (Inl st1)
    then show ?thesis using a by simp
  next
    case (Inr res)
    obtain w1 l1 st1 e1 where res: "res = (w1, l1, st1, e1)" by (metis prod_cases4)
    have ran: "a \<in> set (km_acls (cw_kafka w2))"
      if "apply_ops (topic_clients world_admin ?sr) (compute (topic_desired ?t acls dss1 (Some v)) l) ap w = (w2, rs)"
      for ap w2 rs
      using that [unfolded world_topic_clients] a
      by (rule run_spares) (simp add: view_prune_inputs shielded_key [OF keep])
    have "a \<in> set (km_acls (cw_kafka w1))"
      using Inr [unfolded res] a ran by (auto simp: run_topic_mode_def Let_def split: if_splits prod.splits)
    then show ?thesis by (simp add: Inr res topic_rbac_spares)
  qed
  show ?thesis
  proof (cases "preflight (re_quote env) ''kafkatopic'' (om_generation (kt_meta ?t))
      (topic_errors (re_parseUrl env) ?t cluster) (topic_denial (cluster_tenancy cluster) ?t)
      (topic_acls ?t cluster) (start_topic_status (om_generation (kt_meta ?t)) (re_now env))")
    case (Inl st)
    show ?thesis unfolding reconcile_topic_def Let_def Inl using a by simp
  next
    case (Inr acls0)
    note pass = Inr
    show ?thesis
    proof (cases "observe_topic_live (re_quote env) world_admin ?sr (kts_topicName (kt_spec ?t)) dss w")
      case (Inl e)
      show ?thesis unfolding reconcile_topic_def Let_def pass ds sum.case prod.case Inl using a by simp
    next
      case (Inr l)
      show ?thesis unfolding reconcile_topic_def Let_def pass ds sum.case prod.case Inr by (rule mode)
    qed
  qed
qed

lemma policy_pass_spares:
  assumes a: "a \<in> set (km_acls (cw_kafka w))" and keep: "full_key (live_acl a) \<in> full_key ` set (cav_desiredACLs v)"
  shows "a \<in> set (km_acls (cw_kafka (fst (reconcile_policy env p cluster world_admin (Some v) w))))"
proof -
  have ran: "a \<in> set (km_acls (cw_kafka w2))"
    if "apply_ops (topic_clients world_admin None) (compute (policy_desired acls (Some v)) l) ap w = (w2, rs)"
    for acls l ap w2 rs
    using that [unfolded topic_clients_world] a
    by (rule run_spares) (simp add: policy_desired_simps shielded_key [OF keep])
  show ?thesis
    using a ran by (auto simp: reconcile_policy_def Let_def split: sum.split prod.split)
qed

text \<open>
  C10. No pass takes away what somebody desires: with the cluster-wide view, a live ACL whose identity
  is in the union of all topics' and policies' ACLs is still live after any pass over any topic or
  policy of the cluster - in whatever mode, with whatever outcome, and with or without a registry and
  an MDS.
\<close>

theorem view_shields_desired:
  assumes "a \<in> set (km_acls (cw_kafka w))" "full_key (live_acl a) \<in> full_key ` set (cav_desiredACLs v)"
  shows "a \<in> set (km_acls (cw_kafka (fst (reconcile_topic env t cluster world_admin (world_registry hasSchema)
      (Some v) (world_mds_client hasMDS) rbView w)))) \<and>
    a \<in> set (km_acls (cw_kafka (fst (reconcile_policy env p cluster world_admin (Some v) w))))"
  using topic_pass_spares [OF assms] policy_pass_spares [OF assms] by blast

subsection \<open>A concrete cluster\<close>

text \<open>
  Two policies on one cluster allow and deny the same operation; the denying one loses, since the view
  is sorted by identity. The cluster holds the denying ACL.
\<close>

definition sample_env :: reconcile_env where
  "sample_env = \<lparr>re_quote = id, re_parseUrl = (\<lambda>_. None), re_now = 0, re_resolve = (\<lambda>_. Inl [])\<rparr>"

definition sample_policy :: "string \<Rightarrow> kafka_access_policy" where
  "sample_policy permission =
     \<lparr>ap_meta = mk_meta ''ns'' permission,
      ap_spec = \<lparr>aps_clusterRef = \<lparr>cr_name = ''c''\<rparr>,
        aps_rules = [\<lparr>rule_principal = ''User:a'', rule_permission = permission, rule_host = ''*'',
          rule_resource = \<lparr>ar_type = ''topic'', ar_name = ''t'', ar_patternType = ''literal''\<rparr>,
          rule_operations = [''Read'']\<rparr>],
        aps_reconciliation = None, aps_prune = True, aps_deletionPolicy = []\<rparr>\<rparr>"

definition sample_view :: cluster_acl_view where
  "sample_view = build_cluster_acl_view [] [sample_policy ''Allow'', sample_policy ''Deny''] None None"

definition deny_acl :: acl where
  "deny_acl = mk_acl ''User:a'' ''*'' ''topic'' ''t'' ''literal'' ''Read'' ''Deny''"

definition world_with :: "acl list \<Rightarrow> cli_world" where
  "world_with acls =
     \<lparr>cw_kafka = km_new [] (map acl_to_state acls), cw_mds = mm_new [], cw_schema = sm_new, cw_rest = rm_new []\<rparr>"

definition sample_pass :: "string \<Rightarrow> acl list \<Rightarrow> cli_world \<times> policy_status \<times> go_error option" where
  "sample_pass permission acls =
     reconcile_policy sample_env (sample_policy permission) None world_admin (Some sample_view) (world_with acls)"

lemma sample_loses: "full_key deny_acl \<notin> full_key ` set (cav_desiredACLs sample_view)" by code_simp

lemma sample_scope: "scope_contains (cav_scope sample_view) (live_acl (acl_to_state deny_acl))" by code_simp

lemma sample_deny_pass:
  "st_phase (fst (snd (sample_pass ''Deny'' [deny_acl]))) = ''Ready''"
  "kpt_drift (fst (snd (sample_pass ''Deny'' [deny_acl]))) = Some \<lparr>dr_detected = False, dr_fields = []\<rparr>"
  "km_acls (cw_kafka (fst (sample_pass ''Deny'' [deny_acl]))) \<noteq> km_acls (cw_kafka (world_with [deny_acl]))"
  by code_simp+

lemma sample_modes: "policy_mode (prepared_policy (sample_policy ''Deny'')) = ModeEnforce"
  "policy_mode (prepared_policy (sample_policy ''Allow'')) = ModeEnforce"
  by code_simp+

lemma sample_keys: "deny_acl \<in> set (compile_policy (prepared_policy (sample_policy ''Deny'')))"
  "full_key ` set (compile_policy (prepared_policy (sample_policy ''Allow''))) \<subseteq>
     full_key ` set (cav_desiredACLs sample_view)"
  by code_simp+

lemma sample_allow_pass: "st_phase (fst (snd (sample_pass ''Allow'' [deny_acl]))) = ''Ready''"
  by code_simp

lemma sample_pass_eq:
  "reconcile_policy sample_env (sample_policy permission) None world_admin (Some sample_view) (world_with acls) =
     (fst (sample_pass permission acls), fst (snd (sample_pass permission acls)), snd (snd (sample_pass permission acls)))"
  by (simp add: sample_pass_def)

theorem writes_are_gated_witness:
  "fst (sample_pass ''Deny'' [deny_acl]) \<noteq> world_with [deny_acl] \<and>
   policy_denial (cluster_tenancy None) (prepared_policy (sample_policy ''Deny'')) = None"
proof -
  have "fst (sample_pass ''Deny'' [deny_acl]) \<noteq> world_with [deny_acl]" using sample_deny_pass(3) by metis
  then show ?thesis
    using writes_are_gated [of sample_env _ None world_admin None "Some sample_view" None None
        "world_with [deny_acl]" "sample_policy ''Deny''"]
    by (simp add: sample_pass_def)
qed


theorem conflict_loser_flaps_witness:
  "full_key deny_acl \<in> live_keys (world_with [deny_acl]) \<and>
   full_key deny_acl \<notin> live_keys (fst (sample_pass ''Deny'' [deny_acl]))"
proof -
  have live: "full_key deny_acl \<in> live_keys (world_with [deny_acl])" by code_simp
  have "\<forall>a \<in> set (km_acls (cw_kafka (world_with [deny_acl]))).
      full_key (live_acl a) = full_key deny_acl \<longrightarrow> scope_contains (cav_scope sample_view) (live_acl a)"
    using sample_scope by (simp add: world_with_def km_new_def)
  from conflict_loser_flaps [OF sample_pass_eq sample_modes(1) sample_deny_pass(1,2) sample_keys(1)
      sample_loses this] show ?thesis using live by blast
qed

theorem view_shields_desired_witness:
  "acl_to_state (deny_acl\<lparr>acl_permission := ''Allow''\<rparr>) \<in>
     set (km_acls (cw_kafka (fst (sample_pass ''Deny'' [deny_acl\<lparr>acl_permission := ''Allow''\<rparr>]))))"
proof -
  have "full_key (live_acl (acl_to_state (deny_acl\<lparr>acl_permission := ''Allow''\<rparr>))) \<in>
      full_key ` set (cav_desiredACLs sample_view)" by code_simp
  moreover have "acl_to_state (deny_acl\<lparr>acl_permission := ''Allow''\<rparr>) \<in>
      set (km_acls (cw_kafka (world_with [deny_acl\<lparr>acl_permission := ''Allow''\<rparr>])))" by code_simp
  ultimately show ?thesis
    unfolding sample_pass_def
    using view_shields_desired [of _ "world_with [deny_acl\<lparr>acl_permission := ''Allow''\<rparr>]" sample_view] by blast
qed

end
