(* ===== verification/Password_Props.thy ===== *)
theory Password_Props
  imports Reconcile_Facts
begin

section \<open>Passwords across passes (internal/operator/reconcile/user.go)\<close>

text \<open>
  What a pass over a KafkaUser records about the password it applied, and what the next pass makes of
  it: a referenced password is pushed again until a pass ends Ready; a generated one is pushed only by
  the pass that minted it.
\<close>

subsection \<open>Facts\<close>

lemma user_ref_frame [status_frame]:
  "kut_appliedPasswordRef (set_cond t b r m g st) = kut_appliedPasswordRef st"
  "kut_appliedPasswordRef (remove_cond t st) = kut_appliedPasswordRef st"
  "kut_appliedPasswordRef (set_phase ph st) = kut_appliedPasswordRef st"
  "kut_appliedPasswordRef (mark_valid g st) = kut_appliedPasswordRef st"
  "kut_appliedPasswordRef (fail_terminal k r m g st) = kut_appliedPasswordRef st"
  by (simp_all add: set_cond_def remove_cond_def set_phase_def mark_valid_def fail_terminal_def
      set_terminal_def set_terminal_reasons_def add_call_def)

lemma user_enforce_frame [status_frame]:
  "kut_appliedPasswordRef (finish_enforce q discard_drift rs g st) = kut_appliedPasswordRef st"
  "kut_appliedPasswordRef (area_enforce q t m rs g st) = kut_appliedPasswordRef st"
  by (simp_all add: finish_enforce_def area_enforce_def discard_drift_def Let_def status_frame)

lemma start_user_ref [simp]:
  "kut_appliedPasswordRef (start_user_status g now prior) = Option.bind prior kut_appliedPasswordRef"
  by (simp add: start_user_status_def base_status.defs user_status.defs)

lemma apply_user_ref:
  assumes "\<not> generates u" "apply_user env u d live ps k st w = (w', st', err)" "st_phase st' \<noteq> ''Ready''"
  shows "kut_appliedPasswordRef st' = kut_appliedPasswordRef st"
  using assms by (auto simp: apply_user_def Let_def finish_enforce_ready status_frame split: prod.splits if_splits)

lemma referenced_next:
  assumes "\<not> generates u" "Option.bind prior kut_appliedPasswordRef = Option.bind prior2 kut_appliedPasswordRef"
  shows "source_user_password random u prior cred store w = source_user_password random u prior2 cred store w"
  using assms(1) unfolding source_user_password_def source_referenced_password_def assms(2) by simp

subsection \<open>Referenced passwords\<close>

text \<open>
  C13. A rotation is retried until it is applied: a pass over a user with a referenced Secret that does
  not end Ready records no new applied version, so whatever the Secret holds by then, the next pass
  takes the same decision about the password - rotate or not - as it would have taken without this one.
\<close>

theorem rotation_retried_until_applied:
  assumes "reconcile_user env random u prior cluster k store w = (w', st, err)"
    and "\<not> generates (prepared_user u)" "st_phase st \<noteq> ''Ready''"
  shows "kut_appliedPasswordRef st = Option.bind prior kut_appliedPasswordRef \<and>
    source_user_password random2 (prepared_user u) (Some st) cred store w2 =
    source_user_password random2 (prepared_user u) prior cred store w2"
proof -
  let ?u = "prepared_user u"
  have "kut_appliedPasswordRef st = Option.bind prior kut_appliedPasswordRef"
  proof (cases "validate_user_shape ?u = [] \<and> check_namespace (cluster_tenancy cluster) (om_namespace (ku_meta ?u)) = None")
    case False
    then show ?thesis using assms(1)
      by (auto simp: reconcile_user_def Let_def status_frame split: if_splits option.splits)
  next
    case True
    note unf = assms(1) [unfolded reconcile_user_def Let_def]
    show ?thesis
    proof (cases "ac_listScram k [cr_username (du_credential (compile_desired_user ?u))] w")
      case (Inl e)
      then show ?thesis using unf True by (auto simp: status_frame)
    next
      case (Inr live)
      obtain w1 ps where src: "source_user_password random ?u prior
          (du_credential (compile_desired_user ?u)) store w = (w1, ps)" by fastforce
      show ?thesis
      proof (cases ps)
        case (Sourced pw rot ref name)
        then show ?thesis using unf True Inr src
          by (auto simp: status_frame dest!: apply_user_ref [OF assms(2) _ assms(3)])
      qed (use unf True Inr src in \<open>auto simp: status_frame\<close>)
    qed
  qed
  then show ?thesis using referenced_next [OF assms(2), of "Some st" prior] by simp
qed

subsection \<open>Generated passwords\<close>

lemma compute_users_only:
  "compute (empty_desired\<lparr>d_users := us, d_rotatePasswords := rot\<rparr>) (empty_live\<lparr>l_scramCredentials := live\<rparr>) =
     sort_key op_order_key (concat (map (\<lambda>du. user_ops_for rot
         (live_mechs live (cr_username (du_credential du)) []) du)
       (sort_key (\<lambda>du. cr_username (du_credential du)) us)))"
  by (simp add: compute_def unsorted_ops_def guarded_topics_def empty_desired_def empty_live_def
      compute_topic_ops_def compute_acl_ops_def prune_inputs_def add_prune_ops_def compute_schema_ops_def
      compute_quota_ops_def compute_role_binding_ops_def role_binding_prune_keep_def compute_user_ops_def
      compute_mirror_ops_def)

lemma with_password_ref_credential [simp]: "du_credential (with_password_ref n du) = du_credential du"
  by (simp add: with_password_ref_def)

text \<open>
  C14. Once the Secret of a generated password exists, no pass pushes its password again: when the
  Secret is owned, complete and consistent and the broker lists a credential of the declared
  mechanism and iterations, the pass issues no call at all and reports Ready - whatever password the
  broker holds. A password that was stored but whose upsert failed is therefore never applied.
\<close>

theorem generated_password_never_repushed:
  fixes w :: 'w
  assumes gen: "generates (prepared_user u)" and valid: "validate_user_shape (prepared_user u) = []"
    and ns: "check_namespace (cluster_tenancy cluster) (om_namespace (ku_meta (prepared_user u))) = None"
    and cred: "cred = user_compile (prepared_user u)"
    and live: "ac_listScram k [cr_username cred] w = Inr live"
    and listed: "mget (live_mechs live (cr_username cred) []) (cr_mechanism cred) = Some i"
    and iters: "cr_iterations cred \<in> {0, i}"
    and secret: "pss_getSecret store (om_name (ku_meta (prepared_user u)) @ ''-kafka-credentials'') w = Inr (Some sec)"
    and sec: "psec_owned sec" "secret_value sec ''password'' \<noteq> []"
      "secret_value sec ''username'' = cr_username cred" "secret_value sec ''mechanism'' = cr_mechanism cred"
  shows "\<exists>st. reconcile_user env random u prior cluster k store w = (w, st, None) \<and> st_phase st = ''Ready''"
proof -
  let ?u = "prepared_user u"
  have c: "du_credential (compile_desired_user ?u) = cred" by (simp add: compile_desired_user_def cred)
  have src: "source_user_password random ?u prior cred store w =
      (w, Sourced (secret_value sec ''password'') False None (om_name (ku_meta ?u) @ ''-kafka-credentials''))"
    using gen secret sec by (simp add: source_user_password_def source_generated_password_def Let_def)
  have ops: "compute (empty_desired\<lparr>d_users := [with_password_ref n (compile_desired_user ?u)],
      d_rotatePasswords := False\<rparr>) (empty_live\<lparr>l_scramCredentials := live\<rparr>) = []" for n
    unfolding compute_users_only using listed iters by (simp add: c user_ops_for_def Let_def)
  have run: "apply_ops cl [] ap w = (w, [])" for cl :: "'w clients" and ap
    by (simp add: apply_ops_def execution_order_def)
  show ?thesis
    using valid ns live
    by (simp add: reconcile_user_def Let_def c src apply_user_def ops run result_ok_def apply_retry_error_def
        counts_def finish_enforce_ready)
qed

subsection \<open>Concrete passes\<close>

text \<open>
  A user with a generated password and one with a referenced one, on a cluster that lists a credential
  for both; the Secrets they use hold passwords of any age.
\<close>

definition demo_env :: reconcile_env where
  "demo_env = \<lparr>re_quote = id, re_parseUrl = (\<lambda>_. None), re_now = 0, re_resolve = (\<lambda>_. Inl [])\<rparr>"

definition demo_user :: "user_password \<Rightarrow> kafka_user" where
  "demo_user pw =
     \<lparr>ku_meta = mk_meta ''ns'' ''svc'',
      ku_spec = \<lparr>kus_clusterRef = \<lparr>cr_name = ''c''\<rparr>, kus_username = [], kus_mechanism = [],
        kus_iterations = None, kus_password = Some pw, kus_deletionPolicy = []\<rparr>\<rparr>"

definition generated :: user_password where
  "generated = \<lparr>up_valueFrom = None, up_generate = Some ()\<rparr>"

definition referenced :: user_password where
  "referenced = \<lparr>up_valueFrom = Some \<lparr>vs_env = [], vs_file = [],
      vs_secretKeyRef = Some \<lparr>skr_name = ''s'', skr_key = ''password''\<rparr>, vs_inline = [],
      vs_configMapKeyRef = None\<rparr>, up_generate = None\<rparr>"

definition demo_secret :: "string \<Rightarrow> password_secret" where
  "demo_secret pw =
     \<lparr>psec_data = [(''username'', ''svc''), (''password'', pw), (''mechanism'', ''SCRAM-SHA-512'')],
      psec_resourceVersion = ''9'', psec_owned = True\<rparr>"

definition demo_store :: "string \<Rightarrow> cli_world secret_store" where
  "demo_store pw =
     \<lparr>pss_getSecret = (\<lambda>_ _. Inr (Some (demo_secret pw))), pss_createOwnedSecret = (\<lambda>_ _ w. (w, None)),
      pss_updateOwnedSecret = (\<lambda>_ _ w. (w, None))\<rparr>"

definition scram_world :: cli_world where
  "scram_world =
     \<lparr>cw_kafka = km_fail_on ''UpsertScramCredential'' (km_scram_key ''svc'' ''SCRAM-SHA-512'') [T ''down'']
        (km_new_with_scram [] [] [\<lparr>scr_user = ''svc'', scr_mechanism = ''SCRAM-SHA-512'', scr_iterations = 8192\<rparr>]),
      cw_mds = mm_new [], cw_schema = sm_new, cw_rest = rm_new []\<rparr>"

lemma demo_ready_to_go:
  "generates (prepared_user (demo_user generated))" "\<not> generates (prepared_user (demo_user referenced))"
  "validate_user_shape (prepared_user (demo_user generated)) = []"
  "check_namespace (cluster_tenancy None) (om_namespace (ku_meta (prepared_user (demo_user generated)))) = None"
  by code_simp+

lemma demo_listed:
  "ac_listScram world_admin [cr_username (user_compile (prepared_user (demo_user generated)))] scram_world =
     Inr [\<lparr>scr_user = ''svc'', scr_mechanism = ''SCRAM-SHA-512'', scr_iterations = 8192\<rparr>]"
  "mget (live_mechs [\<lparr>scr_user = ''svc'', scr_mechanism = ''SCRAM-SHA-512'', scr_iterations = 8192\<rparr>]
     (cr_username (user_compile (prepared_user (demo_user generated)))) [])
     (cr_mechanism (user_compile (prepared_user (demo_user generated)))) = Some 8192"
  by code_simp+

text \<open>The referenced password has to be rotated, and the broker refuses.\<close>

lemma demo_rotation_fails:
  "st_phase (fst (snd (reconcile_user demo_env (Inl []) (demo_user referenced) None None world_admin
     (demo_store ''new'') scram_world))) = ''Error''"
  by code_simp

theorem rotation_retried_until_applied_witness:
  "kut_appliedPasswordRef (fst (snd (reconcile_user demo_env (Inl []) (demo_user referenced) None None world_admin
     (demo_store ''new'') scram_world))) = None"
proof -
  obtain w' st err where run: "reconcile_user demo_env (Inl []) (demo_user referenced) None None world_admin
      (demo_store ''new'') scram_world = (w', st, err)" by (metis prod_cases3)
  then have "st_phase st \<noteq> ''Ready''" using demo_rotation_fails by simp
  from rotation_retried_until_applied [OF run demo_ready_to_go(2) this] show ?thesis by (simp add: run)
qed

theorem generated_password_never_repushed_witness:
  "fst (reconcile_user demo_env (Inl []) (demo_user generated) None None world_admin (demo_store ''never applied'')
     scram_world) = scram_world"
proof -
  have sec: "psec_owned (demo_secret ''never applied'')"
    "secret_value (demo_secret ''never applied'') ''password'' \<noteq> []"
    "secret_value (demo_secret ''never applied'') ''username'' =
       cr_username (user_compile (prepared_user (demo_user generated)))"
    "secret_value (demo_secret ''never applied'') ''mechanism'' =
       cr_mechanism (user_compile (prepared_user (demo_user generated)))"
    by code_simp+
  have iters: "cr_iterations (user_compile (prepared_user (demo_user generated))) \<in> {0, 8192}" by code_simp
  have "pss_getSecret (demo_store pw) n scram_world = Inr (Some (demo_secret pw))" for pw n
    by (simp add: demo_store_def)
  from generated_password_never_repushed [OF demo_ready_to_go(1,3,4) refl demo_listed iters this sec]
  show ?thesis by (metis fst_conv)
qed

end
