(* ===== verification/Operator_Api.thy ===== *)
theory Operator_Api
  imports Reconcile Reconcile_Kinds
begin

section \<open>What a controller sees: the API server, clients, events (internal/operator/controller)\<close>

text \<open>
  The parts every reconciler of \<^verbatim>\<open>internal/operator/controller\<close> shares: the stored object of a custom
  resource, the Kubernetes calls the controllers make, the result of a pass, the status write
  (\<^verbatim>\<open>status.go\<close>), the error statuses, and the secret resolver (\<^verbatim>\<open>k8sresolver.go\<close>).

  The API server, the cluster's clients and the informer cache belong to the world \<open>'w\<close>; the calls on
  them are the functions of the records below. apimachinery's \<open>meta.SetStatusCondition\<close> and
  \<open>meta.RemoveStatusCondition\<close> are the parameters \<open>oe_setCondition\<close> and \<open>oe_removeCondition\<close>. Events,
  gauges and counters have no influence on a pass: they are the notes it leaves, in order. The
  duration histogram, the logger and the nil recorder of the unit tests are left out; locks are the
  theory \<^verbatim>\<open>Operator_Locks\<close>.
\<close>

subsection \<open>Stored objects\<close>

text \<open>
  The metadata the controllers read beyond \<^typ>\<open>object_meta\<close>, and the stored status: its fields (with
  no calls) and its conditions.
\<close>

record ('o, 's) crd =
  crd_obj :: 'o
  crd_created :: int
  crd_deleting :: bool
  crd_finalizers :: "string list"
  crd_status :: "('s \<times> condition list) option"

definition stored_conditions :: "('o, 's) crd \<Rightarrow> condition list" where
  "stored_conditions x = (case crd_status x of None \<Rightarrow> [] | Some (_, cs) \<Rightarrow> cs)"

definition FinalizerName :: string where
  "FinalizerName = ''gitops.monedula.dev/finalizer''"

definition AnnotationForceFinalizerRemoval :: string where
  "AnnotationForceFinalizerRemoval = ''gitops.monedula.dev/force-finalizer-removal''"

definition AnnotationAllowDelete :: string where
  "AnnotationAllowDelete = ''gitops.monedula.dev/allow-delete''"

definition has_finalizer :: "('o, 's) crd \<Rightarrow> bool" where
  "has_finalizer x \<longleftrightarrow> FinalizerName \<in> set (crd_finalizers x)"

definition add_finalizer :: "('o, 's) crd \<Rightarrow> ('o, 's) crd" where
  "add_finalizer x = x\<lparr>crd_finalizers := crd_finalizers x @ [FinalizerName]\<rparr>"

definition drop_finalizer :: "('o, 's) crd \<Rightarrow> ('o, 's) crd" where
  "drop_finalizer x = x\<lparr>crd_finalizers := filter (\<lambda>f. f \<noteq> FinalizerName) (crd_finalizers x)\<rparr>"

subsection \<open>Kubernetes calls\<close>

datatype get_error = NotFound (get_error_text: go_error) | GetError (get_error_text: go_error)

datatype write_result = Written | Conflicted go_error | WriteFailed go_error

text \<open>
  Per kind: \<open>Get\<close>, \<open>List\<close> (all namespaces or \<open>client.InNamespace\<close>) on the cached client and on the
  optional uncached \<open>APIReader\<close>, \<open>Update\<close> and \<open>Status().Update\<close>.
\<close>

record ('w, 'o, 's) kind_api =
  ka_get :: "string \<Rightarrow> string \<Rightarrow> 'w \<Rightarrow> get_error + ('o, 's) crd"
  ka_list :: "string option \<Rightarrow> ('w, ('o, 's) crd list) query"
  ka_quorumList :: "(string option \<Rightarrow> ('w, ('o, 's) crd list) query) option"
  ka_update :: "('o, 's) crd \<Rightarrow> 'w act"
  ka_updateStatus :: "('o, 's) crd \<Rightarrow> 'w \<Rightarrow> 'w \<times> write_result"

text \<open>A Secret: data, resource version, the UID of its controller owner, labels. A ConfigMap: data, labels.\<close>

record kube_secret =
  ksec_data :: "(string, string) gomap"
  ksec_resourceVersion :: string
  ksec_controllerUID :: "string option"
  ksec_labels :: "(string, string) gomap"

record kube_config_map =
  kcm_data :: "(string, string) gomap"
  kcm_labels :: "(string, string) gomap"

record 'w kube_objects =
  ko_getCluster :: "string \<Rightarrow> string \<Rightarrow> ('w, kafka_cluster) query"
  ko_getSecret :: "string \<Rightarrow> string \<Rightarrow> 'w \<Rightarrow> get_error + kube_secret"
  ko_createSecret :: "string \<Rightarrow> string \<Rightarrow> kube_secret \<Rightarrow> 'w act"
  ko_updateSecret :: "string \<Rightarrow> string \<Rightarrow> kube_secret \<Rightarrow> 'w act"
  ko_getConfigMap :: "string \<Rightarrow> string \<Rightarrow> 'w \<Rightarrow> get_error + kube_config_map"

text \<open>\<open>ClientFactory\<close>: the clients are built by connecting, so building them reads the world.\<close>

record 'w client_factory =
  cf_for :: "kafka_cluster \<Rightarrow> ('w, 'w admin_client \<times> 'w schema_client option) query"
  cf_mdsFor :: "kafka_cluster \<Rightarrow> ('w, 'w mds_client option) query"

record operator_env =
  oe_clusterNamespace :: string
  oe_resyncInterval :: int
  oe_statusRetries :: nat
  oe_setCondition :: "condition \<Rightarrow> condition list \<Rightarrow> condition list"
  oe_removeCondition :: "string \<Rightarrow> condition list \<Rightarrow> condition list"
  oe_quote :: "string \<Rightarrow> string"
  oe_parseUrl :: url_parser
  oe_now :: nat

subsection \<open>Results and notes\<close>

datatype outcome = Done | RequeueAfter int | Failed go_error

datatype ctrl_note =
    Event string string string string
  | ObserveManaged string string string
  | ForgetMetrics string string string
  | SetDrift string string string bool
  | RecordTerminal string string

type_synonym 'w pass_result = "'w \<times> ctrl_note list \<times> outcome"

definition with_notes :: "ctrl_note list \<Rightarrow> 'w pass_result \<Rightarrow> 'w pass_result" where
  "with_notes ns r = (case r of (w, ms, out) \<Rightarrow> (w, ns @ ms, out))"

definition DefaultResyncInterval :: int where
  "DefaultResyncInterval = 5 * 60 * 1000000000"

definition resync_interval :: "int \<Rightarrow> int" where
  "resync_interval configured = (if configured > 0 then configured else DefaultResyncInterval)"

definition resync_outcome :: "operator_env \<Rightarrow> outcome" where
  "resync_outcome env = RequeueAfter (resync_interval (oe_resyncInterval env))"

definition reconcile_event :: "string \<Rightarrow> string \<Rightarrow> string \<Rightarrow> ctrl_note" where
  "reconcile_event typ reason msg = Event typ reason ''Reconcile'' msg"

definition finalize_event :: "string \<Rightarrow> string \<Rightarrow> string \<Rightarrow> ctrl_note" where
  "finalize_event typ reason msg = Event typ reason ''Finalize'' msg"

text \<open>\<open>errors.Join\<close> of two errors: their texts on two lines.\<close>

definition join_errors :: "go_error \<Rightarrow> go_error \<Rightarrow> go_error" where
  "join_errors e e' = e @ [T [CHR 0x0A]] @ e'"

definition list_scope :: "bool \<Rightarrow> string \<Rightarrow> string option" where
  "list_scope namespaceLocal ns = (if namespaceLocal then Some ns else None)"

definition namespace_local :: "operator_env \<Rightarrow> bool" where
  "namespace_local env \<longleftrightarrow> oe_clusterNamespace env = []"

definition cluster_namespace :: "operator_env \<Rightarrow> object_meta \<Rightarrow> string" where
  "cluster_namespace env m =
     (if oe_clusterNamespace env = [] then om_namespace m else oe_clusterNamespace env)"

subsection \<open>Writing a status\<close>

fun run_call :: "operator_env \<Rightarrow> condition list \<Rightarrow> status_call \<Rightarrow> condition list" where
  "run_call env cs (SetStatusCondition c) = oe_setCondition env c cs"
| "run_call env cs (RemoveStatusCondition t) = oe_removeCondition env t cs"
| "run_call env cs (RecordReconcileTerminal kind reason) = cs"

definition to_stored ::
    "operator_env \<Rightarrow> condition list \<Rightarrow> 'a base_status_scheme \<Rightarrow> 'a base_status_scheme \<times> condition list" where
  "to_stored env seed st = (st\<lparr>st_calls := []\<rparr>, foldl (run_call env) seed (st_calls st))"

text \<open>
  \<open>statusEqualIgnoringTimestamps\<close>. Conditions here carry no \<open>LastTransitionTime\<close>.
\<close>

definition zero_times :: "'a base_status_scheme \<Rightarrow> 'a base_status_scheme" where
  "zero_times st = st\<lparr>st_lastCheckedTime := 0, st_lastAppliedTime := None\<rparr>"

definition status_equal_ignoring_timestamps ::
    "('a base_status_scheme \<times> condition list) option \<Rightarrow> ('a base_status_scheme \<times> condition list) option \<Rightarrow> bool" where
  "status_equal_ignoring_timestamps a b \<longleftrightarrow>
     map_option (map_prod zero_times id) a = map_option (map_prod zero_times id) b"

text \<open>
  \<open>updateStatus\<close>: fetch, mutate, compare, write; a conflict starts over, at most \<open>n\<close> more times
  (\<open>retry.DefaultRetry\<close> is four).
\<close>

definition status_attempt ::
    "('w, 'o, 'a base_status_scheme) kind_api \<Rightarrow> object_meta \<Rightarrow>
     (('o, 'a base_status_scheme) crd \<Rightarrow> 'a base_status_scheme \<times> condition list) \<Rightarrow> 'w \<Rightarrow>
     'w \<times> write_result" where
  "status_attempt api m mutate w =
     (case ka_get api (om_namespace m) (om_name m) w of
        Inl e \<Rightarrow> (w, WriteFailed (get_error_text e))
      | Inr cur \<Rightarrow>
          (let st = Some (mutate cur)
           in if status_equal_ignoring_timestamps (crd_status cur) st then (w, Written)
              else ka_updateStatus api (cur\<lparr>crd_status := st\<rparr>) w))"

fun retry_on_conflict :: "nat \<Rightarrow> ('w \<Rightarrow> 'w \<times> write_result) \<Rightarrow> 'w act" where
  "retry_on_conflict n attempt w =
     (case attempt w of
        (w', Written) \<Rightarrow> (w', None)
      | (w', WriteFailed e) \<Rightarrow> (w', Some e)
      | (w', Conflicted e) \<Rightarrow>
          (case n of 0 \<Rightarrow> (w', Some e) | Suc n' \<Rightarrow> retry_on_conflict n' attempt w'))"

definition update_status ::
    "operator_env \<Rightarrow> ('w, 'o, 'a base_status_scheme) kind_api \<Rightarrow> object_meta \<Rightarrow>
     (('o, 'a base_status_scheme) crd \<Rightarrow> 'a base_status_scheme \<times> condition list) \<Rightarrow> 'w act" where
  "update_status env api m mutate = retry_on_conflict (oe_statusRetries env) (status_attempt api m mutate)"

text \<open>
  An engine status is computed once, seeded from the object fetched at the start of the pass; an error
  status is computed from the object each attempt fetches.
\<close>

definition engine_status ::
    "operator_env \<Rightarrow> ('o, 's) crd \<Rightarrow> 'a base_status_scheme \<Rightarrow> ('o, 'a base_status_scheme) crd \<Rightarrow>
     'a base_status_scheme \<times> condition list" where
  "engine_status env obj st cur = to_stored env (stored_conditions obj) st"

definition fresh_status ::
    "operator_env \<Rightarrow> (('o, 'a base_status_scheme) crd \<Rightarrow> 'a base_status_scheme) \<Rightarrow>
     ('o, 'a base_status_scheme) crd \<Rightarrow> 'a base_status_scheme \<times> condition list" where
  "fresh_status env mk cur = to_stored env (stored_conditions cur) (mk cur)"

subsection \<open>Error statuses\<close>

definition error_status :: "int \<Rightarrow> string \<Rightarrow> string \<Rightarrow> 'a base_status_scheme \<Rightarrow> 'a base_status_scheme" where
  "error_status gen reason msg st = set_cond ''Ready'' False reason msg gen (set_phase ''Error'' st)"

definition topic_error_status :: "operator_env \<Rightarrow> string \<Rightarrow> string \<Rightarrow> (kafka_topic, topic_status) crd \<Rightarrow> topic_status" where
  "topic_error_status env reason msg x =
     (let gen = om_generation (kt_meta (crd_obj x)) in error_status gen reason msg (start_topic_status gen (oe_now env)))"

definition policy_error_status ::
    "operator_env \<Rightarrow> string \<Rightarrow> string \<Rightarrow> (kafka_access_policy, policy_status) crd \<Rightarrow> policy_status" where
  "policy_error_status env reason msg x =
     (let gen = om_generation (ap_meta (crd_obj x)) in error_status gen reason msg (start_policy_status gen (oe_now env)))"

definition quota_error_status :: "operator_env \<Rightarrow> string \<Rightarrow> string \<Rightarrow> (kafka_quota, quota_status) crd \<Rightarrow> quota_status" where
  "quota_error_status env reason msg x =
     (let gen = om_generation (kq_meta (crd_obj x)) in error_status gen reason msg (start_quota_status gen (oe_now env)))"

definition role_binding_error_status ::
    "operator_env \<Rightarrow> string \<Rightarrow> string \<Rightarrow> (kafka_role_binding, role_binding_status) crd \<Rightarrow> role_binding_status" where
  "role_binding_error_status env reason msg x =
     (let gen = om_generation (kr_meta (crd_obj x))
      in error_status gen reason msg (start_role_binding_status gen (oe_now env)))"

definition user_error_status :: "operator_env \<Rightarrow> string \<Rightarrow> string \<Rightarrow> (kafka_user, user_status) crd \<Rightarrow> user_status" where
  "user_error_status env reason msg x =
     (let gen = om_generation (ku_meta (crd_obj x))
      in error_status gen reason msg (start_user_status gen (oe_now env) (map_option fst (crd_status x))))"

subsection \<open>Secret references\<close>

definition namespaced :: "string \<Rightarrow> string \<Rightarrow> string" where
  "namespaced ns name = ns @ ''/'' @ name"

definition read_secret_key :: "'w kube_objects \<Rightarrow> string \<Rightarrow> secret_key_ref \<Rightarrow> ('w, string) query" where
  "read_secret_key ko ns ref w =
     (let key = namespaced ns (skr_name ref)
      in case ko_getSecret ko ns (skr_name ref) w of
           Inl e \<Rightarrow> Inl ([T ''reading secret '', T key, T '': ''] @ get_error_text e)
         | Inr sec \<Rightarrow>
             (case mget (ksec_data sec) (skr_key ref) of
                None \<Rightarrow> Inl [T ''secret '', T key, T '' has no key '', Q (skr_key ref)]
              | Some v \<Rightarrow> Inr v))"

definition read_config_map_key :: "'w kube_objects \<Rightarrow> string \<Rightarrow> secret_key_ref \<Rightarrow> ('w, string) query" where
  "read_config_map_key ko ns ref w =
     (let key = namespaced ns (skr_name ref)
      in case ko_getConfigMap ko ns (skr_name ref) w of
           Inl e \<Rightarrow> Inl ([T ''reading configmap '', T key, T '': ''] @ get_error_text e)
         | Inr cm \<Rightarrow>
             (case mget (kcm_data cm) (skr_key ref) of
                None \<Rightarrow> Inl [T ''configmap '', T key, T '' has no key '', Q (skr_key ref)]
              | Some v \<Rightarrow> Inr v))"

definition k8s_resolve :: "'w kube_objects \<Rightarrow> string \<Rightarrow> 'w \<Rightarrow> value_from \<Rightarrow> go_error + string" where
  "k8s_resolve ko ns w vf =
     (let src = vf_valueFrom vf
      in if vs_inline src \<noteq> [] then Inr (vs_inline src)
         else case vs_secretKeyRef src of
           Some ref \<Rightarrow> read_secret_key ko ns ref w
         | None \<Rightarrow>
             (case vs_configMapKeyRef src of
                Some ref \<Rightarrow> read_config_map_key ko ns ref w
              | None \<Rightarrow>
                  (if vs_env src \<noteq> [] \<or> vs_file src \<noteq> [] then
                     Inl [T ''env/file secret refs are not supported in operator mode (use secretKeyRef)'']
                   else Inl [T ''no secret source specified (set secretKeyRef)''])))"

text \<open>The engine's environment of a pass over a resource in namespace \<open>ns\<close>.\<close>

definition engine_env :: "operator_env \<Rightarrow> 'w kube_objects \<Rightarrow> string \<Rightarrow> 'w \<Rightarrow> reconcile_env" where
  "engine_env env ko ns w =
     \<lparr>re_quote = oe_quote env, re_parseUrl = oe_parseUrl env, re_now = oe_now env,
      re_resolve = k8s_resolve ko ns w\<rparr>"

subsection \<open>Kinds\<close>

text \<open>What the code repeats for each kind, with the kind's names and error status.\<close>

record ('w, 'o, 's) kind =
  k_controller :: string
  k_kind :: string
  k_meta :: "'o \<Rightarrow> object_meta"
  k_clusterRef :: "'o \<Rightarrow> string"
  k_errorStatus :: "string \<Rightarrow> string \<Rightarrow> ('o, 's) crd \<Rightarrow> 's"
  k_api :: "('w, 'o, 's) kind_api"

definition topic_kind ::
    "operator_env \<Rightarrow> ('w, kafka_topic, topic_status) kind_api \<Rightarrow> ('w, kafka_topic, topic_status) kind" where
  "topic_kind env api =
     \<lparr>k_controller = ''kafkatopic'', k_kind = ''KafkaTopic'', k_meta = kt_meta,
      k_clusterRef = (\<lambda>t. cr_name (kts_clusterRef (kt_spec t))),
      k_errorStatus = topic_error_status env, k_api = api\<rparr>"

definition policy_kind ::
    "operator_env \<Rightarrow> ('w, kafka_access_policy, policy_status) kind_api \<Rightarrow>
     ('w, kafka_access_policy, policy_status) kind" where
  "policy_kind env api =
     \<lparr>k_controller = ''kafkaaccesspolicy'', k_kind = ''KafkaAccessPolicy'', k_meta = ap_meta,
      k_clusterRef = (\<lambda>p. cr_name (aps_clusterRef (ap_spec p))),
      k_errorStatus = policy_error_status env, k_api = api\<rparr>"

definition quota_kind ::
    "operator_env \<Rightarrow> ('w, kafka_quota, quota_status) kind_api \<Rightarrow> ('w, kafka_quota, quota_status) kind" where
  "quota_kind env api =
     \<lparr>k_controller = ''kafkaquota'', k_kind = ''KafkaQuota'', k_meta = kq_meta,
      k_clusterRef = (\<lambda>q. cr_name (kqs_clusterRef (kq_spec q))),
      k_errorStatus = quota_error_status env, k_api = api\<rparr>"

definition role_binding_kind ::
    "operator_env \<Rightarrow> ('w, kafka_role_binding, role_binding_status) kind_api \<Rightarrow>
     ('w, kafka_role_binding, role_binding_status) kind" where
  "role_binding_kind env api =
     \<lparr>k_controller = ''kafkarolebinding'', k_kind = ''KafkaRoleBinding'', k_meta = kr_meta,
      k_clusterRef = (\<lambda>b. cr_name (krs_clusterRef (kr_spec b))),
      k_errorStatus = role_binding_error_status env, k_api = api\<rparr>"

definition user_kind ::
    "operator_env \<Rightarrow> ('w, kafka_user, user_status) kind_api \<Rightarrow> ('w, kafka_user, user_status) kind" where
  "user_kind env api =
     \<lparr>k_controller = ''kafkauser'', k_kind = ''KafkaUser'', k_meta = ku_meta,
      k_clusterRef = (\<lambda>u. cr_name (kus_clusterRef (ku_spec u))),
      k_errorStatus = user_error_status env, k_api = api\<rparr>"

definition crd_meta :: "('w, 'o, 's) kind \<Rightarrow> ('o, 's) crd \<Rightarrow> object_meta" where
  "crd_meta k x = k_meta k (crd_obj x)"

definition crd_cluster :: "('w, 'o, 's) kind \<Rightarrow> ('o, 's) crd \<Rightarrow> string" where
  "crd_cluster k x = k_clusterRef k (crd_obj x)"

lemmas kind_defs = topic_kind_def policy_kind_def quota_kind_def role_binding_kind_def user_kind_def

subsection \<open>A failing pass\<close>

text \<open>
  A failure before the engine: a Warning event, the error status, the error (requeue with backoff). A
  status that cannot be written adds its own error.
\<close>

definition plain :: "int \<Rightarrow> 'a base_status_scheme \<Rightarrow> 'a base_status_scheme" where
  "plain gen st = st"

definition fail_pass ::
    "operator_env \<Rightarrow> ('w, 'o, 'a base_status_scheme) kind \<Rightarrow> ('o, 'a base_status_scheme) crd \<Rightarrow>
     string \<Rightarrow> go_error \<Rightarrow> (int \<Rightarrow> 'a base_status_scheme \<Rightarrow> 'a base_status_scheme) \<Rightarrow> 'w \<Rightarrow> 'w pass_result" where
  "fail_pass env k x reason e extra w =
     (let msg = render (oe_quote env) e
      in case update_status env (k_api k) (crd_meta k x)
                (fresh_status env (\<lambda>cur. extra (om_generation (crd_meta k cur)) (k_errorStatus k reason msg cur))) w of
           (w', None) \<Rightarrow> (w', [reconcile_event ''Warning'' reason msg], Failed e)
         | (w', Some u) \<Rightarrow> (w', [reconcile_event ''Warning'' reason msg], Failed (join_errors e u)))"

text \<open>A terminal outcome before the engine: no backoff, the resync re-evaluates.\<close>

definition terminal_pass ::
    "operator_env \<Rightarrow> ('w, 'o, 'a base_status_scheme) kind \<Rightarrow> ('o, 'a base_status_scheme) crd \<Rightarrow>
     string \<Rightarrow> string \<Rightarrow> ctrl_note list \<Rightarrow> (int \<Rightarrow> 'a base_status_scheme \<Rightarrow> 'a base_status_scheme) \<Rightarrow> 'w \<Rightarrow>
     'w pass_result" where
  "terminal_pass env k x reason msg extraNotes extra w =
     (let notes = [reconcile_event ''Warning'' reason msg, RecordTerminal (k_controller k) reason] @ extraNotes
      in case update_status env (k_api k) (crd_meta k x)
                (fresh_status env (\<lambda>cur. extra (om_generation (crd_meta k cur)) (k_errorStatus k reason msg cur))) w of
           (w', None) \<Rightarrow> (w', notes, resync_outcome env)
         | (w', Some u) \<Rightarrow> (w', notes, Failed u))"

subsection \<open>Finalizers\<close>

definition remove_finalizer ::
    "('w, 'o, 's) kind \<Rightarrow> ('o, 's) crd \<Rightarrow> 'w \<Rightarrow> 'w pass_result" where
  "remove_finalizer k x w =
     (case ka_update (k_api k) (drop_finalizer x) w of
        (w', Some e) \<Rightarrow> (w', [], Failed e)
      | (w', None) \<Rightarrow>
          (w', [ForgetMetrics (k_controller k) (om_namespace (crd_meta k x)) (om_name (crd_meta k x))], Done))"

definition unreachable_message :: string where
  "unreachable_message =
     ''cluster unreachable; cannot run deletion cleanup. Make the cluster reachable, '' @
     ''or set annotation '' @ AnnotationForceFinalizerRemoval @ ''=true to force removal''"

definition unreachable_deletion :: "('w, 'o, 's) kind \<Rightarrow> ('o, 's) crd \<Rightarrow> 'w \<Rightarrow> 'w pass_result" where
  "unreachable_deletion k x w =
     (if \<not> has_finalizer x then (w, [], Done)
      else if annotation (crd_meta k x) AnnotationForceFinalizerRemoval = ''true'' then
        with_notes [finalize_event ''Warning'' ''ForceFinalizerRemoval''
          ''removing finalizer without cluster-side cleanup (cluster unreachable)'']
          (remove_finalizer k x w)
      else (w, [finalize_event ''Warning'' ''DeletionBlocked'' unreachable_message],
            Failed [T unreachable_message]))"

text \<open>The finalizer is stored before the engine runs; a pass that cannot store it fails.\<close>

definition ensure_finalizer ::
    "('w, 'o, 's) kind \<Rightarrow> ('o, 's) crd \<Rightarrow> (('o, 's) crd \<Rightarrow> 'w \<Rightarrow> 'w pass_result) \<Rightarrow> 'w \<Rightarrow> 'w pass_result" where
  "ensure_finalizer k x body w =
     (if has_finalizer x then body x w
      else case ka_update (k_api k) (add_finalizer x) w of
        (w', Some e) \<Rightarrow> (w', [], Failed e)
      | (w', None) \<Rightarrow> body (add_finalizer x) w')"

text \<open>The tail of a pass: status write, then the outcome of the engine.\<close>

definition finish_pass ::
    "operator_env \<Rightarrow> ('w, 'o, 'a base_status_scheme) kind \<Rightarrow> ('o, 'a base_status_scheme) crd \<Rightarrow> string \<Rightarrow>
     'a base_status_scheme \<Rightarrow> go_error option \<Rightarrow> 'w \<Rightarrow> 'w pass_result" where
  "finish_pass env k x okMsg st rerr w =
     (case update_status env (k_api k) (crd_meta k x) (engine_status env x st) w of
        (w', Some u) \<Rightarrow> (w', [], Failed u)
      | (w', None) \<Rightarrow>
          (case rerr of
             Some e \<Rightarrow> (w', [reconcile_event ''Warning'' ''ReconcileError'' (render (oe_quote env) e)], Failed e)
           | None \<Rightarrow> (w', [reconcile_event ''Normal'' ''Reconciled'' okMsg], resync_outcome env)))"

text \<open>
  The head of a pass: fetch the object, then its cluster. \<open>counted\<close> is false for access policies, which
  have no managed-objects gauge.
\<close>

definition start_pass ::
    "operator_env \<Rightarrow> ('w, 'o, 'a base_status_scheme) kind \<Rightarrow> 'w kube_objects \<Rightarrow> bool \<Rightarrow> string \<Rightarrow> string \<Rightarrow>
     (('o, 'a base_status_scheme) crd \<Rightarrow> kafka_cluster \<Rightarrow> 'w \<Rightarrow> 'w pass_result) \<Rightarrow> 'w \<Rightarrow> 'w pass_result" where
  "start_pass env k ko counted ns name body w =
     (case ka_get (k_api k) ns name w of
        Inl (NotFound _) \<Rightarrow> (w, [ForgetMetrics (k_controller k) ns name], Done)
      | Inl (GetError e) \<Rightarrow> (w, [], Failed e)
      | Inr x \<Rightarrow>
          with_notes (if counted then [ObserveManaged (k_controller k) (om_namespace (crd_meta k x))
              (om_name (crd_meta k x))] else [])
            (case ko_getCluster ko (cluster_namespace env (crd_meta k x)) (crd_cluster k x) w of
               Inl e \<Rightarrow>
                 (if crd_deleting x then unreachable_deletion k x w
                  else fail_pass env k x ''ClusterNotFound'' e plain w)
             | Inr cl \<Rightarrow> body x cl w))"

end
