(* ===== verification/Duplicate_Gate.thy ===== *)
theory Duplicate_Gate
  imports Operator_Api Operator_Locks
begin

section \<open>The duplicate-identity gate (internal/operator/controller/duplicate.go)\<close>

text \<open>
  Of the live resources of one kind that claim the same broker identity the oldest wins; every other
  one ends its pass here, with an error status and no client built. The scans of the four kinds, the
  recheck through the uncached reader, the gates, and the age-blind scans of the finalizers.

  The locale \<open>identity_contest\<close> is the contract of a kind whose identity is an equivalence: its lemmas
  say that a set of claimants has one winner and that every loser's scan finds it. Topics, quotas and
  users are interpretations. A role binding claims a set of compiled bindings and two claims overlap
  when the sets meet, which is not transitive, so role bindings are not an instance.
\<close>

subsection \<open>Age\<close>

definition claim_key :: "('o \<Rightarrow> object_meta) \<Rightarrow> ('o, 's) crd \<Rightarrow> string" where
  "claim_key meta x = om_namespace (meta (crd_obj x)) @ ''/'' @ om_name (meta (crd_obj x))"

definition older_identity_claim :: "('o \<Rightarrow> object_meta) \<Rightarrow> ('o, 's) crd \<Rightarrow> ('o, 's) crd \<Rightarrow> bool" where
  "older_identity_claim meta a b \<longleftrightarrow>
     (if crd_created a \<noteq> crd_created b then crd_created a < crd_created b
      else claim_key meta a < claim_key meta b)"

fun oldest_of :: "('o \<Rightarrow> object_meta) \<Rightarrow> ('o, 's) crd \<Rightarrow> ('o, 's) crd option \<Rightarrow> ('o, 's) crd list \<Rightarrow> ('o, 's) crd option" where
  "oldest_of meta obj winner [] = winner"
| "oldest_of meta obj winner (r # rs) =
     (if \<not> older_identity_claim meta r obj then oldest_of meta obj winner rs
      else if (case winner of None \<Rightarrow> True | Some x \<Rightarrow> older_identity_claim meta r x)
      then oldest_of meta obj (Some r) rs
      else oldest_of meta obj winner rs)"

definition oldest_rival :: "('o \<Rightarrow> object_meta) \<Rightarrow> ('o, 's) crd \<Rightarrow> ('o, 's) crd list \<Rightarrow> ('o, 's) crd option" where
  "oldest_rival meta obj rivals = oldest_of meta obj None rivals"

definition duplicate_identity_message :: "message \<Rightarrow> string \<Rightarrow> object_meta \<Rightarrow> message" where
  "duplicate_identity_message identity winnerKind winner =
     [T ''identity ''] @ identity @ [T '' is already managed by '', T winnerKind, T '' '',
      T (om_namespace winner), T ''/'', T (om_name winner),
      T '' (older); this resource is ignored until the conflict is resolved'']"

definition identity_materialized :: "condition list \<Rightarrow> bool" where
  "identity_materialized cs \<longleftrightarrow>
     (case find (\<lambda>c. cn_type c = ''Ready'') cs of None \<Rightarrow> False | Some c \<Rightarrow> cn_status c)"

subsection \<open>Scans\<close>

definition other_live :: "('o \<Rightarrow> object_meta) \<Rightarrow> ('o, 's) crd \<Rightarrow> ('o, 's) crd \<Rightarrow> bool" where
  "other_live meta obj x \<longleftrightarrow>
     om_uid (meta (crd_obj x)) \<noteq> om_uid (meta (crd_obj obj)) \<and> \<not> crd_deleting x"

definition rivals_of ::
    "('o \<Rightarrow> object_meta) \<Rightarrow> ('o \<Rightarrow> 'o \<Rightarrow> bool) \<Rightarrow> ('o, 's) crd \<Rightarrow> ('o, 's) crd list \<Rightarrow> ('o, 's) crd list" where
  "rivals_of meta same obj items = filter (\<lambda>x. other_live meta obj x \<and> same (crd_obj x) (crd_obj obj)) items"

definition listing_error :: "string \<Rightarrow> string \<Rightarrow> go_error + 'a \<Rightarrow> go_error + 'a" where
  "listing_error kinds what r = prefixed_error (''listing '' @ kinds @ '' for '' @ what @ '': '') r"

type_synonym ('w, 'o, 's) lister = "string option \<Rightarrow> ('w, ('o, 's) crd list) query"

definition same_topic_identity :: "kafka_topic \<Rightarrow> kafka_topic \<Rightarrow> bool" where
  "same_topic_identity other t \<longleftrightarrow>
     cr_name (kts_clusterRef (kt_spec other)) = cr_name (kts_clusterRef (kt_spec t)) \<and>
     resolved_topic_name other = resolved_topic_name t"

definition find_older_topic_claim ::
    "bool \<Rightarrow> (kafka_topic, topic_status) crd \<Rightarrow> ('w, kafka_topic, topic_status) lister \<Rightarrow> 'w \<Rightarrow>
     go_error + (kafka_topic, topic_status) crd option" where
  "find_older_topic_claim namespaceLocal t list w =
     and_then (listing_error ''KafkaTopics'' ''duplicate-identity check''
         (list (list_scope namespaceLocal (om_namespace (kt_meta (crd_obj t)))) w))
       (\<lambda>items. Inr (oldest_rival kt_meta t (rivals_of kt_meta same_topic_identity t items)))"

definition resolved_entity_key :: "kafka_quota \<Rightarrow> string" where
  "resolved_entity_key q = entity_key (dq_entity (quota_compile q))"

definition same_quota_identity :: "kafka_quota \<Rightarrow> kafka_quota \<Rightarrow> bool" where
  "same_quota_identity other q \<longleftrightarrow>
     cr_name (kqs_clusterRef (kq_spec other)) = cr_name (kqs_clusterRef (kq_spec q)) \<and>
     resolved_entity_key other = resolved_entity_key q"

definition find_older_quota_claim ::
    "bool \<Rightarrow> (kafka_quota, quota_status) crd \<Rightarrow> ('w, kafka_quota, quota_status) lister \<Rightarrow> 'w \<Rightarrow>
     go_error + (kafka_quota, quota_status) crd option" where
  "find_older_quota_claim namespaceLocal q list w =
     and_then (listing_error ''KafkaQuotas'' ''duplicate-identity check''
         (list (list_scope namespaceLocal (om_namespace (kq_meta (crd_obj q)))) w))
       (\<lambda>items. Inr (oldest_rival kq_meta q (rivals_of kq_meta same_quota_identity q items)))"

definition resolved_username :: "kafka_user \<Rightarrow> string" where
  "resolved_username u =
     (if kus_username (ku_spec u) \<noteq> [] then kus_username (ku_spec u) else om_name (ku_meta u))"

definition same_user_identity :: "kafka_user \<Rightarrow> kafka_user \<Rightarrow> bool" where
  "same_user_identity other u \<longleftrightarrow>
     cr_name (kus_clusterRef (ku_spec other)) = cr_name (kus_clusterRef (ku_spec u)) \<and>
     resolved_username other = resolved_username u"

definition find_older_user_claim ::
    "bool \<Rightarrow> (kafka_user, user_status) crd \<Rightarrow> ('w, kafka_user, user_status) lister \<Rightarrow> 'w \<Rightarrow>
     go_error + (kafka_user, user_status) crd option" where
  "find_older_user_claim namespaceLocal u list w =
     and_then (listing_error ''KafkaUsers'' ''duplicate-identity check''
         (list (list_scope namespaceLocal (om_namespace (ku_meta (crd_obj u)))) w))
       (\<lambda>items. Inr (oldest_rival ku_meta u (rivals_of ku_meta same_user_identity u items)))"

text \<open>
  A role binding's rivals: those that compile to a binding of this one's set. The key in the result is
  the first such binding of the winner.
\<close>

definition binding_keys :: "mds_config \<Rightarrow> kafka_role_binding \<Rightarrow> string list" where
  "binding_keys mds rb = (case rbac_compile rb mds of Inl _ \<Rightarrow> [] | Inr bs \<Rightarrow> map rb_full_key bs)"

definition overlap_key :: "string list \<Rightarrow> mds_config \<Rightarrow> kafka_role_binding \<Rightarrow> string option" where
  "overlap_key mine mds other = find (\<lambda>k. k \<in> set mine) (binding_keys mds other)"

definition binding_overlap :: "string list \<Rightarrow> mds_config \<Rightarrow> kafka_role_binding \<Rightarrow> kafka_role_binding \<Rightarrow> bool" where
  "binding_overlap mine mds other rb \<longleftrightarrow>
     cr_name (krs_clusterRef (kr_spec other)) = cr_name (krs_clusterRef (kr_spec rb)) \<and>
     overlap_key mine mds other \<noteq> None"

definition find_older_role_binding_claim ::
    "bool \<Rightarrow> mds_config option \<Rightarrow> (kafka_role_binding, role_binding_status) crd \<Rightarrow>
     ('w, kafka_role_binding, role_binding_status) lister \<Rightarrow> 'w \<Rightarrow>
     go_error + ((kafka_role_binding, role_binding_status) crd \<times> string) option" where
  "find_older_role_binding_claim namespaceLocal mdsCfg rb list w =
     (case mdsCfg of
        None \<Rightarrow> Inr None
      | Some mds \<Rightarrow>
          (case rbac_compile (crd_obj rb) mds of
             Inl _ \<Rightarrow> Inr None
           | Inr mine \<Rightarrow>
               (let myKeys = map rb_full_key mine
                in and_then (listing_error ''KafkaRoleBindings'' ''duplicate-identity check''
                     (list (list_scope namespaceLocal (om_namespace (kr_meta (crd_obj rb)))) w))
                   (\<lambda>items. Inr (map_option
                      (\<lambda>x. (x, case overlap_key myKeys mds (crd_obj x) of None \<Rightarrow> [] | Some key \<Rightarrow> key))
                      (oldest_rival kr_meta rb (rivals_of kr_meta (binding_overlap myKeys mds) rb items)))))))"

subsection \<open>Gates\<close>

text \<open>
  The scan, repeated on the uncached reader when a rival was found or the resource has never proved a
  successful pass.
\<close>

definition contested_scan ::
    "('w, 'o, 's) kind_api \<Rightarrow> ('o, 's) crd \<Rightarrow> (('w, 'o, 's) lister \<Rightarrow> 'w \<Rightarrow> go_error + 'r option) \<Rightarrow> 'w \<Rightarrow>
     go_error + 'r option" where
  "contested_scan api x scan w =
     and_then (scan (ka_list api) w) (\<lambda>winner.
       case ka_quorumList api of
         None \<Rightarrow> Inr winner
       | Some quorum \<Rightarrow>
           (if winner \<noteq> None \<or> crd_status x = None \<or> \<not> identity_materialized (stored_conditions x)
            then scan quorum w else Inr winner))"

definition loser_conditions :: "string \<Rightarrow> int \<Rightarrow> 'a base_status_scheme \<Rightarrow> 'a base_status_scheme" where
  "loser_conditions msg gen = set_cond ''ValidationFailed'' True ''DuplicateIdentity'' msg gen"

text \<open>\<^term>\<open>None\<close>: no older claimant, the pass goes on.\<close>

definition duplicate_identity_gate ::
    "operator_env \<Rightarrow> ('w, 'o, 'a base_status_scheme) kind \<Rightarrow> ('o, 'a base_status_scheme) crd \<Rightarrow>
     (('w, 'o, 'a base_status_scheme) lister \<Rightarrow> 'w \<Rightarrow> go_error + 'r option) \<Rightarrow> ('r \<Rightarrow> message \<times> object_meta) \<Rightarrow>
     (int \<Rightarrow> 'a base_status_scheme \<Rightarrow> 'a base_status_scheme) \<Rightarrow> 'w \<Rightarrow> 'w pass_result option" where
  "duplicate_identity_gate env k x scan describe extra w =
     (case contested_scan (k_api k) x scan w of
        Inl e \<Rightarrow> Some (fail_pass env k x ''DuplicateCheckFailed'' e plain w)
      | Inr None \<Rightarrow> None
      | Inr (Some winner) \<Rightarrow>
          (case describe winner of (identity, wmeta) \<Rightarrow>
             let msg = render (oe_quote env) (duplicate_identity_message identity (k_kind k) wmeta)
             in Some (terminal_pass env k x ''DuplicateIdentity'' msg
                  [SetDrift (k_controller k) (om_namespace (crd_meta k x)) (om_name (crd_meta k x)) False]
                  (\<lambda>gen st. extra gen (loser_conditions msg gen st)) w)))"

definition identity_text :: "string \<Rightarrow> string \<Rightarrow> string \<Rightarrow> message" where
  "identity_text cluster what identity =
     [T ''(cluster '', Q cluster, T '', '', T what, T '' '', Q identity, T '')'']"

definition topic_gate ::
    "operator_env \<Rightarrow> ('w, kafka_topic, topic_status) kind_api \<Rightarrow> (kafka_topic, topic_status) crd \<Rightarrow> 'w \<Rightarrow>
     'w pass_result option" where
  "topic_gate env api t =
     duplicate_identity_gate env (topic_kind env api) t (find_older_topic_claim (namespace_local env) t)
       (\<lambda>x. (identity_text (cr_name (kts_clusterRef (kt_spec (crd_obj t)))) ''topic''
               (resolved_topic_name (crd_obj t)), kt_meta (crd_obj x))) plain"

definition quota_gate ::
    "operator_env \<Rightarrow> ('w, kafka_quota, quota_status) kind_api \<Rightarrow> (kafka_quota, quota_status) crd \<Rightarrow> 'w \<Rightarrow>
     'w pass_result option" where
  "quota_gate env api q =
     duplicate_identity_gate env (quota_kind env api) q (find_older_quota_claim (namespace_local env) q)
       (\<lambda>x. (identity_text (cr_name (kqs_clusterRef (kq_spec (crd_obj q)))) ''entity''
               (resolved_entity_key (crd_obj q)), kq_meta (crd_obj x))) plain"

definition clear_drift :: "int \<Rightarrow> 'a base_status_scheme \<Rightarrow> 'a base_status_scheme" where
  "clear_drift gen =
     set_cond ''DriftDetected'' False ''DuplicateIdentity''
       ''drift not evaluated: resource is a duplicate-identity loser'' gen"

definition user_gate ::
    "operator_env \<Rightarrow> ('w, kafka_user, user_status) kind_api \<Rightarrow> (kafka_user, user_status) crd \<Rightarrow> 'w \<Rightarrow>
     'w pass_result option" where
  "user_gate env api u =
     duplicate_identity_gate env (user_kind env api) u (find_older_user_claim (namespace_local env) u)
       (\<lambda>x. (identity_text (cr_name (kus_clusterRef (ku_spec (crd_obj u)))) ''username''
               (resolved_username (crd_obj u)), ku_meta (crd_obj x))) clear_drift"

definition role_binding_gate ::
    "operator_env \<Rightarrow> ('w, kafka_role_binding, role_binding_status) kind_api \<Rightarrow> mds_config option \<Rightarrow>
     (kafka_role_binding, role_binding_status) crd \<Rightarrow> 'w \<Rightarrow> 'w pass_result option" where
  "role_binding_gate env api mdsCfg rb =
     duplicate_identity_gate env (role_binding_kind env api) rb
       (find_older_role_binding_claim (namespace_local env) mdsCfg rb)
       (\<lambda>(x, key). (identity_text (cr_name (krs_clusterRef (kr_spec (crd_obj rb)))) ''binding'' key,
                    kr_meta (crd_obj x))) plain"

subsection \<open>Co-claimants of a resource being deleted\<close>

definition first_live_claimant ::
    "('o \<Rightarrow> object_meta) \<Rightarrow> ('o \<Rightarrow> 'o \<Rightarrow> bool) \<Rightarrow> ('o, 's) crd \<Rightarrow> ('o, 's) crd list \<Rightarrow> ('o, 's) crd option" where
  "first_live_claimant meta same obj items =
     find (\<lambda>x. other_live meta obj x \<and> same (crd_obj x) (crd_obj obj)) items"

text \<open>\<open>u\<close> is already defaulted; each candidate is defaulted before its mechanism is read.\<close>

definition same_user_credential :: "kafka_user \<Rightarrow> kafka_user \<Rightarrow> bool" where
  "same_user_credential other u \<longleftrightarrow>
     same_user_identity other u \<and> kus_mechanism (ku_spec (default_user other)) = kus_mechanism (ku_spec u)"

definition find_live_user_co_claimant ::
    "bool \<Rightarrow> (kafka_user, user_status) crd \<Rightarrow> ('w, kafka_user, user_status) lister \<Rightarrow> 'w \<Rightarrow>
     go_error + (kafka_user, user_status) crd option" where
  "find_live_user_co_claimant namespaceLocal u list w =
     and_then (listing_error ''KafkaUsers'' ''deletion co-claimant check''
         (list (list_scope namespaceLocal (om_namespace (ku_meta (crd_obj u)))) w))
       (\<lambda>items. Inr (first_live_claimant ku_meta same_user_credential u items))"

definition find_live_quota_co_claimant ::
    "bool \<Rightarrow> (kafka_quota, quota_status) crd \<Rightarrow> ('w, kafka_quota, quota_status) lister \<Rightarrow> 'w \<Rightarrow>
     go_error + (kafka_quota, quota_status) crd option" where
  "find_live_quota_co_claimant namespaceLocal q list w =
     and_then (listing_error ''KafkaQuotas'' ''deletion co-claimant check''
         (list (list_scope namespaceLocal (om_namespace (kq_meta (crd_obj q)))) w))
       (\<lambda>items. Inr (first_live_claimant kq_meta same_quota_identity q items))"

text \<open>The finalizers' recheck: only when the cached scan found nobody, that is before destroying state.\<close>

definition deletion_scan ::
    "('w, 'o, 's) kind_api \<Rightarrow> (('w, 'o, 's) lister \<Rightarrow> 'w \<Rightarrow> go_error + 'r option) \<Rightarrow> 'w \<Rightarrow>
     go_error + 'r option" where
  "deletion_scan api scan w =
     and_then (scan (ka_list api) w) (\<lambda>co.
       case ka_quorumList api of
         None \<Rightarrow> Inr co
       | Some quorum \<Rightarrow> (if co = None then scan quorum w else Inr co))"

subsection \<open>The contest\<close>

lemma older_irrefl [simp]: "\<not> older_identity_claim meta x x"
  by (simp add: older_identity_claim_def)

lemma older_trans:
  "older_identity_claim meta a b \<Longrightarrow> older_identity_claim meta b c \<Longrightarrow> older_identity_claim meta a c"
  by (auto simp: older_identity_claim_def split: if_splits)

lemma older_total:
  "claim_key meta a \<noteq> claim_key meta b \<Longrightarrow> older_identity_claim meta a b \<or> older_identity_claim meta b a"
  by (auto simp: older_identity_claim_def)

lemma older_asym: "older_identity_claim meta a b \<Longrightarrow> \<not> older_identity_claim meta b a"
  using older_trans older_irrefl by blast

text \<open>The scan returns a rival older than every other rival, and fails when no rival is older.\<close>

lemma oldest_of_Some:
  assumes "case winner of None \<Rightarrow> True | Some x \<Rightarrow> older_identity_claim meta x obj"
  shows "\<And>x. oldest_of meta obj winner rs = Some x \<Longrightarrow>
           (x \<in> set rs \<or> winner = Some x) \<and> older_identity_claim meta x obj \<and>
           (\<forall>r \<in> set rs. older_identity_claim meta r obj \<longrightarrow> \<not> older_identity_claim meta r x) \<and>
           (\<forall>y. winner = Some y \<longrightarrow> \<not> older_identity_claim meta y x)"
    and "oldest_of meta obj winner rs = None \<Longrightarrow>
           winner = None \<and> (\<forall>r \<in> set rs. \<not> older_identity_claim meta r obj)"
  using assms
proof (induction rs arbitrary: winner)
  case Nil
  { case 1 then show ?case by auto }
  { case 2 then show ?case by auto }
next
  case (Cons r rs)
  { case (1 x)
    show ?case
    proof (cases "older_identity_claim meta r obj \<and>
        (case winner of None \<Rightarrow> True | Some y \<Rightarrow> older_identity_claim meta r y)")
      case True
      with 1 have step: "oldest_of meta obj (Some r) rs = Some x" by (auto split: option.splits)
      from Cons.IH(1) [OF this] True have ih: "x \<in> set rs \<or> r = x" "older_identity_claim meta x obj"
          "\<forall>r' \<in> set rs. older_identity_claim meta r' obj \<longrightarrow> \<not> older_identity_claim meta r' x"
          "\<not> older_identity_claim meta r x"
        by auto
      have "\<not> older_identity_claim meta y x" if "winner = Some y" for y
        using ih(4) True that older_trans by force
      with ih show ?thesis by auto
    next
      case False
      with 1 have "oldest_of meta obj winner rs = Some x" by (auto split: if_splits option.splits)
      from Cons.IH(1) [OF this] 1 have ih: "x \<in> set rs \<or> winner = Some x" "older_identity_claim meta x obj"
          "\<forall>r' \<in> set rs. older_identity_claim meta r' obj \<longrightarrow> \<not> older_identity_claim meta r' x"
          "\<forall>y. winner = Some y \<longrightarrow> \<not> older_identity_claim meta y x"
        by auto
      have "\<not> older_identity_claim meta r x" if "older_identity_claim meta r obj"
      proof -
        from False that obtain y where y: "winner = Some y" "\<not> older_identity_claim meta r y"
          by (auto split: option.splits)
        show ?thesis
        proof
          assume rx: "older_identity_claim meta r x"
          have "\<not> older_identity_claim meta y x" using ih(4) y(1) by blast
          then have le: "claim_key meta x \<le> claim_key meta y \<or> crd_created x \<noteq> crd_created y"
              "crd_created x \<le> crd_created y"
            by (auto simp: older_identity_claim_def split: if_splits)
          then have "older_identity_claim meta r y"
            using rx by (auto simp: older_identity_claim_def split: if_splits)
          with y(2) show False by blast
        qed
      qed
      with ih show ?thesis by auto
    qed }
  { case 2
    then show ?case
      using Cons.IH(2) [of winner] Cons.IH(2) [of "Some r"] by (auto split: if_splits option.splits) }
qed

lemma oldest_rival_None_iff:
  "oldest_rival meta obj rs = None \<longleftrightarrow> (\<forall>r \<in> set rs. \<not> older_identity_claim meta r obj)"
proof
  show "oldest_rival meta obj rs = None \<Longrightarrow> \<forall>r \<in> set rs. \<not> older_identity_claim meta r obj"
    using oldest_of_Some(2) [where winner = None] by (auto simp: oldest_rival_def)
  assume *: "\<forall>r \<in> set rs. \<not> older_identity_claim meta r obj"
  show "oldest_rival meta obj rs = None"
  proof (cases "oldest_rival meta obj rs")
    case (Some x)
    then have "x \<in> set rs \<and> older_identity_claim meta x obj"
      using oldest_of_Some(1) [where winner = None and meta = meta and obj = obj and rs = rs] by (auto simp: oldest_rival_def)
    with * show ?thesis by blast
  qed
qed

lemma oldest_rival_SomeD:
  assumes "oldest_rival meta obj rs = Some x"
  shows "x \<in> set rs" "older_identity_claim meta x obj"
    "\<And>r. r \<in> set rs \<Longrightarrow> older_identity_claim meta r obj \<Longrightarrow> \<not> older_identity_claim meta r x"
  using oldest_of_Some(1) [where winner = None and meta = meta and obj = obj and rs = rs] assms by (auto simp: oldest_rival_def)

text \<open>Listed objects as the API server keeps them: UIDs and names in a namespace are unique.\<close>

definition well_listed :: "('o \<Rightarrow> object_meta) \<Rightarrow> ('o, 's) crd list \<Rightarrow> bool" where
  "well_listed meta items \<longleftrightarrow>
     distinct (map (\<lambda>x. om_uid (meta (crd_obj x))) items) \<and>
     distinct (map (\<lambda>x. (om_namespace (meta (crd_obj x)), om_name (meta (crd_obj x)))) items) \<and>
     (\<forall>x \<in> set items. CHR ''/'' \<notin> set (om_namespace (meta (crd_obj x))))"

lemma well_listed_uid:
  "well_listed meta items \<Longrightarrow> x \<in> set items \<Longrightarrow> y \<in> set items \<Longrightarrow>
   om_uid (meta (crd_obj x)) = om_uid (meta (crd_obj y)) \<longleftrightarrow> x = y"
  by (auto simp: well_listed_def distinct_map inj_on_def)

lemma slash_prefix_inject:
  "c \<notin> set a \<Longrightarrow> c \<notin> set a' \<Longrightarrow> a @ c # r = a' @ c # r' \<longleftrightarrow> a = a' \<and> r = r'"
  by (induction a arbitrary: a') (case_tac a'; auto)+

lemma well_listed_key:
  assumes "well_listed meta items" "x \<in> set items" "y \<in> set items" "x \<noteq> y"
  shows "claim_key meta x \<noteq> claim_key meta y"
proof
  assume "claim_key meta x = claim_key meta y"
  then have "(om_namespace (meta (crd_obj x)), om_name (meta (crd_obj x))) =
      (om_namespace (meta (crd_obj y)), om_name (meta (crd_obj y)))"
    using assms(1-3) slash_prefix_inject [of "CHR ''/''" "om_namespace (meta (crd_obj x))"
        "om_namespace (meta (crd_obj y))"]
    by (auto simp: claim_key_def well_listed_def)
  with assms show False by (auto simp: well_listed_def distinct_map inj_on_def)
qed

locale identity_contest =
  fixes meta :: "'o \<Rightarrow> object_meta" and same :: "'o \<Rightarrow> 'o \<Rightarrow> bool"
  assumes same_refl: "same a a"
    and same_sym: "same a b \<Longrightarrow> same b a"
    and same_trans: "same a b \<Longrightarrow> same b c \<Longrightarrow> same a c"
begin

definition claimants :: "('o, 's) crd \<Rightarrow> ('o, 's) crd list \<Rightarrow> ('o, 's) crd set" where
  "claimants x items = {y \<in> set items. \<not> crd_deleting y \<and> same (crd_obj y) (crd_obj x)}"

lemma rivals_claimants:
  "well_listed meta items \<Longrightarrow> x \<in> set items \<Longrightarrow> set (rivals_of meta same x items) = claimants x items - {x}"
  by (auto simp: rivals_of_def claimants_def other_live_def well_listed_uid)

lemma claimants_eq: "y \<in> claimants x items \<Longrightarrow> claimants y items = claimants x items"
  unfolding claimants_def using same_sym same_trans by blast

lemma claimants_self: "x \<in> set items \<Longrightarrow> \<not> crd_deleting x \<Longrightarrow> x \<in> claimants x items"
  by (simp add: claimants_def same_refl)

lemma oldest_claimant:
  assumes "well_listed meta items" "x \<in> set items" "\<not> crd_deleting x"
  obtains w where "w \<in> claimants x items"
    "\<And>y. y \<in> claimants x items \<Longrightarrow> y \<noteq> w \<Longrightarrow> older_identity_claim meta w y"
proof (cases "oldest_rival meta x (rivals_of meta same x items)")
  case None
  have "older_identity_claim meta x y" if "y \<in> claimants x items" "y \<noteq> x" for y
  proof -
    have "y \<in> set items" using that by (simp add: claimants_def)
    then have "claim_key meta x \<noteq> claim_key meta y" using that assms well_listed_key by metis
    moreover have "\<not> older_identity_claim meta y x"
      using None that assms by (simp add: oldest_rival_None_iff rivals_claimants)
    ultimately show ?thesis using older_total by blast
  qed
  with claimants_self assms that show ?thesis by metis
next
  case (Some w)
  note w = oldest_rival_SomeD [OF Some]
  have wc: "w \<in> claimants x items" using w(1) assms by (simp add: rivals_claimants)
  have "older_identity_claim meta w y" if "y \<in> claimants x items" "y \<noteq> w" for y
  proof -
    have "claim_key meta w \<noteq> claim_key meta y"
      using that wc assms(1) well_listed_key by (metis (mono_tags, lifting) claimants_def mem_Collect_eq)
    moreover have "\<not> older_identity_claim meta y w"
    proof
      assume yw: "older_identity_claim meta y w"
      then have yx: "older_identity_claim meta y x" using w(2) older_trans by blast
      then have "y \<noteq> x" by auto
      then have "y \<in> set (rivals_of meta same x items)" using that assms by (simp add: rivals_claimants)
      with w(3) yx yw show False by blast
    qed
    ultimately show ?thesis using older_total by blast
  qed
  with wc that show ?thesis by blast
qed

lemma contest_decided:
  assumes "well_listed meta items" "x \<in> set items" "\<not> crd_deleting x"
  shows "\<exists>!w. w \<in> claimants x items \<and>
    (\<forall>y \<in> claimants x items.
       oldest_rival meta y (rivals_of meta same y items) = (if y = w then None else Some w))"
proof -
  obtain w where w: "w \<in> claimants x items"
      "\<And>y. y \<in> claimants x items \<Longrightarrow> y \<noteq> w \<Longrightarrow> older_identity_claim meta w y"
    using oldest_claimant [OF assms] by blast
  have rivals: "set (rivals_of meta same y items) = claimants x items - {y}" if "y \<in> claimants x items" for y
  proof -
    have "y \<in> set items" using that by (simp add: claimants_def)
    then show ?thesis using rivals_claimants [OF assms(1)] claimants_eq [OF that] by metis
  qed
  have "oldest_rival meta w (rivals_of meta same w items) = None"
    using w rivals by (auto simp: oldest_rival_None_iff dest: older_asym)
  moreover have "oldest_rival meta y (rivals_of meta same y items) = Some w"
    if y: "y \<in> claimants x items" "y \<noteq> w" for y
  proof (cases "oldest_rival meta y (rivals_of meta same y items)")
    case None
    then show ?thesis using w y rivals by (auto simp: oldest_rival_None_iff)
  next
    case (Some v)
    note v = oldest_rival_SomeD [OF Some]
    have "v = w"
    proof (rule ccontr)
      assume "v \<noteq> w"
      then have "older_identity_claim meta w v" using v(1) w(2) rivals y by auto
      moreover have "w \<in> set (rivals_of meta same y items)" using w(1) rivals y by auto
      ultimately show False using v(3) w(2) y by blast
    qed
    with Some show ?thesis by simp
  qed
  ultimately have w_all: "w \<in> claimants x items \<and>
    (\<forall>y \<in> claimants x items.
       oldest_rival meta y (rivals_of meta same y items) = (if y = w then None else Some w))"
    using w(1) by simp
  show ?thesis
  proof (rule ex1I [of _ w], rule w_all)
    fix v assume v: "v \<in> claimants x items \<and>
      (\<forall>y \<in> claimants x items.
         oldest_rival meta y (rivals_of meta same y items) = (if y = v then None else Some v))"
    then show "v = w" using w_all by (metis option.distinct(1))
  qed
qed

end

interpretation topics: identity_contest kt_meta same_topic_identity
  by unfold_locales (auto simp: same_topic_identity_def)

interpretation quotas: identity_contest kq_meta same_quota_identity
  by unfold_locales (auto simp: same_quota_identity_def)

interpretation users: identity_contest ku_meta same_user_identity
  by unfold_locales (auto simp: same_user_identity_def)

text \<open>
  Two role bindings with a compiled binding in common have the same lock, provided no principal, role
  or scope type holds a NUL byte.
\<close>

definition nul_free_binding :: "kafka_role_binding \<Rightarrow> bool" where
  "nul_free_binding rb \<longleftrightarrow>
     nul_free (krs_principal (kr_spec rb)) \<and> nul_free (krs_role (kr_spec rb)) \<and>
     nul_free (rbs_type (krs_scope (kr_spec rb)))"

end
