(* ===== verification/Coowner_Shield.thy ===== *)
theory Coowner_Shield
  imports Operator_Api
begin

section \<open>Cluster-wide views and the deletion shield (aclview.go, rolebindingview.go, coownersummary.go)\<close>

text \<open>
  What the live resources of one KafkaCluster desire together: the union the engine prunes against, and
  the set a finalizer may not take from a surviving co-owner. The lemmas say what a shield keeps and
  what it removes.
\<close>

subsection \<open>Views\<close>

definition live_on :: "('o \<Rightarrow> string) \<Rightarrow> string \<Rightarrow> ('o, 's) crd list \<Rightarrow> 'o list" where
  "live_on ref clusterRefName items =
     map crd_obj (filter (\<lambda>x. ref (crd_obj x) = clusterRefName \<and> \<not> crd_deleting x) items)"

abbreviation topic_ref :: "kafka_topic \<Rightarrow> string" where
  "topic_ref t \<equiv> cr_name (kts_clusterRef (kt_spec t))"

abbreviation policy_ref :: "kafka_access_policy \<Rightarrow> string" where
  "policy_ref p \<equiv> cr_name (aps_clusterRef (ap_spec p))"

abbreviation role_binding_ref :: "kafka_role_binding \<Rightarrow> string" where
  "role_binding_ref b \<equiv> cr_name (krs_clusterRef (kr_spec b))"

text \<open>The listings the views read: topics, access policies and role bindings.\<close>

record 'w co_owners =
  co_topics :: "string option \<Rightarrow> ('w, (kafka_topic, topic_status) crd list) query"
  co_policies :: "string option \<Rightarrow> ('w, (kafka_access_policy, policy_status) crd list) query"
  co_roleBindings :: "string option \<Rightarrow> ('w, (kafka_role_binding, role_binding_status) crd list) query"

definition cluster_acl_view ::
    "'w co_owners \<Rightarrow> string \<Rightarrow> string \<Rightarrow> bool \<Rightarrow> kafka_cluster \<Rightarrow> ('w, cluster_acl_view) query" where
  "cluster_acl_view co clusterRefName clusterNS namespaceLocal cl w =
     (let scope = list_scope namespaceLocal clusterNS
      in and_then (prefixed_error ''listing KafkaTopics for cluster ACL view: '' (co_topics co scope w)) (\<lambda>ts.
         and_then (prefixed_error ''listing KafkaAccessPolicies for cluster ACL view: '' (co_policies co scope w)) (\<lambda>ps.
           Inr (build_cluster_acl_view (live_on topic_ref clusterRefName ts) (live_on policy_ref clusterRefName ps)
             (kcs_defaults (kc_spec cl)) (Some cl)))))"

definition view_role_bindings :: "mds_config \<Rightarrow> kafka_role_binding \<Rightarrow> role_binding list" where
  "view_role_bindings mds rb =
     (case rbac_compile rb mds of Inl _ \<Rightarrow> [] | Inr bs \<Rightarrow> stamp_rb_prune bs (krs_prune (kr_spec rb)))"

definition view_topic_bindings :: "(string \<Rightarrow> string) \<Rightarrow> mds_config \<Rightarrow> kafka_topic \<Rightarrow> role_binding list" where
  "view_topic_bindings quote mds tp =
     (case compile_topic_access quote tp mds of
        Inl _ \<Rightarrow> [] | Inr (bs, _) \<Rightarrow> stamp_rb_prune bs (kts_prune (kt_spec tp)))"

definition union_view :: "role_binding list \<Rightarrow> cluster_role_binding_view" where
  "union_view all =
     (let desired = fst (build_binding_set all)
      in \<lparr>crv_desiredBindings = desired, crv_desiredScope = build_rb_scope desired\<rparr>)"

definition cluster_role_binding_view ::
    "(string \<Rightarrow> string) \<Rightarrow> 'w co_owners \<Rightarrow> string \<Rightarrow> string \<Rightarrow> bool \<Rightarrow> mds_config option \<Rightarrow> kafka_cluster \<Rightarrow>
     ('w, cluster_role_binding_view) query" where
  "cluster_role_binding_view quote co clusterRefName clusterNS namespaceLocal mdsCfg cl w =
     (let scope = list_scope namespaceLocal clusterNS
      in and_then (prefixed_error ''listing KafkaRoleBindings for cluster role-binding view: ''
             (co_roleBindings co scope w)) (\<lambda>rbs.
           case mdsCfg of
             None \<Rightarrow> Inr (union_view [])
           | Some mds \<Rightarrow>
               (let own = concat (map (view_role_bindings mds) (live_on role_binding_ref clusterRefName rbs))
                in if \<not> has_access_backend (Some cl) ''rbac'' then Inr (union_view own)
                   else and_then (prefixed_error ''listing KafkaTopics for cluster role-binding view: ''
                          (co_topics co scope w)) (\<lambda>ts.
                     Inr (union_view (own @
                       concat (map (view_topic_bindings quote mds) (live_on topic_ref clusterRefName ts))))))))"

subsection \<open>Shields\<close>

definition subtract_protected :: "('a \<Rightarrow> string) \<Rightarrow> 'a list \<Rightarrow> 'a list \<Rightarrow> 'a list" where
  "subtract_protected key toDelete protect =
     (if toDelete = [] \<or> protect = [] then toDelete
      else filter (\<lambda>a. key a \<notin> key ` set protect) toDelete)"

definition retained_of :: "('a \<Rightarrow> string) \<Rightarrow> 'a list \<Rightarrow> 'a list \<Rightarrow> 'a list" where
  "retained_of key toDelete protect =
     (if toDelete = [] \<or> protect = [] then [] else filter (\<lambda>a. key a \<in> key ` set toDelete) protect)"

definition subtract_protected_acls :: "acl list \<Rightarrow> acl list \<Rightarrow> acl list" where
  "subtract_protected_acls = subtract_protected full_key"

definition retained_acls :: "acl list \<Rightarrow> acl list \<Rightarrow> acl list" where
  "retained_acls = retained_of full_key"

definition subtract_protected_role_bindings :: "role_binding list \<Rightarrow> role_binding list \<Rightarrow> role_binding list" where
  "subtract_protected_role_bindings = subtract_protected rb_full_key"

definition retained_role_bindings :: "role_binding list \<Rightarrow> role_binding list \<Rightarrow> role_binding list" where
  "retained_role_bindings = retained_of rb_full_key"

subsection \<open>Naming the co-owners\<close>

definition co_owner_name :: "string \<Rightarrow> string \<Rightarrow> string \<Rightarrow> string" where
  "co_owner_name kind ns name = kind @ ''/'' @ ns @ ''/'' @ name"

definition coOwnerNamesLimit :: nat where
  "coOwnerNamesLimit = 3"

definition co_owner_summary :: "string list \<Rightarrow> nat \<Rightarrow> string" where
  "co_owner_summary names limit =
     (if names = [] then []
      else let uniq = sort (nub names)
           in if length uniq \<le> limit then join '', '' uniq
              else join '', '' (take limit uniq) @ '', and '' @ nat_str (length uniq - limit) @ '' more'')"

definition acl_co_owner_summary :: "acl list \<Rightarrow> nat \<Rightarrow> string" where
  "acl_co_owner_summary retained limit =
     co_owner_summary (map (\<lambda>a. co_owner_name (acl_sourceKind a) (acl_sourceNamespace a) (acl_sourceName a)) retained)
       limit"

definition role_binding_co_owner_summary :: "role_binding list \<Rightarrow> nat \<Rightarrow> string" where
  "role_binding_co_owner_summary retained limit =
     co_owner_summary (map (\<lambda>b. co_owner_name (rb_sourceKind b) (rb_sourceNamespace b) (rb_sourceName b)) retained)
       limit"

definition acls_retained_message :: "nat \<Rightarrow> acl list \<Rightarrow> string" where
  "acls_retained_message shared retained =
     nat_str shared @ '' ACL(s) still desired by other live resources were retained on the cluster ('' @
     acl_co_owner_summary retained coOwnerNamesLimit @ '')''"

definition role_bindings_retained_message :: "nat \<Rightarrow> role_binding list \<Rightarrow> string" where
  "role_bindings_retained_message shared retained =
     nat_str shared @ '' MDS role binding(s) still desired by other live resources were retained ('' @
     role_binding_co_owner_summary retained coOwnerNamesLimit @ '')''"

text \<open>\<open>shieldACLDeletion\<close>: the tuples to delete and the event, if any.\<close>

definition shield_acl_deletion ::
    "'w co_owners \<Rightarrow> string \<Rightarrow> string \<Rightarrow> bool \<Rightarrow> kafka_cluster \<Rightarrow> acl list \<Rightarrow>
     ('w, acl list \<times> ctrl_note list) query" where
  "shield_acl_deletion co clusterRefName clusterNS namespaceLocal cl toDelete w =
     (if toDelete = [] then Inr ([], [])
      else and_then (prefixed_error ''building cluster ACL view for deletion (retry; not deleting ACLs blindly): ''
          (cluster_acl_view co clusterRefName clusterNS namespaceLocal cl w)) (\<lambda>view.
        let remaining = subtract_protected_acls toDelete (cav_desiredACLs view);
            shared = length toDelete - length remaining
        in Inr (remaining,
             if shared > 0 then
               [finalize_event ''Normal'' ''SharedACLsRetained''
                  (acls_retained_message shared (retained_acls toDelete (cav_desiredACLs view)))]
             else [])))"

subsection \<open>What a shield does\<close>

lemma set_subtract_protected:
  "set (subtract_protected key toDelete protect) = {a \<in> set toDelete. key a \<notin> key ` set protect}"
  by (auto simp: subtract_protected_def)

lemma set_retained_of:
  "set (retained_of key toDelete protect) = {a \<in> set protect. key a \<in> key ` set toDelete}"
  by (auto simp: retained_of_def)

lemma filter_shorter: "length (filter P xs) < length xs \<longleftrightarrow> (\<exists>x \<in> set xs. \<not> P x)"
  by (induction xs) (auto simp: le_imp_less_Suc length_filter_le)

lemma length_subtract_protected:
  "length (subtract_protected key toDelete protect) < length toDelete \<longleftrightarrow>
     (\<exists>a \<in> set toDelete. key a \<in> key ` set protect)"
  by (auto simp: subtract_protected_def filter_shorter)

lemma retained_nonempty_iff:
  "retained_of key toDelete protect \<noteq> [] \<longleftrightarrow>
     length (subtract_protected key toDelete protect) < length toDelete"
proof -
  have "retained_of key toDelete protect \<noteq> [] \<longleftrightarrow> set (retained_of key toDelete protect) \<noteq> {}" by simp
  also have "\<dots> \<longleftrightarrow> (\<exists>a \<in> set toDelete. key a \<in> key ` set protect)"
    unfolding set_retained_of by (simp add: set_eq_iff image_iff) metis
  finally show ?thesis by (simp add: length_subtract_protected)
qed

lemma shield_acl_deletion_sound:
  assumes "shield_acl_deletion co ref ns loc cl toDelete w = Inr (rest, notes)"
  shows "set rest \<subseteq> set toDelete"
    and "toDelete \<noteq> [] \<Longrightarrow> \<exists>view. cluster_acl_view co ref ns loc cl w = Inr view \<and>
           set rest = {a \<in> set toDelete. full_key a \<notin> full_key ` set (cav_desiredACLs view)}"
  using assms
  by (auto simp: shield_acl_deletion_def subtract_protected_acls_def set_subtract_protected and_then_def
      prefixed_error_def Let_def split: if_splits sum.splits)

end
