(* ===== verification/Controllers.thy ===== *)
theory Controllers
  imports Duplicate_Gate Coowner_Shield
begin

section \<open>The topic and access-policy controllers (kafkatopic_controller.go, kafkaaccesspolicy_controller.go)\<close>

text \<open>
  One \<open>Reconcile\<close> call of a controller: fetch the object and its cluster, the duplicate gate, the clients,
  then either the finalizer's clean-up or the views and the engine, and the status write.
\<close>

subsection \<open>Self-lockout warnings (lockout.go)\<close>

definition connecting_principal :: "'w kube_objects \<Rightarrow> kafka_cluster \<Rightarrow> 'w \<Rightarrow> string" where
  "connecting_principal ko cl w =
     (case kcs_auth (kc_spec cl) of
        None \<Rightarrow> []
      | Some au \<Rightarrow>
          (case au_scram au of
             None \<Rightarrow> []
           | Some scram \<Rightarrow>
               (if au_mechanism au = [] \<or> au_mechanism au = ''None'' then []
                else case k8s_resolve ko (om_namespace (kc_meta cl)) w (sa_username scram) of
                  Inl _ \<Rightarrow> []
                | Inr user \<Rightarrow> (if user = [] then [] else ''User:'' @ user))))"

definition warn_self_lockout ::
    "operator_env \<Rightarrow> 'w kube_objects \<Rightarrow> kafka_cluster \<Rightarrow> string \<Rightarrow> acl list \<Rightarrow> 'w \<Rightarrow> ctrl_note list" where
  "warn_self_lockout env ko cl mode desiredACLs w =
     (if mode \<noteq> ModeEnforce then []
      else let prin = connecting_principal ko cl w
           in if prin = [] then []
              else map (reconcile_event ''Warning'' ''SelfLockoutRisk'') (lockout_warnings (oe_quote env) desiredACLs prin))"

subsection \<open>Watched schema sources (schemaconfigmap.go)\<close>

definition SchemaSourceLabel :: string where
  "SchemaSourceLabel = ''gitops.monedula.dev/schema-source''"

definition config_map_name :: "value_from option \<Rightarrow> string list" where
  "config_map_name vf =
     (case Option.bind vf (\<lambda>v. vs_configMapKeyRef (vf_valueFrom v)) of
        None \<Rightarrow> [] | Some ref \<Rightarrow> (if skr_name ref = [] then [] else [skr_name ref]))"

definition schema_config_map_names :: "kafka_topic \<Rightarrow> string list" where
  "schema_config_map_names t =
     (case kts_schema (kt_spec t) of
        None \<Rightarrow> []
      | Some sc \<Rightarrow> nub (config_map_name (ts_keySchema sc) @ config_map_name (ts_valueSchema sc)))"

definition unlabelled_config_map :: "'w kube_objects \<Rightarrow> string \<Rightarrow> 'w \<Rightarrow> string \<Rightarrow> bool" where
  "unlabelled_config_map ko ns w n \<longleftrightarrow>
     (case ko_getConfigMap ko ns n w of
        Inl _ \<Rightarrow> False
      | Inr cm \<Rightarrow> mget (kcm_labels cm) SchemaSourceLabel \<noteq> Some ''true'')"

definition set_schema_source_unwatched_condition ::
    "operator_env \<Rightarrow> 'w kube_objects \<Rightarrow> kafka_topic \<Rightarrow> 'w \<Rightarrow> topic_status \<Rightarrow> topic_status" where
  "set_schema_source_unwatched_condition env ko t w st =
     (let unlabelled = filter (unlabelled_config_map ko (om_namespace (kt_meta t)) w) (schema_config_map_names t);
          gen = om_generation (kt_meta t)
      in if unlabelled = [] then
           set_cond ''SchemaSourceUnwatched'' False ''AllWatchedOrNone''
             ''all referenced schema ConfigMaps are watched (or none referenced)'' gen st
         else set_cond ''SchemaSourceUnwatched'' True ''ConfigMapNotLabeled''
             (''schema ConfigMap(s) '' @ join '', '' unlabelled @ '' lack the '' @ SchemaSourceLabel @ ''='' @
              oe_quote env ''true'' @ '' label; edits reconcile only at the periodic resync, not promptly'') gen st)"

subsection \<open>Topics: deletion\<close>

definition effective_deletion_policy :: "kafka_topic \<Rightarrow> cluster_defaults option \<Rightarrow> string" where
  "effective_deletion_policy t clusterDefaults =
     (if kts_deletionPolicy (kt_spec t) \<noteq> [] then kts_deletionPolicy (kt_spec t)
      else case clusterDefaults of
        None \<Rightarrow> ''Orphan''
      | Some d \<Rightarrow> (if cd_topicDeletionPolicy d \<noteq> [] then cd_topicDeletionPolicy d else ''Orphan''))"

definition delete_acl_list :: "'w admin_client \<Rightarrow> acl list \<Rightarrow> 'w act" where
  "delete_acl_list k acls w = (if acls = [] then (w, None) else ac_deleteACLs k (map acl_to_state acls) w)"

definition subject_deletion_failed :: "operator_env \<Rightarrow> message \<Rightarrow> ctrl_note" where
  "subject_deletion_failed env msg = finalize_event ''Warning'' ''SubjectDeletionFailed'' (render (oe_quote env) msg)"

fun delete_subjects :: "operator_env \<Rightarrow> 'w schema_client \<Rightarrow> string list \<Rightarrow> 'w \<Rightarrow> 'w \<times> ctrl_note list" where
  "delete_subjects env sr [] w = (w, [])"
| "delete_subjects env sr (s # ss) w =
     (case sc_deleteSubject sr s w of (w1, e) \<Rightarrow>
        case delete_subjects env sr ss w1 of (w2, ns) \<Rightarrow>
          (w2, (case e of None \<Rightarrow> []
                | Some err \<Rightarrow> [subject_deletion_failed env
                    ([T ''failed to delete schema registry subject '', T s, T '': ''] @ err)]) @ ns))"

text \<open>
  \<open>deleteTopicState\<close>: shielded ACLs, then the topic, then the schema subjects. The topic is defaulted with
  no cluster defaults.
\<close>

definition delete_topic_state ::
    "operator_env \<Rightarrow> 'w co_owners \<Rightarrow> 'w kube_objects \<Rightarrow> kafka_topic \<Rightarrow> kafka_cluster \<Rightarrow> string \<Rightarrow>
     'w admin_client \<Rightarrow> 'w schema_client option \<Rightarrow> 'w \<Rightarrow> 'w \<times> ctrl_note list \<times> go_error option" where
  "delete_topic_state env co ko t0 cl clusterNS k sr w =
     (let t = default_topic t0 None; desiredACLs = fst (build_acl_set (compile_topic t))
      in case shield_acl_deletion co (topic_ref t) clusterNS (namespace_local env) cl desiredACLs w of
           Inl e \<Rightarrow> (w, [], Some e)
         | Inr (remaining, notes) \<Rightarrow>
             (case delete_acl_list k remaining w of
                (w1, Some e) \<Rightarrow> (w1, notes, Some e)
              | (w1, None) \<Rightarrow>
                  (case ac_deleteTopic k (kts_topicName (kt_spec t)) w1 of
                     (w2, Some e) \<Rightarrow> (w2, notes, Some e)
                   | (w2, None) \<Rightarrow>
                       (case sr of
                          None \<Rightarrow> (w2, notes, None)
                        | Some c \<Rightarrow>
                            (if kts_schema (kt_spec t) = None then (w2, notes, None)
                             else case managed_subjects (engine_env env ko (om_namespace (kt_meta t)) w2) t of
                               Inl e \<Rightarrow> (w2, notes @ [subject_deletion_failed env
                                   (T ''could not compute managed subjects for deletion (schema body unresolvable): '' # e)],
                                   None)
                             | Inr subjs \<Rightarrow>
                                 (case delete_subjects env c subjs w2 of (w3, ns) \<Rightarrow> (w3, notes @ ns, None)))))))"

definition delete_not_approved :: "operator_env \<Rightarrow> string \<Rightarrow> 'w \<Rightarrow> 'w pass_result" where
  "delete_not_approved env what w =
     (w, [finalize_event ''Warning'' ''DeleteNotApproved''
        (''deletionPolicy=Delete requires approval; set annotation '' @ AnnotationAllowDelete @
         ''=true to delete '' @ what)], resync_outcome env)"

definition topic_deletion ::
    "operator_env \<Rightarrow> 'w co_owners \<Rightarrow> 'w kube_objects \<Rightarrow> ('w, kafka_topic, topic_status) kind_api \<Rightarrow>
     (kafka_topic, topic_status) crd \<Rightarrow> kafka_cluster \<Rightarrow> 'w admin_client \<Rightarrow> 'w schema_client option \<Rightarrow> 'w \<Rightarrow>
     'w pass_result" where
  "topic_deletion env co ko api x cl k sr w =
     (let t = crd_obj x; kd = topic_kind env api
      in if \<not> has_finalizer x then (w, [], Done)
         else if effective_deletion_policy t (kcs_defaults (kc_spec cl)) \<noteq> ''Delete'' then remove_finalizer kd x w
         else if annotation (kt_meta t) AnnotationAllowDelete \<noteq> ''true'' then
           delete_not_approved env ''the Kafka topic + ACLs'' w
         else case delete_topic_state env co ko t cl (cluster_namespace env (kt_meta t)) k sr w of
           (w', ns, Some e) \<Rightarrow>
             (w', ns @ [finalize_event ''Warning'' ''DeleteFailed'' (render (oe_quote env) e)], Failed e)
         | (w', ns, None) \<Rightarrow>
             with_notes (ns @ [finalize_event ''Normal'' ''Deleted''
                 ''topic, managed ACLs, and managed schema subjects deleted''])
               (remove_finalizer kd (x\<lparr>crd_obj := default_topic t None\<rparr>) w'))"

subsection \<open>Topics: the pass\<close>

definition drift_detected :: "topic_status \<Rightarrow> bool" where
  "drift_detected st \<longleftrightarrow> (case ktt_drift st of None \<Rightarrow> False | Some d \<Rightarrow> dr_detected d)"

definition cluster_mds :: "kafka_cluster \<Rightarrow> mds_config option" where
  "cluster_mds cl = Option.bind (kcs_authorization (kc_spec cl)) az_mds"

text \<open>The MDS client and view of an rbac cluster; the left value is the reason and the error.\<close>

definition topic_mds ::
    "operator_env \<Rightarrow> 'w co_owners \<Rightarrow> 'w client_factory \<Rightarrow> kafka_topic \<Rightarrow> kafka_cluster \<Rightarrow> 'w \<Rightarrow>
     string \<times> go_error + 'w mds_client option \<times> cluster_role_binding_view option" where
  "topic_mds env co cf t cl w =
     (if \<not> has_access_backend (Some cl) ''rbac'' then Inr (None, None)
      else case cf_mdsFor cf cl w of
        Inl e \<Rightarrow> Inl (''MDSClientFailed'', e)
      | Inr mc \<Rightarrow>
          (case cluster_role_binding_view (oe_quote env) co (topic_ref t) (cluster_namespace env (kt_meta t))
                  (namespace_local env) (cluster_mds cl) cl w of
             Inl e \<Rightarrow> Inl (''RoleBindingViewFailed'', e)
           | Inr v \<Rightarrow> Inr (mc, Some v)))"

text \<open>From the finalizer on: views, engine, conditions, status.\<close>

definition topic_engine ::
    "operator_env \<Rightarrow> 'w co_owners \<Rightarrow> 'w kube_objects \<Rightarrow> 'w client_factory \<Rightarrow>
     ('w, kafka_topic, topic_status) kind_api \<Rightarrow> kafka_cluster \<Rightarrow> 'w admin_client \<Rightarrow> 'w schema_client option \<Rightarrow>
     (kafka_topic, topic_status) crd \<Rightarrow> 'w \<Rightarrow> 'w pass_result" where
  "topic_engine env co ko cf api cl k sr x w =
     (let t = crd_obj x; kd = topic_kind env api; ns = om_namespace (kt_meta t)
      in case cluster_acl_view co (topic_ref t) (cluster_namespace env (kt_meta t)) (namespace_local env) cl w of
           Inl e \<Rightarrow> fail_pass env kd x ''ACLViewFailed'' e plain w
         | Inr view \<Rightarrow>
             (case topic_mds env co cf t cl w of
                Inl (reason, e) \<Rightarrow> fail_pass env kd x reason e plain w
              | Inr (mc, rbView) \<Rightarrow>
                  (case reconcile_topic (engine_env env ko ns w) t (Some cl) k sr (Some view) mc rbView w of
                     (w', st, rerr) \<Rightarrow>
                       let t' = prepared_topic t (Some cl);
                           st' = set_schema_source_unwatched_condition env ko t' w' st
                       in with_notes
                            (warn_self_lockout env ko cl (topic_mode t') (fst (build_acl_set (compile_topic t'))) w' @
                             [SetDrift ''kafkatopic'' ns (om_name (kt_meta t)) (drift_detected st)])
                            (finish_pass env kd x ''topic reconciled'' st' rerr w'))))"

definition topic_body ::
    "operator_env \<Rightarrow> 'w co_owners \<Rightarrow> 'w kube_objects \<Rightarrow> 'w client_factory \<Rightarrow>
     ('w, kafka_topic, topic_status) kind_api \<Rightarrow> (kafka_topic, topic_status) crd \<Rightarrow> kafka_cluster \<Rightarrow> 'w \<Rightarrow>
     'w pass_result" where
  "topic_body env co ko cf api x cl w =
     (let kd = topic_kind env api
      in case (if crd_deleting x then None else topic_gate env api x w) of
           Some r \<Rightarrow> r
         | None \<Rightarrow>
             (case cf_for cf cl w of
                Inl e \<Rightarrow>
                  (if crd_deleting x then unreachable_deletion kd x w
                   else fail_pass env kd x ''ClientsBuildFailed'' e plain w)
              | Inr (k, sr) \<Rightarrow>
                  (if crd_deleting x then topic_deletion env co ko api x cl k sr w
                   else ensure_finalizer kd x (topic_engine env co ko cf api cl k sr) w)))"

definition topic_pass ::
    "operator_env \<Rightarrow> 'w co_owners \<Rightarrow> 'w kube_objects \<Rightarrow> 'w client_factory \<Rightarrow>
     ('w, kafka_topic, topic_status) kind_api \<Rightarrow> string \<Rightarrow> string \<Rightarrow> 'w \<Rightarrow> 'w pass_result" where
  "topic_pass env co ko cf api ns name =
     start_pass env (topic_kind env api) ko True ns name (topic_body env co ko cf api)"

subsection \<open>Access policies\<close>

definition delete_policy_acls ::
    "operator_env \<Rightarrow> 'w co_owners \<Rightarrow> kafka_access_policy \<Rightarrow> kafka_cluster \<Rightarrow> string \<Rightarrow> 'w admin_client \<Rightarrow> 'w \<Rightarrow>
     'w \<times> ctrl_note list \<times> go_error option" where
  "delete_policy_acls env co pol cl clusterNS k w =
     (case shield_acl_deletion co (policy_ref pol) clusterNS (namespace_local env) cl
             (fst (build_acl_set (compile_policy pol))) w of
        Inl e \<Rightarrow> (w, [], Some e)
      | Inr (remaining, notes) \<Rightarrow>
          (case delete_acl_list k remaining w of (w', e) \<Rightarrow> (w', notes, e)))"

definition policy_deletion ::
    "operator_env \<Rightarrow> 'w co_owners \<Rightarrow> ('w, kafka_access_policy, policy_status) kind_api \<Rightarrow>
     (kafka_access_policy, policy_status) crd \<Rightarrow> kafka_cluster \<Rightarrow> 'w admin_client \<Rightarrow> 'w \<Rightarrow> 'w pass_result" where
  "policy_deletion env co api x cl k w =
     (let pol = crd_obj x; kd = policy_kind env api;
          policy = (if aps_deletionPolicy (ap_spec pol) = [] then ''Delete'' else aps_deletionPolicy (ap_spec pol))
      in if \<not> has_finalizer x then (w, [], Done)
         else if policy \<noteq> ''Delete'' then remove_finalizer kd x w
         else if annotation (ap_meta pol) AnnotationAllowDelete \<noteq> ''true'' then
           delete_not_approved env (''the policy'' @ [CHR 0x27] @ ''s managed ACLs'') w
         else case delete_policy_acls env co pol cl (cluster_namespace env (ap_meta pol)) k w of
           (w', ns, Some e) \<Rightarrow>
             (w', ns @ [finalize_event ''Warning'' ''DeleteFailed'' (render (oe_quote env) e)], Failed e)
         | (w', ns, None) \<Rightarrow>
             with_notes (ns @ [finalize_event ''Normal'' ''Deleted'' ''managed ACLs deleted''])
               (remove_finalizer kd x w'))"

definition policy_engine ::
    "operator_env \<Rightarrow> 'w co_owners \<Rightarrow> 'w kube_objects \<Rightarrow> ('w, kafka_access_policy, policy_status) kind_api \<Rightarrow>
     kafka_cluster \<Rightarrow> 'w admin_client \<Rightarrow> (kafka_access_policy, policy_status) crd \<Rightarrow> 'w \<Rightarrow> 'w pass_result" where
  "policy_engine env co ko api cl k x w =
     (let pol = crd_obj x; kd = policy_kind env api; ns = om_namespace (ap_meta pol)
      in case cluster_acl_view co (policy_ref pol) (cluster_namespace env (ap_meta pol)) (namespace_local env) cl w of
           Inl e \<Rightarrow> fail_pass env kd x ''ACLViewFailed'' e plain w
         | Inr view \<Rightarrow>
             (case reconcile_policy (engine_env env ko ns w) pol (Some cl) k (Some view) w of
                (w', st, rerr) \<Rightarrow>
                  let pol' = prepared_policy pol
                  in with_notes
                       (warn_self_lockout env ko cl (policy_mode pol') (fst (build_acl_set (compile_policy pol'))) w' @
                        [SetDrift ''kafkaaccesspolicy'' ns (om_name (ap_meta pol))
                           (case kpt_drift st of None \<Rightarrow> False | Some d \<Rightarrow> dr_detected d)])
                       (finish_pass env kd x ''access policy reconciled'' st rerr w')))"

definition policy_body ::
    "operator_env \<Rightarrow> 'w co_owners \<Rightarrow> 'w kube_objects \<Rightarrow> 'w client_factory \<Rightarrow>
     ('w, kafka_access_policy, policy_status) kind_api \<Rightarrow> (kafka_access_policy, policy_status) crd \<Rightarrow>
     kafka_cluster \<Rightarrow> 'w \<Rightarrow> 'w pass_result" where
  "policy_body env co ko cf api x cl w =
     (let kd = policy_kind env api
      in case cf_for cf cl w of
           Inl e \<Rightarrow>
             (if crd_deleting x then unreachable_deletion kd x w
              else fail_pass env kd x ''ClientsBuildFailed'' e plain w)
         | Inr (k, _) \<Rightarrow>
             (if crd_deleting x then policy_deletion env co api x cl k w
              else ensure_finalizer kd x (policy_engine env co ko api cl k) w))"

definition policy_pass ::
    "operator_env \<Rightarrow> 'w co_owners \<Rightarrow> 'w kube_objects \<Rightarrow> 'w client_factory \<Rightarrow>
     ('w, kafka_access_policy, policy_status) kind_api \<Rightarrow> string \<Rightarrow> string \<Rightarrow> 'w \<Rightarrow> 'w pass_result" where
  "policy_pass env co ko cf api ns name =
     start_pass env (policy_kind env api) ko False ns name (policy_body env co ko cf api)"

end
