(* ===== verification/Controllers_Kinds.thy ===== *)
theory Controllers_Kinds
  imports Controllers
begin

section \<open>The quota, role-binding, user and cluster controllers (internal/operator/controller)\<close>

text \<open>
  \<^verbatim>\<open>kafkaquota_controller.go\<close>, \<^verbatim>\<open>kafkarolebinding_controller.go\<close>, \<^verbatim>\<open>kafkauser_controller.go\<close> with its Secret
  store, and \<^verbatim>\<open>kafkacluster_controller.go\<close>.
\<close>

subsection \<open>Quotas\<close>

definition all_quota_keys :: "string list" where
  "all_quota_keys = [''producer_byte_rate'', ''consumer_byte_rate'', ''request_percentage'', ''controller_mutation_rate'']"

definition quota_left_message :: "kafka_quota \<Rightarrow> object_meta \<Rightarrow> message" where
  "quota_left_message q co =
     [T ''managed quota for entity '', Q (resolved_entity_key q), T '' left in place: live KafkaQuota '',
      T (om_namespace co), T ''/'', T (om_name co), T '' still claims it and keeps managing it'']"

definition delete_managed_quota :: "operator_env \<Rightarrow> kafka_quota \<Rightarrow> 'w admin_client \<Rightarrow> 'w \<Rightarrow> 'w \<times> ctrl_note list" where
  "delete_managed_quota env q k w =
     (let comps = quota_entity_components (dq_entity (quota_compile q))
      in if comps = [] then (w, [])
         else case ac_deleteQuota k comps all_quota_keys w of
           (w', Some e) \<Rightarrow>
             (w', [finalize_event ''Warning'' ''QuotaDeletionFailed''
                (render (oe_quote env) (T ''failed to delete managed quota: '' # e))])
         | (w', None) \<Rightarrow> (w', [finalize_event ''Normal'' ''Deleted'' ''managed quota deleted'']))"

text \<open>A scan that fails retains the finalizer; a surviving claimant takes over the quota as it is.\<close>

definition quota_deletion ::
    "operator_env \<Rightarrow> ('w, kafka_quota, quota_status) kind_api \<Rightarrow> (kafka_quota, quota_status) crd \<Rightarrow>
     'w admin_client \<Rightarrow> 'w \<Rightarrow> 'w pass_result" where
  "quota_deletion env api x k w =
     (let q = crd_obj x; kd = quota_kind env api
      in if \<not> has_finalizer x then (w, [], Done)
         else case deletion_scan api (find_live_quota_co_claimant (namespace_local env) x) w of
           Inl e \<Rightarrow> (w, [finalize_event ''Warning'' ''DuplicateCheckFailed'' (render (oe_quote env) e)], Failed e)
         | Inr (Some co) \<Rightarrow>
             with_notes [finalize_event ''Normal'' ''OrphanedToCoClaimant''
                 (render (oe_quote env) (quota_left_message q (kq_meta (crd_obj co))))]
               (remove_finalizer kd x w)
         | Inr None \<Rightarrow>
             (case delete_managed_quota env q k w of
                (w', ns) \<Rightarrow> with_notes ns (remove_finalizer kd x w')))"

definition quota_engine ::
    "operator_env \<Rightarrow> 'w kube_objects \<Rightarrow> ('w, kafka_quota, quota_status) kind_api \<Rightarrow> kafka_cluster \<Rightarrow>
     'w admin_client \<Rightarrow> (kafka_quota, quota_status) crd \<Rightarrow> 'w \<Rightarrow> 'w pass_result" where
  "quota_engine env ko api cl k x w =
     (let q = crd_obj x; ns = om_namespace (kq_meta q)
      in case reconcile_quota (engine_env env ko ns w) q (Some cl) k w of
           (w', st, rerr) \<Rightarrow>
             with_notes [SetDrift ''kafkaquota'' ns (om_name (kq_meta q))
                 (case kqt_drift st of None \<Rightarrow> False | Some d \<Rightarrow> dr_detected d)]
               (finish_pass env (quota_kind env api) x ''quota reconciled'' st rerr w'))"

definition quota_body ::
    "operator_env \<Rightarrow> 'w kube_objects \<Rightarrow> 'w client_factory \<Rightarrow> ('w, kafka_quota, quota_status) kind_api \<Rightarrow>
     (kafka_quota, quota_status) crd \<Rightarrow> kafka_cluster \<Rightarrow> 'w \<Rightarrow> 'w pass_result" where
  "quota_body env ko cf api x cl w =
     (let kd = quota_kind env api
      in case (if crd_deleting x then None else quota_gate env api x w) of
           Some r \<Rightarrow> r
         | None \<Rightarrow>
             (case cf_for cf cl w of
                Inl e \<Rightarrow>
                  (if crd_deleting x then unreachable_deletion kd x w
                   else fail_pass env kd x ''ClientsBuildFailed'' e plain w)
              | Inr (k, _) \<Rightarrow>
                  (if crd_deleting x then quota_deletion env api x k w
                   else ensure_finalizer kd x (quota_engine env ko api cl k) w)))"

definition quota_pass ::
    "operator_env \<Rightarrow> 'w kube_objects \<Rightarrow> 'w client_factory \<Rightarrow> ('w, kafka_quota, quota_status) kind_api \<Rightarrow>
     string \<Rightarrow> string \<Rightarrow> 'w \<Rightarrow> 'w pass_result" where
  "quota_pass env ko cf api ns name =
     start_pass env (quota_kind env api) ko True ns name (quota_body env ko cf api)"

subsection \<open>Role bindings\<close>

definition deletion_failed :: "operator_env \<Rightarrow> 'w \<Rightarrow> ctrl_note list \<Rightarrow> message \<Rightarrow> 'w pass_result" where
  "deletion_failed env w ns msg =
     (w, ns @ [finalize_event ''Warning'' ''DeletionFailed'' (render (oe_quote env) msg)], Failed msg)"

fun remove_bindings :: "'w mds_client \<Rightarrow> role_binding list \<Rightarrow> 'w act" where
  "remove_bindings c [] w = (w, None)"
| "remove_bindings c (b # bs) w =
     (case mc_removeRoleBinding c (to_mds b) w of
        (w', Some e) \<Rightarrow> (w', Some e)
      | (w', None) \<Rightarrow> remove_bindings c bs w')"

definition role_binding_cleanup ::
    "operator_env \<Rightarrow> 'w co_owners \<Rightarrow> kafka_role_binding \<Rightarrow> kafka_cluster \<Rightarrow> mds_config \<Rightarrow> 'w mds_client \<Rightarrow> 'w \<Rightarrow>
     'w pass_result + 'w \<times> ctrl_note list" where
  "role_binding_cleanup env co rb cl mds c w =
     (case rbac_compile rb mds of
        Inl e \<Rightarrow> Inl (deletion_failed env w [] (T ''failed to compile role bindings for deletion: '' # rbac_error_text e))
      | Inr compiled \<Rightarrow>
          (case cluster_role_binding_view (oe_quote env) co (role_binding_ref rb)
                  (cluster_namespace env (kr_meta rb)) (namespace_local env) (Some mds) cl w of
             Inl e \<Rightarrow> Inl (deletion_failed env w []
               (T ''building cluster role-binding view for deletion (retry; not removing bindings blindly): '' # e))
           | Inr view \<Rightarrow>
               (let remaining = subtract_protected_role_bindings compiled (crv_desiredBindings view);
                    shared = length compiled - length remaining;
                    ns = (if shared > 0 then
                       [finalize_event ''Normal'' ''SharedRoleBindingsRetained''
                          (role_bindings_retained_message shared
                             (retained_role_bindings compiled (crv_desiredBindings view)))] else [])
                in case remove_bindings c remaining w of
                     (w', Some e) \<Rightarrow> Inl (deletion_failed env w' ns (T ''failed to remove MDS role binding: '' # e))
                   | (w', None) \<Rightarrow>
                       Inr (w', ns @ [finalize_event ''Normal'' ''Deleted'' ''managed MDS role bindings removed'']))))"

definition role_binding_deletion ::
    "operator_env \<Rightarrow> 'w co_owners \<Rightarrow> ('w, kafka_role_binding, role_binding_status) kind_api \<Rightarrow>
     (kafka_role_binding, role_binding_status) crd \<Rightarrow> kafka_cluster \<Rightarrow> 'w mds_client \<Rightarrow> 'w \<Rightarrow> 'w pass_result" where
  "role_binding_deletion env co api x cl c w =
     (let rb = default_role_binding (crd_obj x); kd = role_binding_kind env api; x' = x\<lparr>crd_obj := rb\<rparr>
      in if \<not> has_finalizer x then (w, [], Done)
         else if krs_deletionPolicy (kr_spec rb) \<noteq> ''Delete'' then remove_finalizer kd x' w
         else case cluster_mds cl of
           None \<Rightarrow>
             with_notes [finalize_event ''Warning'' ''DeletionSkipped''
                 ''deletionPolicy=Delete but cluster has no authorization.mds; skipping MDS cleanup'']
               (remove_finalizer kd x' w)
         | Some mds \<Rightarrow>
             (case role_binding_cleanup env co rb cl mds c w of
                Inl r \<Rightarrow> r
              | Inr (w', ns) \<Rightarrow> with_notes ns (remove_finalizer kd x' w')))"

definition role_binding_engine ::
    "operator_env \<Rightarrow> 'w co_owners \<Rightarrow> 'w kube_objects \<Rightarrow>
     ('w, kafka_role_binding, role_binding_status) kind_api \<Rightarrow> kafka_cluster \<Rightarrow> 'w admin_client \<Rightarrow> 'w mds_client \<Rightarrow>
     (kafka_role_binding, role_binding_status) crd \<Rightarrow> 'w \<Rightarrow> 'w pass_result" where
  "role_binding_engine env co ko api cl k c x w =
     (let rb = crd_obj x; kd = role_binding_kind env api; ns = om_namespace (kr_meta rb)
      in case cluster_role_binding_view (oe_quote env) co (role_binding_ref rb) (cluster_namespace env (kr_meta rb))
                (namespace_local env) (cluster_mds cl) cl w of
           Inl e \<Rightarrow> fail_pass env kd x ''RoleBindingViewFailed'' e plain w
         | Inr view \<Rightarrow>
             (case reconcile_role_binding (engine_env env ko ns w) rb (Some cl) k c (Some view) w of
                (w', st, rerr) \<Rightarrow>
                  with_notes [SetDrift ''kafkarolebinding'' ns (om_name (kr_meta rb)) (st_phase st = ''Drifted'')]
                    (finish_pass env kd x ''role bindings reconciled'' st rerr w')))"

definition mds_unreachable :: "operator_env \<Rightarrow> go_error \<Rightarrow> int \<Rightarrow> 'a base_status_scheme \<Rightarrow> 'a base_status_scheme" where
  "mds_unreachable env e gen = set_cond ''MDSReachable'' False ''MDSClientFailed'' (render (oe_quote env) e) gen"

text \<open>
  \<open>k\<close> is the admin client field of the executor's clients, nil in the code: no operation of this diff
  reaches it.
\<close>

definition role_binding_body ::
    "operator_env \<Rightarrow> 'w co_owners \<Rightarrow> 'w kube_objects \<Rightarrow> 'w client_factory \<Rightarrow> 'w admin_client \<Rightarrow>
     ('w, kafka_role_binding, role_binding_status) kind_api \<Rightarrow> (kafka_role_binding, role_binding_status) crd \<Rightarrow>
     kafka_cluster \<Rightarrow> 'w \<Rightarrow> 'w pass_result" where
  "role_binding_body env co ko cf k api x cl w =
     (let kd = role_binding_kind env api
      in case (if crd_deleting x then None else role_binding_gate env api (cluster_mds cl) x w) of
           Some r \<Rightarrow> r
         | None \<Rightarrow>
             (case cf_mdsFor cf cl w of
                Inl e \<Rightarrow>
                  (if crd_deleting x then unreachable_deletion kd x w
                   else fail_pass env kd x ''MDSClientFailed'' e (mds_unreachable env e) w)
              | Inr None \<Rightarrow>
                  (if crd_deleting x then remove_finalizer kd x w
                   else terminal_pass env kd x ''MDSNotConfigured'' ''cluster has no authorization.mds configured''
                     [] plain w)
              | Inr (Some c) \<Rightarrow>
                  (if crd_deleting x then role_binding_deletion env co api x cl c w
                   else ensure_finalizer kd x (role_binding_engine env co ko api cl k c) w)))"

definition role_binding_pass ::
    "operator_env \<Rightarrow> 'w co_owners \<Rightarrow> 'w kube_objects \<Rightarrow> 'w client_factory \<Rightarrow> 'w admin_client \<Rightarrow>
     ('w, kafka_role_binding, role_binding_status) kind_api \<Rightarrow> string \<Rightarrow> string \<Rightarrow> 'w \<Rightarrow> 'w pass_result" where
  "role_binding_pass env co ko cf k api ns name =
     start_pass env (role_binding_kind env api) ko True ns name (role_binding_body env co ko cf k api)"

subsection \<open>The user's Secret store\<close>

definition CredentialSourceLabel :: string where
  "CredentialSourceLabel = ''gitops.monedula.dev/credential-source''"

definition put_label :: "string \<Rightarrow> string \<Rightarrow> (string, string) gomap \<Rightarrow> (string, string) gomap" where
  "put_label key v m = (key, v) # filter (\<lambda>p. fst p \<noteq> key) m"

definition controlled_by :: "kube_secret \<Rightarrow> kafka_user \<Rightarrow> bool" where
  "controlled_by sec u \<longleftrightarrow> ksec_controllerUID sec = Some (om_uid (ku_meta u))"

definition user_get_secret :: "'w kube_objects \<Rightarrow> kafka_user \<Rightarrow> string \<Rightarrow> ('w, password_secret option) query" where
  "user_get_secret ko u name w =
     (case ko_getSecret ko (om_namespace (ku_meta u)) name w of
        Inl (NotFound _) \<Rightarrow> Inr None
      | Inl (GetError e) \<Rightarrow> Inl e
      | Inr sec \<Rightarrow>
          Inr (Some \<lparr>psec_data = ksec_data sec, psec_resourceVersion = ksec_resourceVersion sec,
            psec_owned = controlled_by sec u\<rparr>))"

definition user_create_secret :: "'w kube_objects \<Rightarrow> kafka_user \<Rightarrow> string \<Rightarrow> (string, string) gomap \<Rightarrow> 'w act" where
  "user_create_secret ko u name data =
     ko_createSecret ko (om_namespace (ku_meta u)) name
       \<lparr>ksec_data = data, ksec_resourceVersion = [], ksec_controllerUID = Some (om_uid (ku_meta u)),
        ksec_labels = [(CredentialSourceLabel, ''true'')]\<rparr>"

definition user_update_secret :: "'w kube_objects \<Rightarrow> kafka_user \<Rightarrow> string \<Rightarrow> (string, string) gomap \<Rightarrow> 'w act" where
  "user_update_secret ko u name data w =
     (case ko_getSecret ko (om_namespace (ku_meta u)) name w of
        Inl e \<Rightarrow> (w, Some (get_error_text e))
      | Inr sec \<Rightarrow>
          (if \<not> controlled_by sec u then
             (w, Some [T ''secret '', Q name, T '' is not owned by KafkaUser '', T (om_namespace (ku_meta u)), T ''/'',
                T (om_name (ku_meta u)), T ''; refusing to update''])
           else ko_updateSecret ko (om_namespace (ku_meta u)) name
             (sec\<lparr>ksec_data := data, ksec_labels := put_label CredentialSourceLabel ''true'' (ksec_labels sec)\<rparr>) w))"

definition user_secret_store :: "'w kube_objects \<Rightarrow> kafka_user \<Rightarrow> 'w secret_store" where
  "user_secret_store ko u =
     \<lparr>pss_getSecret = user_get_secret ko u, pss_createOwnedSecret = user_create_secret ko u,
      pss_updateOwnedSecret = user_update_secret ko u\<rparr>"

subsection \<open>Users\<close>

definition credential_left_message :: "kafka_user \<Rightarrow> object_meta \<Rightarrow> message" where
  "credential_left_message u co =
     [T ''SCRAM credential '', Q (kus_username (ku_spec u)), T '' ('', T (kus_mechanism (ku_spec u)),
      T '') left in place: live KafkaUser '', T (om_namespace co), T ''/'', T (om_name co),
      T '' still claims it and keeps managing it'']"

definition user_deletion ::
    "operator_env \<Rightarrow> ('w, kafka_user, user_status) kind_api \<Rightarrow> (kafka_user, user_status) crd \<Rightarrow>
     'w admin_client \<Rightarrow> 'w \<Rightarrow> 'w pass_result" where
  "user_deletion env api x k w =
     (let u = default_user (crd_obj x); kd = user_kind env api; x' = x\<lparr>crd_obj := u\<rparr>
      in if \<not> has_finalizer x then (w, [], Done)
         else if kus_deletionPolicy (ku_spec u) \<noteq> ''Delete'' then remove_finalizer kd x' w
         else case deletion_scan api (find_live_user_co_claimant (namespace_local env) x') w of
           Inl e \<Rightarrow> (w, [finalize_event ''Warning'' ''DuplicateCheckFailed'' (render (oe_quote env) e)], Failed e)
         | Inr (Some co) \<Rightarrow>
             with_notes [finalize_event ''Normal'' ''OrphanedToCoClaimant''
                 (render (oe_quote env) (credential_left_message u (ku_meta (crd_obj co))))]
               (remove_finalizer kd x' w)
         | Inr None \<Rightarrow>
             (case ac_deleteScram k (kus_username (ku_spec u)) (kus_mechanism (ku_spec u)) w of
                (w', Some e) \<Rightarrow>
                  with_notes [finalize_event ''Warning'' ''CredentialDeletionFailed''
                      (render (oe_quote env) (T ''failed to delete SCRAM credential: '' # e))]
                    (remove_finalizer kd x' w')
              | (w', None) \<Rightarrow>
                  with_notes [finalize_event ''Normal'' ''Deleted'' ''SCRAM credential deleted'']
                    (remove_finalizer kd x' w')))"

text \<open>\<open>userDriftDetected\<close> reads the condition the engine's status ends up with.\<close>

definition user_drift_detected :: "operator_env \<Rightarrow> (kafka_user, user_status) crd \<Rightarrow> user_status \<Rightarrow> bool" where
  "user_drift_detected env x st \<longleftrightarrow>
     (case find (\<lambda>c. cn_type c = ''DriftDetected'') (snd (to_stored env (stored_conditions x) st)) of
        None \<Rightarrow> False | Some c \<Rightarrow> cn_status c)"

definition user_engine ::
    "operator_env \<Rightarrow> 'w kube_objects \<Rightarrow> go_error + string \<Rightarrow> ('w, kafka_user, user_status) kind_api \<Rightarrow>
     kafka_cluster \<Rightarrow> 'w admin_client \<Rightarrow> (kafka_user, user_status) crd \<Rightarrow> 'w \<Rightarrow> 'w pass_result" where
  "user_engine env ko random api cl k x w =
     (let u = crd_obj x; ns = om_namespace (ku_meta u)
      in case reconcile_user (engine_env env ko ns w) random u (map_option fst (crd_status x)) (Some cl) k
                (user_secret_store ko u) w of
           (w', st, rerr) \<Rightarrow>
             with_notes [SetDrift ''kafkauser'' ns (om_name (ku_meta u)) (user_drift_detected env x st)]
               (finish_pass env (user_kind env api) x ''user reconciled'' st rerr w'))"

definition user_body ::
    "operator_env \<Rightarrow> 'w kube_objects \<Rightarrow> 'w client_factory \<Rightarrow> go_error + string \<Rightarrow>
     ('w, kafka_user, user_status) kind_api \<Rightarrow> (kafka_user, user_status) crd \<Rightarrow> kafka_cluster \<Rightarrow> 'w \<Rightarrow>
     'w pass_result" where
  "user_body env ko cf random api x cl w =
     (let kd = user_kind env api
      in case (if crd_deleting x then None else user_gate env api x w) of
           Some r \<Rightarrow> r
         | None \<Rightarrow>
             (case cf_for cf cl w of
                Inl e \<Rightarrow>
                  (if crd_deleting x then unreachable_deletion kd x w
                   else fail_pass env kd x ''ClientsBuildFailed'' e plain w)
              | Inr (k, _) \<Rightarrow>
                  (if crd_deleting x then user_deletion env api x k w
                   else ensure_finalizer kd x (user_engine env ko random api cl k) w)))"

definition user_pass ::
    "operator_env \<Rightarrow> 'w kube_objects \<Rightarrow> 'w client_factory \<Rightarrow> go_error + string \<Rightarrow>
     ('w, kafka_user, user_status) kind_api \<Rightarrow> string \<Rightarrow> string \<Rightarrow> 'w \<Rightarrow> 'w pass_result" where
  "user_pass env ko cf random api ns name =
     start_pass env (user_kind env api) ko True ns name (user_body env ko cf random api)"

end
