(* ===== verification/Watches.thy ===== *)
theory Watches
  imports Controllers_Kinds
begin

section \<open>The cluster controller and the watches (kafkacluster_controller.go, secret.go, clusterwatch.go)\<close>

text \<open>
  The readiness probe of a KafkaCluster, and the map functions that turn a changed Secret, ConfigMap or
  KafkaCluster into the requests of the resources that depend on it. A \<open>List\<close> with a field index
  (\<open>client.MatchingFields\<close>) is the listing filtered by the index function registered for it.
\<close>

subsection \<open>Referenced Secrets\<close>

definition ref_name :: "secret_key_ref option \<Rightarrow> string list" where
  "ref_name r = (case r of None \<Rightarrow> [] | Some x \<Rightarrow> [skr_name x])"

definition vf_secret :: "value_from option \<Rightarrow> string list" where
  "vf_secret vf = ref_name (Option.bind vf (\<lambda>v. vs_secretKeyRef (vf_valueFrom v)))"

definition tls_secrets :: "tls_config option \<Rightarrow> string list" where
  "tls_secrets t =
     (case t of None \<Rightarrow> []
      | Some c \<Rightarrow> vf_secret (tls_caCert c) @ vf_secret (tls_clientCert c) @ vf_secret (tls_clientKey c))"

definition auth_secrets :: "auth_config option \<Rightarrow> string list" where
  "auth_secrets a =
     (case a of None \<Rightarrow> []
      | Some c \<Rightarrow>
          (case au_scram c of None \<Rightarrow> []
           | Some s \<Rightarrow> vf_secret (Some (sa_username s)) @ vf_secret (Some (sa_password s))) @
          (case au_oauth c of None \<Rightarrow> []
           | Some oa \<Rightarrow> vf_secret (Some (oa_clientID oa)) @ vf_secret (Some (oa_clientSecret oa)) @
               vf_secret (oa_tokenEndpointCA oa)))"

definition registry_secrets :: "schema_registry_conf option \<Rightarrow> string list" where
  "registry_secrets r =
     (case r of None \<Rightarrow> []
      | Some c \<Rightarrow>
          (case src_auth c of None \<Rightarrow> []
           | Some a \<Rightarrow> vf_secret (Some (sra_username a)) @ vf_secret (Some (sra_password a))) @
          tls_secrets (src_tls c))"

definition mds_secrets :: "mds_config option \<Rightarrow> string list" where
  "mds_secrets m =
     (case m of None \<Rightarrow> []
      | Some c \<Rightarrow>
          (case mds_authn c of None \<Rightarrow> []
           | Some a \<Rightarrow> vf_secret (ma_username a) @ vf_secret (ma_password a) @ vf_secret (ma_token a)) @
          tls_secrets (mds_tls c))"

definition cluster_secret_names :: "kafka_cluster \<Rightarrow> string list" where
  "cluster_secret_names c =
     (let sp = kc_spec c
      in nub (filter (\<lambda>n. n \<noteq> [])
           (tls_secrets (kcs_tls sp) @ auth_secrets (kcs_auth sp) @ registry_secrets (kcs_schemaRegistry sp) @
            mds_secrets (cluster_mds c))))"

definition user_password_secret_names :: "kafka_user \<Rightarrow> string list" where
  "user_password_secret_names u = filter (\<lambda>n. n \<noteq> []) (ref_name (password_key_ref u))"

subsection \<open>KafkaCluster\<close>

type_synonym 'w cluster_api = "('w, kafka_cluster, base_status) kind_api"

definition clients_build_error_status :: "operator_env \<Rightarrow> go_error \<Rightarrow> (kafka_cluster, base_status) crd \<Rightarrow> base_status" where
  "clients_build_error_status env e x =
     (let gen = om_generation (kc_meta (crd_obj x))
      in set_cluster_clients_error (oe_quote env) gen e (set_phase ''Error'' (start_status gen (oe_now env))))"

definition unlabelled_secret :: "'w kube_objects \<Rightarrow> string \<Rightarrow> 'w \<Rightarrow> string \<Rightarrow> bool" where
  "unlabelled_secret ko ns w n \<longleftrightarrow>
     (case ko_getSecret ko ns n w of
        Inl _ \<Rightarrow> False
      | Inr sec \<Rightarrow> mget (ksec_labels sec) CredentialSourceLabel \<noteq> Some ''true'')"

definition set_credential_source_unwatched_condition ::
    "operator_env \<Rightarrow> 'w kube_objects \<Rightarrow> kafka_cluster \<Rightarrow> 'w \<Rightarrow> base_status \<Rightarrow> base_status" where
  "set_credential_source_unwatched_condition env ko c w st =
     (let unlabelled = filter (unlabelled_secret ko (om_namespace (kc_meta c)) w) (cluster_secret_names c);
          gen = om_generation (kc_meta c)
      in if unlabelled = [] then
           set_cond ''CredentialSourceUnwatched'' False ''AllWatchedOrNone''
             ''all referenced credential/TLS Secrets are watched (or none referenced)'' gen st
         else set_cond ''CredentialSourceUnwatched'' True ''SecretNotLabeled''
             (''credential Secret(s) '' @ join '', '' unlabelled @ '' lack the '' @ CredentialSourceLabel @ ''='' @
              oe_quote env ''true'' @ '' label; a rotation reconciles only at the periodic resync, not promptly'') gen st)"

text \<open>\<open>SetDrift\<close> on this controller is the reachability gauge.\<close>

definition cluster_pass ::
    "operator_env \<Rightarrow> 'w kube_objects \<Rightarrow> 'w client_factory \<Rightarrow> 'w cluster_api \<Rightarrow> string \<Rightarrow> string \<Rightarrow> 'w \<Rightarrow>
     'w pass_result" where
  "cluster_pass env ko cf api ns name w =
     (case ka_get api ns name w of
        Inl (NotFound _) \<Rightarrow> (w, [ForgetMetrics ''kafkacluster'' ns name], Done)
      | Inl (GetError e) \<Rightarrow> (w, [], Failed e)
      | Inr x \<Rightarrow>
          (let m = kc_meta (crd_obj x); gauge = SetDrift ''kafkacluster'' (om_namespace m) (om_name m)
           in case cf_for cf (crd_obj x) w of
                Inl e \<Rightarrow>
                  (let ev = reconcile_event ''Warning'' ''ClientsBuildFailed'' (render (oe_quote env) e)
                   in case update_status env api m (fresh_status env (clients_build_error_status env e)) w of
                        (w', Some u) \<Rightarrow> (w', [ev], Failed (join_errors e u))
                      | (w', None) \<Rightarrow> (w', [ev, gauge False], Failed e))
              | Inr (k, sr) \<Rightarrow>
                  (let st = set_credential_source_unwatched_condition env ko (crd_obj x) w
                       (reconcile_cluster (engine_env env ko (om_namespace m) w) (crd_obj x) k sr w)
                   in case update_status env api m (engine_status env x st) w of
                        (w', Some u) \<Rightarrow> (w', [], Failed u)
                      | (w', None) \<Rightarrow>
                          (let reachable = (st_phase st = ''Ready'')
                           in (w', [gauge reachable,
                                 if reachable then reconcile_event ''Normal'' ''Ready'' ''cluster reachable''
                                 else reconcile_event ''Warning'' ''Unreachable'' ''cluster not ready''],
                               resync_outcome env)))))"

subsection \<open>Map functions\<close>

type_synonym request = "string \<times> string"

definition request_of :: "('o \<Rightarrow> object_meta) \<Rightarrow> ('o, 's) crd \<Rightarrow> request" where
  "request_of meta x = (om_namespace (meta (crd_obj x)), om_name (meta (crd_obj x)))"

definition indexed :: "('o \<Rightarrow> string list) \<Rightarrow> string \<Rightarrow> ('o, 's) crd list \<Rightarrow> ('o, 's) crd list" where
  "indexed index v items = filter (\<lambda>x. v \<in> set (index (crd_obj x))) items"

definition clusters_referencing_secret :: "'w cluster_api \<Rightarrow> string \<Rightarrow> string \<Rightarrow> 'w \<Rightarrow> string list" where
  "clusters_referencing_secret api secretNS secretName w =
     (case ka_list api (Some secretNS) w of
        Inl _ \<Rightarrow> []
      | Inr items \<Rightarrow> map (\<lambda>x. om_name (kc_meta (crd_obj x))) (indexed cluster_secret_names secretName items))"

text \<open>The second hop, the same code for topics, policies, quotas and role bindings.\<close>

definition map_secret_to_dependents ::
    "operator_env \<Rightarrow> 'w cluster_api \<Rightarrow> ('w, 'o, 's) kind \<Rightarrow> string \<Rightarrow> string \<Rightarrow> 'w \<Rightarrow> request list" where
  "map_secret_to_dependents env capi k secretNS secretName w =
     (let clusterNames = clusters_referencing_secret capi secretNS secretName w
      in if clusterNames = [] then []
         else case ka_list (k_api k) (list_scope (namespace_local env) secretNS) w of
           Inl _ \<Rightarrow> []
         | Inr items \<Rightarrow>
             map (request_of (k_meta k)) (filter (\<lambda>x. crd_cluster k x \<in> set clusterNames) items))"

definition map_secret_to_clusters :: "'w cluster_api \<Rightarrow> string \<Rightarrow> string \<Rightarrow> 'w \<Rightarrow> request list" where
  "map_secret_to_clusters capi secretNS secretName w =
     map (\<lambda>n. (secretNS, n)) (clusters_referencing_secret capi secretNS secretName w)"

definition map_secret_to_users ::
    "operator_env \<Rightarrow> 'w cluster_api \<Rightarrow> ('w, kafka_user, user_status) kind_api \<Rightarrow> string \<Rightarrow> string \<Rightarrow> 'w \<Rightarrow>
     request list" where
  "map_secret_to_users env capi api secretNS secretName w =
     nub ((case ka_list api (Some secretNS) w of
             Inl _ \<Rightarrow> []
           | Inr items \<Rightarrow> map (request_of ku_meta) (indexed user_password_secret_names secretName items)) @
          map_secret_to_dependents env capi (user_kind env api) secretNS secretName w)"

definition map_config_map_to_topics ::
    "('w, kafka_topic, topic_status) kind_api \<Rightarrow> string \<Rightarrow> string \<Rightarrow> 'w \<Rightarrow> request list" where
  "map_config_map_to_topics api cmNS cmName w =
     (case ka_list api (Some cmNS) w of
        Inl _ \<Rightarrow> []
      | Inr items \<Rightarrow> map (request_of kt_meta) (indexed schema_config_map_names cmName items))"

definition map_cluster_to_dependents ::
    "operator_env \<Rightarrow> ('w, 'o, 's) kind \<Rightarrow> object_meta \<Rightarrow> 'w \<Rightarrow> request list" where
  "map_cluster_to_dependents env k clm w =
     (if oe_clusterNamespace env \<noteq> [] \<and> om_namespace clm \<noteq> oe_clusterNamespace env then []
      else case ka_list (k_api k) (list_scope (namespace_local env) (om_namespace clm)) w of
        Inl _ \<Rightarrow> []
      | Inr items \<Rightarrow>
          map (request_of (k_meta k)) (indexed (\<lambda>o'. [k_clusterRef k o']) (om_name clm) items))"

end
