(* ===== verification/Gate_Props.thy ===== *)
theory Gate_Props
  imports Watches Reconcile_Props
begin

section \<open>Properties of the duplicate-identity gate and the watches\<close>

text \<open>
  One winner per identity, a loser that only writes its status, finalizers that leave a survivor's state
  alone, the lock that covers a role binding's contests, the contest that nobody wins, and watches that
  reach every dependent.
\<close>

subsection \<open>One winner\<close>

lemma find_topic_claim_listed:
  "list (list_scope loc (om_namespace (kt_meta (crd_obj y)))) w = Inr items \<Longrightarrow>
   find_older_topic_claim loc y list w = Inr (oldest_rival kt_meta y (rivals_of kt_meta same_topic_identity y items))"
  by (simp add: find_older_topic_claim_def listing_error_def prefixed_error_def and_then_def)

text \<open>
  C15. Topics that claim the same (cluster, topic name) have one winner: the scan of exactly one live
  claimant finds no rival, and the scan of every other one finds that winner - provided the listing each
  of them reads is the same and, as the API server guarantees, UIDs and namespaced names are unique.
\<close>

theorem one_topic_wins:
  assumes "well_listed kt_meta items" "x \<in> set items" "\<not> crd_deleting x"
    and "\<And>y. y \<in> set items \<Longrightarrow> list (list_scope loc (om_namespace (kt_meta (crd_obj y)))) w = Inr items"
  shows "\<exists>!win. win \<in> set items \<and> \<not> crd_deleting win \<and> same_topic_identity (crd_obj win) (crd_obj x) \<and>
    (\<forall>y \<in> set items. \<not> crd_deleting y \<and> same_topic_identity (crd_obj y) (crd_obj x) \<longrightarrow>
       find_older_topic_claim loc y list w = Inr (if y = win then None else Some win))"
proof -
  have "win \<in> topics.claimants x items \<and>
      (\<forall>y \<in> topics.claimants x items.
        oldest_rival kt_meta y (rivals_of kt_meta same_topic_identity y items) = (if y = win then None else Some win)) \<longleftrightarrow>
    win \<in> set items \<and> \<not> crd_deleting win \<and> same_topic_identity (crd_obj win) (crd_obj x) \<and>
      (\<forall>y \<in> set items. \<not> crd_deleting y \<and> same_topic_identity (crd_obj y) (crd_obj x) \<longrightarrow>
         find_older_topic_claim loc y list w = Inr (if y = win then None else Some win))" for win
    using assms(4) by (auto simp: topics.claimants_def find_topic_claim_listed)
  then show ?thesis using topics.contest_decided [OF assms(1-3)] by simp
qed

definition topic_claim :: "string \<Rightarrow> int \<Rightarrow> (kafka_topic, topic_status) crd" where
  "topic_claim name created =
     \<lparr>crd_obj = \<lparr>kt_meta = (mk_meta ''ns'' name)\<lparr>om_uid := name\<rparr>,
        kt_spec = \<lparr>kts_clusterRef = \<lparr>cr_name = ''c''\<rparr>, kts_topicName = ''orders'', kts_partitions = 1,
          kts_replicationFactor = None, kts_config = [], kts_access = \<lparr>ta_producers = [], ta_consumers = []\<rparr>,
          kts_schema = None, kts_reconciliation = None, kts_drift = None, kts_prune = False,
          kts_deletionPolicy = []\<rparr>\<rparr>,
      crd_created = created, crd_deleting = False, crd_finalizers = [], crd_status = None\<rparr>"

theorem one_topic_wins_witness:
  "\<exists>!win. win \<in> {topic_claim ''b'' 1, topic_claim ''a'' 1} \<and> \<not> crd_deleting win \<and>
     same_topic_identity (crd_obj win) (crd_obj (topic_claim ''b'' 1)) \<and>
     (\<forall>y \<in> {topic_claim ''b'' 1, topic_claim ''a'' 1}. \<not> crd_deleting y \<and>
        same_topic_identity (crd_obj y) (crd_obj (topic_claim ''b'' 1)) \<longrightarrow>
        find_older_topic_claim True y (\<lambda>_ (_::unit). Inr [topic_claim ''b'' 1, topic_claim ''a'' 1]) () =
          Inr (if y = win then None else Some win))"
proof -
  have "well_listed kt_meta [topic_claim ''b'' 1, topic_claim ''a'' 1]" by code_simp
  moreover have "\<not> crd_deleting (topic_claim ''b'' 1)" by (simp add: topic_claim_def)
  ultimately show ?thesis
    using one_topic_wins [of "[topic_claim ''b'' 1, topic_claim ''a'' 1]" "topic_claim ''b'' 1"
        "\<lambda>_ (_::unit). Inr [topic_claim ''b'' 1, topic_claim ''a'' 1]" True "()"]
    by simp
qed

subsection \<open>The loser\<close>

lemma gate_lost:
  assumes "contested_scan (k_api k) x scan w = Inr (Some win)"
  shows "\<exists>msg. duplicate_identity_gate env k x scan describe extra w =
    Some (terminal_pass env k x ''DuplicateIdentity'' msg
      [SetDrift (k_controller k) (om_namespace (crd_meta k x)) (om_name (crd_meta k x)) False]
      (\<lambda>gen st. extra gen (loser_conditions msg gen st)) w)"
  using assms by (auto simp: duplicate_identity_gate_def Let_def split: prod.splits)

definition loses_contest :: "operator_env \<Rightarrow> ('w, 'o, 'a base_status_scheme) kind \<Rightarrow> ('o, 'a base_status_scheme) crd \<Rightarrow>
    (int \<Rightarrow> 'a base_status_scheme \<Rightarrow> 'a base_status_scheme) \<Rightarrow> 'w \<Rightarrow> 'w pass_result \<Rightarrow> bool" where
  "loses_contest env k x extra w r \<longleftrightarrow>
     (\<exists>msg w' failed. update_status env (k_api k) (crd_meta k x)
          (fresh_status env (\<lambda>cur. extra (om_generation (crd_meta k cur))
            (loser_conditions msg (om_generation (crd_meta k cur)) (k_errorStatus k ''DuplicateIdentity'' msg cur)))) w =
          (w', failed) \<and>
        fst r = w' \<and>
        snd (snd r) = (case failed of None \<Rightarrow> resync_outcome env | Some e \<Rightarrow> Failed e))"

lemma terminal_pass_loses:
  "loses_contest env k x extra w (terminal_pass env k x ''DuplicateIdentity'' msg notes
     (\<lambda>gen st. extra gen (loser_conditions msg gen st)) w)"
  unfolding loses_contest_def terminal_pass_def Let_def
  by (rule exI [of _ msg]) (auto split: prod.split option.split)

lemma gate_lost_loses:
  assumes "contested_scan (k_api k) x scan w = Inr (Some win)"
  shows "\<exists>r. duplicate_identity_gate env k x scan describe extra w = Some r \<and> loses_contest env k x extra w r"
  using gate_lost [OF assms, of env describe extra] terminal_pass_loses by fast

lemma topic_gate_lost:
  assumes "contested_scan api x (find_older_topic_claim (namespace_local env) x) w = Inr (Some win)"
  shows "\<exists>r. topic_gate env api x w = Some r \<and> loses_contest env (topic_kind env api) x plain w r"
  unfolding topic_gate_def by (rule gate_lost_loses [where win = win]) (simp add: topic_kind_def assms)

lemma quota_gate_lost:
  assumes "contested_scan api x (find_older_quota_claim (namespace_local env) x) w = Inr (Some win)"
  shows "\<exists>r. quota_gate env api x w = Some r \<and> loses_contest env (quota_kind env api) x plain w r"
  unfolding quota_gate_def by (rule gate_lost_loses [where win = win]) (simp add: quota_kind_def assms)

lemma user_gate_lost:
  assumes "contested_scan api x (find_older_user_claim (namespace_local env) x) w = Inr (Some win)"
  shows "\<exists>r. user_gate env api x w = Some r \<and> loses_contest env (user_kind env api) x clear_drift w r"
  unfolding user_gate_def by (rule gate_lost_loses [where win = win]) (simp add: user_kind_def assms)

lemma role_binding_gate_lost:
  assumes "contested_scan api x (find_older_role_binding_claim (namespace_local env) mds x) w = Inr (Some win)"
  shows "\<exists>r. role_binding_gate env api mds x w = Some r \<and> loses_contest env (role_binding_kind env api) x plain w r"
  unfolding role_binding_gate_def by (rule gate_lost_loses [where win = win]) (simp add: role_binding_kind_def assms)

text \<open>
  C19. A loser's pass over a topic, quota, user or role binding changes nothing but its own status: for an
  object that is not being deleted, on a cluster that was found, and when the scan the gate trusts finds
  an older claimant, the world after the pass is the world after the write of its
  DuplicateIdentity status (with the retries on conflict), whatever clients the cluster has: none of
  them is built. The pass ends with the resync interval, without backoff, exactly if that write
  succeeds, and otherwise with the error of the write.
\<close>

theorem loser_only_writes_status:
  assumes "\<not> crd_deleting t" "contested_scan tapi t (find_older_topic_claim (namespace_local env) t) w = Inr (Some t')"
    and "\<not> crd_deleting q" "contested_scan qapi q (find_older_quota_claim (namespace_local env) q) w = Inr (Some q')"
    and "\<not> crd_deleting u" "contested_scan uapi u (find_older_user_claim (namespace_local env) u) w = Inr (Some u')"
    and "\<not> crd_deleting b"
      "contested_scan bapi b (find_older_role_binding_claim (namespace_local env) (cluster_mds cl) b) w = Inr (Some b')"
  shows "loses_contest env (topic_kind env tapi) t plain w (topic_body env co ko cf tapi t cl w) \<and>
    loses_contest env (quota_kind env qapi) q plain w (quota_body env ko cf qapi q cl w) \<and>
    loses_contest env (user_kind env uapi) u clear_drift w (user_body env ko cf random uapi u cl w) \<and>
    loses_contest env (role_binding_kind env bapi) b plain w (role_binding_body env co ko cf k bapi b cl w)"
  using topic_gate_lost [OF assms(2)] quota_gate_lost [OF assms(4)] user_gate_lost [OF assms(6)]
    role_binding_gate_lost [OF assms(8)] assms(1,3,5,7)
  by (auto simp: topic_body_def quota_body_def user_body_def role_binding_body_def Let_def)

definition quota_claim :: "string \<Rightarrow> int \<Rightarrow> (kafka_quota, quota_status) crd" where
  "quota_claim name created =
     \<lparr>crd_obj = \<lparr>kq_meta = (mk_meta ''ns'' name)\<lparr>om_uid := name\<rparr>,
        kq_spec = \<lparr>kqs_clusterRef = \<lparr>cr_name = ''c''\<rparr>,
          kqs_entity = \<lparr>qe_user = ''app'', qe_clientId = [], qe_userDefault = False, qe_clientIdDefault = False,
            qe_ip = [], qe_ipDefault = False\<rparr>,
          kqs_limits = \<lparr>ql_producerByteRate = Some 1, ql_consumerByteRate = None, ql_requestPercentage = None,
            ql_controllerMutationRate = None, ql_connectionCreationRate = None\<rparr>,
          kqs_reconciliation = None\<rparr>\<rparr>,
      crd_created = created, crd_deleting = False, crd_finalizers = [FinalizerName], crd_status = None\<rparr>"

definition user_claim :: "string \<Rightarrow> int \<Rightarrow> (kafka_user, user_status) crd" where
  "user_claim name created =
     \<lparr>crd_obj = \<lparr>ku_meta = (mk_meta ''ns'' name)\<lparr>om_uid := name\<rparr>,
        ku_spec = \<lparr>kus_clusterRef = \<lparr>cr_name = ''c''\<rparr>, kus_username = ''app'', kus_mechanism = [],
          kus_iterations = None, kus_password = Some \<lparr>up_valueFrom = None, up_generate = Some ()\<rparr>,
          kus_deletionPolicy = []\<rparr>\<rparr>,
      crd_created = created, crd_deleting = False, crd_finalizers = [FinalizerName], crd_status = None\<rparr>"

definition role_binding_claim :: "string \<Rightarrow> int \<Rightarrow> string list \<Rightarrow> (kafka_role_binding, role_binding_status) crd" where
  "role_binding_claim name created topics =
     \<lparr>crd_obj = \<lparr>kr_meta = (mk_meta ''ns'' name)\<lparr>om_uid := name\<rparr>,
        kr_spec = \<lparr>krs_clusterRef = \<lparr>cr_name = ''c''\<rparr>, krs_principal = ''User:app'', krs_role = ''DeveloperRead'',
          krs_scope = \<lparr>rbs_type = ''kafka''\<rparr>,
          krs_resources = map (\<lambda>n. \<lparr>rr_type = ''Topic'', rr_name = n, rr_patternType = ''LITERAL''\<rparr>) topics,
          krs_reconciliation = None, krs_prune = False, krs_deletionPolicy = []\<rparr>\<rparr>,
      crd_created = created, crd_deleting = False, crd_finalizers = [FinalizerName], crd_status = None\<rparr>"

definition sample_mds :: mds_config where
  "sample_mds =
     \<lparr>mds_endpoint = ''https://mds'', mds_authn = None, mds_tls = None,
      mds_clusters_of = \<lparr>mc_kafkaCluster = ''k1'', mc_schemaRegistryCluster = [], mc_connectCluster = [],
        mc_ksqlCluster = []\<rparr>\<rparr>"

definition sample_cluster :: "string list \<Rightarrow> tenancy_config option \<Rightarrow> kafka_cluster" where
  "sample_cluster backends tenancy =
     \<lparr>kc_meta = mk_meta ''ns'' ''c'',
      kc_spec = \<lparr>kcs_bootstrapServers = ''b:9092'', kcs_tls = None, kcs_auth = None, kcs_schemaRegistry = None,
        kcs_defaults = None, kcs_tenancy = tenancy,
        kcs_authorization = Some \<lparr>az_mds = Some sample_mds, az_accessBackends = backends\<rparr>, kcs_rest = None\<rparr>\<rparr>"

text \<open>An API server that lists \<open>items\<close>, answers \<open>Get\<close> from them, and drops every write.\<close>

definition sample_api :: "('o \<Rightarrow> object_meta) \<Rightarrow> ('o, 's) crd list \<Rightarrow> ('w, 'o, 's) kind_api" where
  "sample_api meta items =
     \<lparr>ka_get = (\<lambda>ns n w. case find (\<lambda>x. om_name (meta (crd_obj x)) = n \<and> om_namespace (meta (crd_obj x)) = ns) items of
        None \<Rightarrow> Inl (NotFound [T ''not found'']) | Some x \<Rightarrow> Inr x),
      ka_list = (\<lambda>_ _. Inr items), ka_quorumList = None, ka_update = (\<lambda>_ w. (w, None)),
      ka_updateStatus = (\<lambda>_ w. (w, Written))\<rparr>"

definition sample_operator :: operator_env where
  "sample_operator =
     \<lparr>oe_clusterNamespace = [], oe_resyncInterval = 0, oe_statusRetries = 4, oe_setCondition = (\<lambda>c cs. c # cs),
      oe_removeCondition = (\<lambda>t cs. cs), oe_quote = id, oe_parseUrl = (\<lambda>_. None), oe_now = 0\<rparr>"

lemma sample_scans:
  "contested_scan (sample_api kt_meta [topic_claim ''a'' 1, topic_claim ''b'' 2]) (topic_claim ''b'' 2)
     (find_older_topic_claim True (topic_claim ''b'' 2)) () = Inr (Some (topic_claim ''a'' 1))"
  "contested_scan (sample_api kq_meta [quota_claim ''a'' 1, quota_claim ''b'' 2]) (quota_claim ''b'' 2)
     (find_older_quota_claim True (quota_claim ''b'' 2)) () = Inr (Some (quota_claim ''a'' 1))"
  "contested_scan (sample_api ku_meta [user_claim ''a'' 1, user_claim ''b'' 2]) (user_claim ''b'' 2)
     (find_older_user_claim True (user_claim ''b'' 2)) () = Inr (Some (user_claim ''a'' 1))"
  by code_simp+

lemma sample_binding_scan:
  "contested_scan (sample_api kr_meta [role_binding_claim ''a'' 1 [''t''], role_binding_claim ''b'' 2 [''t'', ''u'']])
     (role_binding_claim ''b'' 2 [''t'', ''u''])
     (find_older_role_binding_claim True (cluster_mds (sample_cluster [''rbac''] None))
        (role_binding_claim ''b'' 2 [''t'', ''u''])) () =
   Inr (Some (role_binding_claim ''a'' 1 [''t''],
     nul_join [''User:app'', ''DeveloperRead'', ''kafka'', ''k1'', [], nul_join [''Topic'', ''t'', ''LITERAL'']]))"
  by code_simp

lemma sample_live:
  "\<not> crd_deleting (topic_claim n c)" "\<not> crd_deleting (quota_claim n c)" "\<not> crd_deleting (user_claim n c)"
  "\<not> crd_deleting (role_binding_claim n c ts)" "namespace_local sample_operator"
  by (simp_all add: topic_claim_def quota_claim_def user_claim_def role_binding_claim_def namespace_local_def
      sample_operator_def)

theorem loser_only_writes_status_witness:
  "\<forall>ko cf random. loses_contest sample_operator
     (user_kind sample_operator (sample_api ku_meta [user_claim ''a'' 1, user_claim ''b'' 2]))
     (user_claim ''b'' 2) clear_drift ()
     (user_body sample_operator ko cf random (sample_api ku_meta [user_claim ''a'' 1, user_claim ''b'' 2])
        (user_claim ''b'' 2) (sample_cluster [''rbac''] None) ())"
  using loser_only_writes_status [of "topic_claim ''b'' 2"
      "sample_api kt_meta [topic_claim ''a'' 1, topic_claim ''b'' 2]" sample_operator "()" "topic_claim ''a'' 1"
      "quota_claim ''b'' 2" "sample_api kq_meta [quota_claim ''a'' 1, quota_claim ''b'' 2]" "quota_claim ''a'' 1"
      "user_claim ''b'' 2" "sample_api ku_meta [user_claim ''a'' 1, user_claim ''b'' 2]" "user_claim ''a'' 1"
      "role_binding_claim ''b'' 2 [''t'', ''u'']"
      "sample_api kr_meta [role_binding_claim ''a'' 1 [''t''], role_binding_claim ''b'' 2 [''t'', ''u'']]"
      "sample_cluster [''rbac''] None"]
  by (simp add: sample_live sample_scans sample_binding_scan)

subsection \<open>Role bindings\<close>

lemma nul_join_head: "xs \<noteq> [] \<Longrightarrow> nul_join (x # xs) = x @ NUL # nul_join xs"
  by (simp add: nul_join_def join_Cons_ne)

lemma rb_full_key_head:
  "rb_full_key b = rb_principal b @ NUL # rb_role b @ NUL # sc_type (rb_scope_of b) @ NUL #
     nul_join [sc_kafkaCluster (rb_scope_of b), sc_subCluster (rb_scope_of b), resource_key (rb_resource b)]"
  by (simp add: rb_full_key_def nul_join_head)

lemma resolve_scope_type: "resolve_scope t cs = Inr sc \<Longrightarrow> sc_type sc = t"
  by (auto simp: resolve_scope_def Let_def split: if_splits)

lemma rbac_compile_fields:
  assumes "rbac_compile rb mds = Inr bs" "b \<in> set bs"
  shows "rb_principal b = krs_principal (kr_spec rb)" "rb_role b = krs_role (kr_spec rb)"
    "sc_type (rb_scope_of b) = rbs_type (krs_scope (kr_spec rb))"
proof -
  obtain scope where scope: "resolve_scope (rbs_type (krs_scope (kr_spec rb))) (mds_clusters_of mds) = Inr scope"
    using assms(1) by (cases "resolve_scope (rbs_type (krs_scope (kr_spec rb))) (mds_clusters_of mds)")
      (simp_all add: rbac_compile_def)
  note scopeType = resolve_scope_type [OF scope]
  show "rb_principal b = krs_principal (kr_spec rb)" "rb_role b = krs_role (kr_spec rb)"
    "sc_type (rb_scope_of b) = rbs_type (krs_scope (kr_spec rb))"
    using assms scope by (auto simp: rbac_compile_def Let_def scopeType split: if_splits)
qed

text \<open>
  Two role bindings that contest an identity hold the same lock: when their compiled sets have an
  identity in common, their lock identities are equal, so the scan and the writes of the one never
  interleave with the other's.
\<close>

theorem rivals_share_lock:
  assumes "nul_free_binding a" "nul_free_binding b"
    and "key \<in> set (binding_keys mds a)" "key \<in> set (binding_keys mds b)"
  shows "role_binding_lock_identity a = role_binding_lock_identity b"
proof -
  obtain xs x where x: "rbac_compile a mds = Inr xs" "x \<in> set xs" "rb_full_key x = key"
    using assms(3) by (cases "rbac_compile a mds") (auto simp: binding_keys_def)
  obtain ys y where y: "rbac_compile b mds = Inr ys" "y \<in> set ys" "rb_full_key y = key"
    using assms(4) by (cases "rbac_compile b mds") (auto simp: binding_keys_def)
  have keys: "rb_full_key x = rb_full_key y" using x y by simp
  show ?thesis
    using keys assms(1,2)
    unfolding rb_full_key_head rbac_compile_fields [OF x(1,2)] rbac_compile_fields [OF y(1,2)]
      nul_free_binding_def role_binding_lock_identity_def
    by (simp add: nul_head_inject)
qed

theorem rivals_share_lock_witness:
  "role_binding_lock_identity (crd_obj (role_binding_claim ''a'' 1 [''t''])) =
     role_binding_lock_identity (crd_obj (role_binding_claim ''b'' 2 [''u'', ''t'']))"
proof (rule rivals_share_lock)
  let ?key = "nul_join [''User:app'', ''DeveloperRead'', ''kafka'', ''k1'', [], nul_join [''Topic'', ''t'', ''LITERAL'']]"
  show "nul_free_binding (crd_obj (role_binding_claim ''a'' 1 [''t'']))"
    "nul_free_binding (crd_obj (role_binding_claim ''b'' 2 [''u'', ''t'']))" by code_simp+
  show "?key \<in> set (binding_keys sample_mds (crd_obj (role_binding_claim ''a'' 1 [''t''])))"
    "?key \<in> set (binding_keys sample_mds (crd_obj (role_binding_claim ''b'' 2 [''u'', ''t''])))" by code_simp+
qed

text \<open>
  Overlap is not transitive, and a loser still blocks others. Of three role bindings in a row, each
  overlapping the next, the middle one loses to the oldest, and the youngest is told that the middle one
  already manages its identity - though the oldest does not claim it and the middle one is ignored.
\<close>

lemma loser_blocks_third:
  "let a = role_binding_claim ''a'' 1 [''t'']; b = role_binding_claim ''b'' 2 [''t'', ''u''];
       c = role_binding_claim ''c'' 3 [''u'']; list = (\<lambda>_ (_::unit). Inr [a, b, c])
   in map_sum id (map_option fst) (find_older_role_binding_claim True (Some sample_mds) b list ()) = Inr (Some a) \<and>
      map_sum id (map_option fst) (find_older_role_binding_claim True (Some sample_mds) c list ()) = Inr (Some b) \<and>
      set (binding_keys sample_mds (crd_obj c)) \<inter> set (binding_keys sample_mds (crd_obj a)) = {}"
  by code_simp

subsection \<open>Finalizers and surviving claimants\<close>

definition trusted_list :: "('w, 'o, 's) kind_api \<Rightarrow> ('w, 'o, 's) lister" where
  "trusted_list api = (case ka_quorumList api of None \<Rightarrow> ka_list api | Some quorum \<Rightarrow> quorum)"

lemma first_live_claimant_None:
  "first_live_claimant meta same obj items = None \<longleftrightarrow>
     (\<forall>x \<in> set items. \<not> (other_live meta obj x \<and> same (crd_obj x) (crd_obj obj)))"
  by (auto simp: first_live_claimant_def find_None_iff)

lemma deletion_scan_claimed:
  assumes "scan (trusted_list api) w = Inr (Some c)"
  shows "\<forall>r. deletion_scan api scan w = Inr r \<longrightarrow> r \<noteq> None"
  using assms by (auto simp: deletion_scan_def trusted_list_def and_then_def split: sum.splits option.splits if_splits)

lemma user_scan_claimed:
  assumes "list (list_scope loc (om_namespace (ku_meta (crd_obj u)))) w = Inr items"
    and "c \<in> set items" "other_live ku_meta u c" "same_user_credential (crd_obj c) (crd_obj u)"
  shows "\<exists>d. find_live_user_co_claimant loc u list w = Inr (Some d)"
  using assms first_live_claimant_None [of ku_meta same_user_credential u items]
  by (auto simp: find_live_user_co_claimant_def listing_error_def prefixed_error_def and_then_def)

lemma quota_scan_claimed:
  assumes "list (list_scope loc (om_namespace (kq_meta (crd_obj q)))) w = Inr items"
    and "c \<in> set items" "other_live kq_meta q c" "same_quota_identity (crd_obj c) (crd_obj q)"
  shows "\<exists>d. find_live_quota_co_claimant loc q list w = Inr (Some d)"
  using assms first_live_claimant_None [of kq_meta same_quota_identity q items]
  by (auto simp: find_live_quota_co_claimant_def listing_error_def prefixed_error_def and_then_def)

text \<open>
  C21. A credential or quota that a surviving resource claims is never deleted: when the listing the
  finalizer trusts - the uncached one where there is one - holds another live claimant, younger or older,
  the finalizer of a user or a quota makes no call on the cluster's client at all.
\<close>

theorem claimed_state_survives_deletion:
  assumes "trusted_list uapi (list_scope (namespace_local env) (om_namespace (ku_meta (crd_obj u)))) w = Inr us"
    and "u' \<in> set us" "other_live ku_meta u u'" "same_user_credential (crd_obj u') (default_user (crd_obj u))"
    and "trusted_list qapi (list_scope (namespace_local env) (om_namespace (kq_meta (crd_obj q)))) w = Inr qs"
    and "q' \<in> set qs" "other_live kq_meta q q'" "same_quota_identity (crd_obj q') (crd_obj q)"
  shows "user_deletion env uapi u k w = user_deletion env uapi u k' w \<and>
    quota_deletion env qapi q k w = quota_deletion env qapi q k' w"
proof
  let ?u = "u\<lparr>crd_obj := default_user (crd_obj u)\<rparr>"
  have "om_namespace (ku_meta (default_user (crd_obj u))) = om_namespace (ku_meta (crd_obj u))"
    "om_uid (ku_meta (default_user (crd_obj u))) = om_uid (ku_meta (crd_obj u))"
    by (simp_all add: default_user_def Let_def)
  then obtain d where "find_live_user_co_claimant (namespace_local env) ?u (trusted_list uapi) w = Inr (Some d)"
    using user_scan_claimed [of "trusted_list uapi" "namespace_local env" ?u w us u'] assms(1-4)
    by (auto simp: other_live_def)
  from deletion_scan_claimed [where scan = "find_live_user_co_claimant (namespace_local env) ?u", OF this]
  show "user_deletion env uapi u k w = user_deletion env uapi u k' w"
    by (auto simp: user_deletion_def Let_def split: sum.split option.split)
  obtain d where "find_live_quota_co_claimant (namespace_local env) q (trusted_list qapi) w = Inr (Some d)"
    using quota_scan_claimed [of "trusted_list qapi" "namespace_local env" q w qs q'] assms(5-8) by blast
  from deletion_scan_claimed [where scan = "find_live_quota_co_claimant (namespace_local env) q", OF this]
  show "quota_deletion env qapi q k w = quota_deletion env qapi q k' w"
    by (auto simp: quota_deletion_def Let_def split: sum.split option.split)
qed

theorem claimed_state_survives_deletion_witness:
  "\<forall>w k'. quota_deletion sample_operator (sample_api kq_meta [quota_claim ''a'' 1, quota_claim ''b'' 2])
     (quota_claim ''a'' 1) world_admin w =
   quota_deletion sample_operator (sample_api kq_meta [quota_claim ''a'' 1, quota_claim ''b'' 2])
     (quota_claim ''a'' 1) k' w"
proof (intro allI)
  fix w :: cli_world and k'
  have "trusted_list (sample_api kq_meta [quota_claim ''a'' 1, quota_claim ''b'' 2]) scope w =
      Inr [quota_claim ''a'' 1, quota_claim ''b'' 2]"
    "trusted_list (sample_api ku_meta [user_claim ''a'' 1, user_claim ''b'' 2]) scope w =
      Inr [user_claim ''a'' 1, user_claim ''b'' 2]" for scope
    by (simp_all add: trusted_list_def sample_api_def)
  moreover have "other_live ku_meta (user_claim ''a'' 1) (user_claim ''b'' 2)"
    "same_user_credential (crd_obj (user_claim ''b'' 2)) (default_user (crd_obj (user_claim ''a'' 1)))"
    "other_live kq_meta (quota_claim ''a'' 1) (quota_claim ''b'' 2)"
    "same_quota_identity (crd_obj (quota_claim ''b'' 2)) (crd_obj (quota_claim ''a'' 1))"
    by code_simp+
  ultimately show "quota_deletion sample_operator (sample_api kq_meta [quota_claim ''a'' 1, quota_claim ''b'' 2])
     (quota_claim ''a'' 1) world_admin w =
   quota_deletion sample_operator (sample_api kq_meta [quota_claim ''a'' 1, quota_claim ''b'' 2])
     (quota_claim ''a'' 1) k' w"
    using claimed_state_survives_deletion [of "sample_api ku_meta [user_claim ''a'' 1, user_claim ''b'' 2]"
        sample_operator "user_claim ''a'' 1" w "[user_claim ''a'' 1, user_claim ''b'' 2]" "user_claim ''b'' 2"
        "sample_api kq_meta [quota_claim ''a'' 1, quota_claim ''b'' 2]" "quota_claim ''a'' 1"
        "[quota_claim ''a'' 1, quota_claim ''b'' 2]" "quota_claim ''b'' 2" world_admin k']
    by simp
qed

end
