(* ===== verification/Deletion_Props.thy ===== *)
theory Deletion_Props
  imports Gate_Props
begin

section \<open>Properties of the finalizers and the watches\<close>

text \<open>
  What a finalizer may destroy, on the in-memory cluster: nothing without consent, nothing a surviving
  co-owner desires; where the code does more than its comments say; and the watches that bring a change
  of a cluster or a Secret to every resource that depends on it.
\<close>

subsection \<open>Consent\<close>

text \<open>
  Deleting a KafkaTopic or a KafkaAccessPolicy touches the cluster with consent only: unless the
  effective policy is Delete, the allow-delete annotation is set and the finalizer is still there, the
  deletion is the same whatever the clients are - no call is made on them - and while the policy is
  Delete and the annotation missing it changes nothing at all, so the finalizer stays.
\<close>

theorem deletion_needs_consent:
  assumes "\<not> (has_finalizer t \<and> effective_deletion_policy (crd_obj t) (kcs_defaults (kc_spec cl)) = ''Delete'' \<and>
      annotation (kt_meta (crd_obj t)) AnnotationAllowDelete = ''true'')"
    and "\<not> (has_finalizer p \<and> aps_deletionPolicy (ap_spec (crd_obj p)) \<in> {[], ''Delete''} \<and>
      annotation (ap_meta (crd_obj p)) AnnotationAllowDelete = ''true'')"
  shows "topic_deletion env co ko tapi t cl k sr w = topic_deletion env co ko tapi t cl k' sr' w \<and>
    policy_deletion env co papi p cl k w = policy_deletion env co papi p cl k' w \<and>
    (effective_deletion_policy (crd_obj t) (kcs_defaults (kc_spec cl)) = ''Delete'' \<longrightarrow>
       fst (topic_deletion env co ko tapi t cl k sr w) = w) \<and>
    (aps_deletionPolicy (ap_spec (crd_obj p)) \<in> {[], ''Delete''} \<longrightarrow>
       fst (policy_deletion env co papi p cl k w) = w)"
  using assms by (auto simp: topic_deletion_def policy_deletion_def delete_not_approved_def Let_def)

definition sample_policy_crd :: "string \<Rightarrow> (kafka_access_policy, policy_status) crd" where
  "sample_policy_crd permission =
     \<lparr>crd_obj = sample_policy permission, crd_created = 0, crd_deleting = True, crd_finalizers = [FinalizerName],
      crd_status = None\<rparr>"

lemma sample_policy_crd_simps:
  "aps_deletionPolicy (ap_spec (crd_obj (sample_policy_crd permission))) = []"
  "annotation (ap_meta (crd_obj (sample_policy_crd permission))) AnnotationAllowDelete = []"
  by (simp_all add: sample_policy_crd_def sample_policy_def annotation_def mk_meta_def)

theorem deletion_needs_consent_witness:
  "\<forall>co cl (w :: cli_world).
     fst (policy_deletion sample_operator co (sample_api ap_meta []) (sample_policy_crd ''Deny'') cl world_admin w) = w"
proof (intro allI)
  fix co cl and w :: cli_world
  have "\<not> has_finalizer (topic_claim ''a'' 1)" by code_simp
  then show "fst (policy_deletion sample_operator co (sample_api ap_meta []) (sample_policy_crd ''Deny'') cl
      world_admin w) = w"
    using deletion_needs_consent [where t = "topic_claim ''a'' 1" and p = "sample_policy_crd ''Deny''" and
        env = sample_operator and co = co and cl = cl and papi = "sample_api ap_meta []" and k = world_admin and w = w]
    by (simp add: sample_policy_crd_simps)
qed

subsection \<open>ACLs on the in-memory cluster\<close>

abbreviation live_acl_set :: "cli_world \<Rightarrow> acl_state set" where
  "live_acl_set w \<equiv> set (km_acls (cw_kafka w))"

text \<open>The API server keeps its objects apart from the cluster's: an \<open>Update\<close> leaves the ACLs as they are.\<close>

definition keeps_acls :: "(cli_world, 'o, 's) kind_api \<Rightarrow> bool" where
  "keeps_acls api \<longleftrightarrow> (\<forall>y w. live_acl_set (fst (ka_update api y w)) = live_acl_set w)"

lemma remove_finalizer_acls:
  "keeps_acls (k_api k) \<Longrightarrow> live_acl_set (fst (remove_finalizer k x w)) = live_acl_set w"
  unfolding keeps_acls_def remove_finalizer_def
  by (simp split: prod.split option.split) (metis fst_conv)

lemma fst_with_notes [simp]: "fst (with_notes ns r) = fst r"
  by (simp add: with_notes_def split: prod.split)

lemma deleted_acls_spare:
  "a \<in> live_acl_set w \<Longrightarrow> a \<notin> acl_to_state ` set xs \<Longrightarrow> a \<in> live_acl_set (fst (delete_acl_list world_admin xs w))"
  by (auto simp: delete_acl_list_def world_admin_def on_kafka_def km_delete_acls_def km_mutate_def km_record_def
      split: prod.splits option.splits if_splits)

lemma deleted_topic_acls: "live_acl_set (fst (ac_deleteTopic world_admin n w)) = live_acl_set w"
  by (auto simp: world_admin_def on_kafka_def km_delete_topic_def km_mutate_def km_record_def
      split: prod.splits option.splits)

lemma deleted_subjects_acls: "live_acl_set (fst (delete_subjects env world_schema ss w)) = live_acl_set w"
proof (induction ss arbitrary: w)
  case Nil
  show ?case by simp
next
  case (Cons s ss)
  have "live_acl_set (fst (sc_deleteSubject world_schema s w)) = live_acl_set w"
    by (simp add: world_schema_def on_schema_def split: prod.split)
  with Cons show ?case by (simp split: prod.split) (metis fst_conv)
qed

lemma shielded_state:
  assumes "shield_acl_deletion co ref ns loc cl own w = Inr (rest, evs)"
    and "cluster_acl_view co ref ns loc cl w = Inr view"
    and "full_key (live_acl a) \<in> full_key ` set (cav_desiredACLs view) \<or> full_key (live_acl a) \<notin> full_key ` set own"
  shows "a \<notin> acl_to_state ` set rest"
proof
  assume "a \<in> acl_to_state ` set rest"
  then obtain x where x: "x \<in> set rest" "a = acl_to_state x" by blast
  have key: "full_key x = full_key (live_acl a)" using x(2) by (intro full_key_state) simp
  have "x \<in> set own" using shield_acl_deletion_sound(1) [OF assms(1)] x(1) by blast
  moreover from this have "full_key x \<notin> full_key ` set (cav_desiredACLs view)"
    using shield_acl_deletion_sound(2) [OF assms(1)] assms(2) x(1) by (cases own) auto
  ultimately show False using assms(3) key by (metis imageI)
qed

lemma build_acl_set_keys_subset: "full_key ` set (fst (build_acl_set xs)) \<subseteq> full_key ` set xs"
proof -
  have "set (map full_key (fst (build_acl_set xs))) \<subseteq> set (map full_key (accepted_acls xs))"
    by (simp add: build_acl_set_eq acl_kind.map_key_desired_spec)
  then show ?thesis by (auto simp: accepted_acls_def)
qed

lemma shielded_own_state:
  assumes "shield_acl_deletion co ref ns loc cl (fst (build_acl_set own)) w = Inr (rest, evs)"
    and "cluster_acl_view co ref ns loc cl w = Inr view"
    and "full_key (live_acl a) \<in> full_key ` set (cav_desiredACLs view) \<or> full_key (live_acl a) \<notin> full_key ` set own"
  shows "a \<notin> acl_to_state ` set rest"
  using shielded_state [OF assms(1,2)] assms(3) build_acl_set_keys_subset [of own] by blast

lemma policy_deletion_spares:
  assumes a: "a \<in> live_acl_set w" and api: "keeps_acls papi"
    and view: "cluster_acl_view co (policy_ref (crd_obj p)) (cluster_namespace env (ap_meta (crd_obj p)))
      (namespace_local env) cl w = Inr v"
    and keep: "full_key (live_acl a) \<in> full_key ` set (cav_desiredACLs v) \<or>
      full_key (live_acl a) \<notin> full_key ` set (compile_policy (crd_obj p))"
  shows "a \<in> live_acl_set (fst (policy_deletion env co papi p cl world_admin w))"
proof -
  have rm: "a \<in> live_acl_set (fst (remove_finalizer (policy_kind env papi) p w'))" if "a \<in> live_acl_set w'" for w'
    using that remove_finalizer_acls [of "policy_kind env papi" p w'] api by (simp add: policy_kind_def)
  have "a \<in> live_acl_set (fst (delete_policy_acls env co (crd_obj p) cl
      (cluster_namespace env (ap_meta (crd_obj p))) world_admin w))"
    using a shielded_own_state [OF _ view keep] deleted_acls_spare [OF a]
    by (auto simp: delete_policy_acls_def split: sum.split prod.split) (metis fst_conv)
  then show ?thesis
    using a rm
    by (cases "delete_policy_acls env co (crd_obj p) cl (cluster_namespace env (ap_meta (crd_obj p))) world_admin w")
      (auto simp: policy_deletion_def Let_def delete_not_approved_def split: option.split)
qed

lemma topic_deletion_spares:
  assumes a: "a \<in> live_acl_set w" and api: "keeps_acls tapi"
    and view: "cluster_acl_view co (topic_ref (crd_obj t)) (cluster_namespace env (kt_meta (crd_obj t)))
      (namespace_local env) cl w = Inr v"
    and keep: "full_key (live_acl a) \<in> full_key ` set (cav_desiredACLs v) \<or>
      full_key (live_acl a) \<notin> full_key ` set (compile_topic (default_topic (crd_obj t) None))"
  shows "a \<in> live_acl_set (fst (topic_deletion env co ko tapi t cl world_admin (world_registry hasSchema) w))"
proof -
  let ?del = "delete_topic_state env co ko (crd_obj t) cl (cluster_namespace env (kt_meta (crd_obj t))) world_admin
    (world_registry hasSchema) w"
  have rm: "a \<in> live_acl_set (fst (remove_finalizer (topic_kind env tapi) y w'))" if "a \<in> live_acl_set w'" for w' y
    using that remove_finalizer_acls [of "topic_kind env tapi" y w'] api by (simp add: topic_kind_def)
  have ref: "topic_ref (default_topic (crd_obj t) None) = topic_ref (crd_obj t)"
    by (simp add: default_topic_def Let_def)
  have acls: "a \<in> live_acl_set w1" if "shield_acl_deletion co (topic_ref (crd_obj t))
        (cluster_namespace env (kt_meta (crd_obj t))) (namespace_local env) cl
        (fst (build_acl_set (compile_topic (default_topic (crd_obj t) None)))) w = Inr (rest, evs)"
      "delete_acl_list world_admin rest w = (w1, e)" for rest evs w1 e
    using shielded_own_state [OF that(1) view keep] deleted_acls_spare [OF a, of rest] that(2) by simp
  have topic: "a \<in> live_acl_set w2" if "on_kafka (km_delete_topic n) w1 = (w2, e)" "a \<in> live_acl_set w1" for n w1 w2 e
    using deleted_topic_acls [of n w1] that by (simp add: world_admin_def)
  have subjs: "a \<in> live_acl_set w3" if "delete_subjects env world_schema ss w2 = (w3, ns)" "a \<in> live_acl_set w2"
    for ss w2 w3 ns
    using deleted_subjects_acls [of env ss w2] that by simp
  have "a \<in> live_acl_set (fst ?del)"
    unfolding delete_topic_state_def Let_def ref world_registry_def
    using a by (auto split: sum.split prod.split option.split dest: acls topic subjs)
  then show ?thesis
    using a rm by (cases ?del) (auto simp: topic_deletion_def Let_def delete_not_approved_def split: option.split)
qed

text \<open>
  C20. Deleting one co-owner revokes nothing a surviving co-owner keeps: on the in-memory cluster, a live
  ACL that the cluster-wide view of the remaining resources desires, or that the deleted topic or policy
  does not compile to, is still live after the finalizer's pass - whatever policy, annotation, failures
  of the services and outcome.
\<close>

theorem deletion_shields_co_owners:
  assumes "a \<in> live_acl_set w" "keeps_acls tapi" "keeps_acls papi"
    and "cluster_acl_view co (topic_ref (crd_obj t)) (cluster_namespace env (kt_meta (crd_obj t)))
      (namespace_local env) cl w = Inr vt"
    and "cluster_acl_view co (policy_ref (crd_obj p)) (cluster_namespace env (ap_meta (crd_obj p)))
      (namespace_local env) cl w = Inr vp"
    and "full_key (live_acl a) \<in> full_key ` set (cav_desiredACLs vt) \<or>
      full_key (live_acl a) \<notin> full_key ` set (compile_topic (default_topic (crd_obj t) None))"
    and "full_key (live_acl a) \<in> full_key ` set (cav_desiredACLs vp) \<or>
      full_key (live_acl a) \<notin> full_key ` set (compile_policy (crd_obj p))"
  shows "a \<in> live_acl_set (fst (topic_deletion env co ko tapi t cl world_admin (world_registry hasSchema) w)) \<and>
    a \<in> live_acl_set (fst (policy_deletion env co papi p cl world_admin w))"
  using topic_deletion_spares [OF assms(1,2,4,6)] policy_deletion_spares [OF assms(1,3,5,7)] by blast

definition sample_owners ::
    "(kafka_topic, topic_status) crd list \<Rightarrow> (kafka_access_policy, policy_status) crd list \<Rightarrow>
     (kafka_role_binding, role_binding_status) crd list \<Rightarrow> cli_world co_owners" where
  "sample_owners ts ps rbs =
     \<lparr>co_topics = (\<lambda>_ _. Inr ts), co_policies = (\<lambda>_ _. Inr ps), co_roleBindings = (\<lambda>_ _. Inr rbs)\<rparr>"

definition live_policy :: "string \<Rightarrow> (kafka_access_policy, policy_status) crd" where
  "live_policy permission = (sample_policy_crd permission)\<lparr>crd_deleting := False\<rparr>"

text \<open>A third policy with the rule of \<open>sample_policy\<close>, being deleted with approval.\<close>

definition deleted_policy :: "string \<Rightarrow> (kafka_access_policy, policy_status) crd" where
  "deleted_policy permission = (sample_policy_crd permission)\<lparr>crd_obj := (sample_policy permission)
     \<lparr>ap_meta := (mk_meta ''ns'' ''third'')\<lparr>om_annotations := [(AnnotationAllowDelete, ''true'')]\<rparr>\<rparr>\<rparr>"

definition acl_cluster :: kafka_cluster where
  "acl_cluster = sample_cluster [''acl''] None"

definition allow_acl :: acl where
  "allow_acl = mk_acl ''User:a'' ''*'' ''topic'' ''t'' ''literal'' ''Read'' ''Allow''"

lemma sample_api_keeps_acls [simp]: "keeps_acls (sample_api meta items)"
  by (simp add: keeps_acls_def sample_api_def)

theorem deletion_shields_co_owners_witness:
  "acl_to_state allow_acl \<in> live_acl_set (fst (policy_deletion sample_operator (sample_owners [] [live_policy ''Allow''] [])
     (sample_api ap_meta []) (deleted_policy ''Allow'') acl_cluster world_admin (world_with [allow_acl])))"
proof -
  let ?co = "sample_owners [] [live_policy ''Allow''] []" and ?w = "world_with [allow_acl]"
    and ?p = "deleted_policy ''Allow''" and ?t = "topic_claim ''a'' 1"
    and ?v = "build_cluster_acl_view [] [sample_policy ''Allow''] None (Some acl_cluster)"
  have "topic_ref (crd_obj ?t) = ''c''" "policy_ref (crd_obj ?p) = ''c''" "kcs_defaults (kc_spec acl_cluster) = None"
    "live_on policy_ref ''c'' [live_policy ''Allow''] = [sample_policy ''Allow'']"
    by (simp_all add: topic_claim_def deleted_policy_def sample_policy_def acl_cluster_def sample_cluster_def
        live_policy_def sample_policy_crd_def live_on_def)
  then have views: "cluster_acl_view ?co (topic_ref (crd_obj ?t)) (cluster_namespace sample_operator (kt_meta (crd_obj ?t)))
      (namespace_local sample_operator) acl_cluster ?w = Inr ?v"
    "cluster_acl_view ?co (policy_ref (crd_obj ?p)) (cluster_namespace sample_operator (ap_meta (crd_obj ?p)))
      (namespace_local sample_operator) acl_cluster ?w = Inr ?v"
    by (simp_all add: cluster_acl_view_def sample_owners_def prefixed_error_def and_then_def live_on_def)
  have acls: "acl_to_state allow_acl \<in> live_acl_set ?w"
    "full_key (live_acl (acl_to_state allow_acl)) \<in> full_key ` set (cav_desiredACLs ?v)"
    by code_simp+
  show ?thesis
    by (rule deletion_shields_co_owners [THEN conjunct2, OF acls(1) sample_api_keeps_acls sample_api_keeps_acls views
          disjI1 [OF acls(2)] disjI1 [OF acls(2)]])
qed

text \<open>
  The shield reads the union without its conflicts, so it does not protect every tuple a live
  resource desires: a live policy denies what another live policy allows, a third policy with the same
  denial is deleted, and the denying ACL is gone from the cluster although the second policy still
  compiles to it.
\<close>

lemma deletion_revokes_conflicting_deny:
  "acl_to_state deny_acl \<in> live_acl_set (world_with [deny_acl]) \<and>
   deny_acl \<in> set (compile_policy (crd_obj (live_policy ''Deny''))) \<and>
   acl_to_state deny_acl \<notin> live_acl_set (fst (policy_deletion sample_operator
     (sample_owners [] [live_policy ''Allow'', live_policy ''Deny''] []) (sample_api ap_meta [])
     (deleted_policy ''Deny'') acl_cluster world_admin (world_with [deny_acl])))"
  by code_simp

subsection \<open>Deletion without the engine's checks\<close>

text \<open>
  C22. Tenancy does not guard deletion. Take a KafkaUser with a valid spec in a namespace the cluster's tenancy
  denies, with deletionPolicy Delete (or unset), whose username no other live KafkaUser claims, a
  client whose calls do not fail and an API server whose updates leave the credentials alone. The engine, run on it, leaves the world as it is and reports
  TenancyDenied. But the controller's pass stores the finalizer before that engine runs (where the gate
  passes, the clients build and the update succeeds); and when a resource that has the finalizer is
  deleted, the SCRAM credential of its username and mechanism is gone.
\<close>

theorem denied_user_deletes_credential:
  assumes "check_namespace (cluster_tenancy (Some cl)) (om_namespace (ku_meta (crd_obj x))) = Some e"
    and "validate_user_shape (prepared_user (crd_obj x)) = []"
    and "has_finalizer x" "kus_deletionPolicy (ku_spec (crd_obj x)) \<in> {[], ''Delete''}"
    and "deletion_scan api (find_live_user_co_claimant (namespace_local oenv)
      (x\<lparr>crd_obj := default_user (crd_obj x)\<rparr>)) w = Inr None"
    and "km_failures (cw_kafka w) = []" "\<And>y w. km_scramCreds (cw_kafka (fst (ka_update api y w))) = km_scramCreds (cw_kafka w)"
  shows "fst (reconcile_user env random (crd_obj x) prior (Some cl) world_admin store w) = w \<and>
    cond_is ''ValidationFailed'' True ''TenancyDenied''
      (fst (snd (reconcile_user env random (crd_obj x) prior (Some cl) world_admin store w))) \<and>
    (\<not> crd_deleting y \<and> \<not> has_finalizer y \<and> user_gate oenv uapi y v = None \<and>
       cf_for cf cl v = Inr (k, sr) \<and> ka_update uapi (add_finalizer y) v = (v', None) \<longrightarrow>
       user_body oenv ko cf random uapi y cl v = user_engine oenv ko random uapi cl k (add_finalizer y) v' \<and>
       has_finalizer (add_finalizer y)) \<and>
    mget (km_scramCreds (cw_kafka (fst (user_deletion oenv api x world_admin w))))
      (km_scram_key (resolved_username (crd_obj x)) (kus_mechanism (ku_spec (default_user (crd_obj x))))) = None"
proof -
  let ?u = "default_user (crd_obj x)"
  have ns: "om_namespace (ku_meta (prepared_user (crd_obj x))) = om_namespace (ku_meta (crd_obj x))"
    by (simp add: prepared_user_def default_user_def fill_api_version_def Let_def)
  have pass: "reconcile_user env random (crd_obj x) prior (Some cl) world_admin store w =
      (w, fail_terminal ''kafkauser'' ''TenancyDenied'' (render (re_quote env) e)
         (om_generation (ku_meta (prepared_user (crd_obj x))))
         (start_user_status (om_generation (ku_meta (prepared_user (crd_obj x)))) (re_now env) prior), None)"
    using assms(1,2) by (simp add: reconcile_user_def Let_def ns)
  have user: "kus_username (ku_spec ?u) = resolved_username (crd_obj x)" "kus_deletionPolicy (ku_spec ?u) = ''Delete''"
    using assms(4) by (auto simp: default_user_def resolved_username_def Let_def)
  obtain w' where w': "ac_deleteScram world_admin (kus_username (ku_spec ?u)) (kus_mechanism (ku_spec ?u)) w = (w', None)"
      "mget (km_scramCreds (cw_kafka w')) (km_scram_key (kus_username (ku_spec ?u)) (kus_mechanism (ku_spec ?u))) = None"
    using assms(6) by (auto simp: world_admin_def on_kafka_def km_delete_scram_def km_mutate_def km_record_def delete_conv Let_def)
  have "km_scramCreds (cw_kafka (fst (remove_finalizer (user_kind oenv api) (x\<lparr>crd_obj := ?u\<rparr>) w'))) =
      km_scramCreds (cw_kafka w')"
    using assms(7) [of "drop_finalizer (x\<lparr>crd_obj := ?u\<rparr>)" w']
    by (auto simp: remove_finalizer_def user_kind_def split: prod.split option.split)
  then show ?thesis
    using assms(3,5) w' unfolding pass
    by (simp add: user_deletion_def Let_def user cond_is_def last_call_def fail_terminal_def set_terminal_def
        set_terminal_reasons_def set_cond_def add_call_def user_body_def ensure_finalizer_def user_kind_def
        has_finalizer_def add_finalizer_def)
qed

definition closed_cluster :: kafka_cluster where
  "closed_cluster = sample_cluster [''acl''] (Some \<lparr>tc_allowedNamespaces = [''other''], tc_topicPrefixes = []\<rparr>)"

definition world_with_user :: cli_world where
  "world_with_user = (world_with [])\<lparr>cw_kafka := km_new_with_scram [] []
     [\<lparr>scr_user = ''app'', scr_mechanism = ''SCRAM-SHA-512'', scr_iterations = 4096\<rparr>]\<rparr>"

theorem denied_user_deletes_credential_witness:
  "km_list_scram [] (cw_kafka world_with_user) \<noteq> Inr [] \<and>
   mget (km_scramCreds (cw_kafka (fst (user_deletion sample_operator (sample_api ku_meta []) (user_claim ''a'' 1)
     world_admin world_with_user)))) (km_scram_key (resolved_username (crd_obj (user_claim ''a'' 1)))
       (kus_mechanism (ku_spec (default_user (crd_obj (user_claim ''a'' 1)))))) = None"
proof
  show "km_list_scram [] (cw_kafka world_with_user) \<noteq> Inr []" by code_simp
  have "check_namespace (cluster_tenancy (Some closed_cluster)) (om_namespace (ku_meta (crd_obj (user_claim ''a'' 1)))) \<noteq>
      None" by code_simp
  then obtain e where denied:
    "check_namespace (cluster_tenancy (Some closed_cluster)) (om_namespace (ku_meta (crd_obj (user_claim ''a'' 1)))) = Some e"
    by blast
  have user: "validate_user_shape (prepared_user (crd_obj (user_claim ''a'' 1))) = []" "has_finalizer (user_claim ''a'' 1)"
    "kus_deletionPolicy (ku_spec (crd_obj (user_claim ''a'' 1))) \<in> {[], ''Delete''}"
    "km_failures (cw_kafka world_with_user) = []"
    by code_simp+
  have scan: "deletion_scan (sample_api ku_meta []) (find_live_user_co_claimant (namespace_local sample_operator) u)
      world_with_user = Inr None" for u
    by (simp add: deletion_scan_def sample_api_def find_live_user_co_claimant_def first_live_claimant_def
        listing_error_def prefixed_error_def and_then_def)
  have kept: "km_scramCreds (cw_kafka (fst (ka_update (sample_api ku_meta []) y w))) = km_scramCreds (cw_kafka w)" for y w
    by (simp add: sample_api_def)
  show "mget (km_scramCreds (cw_kafka (fst (user_deletion sample_operator (sample_api ku_meta [])
     (user_claim ''a'' 1) world_admin world_with_user)))) (km_scram_key (resolved_username (crd_obj (user_claim ''a'' 1)))
       (kus_mechanism (ku_spec (default_user (crd_obj (user_claim ''a'' 1)))))) = None"
    by (rule denied_user_deletes_credential [OF denied user(1-3) scan user(4) kept, THEN conjunct2, THEN conjunct2, THEN conjunct2])
qed

text \<open>
  The finalizer of a KafkaTopic reads neither the duplicate gate nor the access backends: deleting,
  with approval, the younger of two claimants of one topic on an rbac cluster removes the topic that the
  older one keeps managing, and an ACL that no pass of either would have written.
\<close>

lemma topic_loser_deletes_winners_topic:
  "let winner = topic_claim ''a'' 1;
       access = \<lparr>ta_producers = [\<lparr>pa_principal = ''User:a'', pa_host = [], pa_operations = [''Write'']\<rparr>], ta_consumers = []\<rparr>;
       loser = (topic_claim ''b'' 2)\<lparr>crd_obj := (crd_obj (topic_claim ''b'' 2))
           \<lparr>kt_meta := (kt_meta (crd_obj (topic_claim ''b'' 2)))\<lparr>om_annotations := [(AnnotationAllowDelete, ''true'')]\<rparr>,
            kt_spec := (kt_spec (crd_obj (topic_claim ''b'' 2)))\<lparr>kts_deletionPolicy := ''Delete'', kts_access := access\<rparr>\<rparr>,
         crd_deleting := True, crd_finalizers := [FinalizerName]\<rparr>;
       cl = sample_cluster [''rbac''] None;
       acl = mk_acl ''User:a'' ''*'' ''topic'' ''orders'' ''literal'' ''Write'' ''Allow'';
       w = (world_with [])\<lparr>cw_kafka := km_new [\<lparr>tst_name = ''orders'', tst_partitions = 1, tst_replicationFactor = 1,
         tst_config = []\<rparr>] [acl_to_state acl]\<rparr>;
       w' = fst (topic_deletion sample_operator (sample_owners [winner, loser] [] [])
         \<lparr>ko_getCluster = (\<lambda>_ _ _. Inr cl), ko_getSecret = (\<lambda>_ _ _. Inl (NotFound [])),
          ko_createSecret = (\<lambda>_ _ _ w. (w, None)), ko_updateSecret = (\<lambda>_ _ _ w. (w, None)),
          ko_getConfigMap = (\<lambda>_ _ _. Inl (NotFound []))\<rparr>
         (sample_api kt_meta []) loser cl world_admin None w)
   in find_older_topic_claim True loser (\<lambda>_ (_::unit). Inr [winner, loser]) () = Inr (Some winner) \<and>
      topic_acls (crd_obj loser) (Some cl) = [] \<and> topic_acls (crd_obj winner) (Some cl) = [] \<and>
      km_topics (cw_kafka w') = [] \<and> km_acls (cw_kafka w') = []"
  by code_simp

subsection \<open>Role bindings on the in-memory MDS\<close>

abbreviation live_bindings :: "cli_world \<Rightarrow> (string, mds_role_binding) gomap" where
  "live_bindings w \<equiv> mm_bindings (cw_mds w)"

definition keeps_bindings :: "(cli_world, 'o, 's) kind_api \<Rightarrow> bool" where
  "keeps_bindings api \<longleftrightarrow> (\<forall>y w. live_bindings (fst (ka_update api y w)) = live_bindings w)"

lemma remove_finalizer_bindings:
  "keeps_bindings (k_api k) \<Longrightarrow> live_bindings (fst (remove_finalizer k x w)) = live_bindings w"
  unfolding keeps_bindings_def remove_finalizer_def
  by (simp split: prod.split option.split) (metis fst_conv)

lemma removed_bindings_spare:
  "key \<notin> rb_full_key ` set bs \<Longrightarrow>
   mget (live_bindings (fst (remove_bindings world_mds bs w))) key = mget (live_bindings w) key"
proof (induction bs arbitrary: w)
  case Nil
  show ?case by simp
next
  case (Cons b bs)
  have "mget (live_bindings (fst (mc_removeRoleBinding world_mds (to_mds b) w))) key = mget (live_bindings w) key"
    using Cons.prems
    by (auto simp: world_mds_def on_mds_def mm_remove_role_binding_def mm_record_def mds_key_conv delete_conv Let_def
        split: prod.split option.split)
  with Cons show ?case by (auto split: prod.split option.split)
qed

text \<open>Every binding a live role binding compiles to is in the view, whatever collides with it.\<close>

lemma union_view_keys: "rb_full_key ` set (crv_desiredBindings (union_view all)) = rb_full_key ` set all"
proof -
  have "set (map rb_full_key (fst (build_binding_set all))) = set (nub (map rb_full_key (accepted_bindings all)))"
    using build_binding_set_keys [of all] by (metis set_mset_mset)
  then have "rb_full_key ` set (fst (build_binding_set all)) = rb_full_key ` set (accepted_bindings all)" by simp
  then show ?thesis by (simp add: union_view_def accepted_bindings_keys Let_def)
qed

lemma rb_full_key_prune [simp]: "rb_full_key (b\<lparr>rb_prune := p\<rparr>) = rb_full_key b"
  by (simp add: rb_full_key_def)

lemma view_covers_live:
  assumes "cluster_role_binding_view quote co ref ns loc (Some mds) cl w = Inr v"
    and "co_roleBindings co (list_scope loc ns) w = Inr items" "y \<in> set items" "\<not> crd_deleting y"
    and "role_binding_ref (crd_obj y) = ref"
  shows "set (binding_keys mds (crd_obj y)) \<subseteq> rb_full_key ` set (crv_desiredBindings v)"
proof -
  obtain rest where v: "v = union_view (concat (map (view_role_bindings mds) (live_on role_binding_ref ref items)) @ rest)"
  proof (cases "has_access_backend (Some cl) ''rbac''")
    case True
    then show thesis
      using assms(1,2) that
      by (cases "co_topics co (list_scope loc ns) w")
        (auto simp: cluster_role_binding_view_def prefixed_error_def and_then_def Let_def)
  next
    case False
    then show thesis
      using assms(1,2) that [of "[]"]
      by (auto simp: cluster_role_binding_view_def prefixed_error_def and_then_def Let_def)
  qed
  have "set (binding_keys mds (crd_obj y)) \<subseteq> rb_full_key ` set (view_role_bindings mds (crd_obj y))"
    by (cases "rbac_compile (crd_obj y) mds")
      (simp_all add: binding_keys_def view_role_bindings_def stamp_rb_prune_def image_image)
  moreover have "crd_obj y \<in> set (live_on role_binding_ref ref items)"
    using assms(3-5) by (auto simp: live_on_def)
  ultimately show ?thesis unfolding v union_view_keys by fastforce
qed

text \<open>
  Deleting a KafkaRoleBinding leaves to its co-owners what they compile to: on the in-memory MDS, the
  binding stored under a key that another live role binding of the same cluster compiles to is the same
  before and after the finalizer's pass - and so is every binding the deleted resource does not compile
  to - whatever its deletion policy, the failures of the MDS and the outcome.
\<close>

theorem role_binding_deletion_spares:
  assumes "keeps_bindings api" "cluster_mds cl = Some mds"
    and "co_roleBindings co (list_scope (namespace_local env) (cluster_namespace env (kr_meta (crd_obj x)))) w = Inr items"
    and "(\<exists>y \<in> set items. \<not> crd_deleting y \<and> role_binding_ref (crd_obj y) = role_binding_ref (crd_obj x) \<and>
            key \<in> set (binding_keys mds (crd_obj y))) \<or>
      key \<notin> set (binding_keys mds (default_role_binding (crd_obj x)))"
  shows "mget (live_bindings (fst (role_binding_deletion env co api x cl world_mds w))) key = mget (live_bindings w) key"
proof -
  let ?rb = "default_role_binding (crd_obj x)" and ?x = "x\<lparr>crd_obj := default_role_binding (crd_obj x)\<rparr>"
  have rm: "mget (live_bindings (fst (remove_finalizer (role_binding_kind env api) ?x w'))) key =
      mget (live_bindings w') key" for w'
    using remove_finalizer_bindings [of "role_binding_kind env api" ?x w'] assms(1) by (simp add: role_binding_kind_def)
  have same: "role_binding_ref ?rb = role_binding_ref (crd_obj x)"
    "cluster_namespace env (kr_meta ?rb) = cluster_namespace env (kr_meta (crd_obj x))"
    by (simp_all add: default_role_binding_def fill_api_version_def cluster_namespace_def Let_def)
  have gone: "key \<notin> rb_full_key ` set (subtract_protected_role_bindings bs (crv_desiredBindings v))"
    if "rbac_compile ?rb mds = Inr bs" "cluster_role_binding_view (oe_quote env) co (role_binding_ref (crd_obj x))
      (cluster_namespace env (kr_meta (crd_obj x))) (namespace_local env) (Some mds) cl w = Inr v" for bs v
    using view_covers_live [OF that(2) assms(3)] assms(4) that(1)
    by (auto simp: subtract_protected_role_bindings_def set_subtract_protected binding_keys_def)
  have "mget (live_bindings (fst (role_binding_deletion env co api x cl world_mds w))) key =
      mget (live_bindings w) key \<or> (\<exists>w' ns. role_binding_cleanup env co ?rb cl mds world_mds w = Inr (w', ns) \<and>
      mget (live_bindings w') key \<noteq> mget (live_bindings w) key) \<or>
      (\<exists>r. role_binding_cleanup env co ?rb cl mds world_mds w = Inl r \<and>
      mget (live_bindings (fst r)) key \<noteq> mget (live_bindings w) key)"
    unfolding role_binding_deletion_def Let_def by (auto simp: assms(2) rm split: sum.split prod.split)
  moreover have "mget (live_bindings (fst r)) key = mget (live_bindings w) key"
    if "role_binding_cleanup env co ?rb cl mds world_mds w = Inl r" for r
    using that removed_bindings_spare [OF gone]
    by (auto simp: role_binding_cleanup_def same deletion_failed_def Let_def split: sum.splits prod.splits option.splits)
      (metis fst_conv)
  moreover have "mget (live_bindings w') key = mget (live_bindings w) key"
    if "role_binding_cleanup env co ?rb cl mds world_mds w = Inr (w', ns)" for w' ns
    using that removed_bindings_spare [OF gone]
    by (auto simp: role_binding_cleanup_def same Let_def split: sum.splits prod.splits option.splits)
      (metis fst_conv)
  ultimately show ?thesis by blast
qed

text \<open>Two role bindings of one principal that share a topic; the second is deleted.\<close>

definition deleted_role_binding :: "(kafka_role_binding, role_binding_status) crd" where
  "deleted_role_binding = (role_binding_claim ''b'' 2 [''t'', ''u''])\<lparr>crd_deleting := True\<rparr>"

definition shared_binding_key :: string where
  "shared_binding_key = hd (binding_keys sample_mds (crd_obj (role_binding_claim ''a'' 1 [''t''])))"

definition world_with_bindings :: cli_world where
  "world_with_bindings = (world_with [])\<lparr>cw_mds := (cw_mds (world_with []))\<lparr>mm_bindings :=
     (case rbac_compile (crd_obj deleted_role_binding) sample_mds of
        Inl _ \<Rightarrow> [] | Inr bs \<Rightarrow> map (\<lambda>b. (rb_full_key b, to_mds b)) bs)\<rparr>\<rparr>"

theorem role_binding_deletion_spares_witness:
  "length (live_bindings world_with_bindings) = 2 \<and>
   mget (live_bindings (fst (role_binding_deletion sample_operator
      (sample_owners [] [] [role_binding_claim ''a'' 1 [''t''], deleted_role_binding]) (sample_api kr_meta [])
      deleted_role_binding (sample_cluster [''rbac''] None) world_mds world_with_bindings))) shared_binding_key =
   mget (live_bindings world_with_bindings) shared_binding_key \<and>
   mget (live_bindings world_with_bindings) shared_binding_key \<noteq> None"
proof (intro conjI)
  let ?items = "[role_binding_claim ''a'' 1 [''t''], deleted_role_binding]"
  have "shared_binding_key \<in> set (binding_keys sample_mds (crd_obj (role_binding_claim ''a'' 1 [''t''])))"
    by code_simp
  then have "\<exists>y \<in> set ?items. \<not> crd_deleting y \<and> role_binding_ref (crd_obj y) = role_binding_ref (crd_obj deleted_role_binding) \<and>
      shared_binding_key \<in> set (binding_keys sample_mds (crd_obj y))"
    by (simp add: deleted_role_binding_def role_binding_claim_def)
  moreover have "keeps_bindings (sample_api kr_meta ([] :: (kafka_role_binding, role_binding_status) crd list))"
    by (simp add: keeps_bindings_def sample_api_def)
  ultimately show "mget (live_bindings (fst (role_binding_deletion sample_operator (sample_owners [] [] ?items)
      (sample_api kr_meta []) deleted_role_binding (sample_cluster [''rbac''] None) world_mds world_with_bindings)))
      shared_binding_key = mget (live_bindings world_with_bindings) shared_binding_key"
    by (intro role_binding_deletion_spares [where items = ?items and mds = sample_mds])
      (simp_all add: sample_owners_def sample_cluster_def cluster_mds_def)
qed code_simp+

subsection \<open>Watches\<close>

text \<open>The API server lists the objects of the scope.\<close>

definition lists_store :: "('o \<Rightarrow> object_meta) \<Rightarrow> ('w, 'o, 's) kind_api \<Rightarrow> ('o, 's) crd list \<Rightarrow> 'w \<Rightarrow> bool" where
  "lists_store meta api store w \<longleftrightarrow>
     (\<forall>scope. ka_list api scope w =
        Inr (filter (\<lambda>x. scope = None \<or> scope = Some (om_namespace (meta (crd_obj x)))) store))"

text \<open>The KafkaCluster a resource's pass looks up: by the same name in the namespace it resolves to.\<close>

definition resolves_to :: "operator_env \<Rightarrow> ('w, 'o, 's) kind \<Rightarrow> ('o, 's) crd \<Rightarrow> object_meta \<Rightarrow> bool" where
  "resolves_to env k x clm \<longleftrightarrow>
     cluster_namespace env (k_meta k (crd_obj x)) = om_namespace clm \<and> crd_cluster k x = om_name clm"

definition dependents_of ::
    "operator_env \<Rightarrow> ('w, 'o, 's) kind \<Rightarrow> ('o, 's) crd list \<Rightarrow> object_meta set \<Rightarrow> request set" where
  "dependents_of env k store clms = request_of (k_meta k) ` {x \<in> set store. \<exists>m \<in> clms. resolves_to env k x m}"

definition secret_clusters :: "(kafka_cluster, base_status) crd list \<Rightarrow> string \<Rightarrow> string \<Rightarrow> object_meta set" where
  "secret_clusters clusters ns n = (\<lambda>c. kc_meta (crd_obj c)) ` {c \<in> set clusters.
     om_namespace (kc_meta (crd_obj c)) = ns \<and> n \<in> set (cluster_secret_names (crd_obj c))}"

lemma clusters_referencing_store:
  assumes "lists_store kc_meta capi clusters w"
  shows "set (clusters_referencing_secret capi ns n w) = om_name ` secret_clusters clusters ns n"
  using assms by (auto simp: clusters_referencing_secret_def lists_store_def indexed_def secret_clusters_def)

lemma secret_clusters_namespace: "m \<in> secret_clusters clusters ns n \<Longrightarrow> om_namespace m = ns"
  by (auto simp: secret_clusters_def)

lemma map_secret_store:
  assumes "lists_store kc_meta capi clusters w" "lists_store (k_meta k) (k_api k) store w"
  shows "set (map_secret_to_dependents env capi k secretNS n w) =
    request_of (k_meta k) ` {x \<in> set store. (namespace_local env \<longrightarrow> om_namespace (k_meta k (crd_obj x)) = secretNS) \<and>
       crd_cluster k x \<in> om_name ` secret_clusters clusters secretNS n}"
  using assms(2) unfolding clusters_referencing_store [OF assms(1), symmetric]
  by (auto simp: map_secret_to_dependents_def lists_store_def list_scope_def Let_def image_iff)

lemma resolves_to_source:
  "(\<exists>m \<in> secret_clusters clusters ns n. resolves_to env k x m) \<longleftrightarrow>
     cluster_namespace env (k_meta k (crd_obj x)) = ns \<and> crd_cluster k x \<in> om_name ` secret_clusters clusters ns n"
  unfolding resolves_to_def image_iff by (metis secret_clusters_namespace)

lemma secret_reaches_dependents:
  assumes "lists_store kc_meta capi clusters w" "lists_store (k_meta k) (k_api k) store w"
  shows "dependents_of env k store (secret_clusters clusters secretNS secretName) \<subseteq>
      set (map_secret_to_dependents env capi k secretNS secretName w)"
  unfolding map_secret_store [OF assms] dependents_of_def resolves_to_source
  by (rule image_mono) (auto simp: namespace_local_def cluster_namespace_def)


text \<open>An API server that lists by namespace; a cluster that reads its CA from the Secret \<open>ca\<close>.\<close>

definition scoped_api :: "('o \<Rightarrow> object_meta) \<Rightarrow> ('o, 's) crd list \<Rightarrow> (unit, 'o, 's) kind_api" where
  "scoped_api meta items = (sample_api meta items)
     \<lparr>ka_list := (\<lambda>scope _. Inr (filter (\<lambda>x. scope = None \<or> scope = Some (om_namespace (meta (crd_obj x)))) items))\<rparr>"

lemma scoped_api_lists [simp]: "lists_store meta (scoped_api meta items) items w"
  by (simp add: lists_store_def scoped_api_def)

definition ca_tls :: tls_config where
  "ca_tls = \<lparr>tls_enabled = True, tls_caCert = Some \<lparr>vf_valueFrom = \<lparr>vs_env = [], vs_file = [],
     vs_secretKeyRef = Some \<lparr>skr_name = ''ca'', skr_key = ''ca.crt''\<rparr>, vs_inline = [], vs_configMapKeyRef = None\<rparr>\<rparr>,
     tls_clientCert = None, tls_clientKey = None, tls_insecureSkipVerify = False\<rparr>"

definition secret_reading_cluster :: "(kafka_cluster, base_status) crd" where
  "secret_reading_cluster =
     \<lparr>crd_obj = (sample_cluster [''acl''] None)\<lparr>kc_spec := (kc_spec (sample_cluster [''acl''] None))
        \<lparr>kcs_tls := Some ca_tls\<rparr>\<rparr>,
      crd_created = 0, crd_deleting = False, crd_finalizers = [], crd_status = None\<rparr>"


end
