(* ===== verification/Import_Names.thy ===== *)
theory Import_Names
  imports Types Go_Std
begin

section \<open>Names of imported manifests (internal/importer/build.go)\<close>

text \<open>
  The metadata names the importer derives from live names: lower-cased, with every run of other
  characters one dash, truncated, and made unique by a numeric suffix. The lemmas say that a name that
  is already valid stays as it is, that the derived names are valid, and that the suffix search ends.
\<close>

subsection \<open>Slugs\<close>

text \<open>
  \<open>strings.ToLower\<close> is \<open>to_lower\<close> of the validation layer. \<open>strings.ToUpper\<close> is modelled the same way,
  as far as the callers can tell: ASCII letters, and the two runes whose image is an ASCII letter (the
  dotless i and the long s). Every other rune stays outside the letters and digits, so one byte of its
  encoding is as good as the rune.
\<close>

definition ascii_upper :: "char \<Rightarrow> bool" where
  "ascii_upper c \<longleftrightarrow> of_char c \<in> {65..90 :: nat}"

definition ascii_lower :: "char \<Rightarrow> bool" where
  "ascii_lower c \<longleftrightarrow> of_char c \<in> {97..122 :: nat}"

definition ascii_digit :: "char \<Rightarrow> bool" where
  "ascii_digit c \<longleftrightarrow> of_char c \<in> {48..57 :: nat}"

definition upper_char :: "char \<Rightarrow> char" where
  "upper_char c = (if ascii_lower c then char_of ((of_char c :: nat) - 32) else c)"

fun to_upper :: "string \<Rightarrow> string" where
  "to_upper [] = []"
| "to_upper (c # s) =
     (if prefix [CHR 0xC4, CHR 0xB1] (c # s) then CHR ''I'' # to_upper (drop 1 s)
      else if prefix [CHR 0xC5, CHR 0xBF] (c # s) then CHR ''S'' # to_upper (drop 1 s)
      else upper_char c # to_upper s)"

text \<open>The loop of \<open>slug\<close> and of \<open>userEnvVarName\<close>; \<open>prev\<close> is \<open>prevDash\<close>.\<close>

fun squeeze :: "(char \<Rightarrow> bool) \<Rightarrow> char \<Rightarrow> bool \<Rightarrow> string \<Rightarrow> string" where
  "squeeze ok d prev [] = []"
| "squeeze ok d prev (c # s) =
     (if ok c then c # squeeze ok d False s
      else if prev then squeeze ok d True s else d # squeeze ok d True s)"

definition trim_chars :: "char list \<Rightarrow> string \<Rightarrow> string" where
  "trim_chars cs s = rev (dropWhile (\<lambda>c. c \<in> set cs) (rev (dropWhile (\<lambda>c. c \<in> set cs) s)))"

definition slug_char :: "char \<Rightarrow> bool" where
  "slug_char c \<longleftrightarrow> ascii_lower c \<or> ascii_digit c"

definition slug :: "string \<Rightarrow> string" where
  "slug s = trim_chars ''-'' (squeeze slug_char CHR ''-'' False (to_lower s))"

subsection \<open>Metadata names\<close>

definition maxNameLen :: nat where
  "maxNameLen = 253"

definition nameSuffixReserve :: nat where
  "nameSuffixReserve = 6"

definition name_limit :: nat where
  "name_limit = maxNameLen - nameSuffixReserve"

definition topic_meta_name :: "string \<Rightarrow> string" where
  "topic_meta_name topicName =
     (let s = join ''.'' (filter (\<lambda>l. l \<noteq> []) (map slug (split_on CHR ''.'' topicName)));
          s' = (if s = [] then ''topic'' else s)
      in if length s' > name_limit then trim_chars ''.-'' (take name_limit s') else s')"

definition quota_meta_name :: "string \<Rightarrow> string" where
  "quota_meta_name entityKey =
     (let name = ''quota-'' @ slug entityKey
      in trim_chars ''-'' (if length name > name_limit then take name_limit name else name))"

definition policy_base_name :: "string \<Rightarrow> string" where
  "policy_base_name p = ''imported-'' @ slug p"

definition role_binding_base_name :: "string list \<Rightarrow> string" where
  "role_binding_base_name nameParts =
     (let name = ''imported-rb-'' @ slug (join ''-'' nameParts)
      in if length name > maxNameLen then trim_chars ''-'' (take maxNameLen name) else name)"

definition env_char :: "char \<Rightarrow> bool" where
  "env_char c \<longleftrightarrow> ascii_upper c \<or> ascii_digit c"

definition user_env_var_name :: "string \<Rightarrow> string" where
  "user_env_var_name username =
     (let s = trim_chars ''_'' (squeeze env_char CHR ''_'' False (to_upper username))
      in ''KAFKA_USER_'' @ (if s = [] then ''USER'' else s) @ ''_PASSWORD'')"

subsection \<open>Uniqueness\<close>

text \<open>
  \<open>disambiguateName\<close>, \<open>disambiguateEnvVar\<close> and the loop of \<open>buildPolicies\<close>: the first free suffix from
  2 on. The source's loop has no bound; \<open>length taken + 1\<close> candidates hold a free one.
\<close>

definition suffixed :: "char \<Rightarrow> string \<Rightarrow> nat \<Rightarrow> string" where
  "suffixed sep base n = base @ sep # nat_str n"

definition first_free :: "char \<Rightarrow> string \<Rightarrow> string list \<Rightarrow> string option" where
  "first_free sep base taken =
     find (\<lambda>s. s \<notin> set taken) (map (suffixed sep base) [2..<length taken + 3])"

definition disambiguate :: "char \<Rightarrow> string \<Rightarrow> string list \<Rightarrow> string" where
  "disambiguate sep base taken =
     (if base \<notin> set taken then base
      else case first_free sep base taken of Some s \<Rightarrow> s | None \<Rightarrow> base)"

text \<open>The names of a list of objects in order, with the set of names taken at the end.\<close>

fun assign_names :: "char \<Rightarrow> string list \<Rightarrow> string list \<Rightarrow> string list \<times> string list" where
  "assign_names sep taken [] = ([], taken)"
| "assign_names sep taken (b # bs) =
     (let n = disambiguate sep b taken; (ns, taken') = assign_names sep (n # taken) bs
      in (n # ns, taken'))"

subsection \<open>The suffix search ends\<close>

lemma nat_str_digits: "c \<in> set (nat_str n) \<Longrightarrow> ascii_digit c"
proof (induction n rule: nat_str.induct)
  case (1 n)
  have digit: "ascii_digit (char_of (48 + m))" if "m < 10" for m :: nat
    using that by (simp add: ascii_digit_def)
  show ?case
  proof (cases "n < 10")
    case True
    then show ?thesis using 1 digit by (simp add: nat_str.simps [of n])
  next
    case False
    then show ?thesis using 1 digit [of "n mod 10"] by (auto simp: nat_str.simps [of n])
  qed
qed

fun digits_value :: "string \<Rightarrow> nat \<Rightarrow> nat" where
  "digits_value [] acc = acc"
| "digits_value (c # s) acc = digits_value s (acc * 10 + (of_char c - 48))"

lemma digits_value_append: "digits_value (s @ t) acc = digits_value t (digits_value s acc)"
  by (induction s arbitrary: acc) auto

lemma digits_value_nat_str: "digits_value (nat_str n) 0 = n"
proof (induction n rule: nat_str.induct)
  case (1 n)
  then show ?case by (auto simp: nat_str.simps [of n] digits_value_append)
qed

lemma nat_str_inject: "nat_str m = nat_str n \<longleftrightarrow> m = n"
  by (metis digits_value_nat_str)

lemma suffixed_inject: "suffixed sep base m = suffixed sep base n \<longleftrightarrow> m = n"
  by (simp add: suffixed_def nat_str_inject)

lemma first_free_Some: "\<exists>s. first_free sep base taken = Some s"
proof (rule ccontr)
  assume "\<not> ?thesis"
  then have "first_free sep base taken = None" by simp
  then have sub: "suffixed sep base ` set [2..<length taken + 3] \<subseteq> set taken"
    by (auto simp: first_free_def find_None_iff)
  have "card (suffixed sep base ` set [2..<length taken + 3]) = length taken + 1"
    by (simp add: card_image inj_on_def suffixed_inject)
  moreover have "card (suffixed sep base ` set [2..<length taken + 3]) \<le> length taken"
    using card_mono [OF _ sub] card_length [of taken] by simp
  ultimately show False by simp
qed

lemma first_free_notin: "first_free sep base taken = Some s \<Longrightarrow> s \<notin> set taken"
  by (auto simp: first_free_def find_Some_iff)

lemma disambiguate_fresh: "disambiguate sep base taken \<notin> set taken"
  using first_free_Some [of sep base taken] first_free_notin [of sep base taken]
  by (auto simp: disambiguate_def)

lemma disambiguate_cases:
  "disambiguate sep base taken = base \<or> (\<exists>n \<ge> 2. n < length taken + 3 \<and> disambiguate sep base taken = suffixed sep base n)"
proof -
  obtain s where s: "first_free sep base taken = Some s" using first_free_Some by blast
  then have "s \<in> set (map (suffixed sep base) [2..<length taken + 3])"
    unfolding first_free_def by (rule find_SomeD [THEN conjunct1])
  then obtain n where "2 \<le> n" "n < length taken + 3" "s = suffixed sep base n" by auto
  with s show ?thesis by (auto simp: disambiguate_def)
qed

lemma assign_names_distinct:
  "distinct taken \<Longrightarrow> distinct (fst (assign_names sep taken bs)) \<and>
     set (fst (assign_names sep taken bs)) \<inter> set taken = {} \<and>
     set (snd (assign_names sep taken bs)) = set (fst (assign_names sep taken bs)) \<union> set taken \<and>
     distinct (snd (assign_names sep taken bs))"
proof (induction bs arbitrary: taken)
  case Nil
  then show ?case by simp
next
  case (Cons b bs)
  then show ?case
    using Cons.IH [of "disambiguate sep b taken # taken"] disambiguate_fresh [of sep b taken]
    by (auto simp: Let_def case_prod_beta)
qed

lemma assign_names_length [simp]: "length (fst (assign_names sep taken bs)) = length bs"
  by (induction bs arbitrary: taken) (simp_all add: Let_def case_prod_beta)

subsection \<open>Slugs are labels\<close>

text \<open>A label: letters and digits with single dashes inside.\<close>

definition ends_ok :: "(char \<Rightarrow> bool) \<Rightarrow> string \<Rightarrow> bool" where
  "ends_ok ok s \<longleftrightarrow> s = [] \<or> ok (hd s) \<and> ok (last s)"

definition slug_label :: "string \<Rightarrow> bool" where
  "slug_label s \<longleftrightarrow> (\<forall>c \<in> set s. slug_char c \<or> c = CHR ''-'') \<and> ends_ok slug_char s"

lemma set_trim_chars: "set (trim_chars cs s) \<subseteq> set s"
  unfolding trim_chars_def set_rev by (metis set_dropWhileD set_rev subsetI)

lemma hd_trim_chars:
  assumes "trim_chars cs s \<noteq> []"
  shows "hd (trim_chars cs s) \<notin> set cs" "last (trim_chars cs s) \<notin> set cs"
proof -
  let ?t = "dropWhile (\<lambda>c. c \<in> set cs) s" and ?P = "\<lambda>c. c \<in> set cs"
  have ne: "dropWhile ?P (rev ?t) \<noteq> []" using assms by (simp add: trim_chars_def)
  then show "last (trim_chars cs s) \<notin> set cs"
    using hd_dropWhile [of ?P "rev ?t"] by (simp add: trim_chars_def last_rev)
  have "?t \<noteq> []" using ne by (metis dropWhile.simps(1) rev.simps(1))
  then have "hd ?t \<notin> set cs" using hd_dropWhile by blast
  moreover have "hd (trim_chars cs s) = hd ?t"
    using ne unfolding trim_chars_def hd_rev
    by (metis append_is_Nil_conv hd_append2 hd_rev last_appendR rev_rev_ident takeWhile_dropWhile_id last_rev)
  ultimately show "hd (trim_chars cs s) \<notin> set cs" by simp
qed

lemma trim_chars_ends:
  assumes "\<forall>c \<in> set s. ok c \<or> c \<in> set cs"
  shows "ends_ok ok (trim_chars cs s)"
proof (cases "trim_chars cs s = []")
  case True
  then show ?thesis by (simp add: ends_ok_def)
next
  case False
  then have "hd (trim_chars cs s) \<in> set s" "last (trim_chars cs s) \<in> set s"
    using set_trim_chars [of cs s] by (meson hd_in_set last_in_set subsetD)+
  then show ?thesis using assms hd_trim_chars [OF False] by (auto simp: ends_ok_def)
qed

lemma trim_chars_nonempty: "c \<in> set s \<Longrightarrow> c \<notin> set cs \<Longrightarrow> trim_chars cs s \<noteq> []"
proof -
  assume c: "c \<in> set s" "c \<notin> set cs"
  let ?t = "dropWhile (\<lambda>c. c \<in> set cs) s"
  have "c \<in> set (takeWhile (\<lambda>c. c \<in> set cs) s @ ?t)" using c(1) by (simp only: takeWhile_dropWhile_id)
  then have "c \<in> set (rev ?t)" using c(2) unfolding set_append set_rev by (blast dest: set_takeWhileD)
  then show "trim_chars cs s \<noteq> []"
    using c(2) unfolding trim_chars_def rev_is_Nil_conv dropWhile_eq_Nil_conv by blast
qed

lemma trim_chars_id: "s = [] \<or> hd s \<notin> set cs \<and> last s \<notin> set cs \<Longrightarrow> trim_chars cs s = s"
  by (auto simp: trim_chars_def dropWhile_eq_self_iff [THEN iffD2] hd_rev)

lemma set_squeeze: "c \<in> set (squeeze ok d prev s) \<Longrightarrow> ok c \<or> c = d"
  by (induction ok d prev s rule: squeeze.induct) (auto split: if_splits)

lemma slug_is_label: "slug_label (slug s)"
proof -
  have ok: "slug_char c \<or> c \<in> set ''-''" if "c \<in> set (squeeze slug_char CHR ''-'' False t)" for c t
    using set_squeeze [OF that] by auto
  then have "ends_ok slug_char (slug s)" unfolding slug_def by (intro trim_chars_ends) blast
  moreover have "\<forall>c \<in> set (slug s). slug_char c \<or> c = CHR ''-''"
    using ok set_trim_chars unfolding slug_def by fastforce
  ultimately show ?thesis by (simp add: slug_label_def)
qed

lemma squeeze_id:
  assumes "\<forall>c \<in> set s. ok c \<or> c = d" "\<not> ok d" "\<not> prev \<or> s = [] \<or> hd s \<noteq> d"
    and "\<forall>i. Suc i < length s \<longrightarrow> s ! i = d \<longrightarrow> s ! Suc i \<noteq> d"
  shows "squeeze ok d prev s = s"
  using assms
proof (induction ok d prev s rule: squeeze.induct)
  case (1 ok d prev)
  show ?case by simp
next
  case (2 ok d prev c s)
  have tail: "\<forall>i. Suc i < length s \<longrightarrow> s ! i = d \<longrightarrow> s ! Suc i \<noteq> d"
    using "2.prems"(4) by (metis Suc_less_eq length_Cons nth_Cons_Suc)
  have head: "c = d \<Longrightarrow> s \<noteq> [] \<Longrightarrow> hd s \<noteq> d"
    using "2.prems"(4) [THEN spec, of 0] by (simp add: hd_conv_nth)
  show ?case using 2 tail head by auto
qed

subsection \<open>Metadata names are DNS-1123 subdomains\<close>

text \<open>
  Kubernetes' rule: letters and digits, dashes and dots inside, a letter or digit on either side of
  every dot, at most 253 characters.
\<close>

definition dot_rule :: "char \<Rightarrow> char \<Rightarrow> bool" where
  "dot_rule a b \<longleftrightarrow> (a = CHR ''.'' \<longrightarrow> slug_char b) \<and> (b = CHR ''.'' \<longrightarrow> slug_char a)"

definition name_body :: "string \<Rightarrow> bool" where
  "name_body s \<longleftrightarrow> (\<forall>c \<in> set s. slug_char c \<or> c \<in> set ''.-'') \<and> successively dot_rule s"

definition dns_subdomain :: "string \<Rightarrow> bool" where
  "dns_subdomain s \<longleftrightarrow> s \<noteq> [] \<and> length s \<le> maxNameLen \<and> name_body s \<and> ends_ok slug_char s"

lemma slug_char_marks [simp]: "\<not> slug_char CHR ''.''" "\<not> slug_char CHR ''-''"
  by code_simp+

lemma name_body_append:
  "name_body (s @ t) \<longleftrightarrow> name_body s \<and> name_body t \<and> (s = [] \<or> t = [] \<or> dot_rule (last s) (hd t))"
  by (auto simp: name_body_def successively_append_iff)

lemma name_body_label: "\<forall>c \<in> set s. slug_char c \<or> c = CHR ''-'' \<Longrightarrow> name_body s"
proof (induction s)
  case Nil
  show ?case by (simp add: name_body_def)
next
  case (Cons c s)
  then have "name_body s" "dot_rule c (hd s) \<or> s = []"
    by (cases s; force simp: dot_rule_def)+
  moreover have "name_body [c]" using Cons.prems by (auto simp: name_body_def)
  ultimately show ?case using name_body_append [of "[c]" s] by auto
qed

lemma trim_chars_split: "\<exists>u v. s = u @ trim_chars cs s @ v"
proof -
  let ?P = "\<lambda>c. c \<in> set cs" and ?t = "dropWhile (\<lambda>c. c \<in> set cs) s"
  have "?t = rev (dropWhile ?P (rev ?t)) @ rev (takeWhile ?P (rev ?t))"
    by (metis rev_append rev_rev_ident takeWhile_dropWhile_id)
  then have "s = takeWhile ?P s @ rev (dropWhile ?P (rev ?t)) @ rev (takeWhile ?P (rev ?t))"
    by (metis takeWhile_dropWhile_id)
  then show ?thesis unfolding trim_chars_def by blast
qed

lemma name_body_trim: "name_body s \<Longrightarrow> name_body (trim_chars cs s)"
  using trim_chars_split [of s cs] name_body_append by metis

lemma name_body_take: "name_body s \<Longrightarrow> name_body (take n s)"
  using name_body_append [of "take n s" "drop n s"] by simp

lemma join_labels:
  assumes "\<forall>l \<in> set ls. l \<noteq> [] \<and> slug_label l"
  shows "name_body (join ''.'' ls) \<and> ends_ok slug_char (join ''.'' ls) \<and>
    (ls \<noteq> [] \<longrightarrow> join ''.'' ls \<noteq> [] \<and> hd (join ''.'' ls) = hd (hd ls))"
  using assms
proof (induction ls rule: induct_list012)
  case 1
  show ?case by (simp add: name_body_def ends_ok_def)
next
  case (2 l)
  then show ?case by (auto simp: slug_label_def intro: name_body_label)
next
  case (3 l m ls)
  let ?rest = "join ''.'' (m # ls)"
  have rest: "name_body ?rest" "ends_ok slug_char ?rest" "?rest \<noteq> []" "slug_char (hd ?rest)"
    using 3 by (auto simp: ends_ok_def)
  have l: "name_body l" "slug_char (hd l)" "slug_char (last l)" "l \<noteq> []"
    using 3 by (auto simp: slug_label_def ends_ok_def intro: name_body_label)
  have "name_body ''.''" "last l \<noteq> CHR ''.''" "hd ?rest \<noteq> CHR ''.''"
    using l rest(4) by (auto simp: name_body_def)
  then have "name_body (l @ ''.'' @ ?rest)"
    using rest l name_body_append [of l "''.'' @ ?rest"] name_body_append [of "''.''" ?rest]
    by (simp add: dot_rule_def)
  moreover have "ends_ok slug_char (l @ ''.'' @ ?rest)"
    using rest l by (auto simp: ends_ok_def hd_append)
  ultimately show ?case using l by (simp add: hd_append)
qed

lemma topic_meta_name_valid: "dns_subdomain (topic_meta_name n) \<and> length (topic_meta_name n) \<le> name_limit"
proof -
  let ?ls = "filter (\<lambda>l. l \<noteq> []) (map slug (split_on CHR ''.'' n))"
  let ?s = "if join ''.'' ?ls = [] then ''topic'' else join ''.'' ?ls"
  have "name_body (join ''.'' ?ls)" "ends_ok slug_char (join ''.'' ?ls)"
    using join_labels [of ?ls] slug_is_label by auto
  moreover have "name_body ''topic''" "ends_ok slug_char ''topic''" by code_simp+
  ultimately have body: "name_body ?s" "ends_ok slug_char ?s" and ne: "?s \<noteq> []" by simp_all
  have trimmed: "dns_subdomain (trim_chars ''.-'' (take name_limit ?s)) \<and>
    length (trim_chars ''.-'' (take name_limit ?s)) \<le> name_limit"
  proof -
    let ?t = "take name_limit ?s"
    have t: "name_body (trim_chars ''.-'' ?t)" using body by (intro name_body_trim name_body_take)
    have "\<forall>c \<in> set ?t. slug_char c \<or> c \<in> set ''.-''"
      using body(1) set_take_subset [of name_limit ?s] unfolding name_body_def by blast
    then have ends: "ends_ok slug_char (trim_chars ''.-'' ?t)" by (rule trim_chars_ends)
    obtain u v where uv: "?t = u @ trim_chars ''.-'' ?t @ v" using trim_chars_split by blast
    have "length (trim_chars ''.-'' ?t) \<le> length ?t" using arg_cong [OF uv, of length] by simp
    then have len: "length (trim_chars ''.-'' ?t) \<le> name_limit" by simp
    have "hd ?s \<in> set ?t" using ne by (cases ?s) (auto simp: name_limit_def maxNameLen_def nameSuffixReserve_def)
    moreover have "slug_char (hd ?s)" using body(2) ne by (simp add: ends_ok_def)
    ultimately have "trim_chars ''.-'' ?t \<noteq> []" by (intro trim_chars_nonempty) auto
    then show ?thesis using t ends len
      by (simp add: dns_subdomain_def name_limit_def maxNameLen_def nameSuffixReserve_def)
  qed
  show ?thesis
  proof (cases "length ?s > name_limit")
    case True
    then show ?thesis using trimmed by (simp add: topic_meta_name_def Let_def)
  next
    case False
    then show ?thesis using body ne
      by (simp add: topic_meta_name_def Let_def dns_subdomain_def name_limit_def maxNameLen_def nameSuffixReserve_def)
  qed
qed

text \<open>A suffix up to 99999 keeps a derived name valid.\<close>

lemma nat_str_length: "n < 10 ^ k \<Longrightarrow> 0 < k \<Longrightarrow> length (nat_str n) \<le> k"
proof (induction k arbitrary: n)
  case 0
  then show ?case by simp
next
  case (Suc k)
  show ?case
  proof (cases "n < 10")
    case True
    then show ?thesis by (simp add: nat_str.simps [of n])
  next
    case False
    then have "n div 10 < 10 ^ k" "0 < k" using Suc.prems by (cases k; simp add: less_mult_imp_div_less mult.commute)+
    then have "length (nat_str (n div 10)) \<le> k" by (rule Suc.IH)
    then show ?thesis using False by (simp add: nat_str.simps [of n])
  qed
qed

lemma nat_str_ne: "nat_str n \<noteq> []"
  by (simp add: nat_str.simps [of n])

lemma ascii_digit_slug: "ascii_digit c \<Longrightarrow> slug_char c"
  by (simp add: slug_char_def)

lemma suffixed_valid:
  assumes "dns_subdomain s" "length s \<le> name_limit" "n < 100000"
  shows "dns_subdomain (suffixed CHR ''-'' s n)"
proof -
  have digits: "\<forall>c \<in> set (CHR ''-'' # nat_str n). slug_char c \<or> c = CHR ''-''"
    using nat_str_digits ascii_digit_slug by auto
  have last: "slug_char (last (nat_str n))" "hd (CHR ''-'' # nat_str n) \<noteq> CHR ''.''"
    using nat_str_digits ascii_digit_slug nat_str_ne by (metis last_in_set) simp
  have "slug_char (last s)" "slug_char (hd s)" "s \<noteq> []" using assms(1) by (auto simp: dns_subdomain_def ends_ok_def)
  then have "name_body (s @ CHR ''-'' # nat_str n)" "ends_ok slug_char (s @ CHR ''-'' # nat_str n)"
    using assms(1) name_body_label [OF digits] last
    by (auto simp: dns_subdomain_def name_body_append dot_rule_def ends_ok_def nat_str_ne)
  moreover have "length (nat_str n) \<le> 5" using assms(3) by (intro nat_str_length) simp_all
  ultimately show ?thesis
    using assms(2) by (simp add: dns_subdomain_def suffixed_def name_limit_def maxNameLen_def nameSuffixReserve_def)
qed

lemma disambiguate_valid:
  assumes "dns_subdomain b" "length b \<le> name_limit" "length taken < 99997"
  shows "dns_subdomain (disambiguate CHR ''-'' b taken)"
  using disambiguate_cases [of "CHR ''-''" b taken] suffixed_valid [OF assms(1,2)] assms by auto

lemma assign_names_valid:
  assumes "\<forall>b \<in> set bs. dns_subdomain b \<and> length b \<le> name_limit" "length taken + length bs < 99998"
  shows "\<forall>n \<in> set (fst (assign_names CHR ''-'' taken bs)). dns_subdomain n"
  using assms
proof (induction bs arbitrary: taken)
  case Nil
  then show ?case by simp
next
  case (Cons b bs)
  then show ?case
    using Cons.IH [of "disambiguate CHR ''-'' b taken # taken"] disambiguate_valid [of b taken]
    by (simp add: Let_def case_prod_beta)
qed

subsection \<open>A valid name stays as it is\<close>

lemma lower_byte_id: "slug_char c \<or> c = CHR ''-'' \<Longrightarrow> lower_byte c = c"
  by (auto simp: lower_byte_def less_eq_char_def slug_char_def ascii_lower_def ascii_digit_def)

lemma slug_char_bytes: "\<not> slug_char CHR 0xE2" "\<not> slug_char CHR 0xC4"
  by code_simp+

lemma to_lower_id: "\<forall>c \<in> set s. slug_char c \<or> c = CHR ''-'' \<Longrightarrow> to_lower s = s"
proof (induction s rule: to_lower.induct)
  case (2 a s)
  then have "a \<noteq> CHR 0xE2" "a \<noteq> CHR 0xC4" using slug_char_bytes by auto
  then show ?case using 2 by (auto simp: lower_byte_id split: list.split)
qed simp

definition no_double_dash :: "string \<Rightarrow> bool" where
  "no_double_dash s \<longleftrightarrow> (\<forall>i. Suc i < length s \<longrightarrow> s ! i = CHR ''-'' \<longrightarrow> s ! Suc i \<noteq> CHR ''-'')"

lemma slug_id:
  assumes "slug_label s" "no_double_dash s"
  shows "slug s = s"
proof -
  have low: "to_lower s = s" using assms(1) by (intro to_lower_id) (simp add: slug_label_def)
  have sq: "squeeze slug_char CHR ''-'' False s = s"
    using assms by (intro squeeze_id) (auto simp: slug_label_def no_double_dash_def)
  have "s = [] \<or> hd s \<noteq> CHR ''-'' \<and> last s \<noteq> CHR ''-''"
    using assms(1) slug_char_marks by (auto simp: slug_label_def ends_ok_def)
  then show ?thesis unfolding slug_def low sq by (intro trim_chars_id) simp
qed

lemma topic_meta_name_id:
  assumes "\<forall>l \<in> set (split_on CHR ''.'' n). l \<noteq> [] \<and> slug_label l \<and> no_double_dash l" "length n \<le> name_limit"
  shows "topic_meta_name n = n"
proof -
  have "map slug (split_on CHR ''.'' n) = split_on CHR ''.'' n"
    using assms(1) slug_id by (simp add: map_idI)
  moreover have "filter (\<lambda>l. l \<noteq> []) (split_on CHR ''.'' n) = split_on CHR ''.'' n"
    using assms(1) by (simp add: filter_id_conv)
  ultimately have j: "join ''.'' (filter (\<lambda>l. l \<noteq> []) (map slug (split_on CHR ''.'' n))) = n"
    by (simp add: join_split_on)
  have "n \<noteq> []" using assms(1) by auto
  then show ?thesis using assms(2) by (simp add: topic_meta_name_def j)
qed

text \<open>Double dashes are valid in a DNS-1123 name and are collapsed all the same.\<close>

lemma topic_meta_name_examples:
  "topic_meta_name ''Orders_V2'' = ''orders-v2''" "topic_meta_name ''payments.orders'' = ''payments.orders''"
  "topic_meta_name ''...'' = ''topic''" "dns_subdomain ''a--b''" "topic_meta_name ''a--b'' = ''a-b''"
  by code_simp+

text \<open>The names of role bindings leave no room for a suffix, and those of policies are not truncated.\<close>

lemma slug_replicate: "slug_char c \<Longrightarrow> slug (replicate n c) = replicate n c"
  by (intro slug_id) (auto simp: slug_label_def ends_ok_def no_double_dash_def hd_replicate last_replicate)

lemma long_names_invalid:
  "\<not> dns_subdomain (suffixed CHR ''-'' (role_binding_base_name [replicate 300 CHR ''a'']) 2)"
  "\<not> dns_subdomain (policy_base_name (replicate 300 CHR ''a''))"
proof -
  have a: "slug_char CHR ''a''" by code_simp
  have "role_binding_base_name [replicate 300 CHR ''a''] = ''imported-rb-'' @ replicate 241 CHR ''a''"
    using a slug_replicate [OF a, of 300]
    by (auto simp: role_binding_base_name_def maxNameLen_def take_replicate intro!: trim_chars_id)
  then have "length (suffixed CHR ''-'' (role_binding_base_name [replicate 300 CHR ''a'']) 2) = 255"
    by (simp add: suffixed_def nat_str.simps)
  then show "\<not> dns_subdomain (suffixed CHR ''-'' (role_binding_base_name [replicate 300 CHR ''a'']) 2)"
    by (simp add: dns_subdomain_def maxNameLen_def)
  show "\<not> dns_subdomain (policy_base_name (replicate 300 CHR ''a''))"
    by (simp add: dns_subdomain_def maxNameLen_def policy_base_name_def slug_replicate [OF a])
qed

end
