(* ===== verification/Import_Snapshot.thy ===== *)
theory Import_Snapshot
  imports Import_Names Mirror_State Recordname Reconcile
begin

section \<open>The import snapshot (internal/importer/snapshot.go)\<close>

text \<open>
  What \<open>import cluster\<close> reads of a live cluster before it builds manifests: topics with their explicit
  configuration, mirror topics split off by classification, ACLs, quotas, SCRAM credentials, role
  bindings and Schema Registry subjects, each sorted by a key of its own.

  \<open>describe\<close> is \<open>DescribeTopicConfigs\<close> of the admin client, which no other part of the program calls;
  \<open>quote\<close> is \<open>strconv.Quote\<close>, needed where rendered warnings are sorted. A nil client is \<^term>\<open>None\<close>.
\<close>

subsection \<open>State\<close>

record topic_snapshot =
  tsn_name :: string
  tsn_partitions :: int
  tsn_replicationFactor :: int
  tsn_config :: "(string, string) gomap"

record mirror_snapshot =
  msn_name :: string
  msn_linkName :: string
  msn_sourceTopicName :: string
  msn_status :: string
  msn_replicationFactor :: int
  msn_explicitConfigKeys :: "string list"

record mirror_link_info =
  mli_aclSync :: "bool option"

record topic_subjects =
  tsc_value :: "subject_state option"
  tsc_key :: "subject_state option"
  tsc_valueStrategy :: string
  tsc_keyStrategy :: string

record record_name_subject =
  rns_subject :: string
  rns_recordName :: string
  rns_schemaType :: string

record import_snapshot =
  isn_topics :: "topic_snapshot list"
  isn_acls :: "acl_state list"
  isn_quotas :: "quota_state list"
  isn_scram :: "scram_credential list"
  isn_schemas :: "string \<rightharpoonup> topic_subjects"
  isn_recordNameSubjects :: "record_name_subject list"
  isn_schemaAmbiguities :: "string list"
  isn_unmatchedSubjects :: "string list"
  isn_roleBindings :: "mds_role_binding list"
  isn_mirrors :: "mirror_snapshot list"
  isn_mirrorLinks :: "(string, mirror_link_info) gomap"
  isn_deferredMirrors :: "string list"
  isn_staleMirrors :: "string list"

record 'w snapshot_options =
  so_skipUsers :: bool
  so_skipQuotas :: bool
  so_includeInternal :: bool
  so_rest :: "'w rest_client option"

definition wrap_error :: "message \<Rightarrow> go_error + 'a \<Rightarrow> go_error + 'a" where
  "wrap_error m x = (case x of Inl e \<Rightarrow> Inl (m @ e) | Inr a \<Rightarrow> Inr a)"

lemma wrap_error_Inr [simp]: "wrap_error m x = Inr a \<longleftrightarrow> x = Inr a"
  by (cases x) (simp_all add: wrap_error_def)

subsection \<open>Topics\<close>

definition is_internal_topic :: "string \<Rightarrow> bool" where
  "is_internal_topic name \<longleftrightarrow>
     has_prefix name ''__'' \<or> name = ''_schemas'' \<or> has_prefix name ''_confluent''"

text \<open>The loop assigns entry after entry, so the last entry of a name is the one looked up.\<close>

definition explicit_config :: "config_entry list \<Rightarrow> (string, string) gomap" where
  "explicit_config es = map (\<lambda>e. (ce_name e, ce_value e)) (rev (filter (\<lambda>e. \<not> ce_default e) es))"

fun read_topics ::
    "(string \<Rightarrow> ('w, config_entry list) query) \<Rightarrow> bool \<Rightarrow> topic_state list \<Rightarrow>
     ('w, topic_snapshot list) query" where
  "read_topics describe internal [] w = Inr []"
| "read_topics describe internal (t # ts) w =
     (if \<not> internal \<and> is_internal_topic (tst_name t) then read_topics describe internal ts w
      else
        and_then (wrap_error [T ''describe configs for topic '', Q (tst_name t), T '': '']
                   (describe (tst_name t) w)) (\<lambda>entries.
        and_then (read_topics describe internal ts w) (\<lambda>rest.
          Inr (\<lparr>tsn_name = tst_name t, tsn_partitions = tst_partitions t,
                tsn_replicationFactor = tst_replicationFactor t,
                tsn_config = explicit_config entries\<rparr> # rest))))"

subsection \<open>Mirrors\<close>

record mirror_split =
  msp_topics :: "topic_snapshot list"
  msp_mirrors :: "mirror_snapshot list"
  msp_links :: "(string, mirror_link_info) gomap"
  msp_deferred :: "string list"
  msp_stale :: "string list"

definition parse_bool_config :: "string \<Rightarrow> bool option" where
  "parse_bool_config v =
     (let s = to_lower (trim_space v)
      in if s = ''true'' then Some True else if s = ''false'' then Some False else None)"

definition mirror_snapshot_of :: "topic_snapshot \<Rightarrow> rest_mirror \<Rightarrow> mirror_snapshot" where
  "mirror_snapshot_of t m =
     \<lparr>msn_name = tsn_name t, msn_linkName = mi_linkName m,
      msn_sourceTopicName = mi_sourceTopicName m, msn_status = mi_status m,
      msn_replicationFactor = tsn_replicationFactor t,
      msn_explicitConfigKeys = mkeys (tsn_config t)\<rparr>"

text \<open>The loop over the sorted mirror names: the stale ones, or the first contradiction.\<close>

fun stale_mirrors :: "snapshot \<Rightarrow> bool \<Rightarrow> string list \<Rightarrow> go_error + string list" where
  "stale_mirrors s internal [] = Inr []"
| "stale_mirrors s internal (n # ns) =
     (if \<not> internal \<and> is_internal_topic n then stale_mirrors s internal ns
      else if classify s n = UnknownTopic then
        (if sn_topics s n = None \<and> classify_status (mi_status (mirror_at s n)) = StatusStopped
         then and_then (stale_mirrors s internal ns) (\<lambda>rest. Inr (n # rest))
         else Inl [T ''mirror topic '', Q n, T '': classification Unknown (status '',
                Q (mi_status (mirror_at s n)), T ''); refusing to guess its kind''])
      else stale_mirrors s internal ns)"

fun split_topics :: "snapshot \<Rightarrow> topic_snapshot list \<Rightarrow> mirror_split \<Rightarrow> go_error + mirror_split" where
  "split_topics s [] out = Inr out"
| "split_topics s (t # ts) out =
     (case classify s (tsn_name t) of
        MirrorTopic \<Rightarrow>
          split_topics s ts
            (out\<lparr>msp_mirrors := msp_mirrors out @ [mirror_snapshot_of t (mirror_at s (tsn_name t))]\<rparr>)
      | StoppingMirror \<Rightarrow> split_topics s ts (out\<lparr>msp_deferred := msp_deferred out @ [tsn_name t]\<rparr>)
      | UnknownTopic \<Rightarrow>
          Inl [T ''topic '', Q (tsn_name t), T '': mirror classification '',
               T (classification_name UnknownTopic), T ''; refusing to guess its kind'']
      | _ \<Rightarrow> split_topics s ts (out\<lparr>msp_topics := msp_topics out @ [t]\<rparr>))"

definition acl_sync_config :: string where
  "acl_sync_config = ''acl.sync.enable''"

definition link_acl_sync :: "snapshot \<Rightarrow> string \<Rightarrow> mirror_link_info" where
  "link_acl_sync s n =
     \<lparr>mli_aclSync =
        (case sn_links s n of
           None \<Rightarrow> None
         | Some li \<Rightarrow>
             (if li_configErr li = None then
                parse_bool_config (case mget (li_configs li) acl_sync_config of None \<Rightarrow> [] | Some v \<Rightarrow> v)
              else None))\<rparr>"

text \<open>
  The map \<open>snap.Mirrors\<close> is a partial function here, so its sorted keys are taken from the listing it
  was filled from (lemma \<open>mirror_names_dom\<close> of \<open>Import_Read_Props\<close>).
\<close>

definition mirror_names :: "rest_mirror list \<Rightarrow> string list" where
  "mirror_names listed = sort (remdups (map mi_mirrorTopicName listed))"

definition classify_mirrors ::
    "'w admin_client \<Rightarrow> 'w rest_client \<Rightarrow> topic_snapshot list \<Rightarrow> bool \<Rightarrow> ('w, mirror_split) query" where
  "classify_mirrors k r topics internal w =
     and_then (wrap_error [T ''mirror state Unknown: list mirrors: ''] (rc_listMirrors r w)) (\<lambda>listed.
       let linkNames = sort (remdups (map mi_linkName listed));
           s = read_snapshot k r linkNames w
       in if \<not> complete s then Inl (T ''mirror state Unknown: '' # err_text (sn_err s))
          else
            and_then (stale_mirrors s internal (mirror_names listed)) (\<lambda>stale.
            and_then (split_topics s topics
                \<lparr>msp_topics = [], msp_mirrors = [], msp_links = [], msp_deferred = [], msp_stale = stale\<rparr>)
              (\<lambda>out. Inr (out\<lparr>msp_links := map (\<lambda>n. (n, link_acl_sync s n)) linkNames\<rparr>))))"

subsection \<open>Schema Registry subjects\<close>

record schema_match =
  smt_schemas :: "string \<rightharpoonup> topic_subjects"
  smt_recordName :: "record_name_subject list"
  smt_unmatched :: "string list"
  smt_ambiguities :: "string list"

definition no_schemas :: topic_subjects where
  "no_schemas = \<lparr>tsc_value = None, tsc_key = None, tsc_valueStrategy = [], tsc_keyStrategy = []\<rparr>"

definition schemas_of :: "(string \<rightharpoonup> topic_subjects) \<Rightarrow> string \<Rightarrow> topic_subjects" where
  "schemas_of m t = (case m t of None \<Rightarrow> no_schemas | Some s \<Rightarrow> s)"

text \<open>\<open>expectedTopicName\<close>: the topic and the slot (\<^term>\<open>True\<close> is the value) a subject name stands for.\<close>

definition expected_target :: "topic_snapshot list \<Rightarrow> string \<Rightarrow> (string \<times> bool) option" where
  "expected_target topics =
     map_of (rev (concat (map (\<lambda>t. [(tsn_name t @ ''-value'', (tsn_name t, True)),
                                     (tsn_name t @ ''-key'', (tsn_name t, False))]) topics)))"

definition overridden ::
    "(string \<Rightarrow> string) \<Rightarrow> string \<Rightarrow> string \<Rightarrow> topic_subjects \<Rightarrow> string list" where
  "overridden quote topic subject ts =
     (case tsc_value ts of
        Some v \<Rightarrow>
          (if tsc_valueStrategy ts = ''TopicRecordName'' then
             [render quote [T ''topic '', Q topic, T '': TopicName subject '', Q subject,
                T '' overrides record-based subject '', Q (ss_subject v),
                T '' already attributed to the value slot; the record-based subject is dropped'']]
           else [])
      | None \<Rightarrow> [])"

definition put_topic_name ::
    "(string \<Rightarrow> string) \<Rightarrow> string \<Rightarrow> bool \<Rightarrow> string \<Rightarrow> subject_state \<Rightarrow> schema_match \<Rightarrow> schema_match" where
  "put_topic_name quote topic isValue subject state m =
     (let ts = schemas_of (smt_schemas m) topic
      in if isValue then
           m\<lparr>smt_ambiguities := smt_ambiguities m @ overridden quote topic subject ts,
             smt_schemas := (smt_schemas m)(topic \<mapsto>
               ts\<lparr>tsc_value := Some state, tsc_valueStrategy := ''TopicName''\<rparr>)\<rparr>
         else
           m\<lparr>smt_schemas := (smt_schemas m)(topic \<mapsto>
               ts\<lparr>tsc_key := Some state, tsc_keyStrategy := ''TopicName''\<rparr>)\<rparr>)"

definition put_topic_record_name ::
    "(string \<Rightarrow> string) \<Rightarrow> string \<Rightarrow> string \<Rightarrow> subject_state \<Rightarrow> schema_match \<Rightarrow> schema_match" where
  "put_topic_record_name quote topic subject state m =
     (let ts = schemas_of (smt_schemas m) topic
      in case tsc_value ts of
           None \<Rightarrow>
             m\<lparr>smt_schemas := (smt_schemas m)(topic \<mapsto>
                 ts\<lparr>tsc_value := Some state, tsc_valueStrategy := ''TopicRecordName''\<rparr>)\<rparr>
         | Some v \<Rightarrow>
             m\<lparr>smt_ambiguities := smt_ambiguities m @
                 [render quote [T ''topic '', Q topic, T '': subject '', Q subject,
                    T '' also reconstructs to a record-based value; already attributed to '',
                    Q (ss_subject v), T '', skipped this one'']]\<rparr>)"

definition get_subject :: "'w schema_client \<Rightarrow> string \<Rightarrow> ('w, subject_state option) query" where
  "get_subject sr subject w =
     wrap_error [T ''get subject '', Q subject, T '': ''] (sc_getSubject sr subject w)"

definition with_compatibility ::
    "'w schema_client \<Rightarrow> string \<Rightarrow> subject_state \<Rightarrow> ('w, subject_state) query" where
  "with_compatibility sr subject state w =
     and_then (wrap_error [T ''get compatibility '', Q subject, T '': ''] (sc_getCompatibility sr subject w))
       (\<lambda>level. Inr (state\<lparr>ss_compatibility := level\<rparr>))"

definition gather_step ::
    "(string \<Rightarrow> string) \<Rightarrow> 'w schema_client \<Rightarrow> topic_snapshot list \<Rightarrow> string \<Rightarrow> schema_match \<Rightarrow>
     ('w, schema_match) query" where
  "gather_step quote sr topics subject m w =
     and_then (get_subject sr subject w) (\<lambda>found.
       case found of
         None \<Rightarrow> Inr m
       | Some state \<Rightarrow>
           (case expected_target topics subject of
              Some (topic, isValue) \<Rightarrow>
                and_then (with_compatibility sr subject state w) (\<lambda>st.
                  Inr (put_topic_name quote topic isValue subject st m))
            | None \<Rightarrow>
                (case extract_name (sch_type (ss_schema state)) (sch_definition (ss_schema state)) of
                   Inl _ \<Rightarrow> Inr (m\<lparr>smt_unmatched := smt_unmatched m @ [subject]\<rparr>)
                 | Inr rn \<Rightarrow>
                     (case find (\<lambda>t. subject = tsn_name t @ ''-'' @ rn) topics of
                        Some t \<Rightarrow>
                          and_then (with_compatibility sr subject state w) (\<lambda>st.
                            Inr (put_topic_record_name quote (tsn_name t) subject st m))
                      | None \<Rightarrow>
                          (if subject = rn then
                             Inr (m\<lparr>smt_recordName := smt_recordName m @
                               [\<lparr>rns_subject = subject, rns_recordName = rn,
                                 rns_schemaType = sch_type (ss_schema state)\<rparr>]\<rparr>)
                           else Inr (m\<lparr>smt_unmatched := smt_unmatched m @ [subject]\<rparr>))))))"

fun gather_loop ::
    "(string \<Rightarrow> string) \<Rightarrow> 'w schema_client \<Rightarrow> topic_snapshot list \<Rightarrow> string list \<Rightarrow> schema_match \<Rightarrow>
     ('w, schema_match) query" where
  "gather_loop quote sr topics [] m w = Inr m"
| "gather_loop quote sr topics (s # ss) m w =
     and_then (gather_step quote sr topics s m w) (\<lambda>m'. gather_loop quote sr topics ss m' w)"

definition gather_schemas ::
    "(string \<Rightarrow> string) \<Rightarrow> 'w schema_client \<Rightarrow> topic_snapshot list \<Rightarrow> ('w, schema_match) query" where
  "gather_schemas quote sr topics w =
     and_then (wrap_error [T ''list subjects: ''] (sc_listSubjects sr w)) (\<lambda>subjects.
     and_then (gather_loop quote sr topics (sort subjects)
         \<lparr>smt_schemas = Map.empty, smt_recordName = [], smt_unmatched = [], smt_ambiguities = []\<rparr> w)
       (\<lambda>m. Inr (m\<lparr>smt_recordName := sort_key rns_subject (smt_recordName m),
                   smt_unmatched := sort (smt_unmatched m),
                   smt_ambiguities := sort (smt_ambiguities m)\<rparr>)))"

subsection \<open>Sort keys and scopes\<close>

definition quota_entity_key :: "quota_state \<Rightarrow> string" where
  "quota_entity_key q =
     join [CHR 0x01] (sort (map (\<lambda>c. qc_type c @ [NUL] @
       (case qc_name c of None \<Rightarrow> [] | Some n \<Rightarrow> n)) (qst_entity q)))"

definition acl_sort_key :: "acl_state \<Rightarrow> string" where
  "acl_sort_key a =
     nul_join [as_principal a, as_resourceType a, as_resourceName a, as_patternType a,
       as_operation a, as_host a, as_permission a]"

definition scopes_from_mds_config :: "mds_config option \<Rightarrow> mds_scope list" where
  "scopes_from_mds_config cfg =
     (case cfg of
        None \<Rightarrow> []
      | Some c \<Rightarrow>
          (let cl = mds_clusters_of c;
               sub = (\<lambda>typ i. if i \<noteq> [] then
                        [\<lparr>msc_type = typ, msc_kafkaCluster = mc_kafkaCluster cl, msc_subCluster = i\<rparr>] else [])
           in [\<lparr>msc_type = ''kafka'', msc_kafkaCluster = mc_kafkaCluster cl, msc_subCluster = []\<rparr>] @
              sub ''schema-registry'' (mc_schemaRegistryCluster cl) @
              sub ''connect'' (mc_connectCluster cl) @ sub ''ksql'' (mc_ksqlCluster cl)))"

subsection \<open>ReadSnapshot\<close>

text \<open>One binding per identity key, over all scopes; the first one seen stays.\<close>

fun add_unseen :: "mds_role_binding list \<Rightarrow> mds_role_binding list \<Rightarrow> mds_role_binding list" where
  "add_unseen rbs [] = rbs"
| "add_unseen rbs (rb # listed) =
     (if mds_key rb \<in> mds_key ` set rbs then add_unseen rbs listed
      else add_unseen (rbs @ [rb]) listed)"

fun list_bindings ::
    "'w mds_client \<Rightarrow> mds_scope list \<Rightarrow> mds_role_binding list \<Rightarrow> ('w, mds_role_binding list) query" where
  "list_bindings mc [] rbs w = Inr rbs"
| "list_bindings mc (sc # scs) rbs w =
     and_then (wrap_error [T ''list role bindings (scope '', Q (msc_type sc @ ''/'' @ msc_subCluster sc), T ''): '']
                (mc_listRoleBindings mc sc w))
       (\<lambda>listed. list_bindings mc scs (add_unseen rbs listed) w)"

definition sort_credentials :: "scram_credential list \<Rightarrow> scram_credential list" where
  "sort_credentials cs = sort_key (\<lambda>c. (scr_user c, scr_mechanism c)) cs"

definition read_when_not :: "bool \<Rightarrow> string \<Rightarrow> ('w, 'a list) query \<Rightarrow> ('w, 'a list) query" where
  "read_when_not skip what q w = (if skip then Inr [] else wrap_error [T what] (q w))"

definition import_mirror_split ::
    "'w admin_client \<Rightarrow> 'w snapshot_options \<Rightarrow> topic_snapshot list \<Rightarrow> ('w, mirror_split) query" where
  "import_mirror_split k opt topics w =
     (case so_rest opt of
        None \<Rightarrow> Inr \<lparr>msp_topics = topics, msp_mirrors = [], msp_links = [], msp_deferred = [], msp_stale = []\<rparr>
      | Some r \<Rightarrow> classify_mirrors k r topics (so_includeInternal opt) w)"

definition import_bindings ::
    "'w mds_client option \<Rightarrow> mds_scope list \<Rightarrow> ('w, mds_role_binding list) query" where
  "import_bindings mc scopes w =
     (case mc of
        None \<Rightarrow> Inr []
      | Some c \<Rightarrow> and_then (list_bindings c scopes [] w) (\<lambda>rbs. Inr (sort_key mds_key rbs)))"

definition import_schemas ::
    "(string \<Rightarrow> string) \<Rightarrow> 'w schema_client option \<Rightarrow> topic_snapshot list \<Rightarrow> ('w, schema_match) query" where
  "import_schemas quote sr topics w =
     (case sr of
        None \<Rightarrow> Inr \<lparr>smt_schemas = Map.empty, smt_recordName = [], smt_unmatched = [], smt_ambiguities = []\<rparr>
      | Some c \<Rightarrow> gather_schemas quote c topics w)"

definition read_import_snapshot ::
    "(string \<Rightarrow> string) \<Rightarrow> (string \<Rightarrow> ('w, config_entry list) query) \<Rightarrow> 'w admin_client \<Rightarrow>
     'w schema_client option \<Rightarrow> 'w mds_client option \<Rightarrow> mds_scope list \<Rightarrow> 'w snapshot_options \<Rightarrow>
     ('w, import_snapshot) query" where
  "read_import_snapshot quote describe k sr mc scopes opt w =
     and_then (wrap_error [T ''list topics: ''] (ac_listTopics k w)) (\<lambda>listed.
     and_then (read_topics describe (so_includeInternal opt) listed w) (\<lambda>topics.
     and_then (import_mirror_split k opt (sort_key tsn_name topics) w) (\<lambda>ms.
     and_then (wrap_error [T ''list acls: ''] (ac_listACLs k w)) (\<lambda>acls.
     and_then (read_when_not (so_skipQuotas opt) ''list quotas: '' (ac_listQuotas k) w) (\<lambda>quotas.
     and_then (read_when_not (so_skipUsers opt) ''list scram credentials: '' (ac_listScram k []) w) (\<lambda>creds.
     and_then (import_bindings mc scopes w) (\<lambda>rbs.
     and_then (import_schemas quote sr (msp_topics ms) w) (\<lambda>sm.
       Inr \<lparr>isn_topics = msp_topics ms, isn_acls = sort_key acl_sort_key acls,
            isn_quotas = sort_key quota_entity_key quotas, isn_scram = sort_credentials creds,
            isn_schemas = smt_schemas sm, isn_recordNameSubjects = smt_recordName sm,
            isn_schemaAmbiguities = smt_ambiguities sm, isn_unmatchedSubjects = smt_unmatched sm,
            isn_roleBindings = rbs, isn_mirrors = msp_mirrors ms, isn_mirrorLinks = msp_links ms,
            isn_deferredMirrors = msp_deferred ms, isn_staleMirrors = msp_stale ms\<rparr>))))))))"

end
