(* ===== verification/Import_Topics.thy ===== *)
theory Import_Topics
  imports Import_Snapshot
begin

section \<open>Imported topics, mirrors and schemas (internal/importer/build.go, first half)\<close>

text \<open>
  The manifests of topics and mirror topics, and \<open>spec.schema\<close> with the schema files. The source builds
  a slice of topic pointers and a map from live names to them, and later steps write through the map:
  here the topics are a list, the map gives positions (\<open>topic_pos\<close>) and a write is \<open>at_topic\<close>.

  A warning is a rendered string, since warnings are sorted; \<open>quote\<close> is \<open>strconv.Quote\<close>.
\<close>

definition imported_from_annotation :: string where
  "imported_from_annotation = ''gitops.monedula.dev/imported-from-cluster''"

definition import_placement_key :: string where
  "import_placement_key = ''confluent.placement.constraints''"

definition em_dash :: string where
  "em_dash = [CHR 0xE2, CHR 0x80, CHR 0x94]"

definition imported_meta :: "string \<Rightarrow> string \<Rightarrow> object_meta" where
  "imported_meta clusterName name =
     \<lparr>om_apiVersion = API_VERSION, om_name = name, om_namespace = [], om_uid = [], om_generation = 0,
      om_annotations = [(imported_from_annotation, clusterName)]\<rparr>"

subsection \<open>Diagnostic codes\<close>

definition code_mirror_config :: string where
  "code_mirror_config = ''MirrorConfigNotImported''"

definition code_mirror_unhealthy :: string where
  "code_mirror_unhealthy = ''MirrorUnhealthy''"

definition code_mirror_deferred :: string where
  "code_mirror_deferred = ''MirrorImportDeferred''"

definition code_mirror_stale :: string where
  "code_mirror_stale = ''MirrorStaleEntry''"

definition code_ambiguous_acls :: string where
  "code_ambiguous_acls = ''ExternallyManagedOrAmbiguousACLs''"

definition partial_codes :: "string list" where
  "partial_codes = [code_mirror_config, code_mirror_deferred, code_mirror_stale, code_ambiguous_acls]"

definition is_partial :: "string list \<Rightarrow> bool" where
  "is_partial warnings \<longleftrightarrow> (\<exists>w \<in> set warnings. \<exists>c \<in> set partial_codes. has_prefix w (c @ '':''))"

subsection \<open>ACLs of mirror topics\<close>

definition link_sync_of :: "import_snapshot \<Rightarrow> string \<Rightarrow> bool option" where
  "link_sync_of snap link =
     (case mget (isn_mirrorLinks snap) link of None \<Rightarrow> None | Some i \<Rightarrow> mli_aclSync i)"

definition acls_dropped_on :: "import_snapshot \<Rightarrow> string list" where
  "acls_dropped_on snap =
     map msn_name (filter (\<lambda>m. link_sync_of snap (msn_linkName m) \<noteq> Some False) (isn_mirrors snap)) @
     isn_deferredMirrors snap"

definition mirror_acl :: "import_snapshot \<Rightarrow> acl_state \<Rightarrow> bool" where
  "mirror_acl snap a \<longleftrightarrow>
     as_resourceName a \<in> set (acls_dropped_on snap) \<and> as_resourceType a = ''topic'' \<and>
     as_patternType a = ''literal''"

definition dropped_count :: "import_snapshot \<Rightarrow> string \<Rightarrow> nat" where
  "dropped_count snap n = length (filter (\<lambda>a. mirror_acl snap a \<and> as_resourceName a = n) (isn_acls snap))"

definition filter_mirror_acls :: "(string \<Rightarrow> string) \<Rightarrow> import_snapshot \<Rightarrow> acl_state list \<times> string list" where
  "filter_mirror_acls quote snap =
     (if isn_mirrors snap = [] \<and> isn_deferredMirrors snap = [] then (isn_acls snap, [])
      else
        (filter (\<lambda>a. \<not> mirror_acl snap a) (isn_acls snap),
         concat (map (\<lambda>m. if dropped_count snap (msn_name m) > 0 then
             [code_ambiguous_acls @ render quote [T '': '', T (nat_str (dropped_count snap (msn_name m))),
                T '' ACL(s) on mirror topic '', Q (msn_name m), T '' were not imported (ACL sync on link '',
                Q (msn_linkName m), T '' is enabled or unknown)'']] else []) (isn_mirrors snap)) @
         concat (map (\<lambda>n. if dropped_count snap n > 0 then
             [code_ambiguous_acls @ render quote [T '': '', T (nat_str (dropped_count snap n)),
                T '' ACL(s) on mirror topic '', Q n,
                T '' were not imported (mirror is being promoted; re-run import after it finishes)'']]
             else []) (isn_deferredMirrors snap))))"

subsection \<open>Topics\<close>

definition import_topic :: "string \<Rightarrow> string \<Rightarrow> topic_snapshot \<Rightarrow> kafka_topic" where
  "import_topic clusterName metaName ts =
     \<lparr>kt_meta = imported_meta clusterName metaName,
      kt_spec =
        \<lparr>kts_clusterRef = \<lparr>cr_name = clusterName\<rparr>, kts_topicName = tsn_name ts,
         kts_partitions = tsn_partitions ts,
         kts_replicationFactor =
           (if tsn_replicationFactor ts > 0 \<and> mget (tsn_config ts) import_placement_key = None
            then Some (tsn_replicationFactor ts) else None),
         kts_config = tsn_config ts,
         kts_access = \<lparr>ta_producers = [], ta_consumers = []\<rparr>, kts_schema = None,
         kts_reconciliation = None, kts_drift = None, kts_prune = False,
         kts_deletionPolicy = ''Orphan''\<rparr>\<rparr>"

definition import_collision :: "(string \<Rightarrow> string) \<Rightarrow> string \<Rightarrow> string \<Rightarrow> string \<Rightarrow> string \<Rightarrow> string list" where
  "import_collision quote what topicName base metaName =
     (if metaName \<noteq> base then
        [render quote [T ''topic name collision: '', T what, T '' '', Q topicName,
           T '' slugs to a metadata.name already used by another topic; renamed to '', Q metaName,
           T '' for uniqueness'']]
      else [])"

fun build_topics ::
    "(string \<Rightarrow> string) \<Rightarrow> string \<Rightarrow> string list \<Rightarrow> topic_snapshot list \<Rightarrow>
     kafka_topic list \<times> string list \<times> string list" where
  "build_topics quote clusterName taken [] = ([], taken, [])"
| "build_topics quote clusterName taken (ts # rest) =
     (let base = topic_meta_name (tsn_name ts);
          metaName = disambiguate CHR ''-'' base taken;
          (tps, taken', ws) = build_topics quote clusterName (metaName # taken) rest
      in (import_topic clusterName metaName ts # tps, taken',
          import_collision quote ''topic'' (tsn_name ts) base metaName @ ws))"

definition topic_pos :: "topic_snapshot list \<Rightarrow> string \<Rightarrow> nat option" where
  "topic_pos snaps = map_of (rev (zip (map tsn_name snaps) [0..<length snaps]))"

definition at_topic ::
    "(string \<Rightarrow> nat option) \<Rightarrow> string \<Rightarrow> (kafka_topic \<Rightarrow> kafka_topic) \<Rightarrow> kafka_topic list \<Rightarrow> kafka_topic list" where
  "at_topic pos name f tps = (case pos name of None \<Rightarrow> tps | Some i \<Rightarrow> tps[i := f (tps ! i)])"

subsection \<open>Mirror topics\<close>

definition import_mirror :: "string \<Rightarrow> string \<Rightarrow> mirror_snapshot \<Rightarrow> kafka_mirror_topic" where
  "import_mirror clusterName metaName ms =
     \<lparr>km_meta = imported_meta clusterName metaName,
      km_spec =
        \<lparr>kms_clusterRef = \<lparr>cr_name = clusterName\<rparr>, kms_linkName = msn_linkName ms,
         kms_sourceTopicName = msn_sourceTopicName ms, kms_topicName = msn_name ms,
         kms_replicationFactor =
           (if msn_replicationFactor ms > 0 then Some (msn_replicationFactor ms) else None),
         kms_config = [], kms_reconciliation = None, kms_deletionPolicy = []\<rparr>\<rparr>"

definition mirror_warnings :: "(string \<Rightarrow> string) \<Rightarrow> mirror_snapshot \<Rightarrow> string list" where
  "mirror_warnings quote ms =
     (if msn_explicitConfigKeys ms \<noteq> [] then
        [code_mirror_config @ render quote [T '': mirror topic '', Q (msn_name ms), T '' has '',
           T (nat_str (length (msn_explicitConfigKeys ms))),
           T '' explicitly set configs; declare reviewed local keys manually'']]
      else []) @
     (if classify_status (msn_status ms) = StatusUnhealthy then
        [code_mirror_unhealthy @ render quote [T '': mirror topic '', Q (msn_name ms), T '' is '',
           T (msn_status ms)]]
      else [])"

fun build_mirror_list ::
    "(string \<Rightarrow> string) \<Rightarrow> string \<Rightarrow> string list \<Rightarrow> mirror_snapshot list \<Rightarrow>
     kafka_mirror_topic list \<times> string list" where
  "build_mirror_list quote clusterName taken [] = ([], [])"
| "build_mirror_list quote clusterName taken (ms # rest) =
     (let base = topic_meta_name (msn_name ms);
          metaName = disambiguate CHR ''-'' base taken;
          (out, ws) = build_mirror_list quote clusterName (metaName # taken) rest
      in (import_mirror clusterName metaName ms # out,
          import_collision quote ''mirror topic'' (msn_name ms) base metaName @
          mirror_warnings quote ms @ ws))"

definition build_mirrors ::
    "(string \<Rightarrow> string) \<Rightarrow> import_snapshot \<Rightarrow> string \<Rightarrow> string list \<Rightarrow> kafka_mirror_topic list \<times> string list" where
  "build_mirrors quote snap clusterName taken =
     (let (out, ws) = build_mirror_list quote clusterName taken (isn_mirrors snap)
      in (out,
          ws @
          map (\<lambda>n. code_mirror_deferred @ render quote [T '': mirror topic '', Q n,
                 T '' is being promoted (PENDING_STOPPED); re-run import after it finishes''])
            (isn_deferredMirrors snap) @
          map (\<lambda>n. code_mirror_stale @ render quote [T '': REST lists stopped mirror '', Q n,
                 T '' but the topic does not exist; skipped''])
            (isn_staleMirrors snap)))"

subsection \<open>Schemas\<close>

record schema_file =
  sf_namespace :: string
  sf_metaName :: string
  sf_baseName :: string
  sf_ext :: string
  sf_content :: string

definition schema_ext :: "string \<Rightarrow> string \<times> bool" where
  "schema_ext t =
     (if t = ''AVRO'' then (''avsc'', True) else if t = ''JSON'' then (''json'', True)
      else if t = ''PROTOBUF'' then (''proto'', True) else (''txt'', False))"

definition schema_file_for_slot :: "string \<Rightarrow> string \<Rightarrow> subject_state \<Rightarrow> schema_file" where
  "schema_file_for_slot fileName metaName state =
     \<lparr>sf_namespace = [], sf_metaName = metaName, sf_baseName = fileName,
      sf_ext = fst (schema_ext (sch_type (ss_schema state))),
      sf_content = sch_definition (ss_schema state)\<rparr>"

definition slot_warning :: "(string \<Rightarrow> string) \<Rightarrow> string \<Rightarrow> subject_state \<Rightarrow> bool \<Rightarrow> string list" where
  "slot_warning quote fileName state warn =
     (if \<not> snd (schema_ext (sch_type (ss_schema state))) \<and> warn then
        [render quote [T ''subject '', Q fileName, T '' has unknown schema type '',
           Q (sch_type (ss_schema state)), T ''; writing as .txt'']]
      else [])"

definition effective_slot_strategy :: "string \<Rightarrow> string" where
  "effective_slot_strategy s = (if s = [] then ''TopicName'' else s)"

definition slot_states :: "topic_subjects \<Rightarrow> subject_state list" where
  "slot_states s =
     (case tsc_value s of None \<Rightarrow> [] | Some v \<Rightarrow> [v]) @ (case tsc_key s of None \<Rightarrow> [] | Some k \<Rightarrow> [k])"

definition explicit_schema_files ::
    "(string \<Rightarrow> string) \<Rightarrow> string \<Rightarrow> topic_subjects \<Rightarrow> bool \<Rightarrow> schema_file list \<times> string list" where
  "explicit_schema_files quote metaName s warn =
     (map (\<lambda>st. schema_file_for_slot (ss_subject st) metaName st) (slot_states s),
      concat (map (\<lambda>st. slot_warning quote (ss_subject st) st warn) (slot_states s)))"

definition file_value :: "schema_file \<Rightarrow> value_from" where
  "file_value f =
     \<lparr>vf_valueFrom =
        \<lparr>vs_env = [], vs_file = ''../schemas/'' @ sf_baseName f @ ''.'' @ sf_ext f,
         vs_secretKeyRef = None, vs_inline = [], vs_configMapKeyRef = None\<rparr>\<rparr>"

record schema_build =
  sb_topics :: "kafka_topic list"
  sb_files :: "schema_file list"
  sb_warnings :: "string list"

definition key_skipped :: "(string \<Rightarrow> string) \<Rightarrow> string \<Rightarrow> topic_subjects \<Rightarrow> string list" where
  "key_skipped quote metaName s =
     (if tsc_key s \<noteq> None then
        [render quote [T ''subject '', Q (metaName @ ''-key''),
           T '' imported without a value subject; skipped (value schema required)'']]
      else [])"

definition mixed_strategies :: "(string \<Rightarrow> string) \<Rightarrow> string \<Rightarrow> subject_state \<Rightarrow> string \<Rightarrow> subject_state \<Rightarrow> string \<Rightarrow> string" where
  "mixed_strategies quote topic v strategy k keyStrategy =
     render quote [T ''topic '', Q topic, T '': value subject '', Q (ss_subject v), T '' (strategy '',
       T strategy, T '') and key subject '', Q (ss_subject k), T '' (strategy '', T keyStrategy,
       T '') use different subject strategies; spec.schema cannot represent both, so schema bodies are emitted as files only '', T em_dash, T '' attribute them manually'']"

definition key_level_differs ::
    "(string \<Rightarrow> string) \<Rightarrow> string \<Rightarrow> subject_state \<Rightarrow> subject_state option \<Rightarrow> string list" where
  "key_level_differs quote topic v key =
     (case key of
        None \<Rightarrow> []
      | Some k \<Rightarrow>
          (if ss_compatibility k \<noteq> [] \<and> ss_compatibility k \<noteq> ss_compatibility v then
             [render quote [T ''topic '', Q topic, T '': key subject '', Q (ss_subject k), T '' compatibility '',
                Q (ss_compatibility k), T '' differs from value subject '', Q (ss_subject v),
                T '' compatibility '', Q (ss_compatibility v),
                T ''; the manifest carries the value subject's level '', T em_dash, T '' align the key subject manually or manage it explicitly'']]
           else []))"

definition schema_block :: "string \<Rightarrow> subject_state \<Rightarrow> schema_file \<Rightarrow> schema_file option \<Rightarrow> topic_schema" where
  "schema_block strategy v valueFile keyFile =
     \<lparr>ts_format = sch_type (ss_schema v), ts_subjectStrategy = strategy,
      ts_compatibility = ss_compatibility v, ts_valueSchema = Some (file_value valueFile),
      ts_keySchema = map_option file_value keyFile, ts_valueSubject = [], ts_keySubject = []\<rparr>"

definition set_schema :: "topic_schema option \<Rightarrow> kafka_topic \<Rightarrow> kafka_topic" where
  "set_schema sc tp = tp\<lparr>kt_spec := (kt_spec tp)\<lparr>kts_schema := sc\<rparr>\<rparr>"

definition topic_meta_at :: "(string \<Rightarrow> nat option) \<Rightarrow> kafka_topic list \<Rightarrow> string \<Rightarrow> string" where
  "topic_meta_at pos tps name = (case pos name of None \<Rightarrow> [] | Some i \<Rightarrow> om_name (kt_meta (tps ! i)))"

definition apply_value_schema ::
    "(string \<Rightarrow> string) \<Rightarrow> (string \<Rightarrow> nat option) \<Rightarrow> string \<Rightarrow> topic_subjects \<Rightarrow> subject_state \<Rightarrow>
     schema_build \<Rightarrow> schema_build" where
  "apply_value_schema quote pos topic s v b =
     (let metaName = topic_meta_at pos (sb_topics b) topic;
          strategy = effective_slot_strategy (tsc_valueStrategy s);
          keyStrategy = effective_slot_strategy (tsc_keyStrategy s);
          valueFile = schema_file_for_slot (metaName @ ''-value'') metaName v;
          keyFile = map_option (\<lambda>k. schema_file_for_slot (metaName @ ''-key'') metaName k) (tsc_key s)
      in case tsc_key s of
           Some k \<Rightarrow>
             (if keyStrategy \<noteq> strategy then
                (let (files, ws) = explicit_schema_files quote metaName s True
                 in b\<lparr>sb_files := sb_files b @ files,
                      sb_warnings := sb_warnings b @
                        mixed_strategies quote topic v strategy k keyStrategy # ws\<rparr>)
              else
                b\<lparr>sb_topics := at_topic pos topic (set_schema (Some (schema_block strategy v valueFile keyFile)))
                    (sb_topics b),
                  sb_files := sb_files b @ valueFile # (case keyFile of None \<Rightarrow> [] | Some f \<Rightarrow> [f]),
                  sb_warnings := sb_warnings b @ key_level_differs quote topic v (tsc_key s) @
                    slot_warning quote (metaName @ ''-value'') v True @
                    slot_warning quote (metaName @ ''-key'') k True\<rparr>)
         | None \<Rightarrow>
             b\<lparr>sb_topics := at_topic pos topic (set_schema (Some (schema_block strategy v valueFile None)))
                 (sb_topics b),
               sb_files := sb_files b @ [valueFile],
               sb_warnings := sb_warnings b @ slot_warning quote (metaName @ ''-value'') v True\<rparr>)"

definition apply_schema ::
    "(string \<Rightarrow> string) \<Rightarrow> (string \<Rightarrow> nat option) \<Rightarrow> import_snapshot \<Rightarrow> schema_build \<Rightarrow> topic_snapshot \<Rightarrow>
     schema_build" where
  "apply_schema quote pos snap b ts =
     (case isn_schemas snap (tsn_name ts) of
        None \<Rightarrow> b
      | Some s \<Rightarrow>
          (case tsc_value s of
             None \<Rightarrow>
               b\<lparr>sb_warnings := sb_warnings b @
                   key_skipped quote (topic_meta_at pos (sb_topics b) (tsn_name ts)) s\<rparr>
           | Some v \<Rightarrow> apply_value_schema quote pos (tsn_name ts) s v b))"

definition apply_schemas ::
    "(string \<Rightarrow> string) \<Rightarrow> import_snapshot \<Rightarrow> kafka_topic list \<Rightarrow> schema_build" where
  "apply_schemas quote snap tps =
     (let b = foldl (apply_schema quote (topic_pos (isn_topics snap)) snap)
                \<lparr>sb_topics = tps, sb_files = [], sb_warnings = []\<rparr> (isn_topics snap)
      in b\<lparr>sb_warnings := sort (sb_warnings b @
             map (\<lambda>s. render quote [T ''subject '', Q s,
               T '' not imported (does not map to an imported topic via TopicName/TopicRecordName)''])
               (isn_unmatchedSubjects snap) @
             isn_schemaAmbiguities snap)\<rparr>)"

text \<open>The subjects a block would produce on apply, and the live ones it stands for.\<close>

definition slot_body :: "subject_state option \<Rightarrow> string" where
  "slot_body s = (case s of None \<Rightarrow> [] | Some k \<Rightarrow> sch_definition (ss_schema k))"

definition slot_subject :: "subject_state option \<Rightarrow> string" where
  "slot_subject s = (case s of None \<Rightarrow> [] | Some k \<Rightarrow> ss_subject k)"

definition block_subjects :: "kafka_topic \<Rightarrow> topic_schema \<Rightarrow> topic_subjects \<Rightarrow> go_error + string \<times> string" where
  "block_subjects tp sc s =
     subjects (ts_subjectStrategy sc) (kts_topicName (kt_spec tp)) sc (slot_body (tsc_value s))
       (slot_body (tsc_key s))"

definition live_subjects :: "topic_subjects \<Rightarrow> string \<times> string" where
  "live_subjects s = (slot_subject (tsc_value s), slot_subject (tsc_key s))"

definition verify_warning ::
    "(string \<Rightarrow> string) \<Rightarrow> string \<Rightarrow> go_error + string \<times> string \<Rightarrow> topic_subjects \<Rightarrow> string" where
  "verify_warning quote topic got s =
     (case got of
        Inl e \<Rightarrow>
          render quote ([T ''topic '', Q topic, T '': schema round-trip verify failed (''] @ e @
            [T ''); schema bodies are emitted as files only '', T em_dash, T '' attribute them manually''])
      | Inr (gv, gk) \<Rightarrow>
          render quote [T ''topic '', Q topic,
            T '': schema round-trip verify failed: applying the manifest would target subjects (value '',
            Q gv, T '', key '', Q gk, T '') but the live subjects are (value '', Q (slot_subject (tsc_value s)),
            T '', key '', Q (slot_subject (tsc_key s)),
            T ''); schema bodies are emitted as files only '', T em_dash, T '' attribute them manually''])"

definition drop_block ::
    "(string \<Rightarrow> string) \<Rightarrow> (string \<Rightarrow> nat option) \<Rightarrow> string \<Rightarrow> go_error + string \<times> string \<Rightarrow> topic_subjects \<Rightarrow>
     schema_build \<Rightarrow> schema_build" where
  "drop_block quote pos topic got s b =
     (let metaName = topic_meta_at pos (sb_topics b) topic
      in b\<lparr>sb_topics := at_topic pos topic (set_schema None) (sb_topics b),
           sb_files := filter (\<lambda>f. sf_metaName f \<noteq> metaName) (sb_files b) @
             fst (explicit_schema_files quote metaName s False),
           sb_warnings := sb_warnings b @ [verify_warning quote topic got s]\<rparr>)"

definition verify_schema ::
    "(string \<Rightarrow> string) \<Rightarrow> (string \<Rightarrow> nat option) \<Rightarrow> import_snapshot \<Rightarrow> schema_build \<Rightarrow> topic_snapshot \<Rightarrow>
     schema_build" where
  "verify_schema quote pos snap b ts =
     (case isn_schemas snap (tsn_name ts) of
        None \<Rightarrow> b
      | Some s \<Rightarrow>
          (case (tsc_value s, pos (tsn_name ts)) of
             (Some _, Some i) \<Rightarrow>
               (case kts_schema (kt_spec (sb_topics b ! i)) of
                  None \<Rightarrow> b
                | Some sc \<Rightarrow>
                    (let got = block_subjects (sb_topics b ! i) sc s
                     in if got = Inr (live_subjects s) then b
                        else drop_block quote pos (tsn_name ts) got s b))
           | _ \<Rightarrow> b))"

definition verify_schema_subjects ::
    "(string \<Rightarrow> string) \<Rightarrow> import_snapshot \<Rightarrow> schema_build \<Rightarrow> schema_build" where
  "verify_schema_subjects quote snap b =
     (let b' = foldl (verify_schema quote (topic_pos (isn_topics snap)) snap) b (isn_topics snap)
      in b'\<lparr>sb_warnings := sort (sb_warnings b')\<rparr>)"

end
