(* ===== verification/Import_Access.thy ===== *)
theory Import_Access
  imports Import_Topics Access Rbac
begin

section \<open>Imported access (internal/importer/build.go, rbacfold.go, rolebinding.go)\<close>

text \<open>
  Folding of live ACLs and role bindings into the access blocks of imported topics, and the explicit
  manifests for what does not fold. Where the source ranges over a Go map and the order reaches the
  result, the order is the parameter \<open>ord\<close>, a permutation; the order of the raw ACLs alone is fixed here
  (maps are walked by sorted key), since \<open>build_policies\<close> groups them again.
\<close>

definition state_to_acl :: "acl_state \<Rightarrow> acl" where
  "state_to_acl s =
     mk_acl (as_principal s) (as_host s) (as_resourceType s) (as_resourceName s) (as_patternType s)
       (as_operation s) (as_permission s)"

subsection \<open>Folding ACLs\<close>

definition fold_eligible :: "acl \<Rightarrow> bool" where
  "fold_eligible a \<longleftrightarrow> acl_permission a = ''Allow'' \<and> acl_patternType a = ''literal''"

definition op_set :: "acl list \<Rightarrow> string set" where
  "op_set acls = acl_operation ` set acls"

definition set_equals :: "string set \<Rightarrow> string list \<Rightarrow> bool" where
  "set_equals s want \<longleftrightarrow> card s = length want \<and> (\<forall>w \<in> set want. w \<in> s)"

definition add_producer_access :: "producer_access \<Rightarrow> kafka_topic \<Rightarrow> kafka_topic" where
  "add_producer_access p tp =
     (let a = kts_access (kt_spec tp)
      in tp\<lparr>kt_spec := (kt_spec tp)\<lparr>kts_access := a\<lparr>ta_producers := ta_producers a @ [p]\<rparr>\<rparr>\<rparr>)"

definition add_consumer_access :: "consumer_access \<Rightarrow> kafka_topic \<Rightarrow> kafka_topic" where
  "add_consumer_access c tp =
     (let a = kts_access (kt_spec tp)
      in tp\<lparr>kt_spec := (kt_spec tp)\<lparr>kts_access := a\<lparr>ta_consumers := ta_consumers a @ [c]\<rparr>\<rparr>\<rparr>)"

definition plain_producer :: "string \<Rightarrow> string \<Rightarrow> producer_access" where
  "plain_producer p host = \<lparr>pa_principal = p, pa_host = host, pa_operations = []\<rparr>"

definition plain_consumer :: "string \<Rightarrow> string \<Rightarrow> string \<Rightarrow> consumer_access" where
  "plain_consumer p host g =
     \<lparr>ca_principal = p, ca_host = host, ca_group = g, ca_topicOperations = [], ca_groupOperations = []\<rparr>"

record fold_state =
  fo_topics :: "kafka_topic list"
  fo_raw :: "acl list"
  fo_warnings :: "string list"

text \<open>The ACLs of a bucket on one resource, and the names of a bucket's imported topics and groups.\<close>

definition acls_on :: "string \<Rightarrow> acl list \<Rightarrow> string \<Rightarrow> acl list" where
  "acls_on typ acls n = filter (\<lambda>a. acl_resourceType a = typ \<and> acl_resourceName a = n) acls"

definition bucket_topics :: "(string \<Rightarrow> nat option) \<Rightarrow> acl list \<Rightarrow> string list" where
  "bucket_topics pos acls =
     sort (remdups (map acl_resourceName
       (filter (\<lambda>a. acl_resourceType a = ''topic'' \<and> pos (acl_resourceName a) \<noteq> None) acls)))"

definition bucket_groups :: "acl list \<Rightarrow> string list" where
  "bucket_groups acls =
     sort (remdups (map acl_resourceName (filter (\<lambda>a. acl_resourceType a = ''group'') acls)))"

definition unbucketed :: "(string \<Rightarrow> nat option) \<Rightarrow> acl list \<Rightarrow> acl list" where
  "unbucketed pos acls =
     filter (\<lambda>a. if acl_resourceType a = ''topic'' then pos (acl_resourceName a) = None
                 else acl_resourceType a \<noteq> ''group'') acls"

definition is_producer :: "acl list \<Rightarrow> string \<Rightarrow> bool" where
  "is_producer acls t \<longleftrightarrow> set_equals (op_set (acls_on ''topic'' acls t)) [''Write'', ''Describe'']"

definition is_consumer :: "acl list \<Rightarrow> string \<Rightarrow> bool" where
  "is_consumer acls t \<longleftrightarrow> set_equals (op_set (acls_on ''topic'' acls t)) [''Read'', ''Describe'']"

definition is_group_read :: "acl list \<Rightarrow> string \<Rightarrow> bool" where
  "is_group_read acls g \<longleftrightarrow> set_equals (op_set (acls_on ''group'' acls g)) [''Read'']"

definition add_to ::
    "(string \<Rightarrow> nat option) \<Rightarrow> (kafka_topic \<Rightarrow> kafka_topic) \<Rightarrow> string list \<Rightarrow> kafka_topic list \<Rightarrow> kafka_topic list" where
  "add_to pos f names tps = foldl (\<lambda>ts n. at_topic pos n f ts) tps names"

definition bracketed :: "string list \<Rightarrow> string" where
  "bracketed xs = ''['' @ join '' '' xs @ '']''"

definition fold_bucket ::
    "(string \<Rightarrow> string) \<Rightarrow> (string \<Rightarrow> nat option) \<Rightarrow> (string \<times> string) \<Rightarrow> acl list \<Rightarrow> fold_state \<Rightarrow> fold_state" where
  "fold_bucket quote pos key acls st =
     (let p = fst key; host = (if snd key \<noteq> ''*'' then snd key else []);
          ts = bucket_topics pos acls; gs = bucket_groups acls;
          producers = filter (is_producer acls) ts;
          consumers = filter (\<lambda>t. \<not> is_producer acls t \<and> is_consumer acls t) ts;
          others = filter (\<lambda>t. \<not> is_producer acls t \<and> \<not> is_consumer acls t) ts;
          groupReads = filter (is_group_read acls) gs;
          rawTopics = concat (map (acls_on ''topic'' acls) consumers);
          rawGroups = concat (map (acls_on ''group'' acls) groupReads);
          st1 = st\<lparr>fo_topics := add_to pos (add_producer_access (plain_producer p host)) producers (fo_topics st),
                   fo_raw := fo_raw st @ unbucketed pos acls @ concat (map (acls_on ''topic'' acls) others) @
                     concat (map (acls_on ''group'' acls) (filter (\<lambda>g. \<not> is_group_read acls g) gs))\<rparr>
      in if consumers = [] then st1\<lparr>fo_raw := fo_raw st1 @ rawGroups\<rparr>
         else
           (case groupReads of
              [g] \<Rightarrow> st1\<lparr>fo_topics := add_to pos (add_consumer_access (plain_consumer p host g)) consumers (fo_topics st1)\<rparr>
            | [] \<Rightarrow>
                st1\<lparr>fo_raw := fo_raw st1 @ rawTopics,
                    fo_warnings := fo_warnings st1 @
                      [render quote [T ''principal '', Q p, T '' has consumer topics '', T (bracketed consumers),
                         T '' with no matching group-Read in host '', Q (snd key),
                         T ''; emitted as KafkaAccessPolicy'']]\<rparr>
            | _ \<Rightarrow>
                st1\<lparr>fo_raw := fo_raw st1 @ rawTopics @ rawGroups,
                    fo_warnings := fo_warnings st1 @
                      [render quote [T ''principal '', Q p, T '' has ambiguous consumer group mapping ('',
                         T (nat_str (length groupReads)), T '' groups); topics '', T (bracketed consumers),
                         T '' emitted as KafkaAccessPolicy'']]\<rparr>))"

definition bucket_key :: "acl \<Rightarrow> string \<times> string" where
  "bucket_key a = (acl_principal a, acl_host a)"

definition classify_and_fold ::
    "(string \<Rightarrow> string) \<Rightarrow> (string \<Rightarrow> nat option) \<Rightarrow> acl_state list \<Rightarrow> kafka_topic list \<Rightarrow> string list \<Rightarrow> fold_state" where
  "classify_and_fold quote pos live tps warnings =
     (let acls = map state_to_acl live;
          eligible = filter fold_eligible acls;
          st = foldl (\<lambda>st k. fold_bucket quote pos k (filter (\<lambda>a. bucket_key a = k) eligible) st)
                 \<lparr>fo_topics = tps, fo_raw = filter (\<lambda>a. \<not> fold_eligible a) acls, fo_warnings = warnings\<rparr>
                 (sort (remdups (map bucket_key eligible)))
      in st\<lparr>fo_warnings := sort (fo_warnings st)\<rparr>)"

subsection \<open>Policies of the raw ACLs\<close>

definition rule_key :: "acl \<Rightarrow> string \<times> string \<times> string \<times> string \<times> string" where
  "rule_key a =
     (acl_permission a, acl_host a, acl_resourceType a, acl_resourceName a, acl_patternType a)"

definition rule_of_key ::
    "acl list \<Rightarrow> string \<Rightarrow> string \<times> string \<times> string \<times> string \<times> string \<Rightarrow> acl_rule" where
  "rule_of_key raw p k =
     (case k of (perm, host, typ, n, pt) \<Rightarrow>
        \<lparr>rule_principal = p, rule_permission = perm, rule_host = host,
         rule_resource = \<lparr>ar_type = typ, ar_name = n, ar_patternType = pt\<rparr>,
         rule_operations =
           sort (remdups (map acl_operation (filter (\<lambda>a. acl_principal a = p \<and> rule_key a = k) raw)))\<rparr>)"

definition rule_sort_key :: "acl_rule \<Rightarrow> string \<times> string \<times> string \<times> string" where
  "rule_sort_key r =
     (ar_type (rule_resource r), ar_name (rule_resource r), ar_patternType (rule_resource r), rule_permission r)"

definition sort_rules :: "acl_rule list \<Rightarrow> acl_rule list" where
  "sort_rules rules = sort_key rule_sort_key rules"

definition policy_rules :: "(acl_rule list \<Rightarrow> acl_rule list) \<Rightarrow> acl list \<Rightarrow> string \<Rightarrow> acl_rule list" where
  "policy_rules ord raw p =
     sort_rules (ord (map (rule_of_key raw p) (remdups (map rule_key (filter (\<lambda>a. acl_principal a = p) raw)))))"

definition import_policy :: "string \<Rightarrow> string \<Rightarrow> acl_rule list \<Rightarrow> kafka_access_policy" where
  "import_policy clusterName name rules =
     \<lparr>ap_meta = imported_meta clusterName name,
      ap_spec =
        \<lparr>aps_clusterRef = \<lparr>cr_name = clusterName\<rparr>, aps_rules = rules, aps_reconciliation = None,
         aps_prune = False, aps_deletionPolicy = ''Delete''\<rparr>\<rparr>"

text \<open>\<open>owners\<close> is \<open>nameOwner\<close>: the assigned names with their principals.\<close>

fun policies_loop ::
    "(acl_rule list \<Rightarrow> acl_rule list) \<Rightarrow> (string \<Rightarrow> string) \<Rightarrow> string \<Rightarrow> acl list \<Rightarrow> (string \<times> string) list \<Rightarrow>
     string list \<Rightarrow> kafka_access_policy list \<times> string list" where
  "policies_loop ord quote clusterName raw owners [] = ([], [])"
| "policies_loop ord quote clusterName raw owners (p # ps) =
     (let base = policy_base_name p;
          name = disambiguate CHR ''-'' base (map fst owners);
          (pols, ws) = policies_loop ord quote clusterName raw ((name, p) # owners) ps
      in (import_policy clusterName name (policy_rules ord raw p) # pols,
          (case map_of owners base of
             None \<Rightarrow> []
           | Some owner \<Rightarrow>
               [render quote [T ''policy name collision: principals '', Q owner, T '' and '', Q p,
                  T '' both slug to '', Q base, T ''; renamed the latter to '', Q name]]) @ ws))"

definition policy_principals :: "acl list \<Rightarrow> string list" where
  "policy_principals raw = sort (remdups (map acl_principal raw))"

definition build_policies ::
    "(acl_rule list \<Rightarrow> acl_rule list) \<Rightarrow> (string \<Rightarrow> string) \<Rightarrow> string \<Rightarrow> acl list \<Rightarrow>
     kafka_access_policy list \<times> string list" where
  "build_policies ord quote clusterName raw =
     (let (pols, ws) = policies_loop ord quote clusterName raw [] (policy_principals raw)
      in (sort_key (\<lambda>pol. om_name (ap_meta pol)) pols, ws))"

subsection \<open>Folding role bindings\<close>

datatype rb_class = RbLeftover | RbProducer string | RbTopicRead string | RbGroupRead string

definition rb_class_of :: "(string \<Rightarrow> nat option) \<Rightarrow> mds_role_binding \<Rightarrow> rb_class" where
  "rb_class_of pos rb =
     (case mrb_resource rb of
        None \<Rightarrow> RbLeftover
      | Some r \<Rightarrow>
          (if msc_type (mrb_scope rb) \<noteq> ''kafka'' \<or> mrp_patternType r \<noteq> ''literal'' then RbLeftover
           else if mrb_role rb = ''DeveloperWrite'' \<and> mrp_type r = ''Topic'' then
             (if pos (mrp_name r) \<noteq> None then RbProducer (mrp_name r) else RbLeftover)
           else if mrb_role rb = ''DeveloperRead'' \<and> mrp_type r = ''Topic'' then
             (if pos (mrp_name r) \<noteq> None then RbTopicRead (mrp_name r) else RbLeftover)
           else if mrb_role rb = ''DeveloperRead'' \<and> mrp_type r = ''Group'' then RbGroupRead (mrp_name r)
           else RbLeftover))"

definition add_producer :: "string \<Rightarrow> kafka_topic \<Rightarrow> kafka_topic" where
  "add_producer p tp =
     (if \<exists>e \<in> set (ta_producers (kts_access (kt_spec tp))). pa_principal e = p \<and> pa_host e = [] then tp
      else add_producer_access (plain_producer p []) tp)"

definition add_consumer :: "string \<Rightarrow> string \<Rightarrow> kafka_topic \<Rightarrow> kafka_topic" where
  "add_consumer p g tp =
     (if \<exists>e \<in> set (ta_consumers (kts_access (kt_spec tp))).
           ca_principal e = p \<and> ca_group e = g \<and> ca_host e = [] then tp
      else add_consumer_access (plain_consumer p [] g) tp)"

definition kafka_rb_of :: "string \<Rightarrow> string \<Rightarrow> string \<Rightarrow> string \<Rightarrow> mds_role_binding" where
  "kafka_rb_of p role typ n =
     \<lparr>mrb_principal = p, mrb_role = role,
      mrb_scope = \<lparr>msc_type = ''kafka'', msc_kafkaCluster = [], msc_subCluster = []\<rparr>,
      mrb_resource = Some \<lparr>mrp_type = typ, mrp_name = n, mrp_patternType = ''literal''\<rparr>\<rparr>"

definition topic_rb_of :: "string \<Rightarrow> string \<Rightarrow> string \<Rightarrow> mds_role_binding" where
  "topic_rb_of p role topic = kafka_rb_of p role ''Topic'' topic"

definition group_rb_of :: "string \<Rightarrow> string \<Rightarrow> mds_role_binding" where
  "group_rb_of p g = kafka_rb_of p ''DeveloperRead'' ''Group'' g"

record principal_bindings =
  pb_producerTopics :: "string list"
  pb_topicReads :: "string list"
  pb_groupReads :: "string list"

definition principal_bindings_of ::
    "(string \<Rightarrow> nat option) \<Rightarrow> mds_role_binding list \<Rightarrow> string \<Rightarrow> principal_bindings" where
  "principal_bindings_of pos rbs p =
     (let cs = map (rb_class_of pos) (filter (\<lambda>rb. mrb_principal rb = p) rbs)
      in \<lparr>pb_producerTopics = sort (concat (map (\<lambda>c. case c of RbProducer t \<Rightarrow> [t] | _ \<Rightarrow> []) cs)),
          pb_topicReads = sort (concat (map (\<lambda>c. case c of RbTopicRead t \<Rightarrow> [t] | _ \<Rightarrow> []) cs)),
          pb_groupReads = sort (concat (map (\<lambda>c. case c of RbGroupRead g \<Rightarrow> [g] | _ \<Rightarrow> []) cs))\<rparr>)"

definition fold_principal ::
    "(string \<Rightarrow> nat option) \<Rightarrow> mds_role_binding list \<Rightarrow> kafka_topic list \<times> mds_role_binding list \<Rightarrow> string \<Rightarrow>
     kafka_topic list \<times> mds_role_binding list" where
  "fold_principal pos rbs st p =
     (let pb = principal_bindings_of pos rbs p;
          tps = add_to pos (add_producer p) (pb_producerTopics pb) (fst st)
      in case (pb_topicReads pb, pb_groupReads pb) of
           ([t], [g]) \<Rightarrow> (at_topic pos t (add_consumer p g) tps, snd st)
         | _ \<Rightarrow>
             (tps, snd st @ map (topic_rb_of p ''DeveloperRead'') (pb_topicReads pb) @
                map (group_rb_of p) (pb_groupReads pb)))"

definition fold_role_bindings ::
    "(string \<Rightarrow> nat option) \<Rightarrow> mds_role_binding list \<Rightarrow> kafka_topic list \<Rightarrow>
     kafka_topic list \<times> mds_role_binding list" where
  "fold_role_bindings pos rbs tps =
     (let (tps', leftover) =
            foldl (fold_principal pos rbs) (tps, filter (\<lambda>rb. rb_class_of pos rb = RbLeftover) rbs)
              (sort (remdups (map mrb_principal (filter (\<lambda>rb. rb_class_of pos rb \<noteq> RbLeftover) rbs))))
      in (tps', sort_key mds_key leftover))"

subsection \<open>Explicit role bindings\<close>

definition role_binding_manifest :: "mds_role_binding \<Rightarrow> string \<Rightarrow> kafka_role_binding" where
  "role_binding_manifest rb clusterName =
     (let resources = (case mrb_resource rb of None \<Rightarrow> []
            | Some r \<Rightarrow> [\<lparr>rr_type = mrp_type r, rr_name = mrp_name r, rr_patternType = mrp_patternType r\<rparr>]);
          nameParts = [mrb_principal rb, mrb_role rb] @
            (case mrb_resource rb of None \<Rightarrow> []
             | Some r \<Rightarrow> [mrp_type r, mrp_name r, mrp_patternType r])
      in \<lparr>kr_meta = imported_meta clusterName (role_binding_base_name nameParts),
          kr_spec =
            \<lparr>krs_clusterRef = \<lparr>cr_name = clusterName\<rparr>, krs_principal = mrb_principal rb,
             krs_role = mrb_role rb, krs_scope = \<lparr>rbs_type = msc_type (mrb_scope rb)\<rparr>,
             krs_resources = resources, krs_reconciliation = None, krs_prune = False,
             krs_deletionPolicy = ''Orphan''\<rparr>\<rparr>)"

fun role_bindings_loop ::
    "(string \<Rightarrow> string) \<Rightarrow> string \<Rightarrow> string list \<Rightarrow> mds_role_binding list \<Rightarrow>
     kafka_role_binding list \<times> string list" where
  "role_bindings_loop quote clusterName taken [] = ([], [])"
| "role_bindings_loop quote clusterName taken (rb # rbs) =
     (let m = role_binding_manifest rb clusterName;
          base = om_name (kr_meta m);
          name = disambiguate CHR ''-'' base taken;
          (ms, ws) = role_bindings_loop quote clusterName (name # taken) rbs
      in (m\<lparr>kr_meta := (kr_meta m)\<lparr>om_name := name\<rparr>\<rparr> # ms,
          (if name \<noteq> base then
             [render quote [T ''role binding name collision: '', Q base, T '' renamed to '', Q name,
                T '' for uniqueness'']]
           else []) @ ws))"

definition build_role_bindings ::
    "(string \<Rightarrow> string) \<Rightarrow> string \<Rightarrow> mds_role_binding list \<Rightarrow> kafka_role_binding list \<times> string list" where
  "build_role_bindings quote clusterName rbs =
     (let (ms, ws) = role_bindings_loop quote clusterName [] rbs
      in (sort_key (\<lambda>m. om_name (kr_meta m)) ms, ws))"

end
