(* ===== verification/Import_Build.thy ===== *)
theory Import_Build
  imports Import_Access Quota User
begin

section \<open>Building the imported manifests (internal/importer/build.go, second half)\<close>

text \<open>
  Quotas, users, the two-sided recompile check and the all-explicit fallback, composed by \<open>import_build\<close>.
\<close>

subsection \<open>Quotas\<close>

definition quota_default_sentinel :: string where
  "quota_default_sentinel = ''0dflt0''"

definition quota_part :: "string \<Rightarrow> string option \<Rightarrow> string" where
  "quota_part typ name =
     (case name of None \<Rightarrow> typ @ ''-'' @ quota_default_sentinel | Some n \<Rightarrow> typ @ ''-'' @ n)"

definition empty_entity :: quota_entity_spec where
  "empty_entity =
     \<lparr>qe_user = [], qe_clientId = [], qe_userDefault = False, qe_clientIdDefault = False, qe_ip = [],
      qe_ipDefault = False\<rparr>"

definition entity_component ::
    "quota_entity_spec \<times> string list \<Rightarrow> quota_entity_component \<Rightarrow> quota_entity_spec \<times> string list" where
  "entity_component st c =
     (let (en, parts) = st
      in if qc_type c = ''user'' then
           (case qc_name c of Some n \<Rightarrow> en\<lparr>qe_user := ''User:'' @ n\<rparr> | None \<Rightarrow> en\<lparr>qe_userDefault := True\<rparr>,
            parts @ [quota_part ''user'' (qc_name c)])
         else if qc_type c = ''client-id'' then
           (case qc_name c of Some n \<Rightarrow> en\<lparr>qe_clientId := n\<rparr> | None \<Rightarrow> en\<lparr>qe_clientIdDefault := True\<rparr>,
            parts @ [quota_part ''client-id'' (qc_name c)])
         else if qc_type c = ''ip'' then
           (case qc_name c of Some n \<Rightarrow> en\<lparr>qe_ip := n\<rparr> | None \<Rightarrow> en\<lparr>qe_ipDefault := True\<rparr>,
            parts @ [quota_part ''ip'' (qc_name c)])
         else (en, parts))"

definition quota_state_to_entity :: "quota_state \<Rightarrow> quota_entity_spec \<times> string" where
  "quota_state_to_entity qs =
     (let (en, parts) = foldl entity_component (empty_entity, []) (qst_entity qs)
      in (en, join ''-'' (sort parts)))"

definition quota_state_limits :: "quota_state \<Rightarrow> quota_limits_spec" where
  "quota_state_limits qs =
     \<lparr>ql_producerByteRate = mget (qst_limits qs) ''producer_byte_rate'',
      ql_consumerByteRate = mget (qst_limits qs) ''consumer_byte_rate'',
      ql_requestPercentage = mget (qst_limits qs) ''request_percentage'',
      ql_controllerMutationRate = mget (qst_limits qs) ''controller_mutation_rate'',
      ql_connectionCreationRate = mget (qst_limits qs) ''connection_creation_rate''\<rparr>"

definition import_quota :: "string \<Rightarrow> string \<Rightarrow> quota_state \<Rightarrow> kafka_quota" where
  "import_quota clusterName name qs =
     \<lparr>kq_meta = imported_meta clusterName name,
      kq_spec =
        \<lparr>kqs_clusterRef = \<lparr>cr_name = clusterName\<rparr>, kqs_entity = fst (quota_state_to_entity qs),
         kqs_limits = quota_state_limits qs, kqs_reconciliation = None\<rparr>\<rparr>"

fun quotas_loop ::
    "(string \<Rightarrow> string) \<Rightarrow> string \<Rightarrow> string list \<Rightarrow> quota_state list \<Rightarrow> kafka_quota list \<times> string list" where
  "quotas_loop quote clusterName taken [] = ([], [])"
| "quotas_loop quote clusterName taken (qs # rest) =
     (let entityKey = snd (quota_state_to_entity qs);
          base = quota_meta_name entityKey;
          name = disambiguate CHR ''-'' base taken;
          (out, ws) = quotas_loop quote clusterName (name # taken) rest
      in (import_quota clusterName name qs # out,
          (if name \<noteq> base then
             [render quote [T ''quota name collision: entity key '', Q entityKey, T '' renamed to '', Q name,
                T '' for uniqueness'']]
           else []) @ ws))"

definition build_quotas ::
    "(string \<Rightarrow> string) \<Rightarrow> string \<Rightarrow> quota_state list \<Rightarrow> kafka_quota list \<times> string list" where
  "build_quotas quote clusterName qss =
     (let (out, ws) = quotas_loop quote clusterName [] qss
      in (sort_key (\<lambda>q. om_name (kq_meta q)) out, ws))"

subsection \<open>Users\<close>

record import_options =
  io_connectingUser :: string
  io_includeConnectingUser :: bool

definition import_scram_iterations :: int where
  "import_scram_iterations = 4096"

definition mechanism_rank :: "string \<Rightarrow> int" where
  "mechanism_rank m = (if m = ''SCRAM-SHA-512'' then 2 else if m = ''SCRAM-SHA-256'' then 1 else 0)"

definition better_credential :: "scram_credential \<Rightarrow> scram_credential \<Rightarrow> scram_credential" where
  "better_credential best c =
     (if mechanism_rank (scr_mechanism c) > mechanism_rank (scr_mechanism best) then c else best)"

definition best_credential :: "scram_credential list \<Rightarrow> scram_credential" where
  "best_credential cs = foldl better_credential (hd cs) (tl cs)"

definition credentials_of :: "scram_credential list \<Rightarrow> string \<Rightarrow> scram_credential list" where
  "credentials_of cs u = filter (\<lambda>c. scr_user c = u) cs"

definition skipped_user :: "import_options \<Rightarrow> string \<Rightarrow> bool" where
  "skipped_user opt uname \<longleftrightarrow>
     uname = io_connectingUser opt \<and> io_connectingUser opt \<noteq> [] \<and> \<not> io_includeConnectingUser opt"

definition import_user :: "string \<Rightarrow> string \<Rightarrow> string \<Rightarrow> string \<Rightarrow> scram_credential \<Rightarrow> kafka_user" where
  "import_user clusterName metaName envName uname best =
     \<lparr>ku_meta = imported_meta clusterName metaName,
      ku_spec =
        \<lparr>kus_clusterRef = \<lparr>cr_name = clusterName\<rparr>, kus_username = uname, kus_mechanism = scr_mechanism best,
         kus_iterations =
           (if scr_iterations best \<noteq> 0 \<and> scr_iterations best \<noteq> import_scram_iterations
            then Some (scr_iterations best) else None),
         kus_password =
           Some \<lparr>up_valueFrom =
             Some \<lparr>vs_env = envName, vs_file = [], vs_secretKeyRef = None, vs_inline = [],
                   vs_configMapKeyRef = None\<rparr>,
             up_generate = None\<rparr>,
         kus_deletionPolicy = ''Orphan''\<rparr>\<rparr>"

definition other_mechanisms :: "(string \<Rightarrow> string) \<Rightarrow> string \<Rightarrow> scram_credential \<Rightarrow> scram_credential list \<Rightarrow> string list" where
  "other_mechanisms quote uname best cs =
     map (\<lambda>c. render quote [T ''user '', Q uname, T '' also has a '', T (scr_mechanism c),
            T '' credential; only the '', T (scr_mechanism best), T '' one is captured '', T em_dash,
            T '' manage the other manually or add a second manifest with a different metadata.name''])
       (filter (\<lambda>c. scr_mechanism c \<noteq> scr_mechanism best) cs)"

definition user_collisions :: "(string \<Rightarrow> string) \<Rightarrow> string \<Rightarrow> string \<Rightarrow> string \<Rightarrow> string \<Rightarrow> string \<Rightarrow> string list" where
  "user_collisions quote uname base metaName envBase envName =
     (if metaName \<noteq> base then
        [render quote [T ''user name collision: user '', Q uname,
           T '' slugs to a metadata.name already used by another user; renamed to '', Q metaName,
           T '' for uniqueness'']] else []) @
     (if envName \<noteq> envBase then
        [render quote [T ''user '', Q uname, T '': password env var '', Q envBase,
           T '' collides with another user's; renamed to '', Q envName, T '' for uniqueness'']] else [])"

definition connecting_warning :: "(string \<Rightarrow> string) \<Rightarrow> string \<Rightarrow> string" where
  "connecting_warning quote uname =
     render quote [T ''skipped connecting principal '', Q uname,
       T '' (managing your own credential risks self-lockout); use --include-connecting-user to include it'']"

fun users_loop ::
    "(string \<Rightarrow> string) \<Rightarrow> string \<Rightarrow> import_options \<Rightarrow> scram_credential list \<Rightarrow> string list \<Rightarrow> string list \<Rightarrow>
     string list \<Rightarrow> kafka_user list \<times> string list" where
  "users_loop quote clusterName opt cs taken envs [] = ([], [])"
| "users_loop quote clusterName opt cs taken envs (uname # rest) =
     (if skipped_user opt uname then
        (let (out, ws) = users_loop quote clusterName opt cs taken envs rest
         in (out, connecting_warning quote uname # ws))
      else
        (let best = best_credential (credentials_of cs uname);
             base = topic_meta_name uname;
             metaName = disambiguate CHR ''-'' base taken;
             envBase = user_env_var_name uname;
             envName = disambiguate CHR ''_'' envBase envs;
             (out, ws) = users_loop quote clusterName opt cs (metaName # taken) (envName # envs) rest
         in (import_user clusterName metaName envName uname best # out,
             other_mechanisms quote uname best (credentials_of cs uname) @
             user_collisions quote uname base metaName envBase envName @ ws)))"

definition placeholder_warning :: string where
  "placeholder_warning =
     ''imported KafkaUser passwords are placeholders (env var references) '' @ em_dash @
     '' Kafka never exposes SCRAM passwords, so these are NOT recoverable from the cluster; set the referenced env vars (or switch to secretKeyRef/generate) before applying, or apply will fail to resolve a missing credential''"

definition build_users ::
    "(string \<Rightarrow> string) \<Rightarrow> string \<Rightarrow> import_options \<Rightarrow> scram_credential list \<Rightarrow> kafka_user list \<times> string list" where
  "build_users quote clusterName opt cs =
     (let (out, ws) = users_loop quote clusterName opt cs [] [] (nub (map scr_user cs))
      in (sort_key (\<lambda>u. om_name (ku_meta u)) out,
          ws @ (if out \<noteq> [] then [placeholder_warning] else [])))"

subsection \<open>The result and its recompile checks\<close>

record import_result =
  ir_topics :: "kafka_topic list"
  ir_policies :: "kafka_access_policy list"
  ir_quotas :: "kafka_quota list"
  ir_schemaFiles :: "schema_file list"
  ir_warnings :: "string list"
  ir_roleBindings :: "kafka_role_binding list"
  ir_users :: "kafka_user list"
  ir_recordNameSubjects :: "record_name_subject list"
  ir_mirrors :: "kafka_mirror_topic list"
  ir_partial :: bool

definition backend_active :: "string list \<Rightarrow> string \<Rightarrow> bool" where
  "backend_active backends want = (if backends = [] then want = ''acl'' else want \<in> set backends)"

text \<open>The comparison of two key sets at the end of both checks.\<close>

definition same_keys :: "string list \<Rightarrow> string list \<Rightarrow> bool" where
  "same_keys got want \<longleftrightarrow> card (set got) = card (set want) \<and> (\<forall>k \<in> set want. k \<in> set got)"

definition compiled_acls :: "kafka_topic list \<Rightarrow> kafka_access_policy list \<Rightarrow> acl list" where
  "compiled_acls tps pols = concat (map compile_topic tps) @ concat (map compile_policy pols)"

definition round_trips_clean :: "kafka_topic list \<Rightarrow> kafka_access_policy list \<Rightarrow> acl_state list \<Rightarrow> bool" where
  "round_trips_clean tps pols live =
     (let (desired, errs) = build_acl_set (compiled_acls tps pols)
      in errs = [] \<and> same_keys (map full_key desired) (map (full_key \<circ> state_to_acl) live))"

fun compile_topics_rbac ::
    "(string \<Rightarrow> string) \<Rightarrow> mds_config \<Rightarrow> kafka_topic list \<Rightarrow> rbac_error + role_binding list" where
  "compile_topics_rbac quote mds [] = Inr []"
| "compile_topics_rbac quote mds (tp # tps) =
     and_then (compile_topic_access quote tp mds) (\<lambda>(bs, _).
     and_then (compile_topics_rbac quote mds tps) (\<lambda>rest. Inr (bs @ rest)))"

fun compile_explicit_rbac ::
    "mds_config \<Rightarrow> kafka_role_binding list \<Rightarrow> rbac_error + role_binding list" where
  "compile_explicit_rbac mds [] = Inr []"
| "compile_explicit_rbac mds (m # ms) =
     and_then (rbac_compile m mds) (\<lambda>bs.
     and_then (compile_explicit_rbac mds ms) (\<lambda>rest. Inr (bs @ rest)))"

definition live_rb_full_key :: "mds_role_binding \<Rightarrow> string" where
  "live_rb_full_key rb = mds_key rb"

definition role_bindings_round_trip_clean ::
    "(string \<Rightarrow> string) \<Rightarrow> mds_config option \<Rightarrow> kafka_topic list \<Rightarrow> kafka_role_binding list \<Rightarrow>
     mds_role_binding list \<Rightarrow> bool" where
  "role_bindings_round_trip_clean quote mdsCfg tps rbs live =
     (case mdsCfg of
        None \<Rightarrow> False
      | Some mds \<Rightarrow>
          (case (compile_topics_rbac quote mds tps, compile_explicit_rbac mds rbs) of
             (Inr a, Inr b) \<Rightarrow>
               (let (desired, errs) = build_binding_set (a @ b)
                in errs = [] \<and> same_keys (map rb_full_key desired) (map live_rb_full_key live))
           | _ \<Rightarrow> False))"

subsection \<open>The all-explicit fallback\<close>

definition clear_access :: "kafka_topic \<Rightarrow> kafka_topic" where
  "clear_access tp = tp\<lparr>kt_spec := (kt_spec tp)\<lparr>kts_access := \<lparr>ta_producers = [], ta_consumers = []\<rparr>\<rparr>\<rparr>"

record access_result =
  xr_topics :: "kafka_topic list"
  xr_policies :: "kafka_access_policy list"
  xr_roleBindings :: "kafka_role_binding list"
  xr_warnings :: "string list"

definition fallback_all_explicit ::
    "(acl_rule list \<Rightarrow> acl_rule list) \<Rightarrow> (string \<Rightarrow> string) \<Rightarrow> string \<Rightarrow> bool \<Rightarrow> bool \<Rightarrow> acl_state list \<Rightarrow>
     mds_role_binding list \<Rightarrow> kafka_topic list \<Rightarrow> access_result" where
  "fallback_all_explicit ord quote clusterName aclActive rbacActive acls rbs tps =
     (let (pols, ws) = (if aclActive then build_policies ord quote clusterName (map state_to_acl acls) else ([], []));
          (ms, ws') = (if rbacActive then build_role_bindings quote clusterName rbs else ([], []))
      in \<lparr>xr_topics = map clear_access tps, xr_policies = pols, xr_roleBindings = ms,
          xr_warnings = ws @ ws'\<rparr>)"

subsection \<open>Build\<close>

text \<open>The access part: folding, policies and role bindings, with their warnings.\<close>

definition fold_access ::
    "(acl_rule list \<Rightarrow> acl_rule list) \<Rightarrow> (string \<Rightarrow> string) \<Rightarrow> string \<Rightarrow> bool \<Rightarrow> bool \<Rightarrow>
     (string \<Rightarrow> nat option) \<Rightarrow> acl_state list \<Rightarrow> mds_role_binding list \<Rightarrow> kafka_topic list \<Rightarrow> string list \<Rightarrow>
     access_result" where
  "fold_access ord quote clusterName aclActive rbacActive pos acls rbs tps warnings =
     (let st = (if aclActive then classify_and_fold quote pos acls tps warnings
                else \<lparr>fo_topics = tps, fo_raw = [], fo_warnings = warnings\<rparr>);
          (pols, ws) = build_policies ord quote clusterName (fo_raw st);
          (tps', ms, ws') =
            (if rbacActive \<and> rbs \<noteq> [] then
               (let (tps', leftover) = fold_role_bindings pos rbs (fo_topics st);
                    (ms, ws') = build_role_bindings quote clusterName leftover
                in (tps', ms, ws'))
             else (fo_topics st, [], []))
      in \<lparr>xr_topics = tps', xr_policies = pols, xr_roleBindings = ms,
          xr_warnings = fo_warnings st @ ws @ ws'\<rparr>)"

definition access_clean ::
    "(string \<Rightarrow> string) \<Rightarrow> mds_config option \<Rightarrow> bool \<Rightarrow> bool \<Rightarrow> acl_state list \<Rightarrow> mds_role_binding list \<Rightarrow>
     access_result \<Rightarrow> bool" where
  "access_clean quote mdsCfg aclActive rbacActive acls rbs x \<longleftrightarrow>
     (aclActive \<longrightarrow> round_trips_clean (xr_topics x) (xr_policies x) acls) \<and>
     (rbacActive \<longrightarrow> role_bindings_round_trip_clean quote mdsCfg (xr_topics x) (xr_roleBindings x) rbs)"

definition fallback_warning :: string where
  "fallback_warning =
     ''access reconstruction could not reproduce live state on all active backends; emitted all ACLs as KafkaAccessPolicy and all role bindings as KafkaRoleBinding for fidelity''"

definition unfaithful_warning :: string where
  "unfaithful_warning =
     ''WARNING: imported ACLs could not be represented faithfully (conflicting Allow/Deny on the same subject)''"

definition checked_access ::
    "(acl_rule list \<Rightarrow> acl_rule list) \<Rightarrow> (string \<Rightarrow> string) \<Rightarrow> string \<Rightarrow> mds_config option \<Rightarrow> bool \<Rightarrow> bool \<Rightarrow>
     acl_state list \<Rightarrow> mds_role_binding list \<Rightarrow> string list \<Rightarrow> string list \<Rightarrow> access_result \<Rightarrow> access_result" where
  "checked_access ord quote clusterName mdsCfg aclActive rbacActive acls rbs kept others x =
     (if access_clean quote mdsCfg aclActive rbacActive acls rbs x then
        x\<lparr>xr_warnings := sort (xr_warnings x @ others)\<rparr>
      else
        (let f = fallback_all_explicit ord quote clusterName aclActive rbacActive acls rbs (xr_topics x)
         in f\<lparr>xr_warnings := sort (xr_warnings f @ kept @ [fallback_warning] @
                (if aclActive \<and> \<not> round_trips_clean (xr_topics f) (xr_policies f) acls
                 then [unfaithful_warning] else []))\<rparr>))"

text \<open>
  The fallback rebuilds the warnings too: of those gathered before it, the schema and mirror warnings
  (\<open>kept\<close>) are attached again, the ones of topics, folding, quotas and users are not.
\<close>

definition import_build ::
    "(acl_rule list \<Rightarrow> acl_rule list) \<Rightarrow> (string \<Rightarrow> string) \<Rightarrow> import_snapshot \<Rightarrow> string \<Rightarrow> string list \<Rightarrow>
     mds_config option \<Rightarrow> import_options \<Rightarrow> import_result" where
  "import_build ord quote snap clusterName accessBackends mdsCfg opt =
     (let aclActive = backend_active accessBackends ''acl'';
          rbacActive = backend_active accessBackends ''rbac'';
          (acls, dropWarnings) =
            (if aclActive then filter_mirror_acls quote snap else (isn_acls snap, []));
          (tps0, taken, topicWarnings) = build_topics quote clusterName [] (isn_topics snap);
          (mirrors, builtWarnings) = build_mirrors quote snap clusterName taken;
          mirrorWarnings = dropWarnings @ builtWarnings;
          sb = verify_schema_subjects quote snap (apply_schemas quote snap tps0);
          x = fold_access ord quote clusterName aclActive rbacActive (topic_pos (isn_topics snap)) acls
                (isn_roleBindings snap) (sb_topics sb) (topicWarnings @ mirrorWarnings @ sb_warnings sb);
          (quotas, quotaWarnings) = build_quotas quote clusterName (isn_quotas snap);
          (users, userWarnings) = build_users quote clusterName opt (isn_scram snap);
          y = checked_access ord quote clusterName mdsCfg aclActive rbacActive acls (isn_roleBindings snap)
                (sb_warnings sb @ mirrorWarnings) (quotaWarnings @ userWarnings) x
      in \<lparr>ir_topics = xr_topics y, ir_policies = xr_policies y, ir_quotas = quotas,
          ir_schemaFiles = sb_files sb, ir_warnings = xr_warnings y, ir_roleBindings = xr_roleBindings y,
          ir_users = users, ir_recordNameSubjects = isn_recordNameSubjects snap, ir_mirrors = mirrors,
          ir_partial = is_partial (xr_warnings y)\<rparr>)"

end
