(* ===== verification/Import_Facts.thy ===== *)
theory Import_Facts
  imports Import_Build
begin

section \<open>What the imported access compiles to\<close>

text \<open>
  The import writes ACLs in two shapes, access blocks and policy rules. Both are compared by the set of
  tuples they compile to: \<open>grants\<close> of a topic list, and the compilation of a policy list.
\<close>

subsection \<open>Raw ACLs as policy rules\<close>

text \<open>A tuple with empty attribution; a rule can carry one when host, permission and pattern are set.\<close>

definition bare :: "acl \<Rightarrow> bool" where
  "bare a \<longleftrightarrow>
     a = mk_acl (acl_principal a) (acl_host a) (acl_resourceType a) (acl_resourceName a)
           (acl_patternType a) (acl_operation a) (acl_permission a)"

definition explicit_acl :: "acl \<Rightarrow> bool" where
  "explicit_acl a \<longleftrightarrow> acl_host a \<noteq> [] \<and> acl_permission a \<noteq> [] \<and> acl_patternType a \<noteq> []"

lemma mk_acl_sel [simp]:
  "acl_principal (mk_acl p h t n pt oper perm) = p" "acl_host (mk_acl p h t n pt oper perm) = h"
  "acl_resourceType (mk_acl p h t n pt oper perm) = t" "acl_resourceName (mk_acl p h t n pt oper perm) = n"
  "acl_patternType (mk_acl p h t n pt oper perm) = pt" "acl_operation (mk_acl p h t n pt oper perm) = oper"
  "acl_permission (mk_acl p h t n pt oper perm) = perm"
  by (simp_all add: mk_acl_def)

lemma bare_mk_acl [simp]: "bare (mk_acl p h t n pt oper perm)"
  by (simp add: bare_def)

lemma bare_state_to_acl [simp]: "bare (state_to_acl s)"
  by (simp add: state_to_acl_def)

lemma bare_eqI:
  "bare a \<Longrightarrow> bare b \<Longrightarrow> acl_principal a = acl_principal b \<Longrightarrow> rule_key a = rule_key b \<Longrightarrow>
   acl_operation a = acl_operation b \<Longrightarrow> a = b"
  by (simp add: bare_def rule_key_def)

lemma compile_rule_of_key:
  assumes "\<forall>a \<in> set raw. bare a \<and> explicit_acl a" "b \<in> set raw" "acl_principal b = p" "rule_key b = k"
  shows "set (compile_rule (rule_of_key raw p k)) = {a \<in> set raw. acl_principal a = p \<and> rule_key a = k}"
proof -
  obtain perm host rt n pt where k: "k = (perm, host, rt, n, pt)" by (cases k)
  have ne: "perm \<noteq> []" "host \<noteq> []" "pt \<noteq> []"
    using assms k by (auto simp: explicit_acl_def rule_key_def)
  have "set (compile_rule (rule_of_key raw p k)) =
      (\<lambda>oper. mk_acl p host rt n pt oper perm) ` acl_operation ` {a \<in> set raw. acl_principal a = p \<and> rule_key a = k}"
    using ne by (simp add: compile_rule_def rule_of_key_def k)
  also have "\<dots> = (\<lambda>a. a) ` {a \<in> set raw. acl_principal a = p \<and> rule_key a = k}"
    unfolding image_image
    by (rule image_cong) (auto simp: k rule_key_def assms(1) intro!: bare_eqI)
  finally show ?thesis by simp
qed

lemma policy_rules_compile:
  assumes "\<forall>a \<in> set raw. bare a \<and> explicit_acl a" "\<And>xs. set (ord xs) = set xs"
  shows "(\<Union>r \<in> set (policy_rules ord raw p). set (compile_rule r)) = {a \<in> set raw. acl_principal a = p}"
proof -
  have "(\<Union>r \<in> set (policy_rules ord raw p). set (compile_rule r)) =
      (\<Union>k \<in> rule_key ` {a \<in> set raw. acl_principal a = p}. set (compile_rule (rule_of_key raw p k)))"
    by (simp add: policy_rules_def sort_rules_def assms(2))
  also have "\<dots> = (\<Union>k \<in> rule_key ` {a \<in> set raw. acl_principal a = p}.
      {a \<in> set raw. acl_principal a = p \<and> rule_key a = k})"
  proof (rule SUP_cong [OF refl])
    fix k assume "k \<in> rule_key ` {a \<in> set raw. acl_principal a = p}"
    then obtain b where "b \<in> set raw" "acl_principal b = p" "rule_key b = k" by blast
    then show "set (compile_rule (rule_of_key raw p k)) = {a \<in> set raw. acl_principal a = p \<and> rule_key a = k}"
      by (rule compile_rule_of_key [OF assms(1)])
  qed
  finally show ?thesis by auto
qed

lemma policies_loop_compile:
  assumes "\<forall>a \<in> set raw. bare a \<and> explicit_acl a" "\<And>xs. set (ord xs) = set xs"
  shows "(\<Union>pol \<in> set (fst (policies_loop ord quote c raw owners ps)). set (compile_policy pol)) =
    {a \<in> set raw. acl_principal a \<in> set ps}"
proof (induction ps arbitrary: owners)
  case Nil
  then show ?case by simp
next
  case (Cons p ps)
  have "set (compile_policy (import_policy c name (policy_rules ord raw p))) = {a \<in> set raw. acl_principal a = p}"
    for name
    using policy_rules_compile [OF assms] by (simp add: compile_policy_def import_policy_def)
  then show ?case using Cons.IH by (auto simp: Let_def case_prod_beta)
qed

lemma build_policies_compile:
  assumes "\<forall>a \<in> set raw. bare a \<and> explicit_acl a" "\<And>xs. set (ord xs) = set xs"
  shows "(\<Union>pol \<in> set (fst (build_policies ord quote c raw)). set (compile_policy pol)) = set raw"
  using policies_loop_compile [OF assms, of quote c "[]" "policy_principals raw"]
  by (auto simp: build_policies_def case_prod_beta policy_principals_def)

subsection \<open>The desired set of a conflict-free list\<close>

definition conflict_free :: "acl set \<Rightarrow> bool" where
  "conflict_free A \<longleftrightarrow> (\<forall>a \<in> A. \<forall>b \<in> A. subject_key a = subject_key b \<longrightarrow> acl_permission a = acl_permission b)"

lemma rejected_none: "conflict_free (set acls) \<Longrightarrow> rejected_acls acls = []"
proof -
  assume cf: "conflict_free (set acls)"
  have "first_permission Map.empty acls (subject_key a) = Some (acl_permission a)" if a: "a \<in> set acls" for a
  proof -
    have "find (\<lambda>b. subject_key b = subject_key a) acls \<noteq> None" using a by (auto simp: find_None_iff)
    then obtain b where b: "find (\<lambda>b. subject_key b = subject_key a) acls = Some b" by blast
    have "acl_permission b = acl_permission a"
      using find_SomeD [OF b] cf a unfolding conflict_free_def by blast
    then show ?thesis using b by (simp add: first_permission_def)
  qed
  then show ?thesis by (simp add: rejected_acls_def filter_empty_conv)
qed

lemma build_acl_set_keys:
  assumes "rejected_acls acls = []"
  shows "full_key ` set (fst (build_acl_set acls)) = full_key ` set acls"
proof -
  have "accepted_acls acls = acls"
    using assms by (simp add: rejected_acls_def accepted_acls_def filter_empty_conv filter_id_conv)
  then have "map full_key (fst (build_acl_set acls)) = nub (map full_key acls)"
    by (simp add: build_acl_set_eq acl_kind.map_key_desired_spec)
  then have "set (map full_key (fst (build_acl_set acls))) = set (nub (map full_key acls))" by (rule arg_cong)
  then show ?thesis by simp
qed

lemma same_keys_iff: "same_keys got want \<longleftrightarrow> set got = set want"
proof
  assume "same_keys got want"
  then have "set want \<subseteq> set got" "card (set want) = card (set got)" by (auto simp: same_keys_def)
  then show "set got = set want" using card_subset_eq [OF finite_set] by metis
qed (simp add: same_keys_def)

lemma round_trips_clean_iff:
  "round_trips_clean tps pols live \<longleftrightarrow>
     rejected_acls (compiled_acls tps pols) = [] \<and>
     full_key ` set (compiled_acls tps pols) = full_key ` state_to_acl ` set live"
proof -
  have "snd (build_acl_set acls) = [] \<longleftrightarrow> rejected_acls acls = []" for acls by (simp add: build_acl_set_eq)
  then show ?thesis
    using build_acl_set_keys [of "compiled_acls tps pols"]
    by (simp add: round_trips_clean_def case_prod_beta same_keys_iff image_image cong: conj_cong)
qed

lemma round_trips_clean_same_set:
  assumes "set (compiled_acls tps pols) = state_to_acl ` set live" "conflict_free (state_to_acl ` set live)"
  shows "round_trips_clean tps pols live"
  using rejected_none [of "compiled_acls tps pols"] assms by (simp add: round_trips_clean_iff)

subsection \<open>Folding loses nothing\<close>

text \<open>
  \<open>grants\<close> is what the access blocks of a topic list compile to. \<open>pos_ok\<close> holds of the map from live names
  to positions as long as the topics keep their names.
\<close>

definition grants :: "kafka_topic list \<Rightarrow> acl set" where
  "grants tps = (\<Union>tp \<in> set tps. set (compile_topic tp))"

definition pos_ok :: "(string \<Rightarrow> nat option) \<Rightarrow> kafka_topic list \<Rightarrow> bool" where
  "pos_ok pos tps \<longleftrightarrow>
     (\<forall>n i. pos n = Some i \<longrightarrow> i < length tps \<and> n \<noteq> [] \<and> kts_topicName (kt_spec (tps ! i)) = n)"

definition keeps_name :: "(kafka_topic \<Rightarrow> kafka_topic) \<Rightarrow> bool" where
  "keeps_name f \<longleftrightarrow> (\<forall>tp. kts_topicName (kt_spec (f tp)) = kts_topicName (kt_spec tp))"

definition literal_acl :: "string \<Rightarrow> string \<Rightarrow> string \<Rightarrow> string \<Rightarrow> string \<Rightarrow> acl" where
  "literal_acl p h rt n oper = mk_acl p h rt n ''literal'' oper ''Allow''"

lemma at_topic_grants:
  assumes "pos_ok pos tps" "pos n \<noteq> None" "keeps_name f"
    and "\<And>tp. resolved_topic_name tp = n \<Longrightarrow> set (compile_topic (f tp)) = set (compile_topic tp) \<union> X"
  shows "grants (at_topic pos n f tps) = grants tps \<union> X" "pos_ok pos (at_topic pos n f tps)"
proof -
  obtain i where i: "pos n = Some i" using assms(2) by blast
  then have len: "i < length tps" and "n \<noteq> []" "kts_topicName (kt_spec (tps ! i)) = n"
    using assms(1) by (auto simp: pos_ok_def)
  then have "set (compile_topic (f (tps ! i))) = set (compile_topic (tps ! i)) \<union> X"
    by (intro assms(4)) (simp add: resolved_topic_name_def)
  then have "grants (take i tps @ f (tps ! i) # drop (Suc i) tps) =
      grants (take i tps @ tps ! i # drop (Suc i) tps) \<union> X"
    by (auto simp: grants_def)
  then show "grants (at_topic pos n f tps) = grants tps \<union> X"
    using i len by (simp add: at_topic_def upd_conv_take_nth_drop flip: id_take_nth_drop)
  show "pos_ok pos (at_topic pos n f tps)"
    using assms(1,3) i by (auto simp: pos_ok_def at_topic_def keeps_name_def nth_list_update)
qed

lemma add_to_grants:
  assumes "pos_ok pos tps" "\<forall>n \<in> set ns. pos n \<noteq> None" "keeps_name f"
    and "\<And>tp. set (compile_topic (f tp)) = set (compile_topic tp) \<union> X (resolved_topic_name tp)"
  shows "grants (add_to pos f ns tps) = grants tps \<union> (\<Union>n \<in> set ns. X n)" "pos_ok pos (add_to pos f ns tps)"
proof -
  have "grants (add_to pos f ns tps) = grants tps \<union> (\<Union>n \<in> set ns. X n) \<and> pos_ok pos (add_to pos f ns tps)"
    using assms(1,2)
  proof (induction ns arbitrary: tps)
    case Nil
    then show ?case by (simp add: add_to_def)
  next
    case (Cons n ns)
    have "grants (at_topic pos n f tps) = grants tps \<union> X n" "pos_ok pos (at_topic pos n f tps)"
      using at_topic_grants [OF Cons.prems(1) _ assms(3), of n "X n"] assms(4) Cons.prems(2) by auto
    then show ?case using Cons.IH [of "at_topic pos n f tps"] Cons.prems by (auto simp: add_to_def)
  qed
  then show "grants (add_to pos f ns tps) = grants tps \<union> (\<Union>n \<in> set ns. X n)" "pos_ok pos (add_to pos f ns tps)"
    by auto
qed

lemma keeps_name_access [simp]:
  "keeps_name (add_producer_access x)" "keeps_name (add_consumer_access y)"
  by (simp_all add: keeps_name_def add_producer_access_def add_consumer_access_def Let_def)

lemma resolved_access [simp]:
  "resolved_topic_name (add_producer_access x tp) = resolved_topic_name tp"
  "resolved_topic_name (add_consumer_access y tp) = resolved_topic_name tp"
  by (simp_all add: resolved_topic_name_def add_producer_access_def add_consumer_access_def Let_def)

lemma compile_add_producer:
  "set (compile_topic (add_producer_access (plain_producer p h) tp)) =
     set (compile_topic tp) \<union>
     literal_acl p (host_or_star h) ''topic'' (resolved_topic_name tp) ` {''Write'', ''Describe''}"
proof -
  have "resolved_topic_name (add_producer_access (plain_producer p h) tp) = resolved_topic_name tp" by simp
  then show ?thesis
    by (auto simp: compile_topic_def Let_def add_producer_access_def plain_producer_def or_default_def literal_acl_def)
qed

lemma compile_add_consumer:
  "set (compile_topic (add_consumer_access (plain_consumer p h g) tp)) =
     set (compile_topic tp) \<union>
     literal_acl p (host_or_star h) ''topic'' (resolved_topic_name tp) ` {''Read'', ''Describe''} \<union>
     {literal_acl p (host_or_star h) ''group'' g ''Read''}"
proof -
  have "resolved_topic_name (add_consumer_access (plain_consumer p h g) tp) = resolved_topic_name tp" by simp
  then show ?thesis
    by (auto simp: compile_topic_def Let_def add_consumer_access_def plain_consumer_def or_default_def literal_acl_def)
qed

text \<open>One bucket: its ACLs are the tuples of its topics and groups, and every one ends in a topic or stays raw.\<close>

definition bucket_of :: "string \<times> string \<Rightarrow> acl list \<Rightarrow> bool" where
  "bucket_of key acls \<longleftrightarrow> (\<forall>a \<in> set acls. fold_eligible a \<and> bare a \<and> bucket_key a = key)"

lemma acls_on_literal:
  assumes "bucket_of (p, h) acls"
  shows "set (acls_on rt acls n) = literal_acl p h rt n ` op_set (acls_on rt acls n)"
proof -
  have "a = literal_acl p h rt n (acl_operation a)" if "a \<in> set (acls_on rt acls n)" for a
    using that assms by (auto simp: acls_on_def bucket_of_def bare_def fold_eligible_def bucket_key_def literal_acl_def)
  then show ?thesis by (auto simp: op_set_def intro: rev_image_eqI)
qed

lemma set_equals_eq: "set_equals (op_set acls) want \<Longrightarrow> distinct want \<Longrightarrow> op_set acls = set want"
proof -
  assume eq: "set_equals (op_set acls) want" "distinct want"
  then have "set want \<subseteq> op_set acls" "card (op_set acls) = card (set want)"
    by (auto simp: set_equals_def distinct_card)
  then show ?thesis by (intro card_subset_eq [symmetric]) (auto simp: op_set_def)
qed

lemma producer_acls:
  "bucket_of (p, h) acls \<Longrightarrow> is_producer acls t \<Longrightarrow>
   set (acls_on ''topic'' acls t) = literal_acl p h ''topic'' t ` {''Write'', ''Describe''}"
  using set_equals_eq [of "acls_on ''topic'' acls t" "[''Write'', ''Describe'']"] by (simp add: acls_on_literal is_producer_def)

lemma consumer_acls:
  "bucket_of (p, h) acls \<Longrightarrow> is_consumer acls t \<Longrightarrow>
   set (acls_on ''topic'' acls t) = literal_acl p h ''topic'' t ` {''Read'', ''Describe''}"
  using set_equals_eq [of "acls_on ''topic'' acls t" "[''Read'', ''Describe'']"] by (simp add: acls_on_literal is_consumer_def)

lemma group_read_acls:
  "bucket_of (p, h) acls \<Longrightarrow> is_group_read acls g \<Longrightarrow>
   set (acls_on ''group'' acls g) = {literal_acl p h ''group'' g ''Read''}"
  using set_equals_eq [of "acls_on ''group'' acls g" "[''Read'']"] by (simp add: acls_on_literal is_group_read_def)

definition on_topics :: "acl list \<Rightarrow> string list \<Rightarrow> acl set" where
  "on_topics acls ts = (\<Union>t \<in> set ts. set (acls_on ''topic'' acls t))"

definition on_groups :: "acl list \<Rightarrow> string list \<Rightarrow> acl set" where
  "on_groups acls gs = (\<Union>g \<in> set gs. set (acls_on ''group'' acls g))"

lemma bucket_partition:
  "set acls = set (unbucketed pos acls) \<union> on_topics acls (bucket_topics pos acls) \<union> on_groups acls (bucket_groups acls)"
  by (auto simp: unbucketed_def on_topics_def on_groups_def bucket_topics_def bucket_groups_def acls_on_def)

lemma on_topics_split:
  "on_topics acls ts = on_topics acls (filter A ts) \<union> on_topics acls (filter (\<lambda>t. \<not> A t \<and> B t) ts) \<union>
     on_topics acls (filter (\<lambda>t. \<not> A t \<and> \<not> B t) ts)"
  by (auto simp: on_topics_def)

lemma on_groups_split:
  "on_groups acls gs = on_groups acls (filter P gs) \<union> on_groups acls (filter (\<lambda>g. \<not> P g) gs)"
  by (auto simp: on_groups_def)

lemma fold_bucket_lossless:
  assumes "bucket_of key acls" "snd key \<noteq> []" "pos_ok pos (fo_topics st)"
  shows "grants (fo_topics (fold_bucket quote pos key acls st)) \<union> set (fo_raw (fold_bucket quote pos key acls st)) =
      grants (fo_topics st) \<union> set (fo_raw st) \<union> set acls"
    and "pos_ok pos (fo_topics (fold_bucket quote pos key acls st))"
proof -
  obtain p h where key: "key = (p, h)" by (cases key)
  define host where "host = (if h \<noteq> ''*'' then h else [])"
  have host: "host_or_star host = h" using assms(2) by (simp add: host_def host_or_star_def key)
  let ?ts = "bucket_topics pos acls" and ?gs = "bucket_groups acls"
  define prods where "prods = filter (is_producer acls) ?ts"
  define cons where "cons = filter (\<lambda>t. \<not> is_producer acls t \<and> is_consumer acls t) ?ts"
  define others where "others = filter (\<lambda>t. \<not> is_producer acls t \<and> \<not> is_consumer acls t) ?ts"
  define reads where "reads = filter (is_group_read acls) ?gs"
  define rest where "rest = filter (\<lambda>g. \<not> is_group_read acls g) ?gs"
  have all: "set acls = set (unbucketed pos acls) \<union> on_topics acls prods \<union> on_topics acls cons \<union>
      on_topics acls others \<union> on_groups acls reads \<union> on_groups acls rest"
    using bucket_partition [of acls pos] on_topics_split [of acls ?ts "is_producer acls" "is_consumer acls"]
      on_groups_split [of acls ?gs "is_group_read acls"]
    unfolding prods_def cons_def others_def reads_def rest_def by blast
  have known: "\<forall>n \<in> set prods. pos n \<noteq> None" "\<forall>n \<in> set cons. pos n \<noteq> None"
    by (auto simp: prods_def cons_def bucket_topics_def)
  have bucket: "bucket_of (p, h) acls" using assms(1) key by simp
  define tps where "tps = add_to pos (add_producer_access (plain_producer p host)) prods (fo_topics st)"
  have "grants tps = grants (fo_topics st) \<union>
      (\<Union>n \<in> set prods. literal_acl p h ''topic'' n ` {''Write'', ''Describe''})" and ok: "pos_ok pos tps"
    using add_to_grants [OF assms(3) known(1) keeps_name_access(1) compile_add_producer] by (simp_all add: tps_def host)
  moreover have "(\<Union>n \<in> set prods. literal_acl p h ''topic'' n ` {''Write'', ''Describe''}) = on_topics acls prods"
    unfolding on_topics_def using producer_acls [OF bucket] by (intro SUP_cong refl) (simp add: prods_def)
  ultimately have tps: "grants tps = grants (fo_topics st) \<union> on_topics acls prods" by simp
  have cons_eq: "on_topics acls cons = (\<Union>n \<in> set cons. literal_acl p h ''topic'' n ` {''Read'', ''Describe''})"
    unfolding on_topics_def using consumer_acls [OF bucket] by (intro SUP_cong refl) (simp add: cons_def)
  note shape = fold_bucket_def Let_def key fst_conv snd_conv
  let ?new = "fold_bucket quote pos key acls st"
  have "grants (fo_topics ?new) \<union> set (fo_raw ?new) = grants (fo_topics st) \<union> set (fo_raw st) \<union> set acls \<and>
      pos_ok pos (fo_topics ?new)"
  proof (cases "cons \<noteq> [] \<and> length reads = 1")
    case False
    then have "fo_topics ?new = tps \<and> set (fo_raw ?new) = set (fo_raw st) \<union> set (unbucketed pos acls) \<union>
        on_topics acls others \<union> on_groups acls rest \<union> on_topics acls cons \<union> on_groups acls reads"
      unfolding shape prods_def [symmetric] cons_def [symmetric] others_def [symmetric] reads_def [symmetric]
        rest_def [symmetric] host_def [symmetric] tps_def [symmetric]
      by (auto simp: on_topics_def on_groups_def tps_def split: list.split)
    then show ?thesis using tps ok all by auto
  next
    case True
    then obtain g where g: "reads = [g]" by (auto simp: length_Suc_conv)
    let ?tps = "add_to pos (add_consumer_access (plain_consumer p host g)) cons tps"
    have new: "fo_topics ?new = ?tps \<and> set (fo_raw ?new) = set (fo_raw st) \<union> set (unbucketed pos acls) \<union>
        on_topics acls others \<union> on_groups acls rest"
      using True unfolding shape prods_def [symmetric] cons_def [symmetric] others_def [symmetric]
        reads_def [symmetric] rest_def [symmetric] host_def [symmetric] tps_def [symmetric]
      by (auto simp: on_topics_def on_groups_def g tps_def)
    have "set (compile_topic (add_consumer_access (plain_consumer p host g) tp)) = set (compile_topic tp) \<union>
        (literal_acl p h ''topic'' (resolved_topic_name tp) ` {''Read'', ''Describe''} \<union>
         {literal_acl p h ''group'' g ''Read''})" for tp
      using compile_add_consumer [of p host g tp] by (simp add: host)
    from add_to_grants [OF ok known(2) keeps_name_access(2) this]
    have tps': "grants ?tps = grants tps \<union> (\<Union>n \<in> set cons. literal_acl p h ''topic'' n ` {''Read'', ''Describe''} \<union>
        {literal_acl p h ''group'' g ''Read''})" "pos_ok pos ?tps" by auto
    have "g \<in> set reads" by (simp add: g)
    then have "is_group_read acls g" by (simp add: reads_def)
    then have reads_eq: "on_groups acls reads = {literal_acl p h ''group'' g ''Read''}"
      using group_read_acls [OF bucket] by (simp add: on_groups_def g)
    have "cons \<noteq> []" using True by simp
    then have "grants ?tps = grants tps \<union> on_topics acls cons \<union> on_groups acls reads"
      unfolding tps'(1) cons_eq reads_eq UN_Un_distrib UN_constant by (simp only: set_empty if_False Un_assoc)
    then show ?thesis using new tps tps'(2) all by auto
  qed
  then show "grants (fo_topics ?new) \<union> set (fo_raw ?new) = grants (fo_topics st) \<union> set (fo_raw st) \<union> set acls"
    "pos_ok pos (fo_topics ?new)" by auto
qed

text \<open>All buckets in turn.\<close>

lemma fold_buckets_lossless:
  fixes quote :: "string \<Rightarrow> string" and pos :: "string \<Rightarrow> nat option"
  assumes "\<forall>k \<in> set ks. snd k \<noteq> []" "\<forall>a \<in> set eligible. fold_eligible a \<and> bare a" "pos_ok pos (fo_topics st)"
  defines "step \<equiv> \<lambda>st k. fold_bucket quote pos k (filter (\<lambda>a. bucket_key a = k) eligible) st"
  shows "grants (fo_topics (foldl step st ks)) \<union> set (fo_raw (foldl step st ks)) =
      grants (fo_topics st) \<union> set (fo_raw st) \<union> {a \<in> set eligible. bucket_key a \<in> set ks}"
    "pos_ok pos (fo_topics (foldl step st ks))"
proof -
  have "grants (fo_topics (foldl step st ks)) \<union> set (fo_raw (foldl step st ks)) =
      grants (fo_topics st) \<union> set (fo_raw st) \<union> {a \<in> set eligible. bucket_key a \<in> set ks} \<and>
      pos_ok pos (fo_topics (foldl step st ks))"
    using assms(1,3)
  proof (induction ks arbitrary: st)
    case Nil
    then show ?case by simp
  next
    case (Cons k ks)
    have "bucket_of k (filter (\<lambda>a. bucket_key a = k) eligible)" using assms(2) by (auto simp: bucket_of_def)
    note one = fold_bucket_lossless [OF this _ Cons.prems(2), of quote]
    have "pos_ok pos (fo_topics (step st k))" using one(2) Cons.prems(1) by (simp add: step_def)
    then show ?case using Cons.IH [of "step st k"] one(1) Cons.prems(1) by (auto simp: step_def)
  qed
  then show "grants (fo_topics (foldl step st ks)) \<union> set (fo_raw (foldl step st ks)) =
      grants (fo_topics st) \<union> set (fo_raw st) \<union> {a \<in> set eligible. bucket_key a \<in> set ks}"
    "pos_ok pos (fo_topics (foldl step st ks))" by auto
qed

definition live_explicit :: "acl_state list \<Rightarrow> bool" where
  "live_explicit live \<longleftrightarrow>
     (\<forall>s \<in> set live. as_host s \<noteq> [] \<and> as_permission s \<noteq> [] \<and> as_patternType s \<noteq> [])"

lemma classify_and_fold_lossless:
  fixes quote :: "string \<Rightarrow> string" and ws :: "string list"
  assumes "live_explicit live" "pos_ok pos tps"
  defines "st \<equiv> classify_and_fold quote pos live tps ws"
  shows "grants (fo_topics st) \<union> set (fo_raw st) = grants tps \<union> state_to_acl ` set live"
    "pos_ok pos (fo_topics st)"
proof -
  define acls where "acls = map state_to_acl live"
  define el where "el = filter fold_eligible acls"
  have keys: "\<forall>k \<in> set (sort (remdups (map bucket_key el))). snd k \<noteq> []"
    using assms(1) by (auto simp: el_def acls_def bucket_key_def state_to_acl_def live_explicit_def)
  have el: "\<forall>a \<in> set el. fold_eligible a \<and> bare a" by (auto simp: el_def acls_def)
  let ?st0 = "\<lparr>fo_topics = tps, fo_raw = filter (\<lambda>a. \<not> fold_eligible a) acls, fo_warnings = ws\<rparr>"
  note all = fold_buckets_lossless [OF keys el, of pos ?st0 quote, simplified, OF assms(2)]
  have "{a \<in> set acls. \<not> fold_eligible a} \<union> {a \<in> set el. bucket_key a \<in> bucket_key ` set el} = set acls"
    by (auto simp: el_def)
  then show "grants (fo_topics st) \<union> set (fo_raw st) = grants tps \<union> state_to_acl ` set live"
    "pos_ok pos (fo_topics st)"
    using all by (simp_all add: st_def classify_and_fold_def Let_def acls_def el_def Un_assoc)
qed

text \<open>What stays raw is one of the live tuples.\<close>

lemma fold_bucket_raw: "set (fo_raw (fold_bucket quote pos key acls st)) \<subseteq> set (fo_raw st) \<union> set acls"
  by (auto simp: fold_bucket_def Let_def unbucketed_def acls_on_def split: list.split)

lemma fold_buckets_raw:
  "set (fo_raw (foldl (\<lambda>st k. fold_bucket quote pos k (filter (\<lambda>a. bucket_key a = k) eligible) st) st ks)) \<subseteq>
   set (fo_raw st) \<union> set eligible"
proof (induction ks arbitrary: st)
  case (Cons k ks)
  show ?case
    using Cons.IH [of "fold_bucket quote pos k (filter (\<lambda>a. bucket_key a = k) eligible) st"]
      fold_bucket_raw [of quote pos k "filter (\<lambda>a. bucket_key a = k) eligible" st] by auto
qed simp

lemma classify_and_fold_raw: "set (fo_raw (classify_and_fold quote pos live tps ws)) \<subseteq> state_to_acl ` set live"
  using fold_buckets_raw [of quote pos "filter fold_eligible (map state_to_acl live)"]
  by (fastforce simp: classify_and_fold_def Let_def)

end
