(* ===== verification/Import_Checked.thy ===== *)
theory Import_Checked
  imports Import_Facts
begin

section \<open>The recompile checks of the import hold\<close>

text \<open>
  The all-explicit fallback passes both checks for every live state the manifests can express; the
  check on ACLs passes without it. The topics the fold starts from are fresh: named after the snapshot
  and without access.
\<close>

subsection \<open>Explicit role bindings\<close>

definition expressible_binding :: "mds_config \<Rightarrow> mds_role_binding \<Rightarrow> bool" where
  "expressible_binding mds rb \<longleftrightarrow>
     resolve_scope (msc_type (mrb_scope rb)) (mds_clusters_of mds) =
       Inr \<lparr>sc_type = msc_type (mrb_scope rb), sc_kafkaCluster = msc_kafkaCluster (mrb_scope rb),
            sc_subCluster = msc_subCluster (mrb_scope rb)\<rparr> \<and>
     (case mrb_resource rb of None \<Rightarrow> True | Some r \<Rightarrow> mrp_patternType r \<noteq> [])"

definition manifest_key :: "mds_config \<Rightarrow> kafka_role_binding \<Rightarrow> string" where
  "manifest_key mds m = (case rbac_compile m mds of Inr (b # _) \<Rightarrow> rb_full_key b | _ \<Rightarrow> [])"

definition compiles_to_one :: "mds_config \<Rightarrow> kafka_role_binding \<Rightarrow> bool" where
  "compiles_to_one mds m \<longleftrightarrow> (\<exists>b. rbac_compile m mds = Inr [b])"

lemma role_binding_manifest_compile:
  assumes "expressible_binding mds rb"
  shows "compiles_to_one mds ((role_binding_manifest rb c)\<lparr>kr_meta := meta\<rparr>)"
    "manifest_key mds ((role_binding_manifest rb c)\<lparr>kr_meta := meta\<rparr>) = mds_key rb"
  using assms
  by (auto simp: compiles_to_one_def manifest_key_def role_binding_manifest_def rbac_compile_def Let_def
      expressible_binding_def rb_full_key_def mds_key_def resource_key_def split: option.splits)

lemma role_bindings_loop_keys:
  "\<forall>rb \<in> set rbs. expressible_binding mds rb \<Longrightarrow>
   (\<forall>m \<in> set (fst (role_bindings_loop quote c taken rbs)). compiles_to_one mds m) \<and>
   map (manifest_key mds) (fst (role_bindings_loop quote c taken rbs)) = map mds_key rbs"
  by (induction rbs arbitrary: taken) (simp_all add: Let_def case_prod_beta role_binding_manifest_compile)

lemma compile_explicit_ones:
  "\<forall>m \<in> set ms. compiles_to_one mds m \<Longrightarrow>
   \<exists>bs. compile_explicit_rbac mds ms = Inr bs \<and> map rb_full_key bs = map (manifest_key mds) ms"
proof (induction ms)
  case (Cons m ms)
  then obtain bs where "compile_explicit_rbac mds ms = Inr bs" "map rb_full_key bs = map (manifest_key mds) ms"
    by auto
  moreover obtain b where "rbac_compile m mds = Inr [b]" using Cons.prems by (auto simp: compiles_to_one_def)
  ultimately show ?case by (simp add: manifest_key_def)
qed simp

lemma build_role_bindings_compile:
  assumes "\<forall>rb \<in> set rbs. expressible_binding mds rb"
  obtains bs where "compile_explicit_rbac mds (fst (build_role_bindings quote c rbs)) = Inr bs"
    "mset (map rb_full_key bs) = mset (map mds_key rbs)"
proof -
  let ?ms = "fst (role_bindings_loop quote c [] rbs)" and ?ss = "fst (build_role_bindings quote c rbs)"
  note loop = role_bindings_loop_keys [OF assms, of quote c "[]"]
  have ss: "?ss = sort_key (\<lambda>m. om_name (kr_meta m)) ?ms" by (simp add: build_role_bindings_def case_prod_beta)
  then have "\<forall>m \<in> set ?ss. compiles_to_one mds m" using loop by simp
  then obtain bs where bs: "compile_explicit_rbac mds ?ss = Inr bs" "map rb_full_key bs = map (manifest_key mds) ?ss"
    using compile_explicit_ones by blast
  have "mset (map (manifest_key mds) ?ss) = image_mset (manifest_key mds) (mset ?ms)" by (simp add: ss)
  also have "\<dots> = mset (map mds_key rbs)" using loop by (metis mset_map)
  finally show ?thesis using that bs by metis
qed

lemma con_filter_distinct:
  "distinct (map key (acc @ its)) \<Longrightarrow> con_filter key c acc its = (acc @ its, [])"
proof (induction its arbitrary: acc)
  case (Cons it its)
  have "key it \<notin> key ` set acc" using Cons.prems by auto
  then have "find (\<lambda>x. key x = key it) acc = None" unfolding find_None_iff by (metis imageI)
  then show ?case using Cons.IH [of "acc @ [it]"] Cons.prems by simp
qed simp

lemma build_binding_set_distinct:
  assumes "distinct (map rb_full_key bs)"
  shows "snd (build_binding_set bs) = []" "rb_full_key ` set (fst (build_binding_set bs)) = rb_full_key ` set bs"
proof -
  have cf: "con_filter rb_full_key explicit_collision [] bs = (bs, [])"
    using con_filter_distinct [of rb_full_key "[]" bs] assms by simp
  then show "snd (build_binding_set bs) = []" by (simp add: build_binding_set_eq)
  have "mset (map rb_full_key (fst (build_binding_set bs))) = mset (nub (map rb_full_key bs))"
    unfolding build_binding_set_keys accepted_bindings_def cf by simp
  then have "set (map rb_full_key (fst (build_binding_set bs))) = set (nub (map rb_full_key bs))"
    by (rule mset_eq_setD)
  then show "rb_full_key ` set (fst (build_binding_set bs)) = rb_full_key ` set bs" by simp
qed

lemma compile_topics_rbac_cleared:
  assumes "\<exists>s. resolve_scope ''kafka'' (mds_clusters_of mds) = Inr s"
  shows "compile_topics_rbac quote mds (map clear_access tps) = Inr []"
  using assms by (induction tps) (auto simp: compile_topic_access_def clear_access_def Let_def)

lemma explicit_bindings_clean:
  assumes "mc_kafkaCluster (mds_clusters_of mds) \<noteq> []" "\<forall>rb \<in> set rbs. expressible_binding mds rb"
    and "distinct (map mds_key rbs)"
  shows "role_bindings_round_trip_clean quote (Some mds) (map clear_access tps)
    (fst (build_role_bindings quote c rbs)) rbs"
proof -
  obtain bs where bs: "compile_explicit_rbac mds (fst (build_role_bindings quote c rbs)) = Inr bs"
    and keys: "mset (map rb_full_key bs) = mset (map mds_key rbs)"
    using build_role_bindings_compile [OF assms(2)] by blast
  have scope: "\<exists>s. resolve_scope ''kafka'' (mds_clusters_of mds) = Inr s" using assms(1) by (simp add: resolve_scope_def)
  have "distinct (map rb_full_key bs)" using mset_eq_imp_distinct_iff [OF keys] assms(3) by blast
  note set = build_binding_set_distinct [OF this]
  have "set (map rb_full_key bs) = set (map mds_key rbs)" using keys by (rule mset_eq_setD)
  then show ?thesis
    using set
    by (simp add: role_bindings_round_trip_clean_def compile_topics_rbac_cleared [OF scope] bs case_prod_beta
        same_keys_iff live_rb_full_key_def)
qed

subsection \<open>The fallback passes both checks\<close>

lemma compile_cleared: "compile_topic (clear_access tp) = []"
  by (simp add: compile_topic_def clear_access_def Let_def)

lemma compiled_cleared: "compiled_acls (map clear_access tps) pols = concat (map compile_policy pols)"
  by (simp add: compiled_acls_def compile_cleared)

definition expressible_acls :: "acl_state list \<Rightarrow> bool" where
  "expressible_acls live \<longleftrightarrow> live_explicit live \<and> conflict_free (state_to_acl ` set live)"

definition expressible_bindings :: "mds_config option \<Rightarrow> mds_role_binding list \<Rightarrow> bool" where
  "expressible_bindings cfg rbs \<longleftrightarrow>
     (case cfg of None \<Rightarrow> False
      | Some mds \<Rightarrow> mc_kafkaCluster (mds_clusters_of mds) \<noteq> [] \<and> (\<forall>rb \<in> set rbs. expressible_binding mds rb) \<and>
          distinct (map mds_key rbs))"

lemma live_explicit_raw: "live_explicit live \<Longrightarrow> \<forall>a \<in> state_to_acl ` set live. bare a \<and> explicit_acl a"
  by (auto simp: live_explicit_def explicit_acl_def state_to_acl_def)

lemma explicit_acls_clean:
  assumes "expressible_acls live" "\<And>xs. set (ord xs) = set xs"
  shows "round_trips_clean (map clear_access tps) (fst (build_policies ord quote c (map state_to_acl live))) live"
proof -
  have "set (compiled_acls (map clear_access tps) (fst (build_policies ord quote c (map state_to_acl live)))) =
      state_to_acl ` set live"
    using build_policies_compile [of "map state_to_acl live" ord quote c] assms live_explicit_raw [of live]
    by (simp add: compiled_cleared expressible_acls_def)
  then show ?thesis using assms(1) by (intro round_trips_clean_same_set) (simp_all add: expressible_acls_def)
qed

lemma fallback_clean:
  assumes "\<And>xs. set (ord xs) = set xs" "aclActive \<Longrightarrow> expressible_acls acls"
    and "rbacActive \<Longrightarrow> expressible_bindings mdsCfg rbs"
  shows "access_clean quote mdsCfg aclActive rbacActive acls rbs
    (fallback_all_explicit ord quote c aclActive rbacActive acls rbs tps)"
  using explicit_acls_clean [OF _ assms(1)] explicit_bindings_clean assms(2,3)
  by (auto simp: access_clean_def fallback_all_explicit_def case_prod_beta expressible_bindings_def split: option.splits)

lemma access_clean_warnings [simp]:
  "access_clean quote mdsCfg a r acls rbs (x\<lparr>xr_warnings := ws\<rparr>) = access_clean quote mdsCfg a r acls rbs x"
  by (simp add: access_clean_def)

lemma checked_access_clean:
  assumes "\<And>xs. set (ord xs) = set xs" "aclActive \<Longrightarrow> expressible_acls acls"
    and "rbacActive \<Longrightarrow> expressible_bindings mdsCfg rbs"
  shows "access_clean quote mdsCfg aclActive rbacActive acls rbs
    (checked_access ord quote c mdsCfg aclActive rbacActive acls rbs kept others x)"
  using fallback_clean [of ord, OF assms] by (simp add: checked_access_def Let_def)

subsection \<open>Fresh topics\<close>

definition no_access :: topic_access where
  "no_access = \<lparr>ta_producers = [], ta_consumers = []\<rparr>"

definition fresh :: "topic_snapshot list \<Rightarrow> kafka_topic list \<Rightarrow> bool" where
  "fresh snaps tps \<longleftrightarrow>
     map (\<lambda>tp. (kts_topicName (kt_spec tp), kts_access (kt_spec tp))) tps = map (\<lambda>s. (tsn_name s, no_access)) snaps"

lemma build_topics_fresh: "fresh snaps (fst (build_topics quote c taken snaps))"
  by (induction snaps arbitrary: taken) (simp_all add: fresh_def import_topic_def no_access_def Let_def case_prod_beta)

lemma map_at_topic: "(\<And>tp. g (f tp) = g tp) \<Longrightarrow> map g (at_topic pos n f tps) = map g tps"
proof (cases "pos n")
  case (Some i)
  assume "\<And>tp. g (f tp) = g tp"
  moreover have "(map g tps)[i := g (tps ! i)] = map g tps"
    by (cases "i < length tps") (metis list_update_id nth_map, simp add: list_update_beyond)
  ultimately show ?thesis using Some by (simp add: at_topic_def map_update)
qed (simp add: at_topic_def)

lemma fresh_set_schema: "fresh snaps (at_topic pos n (set_schema sc) tps) = fresh snaps tps"
  unfolding fresh_def by (subst map_at_topic) (simp_all add: set_schema_def)

lemma apply_schema_fresh: "fresh snaps (sb_topics (apply_schema quote pos snap b ts)) = fresh snaps (sb_topics b)"
  by (simp add: apply_schema_def apply_value_schema_def Let_def fresh_set_schema case_prod_beta split: option.split)

lemma verify_schema_fresh: "fresh snaps (sb_topics (verify_schema quote pos snap b ts)) = fresh snaps (sb_topics b)"
  by (simp add: verify_schema_def drop_block_def Let_def fresh_set_schema split: option.split)

lemma foldl_fresh:
  "(\<And>b t. fresh snaps (sb_topics (f b t)) = fresh snaps (sb_topics b)) \<Longrightarrow>
   fresh snaps (sb_topics (foldl f b ts)) = fresh snaps (sb_topics b)"
  by (induction ts arbitrary: b) simp_all

lemma schemas_fresh:
  "fresh snaps (sb_topics (verify_schema_subjects quote snap (apply_schemas quote snap tps))) = fresh snaps tps"
  by (simp add: verify_schema_subjects_def apply_schemas_def Let_def
      foldl_fresh [of snaps "verify_schema quote _ snap", OF verify_schema_fresh]
      foldl_fresh [of snaps "apply_schema quote _ snap", OF apply_schema_fresh])

lemma topic_pos_Some: "topic_pos snaps n = Some i \<Longrightarrow> i < length snaps \<and> tsn_name (snaps ! i) = n"
proof -
  assume "topic_pos snaps n = Some i"
  then have "(n, i) \<in> set (zip (map tsn_name snaps) [0..<length snaps])"
    unfolding topic_pos_def by (drule_tac map_of_SomeD) simp
  then show ?thesis by (auto simp: set_zip)
qed

lemma fresh_pos_ok: "fresh snaps tps \<Longrightarrow> \<forall>s \<in> set snaps. tsn_name s \<noteq> [] \<Longrightarrow> pos_ok (topic_pos snaps) tps"
proof -
  assume f: "fresh snaps tps" and ne: "\<forall>s \<in> set snaps. tsn_name s \<noteq> []"
  have len: "length tps = length snaps" using f by (metis fresh_def length_map)
  have "kts_topicName (kt_spec (tps ! i)) = tsn_name (snaps ! i)" if "i < length snaps" for i
  proof -
    have "map (\<lambda>tp. (kts_topicName (kt_spec tp), kts_access (kt_spec tp))) tps ! i =
        map (\<lambda>s. (tsn_name s, no_access)) snaps ! i" using f by (simp add: fresh_def)
    then show ?thesis using that len by simp
  qed
  moreover have "i < length tps \<and> n \<noteq> [] \<and> tsn_name (snaps ! i) = n" if "topic_pos snaps n = Some i" for n i
    using topic_pos_Some [OF that] ne len nth_mem by auto
  ultimately show ?thesis by (auto simp: pos_ok_def dest: topic_pos_Some)
qed

lemma fresh_grants: "fresh snaps tps \<Longrightarrow> grants tps = {}"
proof -
  assume f: "fresh snaps tps"
  have "kts_access (kt_spec tp) = no_access" if "tp \<in> set tps" for tp
  proof -
    have "(kts_topicName (kt_spec tp), kts_access (kt_spec tp)) \<in>
        set (map (\<lambda>tp. (kts_topicName (kt_spec tp), kts_access (kt_spec tp))) tps)" using that by auto
    then have "(kts_topicName (kt_spec tp), kts_access (kt_spec tp)) \<in> set (map (\<lambda>s. (tsn_name s, no_access)) snaps)"
      by (simp only: f [unfolded fresh_def])
    then show ?thesis by auto
  qed
  then have "compile_topic tp = []" if "tp \<in> set tps" for tp using that by (simp add: compile_topic_def Let_def no_access_def)
  then show ?thesis by (simp add: grants_def)
qed

subsection \<open>On the ACL backend the fold alone passes\<close>

lemma fold_access_acls:
  assumes "fresh snaps tps" "\<forall>s \<in> set snaps. tsn_name s \<noteq> []" "live_explicit acls"
    and "\<And>xs. set (ord xs) = set xs" and "x = fold_access ord quote c True False (topic_pos snaps) acls rbs tps ws"
  shows "set (compiled_acls (xr_topics x) (xr_policies x)) = state_to_acl ` set acls"
proof -
  define st where "st = classify_and_fold quote (topic_pos snaps) acls tps ws"
  have all: "grants (fo_topics st) \<union> set (fo_raw st) = state_to_acl ` set acls"
    using classify_and_fold_lossless [OF assms(3) fresh_pos_ok [OF assms(1,2)]] fresh_grants [OF assms(1)]
    by (simp add: st_def)
  then have "\<forall>a \<in> set (fo_raw st). bare a \<and> explicit_acl a" using live_explicit_raw [OF assms(3)] by blast
  from build_policies_compile [OF this assms(4)] all show ?thesis
    by (simp add: assms(5) fold_access_def st_def [symmetric] case_prod_beta compiled_acls_def grants_def)
qed

end
