(* ===== verification/Import_Namespace.thy ===== *)
theory Import_Namespace
  imports Import_Build
begin

section \<open>Namespaces of imported manifests (internal/importer/namespace.go)\<close>

text \<open>
  The namespace strategies and \<open>AssignNamespaces\<close>. \<open>rx\<close> stands for \<open>regexp.Compile\<close> on the user's
  pattern: an error text, or the number of capture groups with \<open>FindStringSubmatch\<close>.
\<close>

record namespace_strategy =
  nst_kind :: string
  nst_single :: string
  nst_separator :: string
  nst_pattern :: string
  nst_mapping :: "(string, string) gomap"
  nst_fallback :: string

record compiled_regex =
  cre_groups :: nat
  cre_submatch :: "string \<Rightarrow> string list option"

type_synonym regex_compiler = "string \<Rightarrow> string + compiled_regex"

definition strategy_fallback :: "namespace_strategy \<Rightarrow> string" where
  "strategy_fallback s = (if nst_fallback s \<noteq> [] then nst_fallback s else ''default'')"

definition strategy_kind :: "namespace_strategy \<Rightarrow> string" where
  "strategy_kind s = (if nst_kind s = [] then ''single'' else nst_kind s)"

text \<open>\<open>strings.Index\<close>: the first position of \<open>sub\<close>.\<close>

definition str_index :: "string \<Rightarrow> string \<Rightarrow> nat option" where
  "str_index s sub = find (\<lambda>i. prefix sub (drop i s)) [0..<Suc (length s)]"

definition prefix_for :: "namespace_strategy \<Rightarrow> string \<Rightarrow> string" where
  "prefix_for s topicName =
     (case str_index topicName (if nst_separator s = [] then ''.'' else nst_separator s) of
        None \<Rightarrow> strategy_fallback s
      | Some i \<Rightarrow> (if i = 0 then strategy_fallback s else take i topicName))"

definition compile_regex :: "regex_compiler \<Rightarrow> namespace_strategy \<Rightarrow> go_error + compiled_regex" where
  "compile_regex rx s =
     (case rx (nst_pattern s) of
        Inl e \<Rightarrow> Inl [T ''invalid namespace regex '', Q (nst_pattern s), T '': '', T e]
      | Inr re \<Rightarrow>
          (if cre_groups re < 1 then
             Inl [T ''namespace regex '', Q (nst_pattern s), T '' must have at least one capture group'']
           else Inr re))"

definition match_regex :: "compiled_regex \<Rightarrow> string \<Rightarrow> string \<Rightarrow> string" where
  "match_regex re topicName fallback =
     (case cre_submatch re topicName of
        Some (_ # g # _) \<Rightarrow> (if g \<noteq> [] then g else fallback)
      | _ \<Rightarrow> fallback)"

definition unknown_strategy :: "namespace_strategy \<Rightarrow> go_error" where
  "unknown_strategy s = [T ''unknown namespace strategy '', Q (nst_kind s)]"

definition strategy_for :: "regex_compiler \<Rightarrow> namespace_strategy \<Rightarrow> string \<Rightarrow> go_error + string" where
  "strategy_for rx s topicName =
     (let kind = strategy_kind s
      in if kind = ''single'' then Inr (if nst_single s \<noteq> [] then nst_single s else strategy_fallback s)
         else if kind = ''prefix'' then Inr (prefix_for s topicName)
         else if kind = ''regex'' then
           and_then (compile_regex rx s) (\<lambda>re. Inr (match_regex re topicName (strategy_fallback s)))
         else if kind = ''mapping-file'' then
           Inr (case mget (nst_mapping s) topicName of Some ns \<Rightarrow> ns | None \<Rightarrow> strategy_fallback s)
         else Inl (unknown_strategy s))"

text \<open>The resolver holds the compiled regex for the regex kind only.\<close>

definition new_resolver :: "regex_compiler \<Rightarrow> namespace_strategy \<Rightarrow> go_error + compiled_regex option" where
  "new_resolver rx s =
     (let kind = strategy_kind s
      in if kind \<in> {''single'', ''prefix'', ''mapping-file''} then Inr None
         else if kind = ''regex'' then and_then (compile_regex rx s) (\<lambda>re. Inr (Some re))
         else Inl (unknown_strategy s))"

definition resolver_for :: "regex_compiler \<Rightarrow> namespace_strategy \<Rightarrow> compiled_regex option \<Rightarrow> string \<Rightarrow> string" where
  "resolver_for rx s re topicName =
     (case re of
        Some r \<Rightarrow> match_regex r topicName (strategy_fallback s)
      | None \<Rightarrow> (case strategy_for rx s topicName of Inr ns \<Rightarrow> ns | Inl _ \<Rightarrow> []))"

text \<open>A resolver answers what the strategy does.\<close>

lemma resolver_for_strategy:
  "new_resolver rx s = Inr re \<Longrightarrow> strategy_for rx s t = Inr (resolver_for rx s re t)"
  by (auto simp: new_resolver_def resolver_for_def strategy_for_def Let_def and_then_Inr split: if_splits)

subsection \<open>AssignNamespaces\<close>

definition with_namespace :: "string \<Rightarrow> object_meta \<Rightarrow> object_meta" where
  "with_namespace ns m = m\<lparr>om_namespace := ns\<rparr>"

text \<open>\<open>nsByTopic\<close>: topics, then mirror topics; a later entry of a name overwrites an earlier one.\<close>

definition topic_namespaces :: "(string \<Rightarrow> string) \<Rightarrow> import_result \<Rightarrow> string \<Rightarrow> string option" where
  "topic_namespaces f res =
     (\<lambda>n. if n \<noteq> [] \<and> n \<in> set (map resolved_topic_name (ir_topics res)) \<union>
            set (map (\<lambda>m. effective_topic_name (km_spec m)) (ir_mirrors res))
          then Some (f n) else None)"

definition governed_namespaces :: "(string \<Rightarrow> string option) \<Rightarrow> kafka_access_policy \<Rightarrow> string list" where
  "governed_namespaces nsOf pol =
     remdups (List.map_filter (\<lambda>r. if ar_type (rule_resource r) = ''topic''
       then nsOf (ar_name (rule_resource r)) else None) (aps_rules (ap_spec pol)))"

definition policy_namespace :: "(string \<Rightarrow> string option) \<Rightarrow> string \<Rightarrow> kafka_access_policy \<Rightarrow> string" where
  "policy_namespace nsOf fallback pol =
     (case governed_namespaces nsOf pol of [ns] \<Rightarrow> ns | _ \<Rightarrow> fallback)"

definition file_namespace :: "kafka_topic list \<Rightarrow> string \<Rightarrow> schema_file \<Rightarrow> string" where
  "file_namespace tps fallback f =
     (case map_of (rev (map (\<lambda>t. (om_name (kt_meta t), om_namespace (kt_meta t))) tps)) (sf_metaName f) of
        Some ns \<Rightarrow> ns | None \<Rightarrow> fallback)"

definition assign_with :: "(string \<Rightarrow> string) \<Rightarrow> string \<Rightarrow> import_result \<Rightarrow> import_result" where
  "assign_with f fallback res =
     (let tps = map (\<lambda>t. t\<lparr>kt_meta := with_namespace (f (resolved_topic_name t)) (kt_meta t)\<rparr>) (ir_topics res);
          nsOf = topic_namespaces f res
      in res\<lparr>ir_topics := tps,
           ir_mirrors := map (\<lambda>m. m\<lparr>km_meta := with_namespace (f (effective_topic_name (km_spec m))) (km_meta m)\<rparr>)
             (ir_mirrors res),
           ir_policies := map (\<lambda>p. p\<lparr>ap_meta := with_namespace (policy_namespace nsOf fallback p) (ap_meta p)\<rparr>)
             (ir_policies res),
           ir_schemaFiles := map (\<lambda>sf. sf\<lparr>sf_namespace := file_namespace tps fallback sf\<rparr>) (ir_schemaFiles res),
           ir_quotas := map (\<lambda>q. q\<lparr>kq_meta := with_namespace fallback (kq_meta q)\<rparr>) (ir_quotas res),
           ir_users := map (\<lambda>u. u\<lparr>ku_meta := with_namespace fallback (ku_meta u)\<rparr>) (ir_users res),
           ir_roleBindings := map (\<lambda>b. b\<lparr>kr_meta := with_namespace fallback (kr_meta b)\<rparr>) (ir_roleBindings res)\<rparr>)"

definition assign_namespaces ::
    "regex_compiler \<Rightarrow> namespace_strategy \<Rightarrow> import_result \<Rightarrow> go_error + import_result" where
  "assign_namespaces rx s res =
     and_then (new_resolver rx s) (\<lambda>re. Inr (assign_with (resolver_for rx s re) (strategy_fallback s) res))"

text \<open>The resolved name of a topic does not depend on its namespace, and neither does what it compiles to.\<close>

lemma resolved_with_namespace [simp]:
  "resolved_topic_name (t\<lparr>kt_meta := with_namespace ns (kt_meta t)\<rparr>) = resolved_topic_name t"
  by (simp add: resolved_topic_name_def with_namespace_def)

lemma compile_with_namespace [simp]:
  "compile_topic (t\<lparr>kt_meta := with_namespace ns (kt_meta t)\<rparr>) = compile_topic t"
  "compile_policy (p\<lparr>ap_meta := pm\<rparr>) = compile_policy p"
  "quota_compile (q\<lparr>kq_meta := qm\<rparr>) = quota_compile q"
  "compile_desired_user (u\<lparr>ku_meta := um\<rparr>) = compile_desired_user u"
  by (simp_all add: compile_topic_def compile_policy_def quota_compile_def compile_desired_user_def user_compile_def)

lemma assign_with_compiled:
  "compiled_acls (ir_topics (assign_with f fb res)) (ir_policies (assign_with f fb res)) =
   compiled_acls (ir_topics res) (ir_policies res)"
  by (simp add: compiled_acls_def assign_with_def Let_def comp_def)

text \<open>A policy over topics of one namespace goes there.\<close>

lemma policy_follows_topic:
  assumes "r \<in> set (aps_rules (ap_spec pol))" "ar_type (rule_resource r) = ''topic''"
    and "nsOf (ar_name (rule_resource r)) = Some ns"
    and "\<forall>r' \<in> set (aps_rules (ap_spec pol)). ar_type (rule_resource r') = ''topic'' \<longrightarrow>
      nsOf (ar_name (rule_resource r')) \<in> {None, Some ns}"
  shows "policy_namespace nsOf fb pol = ns"
proof -
  have set: "set (governed_namespaces nsOf pol) = {ns}"
    using assms by (force simp: governed_namespaces_def List.map_filter_def split: if_splits)
  have "distinct (governed_namespaces nsOf pol)" by (simp add: governed_namespaces_def)
  from distinct_card [OF this] have "length (governed_namespaces nsOf pol) = Suc 0" by (simp add: set)
  then obtain x where x: "governed_namespaces nsOf pol = [x]" unfolding length_Suc_conv by blast
  with set have "governed_namespaces nsOf pol = [ns]" by simp
  then show ?thesis by (simp add: policy_namespace_def)
qed

end
