(* ===== verification/Import_Kinds.thy ===== *)
theory Import_Kinds
  imports Import_Checked Import_Namespace Pipeline
begin

section \<open>Imported manifests and the diff, kind by kind\<close>

text \<open>
  When the diff of a kind is empty, and that the imported quotas and users compile to what is live.
\<close>

subsection \<open>When a kind plans nothing\<close>

definition topic_in_sync :: "desired_topic \<Rightarrow> topic_state \<Rightarrow> bool" where
  "topic_in_sync dt lt \<longleftrightarrow>
     tst_name lt = dt_name dt \<and> tst_partitions lt = dt_partitions dt \<and>
     (tst_replicationFactor lt = 0 \<or> dt_replicationFactor dt \<in> {0, tst_replicationFactor lt}) \<and>
     (\<forall>k v. mget (dt_config dt) k = Some v \<longrightarrow> mget (tst_config lt) k = Some v)"

lemma topic_in_syncD:
  "topic_in_sync dt lt \<Longrightarrow> tst_name lt = dt_name dt"
  "topic_in_sync dt lt \<Longrightarrow> mget (dt_config dt) k = Some v \<Longrightarrow> mget (tst_config lt) k = Some v"
  unfolding topic_in_sync_def by blast+

lemma topic_ops_quiet: "topic_in_sync dt lt \<Longrightarrow> topic_ops_for dt (Some lt) = []"
proof -
  assume sync: "topic_in_sync dt lt"
  have "config_op dt lt k = []" if k: "k \<in> set (mkeys (dt_config dt))" for k
  proof -
    obtain v where v: "mget (dt_config dt) k = Some v" using k by auto
    with topic_in_syncD(2) [OF sync v] show ?thesis by (simp add: config_op_def)
  qed
  moreover have "partition_ops dt lt = []" "replication_ops dt lt = []"
    using sync unfolding topic_in_sync_def by (auto simp: partition_ops_def replication_ops_def)
  ultimately show ?thesis by (simp add: topic_ops_for_def)
qed

lemma compute_topic_ops_quiet:
  assumes "\<forall>dt \<in> set (d_topics d). \<exists>lt \<in> set (l_topics l). topic_in_sync dt lt" "distinct (map tst_name (l_topics l))"
  shows "compute_topic_ops d l = []"
proof -
  have "topic_ops_for dt (index_by tst_name (l_topics l) Map.empty (dt_name dt)) = []" if dt: "dt \<in> set (d_topics d)" for dt
  proof -
    obtain lt where lt: "lt \<in> set (l_topics l)" "topic_in_sync dt lt" using assms(1) dt by blast
    with index_by_distinct [OF assms(2) lt(1), of Map.empty] show ?thesis
      by (simp add: topic_ops_quiet topic_in_syncD(1) [OF lt(2)])
  qed
  then show ?thesis by (simp add: compute_topic_ops_def Let_def)
qed

lemma add_prune_quiet:
  assumes "apk_key k ` set des \<subseteq> apk_key k ` set lv"
    and "\<forall>a \<in> set lv. apk_contains k a \<longrightarrow> apk_key k a \<in> apk_key k ` set keep"
  shows "add_prune_ops k des keep lv = []"
  using assms by (auto simp: add_prune_ops_def filter_empty_conv image_subset_iff)

lemma compute_acl_ops_quiet:
  assumes "full_key ` set (d_acls d) = full_key ` set (l_acls l) \<or> d_acls d = [] \<and> l_acls l = []"
    and "\<not> d_pruneAggregateSet d"
  shows "compute_acl_ops d l = []"
proof -
  have "full_key ` set (d_acls d) = full_key ` set (l_acls l)" using assms(1) by auto
  then have "add_prune_ops (acl_apk (d_scope d)) (d_acls d) (d_acls d) (l_acls l) = []"
    by (intro add_prune_quiet) (simp_all add: acl_apk_def)
  then show ?thesis using assms(2) by (simp add: compute_acl_ops_def prune_inputs_def)
qed

definition quota_in_sync :: "desired_quota \<Rightarrow> quota_state \<Rightarrow> bool" where
  "quota_in_sync dq lq \<longleftrightarrow>
     live_quota_key lq = entity_key (dq_entity dq) \<and> map_of (dq_limits dq) = map_of (qst_limits lq)"

lemma compute_quota_ops_quiet:
  assumes "\<forall>dq \<in> set (d_quotas d). \<exists>lq \<in> set (l_quotas l). quota_in_sync dq lq"
    and "distinct (map live_quota_key (l_quotas l))"
  shows "compute_quota_ops d l = []"
proof -
  have "quota_ops_for dq (index_by live_quota_key (l_quotas l) Map.empty (entity_key (dq_entity dq))) = []"
    if dq: "dq \<in> set (d_quotas d)" for dq
  proof -
    obtain lq where lq: "lq \<in> set (l_quotas l)" "quota_in_sync dq lq" using assms(1) dq by blast
    then have key: "live_quota_key lq = entity_key (dq_entity dq)" and
      lim: "map_of (dq_limits dq) = map_of (qst_limits lq)" by (simp_all add: quota_in_sync_def)
    have keys: "mkeys (dq_limits dq) = mkeys (qst_limits lq)" by (rule mkeys_dom_cong) (simp only: lim)
    have none: "filter (\<lambda>k. mget (qst_limits lq) k = None) (mkeys (qst_limits lq)) = []"
      unfolding filter_empty_conv set_mkeys by blast
    show ?thesis
      using index_by_distinct [OF assms(2) lq(1), of Map.empty]
      by (simp add: key quota_ops_for_def lim keys none)
  qed
  then show ?thesis by (simp add: compute_quota_ops_def Let_def)
qed

definition user_in_sync :: "desired_user \<Rightarrow> scram_credential \<Rightarrow> bool" where
  "user_in_sync du c \<longleftrightarrow>
     scr_user c = cr_username (du_credential du) \<and> scr_mechanism c = cr_mechanism (du_credential du) \<and>
     cr_iterations (du_credential du) \<in> {0, scr_iterations c}"

lemma live_mechs_lookup:
  "distinct (map (\<lambda>c. (scr_user c, scr_mechanism c)) cs) \<Longrightarrow> c \<in> set cs \<Longrightarrow>
   mget (live_mechs cs (scr_user c) m) (scr_mechanism c) = Some (scr_iterations c)"
proof (induction cs arbitrary: m)
  case (Cons x cs)
  have keep: "mget (live_mechs cs u m) mech = mget m mech"
    if "\<forall>y \<in> set cs. scr_user y = u \<longrightarrow> scr_mechanism y \<noteq> mech" for u mech m
    using that by (induction cs arbitrary: m) (auto simp: update_conv)
  show ?case
  proof (cases "c \<in> set cs")
    case True
    then show ?thesis using Cons by simp
  next
    case False
    then have "c = x" using Cons.prems by simp
    moreover have "(scr_user x, scr_mechanism x) \<notin> (\<lambda>c. (scr_user c, scr_mechanism c)) ` set cs"
      using Cons.prems(1) by simp
    then have "\<forall>y \<in> set cs. scr_user y = scr_user x \<longrightarrow> scr_mechanism y \<noteq> scr_mechanism x"
      unfolding image_iff by fastforce
    ultimately show ?thesis by (simp add: keep update_conv)
  qed
qed simp

lemma compute_user_ops_quiet:
  assumes "\<forall>du \<in> set (d_users d). \<exists>c \<in> set (l_scramCredentials l). user_in_sync du c"
    and "distinct (map (\<lambda>c. (scr_user c, scr_mechanism c)) (l_scramCredentials l))" "\<not> d_rotatePasswords d"
  shows "compute_user_ops d l = []"
proof -
  have "user_ops_for False (live_mechs (l_scramCredentials l) (cr_username (du_credential du)) []) du = []"
    if du: "du \<in> set (d_users d)" for du
  proof -
    obtain c where c: "c \<in> set (l_scramCredentials l)" "user_in_sync du c" using assms(1) du by blast
    from live_mechs_lookup [OF assms(2) c(1), of "[]"] c(2) show ?thesis
      by (auto simp: user_ops_for_def user_in_sync_def Let_def)
  qed
  then show ?thesis using assms(3) by (simp add: compute_user_ops_def)
qed

subsection \<open>Imported quotas\<close>

text \<open>A quota the manifest can express: one component per type, no empty name, known limits.\<close>

definition quota_names :: "quota_state \<Rightarrow> string \<Rightarrow> string option option" where
  "quota_names qs = map_of (map (\<lambda>c. (qc_type c, qc_name c)) (qst_entity qs))"

definition limit_keys :: "string list" where
  "limit_keys = [''producer_byte_rate'', ''consumer_byte_rate'', ''request_percentage'',
     ''controller_mutation_rate'', ''connection_creation_rate'']"

definition plain_quota :: "quota_state \<Rightarrow> bool" where
  "plain_quota qs \<longleftrightarrow>
     distinct (map qc_type (qst_entity qs)) \<and> qc_type ` set (qst_entity qs) \<subseteq> {''user'', ''client-id'', ''ip''} \<and>
     (\<forall>c \<in> set (qst_entity qs). qc_name c \<noteq> Some []) \<and> fst ` set (qst_limits qs) \<subseteq> set limit_keys"

definition user_text :: "string \<Rightarrow> string" where
  "user_text n = ''User:'' @ n"

lemma entity_component_fields:
  "qe_user (fst (entity_component st c)) =
     (if qc_type c = ''user'' then case_option (qe_user (fst st)) user_text (qc_name c) else qe_user (fst st))"
  "qe_userDefault (fst (entity_component st c)) =
     (qc_type c = ''user'' \<and> qc_name c = None \<or> qe_userDefault (fst st))"
  "qe_clientId (fst (entity_component st c)) =
     (if qc_type c = ''client-id'' then case_option (qe_clientId (fst st)) id (qc_name c) else qe_clientId (fst st))"
  "qe_clientIdDefault (fst (entity_component st c)) =
     (qc_type c = ''client-id'' \<and> qc_name c = None \<or> qe_clientIdDefault (fst st))"
  "qe_ip (fst (entity_component st c)) =
     (if qc_type c = ''ip'' then case_option (qe_ip (fst st)) id (qc_name c) else qe_ip (fst st))"
  "qe_ipDefault (fst (entity_component st c)) =
     (qc_type c = ''ip'' \<and> qc_name c = None \<or> qe_ipDefault (fst st))"
  by (cases st; cases "qc_name c"; simp add: entity_component_def user_text_def Let_def)+

text \<open>The loop over components, seen through one field: the named component sets it, nothing else does.\<close>

lemma fold_named:
  assumes "\<And>st c. F (fst (entity_component st c)) = (if qc_type c = t then case_option (F (fst st)) g (qc_name c) else F (fst st))"
    and "distinct (map qc_type cs)"
  shows "F (fst (foldl entity_component st cs)) =
    (case map_of (map (\<lambda>c. (qc_type c, qc_name c)) cs) t of Some (Some n) \<Rightarrow> g n | _ \<Rightarrow> F (fst st))"
  using assms(2)
proof (induction cs arbitrary: st)
  case (Cons c cs)
  have "map_of (map (\<lambda>c. (qc_type c, qc_name c)) cs) (qc_type c) = None"
    using Cons.prems by (auto simp: map_of_eq_None_iff image_image)
  then show ?case using Cons assms(1) [of st c] by (cases "qc_type c = t"; cases "qc_name c") (simp_all split: option.split)
qed simp

lemma fold_default:
  assumes "\<And>st c. F (fst (entity_component st c)) = (qc_type c = t \<and> qc_name c = None \<or> F (fst st))"
    and "distinct (map qc_type cs)"
  shows "F (fst (foldl entity_component st cs)) =
    (map_of (map (\<lambda>c. (qc_type c, qc_name c)) cs) t = Some None \<or> F (fst st))"
  using assms(2)
proof (induction cs arbitrary: st)
  case (Cons c cs)
  have "map_of (map (\<lambda>c. (qc_type c, qc_name c)) cs) (qc_type c) = None"
    using Cons.prems by (auto simp: map_of_eq_None_iff image_image)
  then show ?case using Cons assms(1) [of st c] by (cases "qc_type c = t"; cases "qc_name c") simp_all
qed simp

lemma entity_component_fold:
  assumes "distinct (map qc_type (qst_entity qs))"
  shows
    "qe_user (fst (quota_state_to_entity qs)) = (case quota_names qs ''user'' of Some (Some n) \<Rightarrow> user_text n | _ \<Rightarrow> [])"
    "qe_userDefault (fst (quota_state_to_entity qs)) = (quota_names qs ''user'' = Some None)"
    "qe_clientId (fst (quota_state_to_entity qs)) = (case quota_names qs ''client-id'' of Some (Some n) \<Rightarrow> n | _ \<Rightarrow> [])"
    "qe_clientIdDefault (fst (quota_state_to_entity qs)) = (quota_names qs ''client-id'' = Some None)"
    "qe_ip (fst (quota_state_to_entity qs)) = (case quota_names qs ''ip'' of Some (Some n) \<Rightarrow> n | _ \<Rightarrow> [])"
    "qe_ipDefault (fst (quota_state_to_entity qs)) = (quota_names qs ''ip'' = Some None)"
proof -
  have en: "fst (quota_state_to_entity qs) = fst (foldl entity_component (empty_entity, []) (qst_entity qs))"
    by (simp add: quota_state_to_entity_def case_prod_beta)
  note named = fold_named [OF _ assms, of _ _ _ "(empty_entity, [])", folded quota_names_def]
    and default = fold_default [OF _ assms, of _ _ "(empty_entity, [])", folded quota_names_def]
  show
    "qe_user (fst (quota_state_to_entity qs)) = (case quota_names qs ''user'' of Some (Some n) \<Rightarrow> user_text n | _ \<Rightarrow> [])"
    "qe_userDefault (fst (quota_state_to_entity qs)) = (quota_names qs ''user'' = Some None)"
    "qe_clientId (fst (quota_state_to_entity qs)) = (case quota_names qs ''client-id'' of Some (Some n) \<Rightarrow> n | _ \<Rightarrow> [])"
    "qe_clientIdDefault (fst (quota_state_to_entity qs)) = (quota_names qs ''client-id'' = Some None)"
    "qe_ip (fst (quota_state_to_entity qs)) = (case quota_names qs ''ip'' of Some (Some n) \<Rightarrow> n | _ \<Rightarrow> [])"
    "qe_ipDefault (fst (quota_state_to_entity qs)) = (quota_names qs ''ip'' = Some None)"
    unfolding en
    using named [OF entity_component_fields(1)] default [OF entity_component_fields(2)]
      named [OF entity_component_fields(3)] default [OF entity_component_fields(4)]
      named [OF entity_component_fields(5)] default [OF entity_component_fields(6)]
    by (simp_all add: empty_entity_def split: option.split)
qed

lemmas trim_user = trim_prefix_append [of "''User:''", simplified]

lemma component_case:
  "(\<And>n. N = Some (Some n) \<Longrightarrow> named \<noteq> [] \<and> nm = n) \<Longrightarrow> ((\<And>n. N \<noteq> Some (Some n)) \<Longrightarrow> named = []) \<Longrightarrow>
   d = (N = Some None) \<Longrightarrow>
   quota_component t named d nm = (case map_option (\<lambda>x. \<lparr>co_type = t, co_name = x\<rparr>) N of None \<Rightarrow> [] | Some c \<Rightarrow> [c])"
  by (cases N; cases "the N") (auto simp: quota_component_def)

lemma map_filter_three:
  "List.map_filter f [a, b, c] =
     (case f a of None \<Rightarrow> [] | Some x \<Rightarrow> [x]) @ (case f b of None \<Rightarrow> [] | Some x \<Rightarrow> [x]) @
     (case f c of None \<Rightarrow> [] | Some x \<Rightarrow> [x])"
  by (simp add: List.map_filter_simps split: option.split)

lemma sort_key_same_set:
  "set xs = set ys \<Longrightarrow> distinct (map f xs) \<Longrightarrow> distinct (map f ys) \<Longrightarrow> sort_key f xs = sort_key f ys"
  by (rule sort_key_perm_eq) (simp_all add: distinct_map flip: set_eq_iff_mset_eq_distinct)

lemma imported_components:
  assumes "plain_quota qs"
  shows "dq_entity (quota_compile (import_quota c n qs)) =
    List.map_filter (\<lambda>t. map_option (\<lambda>nm. \<lparr>co_type = t, co_name = nm\<rparr>) (quota_names qs t))
      [''user'', ''client-id'', ''ip'']"
proof -
  have "qc_name c \<noteq> Some []" if "c \<in> set (qst_entity qs)" for c using assms that by (simp add: plain_quota_def)
  moreover have "\<exists>c \<in> set (qst_entity qs). qc_name c = nm" if "quota_names qs t = Some nm" for t nm
    using map_of_SomeD [OF that [unfolded quota_names_def]] by auto
  ultimately have ne: "quota_names qs t \<noteq> Some (Some [])" for t by blast
  have d: "distinct (map qc_type (qst_entity qs))" using assms by (simp add: plain_quota_def)
  show ?thesis
    unfolding quota_compile_def import_quota_def Let_def desired_quota.simps kafka_quota.simps kafka_quota_spec.simps
      map_filter_three entity_component_fold [OF d]
    using ne [of "''client-id''"] ne [of "''ip''"]
    by (intro arg_cong2 [of _ _ _ _ append] component_case) (auto simp: user_text_def trim_user split: option.splits)
qed

lemma five_limits:
  "distinct [a, b, c, d, e] \<Longrightarrow>
   map_of (quota_limit a v1 @ quota_limit b v2 @ quota_limit c v3 @ quota_limit d v4 @ quota_limit e v5) k =
     (if k = a then v1 else if k = b then v2 else if k = c then v3 else if k = d then v4 else if k = e then v5 else None)"
  by (cases v1; cases v2; cases v3; cases v4; cases v5) (auto simp: quota_limit_def)

lemma compiled_limit:
  "map_of (dq_limits (quota_compile q)) k =
     (let li = kqs_limits (kq_spec q)
      in if k = ''producer_byte_rate'' then ql_producerByteRate li
         else if k = ''consumer_byte_rate'' then ql_consumerByteRate li
         else if k = ''request_percentage'' then ql_requestPercentage li
         else if k = ''controller_mutation_rate'' then ql_controllerMutationRate li
         else if k = ''connection_creation_rate'' then ql_connectionCreationRate li else None)"
  unfolding quota_compile_def Let_def desired_quota.simps quota_key_defs by (rule five_limits) simp

lemma imported_limits:
  assumes "plain_quota qs"
  shows "map_of (dq_limits (quota_compile (import_quota c n qs))) = map_of (qst_limits qs)"
proof
  fix k
  have "map_of (qst_limits qs) k = None" if "k \<notin> set limit_keys"
    using that assms unfolding map_of_eq_None_iff by (auto simp: plain_quota_def)
  then show "map_of (dq_limits (quota_compile (import_quota c n qs))) k = map_of (qst_limits qs) k"
    unfolding compiled_limit import_quota_def quota_state_limits_def limit_keys_def Let_def
    by (simp only: kafka_quota.simps kafka_quota_spec.simps quota_limits_spec.simps split: if_split) force
qed

lemma imported_entity_key:
  assumes "plain_quota qs"
  shows "entity_key (dq_entity (quota_compile (import_quota c n qs))) = live_quota_key qs"
proof -
  let ?types = "[''user'', ''client-id'', ''ip'']" and ?mk = "\<lambda>t. map_option (\<lambda>nm. \<lparr>co_type = t, co_name = nm\<rparr>) (quota_names qs t)"
  have d: "distinct (map qc_type (qst_entity qs))" using assms by (simp add: plain_quota_def)
  have "quota_names qs t = Some nm \<longleftrightarrow> (\<exists>c \<in> set (qst_entity qs). qc_type c = t \<and> qc_name c = nm)" for t nm
  proof -
    have "distinct (map fst (map (\<lambda>c. (qc_type c, qc_name c)) (qst_entity qs)))" using d by (simp add: comp_def)
    from map_of_eq_Some_iff [OF this] show ?thesis by (auto simp: quota_names_def)
  qed
  then have live: "x \<in> set (live_quota_entity (qst_entity qs)) \<longleftrightarrow> quota_names qs (co_type x) = Some (co_name x)" for x
    by (cases x) (auto simp: live_quota_entity_def image_iff)
  have types: "qc_type ` set (qst_entity qs) \<subseteq> {''user'', ''client-id'', ''ip''}" using assms by (simp add: plain_quota_def)
  have names: "t \<in> set ?types" if "quota_names qs t = Some nm" for t nm
    using map_of_SomeD [OF that [unfolded quota_names_def]] types by auto
  have "x \<in> set (List.map_filter ?mk ?types) \<longleftrightarrow>
      co_type x \<in> set ?types \<and> quota_names qs (co_type x) = Some (co_name x)" for x
    by (cases x) (force simp: List.map_filter_def)
  then have "set (List.map_filter ?mk ?types) = set (live_quota_entity (qst_entity qs))"
    using live names by blast
  moreover have "distinct (map co_type (List.map_filter ?mk ?types))"
    by (simp add: List.map_filter_simps split: option.split)
  moreover have "distinct (map co_type (live_quota_entity (qst_entity qs)))"
    using d by (simp add: live_quota_entity_def comp_def)
  ultimately have "sort_key co_type (List.map_filter ?mk ?types) = sort_key co_type (live_quota_entity (qst_entity qs))"
    by (rule sort_key_same_set)
  then show ?thesis by (simp only: entity_key_def live_quota_key_def imported_components [OF assms])
qed

lemma imported_quota_in_sync: "plain_quota qs \<Longrightarrow> quota_in_sync (quota_compile (import_quota c n qs)) qs"
  by (simp add: quota_in_sync_def imported_entity_key imported_limits)

lemma quotas_loop_members:
  "q \<in> set (fst (quotas_loop quote c taken qss)) \<Longrightarrow> \<exists>qs \<in> set qss. \<exists>n. q = import_quota c n qs"
  by (induction qss arbitrary: taken) (auto simp: Let_def case_prod_beta)

lemma build_quotas_members:
  "q \<in> set (fst (build_quotas quote c qss)) \<Longrightarrow> \<exists>qs \<in> set qss. \<exists>n. q = import_quota c n qs"
  using quotas_loop_members by (fastforce simp: build_quotas_def case_prod_beta)

subsection \<open>Imported users\<close>

lemma foldl_better:
  "foldl better_credential b cs \<in> set (b # cs) \<and>
   (\<forall>c \<in> set (b # cs). mechanism_rank (scr_mechanism c) \<le> mechanism_rank (scr_mechanism (foldl better_credential b cs)))"
proof (induction cs arbitrary: b)
  case (Cons c cs)
  show ?case
    using Cons.IH [of "better_credential b c"] by (auto simp: better_credential_def split: if_splits)
qed simp

lemma best_credential:
  assumes "cs \<noteq> []"
  shows "best_credential cs \<in> set cs"
    "\<forall>c \<in> set cs. mechanism_rank (scr_mechanism c) \<le> mechanism_rank (scr_mechanism (best_credential cs))"
  using foldl_better [of "hd cs" "tl cs"] assms by (simp_all add: best_credential_def)

lemma users_loop_members:
  "u \<in> set (fst (users_loop quote c opt cs taken envs us)) \<Longrightarrow>
   \<exists>uname \<in> set us. \<exists>n e. \<not> skipped_user opt uname \<and> u = import_user c n e uname (best_credential (credentials_of cs uname))"
  by (induction us arbitrary: taken envs) (auto simp: Let_def case_prod_beta split: if_splits)

lemma build_users_members:
  assumes "u \<in> set (fst (build_users quote c opt cs))"
  obtains best n e where "u = import_user c n e (scr_user best) best" "best \<in> set cs" "\<not> skipped_user opt (scr_user best)"
    "\<forall>x \<in> set cs. scr_user x = scr_user best \<longrightarrow> mechanism_rank (scr_mechanism x) \<le> mechanism_rank (scr_mechanism best)"
proof -
  have "u \<in> set (fst (users_loop quote c opt cs [] [] (nub (map scr_user cs))))"
    using assms by (simp add: build_users_def case_prod_beta)
  from users_loop_members [OF this]
  obtain uname n e where u: "uname \<in> scr_user ` set cs" "\<not> skipped_user opt uname"
    "u = import_user c n e uname (best_credential (credentials_of cs uname))"
    unfolding set_nub set_map by blast
  define best where "best = best_credential (credentials_of cs uname)"
  have "credentials_of cs uname \<noteq> []" using u(1) by (auto simp: credentials_of_def filter_empty_conv)
  note b = best_credential [OF this, folded best_def]
  from b(1) have user: "scr_user best = uname" and mem: "best \<in> set cs" by (simp_all add: credentials_of_def)
  have "\<forall>x \<in> set cs. scr_user x = scr_user best \<longrightarrow>
      mechanism_rank (scr_mechanism x) \<le> mechanism_rank (scr_mechanism best)"
    using b(2) by (simp add: credentials_of_def user)
  then show ?thesis using that [of n e best] u(2,3) mem by (simp add: user flip: best_def)
qed

lemma imported_user_in_sync: "user_in_sync (compile_desired_user (import_user c n e (scr_user best) best)) best"
  by (simp add: user_in_sync_def compile_desired_user_def user_compile_def import_user_def)

end
