(* ===== verification/Import_Plan.thy ===== *)
theory Import_Plan
  imports Import_Kinds
begin

section \<open>From an import to a plan\<close>

text \<open>
  The importer composed with the CLI's pipeline and the live reads of a plan: what the manifests of an
  import are made of, what they compile to, and that the diff against the cluster they came from is
  empty.
\<close>

subsection \<open>The parts of a result\<close>

definition built_topics :: "(string \<Rightarrow> string) \<Rightarrow> import_snapshot \<Rightarrow> string \<Rightarrow> kafka_topic list" where
  "built_topics quote snap c =
     sb_topics (verify_schema_subjects quote snap (apply_schemas quote snap (fst (build_topics quote c [] (isn_topics snap)))))"

definition imported_acls :: "string list \<Rightarrow> import_snapshot \<Rightarrow> acl_state list" where
  "imported_acls backends snap =
     (if backend_active backends ''acl'' then filter (\<lambda>a. \<not> mirror_acl snap a) (isn_acls snap) else isn_acls snap)"

lemma fst_filter_mirror_acls: "fst (filter_mirror_acls quote snap) = filter (\<lambda>a. \<not> mirror_acl snap a) (isn_acls snap)"
  by (simp add: filter_mirror_acls_def mirror_acl_def acls_dropped_on_def)

lemma import_build_access:
  obtains ws kept others x y where
    "x = fold_access ord quote c (backend_active bs ''acl'') (backend_active bs ''rbac'') (topic_pos (isn_topics snap))
       (imported_acls bs snap) (isn_roleBindings snap) (built_topics quote snap c) ws"
    "y = checked_access ord quote c cfg (backend_active bs ''acl'') (backend_active bs ''rbac'') (imported_acls bs snap)
       (isn_roleBindings snap) kept others x"
    "ir_topics (import_build ord quote snap c bs cfg opt) = xr_topics y"
    "ir_policies (import_build ord quote snap c bs cfg opt) = xr_policies y"
    "ir_roleBindings (import_build ord quote snap c bs cfg opt) = xr_roleBindings y"
    "ir_warnings (import_build ord quote snap c bs cfg opt) = xr_warnings y"
proof -
  have acls: "fst (if backend_active bs ''acl'' then filter_mirror_acls quote snap else (isn_acls snap, [])) = imported_acls bs snap"
    by (simp add: imported_acls_def fst_filter_mirror_acls)
  show ?thesis
    by (rule that [OF refl refl]) (simp_all add: import_build_def Let_def case_prod_beta acls built_topics_def)
qed

lemma import_build_others:
  "ir_quotas (import_build ord quote snap c bs cfg opt) = fst (build_quotas quote c (isn_quotas snap))"
  "ir_users (import_build ord quote snap c bs cfg opt) = fst (build_users quote c opt (isn_scram snap))"
  "ir_mirrors (import_build ord quote snap c bs cfg opt) =
     fst (build_mirrors quote snap c (fst (snd (build_topics quote c [] (isn_topics snap)))))"
  by (simp_all add: import_build_def Let_def case_prod_beta)

subsection \<open>Topics keep their shape\<close>

text \<open>Folding writes access blocks only, the schema steps \<open>spec.schema\<close> only.\<close>

lemma clear_access_add [simp]:
  "clear_access (add_producer_access x tp) = clear_access tp" "clear_access (add_consumer_access y tp) = clear_access tp"
  "clear_access (add_producer p tp) = clear_access tp" "clear_access (add_consumer p g tp) = clear_access tp"
  "clear_access (clear_access tp) = clear_access tp"
  by (simp_all add: clear_access_def add_producer_access_def add_consumer_access_def add_producer_def add_consumer_def Let_def)

lemma map_add_to: "(\<And>tp. g (f tp) = g tp) \<Longrightarrow> map g (add_to pos f ns tps) = map g tps"
  by (induction ns arbitrary: tps) (simp_all add: add_to_def map_at_topic)

lemma fold_bucket_shape: "map clear_access (fo_topics (fold_bucket quote pos key acls st)) = map clear_access (fo_topics st)"
  by (simp add: fold_bucket_def Let_def map_add_to split: list.split)

lemma classify_and_fold_shape:
  "map clear_access (fo_topics (classify_and_fold quote pos live tps ws)) = map clear_access tps"
proof -
  have "map clear_access (fo_topics (foldl (\<lambda>st k. fold_bucket quote pos k (sel k) st) st ks)) = map clear_access (fo_topics st)"
    for sel st ks
    by (induction ks arbitrary: st) (simp_all add: fold_bucket_shape)
  then show ?thesis by (simp add: classify_and_fold_def Let_def)
qed

lemma fold_principal_shape: "map clear_access (fst (fold_principal pos rbs st p)) = map clear_access (fst st)"
  by (simp add: fold_principal_def Let_def map_add_to map_at_topic split: list.split)

lemma fold_role_bindings_shape: "map clear_access (fst (fold_role_bindings pos rbs tps)) = map clear_access tps"
proof -
  have "map clear_access (fst (foldl (fold_principal pos rbs) st ps)) = map clear_access (fst st)" for st ps
    by (induction ps arbitrary: st) (simp_all add: fold_principal_shape)
  then show ?thesis by (simp add: fold_role_bindings_def case_prod_beta)
qed

lemma fold_access_shape:
  "map clear_access (xr_topics (fold_access ord quote c a r pos acls rbs tps ws)) = map clear_access tps"
  by (simp add: fold_access_def Let_def case_prod_beta fold_role_bindings_shape classify_and_fold_shape)

lemma checked_access_shape:
  "map clear_access (xr_topics (checked_access ord quote c cfg a r acls rbs kept others x)) = map clear_access (xr_topics x)"
  by (simp add: checked_access_def fallback_all_explicit_def Let_def case_prod_beta)

lemma import_topics_shape:
  "map clear_access (ir_topics (import_build ord quote snap c bs cfg opt)) = map clear_access (built_topics quote snap c)"
proof -
  obtain ws kept others x y where
    "x = fold_access ord quote c (backend_active bs ''acl'') (backend_active bs ''rbac'') (topic_pos (isn_topics snap))
       (imported_acls bs snap) (isn_roleBindings snap) (built_topics quote snap c) ws"
    "y = checked_access ord quote c cfg (backend_active bs ''acl'') (backend_active bs ''rbac'') (imported_acls bs snap)
       (isn_roleBindings snap) kept others x"
    "ir_topics (import_build ord quote snap c bs cfg opt) = xr_topics y"
    by (rule import_build_access)
  then show ?thesis by (simp add: checked_access_shape fold_access_shape)
qed

lemma set_schema_None [simp]: "set_schema None (set_schema sc tp) = set_schema None tp"
  by (simp add: set_schema_def)

lemma apply_schema_shape:
  "map (set_schema None) (sb_topics (apply_schema quote pos snap b ts)) = map (set_schema None) (sb_topics b)"
  by (simp add: apply_schema_def apply_value_schema_def Let_def case_prod_beta map_at_topic split: option.split)

lemma verify_schema_shape:
  "map (set_schema None) (sb_topics (verify_schema quote pos snap b ts)) = map (set_schema None) (sb_topics b)"
  by (simp add: verify_schema_def drop_block_def Let_def map_at_topic split: option.split)

lemma built_topics_shape:
  "map (set_schema None) (built_topics quote snap c) = map (set_schema None) (fst (build_topics quote c [] (isn_topics snap)))"
proof -
  have a: "map (set_schema None) (sb_topics (foldl (apply_schema quote pos snap) b tss)) = map (set_schema None) (sb_topics b)"
    and v: "map (set_schema None) (sb_topics (foldl (verify_schema quote pos snap) b tss)) = map (set_schema None) (sb_topics b)"
    for pos b tss
    by (induction tss arbitrary: b) (simp_all add: apply_schema_shape verify_schema_shape)
  show ?thesis by (simp add: built_topics_def verify_schema_subjects_def apply_schemas_def Let_def a v)
qed

lemma build_topics_members:
  "tp \<in> set (fst (build_topics quote c taken snaps)) \<Longrightarrow> \<exists>ts \<in> set snaps. \<exists>n. tp = import_topic c n ts"
  by (induction snaps arbitrary: taken) (auto simp: Let_def case_prod_beta)

text \<open>Every imported topic is one of the snapshot's, up to its access and schema.\<close>

definition bare_topic :: "kafka_topic \<Rightarrow> kafka_topic" where
  "bare_topic tp = clear_access (set_schema None tp)"

lemma imported_topic:
  assumes "tp \<in> set (ir_topics (import_build ord quote snap c bs cfg opt))"
  shows "\<exists>ts \<in> set (isn_topics snap). \<exists>n. bare_topic tp = import_topic c n ts"
proof -
  have swap: "clear_access (set_schema None t) = set_schema None (clear_access t)" for t
    by (simp add: clear_access_def set_schema_def)
  have "clear_access tp \<in> set (map clear_access (ir_topics (import_build ord quote snap c bs cfg opt)))" using assms by simp
  then have "clear_access tp \<in> set (map clear_access (built_topics quote snap c))" by (simp only: import_topics_shape)
  then obtain t where t: "t \<in> set (built_topics quote snap c)" "clear_access tp = clear_access t" by auto
  then have "set_schema None t \<in> set (map (set_schema None) (built_topics quote snap c))" by simp
  then have "set_schema None t \<in> set (map (set_schema None) (fst (build_topics quote c [] (isn_topics snap))))"
    by (simp only: built_topics_shape)
  then obtain t0 where t0: "t0 \<in> set (fst (build_topics quote c [] (isn_topics snap)))" "set_schema None t = set_schema None t0"
    by auto
  obtain ts n where ts: "ts \<in> set (isn_topics snap)" "t0 = import_topic c n ts"
    using build_topics_members [OF t0(1)] by blast
  have "bare_topic tp = clear_access (set_schema None t0)" by (metis bare_topic_def swap t(2) t0(2))
  also have "\<dots> = import_topic c n ts" by (simp add: ts(2) import_topic_def clear_access_def set_schema_def)
  finally show ?thesis using ts(1) by blast
qed

lemma bare_topic_fields:
  assumes "bare_topic tp = import_topic c n ts"
  shows "kts_topicName (kt_spec tp) = tsn_name ts" "kts_partitions (kt_spec tp) = tsn_partitions ts"
    "kts_config (kt_spec tp) = tsn_config ts" "kts_clusterRef (kt_spec tp) = \<lparr>cr_name = c\<rparr>"
    "kts_replicationFactor (kt_spec tp) = kts_replicationFactor (kt_spec (import_topic c n ts))"
    "kts_reconciliation (kt_spec tp) = None" "kts_drift (kt_spec tp) = None" "om_name (kt_meta tp) = n"
proof -
  have "kt_spec (bare_topic tp) = kt_spec (import_topic c n ts)" "kt_meta (bare_topic tp) = kt_meta (import_topic c n ts)"
    by (simp_all add: assms)
  then show "kts_topicName (kt_spec tp) = tsn_name ts" "kts_partitions (kt_spec tp) = tsn_partitions ts"
    "kts_config (kt_spec tp) = tsn_config ts" "kts_clusterRef (kt_spec tp) = \<lparr>cr_name = c\<rparr>"
    "kts_replicationFactor (kt_spec tp) = kts_replicationFactor (kt_spec (import_topic c n ts))"
    "kts_reconciliation (kt_spec tp) = None" "kts_drift (kt_spec tp) = None" "om_name (kt_meta tp) = n"
    by (auto simp: bare_topic_def clear_access_def set_schema_def import_topic_def imported_meta_def kafka_topic_spec.defs
        dest: arg_cong [where f = kts_topicName] arg_cong [where f = kts_partitions] arg_cong [where f = kts_config]
          arg_cong [where f = kts_clusterRef] arg_cong [where f = kts_replicationFactor]
          arg_cong [where f = kts_reconciliation] arg_cong [where f = kts_drift] arg_cong [where f = om_name])
qed

subsection \<open>A snapshot without registry, MDS and mirrors\<close>

definition plain_snapshot :: "import_snapshot \<Rightarrow> bool" where
  "plain_snapshot snap \<longleftrightarrow>
     isn_schemas snap = Map.empty \<and> isn_mirrors snap = [] \<and> isn_deferredMirrors snap = [] \<and>
     isn_staleMirrors snap = [] \<and> isn_schemaAmbiguities snap = [] \<and> isn_unmatchedSubjects snap = [] \<and>
     isn_roleBindings snap = []"

lemma plain_built_topics:
  assumes "isn_schemas snap = Map.empty"
  shows "built_topics quote snap c = fst (build_topics quote c [] (isn_topics snap))"
proof -
  have "foldl (apply_schema quote pos snap) b tss = b" "foldl (verify_schema quote pos snap) b tss = b" for pos b tss
    by (induction tss) (simp_all add: apply_schema_def verify_schema_def assms)
  then show ?thesis by (simp add: built_topics_def verify_schema_subjects_def apply_schemas_def Let_def)
qed

lemma plain_topic_schema:
  assumes "isn_schemas snap = Map.empty" "tp \<in> set (ir_topics (import_build ord quote snap c bs cfg opt))"
  shows "kts_schema (kt_spec tp) = None"
proof -
  have "clear_access tp \<in> set (map clear_access (ir_topics (import_build ord quote snap c bs cfg opt)))" using assms by simp
  then have "clear_access tp \<in> clear_access ` set (fst (build_topics quote c [] (isn_topics snap)))"
    by (simp only: import_topics_shape plain_built_topics [OF assms(1)] set_map)
  then obtain n ts where "clear_access tp = clear_access (import_topic c n ts)" using build_topics_members by fast
  then have "kts_schema (kt_spec (clear_access tp)) = kts_schema (kt_spec (clear_access (import_topic c n ts)))" by simp
  then show ?thesis by (simp add: clear_access_def import_topic_def)
qed

subsection \<open>The imported manifests in the pipeline\<close>

text \<open>
  The written files read back: every manifest, with the path of each topic's file, and the cluster. The
  pipeline then selects the cluster and applies the defaults.
\<close>

definition import_manifests :: "(kafka_topic \<Rightarrow> string) \<Rightarrow> string \<Rightarrow> kafka_cluster \<Rightarrow> import_result \<Rightarrow> manifests" where
  "import_manifests path name cl res =
     \<lparr>mf_topics = map (\<lambda>t. (t, path t)) (ir_topics res), mf_policies = ir_policies res, mf_quotas = ir_quotas res,
      mf_roleBindings = ir_roleBindings res, mf_users = ir_users res, mf_mirrors = ir_mirrors res,
      mf_clusters = [(name, cl)]\<rparr>"

lemma add_acls_one:
  "\<forall>e \<in> set es. fst e = name \<Longrightarrow> es \<noteq> [] \<Longrightarrow> foldl add_acls [(name, as)] es = [(name, as @ concat (map snd es))]"
proof (induction es arbitrary: as)
  case (Cons e es)
  have "add_acls [(name, as)] e = [(name, as @ snd e)]" using Cons.prems(1) by (simp add: add_acls_def)
  then show ?case using Cons.IH [of "as @ snd e"] Cons.prems(1) by (cases es) simp_all
qed simp

lemma acl_groups_one:
  assumes "\<forall>e \<in> set es. fst e = name"
  shows "foldl add_acls [] es = (if es = [] then [] else [(name, concat (map snd es))])"
proof (cases es)
  case (Cons e es')
  have "add_acls [] e = [(name, snd e)]" using assms Cons by (cases e) (simp add: add_acls_def)
  then show ?thesis using add_acls_one [of es' name "snd e"] assms Cons by (cases es') simp_all
qed simp

lemma build_acl_set_Nil [simp]: "build_acl_set [] = ([], [])"
  by (simp add: build_acl_set_eq accepted_acls_def rejected_acls_def desired_spec_def)

lemma desired_acls_one:
  assumes "\<forall>e \<in> set (acl_entries m). fst e = name" "name \<noteq> []"
    and "rejected_acls (concat (map snd (acl_entries m))) = []"
  shows "desired_acls name m = Inr (fst (build_acl_set (concat (map snd (acl_entries m)))))"
proof -
  have "acl_groups m = (if acl_entries m = [] then [] else [(name, concat (map snd (acl_entries m)))])"
    unfolding acl_groups_def by (rule acl_groups_one [OF assms(1)])
  moreover have "snd (build_acl_set (concat (map snd (acl_entries m)))) = []"
    using assms(3) by (simp add: build_acl_set_eq)
  ultimately show ?thesis using assms(2) by (simp add: desired_acls_def Let_def)
qed

lemma stamped_keys [simp]:
  "full_key (a\<lparr>acl_mode := m, acl_sourceKind := k, acl_sourceNamespace := ns, acl_sourceName := n\<rparr>) = full_key a"
  "subject_key (a\<lparr>acl_mode := m, acl_sourceKind := k, acl_sourceNamespace := ns, acl_sourceName := n\<rparr>) = subject_key a"
  by (simp_all add: full_key_def subject_key_def)

text \<open>Stamping changes neither the identity nor the permission of a tuple.\<close>

definition same_grant :: "acl \<Rightarrow> acl \<Rightarrow> bool" where
  "same_grant a b \<longleftrightarrow>
     full_key a = full_key b \<and> subject_key a = subject_key b \<and> acl_permission a = acl_permission b"

lemma stamp_acls_grants:
  "\<forall>b \<in> set (stamp_acls as k ns n m). \<exists>a \<in> set as. same_grant a b"
  "\<forall>a \<in> set as. \<exists>b \<in> set (stamp_acls as k ns n m). same_grant a b"
  by (auto simp: stamp_acls_def same_grant_def)

lemma same_grant_sets:
  assumes "\<forall>b \<in> B. \<exists>a \<in> A. same_grant a b" "\<forall>a \<in> A. \<exists>b \<in> B. same_grant a b"
  shows "full_key ` B = full_key ` A" "conflict_free A \<Longrightarrow> conflict_free B"
proof -
  have "full_key b \<in> full_key ` A" if "b \<in> B" for b
    using bspec [OF assms(1) that] by (auto simp: same_grant_def intro: rev_image_eqI)
  moreover have "full_key a \<in> full_key ` B" if "a \<in> A" for a
    using bspec [OF assms(2) that] by (auto simp: same_grant_def intro: rev_image_eqI)
  ultimately show "full_key ` B = full_key ` A" by blast
  assume "conflict_free A"
  then show "conflict_free B" using assms(1) unfolding conflict_free_def same_grant_def by metis
qed

end
