(* ===== verification/Import_Empty_Plan.thy ===== *)
theory Import_Empty_Plan
  imports Import_Plan
begin

section \<open>The plan of an import is empty\<close>

text \<open>
  The pipeline on the manifests of an import on the ACL backend: what each kind compiles to, and that
  every kind is in sync with the state that was read.
\<close>

subsection \<open>Access on the ACL backend\<close>

lemma built_topics_fresh: "fresh (isn_topics snap) (built_topics quote snap c)"
  by (simp add: built_topics_def schemas_fresh build_topics_fresh)

lemma import_compiles:
  assumes "backend_active bs ''acl''" "\<not> backend_active bs ''rbac''" "\<And>xs. set (ord xs) = set xs"
    and "\<forall>s \<in> set (isn_topics snap). tsn_name s \<noteq> []" "expressible_acls (imported_acls bs snap)"
    and "r = import_build ord quote snap c bs cfg opt"
  shows "set (compiled_acls (ir_topics r) (ir_policies r)) = state_to_acl ` set (imported_acls bs snap)"
    "ir_roleBindings r = []"
proof -
  obtain ws kept others x y where
    x: "x = fold_access ord quote c (backend_active bs ''acl'') (backend_active bs ''rbac'') (topic_pos (isn_topics snap))
       (imported_acls bs snap) (isn_roleBindings snap) (built_topics quote snap c) ws"
    and y: "y = checked_access ord quote c cfg (backend_active bs ''acl'') (backend_active bs ''rbac'') (imported_acls bs snap)
       (isn_roleBindings snap) kept others x"
    and r: "ir_topics (import_build ord quote snap c bs cfg opt) = xr_topics y"
      "ir_policies (import_build ord quote snap c bs cfg opt) = xr_policies y"
      "ir_roleBindings (import_build ord quote snap c bs cfg opt) = xr_roleBindings y"
    by (rule import_build_access)
  have live: "live_explicit (imported_acls bs snap)" "conflict_free (state_to_acl ` set (imported_acls bs snap))"
    using assms(5) by (simp_all add: expressible_acls_def)
  have x': "x = fold_access ord quote c True False (topic_pos (isn_topics snap)) (imported_acls bs snap)
      (isn_roleBindings snap) (built_topics quote snap c) ws"
    using assms(1,2) by (simp add: x)
  note same = fold_access_acls [OF built_topics_fresh assms(4) live(1) assms(3) x']
  have "access_clean quote cfg True False (imported_acls bs snap) (isn_roleBindings snap) x"
    using round_trips_clean_same_set [OF same live(2)] by (simp add: access_clean_def)
  then have "xr_topics y = xr_topics x" "xr_policies y = xr_policies x" "xr_roleBindings y = xr_roleBindings x"
    using assms(1,2) by (simp_all add: y checked_access_def)
  then show "set (compiled_acls (ir_topics r) (ir_policies r)) = state_to_acl ` set (imported_acls bs snap)"
    "ir_roleBindings r = []"
    using same by (simp_all add: assms(6) r) (simp add: x' fold_access_def Let_def case_prod_beta)
qed

lemma policies_loop_members:
  "p \<in> set (fst (policies_loop ord quote c raw owners ps)) \<Longrightarrow> \<exists>n rules. p = import_policy c n rules"
  by (induction ps arbitrary: owners) (auto simp: Let_def case_prod_beta)

lemma build_policies_members:
  "p \<in> set (fst (build_policies ord quote c raw)) \<Longrightarrow> \<exists>n rules. p = import_policy c n rules"
  using policies_loop_members by (fastforce simp: build_policies_def case_prod_beta)

lemma imported_policy:
  assumes "p \<in> set (ir_policies (import_build ord quote snap c bs cfg opt))"
  shows "\<exists>n rules. p = import_policy c n rules"
proof -
  obtain ws kept others x y where
    x: "x = fold_access ord quote c (backend_active bs ''acl'') (backend_active bs ''rbac'') (topic_pos (isn_topics snap))
       (imported_acls bs snap) (isn_roleBindings snap) (built_topics quote snap c) ws"
    and y: "y = checked_access ord quote c cfg (backend_active bs ''acl'') (backend_active bs ''rbac'') (imported_acls bs snap)
       (isn_roleBindings snap) kept others x"
    and r: "ir_policies (import_build ord quote snap c bs cfg opt) = xr_policies y"
    by (rule import_build_access)
  have "\<exists>raw. xr_policies x = fst (build_policies ord quote c raw)"
    by (auto simp: x fold_access_def Let_def case_prod_beta)
  then have "\<exists>raw. xr_policies y = fst (build_policies ord quote c raw) \<or> xr_policies y = []"
    by (auto simp: y checked_access_def fallback_all_explicit_def Let_def case_prod_beta)
  then show ?thesis using assms build_policies_members by (auto simp: r)
qed

subsection \<open>The pipeline's view\<close>

definition import_loaded :: "(kafka_topic \<Rightarrow> string) \<Rightarrow> string \<Rightarrow> kafka_cluster \<Rightarrow> import_result \<Rightarrow> manifests" where
  "import_loaded path name cl res = apply_defaults (filter_cluster name (import_manifests path name cl res))"

text \<open>Every manifest names the cluster it was imported for.\<close>

definition all_of_cluster :: "string \<Rightarrow> import_result \<Rightarrow> bool" where
  "all_of_cluster name res \<longleftrightarrow>
     (\<forall>t \<in> set (ir_topics res). topic_cluster t = name) \<and> (\<forall>p \<in> set (ir_policies res). policy_cluster p = name) \<and>
     (\<forall>q \<in> set (ir_quotas res). quota_cluster q = name) \<and> (\<forall>u \<in> set (ir_users res). user_cluster u = name) \<and>
     ir_roleBindings res = [] \<and> ir_mirrors res = []"

lemma import_loaded_eq:
  assumes "all_of_cluster name res"
  shows "import_loaded path name cl res =
    \<lparr>mf_topics = map (\<lambda>t. (default_topic t (kcs_defaults (kc_spec cl)), path t)) (ir_topics res),
     mf_policies = map default_policy (ir_policies res), mf_quotas = ir_quotas res, mf_roleBindings = [],
     mf_users = map default_user (ir_users res), mf_mirrors = [], mf_clusters = [(name, cl)]\<rparr>"
proof -
  have keep: "filter_cluster name (import_manifests path name cl res) = import_manifests path name cl res"
    using assms by (auto simp: filter_cluster_def import_manifests_def all_of_cluster_def filter_id_conv)
  show ?thesis
    using assms unfolding import_loaded_def keep
    by (auto simp: apply_defaults_def import_manifests_def all_of_cluster_def cluster_of_def default_cluster_def)
qed

lemma assign_with_cluster: "all_of_cluster name res \<Longrightarrow> all_of_cluster name (assign_with f fb res)"
  by (auto simp: all_of_cluster_def assign_with_def Let_def topic_cluster_def policy_cluster_def quota_cluster_def
      user_cluster_def)

lemma default_topic_cluster [simp]: "topic_cluster (default_topic t d) = topic_cluster t"
  by (simp add: topic_cluster_def default_topic_def Let_def)

lemma default_policy_cluster [simp]: "policy_cluster (default_policy p) = policy_cluster p"
  by (simp add: policy_cluster_def default_policy_def Let_def)

lemma default_user_cluster [simp]: "user_cluster (default_user u) = user_cluster u"
  by (simp add: user_cluster_def default_user_def Let_def)

lemma has_backend_active: "has_access_backend (Some cl) b = backend_active (effective_access_backends (Some cl)) b"
  using effective_access_backends_nonempty [of "Some cl"] by (auto simp: has_access_backend_def backend_active_def)

lemma loaded_acls:
  fixes path :: "kafka_topic \<Rightarrow> string"
  assumes "all_of_cluster name res" "has_access_backend (Some cl) ''acl''"
  defines "m \<equiv> import_loaded path name cl res"
  shows "\<forall>e \<in> set (acl_entries m). fst e = name"
    and "full_key ` set (concat (map snd (acl_entries m))) = full_key ` set (compiled_acls (ir_topics res) (ir_policies res))"
    and "conflict_free (set (compiled_acls (ir_topics res) (ir_policies res))) \<Longrightarrow>
      conflict_free (set (concat (map snd (acl_entries m))))"
proof -
  let ?d = "kcs_defaults (kc_spec cl)"
  have cl: "cluster_of m n = (if n = name then Some cl else None)" for n
    by (simp add: m_def import_loaded_eq [OF assms(1)] cluster_of_def)
  have mf: "mf_topics m = map (\<lambda>t. (default_topic t ?d, path t)) (ir_topics res)"
    "mf_policies m = map default_policy (ir_policies res)"
    by (simp_all add: m_def import_loaded_eq [OF assms(1)])
  have topics: "filter (\<lambda>(t, src). has_access_backend (cluster_of m (topic_cluster t)) ''acl'') (mf_topics m) = mf_topics m"
    using assms(1,2) by (auto simp: filter_id_conv cl mf all_of_cluster_def)
  have entries: "acl_entries m =
      map (\<lambda>t. (name, stamp_acls (compile_topic t) ''KafkaTopic'' (om_namespace (kt_meta (default_topic t ?d)))
        (om_name (kt_meta (default_topic t ?d))) (mode_of (kts_reconciliation (kt_spec (default_topic t ?d)))))) (ir_topics res) @
      map (\<lambda>p. (name, stamp_acls (compile_policy p) ''KafkaAccessPolicy'' (om_namespace (ap_meta (default_policy p)))
        (om_name (ap_meta (default_policy p))) (mode_of (aps_reconciliation (ap_spec (default_policy p)))))) (ir_policies res)"
    using assms(1) unfolding acl_entries_def topics
    by (simp add: mf all_of_cluster_def compile_topic_default compile_policy_default)
  show "\<forall>e \<in> set (acl_entries m). fst e = name" by (auto simp: entries)
  let ?A = "set (compiled_acls (ir_topics res) (ir_policies res))" and ?B = "set (concat (map snd (acl_entries m)))"
  have "\<forall>b \<in> ?B. \<exists>a \<in> ?A. same_grant a b"
    using stamp_acls_grants(1) by (fastforce simp: entries compiled_acls_def)
  moreover have "\<forall>a \<in> ?A. \<exists>b \<in> ?B. same_grant a b"
    using stamp_acls_grants(2) by (fastforce simp: entries compiled_acls_def)
  ultimately show "full_key ` ?B = full_key ` ?A" "conflict_free ?A \<Longrightarrow> conflict_free ?B"
    by (rule same_grant_sets)+
qed

subsection \<open>What was read\<close>

text \<open>
  The state of the cluster, as documented: \<open>ListTopics\<close> has one entry per name with the topic's whole
  configuration, so what \<open>DescribeTopicConfigs\<close> calls explicit is part of it; \<open>ListScramCredentials\<close>
  has one entry per user and mechanism, and with names given it lists those users only. The ACLs and
  quotas are ones a manifest can express.
\<close>

definition topics_described ::
    "(string \<Rightarrow> ('w, config_entry list) query) \<Rightarrow> 'w admin_client \<Rightarrow> 'w \<Rightarrow> bool" where
  "topics_described describe k w \<longleftrightarrow>
     (\<forall>listed. ac_listTopics k w = Inr listed \<longrightarrow> distinct (map tst_name listed) \<and>
        (\<forall>t \<in> set listed. tst_name t \<noteq> [] \<and> 0 \<le> tst_replicationFactor t \<and>
          (\<forall>es. describe (tst_name t) w = Inr es \<longrightarrow>
             (\<forall>key v. map_of (explicit_config es) key = Some v \<longrightarrow> mget (tst_config t) key = Some v))))"

definition users_listed :: "'w admin_client \<Rightarrow> 'w \<Rightarrow> bool" where
  "users_listed k w \<longleftrightarrow>
     (\<forall>cs. ac_listScram k [] w = Inr cs \<longrightarrow> distinct (map (\<lambda>c. (scr_user c, scr_mechanism c)) cs) \<and>
        (\<forall>c \<in> set cs. scr_user c \<noteq> [] \<and> scr_mechanism c \<noteq> []) \<and>
        (\<forall>names. names \<noteq> [] \<longrightarrow> ac_listScram k names w = Inr (filter (\<lambda>c. scr_user c \<in> set names) cs)))"

definition expressible_state :: "'w admin_client \<Rightarrow> 'w \<Rightarrow> bool" where
  "expressible_state k w \<longleftrightarrow>
     (\<forall>acls. ac_listACLs k w = Inr acls \<longrightarrow> expressible_acls acls) \<and>
     (\<forall>qs. ac_listQuotas k w = Inr qs \<longrightarrow> (\<forall>q \<in> set qs. plain_quota q) \<and> distinct (map live_quota_key qs))"

lemma read_topics_members:
  "read_topics describe internal listed w = Inr topics \<Longrightarrow> ts \<in> set topics \<Longrightarrow>
   \<exists>t \<in> set listed. \<exists>es. describe (tst_name t) w = Inr es \<and> tsn_name ts = tst_name t \<and>
     tsn_partitions ts = tst_partitions t \<and> tsn_replicationFactor ts = tst_replicationFactor t \<and>
     tsn_config ts = explicit_config es"
proof (induction listed arbitrary: topics)
  case (Cons t listed)
  show ?case
  proof (cases "\<not> internal \<and> is_internal_topic (tst_name t)")
    case True
    then show ?thesis using Cons by auto
  next
    case False
    then obtain es rest where es: "describe (tst_name t) w = Inr es" "read_topics describe internal listed w = Inr rest"
      "topics = \<lparr>tsn_name = tst_name t, tsn_partitions = tst_partitions t,
         tsn_replicationFactor = tst_replicationFactor t, tsn_config = explicit_config es\<rparr> # rest"
      using Cons.prems(1) by (auto simp: and_then_Inr)
    then show ?thesis using Cons.IH [OF es(2)] Cons.prems(2) by auto
  qed
qed simp

lemma read_basic_snapshot:
  assumes "read_import_snapshot quote describe k None None scopes opt w = Inr snap" "so_rest opt = None"
  obtains listed topics acls quotas creds where
    "ac_listTopics k w = Inr listed" "read_topics describe (so_includeInternal opt) listed w = Inr topics"
    "isn_topics snap = sort_key tsn_name topics" "ac_listACLs k w = Inr acls"
    "isn_acls snap = sort_key acl_sort_key acls"
    "isn_quotas snap = sort_key quota_entity_key quotas" "quotas \<noteq> [] \<longrightarrow> ac_listQuotas k w = Inr quotas"
    "isn_scram snap = sort_credentials creds" "creds \<noteq> [] \<longrightarrow> ac_listScram k [] w = Inr creds"
    "plain_snapshot snap"
proof -
  obtain listed topics ms acls quotas creds rbs sm where q: "ac_listTopics k w = Inr listed"
    "read_topics describe (so_includeInternal opt) listed w = Inr topics"
    "import_mirror_split k opt (sort_key tsn_name topics) w = Inr ms" "ac_listACLs k w = Inr acls"
    "read_when_not (so_skipQuotas opt) ''list quotas: '' (ac_listQuotas k) w = Inr quotas"
    "read_when_not (so_skipUsers opt) ''list scram credentials: '' (ac_listScram k []) w = Inr creds"
    "import_bindings None scopes w = Inr rbs" "import_schemas quote None (msp_topics ms) w = Inr sm"
    and snap: "snap = \<lparr>isn_topics = msp_topics ms, isn_acls = sort_key acl_sort_key acls,
            isn_quotas = sort_key quota_entity_key quotas, isn_scram = sort_credentials creds,
            isn_schemas = smt_schemas sm, isn_recordNameSubjects = smt_recordName sm,
            isn_schemaAmbiguities = smt_ambiguities sm, isn_unmatchedSubjects = smt_unmatched sm,
            isn_roleBindings = rbs, isn_mirrors = msp_mirrors ms, isn_mirrorLinks = msp_links ms,
            isn_deferredMirrors = msp_deferred ms, isn_staleMirrors = msp_stale ms\<rparr>"
    using assms(1) unfolding read_import_snapshot_def and_then_Inr wrap_error_Inr by blast
  have "quotas \<noteq> [] \<longrightarrow> ac_listQuotas k w = Inr quotas" "creds \<noteq> [] \<longrightarrow> ac_listScram k [] w = Inr creds"
    using q(5,6) by (auto simp: read_when_not_def split: if_splits)
  moreover have "ms = \<lparr>msp_topics = sort_key tsn_name topics, msp_mirrors = [], msp_links = [], msp_deferred = [], msp_stale = []\<rparr>"
    using q(3) assms(2) by (simp add: import_mirror_split_def)
  moreover have "rbs = []" "smt_schemas sm = Map.empty" "smt_ambiguities sm = []" "smt_unmatched sm = []"
    using q(7,8) by (auto simp: import_bindings_def import_schemas_def)
  ultimately show ?thesis using q(1,2,4) by (intro that) (simp_all add: snap plain_snapshot_def)
qed

subsection \<open>Every kind is in sync\<close>

lemma resolved_default [simp]: "resolved_topic_name (default_topic t d) = resolved_topic_name t"
  by (rule default_topic_resolved)

lemma imported_topic_in_sync:
  assumes "bare_topic tp = import_topic c n ts" "tsn_name ts = tst_name t" "tsn_partitions ts = tst_partitions t"
    and "tsn_replicationFactor ts = tst_replicationFactor t" "tst_name t \<noteq> []" "0 \<le> tst_replicationFactor t"
    and "\<And>key v. map_of (tsn_config ts) key = Some v \<Longrightarrow> mget (tst_config t) key = Some v"
  shows "topic_in_sync (desired_topic_of (default_topic (tp\<lparr>kt_meta := meta\<rparr>) d)) t"
proof -
  note f = bare_topic_fields [OF assms(1)]
  have key: "placement_constraints_key = import_placement_key"
    by (simp add: placement_constraints_key_def import_placement_key_def)
  have rf: "kts_replicationFactor (kt_spec tp) =
      (if tst_replicationFactor t > 0 \<and> mget (tsn_config ts) import_placement_key = None then Some (tst_replicationFactor t) else None)"
    by (simp add: f(5) import_topic_def assms(4))
  have sp: "dt_name (desired_topic_of (default_topic (tp\<lparr>kt_meta := meta\<rparr>) d)) = tst_name t"
    "dt_partitions (desired_topic_of (default_topic (tp\<lparr>kt_meta := meta\<rparr>) d)) = tst_partitions t"
    "dt_config (desired_topic_of (default_topic (tp\<lparr>kt_meta := meta\<rparr>) d)) = tsn_config ts"
    using f(1,2,3) assms(2,3,5) by (simp_all add: desired_topic_of_def Let_def resolved_topic_name_def default_topic_def)
  have "dt_replicationFactor (desired_topic_of (default_topic (tp\<lparr>kt_meta := meta\<rparr>) d)) \<in> {0, tst_replicationFactor t}"
    if pos: "0 < tst_replicationFactor t"
  proof (cases "mget (tsn_config ts) import_placement_key")
    case None
    then have "kts_replicationFactor (kt_spec tp) = Some (tst_replicationFactor t)" using pos by (simp add: rf)
    then show ?thesis by (simp add: desired_topic_of_def Let_def default_topic_def)
  next
    case (Some v)
    then have "kts_replicationFactor (kt_spec tp) = None" by (simp add: rf)
    then show ?thesis using Some f(3) by (simp add: desired_topic_of_def Let_def default_topic_def key)
  qed
  then have "tst_replicationFactor t = 0 \<or>
      dt_replicationFactor (desired_topic_of (default_topic (tp\<lparr>kt_meta := meta\<rparr>) d)) \<in> {0, tst_replicationFactor t}"
    using assms(6) by linarith
  then show ?thesis using sp assms(7) by (simp add: topic_in_sync_def)
qed

lemma plain_mirrors: "plain_snapshot snap \<Longrightarrow> ir_mirrors (import_build ord quote snap c bs cfg opt) = []"
  by (simp add: import_build_others build_mirrors_def case_prod_beta plain_snapshot_def)

lemma plain_imported_acls: "plain_snapshot snap \<Longrightarrow> imported_acls bs snap = isn_acls snap"
  by (simp add: imported_acls_def mirror_acl_def acls_dropped_on_def plain_snapshot_def)

lemma import_all_of_cluster:
  assumes "ir_roleBindings (import_build ord quote snap c bs cfg opt) = []" "plain_snapshot snap"
  shows "all_of_cluster c (import_build ord quote snap c bs cfg opt)"
  unfolding all_of_cluster_def
proof (intro conjI ballI)
  fix t assume "t \<in> set (ir_topics (import_build ord quote snap c bs cfg opt))"
  from imported_topic [OF this] show "topic_cluster t = c" by (auto simp: topic_cluster_def bare_topic_fields(4))
next
  fix p assume "p \<in> set (ir_policies (import_build ord quote snap c bs cfg opt))"
  from imported_policy [OF this] show "policy_cluster p = c" by (auto simp: policy_cluster_def import_policy_def)
next
  fix q assume "q \<in> set (ir_quotas (import_build ord quote snap c bs cfg opt))"
  then show "quota_cluster q = c"
    using build_quotas_members by (fastforce simp: import_build_others quota_cluster_def import_quota_def)
next
  fix u assume "u \<in> set (ir_users (import_build ord quote snap c bs cfg opt))"
  then have "u \<in> set (fst (build_users quote c opt (isn_scram snap)))" by (simp add: import_build_others)
  then show "user_cluster u = c" by (rule build_users_members) (simp add: user_cluster_def import_user_def)
qed (use assms plain_mirrors in simp_all)

end
