(* ===== verification/Import_Props.thy ===== *)
theory Import_Props
  imports Import_Empty_Plan Kafka_Mock
begin

section \<open>Properties of the importer\<close>

subsection \<open>The plan of an import\<close>

lemma import_compile_plan:
  fixes path :: "kafka_topic \<Rightarrow> string"
  assumes one: "all_of_cluster name res" and ne: "name \<noteq> []" and acl: "has_access_backend (Some cl) ''acl''"
    and rbac: "\<not> has_access_backend (Some cl) ''rbac''"
    and cf: "conflict_free (set (compiled_acls (ir_topics res) (ir_policies res)))"
    and sch: "\<forall>t \<in> set (ir_topics res). kts_schema (kt_spec t) = None"
  obtains br where "compile_plan quote env name (import_loaded path name cl res) = Inr br"
    "pl_topics (br_plan br) =
       map (\<lambda>t. desired_topic_of (default_topic t (kcs_defaults (kc_spec cl)))) (ir_topics res)"
    "full_key ` set (pl_acls (br_plan br)) = full_key ` set (compiled_acls (ir_topics res) (ir_policies res))"
    "pl_quotas (br_plan br) = map quota_compile (ir_quotas res)"
    "pl_users (br_plan br) = map (compile_desired_user \<circ> default_user) (ir_users res)"
    "pl_schemas (br_plan br) = []" "pl_roleBindings (br_plan br) = []" "pl_mirrors (br_plan br) = []"
proof -
  let ?m = "import_loaded path name cl res"
  note m = import_loaded_eq [OF one, of path cl]
  note acls = loaded_acls [OF one acl, of path]
  define as where "as = concat (map snd (acl_entries ?m))"
  have "conflict_free (set as)" using acls(3) [OF cf] by (simp add: as_def)
  then have rej: "rejected_acls as = []" by (rule rejected_none)
  note keys = build_acl_set_keys [OF rej]
  have desired: "desired_acls name ?m = Inr (fst (build_acl_set as))"
    using desired_acls_one [OF acls(1) ne] rej by (simp add: as_def)
  have cluster: "cluster_of ?m name = Some cl" by (simp add: m cluster_of_def)
  have "topic_schemas env e = Inr []" if "e \<in> set (mf_topics ?m)" for e
    using that sch by (auto simp: m topic_schemas_def default_topic_def Let_def)
  then have schemas: "desired_schemas env ?m = Inr []"
    by (auto simp: desired_schemas_def Let_def comp_def)
  have tb: "compile_topic_bindings quote ?m (fst e) = Inr ([], [])" if "e \<in> set (mf_topics ?m)" for e
  proof -
    have "topic_cluster (fst e) = name" using that one by (auto simp: m all_of_cluster_def)
    then show ?thesis using rbac cluster by (simp add: compile_topic_bindings_def rbac_topic_def)
  qed
  have mb: "mf_roleBindings ?m = []" by (simp add: m)
  have bindings: "desired_bindings quote name ?m = Inr ([], [])"
  proof -
    have ts: "map (compile_topic_bindings quote ?m \<circ> fst) (mf_topics ?m) = map (\<lambda>_. Inr ([], [])) (mf_topics ?m)"
      using tb by simp
    have none: "build_binding_set [] = ([], [])"
      using build_binding_set_distinct [of "[]"] by (simp add: prod_eq_iff)
    have quiet: "concat (map left_errors (map (\<lambda>_. Inr x) xs)) = []" "rights (map (\<lambda>_. Inr x) xs) = map (\<lambda>_. x) xs"
      for x and xs :: "'b list"
      by (induction xs) (simp_all add: left_errors_def rights_def)
    have con: "concat (map fst (map (\<lambda>_. ([], [])) xs)) = []" "concat (map snd (map (\<lambda>_. ([], [])) xs)) = []"
      for xs :: "'b list" by (induction xs) simp_all
    have nil: "rights [] = []" by (simp add: rights_def)
    show ?thesis
      unfolding desired_bindings_def ts mb Let_def
      by (cases "clusters_loaded ?m") (simp_all add: quiet con none nil del: map_map)
  qed
  define br where "br = \<lparr>br_plan =
      \<lparr>pl_selectedCluster = name, pl_mirrors = map desired_mirror_of (mf_mirrors ?m),
       pl_topics = map (desired_topic_of \<circ> fst) (mf_topics ?m), pl_schemas = [], pl_acls = fst (build_acl_set as),
       pl_quotas = desired_quotas name ?m, pl_roleBindings = [], pl_users = desired_users name ?m,
       pl_scope = build_acl_scope (fst (build_acl_set as)), pl_roleBindingScope = build_rb_scope []\<rparr>,
     br_manifests = ?m, br_rbacWarnings = sorted_warnings []\<rparr>"
  have "compile_plan quote env name ?m = Inr br"
    by (simp add: compile_plan_def desired schemas bindings br_def)
  moreover have "full_key ` set (pl_acls (br_plan br)) = full_key ` set (compiled_acls (ir_topics res) (ir_policies res))"
    using keys acls(2) by (simp add: br_def as_def)
  ultimately show ?thesis
    using ne by (intro that [of br]) (simp_all add: br_def m desired_quotas_def desired_users_def single_cluster_def comp_def)
qed

lemma imported_topics_in_sync:
  assumes "ac_listTopics k w = Inr listed" "read_topics describe internal listed w = Inr topics"
    and "isn_topics snap = sort_key tsn_name topics" "topics_described describe k w"
    and "t \<in> set (ir_topics (assign_with f fb (import_build ord quote snap c bs cfg opt)))"
  shows "\<exists>lt \<in> set listed. topic_in_sync (desired_topic_of (default_topic t d)) lt"
proof -
  obtain tp meta where tp: "tp \<in> set (ir_topics (import_build ord quote snap c bs cfg opt))" "t = tp\<lparr>kt_meta := meta\<rparr>"
    using assms(5) by (auto simp: assign_with_def Let_def)
  obtain ts n where ts: "ts \<in> set topics" "bare_topic tp = import_topic c n ts"
    using imported_topic [OF tp(1)] by (auto simp: assms(3))
  obtain lt es where lt: "lt \<in> set listed" "describe (tst_name lt) w = Inr es" "tsn_name ts = tst_name lt"
    "tsn_partitions ts = tst_partitions lt" "tsn_replicationFactor ts = tst_replicationFactor lt"
    "tsn_config ts = explicit_config es"
    using read_topics_members [OF assms(2) ts(1)] by blast
  have ok: "tst_name lt \<noteq> []" "0 \<le> tst_replicationFactor lt"
    "\<forall>key v. map_of (explicit_config es) key = Some v \<longrightarrow> mget (tst_config lt) key = Some v"
    using assms(1,4) lt(1,2) unfolding topics_described_def by blast+
  have "topic_in_sync (desired_topic_of (default_topic (tp\<lparr>kt_meta := meta\<rparr>) d)) lt"
    by (rule imported_topic_in_sync [OF ts(2) lt(3-5) ok(1,2)]) (use ok(3) lt(6) in simp)
  then show ?thesis using lt(1) tp(2) by blast
qed

lemma imported_quotas_in_sync:
  assumes "isn_quotas snap = sort_key quota_entity_key quotas" "\<forall>q \<in> set quotas. plain_quota q"
    and "q \<in> set (ir_quotas (assign_with f fb (import_build ord quote snap c bs cfg opt)))"
  shows "\<exists>lq \<in> set quotas. quota_in_sync (quota_compile q) lq"
proof -
  obtain q0 meta where q: "q0 \<in> set (fst (build_quotas quote c (isn_quotas snap)))" "q = q0\<lparr>kq_meta := meta\<rparr>"
    using assms(3) by (auto simp: assign_with_def Let_def import_build_others)
  from build_quotas_members [OF q(1)] obtain qs n where "qs \<in> set quotas" "q0 = import_quota c n qs"
    by (auto simp: assms(1))
  moreover have "quota_compile (x\<lparr>kq_meta := meta\<rparr>) = quota_compile x" for x by (simp add: quota_compile_def)
  ultimately show ?thesis using q(2) assms(2) imported_quota_in_sync by metis
qed

lemma imported_users_in_sync:
  assumes "isn_scram snap = sort_credentials creds" "\<forall>c \<in> set creds. scr_user c \<noteq> [] \<and> scr_mechanism c \<noteq> []"
    and "u \<in> set (ir_users (assign_with f fb (import_build ord quote snap c bs cfg opt)))"
  shows "\<exists>lc \<in> set creds. user_in_sync (compile_desired_user (default_user u)) lc"
proof -
  obtain u0 meta where u: "u0 \<in> set (fst (build_users quote c opt (isn_scram snap)))" "u = u0\<lparr>ku_meta := meta\<rparr>"
    using assms(3) by (auto simp: assign_with_def Let_def import_build_others)
  obtain best n e where b: "u0 = import_user c n e (scr_user best) best" "best \<in> set creds"
    by (rule build_users_members [OF u(1)]) (auto simp: assms(1) sort_credentials_def)
  have "scr_user best \<noteq> []" "scr_mechanism best \<noteq> []" using assms(2) b(2) by auto
  then have "user_in_sync (compile_desired_user (default_user u)) best"
    by (simp add: u(2) b(1) user_in_sync_def compile_desired_user_def user_compile_def default_user_def import_user_def Let_def)
  then show ?thesis using b(2) by blast
qed

lemma compute_all_quiet:
  assumes "compute_topic_ops d l = []" "compute_acl_ops d l = []" "compute_quota_ops d l = []" "compute_user_ops d l = []"
    and "d_schemas d = []" "d_mirrors d = []" "d_roleBindings d = []" "role_binding_prune_keep d = []"
    and "l_roleBindings l = []" "l_mirrors l = None"
  shows "compute d l = []"
proof -
  have "compute_role_binding_ops d l = []"
    by (simp add: compute_role_binding_ops_def assms(7-9) add_prune_ops_def)
  moreover have "compute_schema_ops d l = []" by (simp add: compute_schema_ops_def assms(5))
  ultimately show ?thesis
    by (simp add: compute_def unsorted_ops_def guarded_topics_def compute_mirror_ops_def assms)
qed

lemma import_live_quiet:
  assumes rest: "sv_rest sv = Inr None" and none: "pl_schemas pl = []" "pl_roleBindings pl = []" "pl_mirrors pl = []"
    and topics: "ac_listTopics (sv_kafka sv) w = Inr listed" "distinct (map tst_name listed)"
      "\<forall>dt \<in> set (pl_topics pl). \<exists>lt \<in> set listed. topic_in_sync dt lt"
    and acls: "ac_listACLs (sv_kafka sv) w = Inr acls" "full_key ` set (pl_acls pl) = full_key ` state_to_acl ` set acls"
    and quotas: "pl_quotas pl \<noteq> [] \<longrightarrow> ac_listQuotas (sv_kafka sv) w = Inr quotas \<and> distinct (map live_quota_key quotas)"
      "\<forall>dq \<in> set (pl_quotas pl). \<exists>lq \<in> set quotas. quota_in_sync dq lq"
    and users: "pl_users pl \<noteq> [] \<longrightarrow> ac_listScram (sv_kafka sv) (map (cr_username \<circ> du_credential) (pl_users pl)) w = Inr creds \<and>
        distinct (map (\<lambda>c. (scr_user c, scr_mechanism c)) creds)"
      "\<forall>du \<in> set (pl_users pl). \<exists>c \<in> set creds. user_in_sync du c"
  shows "compute_ops sv pl False w = Inr []"
proof -
  define l where "l = \<lparr>l_topics = (if pl_topics pl = [] then [] else listed),
      l_acls = live_acls (if pl_acls pl = [] then [] else acls), l_schemas = [],
      l_quotas = (if pl_quotas pl = [] then [] else quotas), l_roleBindings = [],
      l_scramCredentials = (if pl_users pl = [] then [] else creds), l_supersededSchemas = Map.empty,
      l_globalCompatibility = [], l_globalCompatibilityErr = [], l_mirrors = None\<rparr>"
  let ?d = "plan_desired pl False"
  have "ac_listScram (sv_kafka sv) (map (\<lambda>du. cr_username (du_credential du)) (pl_users pl)) w = Inr creds" if "pl_users pl \<noteq> []"
    using users(1) that by (simp add: comp_def)
  then have read: "read_live sv pl w = Inr l"
    using topics(1) acls(1) quotas(1) rest
    by (simp add: read_live_def read_when_def read_role_bindings_def none read_users_def read_schemas_def read_mirrors_def l_def)
  have keys: "full_key (live_acl s) = full_key (state_to_acl s)" for s by (simp add: live_acl_def state_to_acl_def)
  have "compute_topic_ops ?d l = []"
    by (rule compute_topic_ops_quiet) (use topics in \<open>auto simp: plan_desired_def l_def\<close>)
  moreover have "compute_acl_ops ?d l = []"
    by (rule compute_acl_ops_quiet)
      (use acls(2) in \<open>auto simp: plan_desired_def l_def live_acls_def image_image keys\<close>)
  moreover have "compute_quota_ops ?d l = []"
    by (rule compute_quota_ops_quiet) (use quotas in \<open>auto simp: plan_desired_def l_def\<close>)
  moreover have "compute_user_ops ?d l = []"
    by (rule compute_user_ops_quiet) (use users in \<open>auto simp: plan_desired_def l_def\<close>)
  ultimately have "compute ?d l = []"
    by (rule compute_all_quiet) (simp_all add: plan_desired_def l_def none role_binding_prune_keep_def)
  then show ?thesis by (simp add: compute_ops_def read)
qed

lemma read_topics_named:
  assumes "ac_listTopics k w = Inr listed" "read_topics describe internal listed w = Inr topics" "topics_described describe k w"
  shows "\<forall>s \<in> set topics. tsn_name s \<noteq> []"
proof
  fix s assume "s \<in> set topics"
  from read_topics_members [OF assms(2) this] assms(1,3) show "tsn_name s \<noteq> []"
    unfolding topics_described_def by metis
qed

lemma import_on_acl_backend:
  assumes ord: "\<And>xs. set (ord xs) = set xs" and active: "backend_active bs ''acl''" "\<not> backend_active bs ''rbac''"
    and plain: "plain_snapshot snap" and acls: "isn_acls snap = sort_key acl_sort_key acls" "expressible_acls acls"
    and named: "\<forall>s \<in> set (isn_topics snap). tsn_name s \<noteq> []"
    and res: "res = assign_with f fb (import_build ord quote snap c bs cfg opt)"
  shows "all_of_cluster c res" "set (compiled_acls (ir_topics res) (ir_policies res)) = state_to_acl ` set acls"
    "conflict_free (set (compiled_acls (ir_topics res) (ir_policies res)))"
    "\<forall>t \<in> set (ir_topics res). kts_schema (kt_spec t) = None"
proof -
  have same: "imported_acls bs snap = sort_key acl_sort_key acls" by (simp add: plain_imported_acls [OF plain] acls(1))
  have "expressible_acls (imported_acls bs snap)" using acls(2) by (simp add: same expressible_acls_def live_explicit_def)
  note compiled = import_compiles [OF active ord named this refl, of quote c cfg opt]
  show "all_of_cluster c res" unfolding res by (rule assign_with_cluster [OF import_all_of_cluster [OF compiled(2) plain]])
  show set: "set (compiled_acls (ir_topics res) (ir_policies res)) = state_to_acl ` set acls"
    by (simp add: res assign_with_compiled compiled(1) same)
  show "conflict_free (set (compiled_acls (ir_topics res) (ir_policies res)))"
    using acls(2) by (simp add: set expressible_acls_def)
  show "\<forall>t \<in> set (ir_topics res). kts_schema (kt_spec t) = None"
    using plain_topic_schema [of snap _ ord quote c bs cfg opt] plain
    by (auto simp: res assign_with_def Let_def plain_snapshot_def)
qed

text \<open>The credentials of the planned users, read by name.\<close>

lemma planned_users_listed:
  assumes "users_listed k w" "creds \<noteq> [] \<longrightarrow> ac_listScram k [] w = Inr creds"
    and "\<forall>du \<in> set us. \<exists>c \<in> set creds. user_in_sync du c" "names = map (cr_username \<circ> du_credential) us"
    and "cs = filter (\<lambda>c. scr_user c \<in> set names) creds"
  shows "us \<noteq> [] \<longrightarrow> ac_listScram k names w = Inr cs \<and> distinct (map (\<lambda>c. (scr_user c, scr_mechanism c)) cs)"
    "\<forall>du \<in> set us. \<exists>c \<in> set cs. user_in_sync du c"
proof -
  have "scr_user c \<in> set names" if "du \<in> set us" "user_in_sync du c" for du c
    using that by (force simp: assms(4) user_in_sync_def)
  then show "\<forall>du \<in> set us. \<exists>c \<in> set cs. user_in_sync du c" using assms(3) by (fastforce simp: assms(5))
  show "us \<noteq> [] \<longrightarrow> ac_listScram k names w = Inr cs \<and> distinct (map (\<lambda>c. (scr_user c, scr_mechanism c)) cs)"
  proof
    assume "us \<noteq> []"
    then have "names \<noteq> []" "creds \<noteq> []" using assms(3) by (cases us; auto simp: assms(4))+
    then have "ac_listScram k [] w = Inr creds" using assms(2) by simp
    with assms(1) \<open>names \<noteq> []\<close> have "ac_listScram k names w = Inr cs" "distinct (map (\<lambda>c. (scr_user c, scr_mechanism c)) creds)"
      unfolding users_listed_def assms(5) by blast+
    then show "ac_listScram k names w = Inr cs \<and> distinct (map (\<lambda>c. (scr_user c, scr_mechanism c)) cs)"
      by (simp add: assms(5) distinct_map_filter)
  qed
qed

text \<open>
  C3. A freshly imported cluster plans nothing. The state of a cluster on the ACL backend is read, the
  manifests are built from it and given their namespaces by any strategy, and the pipeline compiles them
  for the same cluster: it finds no ACL conflict, schema or binding error, and the diff against the
  unchanged cluster is empty - every topic, ACL, quota and user that was imported is in sync. It holds
  whatever was skipped (internal topics, quotas, users, the connecting principal), for any order of the
  rules of a policy and any MDS configuration. The cluster's answers are consistent, as documented
  (\<open>topics_described\<close>, \<open>users_listed\<close>), and its ACLs and quotas ones a manifest can express
  (\<open>expressible_state\<close>: no subject both allowed and denied, known quota entities and limits); no Schema
  Registry, MDS or Kafka REST is configured.
\<close>

theorem import_plans_nothing:
  fixes path :: "kafka_topic \<Rightarrow> string"
  assumes rest: "sv_rest sv = Inr None" and name: "name \<noteq> []" and ord: "\<And>xs. set (ord xs) = set xs"
    and acl: "has_access_backend (Some cl) ''acl''" and rbac: "\<not> has_access_backend (Some cl) ''rbac''"
    and state: "topics_described describe (sv_kafka sv) w" "users_listed (sv_kafka sv) w" "expressible_state (sv_kafka sv) w"
    and snap: "read_import_snapshot quote describe (sv_kafka sv) None None scopes so w = Inr snap" "so_rest so = None"
    and res: "assign_namespaces rx strategy
      (import_build ord quote snap name (effective_access_backends (Some cl)) cfg opt) = Inr res"
  shows "\<exists>br. compile_plan quote env name (import_loaded path name cl res) = Inr br \<and>
    compute_ops sv (br_plan br) False w = Inr []"
proof -
  let ?k = "sv_kafka sv" and ?bs = "effective_access_backends (Some cl)"
  obtain listed topics acls quotas creds where q: "ac_listTopics ?k w = Inr listed"
      "read_topics describe (so_includeInternal so) listed w = Inr topics"
    and sn: "isn_topics snap = sort_key tsn_name topics" "isn_acls snap = sort_key acl_sort_key acls"
      "isn_quotas snap = sort_key quota_entity_key quotas" "isn_scram snap = sort_credentials creds"
    and acls: "ac_listACLs ?k w = Inr acls" and quotas: "quotas \<noteq> [] \<longrightarrow> ac_listQuotas ?k w = Inr quotas"
    and creds: "creds \<noteq> [] \<longrightarrow> ac_listScram ?k [] w = Inr creds" and plain: "plain_snapshot snap"
    by (rule read_basic_snapshot [OF snap])
  obtain f fb where r: "res = assign_with f fb (import_build ord quote snap name ?bs cfg opt)"
    using res by (auto simp: assign_namespaces_def and_then_Inr)
  have active: "backend_active ?bs ''acl''" "\<not> backend_active ?bs ''rbac''" using acl rbac by (simp_all add: has_backend_active)
  have "expressible_acls acls" "\<forall>s \<in> set (isn_topics snap). tsn_name s \<noteq> []"
    using state(3) acls read_topics_named [OF q state(1)] by (simp_all add: expressible_state_def sn(1))
  note parts = import_on_acl_backend [OF ord active plain sn(2) this r]
  obtain br where br: "compile_plan quote env name (import_loaded path name cl res) = Inr br"
    "pl_topics (br_plan br) = map (\<lambda>t. desired_topic_of (default_topic t (kcs_defaults (kc_spec cl)))) (ir_topics res)"
    "full_key ` set (pl_acls (br_plan br)) = full_key ` set (compiled_acls (ir_topics res) (ir_policies res))"
    "pl_quotas (br_plan br) = map quota_compile (ir_quotas res)"
    "pl_users (br_plan br) = map (compile_desired_user \<circ> default_user) (ir_users res)"
    and none: "pl_schemas (br_plan br) = []" "pl_roleBindings (br_plan br) = []" "pl_mirrors (br_plan br) = []"
    by (rule import_compile_plan [OF parts(1) name acl rbac parts(3,4)])
  have plain_quotas: "\<forall>q \<in> set quotas. plain_quota q" "quotas \<noteq> [] \<longrightarrow> distinct (map live_quota_key quotas)"
    using state(3) quotas by (cases "quotas = []"; simp add: expressible_state_def)+
  have named: "\<forall>c \<in> set creds. scr_user c \<noteq> [] \<and> scr_mechanism c \<noteq> []"
    using state(2) creds by (cases "creds = []"; simp add: users_listed_def)
  have qs: "\<forall>dq \<in> set (pl_quotas (br_plan br)). \<exists>lq \<in> set quotas. quota_in_sync dq lq"
    using imported_quotas_in_sync [OF sn(3) plain_quotas(1)] unfolding br(4) r by simp
  have us: "\<forall>du \<in> set (pl_users (br_plan br)). \<exists>c \<in> set creds. user_in_sync du c"
    using imported_users_in_sync [OF sn(4) named] unfolding br(5) r by simp
  have "pl_quotas (br_plan br) \<noteq> [] \<longrightarrow> quotas \<noteq> []" using qs by (cases "pl_quotas (br_plan br)") force+
  then have qs': "pl_quotas (br_plan br) \<noteq> [] \<longrightarrow> ac_listQuotas ?k w = Inr quotas \<and> distinct (map live_quota_key quotas)"
    using quotas plain_quotas(2) by simp
  have ts: "distinct (map tst_name listed)" "\<forall>dt \<in> set (pl_topics (br_plan br)). \<exists>lt \<in> set listed. topic_in_sync dt lt"
    using state(1) q(1) imported_topics_in_sync [OF q sn(1) state(1)] unfolding br(2) r by (simp_all add: topics_described_def)
  have as: "full_key ` set (pl_acls (br_plan br)) = full_key ` state_to_acl ` set acls" by (simp only: br(3) parts(2))
  have "compute_ops sv (br_plan br) False w = Inr []"
    by (rule import_live_quiet [OF rest none q(1) ts acls as qs' qs planned_users_listed [OF state(2) creds us refl refl]])
  then show ?thesis using br(1) by blast
qed

text \<open>
  The witness: two topics, one placed by constraints, their producer and consumer grants, a denial that no
  topic can carry, a quota and a user.
\<close>

definition imported_cluster :: kafka_cluster where
  "imported_cluster =
     \<lparr>kc_meta = imported_meta [] ''c'',
      kc_spec = \<lparr>kcs_bootstrapServers = ''b:9092'', kcs_tls = None, kcs_auth = None, kcs_schemaRegistry = None,
        kcs_defaults = None, kcs_tenancy = None, kcs_authorization = None, kcs_rest = None\<rparr>\<rparr>"

definition granted :: "string \<Rightarrow> string \<Rightarrow> string \<Rightarrow> string \<Rightarrow> string \<Rightarrow> acl_state" where
  "granted who typ name operation permission =
     \<lparr>as_principal = ''User:'' @ who, as_host = ''*'', as_resourceType = typ, as_resourceName = name,
      as_patternType = ''literal'', as_operation = operation, as_permission = permission\<rparr>"

definition running_kafka :: kafka_mock where
  "running_kafka = km_seed_scram ''app'' ''SCRAM-SHA-256'' 8192
     (km_upsert_quota [\<lparr>qc_type = ''user'', qc_name = Some ''app''\<rparr>] [(''producer_byte_rate'', 1024)]
       (km_new
         [\<lparr>tst_name = ''orders'', tst_partitions = 6, tst_replicationFactor = 3, tst_config = [(''retention.ms'', ''1000'')]\<rparr>,
          \<lparr>tst_name = ''app.events'', tst_partitions = 1, tst_replicationFactor = 2,
           tst_config = [(import_placement_key, ''{}'')]\<rparr>]
         [granted ''app'' ''topic'' ''orders'' ''Write'' ''Allow'', granted ''app'' ''topic'' ''orders'' ''Describe'' ''Allow'',
          granted ''bob'' ''topic'' ''orders'' ''Read'' ''Allow'', granted ''bob'' ''topic'' ''orders'' ''Describe'' ''Allow'',
          granted ''bob'' ''group'' ''g'' ''Read'' ''Allow'', granted ''eve'' ''topic'' ''app.events'' ''Read'' ''Deny'']))"

definition kafka_only :: "kafka_mock services" where
  "kafka_only =
     \<lparr>sv_kafka = kafka_mock_client, sv_mds = Inr None, sv_schema = Inr None, sv_rest = Inr None,
      sv_passwords = (\<lambda>_. Inr ''secret'')\<rparr>"

definition read_everything :: "kafka_mock snapshot_options" where
  "read_everything = \<lparr>so_skipUsers = False, so_skipQuotas = False, so_includeInternal = False, so_rest = None\<rparr>"

definition by_prefix :: namespace_strategy where
  "by_prefix =
     \<lparr>nst_kind = ''prefix'', nst_single = [], nst_separator = ''.'', nst_pattern = [], nst_mapping = [],
      nst_fallback = ''kafka''\<rparr>"

definition running_snapshot :: import_snapshot where
  "running_snapshot =
     projr (read_import_snapshot id km_describe_topic_configs kafka_mock_client None None [] read_everything running_kafka)"

definition running_import :: import_result where
  "running_import = import_build id id running_snapshot ''c'' [''acl''] None
     \<lparr>io_connectingUser = ''admin'', io_includeConnectingUser = False\<rparr>"

definition import_shape :: "import_result \<Rightarrow> (string \<times> nat \<times> nat) list \<times> nat \<times> nat \<times> nat" where
  "import_shape r =
     (map (\<lambda>t. (om_name (kt_meta t), length (ta_producers (kts_access (kt_spec t))),
         length (ta_consumers (kts_access (kt_spec t))))) (ir_topics r),
      length (ir_policies r), length (ir_quotas r), length (ir_users r))"

lemma running_import_shape:
  "import_shape running_import = ([(''app.events'', 0, 0), (''orders'', 1, 1)], 1, 1, 1)"
  by code_simp

lemma running_services:
  "topics_described km_describe_topic_configs kafka_mock_client running_kafka"
  "users_listed kafka_mock_client running_kafka" "expressible_state kafka_mock_client running_kafka"
proof -
  have topics: "ac_listTopics kafka_mock_client running_kafka = Inr [km_topics running_kafka ! 1, km_topics running_kafka ! 0]"
    and describe: "km_describe_topic_configs ''orders'' running_kafka =
      Inr [\<lparr>ce_name = ''retention.ms'', ce_value = ''1000'', ce_default = False\<rparr>]"
      "km_describe_topic_configs ''app.events'' running_kafka =
      Inr [\<lparr>ce_name = import_placement_key, ce_value = ''{}'', ce_default = False\<rparr>]"
    and at: "km_topics running_kafka ! 1 = \<lparr>tst_name = ''app.events'', tst_partitions = 1, tst_replicationFactor = 2,
      tst_config = [(import_placement_key, ''{}'')]\<rparr>"
      "km_topics running_kafka ! 0 = \<lparr>tst_name = ''orders'', tst_partitions = 6, tst_replicationFactor = 3,
      tst_config = [(''retention.ms'', ''1000'')]\<rparr>"
    by code_simp+
  show "topics_described km_describe_topic_configs kafka_mock_client running_kafka"
    unfolding topics_described_def topics at by (simp add: describe explicit_config_def)
  have listed: "ac_listACLs kafka_mock_client running_kafka = Inr (sort_key km_acl_key (km_acls running_kafka))"
    by (simp add: kafka_mock_client_def km_list_acls_def km_read_def running_kafka_def km_seed_scram_def
        km_upsert_quota_def Let_def km_new_def)
  have "list_all (\<lambda>s. as_host s \<noteq> [] \<and> as_permission s \<noteq> [] \<and> as_patternType s \<noteq> []) (km_acls running_kafka)"
    by code_simp
  moreover have "distinct (map (subject_key \<circ> state_to_acl) (km_acls running_kafka))" by code_simp
  ultimately have acls: "expressible_acls (km_acls running_kafka)"
    unfolding expressible_acls_def live_explicit_def conflict_free_def list_all_iff distinct_map inj_on_def by auto
  have quotas: "ac_listQuotas kafka_mock_client running_kafka =
      Inr [\<lparr>qst_entity = [\<lparr>qc_type = ''user'', qc_name = Some ''app''\<rparr>], qst_limits = [(''producer_byte_rate'', 1024)]\<rparr>]"
    by code_simp
  have "expressible_acls (sort_key km_acl_key (km_acls running_kafka))"
    using acls by (simp add: expressible_acls_def live_explicit_def)
  then show "expressible_state kafka_mock_client running_kafka"
    by (simp add: expressible_state_def listed quotas plain_quota_def limit_keys_def)
  have scram: "km_scramCreds running_kafka = [(km_scram_key ''app'' ''SCRAM-SHA-256'',
      \<lparr>sce_user = ''app'', sce_mechanism = ''SCRAM-SHA-256'', sce_iterations = 8192, sce_upsertCount = 0\<rparr>)]"
    by code_simp
  show "users_listed kafka_mock_client running_kafka"
    by (simp add: users_listed_def kafka_mock_client_def km_list_scram_def scram mkeys_def)
qed

lemma running_snapshot_read:
  "read_import_snapshot id km_describe_topic_configs kafka_mock_client None None [] read_everything running_kafka =
     Inr running_snapshot"
  "plain_snapshot running_snapshot" "expressible_acls (isn_acls running_snapshot)"
proof -
  have "\<not> isl (read_import_snapshot id km_describe_topic_configs kafka_mock_client None None [] read_everything running_kafka)"
    by code_simp
  then show snap: "read_import_snapshot id km_describe_topic_configs kafka_mock_client None None [] read_everything running_kafka =
      Inr running_snapshot" by (simp add: running_snapshot_def)
  obtain acls where "ac_listACLs kafka_mock_client running_kafka = Inr acls" "isn_acls running_snapshot = sort_key acl_sort_key acls"
    and plain: "plain_snapshot running_snapshot"
    by (rule read_basic_snapshot [OF snap]) (simp add: read_everything_def)
  then show "plain_snapshot running_snapshot" "expressible_acls (isn_acls running_snapshot)"
    using running_services(3) by (simp_all add: expressible_state_def expressible_acls_def live_explicit_def)
qed

theorem import_plans_nothing_witness:
  "\<exists>br. compile_plan id \<lparr>env_var = \<lambda>_. None, read_file = \<lambda>_. Inl []\<rparr> ''c''
      (import_loaded (\<lambda>_. ''topics.yaml'') ''c'' imported_cluster
        (projr (assign_namespaces (\<lambda>_. Inl ''unused'') by_prefix running_import))) = Inr br \<and>
    compute_ops kafka_only (br_plan br) False running_kafka = Inr []"
proof -
  have snap: "read_import_snapshot id km_describe_topic_configs (sv_kafka kafka_only) None None [] read_everything running_kafka =
      Inr running_snapshot" using running_snapshot_read(1) by (simp add: kafka_only_def)
  have backends: "effective_access_backends (Some imported_cluster) = [''acl'']" by code_simp
  have import: "import_build id id running_snapshot ''c'' (effective_access_backends (Some imported_cluster)) None
      \<lparr>io_connectingUser = ''admin'', io_includeConnectingUser = False\<rparr> = running_import"
    by (simp add: backends running_import_def)
  have res: "assign_namespaces (\<lambda>_. Inl ''unused'') by_prefix
      (import_build id id running_snapshot ''c'' (effective_access_backends (Some imported_cluster)) None
        \<lparr>io_connectingUser = ''admin'', io_includeConnectingUser = False\<rparr>) =
      Inr (projr (assign_namespaces (\<lambda>_. Inl ''unused'') by_prefix running_import))"
    unfolding import by (simp add: assign_namespaces_def new_resolver_def strategy_kind_def by_prefix_def Let_def)
  show ?thesis
    by (rule import_plans_nothing [OF _ _ _ _ _ _ _ _ snap _ res])
      (use running_services in \<open>simp_all add: kafka_only_def has_access_backend_def backends read_everything_def\<close>)
qed

end
