(* ===== verification/Import_Result_Props.thy ===== *)
theory Import_Result_Props
  imports Import_Props
begin

section \<open>Properties of an import result\<close>

subsection \<open>Access is reproduced\<close>

lemma imported_acls_filter:
  "backend_active bs ''acl'' \<Longrightarrow> imported_acls bs snap =
      filter (\<lambda>a. \<not> (as_resourceType a = ''topic'' \<and> as_patternType a = ''literal'' \<and>
        (as_resourceName a \<in> set (isn_deferredMirrors snap) \<or>
         (\<exists>m \<in> set (isn_mirrors snap). msn_name m = as_resourceName a \<and>
            link_sync_of snap (msn_linkName m) \<noteq> Some False)))) (isn_acls snap)"
  by (auto simp: imported_acls_def mirror_acl_def acls_dropped_on_def image_iff intro!: filter_cong)

text \<open>
  C5. The result of an import reproduces the access it was read from, on the ACL backend, on RBAC or on both:
  the emitted topics, policies and role bindings, compiled again the way a plan compiles them, give
  without conflicts exactly the role bindings that were read and exactly the ACLs that were read, except
  the literal topic ACLs of two groups of mirror topics, which the import leaves out: deferred mirrors,
  and mirrors whose link is not known to have ACL sync off. Without such mirrors they are all live ACLs.
  The ACLs kept must be expressible: host, permission and pattern type given, and none both allowed and
  denied. The role bindings must be too: each once, its scope the one the MDS configuration
  has for its type, a pattern type where it names a resource, the Kafka cluster id set. It holds whatever the fold puts on the topics, whatever order rules of equal
  key are left in, and whether or not the all-explicit fallback replaced it.
\<close>

theorem import_reproduces_access:
  assumes "\<And>xs. set (ord xs) = set xs" "r = import_build ord quote snap c bs cfg opt"
    and "backend_active bs ''acl'' \<Longrightarrow> expressible_acls (imported_acls bs snap)"
    and "backend_active bs ''rbac'' \<Longrightarrow> expressible_bindings cfg (isn_roleBindings snap)"
  shows "(backend_active bs ''acl'' \<longrightarrow> round_trips_clean (ir_topics r) (ir_policies r) (imported_acls bs snap)) \<and>
    (backend_active bs ''rbac'' \<longrightarrow>
      role_bindings_round_trip_clean quote cfg (ir_topics r) (ir_roleBindings r) (isn_roleBindings snap)) \<and>
    (backend_active bs ''acl'' \<longrightarrow> imported_acls bs snap =
      filter (\<lambda>a. \<not> (as_resourceType a = ''topic'' \<and> as_patternType a = ''literal'' \<and>
        (as_resourceName a \<in> set (isn_deferredMirrors snap) \<or>
         (\<exists>m \<in> set (isn_mirrors snap). msn_name m = as_resourceName a \<and>
            link_sync_of snap (msn_linkName m) \<noteq> Some False)))) (isn_acls snap))"
proof -
  obtain ws kept others x y where
    y: "y = checked_access ord quote c cfg (backend_active bs ''acl'') (backend_active bs ''rbac'') (imported_acls bs snap)
       (isn_roleBindings snap) kept others x"
    and r: "ir_topics r = xr_topics y" "ir_policies r = xr_policies y" "ir_roleBindings r = xr_roleBindings y"
    unfolding assms(2) by (rule import_build_access)
  have "access_clean quote cfg (backend_active bs ''acl'') (backend_active bs ''rbac'') (imported_acls bs snap)
      (isn_roleBindings snap) y"
    unfolding y by (rule checked_access_clean) (use assms in auto)
  then show ?thesis using imported_acls_filter unfolding access_clean_def r by blast
qed

definition both_backends :: import_snapshot where
  "both_backends = running_snapshot\<lparr>isn_roleBindings :=
     [\<lparr>mrb_principal = ''User:app'', mrb_role = ''DeveloperWrite'',
       mrb_scope = \<lparr>msc_type = ''kafka'', msc_kafkaCluster = ''k1'', msc_subCluster = []\<rparr>,
       mrb_resource = Some \<lparr>mrp_type = ''Topic'', mrp_name = ''orders'', mrp_patternType = ''literal''\<rparr>\<rparr>]\<rparr>"

definition imported_mds :: mds_config where
  "imported_mds =
     \<lparr>mds_endpoint = ''https://mds'', mds_authn = None, mds_tls = None,
      mds_clusters_of = \<lparr>mc_kafkaCluster = ''k1'', mc_schemaRegistryCluster = [], mc_connectCluster = [],
        mc_ksqlCluster = []\<rparr>\<rparr>"

theorem import_reproduces_access_witness:
  "let r = import_build id id both_backends ''c'' [''acl'', ''rbac''] (Some imported_mds)
         \<lparr>io_connectingUser = [], io_includeConnectingUser = False\<rparr>
   in round_trips_clean (ir_topics r) (ir_policies r) (isn_acls running_snapshot) \<and>
      role_bindings_round_trip_clean id (Some imported_mds) (ir_topics r) (ir_roleBindings r)
        (isn_roleBindings both_backends)"
proof -
  let ?opt = "\<lparr>io_connectingUser = [], io_includeConnectingUser = False\<rparr>"
  have both: "backend_active [''acl'', ''rbac''] ''acl''" "backend_active [''acl'', ''rbac''] ''rbac''"
    by (simp_all add: backend_active_def)
  have acls: "imported_acls [''acl'', ''rbac''] both_backends = isn_acls running_snapshot"
    using running_snapshot_read(2)
    by (simp add: imported_acls_def both_backends_def mirror_acl_def acls_dropped_on_def plain_snapshot_def)
  have bindings: "expressible_bindings (Some imported_mds) (isn_roleBindings both_backends)"
    by (simp add: expressible_bindings_def both_backends_def imported_mds_def expressible_binding_def resolve_scope_def Let_def)
  have same: "set (id xs) = set xs" for xs :: "acl_rule list" by simp
  have kept: "expressible_acls (imported_acls [''acl'', ''rbac''] both_backends)" using running_snapshot_read(3) acls by simp
  show ?thesis
    unfolding Let_def
    using import_reproduces_access [OF same refl kept bindings, of id "''c''" ?opt] both unfolding acls by blast
qed

subsection \<open>What the fallback silences\<close>

lemma rejected_none_iff: "rejected_acls acls = [] \<longleftrightarrow> conflict_free (set acls)"
proof
  assume r: "rejected_acls acls = []"
  have "first_permission Map.empty acls (subject_key a) = Some (acl_permission a)" if "a \<in> set acls" for a
    using r that unfolding rejected_acls_def filter_empty_conv by blast
  then show "conflict_free (set acls)" unfolding conflict_free_def by (metis option.inject)
qed (rule rejected_none)

lemma plain_schema_warnings:
  assumes "plain_snapshot snap"
  shows "sb_warnings (verify_schema_subjects quote snap (apply_schemas quote snap tps)) = []"
proof -
  have "foldl (apply_schema quote pos snap) b tss = b" "foldl (verify_schema quote pos snap) b tss = b" for pos b tss
    using assms by (induction tss) (simp_all add: apply_schema_def verify_schema_def plain_snapshot_def)
  then show ?thesis using assms by (simp add: verify_schema_subjects_def apply_schemas_def Let_def plain_snapshot_def)
qed

lemma policy_warnings:
  "w \<in> set (snd (policies_loop ord quote c raw owners ps)) \<Longrightarrow> prefix ''policy'' w"
  by (induction ps arbitrary: owners) (auto simp: Let_def case_prod_beta render_def split: option.splits)

lemma build_policy_warnings: "w \<in> set (snd (build_policies ord quote c raw)) \<Longrightarrow> prefix ''policy'' w"
  using policy_warnings by (fastforce simp: build_policies_def case_prod_beta)

lemma placeholder_not_policy: "\<not> prefix ''policy'' placeholder_warning"
  by (simp add: placeholder_warning_def)

lemma plain_import_warnings:
  assumes "plain_snapshot snap" "backend_active bs ''acl''" "\<not> backend_active bs ''rbac''"
  obtains ws where "ir_warnings (import_build ord quote snap c bs cfg opt) = xr_warnings
      (checked_access ord quote c cfg True False (isn_acls snap) [] [] (snd (build_quotas quote c (isn_quotas snap)) @
         snd (build_users quote c opt (isn_scram snap)))
        (fold_access ord quote c True False (topic_pos (isn_topics snap)) (isn_acls snap) []
          (built_topics quote snap c) ws))"
proof -
  have none: "filter_mirror_acls quote snap = (isn_acls snap, [])"
    using assms(1) by (simp add: filter_mirror_acls_def plain_snapshot_def)
  have mirrors: "snd (build_mirrors quote snap c taken) = []" for taken
    using assms(1) by (simp add: build_mirrors_def plain_snapshot_def)
  have rbs: "isn_roleBindings snap = []" using assms(1) by (simp add: plain_snapshot_def)
  show ?thesis
    by (rule that) (simp add: import_build_def Let_def case_prod_beta assms(2,3) none mirrors rbs
        plain_schema_warnings [OF assms(1)] built_topics_def)
qed

text \<open>
  C27. An import that falls back says nothing about its passwords. On the ACL backend alone, for a snapshot with
  nothing of a schema registry, no mirrors (live, deferred or stale) and no role bindings, whose topics have names and
  whose ACLs give host, permission and pattern type, and whatever order rules of equal key are left in: if users are imported, the result carries the
  warning that their passwords are placeholders exactly if no subject is both allowed and denied. A
  conflict makes the recompile check fail, and the fallback rebuilds the warnings without those of
  quotas and users, though the result has the users themselves - with the same references to variables
  that nobody has been told to set.
\<close>

theorem fallback_silences_placeholder:
  assumes "\<And>xs. set (ord xs) = set xs" "plain_snapshot snap" "backend_active bs ''acl''" "\<not> backend_active bs ''rbac''"
    and "\<forall>s \<in> set (isn_topics snap). tsn_name s \<noteq> []" "live_explicit (isn_acls snap)"
    and "r = import_build ord quote snap c bs cfg opt" "ir_users r \<noteq> []"
  shows "ir_users r = fst (build_users quote c opt (isn_scram snap)) \<and>
    (placeholder_warning \<in> set (ir_warnings r) \<longleftrightarrow> conflict_free (state_to_acl ` set (isn_acls snap)))"
proof -
  have users: "ir_users r = fst (build_users quote c opt (isn_scram snap))" by (simp add: assms(7) import_build_others)
  obtain ws x where x: "x = fold_access ord quote c True False (topic_pos (isn_topics snap)) (isn_acls snap) []
      (built_topics quote snap c) ws"
    and w: "ir_warnings r = xr_warnings (checked_access ord quote c cfg True False (isn_acls snap) [] []
       (snd (build_quotas quote c (isn_quotas snap)) @ snd (build_users quote c opt (isn_scram snap))) x)"
    using plain_import_warnings [OF assms(2-4), of ord quote c cfg opt] unfolding assms(7) by metis
  have same: "set (compiled_acls (xr_topics x) (xr_policies x)) = state_to_acl ` set (isn_acls snap)"
    by (rule fold_access_acls [OF built_topics_fresh assms(5,6,1) x])
  have clean: "access_clean quote cfg True False (isn_acls snap) [] x \<longleftrightarrow> conflict_free (state_to_acl ` set (isn_acls snap))"
    by (simp add: access_clean_def round_trips_clean_iff rejected_none_iff same)
  have told: "placeholder_warning \<in> set (snd (build_users quote c opt (isn_scram snap)))"
    using assms(8) unfolding users by (auto simp: build_users_def case_prod_beta)
  show ?thesis
  proof (cases "conflict_free (state_to_acl ` set (isn_acls snap))")
    case True
    then have "placeholder_warning \<in> set (ir_warnings r)" using clean told by (simp add: w checked_access_def)
    then show ?thesis using True users by simp
  next
    case False
    have "placeholder_warning \<noteq> fallback_warning" "placeholder_warning \<noteq> unfaithful_warning"
      by (simp_all add: placeholder_warning_def fallback_warning_def unfaithful_warning_def)
    then have "placeholder_warning \<notin> set (ir_warnings r)"
      using False clean build_policy_warnings [of placeholder_warning] placeholder_not_policy
      by (auto simp: w checked_access_def fallback_all_explicit_def Let_def case_prod_beta)
    then show ?thesis using False users by simp
  qed
qed

definition conflicting_snapshot :: import_snapshot where
  "conflicting_snapshot = running_snapshot\<lparr>isn_acls :=
     [granted ''eve'' ''topic'' ''orders'' ''Read'' ''Allow'', granted ''eve'' ''topic'' ''orders'' ''Read'' ''Deny'']\<rparr>"

theorem fallback_silences_placeholder_witness:
  "let opt = \<lparr>io_connectingUser = ''admin'', io_includeConnectingUser = False\<rparr>;
       clean = import_build id id running_snapshot ''c'' [''acl''] None opt;
       conflicting = import_build id id conflicting_snapshot ''c'' [''acl''] None opt
   in ir_users conflicting = ir_users clean \<and> ir_users clean \<noteq> [] \<and>
      placeholder_warning \<in> set (ir_warnings clean) \<and> placeholder_warning \<notin> set (ir_warnings conflicting)"
proof -
  let ?opt = "\<lparr>io_connectingUser = ''admin'', io_includeConnectingUser = False\<rparr>"
  let ?r = "import_build id id running_snapshot ''c'' [''acl''] None ?opt"
    and ?r' = "import_build id id conflicting_snapshot ''c'' [''acl''] None ?opt"
  have acl: "backend_active [''acl''] ''acl''" "\<not> backend_active [''acl''] ''rbac''" by (simp_all add: backend_active_def)
  have "list_all (\<lambda>s. tsn_name s \<noteq> []) (isn_topics running_snapshot)" by code_simp
  then have named: "\<forall>s \<in> set (isn_topics running_snapshot). tsn_name s \<noteq> []" by (simp only: list_all_iff)
  have some: "ir_users ?r \<noteq> []" using running_import_shape by (auto simp: running_import_def import_shape_def)
  have same: "ir_users ?r' = ir_users ?r" by (simp add: import_build_others conflicting_snapshot_def)
  have conflict: "\<not> conflict_free (state_to_acl ` set (isn_acls conflicting_snapshot))"
    by (simp add: conflicting_snapshot_def conflict_free_def state_to_acl_def granted_def subject_key_def)
  have explicit: "live_explicit (isn_acls conflicting_snapshot)"
    by (simp add: conflicting_snapshot_def live_explicit_def granted_def)
  have plain: "plain_snapshot conflicting_snapshot"
    using running_snapshot_read(2) by (simp add: conflicting_snapshot_def plain_snapshot_def)
  have named': "\<forall>s \<in> set (isn_topics conflicting_snapshot). tsn_name s \<noteq> []"
    using named by (simp add: conflicting_snapshot_def)
  show ?thesis
    using fallback_silences_placeholder [of id, OF _ running_snapshot_read(2) acl named _ refl some]
      fallback_silences_placeholder [of id, OF _ plain acl named' explicit refl some [folded same]]
      running_snapshot_read(3) same some conflict
    unfolding Let_def expressible_acls_def by simp
qed

subsection \<open>Names\<close>

text \<open>The names a loop over topics or mirrors gives out.\<close>

lemma build_topics_names:
  "map (om_name \<circ> kt_meta) (fst (build_topics quote c taken snaps)) =
     fst (assign_names CHR ''-'' taken (map (topic_meta_name \<circ> tsn_name) snaps))"
  "fst (snd (build_topics quote c taken snaps)) =
     snd (assign_names CHR ''-'' taken (map (topic_meta_name \<circ> tsn_name) snaps))"
  by (induction snaps arbitrary: taken) (simp_all add: Let_def case_prod_beta import_topic_def imported_meta_def)

lemma build_mirror_names:
  "map (om_name \<circ> km_meta) (fst (build_mirror_list quote c taken ms)) =
     fst (assign_names CHR ''-'' taken (map (topic_meta_name \<circ> msn_name) ms))"
  by (induction ms arbitrary: taken) (simp_all add: Let_def case_prod_beta import_mirror_def imported_meta_def)

lemma assign_names_append:
  "fst (assign_names sep taken (as @ bs)) =
     fst (assign_names sep taken as) @ fst (assign_names sep (snd (assign_names sep taken as)) bs)"
  by (induction as arbitrary: taken) (simp_all add: Let_def case_prod_beta)

lemma imported_names:
  fixes r :: import_result
  assumes "r = import_build ord quote snap c bs cfg opt"
  shows "map (om_name \<circ> kt_meta) (ir_topics r) @ map (om_name \<circ> km_meta) (ir_mirrors r) =
    fst (assign_names CHR ''-'' [] (map topic_meta_name (map tsn_name (isn_topics snap) @ map msn_name (isn_mirrors snap))))"
proof -
  have meta: "map (om_name \<circ> kt_meta) (map clear_access tps) = map (om_name \<circ> kt_meta) tps"
    "map (om_name \<circ> kt_meta) (map (set_schema None) tps) = map (om_name \<circ> kt_meta) tps" for tps
    by (simp_all add: clear_access_def set_schema_def comp_def)
  have "map (om_name \<circ> kt_meta) (ir_topics r) = map (om_name \<circ> kt_meta) (built_topics quote snap c)"
    using import_topics_shape [of ord quote snap c bs cfg opt] meta(1) unfolding assms by metis
  also have "\<dots> = map (om_name \<circ> kt_meta) (fst (build_topics quote c [] (isn_topics snap)))"
    using built_topics_shape [of quote snap c] meta(2) by metis
  finally show ?thesis
    by (simp add: assms import_build_others build_mirrors_def case_prod_beta comp_def build_topics_names [unfolded comp_def]
        build_mirror_names [unfolded comp_def] assign_names_append)
qed

lemma imported_live_names:
  fixes r :: import_result
  assumes "r = import_build ord quote snap c bs cfg opt"
  shows "map (kts_topicName \<circ> kt_spec) (ir_topics r) = map tsn_name (isn_topics snap)"
    "map (kms_topicName \<circ> km_spec) (ir_mirrors r) = map msn_name (isn_mirrors snap)"
proof -
  have keep: "map (kts_topicName \<circ> kt_spec) (map clear_access tps) = map (kts_topicName \<circ> kt_spec) tps"
    "map (kts_topicName \<circ> kt_spec) (map (set_schema None) tps) = map (kts_topicName \<circ> kt_spec) tps" for tps
    by (simp_all add: clear_access_def set_schema_def comp_def)
  have built: "map (kts_topicName \<circ> kt_spec) (fst (build_topics quote c taken snaps)) = map tsn_name snaps" for taken snaps
    by (induction snaps arbitrary: taken) (simp_all add: Let_def case_prod_beta import_topic_def)
  have "map (kts_topicName \<circ> kt_spec) (ir_topics r) = map (kts_topicName \<circ> kt_spec) (built_topics quote snap c)"
    using import_topics_shape [of ord quote snap c bs cfg opt] keep(1) unfolding assms by metis
  also have "\<dots> = map tsn_name (isn_topics snap)"
    using built_topics_shape [of quote snap c] keep(2) built by metis
  finally show "map (kts_topicName \<circ> kt_spec) (ir_topics r) = map tsn_name (isn_topics snap)" .
  have "map (kms_topicName \<circ> km_spec) (fst (build_mirror_list quote c taken ms)) = map msn_name ms" for taken ms
    by (induction ms arbitrary: taken) (simp_all add: Let_def case_prod_beta import_mirror_def)
  then show "map (kms_topicName \<circ> km_spec) (ir_mirrors r) = map msn_name (isn_mirrors snap)"
    by (simp add: assms import_build_others build_mirrors_def case_prod_beta)
qed

text \<open>
  C39. The names of imported topics. The manifests are one per topic and one per mirror topic that were read,
  in the order they were read in, each with the live name in its spec. Topics and mirror topics share one
  set of metadata names: every manifest gets a name of its own, whatever the live names were and however
  many of them slug to the same text; the names are given out in order, topics first, each the slug of
  the live name, with the first free numeric suffix where that is taken; and every name is one the API server accepts (at most
  253 characters, lower case, digits, dashes and dots, each label beginning and ending with a letter or
  digit) as long as fewer than 99,998 of them are imported at once.
\<close>

theorem import_names_valid:
  assumes "r = import_build ord quote snap c bs cfg opt"
  shows "map (kts_topicName \<circ> kt_spec) (ir_topics r) = map tsn_name (isn_topics snap) \<and>
    map (kms_topicName \<circ> km_spec) (ir_mirrors r) = map msn_name (isn_mirrors snap) \<and>
    map (om_name \<circ> kt_meta) (ir_topics r) @ map (om_name \<circ> km_meta) (ir_mirrors r) =
      fst (assign_names CHR ''-'' [] (map topic_meta_name (map tsn_name (isn_topics snap) @ map msn_name (isn_mirrors snap)))) \<and>
    distinct (map (om_name \<circ> kt_meta) (ir_topics r) @ map (om_name \<circ> km_meta) (ir_mirrors r)) \<and>
    (length (isn_topics snap) + length (isn_mirrors snap) < 99998 \<longrightarrow>
      (\<forall>n \<in> set (map (om_name \<circ> kt_meta) (ir_topics r) @ map (om_name \<circ> km_meta) (ir_mirrors r)). dns_subdomain n))"
proof -
  let ?bs = "map topic_meta_name (map tsn_name (isn_topics snap) @ map msn_name (isn_mirrors snap))"
  note names = imported_names [OF assms]
  have len: "length (fst (assign_names CHR ''-'' [] ?bs)) = length (isn_topics snap) + length (isn_mirrors snap)" by simp
  have "\<forall>b \<in> set ?bs. dns_subdomain b \<and> length b \<le> name_limit" using topic_meta_name_valid by auto
  from assign_names_valid [OF this, of "[]"] show ?thesis
    using assign_names_distinct [of "[]" "CHR ''-''" ?bs] len imported_live_names [OF assms] names
    unfolding names [symmetric] by simp
qed

definition read_topic :: "string \<Rightarrow> topic_snapshot" where
  "read_topic n = \<lparr>tsn_name = n, tsn_partitions = 1, tsn_replicationFactor = 1, tsn_config = []\<rparr>"

definition colliding_snapshot :: import_snapshot where
  "colliding_snapshot = running_snapshot\<lparr>isn_topics := map read_topic [''Orders'', ''orders'', ''_orders'', ''__''],
     isn_mirrors := [\<lparr>msn_name = ''ORDERS'', msn_linkName = ''l'', msn_sourceTopicName = ''ORDERS'', msn_status = ''ACTIVE'',
       msn_replicationFactor = 1, msn_explicitConfigKeys = []\<rparr>]\<rparr>"

lemma colliding_names:
  "fst (assign_names CHR ''-'' [] (map topic_meta_name [''Orders'', ''orders'', ''_orders'', ''__'', ''ORDERS''])) =
     [''orders'', ''orders-2'', ''orders-3'', ''topic'', ''orders-4'']"
  by code_simp

lemma colliding_read:
  "map tsn_name (isn_topics colliding_snapshot) @ map msn_name (isn_mirrors colliding_snapshot) =
     [''Orders'', ''orders'', ''_orders'', ''__'', ''ORDERS'']"
  "length (isn_topics colliding_snapshot) + length (isn_mirrors colliding_snapshot) < 99998"
  by (simp_all add: colliding_snapshot_def read_topic_def)

theorem import_names_valid_witness:
  "let r = import_build id id colliding_snapshot ''c'' [''acl''] None
         \<lparr>io_connectingUser = [], io_includeConnectingUser = False\<rparr>;
       names = map (om_name \<circ> kt_meta) (ir_topics r) @ map (om_name \<circ> km_meta) (ir_mirrors r)
   in names = [''orders'', ''orders-2'', ''orders-3'', ''topic'', ''orders-4''] \<and> (\<forall>n \<in> set names. dns_subdomain n)"
  unfolding Let_def
  using import_names_valid [OF refl, of id id colliding_snapshot "''c''" "[''acl'']" None
      "\<lparr>io_connectingUser = [], io_includeConnectingUser = False\<rparr>"] colliding_names
  unfolding colliding_read(1) using colliding_read(2) by metis

end
