(* ===== verification/Import_Read_Props.thy ===== *)
theory Import_Read_Props
  imports Import_Plan Mock_World
begin

section \<open>Properties of what an import reads\<close>

subsection \<open>Mirrors\<close>

lemma index_unique_dom: "index_unique f m xs = Inr m' \<Longrightarrow> dom m' = dom m \<union> f ` set xs"
  by (induction xs arbitrary: m) (auto split: if_splits)

lemma complete_mirrors:
  "complete (read_snapshot k r links w) \<Longrightarrow>
   \<exists>listed mm. rc_listMirrors r w = Inr listed \<and> index_unique mi_mirrorTopicName Map.empty listed = Inr mm \<and>
     sn_mirrors (read_snapshot k r links w) = mm"
  unfolding read_snapshot_def Let_def
  by (auto simp: complete_def empty_snapshot_def new_snapshot_def Let_def split: sum.splits if_splits)

text \<open>The listing that the sorted keys are taken from has the keys of the map.\<close>

lemma mirror_names_dom:
  assumes "complete (read_snapshot k r links w)" "rc_listMirrors r w = Inr listed"
  shows "set (mirror_names listed) = dom (sn_mirrors (read_snapshot k r links w))"
proof -
  obtain mm where "index_unique mi_mirrorTopicName Map.empty listed = Inr mm"
    "sn_mirrors (read_snapshot k r links w) = mm"
    using complete_mirrors [OF assms(1)] assms(2) by auto
  then show ?thesis by (simp add: mirror_names_def index_unique_dom)
qed

definition plain_class :: "classification \<Rightarrow> bool" where
  "plain_class c \<longleftrightarrow> c \<notin> {MirrorTopic, StoppingMirror, UnknownTopic}"

lemma split_topics_result:
  assumes "split_topics s ts out = Inr out'"
  defines "is \<equiv> \<lambda>p. filter (\<lambda>t. p (classify s (tsn_name t))) ts"
  shows "msp_topics out' = msp_topics out @ is plain_class"
    "msp_mirrors out' = msp_mirrors out @ map (\<lambda>t. mirror_snapshot_of t (mirror_at s (tsn_name t))) (is (\<lambda>c. c = MirrorTopic))"
    "msp_deferred out' = msp_deferred out @ map tsn_name (is (\<lambda>c. c = StoppingMirror))"
    "msp_stale out' = msp_stale out" "\<forall>t \<in> set ts. classify s (tsn_name t) \<noteq> UnknownTopic"
  using assms(1) unfolding is_def
  by (induction s ts out rule: split_topics.induct) (auto simp: plain_class_def split: classification.splits)

lemma stale_mirrors_result:
  assumes "stale_mirrors s internal ns = Inr stale"
  shows "set stale \<subseteq> set ns" "\<forall>n \<in> set stale. sn_topics s n = None"
    "\<forall>n \<in> set ns. (internal \<or> \<not> is_internal_topic n) \<longrightarrow> classify s n = UnknownTopic \<longrightarrow> n \<in> set stale"
  using assms by (induction ns arbitrary: stale) (auto simp: and_then_Inr split: if_splits)

lemma read_mirror_snapshot:
  assumes "read_import_snapshot quote describe k sr mc scopes opt w = Inr snap" "so_rest opt = Some r"
  obtains listed topics links s where
    "ac_listTopics k w = Inr listed" "read_topics describe (so_includeInternal opt) listed w = Inr topics"
    "s = read_snapshot k r links w" "complete s"
    "isn_topics snap = filter (\<lambda>t. plain_class (classify s (tsn_name t))) (sort_key tsn_name topics)"
    "isn_mirrors snap = map (\<lambda>t. mirror_snapshot_of t (mirror_at s (tsn_name t)))
       (filter (\<lambda>t. classify s (tsn_name t) = MirrorTopic) (sort_key tsn_name topics))"
    "isn_deferredMirrors snap = map tsn_name (filter (\<lambda>t. classify s (tsn_name t) = StoppingMirror) (sort_key tsn_name topics))"
    "\<forall>t \<in> set topics. classify s (tsn_name t) \<noteq> UnknownTopic" "\<forall>n \<in> set (isn_staleMirrors snap). sn_topics s n = None"
proof -
  obtain listed topics ms where q: "ac_listTopics k w = Inr listed"
    "read_topics describe (so_includeInternal opt) listed w = Inr topics"
    "import_mirror_split k opt (sort_key tsn_name topics) w = Inr ms"
    and snap: "isn_topics snap = msp_topics ms" "isn_mirrors snap = msp_mirrors ms"
      "isn_deferredMirrors snap = msp_deferred ms" "isn_staleMirrors snap = msp_stale ms"
    using assms(1) unfolding read_import_snapshot_def and_then_Inr wrap_error_Inr by force
  from q(3) have "classify_mirrors k r (sort_key tsn_name topics) (so_includeInternal opt) w = Inr ms"
    by (simp add: import_mirror_split_def assms(2))
  then obtain lm stale out links where c: "complete (read_snapshot k r links w)"
    "stale_mirrors (read_snapshot k r links w) (so_includeInternal opt) (mirror_names lm) = Inr stale"
    "split_topics (read_snapshot k r links w) (sort_key tsn_name topics)
       \<lparr>msp_topics = [], msp_mirrors = [], msp_links = [], msp_deferred = [], msp_stale = stale\<rparr> = Inr out"
    "msp_topics ms = msp_topics out" "msp_mirrors ms = msp_mirrors out" "msp_deferred ms = msp_deferred out"
    "msp_stale ms = msp_stale out"
    unfolding classify_mirrors_def and_then_Inr Let_def by (auto split: if_splits simp: and_then_Inr)
  show ?thesis
    using split_topics_result [OF c(3)] stale_mirrors_result(2) [OF c(2)] c(4-7)
    by (intro that [OF q(1,2) refl c(1)]) (simp_all add: snap)
qed

lemma three_classes:
  "\<forall>t \<in> set ts. classify s (f t) \<noteq> UnknownTopic \<Longrightarrow>
   mset (map f (filter (\<lambda>t. plain_class (classify s (f t))) ts)) + mset (map f (filter (\<lambda>t. classify s (f t) = MirrorTopic) ts)) +
     mset (map f (filter (\<lambda>t. classify s (f t) = StoppingMirror) ts)) = mset (map f ts)"
  by (induction ts) (auto simp: plain_class_def)

lemma build_mirror_members:
  "m \<in> set (fst (build_mirror_list quote c taken ms)) \<Longrightarrow> \<exists>x \<in> set ms. \<exists>n. m = import_mirror c n x"
  by (induction ms arbitrary: taken) (auto simp: Let_def case_prod_beta)

lemma imported_mirror:
  "m \<in> set (ir_mirrors (import_build ord quote snap c bs cfg opt)) \<Longrightarrow> \<exists>x \<in> set (isn_mirrors snap). \<exists>n. m = import_mirror c n x"
  using build_mirror_members by (fastforce simp: import_build_others build_mirrors_def case_prod_beta)

lemma plain_unguarded: "plain_class (classify s (dt_name dt)) \<Longrightarrow> guard_op s dt = None"
  by (auto simp: guard_op_def plain_class_def split: classification.splits)

text \<open>
  C25. Mirror topics and topics are told apart. When an import reads a cluster through Kafka REST and succeeds, the
  mirror state it saw was complete, and every topic it read is exactly one of three things: a topic of the
  result, a mirror of the result, or a mirror in promotion that is left out - none is lost, none is taken
  for two. No \<open>KafkaTopic\<close> of the result is for a topic the diff would guard (a mirror, a mirror in
  promotion, or one whose state is unknown), whatever its defaults; every \<open>KafkaMirrorTopic\<close> is for a live
  mirror and names the link and the source REST reports; and what is listed as stale does not exist.
\<close>

theorem import_separates_mirrors:
  assumes "read_import_snapshot quote describe k sr mc scopes opt w = Inr snap" "so_rest opt = Some rest"
    and "res = import_build ord quote snap c bs cfg io"
  shows "\<exists>listed topics links s. ac_listTopics k w = Inr listed \<and>
    read_topics describe (so_includeInternal opt) listed w = Inr topics \<and> s = read_snapshot k rest links w \<and> complete s \<and>
    mset (map tsn_name (isn_topics snap) @ map msn_name (isn_mirrors snap) @ isn_deferredMirrors snap) =
      mset (map tsn_name topics) \<and>
    (\<forall>t \<in> set (ir_topics res). kts_topicName (kt_spec t) \<noteq> [] \<longrightarrow> guard_op s (desired_topic_of (default_topic t d)) = None) \<and>
    (\<forall>m \<in> set (ir_mirrors res). let n = kms_topicName (km_spec m)
       in classify s n = MirrorTopic \<and> kms_linkName (km_spec m) = mi_linkName (mirror_at s n) \<and>
         kms_sourceTopicName (km_spec m) = mi_sourceTopicName (mirror_at s n)) \<and>
    (\<forall>n \<in> set (isn_staleMirrors snap). sn_topics s n = None)"
proof -
  obtain listed topics links s where q: "ac_listTopics k w = Inr listed"
      "read_topics describe (so_includeInternal opt) listed w = Inr topics" "s = read_snapshot k rest links w" "complete s"
    and sn: "isn_topics snap = filter (\<lambda>t. plain_class (classify s (tsn_name t))) (sort_key tsn_name topics)"
      "isn_mirrors snap = map (\<lambda>t. mirror_snapshot_of t (mirror_at s (tsn_name t)))
         (filter (\<lambda>t. classify s (tsn_name t) = MirrorTopic) (sort_key tsn_name topics))"
      "isn_deferredMirrors snap = map tsn_name (filter (\<lambda>t. classify s (tsn_name t) = StoppingMirror) (sort_key tsn_name topics))"
    and known: "\<forall>t \<in> set topics. classify s (tsn_name t) \<noteq> UnknownTopic"
    and stale: "\<forall>n \<in> set (isn_staleMirrors snap). sn_topics s n = None"
    by (rule read_mirror_snapshot [OF assms(1,2)])
  have "map msn_name (isn_mirrors snap) = map tsn_name (filter (\<lambda>t. classify s (tsn_name t) = MirrorTopic) (sort_key tsn_name topics))"
    by (simp add: sn(2) mirror_snapshot_of_def)
  then have parts: "mset (map tsn_name (isn_topics snap) @ map msn_name (isn_mirrors snap) @ isn_deferredMirrors snap) = mset (map tsn_name topics)"
    using three_classes [of "sort_key tsn_name topics" s tsn_name] known by (simp add: sn(1,3) add.assoc)
  have "guard_op s (desired_topic_of (default_topic t d)) = None"
    if t: "t \<in> set (ir_topics res)" "kts_topicName (kt_spec t) \<noteq> []" for t
  proof -
    obtain ts n where ts: "ts \<in> set (isn_topics snap)" "bare_topic t = import_topic c n ts"
      using imported_topic t(1) unfolding assms(3) by blast
    have "resolved_topic_name t = tsn_name ts" using bare_topic_fields(1) [OF ts(2)] t(2) by (simp add: resolved_topic_name_def)
    then show ?thesis
      using ts(1) by (intro plain_unguarded) (simp add: sn(1) desired_topic_of_def Let_def default_topic_resolved)
  qed
  moreover have "let n = kms_topicName (km_spec m)
       in classify s n = MirrorTopic \<and> kms_linkName (km_spec m) = mi_linkName (mirror_at s n) \<and>
         kms_sourceTopicName (km_spec m) = mi_sourceTopicName (mirror_at s n)" if m: "m \<in> set (ir_mirrors res)" for m
    using imported_mirror m unfolding assms(3) sn(2)
    by (fastforce simp: import_mirror_def mirror_snapshot_of_def sn(2))
  ultimately show ?thesis using q parts stale by blast
qed

definition rest_entry :: "string \<Rightarrow> string \<Rightarrow> string \<Rightarrow> rest_mirror" where
  "rest_entry name source status =
     \<lparr>mi_linkName = ''l'', mi_mirrorTopicName = name, mi_sourceTopicName = source, mi_status = status,
      mi_numPartitions = 1, mi_stateTimeMs = 0\<rparr>"

definition mirrored_world :: cli_world where
  "mirrored_world =
     \<lparr>cw_kafka = km_set_cluster_id ''id'' (km_new
        (map (\<lambda>n. \<lparr>tst_name = n, tst_partitions = 1, tst_replicationFactor = 3, tst_config = []\<rparr>)
          [''orders'', ''copy'', ''promoting'', ''__consumer_offsets'']) []),
      cw_mds = mm_new [], cw_schema = sm_new,
      cw_rest = fold rm_add_mirror
        [rest_entry ''gone'' ''gone'' ''STOPPED'', rest_entry ''promoting'' ''p'' ''PENDING_STOPPED'',
         rest_entry ''copy'' ''orig'' ''ACTIVE''] (rm_new ''id'')\<rparr>"

definition with_rest :: "cli_world snapshot_options" where
  "with_rest = \<lparr>so_skipUsers = False, so_skipQuotas = False, so_includeInternal = False, so_rest = Some world_rest\<rparr>"

definition mirrored_snapshot :: import_snapshot where
  "mirrored_snapshot = projr (read_import_snapshot id (\<lambda>n w. km_describe_topic_configs n (cw_kafka w)) world_admin None None []
     with_rest mirrored_world)"

lemma mirrored_parts:
  "(map tsn_name (isn_topics mirrored_snapshot), map msn_name (isn_mirrors mirrored_snapshot),
     isn_deferredMirrors mirrored_snapshot, isn_staleMirrors mirrored_snapshot) = ([''orders''], [''copy''], [''promoting''], [''gone''])"
  by code_simp

theorem import_separates_mirrors_witness:
  "\<exists>s. complete s \<and> sn_topics s ''gone'' = None \<and>
     (\<forall>t \<in> set (ir_topics (import_build id id mirrored_snapshot ''c'' [] None \<lparr>io_connectingUser = [], io_includeConnectingUser = False\<rparr>)).
        kts_topicName (kt_spec t) \<noteq> [] \<longrightarrow> guard_op s (desired_topic_of (default_topic t None)) = None) \<and>
     mset (map tsn_name (isn_topics mirrored_snapshot)) = {#''orders''#} \<and>
     mset (map msn_name (isn_mirrors mirrored_snapshot)) = {#''copy''#}"
proof -
  let ?describe = "\<lambda>n w. km_describe_topic_configs n (cw_kafka w)"
  have "\<not> isl (read_import_snapshot id ?describe world_admin None None [] with_rest mirrored_world)" by code_simp
  then have read: "read_import_snapshot id ?describe world_admin None None [] with_rest mirrored_world = Inr mirrored_snapshot"
    by (simp add: mirrored_snapshot_def)
  have rest: "so_rest with_rest = Some world_rest" by (simp add: with_rest_def)
  have parts: "isn_staleMirrors mirrored_snapshot = [''gone'']" "map tsn_name (isn_topics mirrored_snapshot) = [''orders'']"
    "map msn_name (isn_mirrors mirrored_snapshot) = [''copy'']" using mirrored_parts by simp_all
  show ?thesis
    using import_separates_mirrors [OF read rest refl, where ord = id and c = "''c''" and bs = "[]" and cfg = None
        and io = "\<lparr>io_connectingUser = [], io_includeConnectingUser = False\<rparr>" and d = None] parts
    by (elim exE conjE) (rule exI, intro conjI, assumption, simp_all)
qed

subsection \<open>Schema blocks\<close>

lemma topic_pos_nth:
  assumes "distinct (map tsn_name snaps)" "i < length snaps"
  shows "topic_pos snaps (tsn_name (snaps ! i)) = Some i"
proof -
  let ?z = "zip (map tsn_name snaps) [0..<length snaps]"
  have "(tsn_name (snaps ! i), i) \<in> set (rev ?z)" using assms(2) by (auto simp: set_zip intro!: exI [of _ i])
  moreover have "distinct (map fst (rev ?z))" using assms(1) by (simp add: rev_map [symmetric] del: rev_map)
  ultimately show ?thesis unfolding topic_pos_def by (rule map_of_is_SomeI [rotated])
qed

text \<open>What a schema step may do to a topic: nothing, take its block away, or give it one it has subjects for.\<close>

definition live_schema :: "import_snapshot \<Rightarrow> string \<Rightarrow> topic_subjects option" where
  "live_schema snap n =
     (case isn_schemas snap n of
        None \<Rightarrow> None
      | Some s \<Rightarrow> (if tsc_value s = None then None else Some s))"

definition block_ok :: "import_snapshot \<Rightarrow> topic_snapshot \<Rightarrow> kafka_topic \<Rightarrow> bool" where
  "block_ok snap ts tp \<longleftrightarrow>
     (case kts_schema (kt_spec tp) of
        None \<Rightarrow> True
      | Some sc \<Rightarrow>
          (case live_schema snap (tsn_name ts) of
             None \<Rightarrow> False | Some s \<Rightarrow> block_subjects tp sc s = Inr (live_subjects s)))"

definition block_known :: "import_snapshot \<Rightarrow> topic_snapshot \<Rightarrow> kafka_topic \<Rightarrow> bool" where
  "block_known snap ts tp \<longleftrightarrow> (kts_schema (kt_spec tp) \<noteq> None \<longrightarrow> live_schema snap (tsn_name ts) \<noteq> None)"

lemma nth_at_topic:
  "i < length tps \<Longrightarrow> at_topic pos n f tps ! i = (if pos n = Some i then f (tps ! i) else tps ! i)"
  by (auto simp: at_topic_def nth_list_update split: option.split)

lemma length_at_topic [simp]: "length (at_topic pos n f tps) = length tps"
  by (simp add: at_topic_def split: option.split)

lemma schema_set [simp]: "kts_schema (kt_spec (set_schema sc tp)) = sc"
  by (simp add: set_schema_def)

lemma block_cleared [simp]: "block_ok snap ts (set_schema None tp)" "block_known snap ts (set_schema None tp)"
  by (simp_all add: block_ok_def block_known_def)

lemma apply_schema_known:
  assumes "i < length (sb_topics b)" "block_known snap (isn_topics snap ! i) (sb_topics b ! i)"
  shows "block_known snap (isn_topics snap ! i) (sb_topics (apply_schema quote (topic_pos (isn_topics snap)) snap b ts) ! i)"
  using assms topic_pos_Some [of "isn_topics snap" "tsn_name ts" i]
  by (auto simp: apply_schema_def apply_value_schema_def Let_def case_prod_beta nth_at_topic block_known_def
      live_schema_def split: option.split)

lemma apply_schema_length [simp]:
  "length (sb_topics (apply_schema quote pos snap b ts)) = length (sb_topics b)"
  by (simp add: apply_schema_def apply_value_schema_def Let_def case_prod_beta split: option.split)

lemma apply_foldl_length [simp]:
  "length (sb_topics (foldl (apply_schema quote pos snap) b tss)) = length (sb_topics b)"
  by (induction tss arbitrary: b) simp_all

lemma verify_schema_length [simp]:
  "length (sb_topics (verify_schema quote pos snap b ts)) = length (sb_topics b)"
  by (simp add: verify_schema_def drop_block_def Let_def split: option.split)

text \<open>A verify step leaves a topic alone or clears its block; at its own topic it leaves a good one only.\<close>

lemma verify_schema_at:
  assumes "i < length (sb_topics b)"
  shows "sb_topics (verify_schema quote pos snap b ts) ! i \<in> {sb_topics b ! i, set_schema None (sb_topics b ! i)}"
  using assms by (auto simp: verify_schema_def drop_block_def Let_def nth_at_topic split: option.split)

lemma verify_schema_own:
  assumes "i < length (sb_topics b)" "pos (tsn_name ts) = Some i" "block_known snap ts (sb_topics b ! i)"
  shows "block_ok snap ts (sb_topics (verify_schema quote pos snap b ts) ! i)"
  using assms
  by (auto simp: verify_schema_def drop_block_def Let_def nth_at_topic block_ok_def block_known_def live_schema_def
      split: option.splits if_splits)

lemma apply_schemas_known:
  "i < length (sb_topics b) \<Longrightarrow> block_known snap (isn_topics snap ! i) (sb_topics b ! i) \<Longrightarrow>
   block_known snap (isn_topics snap ! i) (sb_topics (foldl (apply_schema quote (topic_pos (isn_topics snap)) snap) b tss) ! i)"
  by (induction tss arbitrary: b) (simp_all add: apply_schema_known)

lemma verify_schemas_ok:
  assumes "i < length (sb_topics b)" "pos (tsn_name ts) = Some i" "ts \<in> set tss \<or> block_ok snap ts (sb_topics b ! i)"
    and "block_known snap ts (sb_topics b ! i)"
  shows "block_ok snap ts (sb_topics (foldl (verify_schema quote pos snap) b tss) ! i)"
  using assms
proof (induction tss arbitrary: b)
  case (Cons t tss)
  let ?b = "verify_schema quote pos snap b t"
  have "sb_topics ?b ! i \<in> {sb_topics b ! i, set_schema None (sb_topics b ! i)}" by (rule verify_schema_at [OF Cons.prems(1)])
  then have "block_known snap ts (sb_topics ?b ! i)"
    and keep: "block_ok snap ts (sb_topics b ! i) \<Longrightarrow> block_ok snap ts (sb_topics ?b ! i)"
    using Cons.prems(4) by auto
  moreover have "t = ts \<Longrightarrow> block_ok snap ts (sb_topics ?b ! i)"
    using verify_schema_own [OF Cons.prems(1) _ Cons.prems(4)] Cons.prems(2) by blast
  ultimately show ?case using Cons.IH [of ?b] Cons.prems(1-3) by auto
qed simp

lemma fresh_length: "fresh snaps tps \<Longrightarrow> length tps = length snaps"
  unfolding fresh_def by (drule arg_cong [where f = length]) simp

lemma built_topics_block_ok:
  assumes "distinct (map tsn_name (isn_topics snap))" "i < length (isn_topics snap)"
  shows "block_ok snap (isn_topics snap ! i) (built_topics quote snap c ! i)"
proof -
  let ?tps = "fst (build_topics quote c [] (isn_topics snap))"
  have len: "length ?tps = length (isn_topics snap)"
    by (rule fresh_length [OF build_topics_fresh])
  define b where "b = foldl (apply_schema quote (topic_pos (isn_topics snap)) snap)
    \<lparr>sb_topics = ?tps, sb_files = [], sb_warnings = []\<rparr> (isn_topics snap)"
  have "?tps ! i \<in> set ?tps" using assms(2) len by simp
  from build_topics_members [OF this] have "kts_schema (kt_spec (?tps ! i)) = None" by (auto simp: import_topic_def)
  then have known: "block_known snap (isn_topics snap ! i) (sb_topics b ! i)"
    unfolding b_def using assms(2) len by (intro apply_schemas_known) (simp_all add: block_known_def)
  have "length (sb_topics b) = length ?tps" unfolding b_def
    by (simp add: apply_foldl_length)
  then have "block_ok snap (isn_topics snap ! i)
      (sb_topics (foldl (verify_schema quote (topic_pos (isn_topics snap)) snap) (b\<lparr>sb_warnings := ws\<rparr>) (isn_topics snap)) ! i)" for ws
    using assms len known topic_pos_nth [OF assms]
    by (intro verify_schemas_ok) simp_all
  then show ?thesis by (simp add: built_topics_def verify_schema_subjects_def apply_schemas_def Let_def b_def)
qed

text \<open>
  C26. A schema block that an import keeps applies to the subjects it came from. For a snapshot with distinct topic
  names, if an imported topic carries \<open>spec.schema\<close> then the registry had a value subject matched to that
  topic, and the subject names the pipeline computes from the block - by its naming strategy, from the
  topic's name and the record names in the bodies - are exactly the live subjects the bodies were read from;
  a block that would write to other subjects is never emitted, whatever strategy it was detected by and
  whether or not access reconstruction fell back.
\<close>

theorem kept_schema_blocks_faithful:
  assumes "distinct (map tsn_name (isn_topics snap))" "i < length (isn_topics snap)"
    and "res = import_build ord quote snap c bs cfg io" "kts_schema (kt_spec (ir_topics res ! i)) = Some sc"
  shows "\<exists>s v. isn_schemas snap (tsn_name (isn_topics snap ! i)) = Some s \<and> tsc_value s = Some v \<and>
    kts_topicName (kt_spec (ir_topics res ! i)) = tsn_name (isn_topics snap ! i) \<and>
    subjects (ts_subjectStrategy sc) (tsn_name (isn_topics snap ! i)) sc (sch_definition (ss_schema v)) (slot_body (tsc_key s)) =
      Inr (ss_subject v, slot_subject (tsc_key s))"
proof -
  let ?tp = "ir_topics res ! i" and ?tp' = "built_topics quote snap c ! i"
  have shape: "map clear_access (ir_topics res) = map clear_access (built_topics quote snap c)"
    unfolding assms(3) by (rule import_topics_shape)
  have fresh: "fresh (isn_topics snap) (built_topics quote snap c)"
    by (simp add: built_topics_def schemas_fresh build_topics_fresh)
  have len: "length (built_topics quote snap c) = length (isn_topics snap)" by (rule fresh_length [OF fresh])
  then have len': "length (ir_topics res) = length (isn_topics snap)" using arg_cong [OF shape, of length] by simp
  have "map clear_access (ir_topics res) ! i = map clear_access (built_topics quote snap c) ! i" by (simp only: shape)
  then have "clear_access ?tp = clear_access ?tp'" using len len' assms(2) by simp
  then have "kts_schema (kt_spec (clear_access ?tp)) = kts_schema (kt_spec (clear_access ?tp'))"
    "kts_topicName (kt_spec (clear_access ?tp)) = kts_topicName (kt_spec (clear_access ?tp'))" by simp_all
  then have same: "kts_schema (kt_spec ?tp') = Some sc" "kts_topicName (kt_spec ?tp) = kts_topicName (kt_spec ?tp')"
    using assms(4) by (simp_all add: clear_access_def)
  have "map (\<lambda>tp. (kts_topicName (kt_spec tp), kts_access (kt_spec tp))) (built_topics quote snap c) ! i =
      map (\<lambda>s. (tsn_name s, no_access)) (isn_topics snap) ! i" using fresh by (simp only: fresh_def)
  then have name: "kts_topicName (kt_spec ?tp') = tsn_name (isn_topics snap ! i)" using len assms(2) by simp
  have "block_ok snap (isn_topics snap ! i) ?tp'" by (rule built_topics_block_ok [OF assms(1,2)])
  then show ?thesis
    using same name
    by (auto simp: block_ok_def live_schema_def block_subjects_def live_subjects_def slot_body_def slot_subject_def
        split: option.splits if_splits)
qed

definition schema_snapshot :: import_snapshot where
  "schema_snapshot =
     \<lparr>isn_topics = [\<lparr>tsn_name = ''orders'', tsn_partitions = 1, tsn_replicationFactor = 1, tsn_config = []\<rparr>],
      isn_acls = [], isn_quotas = [], isn_scram = [],
      isn_schemas = [''orders'' \<mapsto>
        \<lparr>tsc_value = Some \<lparr>ss_subject = ''orders-value'', ss_id = 1, ss_version = 1,
           ss_schema = \<lparr>sch_type = ''AVRO'', sch_definition = ''{}''\<rparr>, ss_compatibility = ''BACKWARD''\<rparr>,
         tsc_key = None, tsc_valueStrategy = ''TopicName'', tsc_keyStrategy = []\<rparr>],
      isn_recordNameSubjects = [], isn_schemaAmbiguities = [], isn_unmatchedSubjects = [], isn_roleBindings = [],
      isn_mirrors = [], isn_mirrorLinks = [], isn_deferredMirrors = [], isn_staleMirrors = []\<rparr>"

theorem kept_schema_blocks_faithful_witness:
  "let r = import_build id id schema_snapshot ''c'' [] None \<lparr>io_connectingUser = [], io_includeConnectingUser = False\<rparr>;
       sc = the (kts_schema (kt_spec (ir_topics r ! 0)))
   in kts_schema (kt_spec (ir_topics r ! 0)) \<noteq> None \<and>
      subjects (ts_subjectStrategy sc) ''orders'' sc ''{}'' [] = Inr (''orders-value'', [])"
proof -
  let ?r = "import_build id id schema_snapshot ''c'' [] None \<lparr>io_connectingUser = [], io_includeConnectingUser = False\<rparr>"
  have some: "kts_schema (kt_spec (ir_topics ?r ! 0)) \<noteq> None" by code_simp
  then have sc: "kts_schema (kt_spec (ir_topics ?r ! 0)) = Some (the (kts_schema (kt_spec (ir_topics ?r ! 0))))" by simp
  have snap: "distinct (map tsn_name (isn_topics schema_snapshot))" "0 < length (isn_topics schema_snapshot)"
    by (simp_all add: schema_snapshot_def)
  show ?thesis
    using kept_schema_blocks_faithful [OF snap refl sc] some
    by (simp add: Let_def schema_snapshot_def slot_body_def slot_subject_def)
qed

end
