(* ===== verification/Webhooks.thy ===== *)
theory Webhooks
  imports Reconcile Tenancy Duplicate_Gate Controllers
begin

section \<open>Admission webhooks (internal/operator/webhook)\<close>

text \<open>
  The five validators, one group of definitions per kind: \<open>ValidateCreate\<close>, \<open>ValidateUpdate\<close> and the
  checks they call. A validator returns \<^term>\<open>None\<close> to admit. \<open>cns\<close> is the \<open>ClusterNamespace\<close> option.
  The manager's cached client is the record \<open>cached_reader\<close>: \<open>Get\<close> of a KafkaCluster and one
  \<open>List\<close> with \<open>MatchingFields\<close> per kind, whose argument is the indexed value. The index keys themselves
  are \<open>RegisterIndexes\<close> of internal/operator/index. Section signs and long dashes of the messages are left out or
  written in ASCII.
\<close>

record 'w cached_reader =
  rd_cluster :: "string \<Rightarrow> string \<Rightarrow> 'w \<Rightarrow> get_error + kafka_cluster"
  rd_topics :: "string \<Rightarrow> ('w, (kafka_topic, topic_status) crd list) query"
  rd_policies :: "string \<Rightarrow> ('w, (kafka_access_policy, policy_status) crd list) query"
  rd_quotas :: "string \<Rightarrow> ('w, (kafka_quota, quota_status) crd list) query"
  rd_roleBindings :: "string \<Rightarrow> ('w, (kafka_role_binding, role_binding_status) crd list) query"
  rd_users :: "string \<Rightarrow> ('w, (kafka_user, user_status) crd list) query"

definition index_topic :: "kafka_topic \<Rightarrow> string list" where
  "index_topic t = [cr_name (kts_clusterRef (kt_spec t))]"

definition index_quota :: "kafka_quota \<Rightarrow> string list" where
  "index_quota q = [cr_name (kqs_clusterRef (kq_spec q))]"

definition index_policy :: "kafka_access_policy \<Rightarrow> string list" where
  "index_policy p = [cr_name (aps_clusterRef (ap_spec p))]"

definition index_role_binding :: "kafka_role_binding \<Rightarrow> string list" where
  "index_role_binding rb = [cr_name (krs_clusterRef (kr_spec rb))]"

definition index_user :: "kafka_user \<Rightarrow> string list" where
  "index_user u = [cr_name (kus_clusterRef (ku_spec u))]"

subsection \<open>What the validators share\<close>

definition cluster_namespace_for :: "string \<Rightarrow> object_meta \<Rightarrow> string" where
  "cluster_namespace_for cns m = (if cns \<noteq> [] then cns else om_namespace m)"

text \<open>\<open>errors.New(strings.Join(msgs, "; "))\<close>, when there is a message.\<close>

fun join_semicolon :: "go_error list \<Rightarrow> message" where
  "join_semicolon [] = []"
| "join_semicolon [e] = e"
| "join_semicolon (e # es) = e @ [T ''; ''] @ join_semicolon es"

definition shape_verdict :: "go_error list \<Rightarrow> go_error option" where
  "shape_verdict es = (if es = [] then None else Some (join_semicolon es))"

definition object_text :: "string \<Rightarrow> object_meta \<Rightarrow> message" where
  "object_text kind m = [T kind, T '' '', T (om_namespace m), T ''/'', T (om_name m)]"

definition immutable_text :: "string \<Rightarrow> object_meta \<Rightarrow> message \<Rightarrow> string \<Rightarrow> string \<Rightarrow> string \<Rightarrow> go_error" where
  "immutable_text kind m field old new why =
     object_text kind m @ [T '': ''] @ field @ [T '' cannot change from '', Q old, T '' to '', Q new, T why]"

definition immutable_check ::
    "string \<Rightarrow> object_meta \<Rightarrow> message \<Rightarrow> string \<Rightarrow> string \<Rightarrow> string \<Rightarrow> go_error option" where
  "immutable_check kind m field old new why =
     (if old \<noteq> new then Some (immutable_text kind m field old new why) else None)"

text \<open>
  The identity scan of topics, quotas and users: over the objects with the same cluster reference, the
  first with another UID, the same identity and the same resolved cluster namespace.
\<close>

definition identity_clash :: "string \<Rightarrow> ('o \<Rightarrow> object_meta) \<Rightarrow> ('o \<Rightarrow> string) \<Rightarrow> 'o \<Rightarrow> 'o \<Rightarrow> bool" where
  "identity_clash cns meta ident x other \<longleftrightarrow>
     om_uid (meta other) \<noteq> om_uid (meta x) \<and> ident other = ident x \<and>
     cluster_namespace_for cns (meta other) = cluster_namespace_for cns (meta x)"

definition clash_text :: "string \<Rightarrow> object_meta \<Rightarrow> object_meta \<Rightarrow> string \<Rightarrow> string \<Rightarrow> string \<Rightarrow> string \<Rightarrow> string \<Rightarrow> go_error" where
  "clash_text kind m other what identity ref clusterNS why =
     object_text kind m @ [T '' conflicts with '', T (om_namespace other), T ''/'', T (om_name other),
       T '': both resolve to '', T what, T '' '', Q identity, T '' on cluster '', Q ref, T '' (namespace '',
       Q clusterNS, T ''); '', T why]"

definition scan_identity ::
    "string \<Rightarrow> ('o \<Rightarrow> object_meta) \<Rightarrow> ('o \<Rightarrow> string) \<Rightarrow> 'o \<Rightarrow> (object_meta \<Rightarrow> go_error) \<Rightarrow>
     go_error + ('o, 's) crd list \<Rightarrow> go_error option" where
  "scan_identity cns meta ident x describe listed =
     (case listed of
        Inl e \<Rightarrow> Some e
      | Inr items \<Rightarrow>
          map_option (\<lambda>other. describe (meta (crd_obj other)))
            (find (\<lambda>other. identity_clash cns meta ident x (crd_obj other)) items))"

subsection \<open>KafkaTopic\<close>

definition topic_identity_unique ::
    "string \<Rightarrow> 'w cached_reader \<Rightarrow> (kafka_topic, topic_status) crd \<Rightarrow> 'w \<Rightarrow> go_error option" where
  "topic_identity_unique cns rd t w =
     (let x = crd_obj t; ref = cr_name (kts_clusterRef (kt_spec x))
      in scan_identity cns kt_meta resolved_topic_name x
           (\<lambda>other. clash_text ''KafkaTopic'' (kt_meta x) other ''topicName'' (resolved_topic_name x) ref
              (cluster_namespace_for cns (kt_meta x)) ''topic identity (cluster, topicName) must be unique (spec 5.3)'')
           (listing_error ''KafkaTopics'' ''identity check'' (rd_topics rd ref w)))"

definition topic_tenancy ::
    "string \<Rightarrow> 'w cached_reader \<Rightarrow> (kafka_topic, topic_status) crd \<Rightarrow> 'w \<Rightarrow> go_error option" where
  "topic_tenancy cns rd t w =
     (let x = crd_obj t
      in case rd_cluster rd (cluster_namespace_for cns (kt_meta x)) (cr_name (kts_clusterRef (kt_spec x))) w of
           Inl (NotFound _) \<Rightarrow> None
         | Inl (GetError e) \<Rightarrow> Some ([T ''resolving clusterRef for tenancy check: ''] @ e)
         | Inr cluster \<Rightarrow>
             check_tenancy (kcs_tenancy (kc_spec cluster)) (om_namespace (kt_meta x)) (resolved_topic_name x))"

definition topic_validate_create ::
    "string \<Rightarrow> 'w cached_reader \<Rightarrow> (kafka_topic, topic_status) crd \<Rightarrow> 'w \<Rightarrow> go_error option" where
  "topic_validate_create cns rd t w = or_else (topic_identity_unique cns rd t w) (topic_tenancy cns rd t w)"

definition topic_validate_update ::
    "string \<Rightarrow> 'w cached_reader \<Rightarrow> (kafka_topic, topic_status) crd \<Rightarrow> (kafka_topic, topic_status) crd \<Rightarrow> 'w \<Rightarrow>
     go_error option" where
  "topic_validate_update cns rd old new w =
     (let x = crd_obj old; y = crd_obj new
      in or_else (immutable_check ''KafkaTopic'' (kt_meta y)
              [T ''spec.topicName is immutable: resolved topic name''] (resolved_topic_name x) (resolved_topic_name y)
              '' (a rename is a delete + create of a different Kafka topic)'')
         (or_else (immutable_check ''KafkaTopic'' (kt_meta y) [T ''spec.clusterRef.name is immutable:'']
              (cr_name (kts_clusterRef (kt_spec x))) (cr_name (kts_clusterRef (kt_spec y)))
              '' (repointing a topic orphans state on the previous cluster)'')
         (or_else (topic_identity_unique cns rd new w)
            (if crd_deleting new then None else topic_tenancy cns rd new w))))"

subsection \<open>KafkaQuota\<close>

definition check_quota_shape :: "kafka_quota \<Rightarrow> go_error option" where
  "check_quota_shape q = shape_verdict (validate_quota_shape q)"

definition quota_identity_unique ::
    "string \<Rightarrow> 'w cached_reader \<Rightarrow> (kafka_quota, quota_status) crd \<Rightarrow> 'w \<Rightarrow> go_error option" where
  "quota_identity_unique cns rd q w =
     (let x = crd_obj q; ref = cr_name (kqs_clusterRef (kq_spec x))
      in scan_identity cns kq_meta resolved_entity_key x
           (\<lambda>other. clash_text ''KafkaQuota'' (kq_meta x) other ''entity'' (resolved_entity_key x) ref
              (cluster_namespace_for cns (kq_meta x)) ''quota identity (cluster, entity) must be unique (spec 39.5)'')
           (listing_error ''KafkaQuotas'' ''identity check'' (rd_quotas rd ref w)))"

definition quota_validate_create ::
    "string \<Rightarrow> 'w cached_reader \<Rightarrow> (kafka_quota, quota_status) crd \<Rightarrow> 'w \<Rightarrow> go_error option" where
  "quota_validate_create cns rd q w = or_else (check_quota_shape (crd_obj q)) (quota_identity_unique cns rd q w)"

definition quota_validate_update ::
    "string \<Rightarrow> 'w cached_reader \<Rightarrow> (kafka_quota, quota_status) crd \<Rightarrow> (kafka_quota, quota_status) crd \<Rightarrow> 'w \<Rightarrow>
     go_error option" where
  "quota_validate_update cns rd old new w =
     (let x = crd_obj old; y = crd_obj new
      in or_else (check_quota_shape y)
         (or_else (immutable_check ''KafkaQuota'' (kq_meta y) [T ''spec.clusterRef.name is immutable:'']
              (cr_name (kqs_clusterRef (kq_spec x))) (cr_name (kqs_clusterRef (kq_spec y)))
              '' (repointing a quota orphans the previous cluster's quota)'')
         (or_else (immutable_check ''KafkaQuota'' (kq_meta y) [T ''spec.entity is immutable: resolved entity'']
              (resolved_entity_key x) (resolved_entity_key y)
              '' (changing it orphans the previous entity's quota)'')
            (quota_identity_unique cns rd new w))))"

subsection \<open>KafkaUser\<close>

definition check_user_shape :: "kafka_user \<Rightarrow> go_error option" where
  "check_user_shape u = shape_verdict (validate_user_shape (u\<lparr>ku_meta := fill_api_version (ku_meta u)\<rparr>))"

definition user_identity_unique ::
    "string \<Rightarrow> 'w cached_reader \<Rightarrow> (kafka_user, user_status) crd \<Rightarrow> 'w \<Rightarrow> go_error option" where
  "user_identity_unique cns rd u w =
     (let x = crd_obj u; ref = cr_name (kus_clusterRef (ku_spec x))
      in scan_identity cns ku_meta resolved_username x
           (\<lambda>other. clash_text ''KafkaUser'' (ku_meta x) other ''username'' (resolved_username x) ref
              (cluster_namespace_for cns (ku_meta x)) ''user identity (cluster, username) must be unique'')
           (listing_error ''KafkaUsers'' ''identity check'' (rd_users rd ref w)))"

definition user_validate_create ::
    "string \<Rightarrow> 'w cached_reader \<Rightarrow> (kafka_user, user_status) crd \<Rightarrow> 'w \<Rightarrow> go_error option" where
  "user_validate_create cns rd u w = or_else (check_user_shape (crd_obj u)) (user_identity_unique cns rd u w)"

definition user_validate_update ::
    "string \<Rightarrow> 'w cached_reader \<Rightarrow> (kafka_user, user_status) crd \<Rightarrow> (kafka_user, user_status) crd \<Rightarrow> 'w \<Rightarrow>
     go_error option" where
  "user_validate_update cns rd old new w =
     (let x = crd_obj old; y = crd_obj new
      in or_else (check_user_shape y)
         (or_else (immutable_check ''KafkaUser'' (ku_meta y) [T ''spec.clusterRef.name is immutable:'']
              (cr_name (kus_clusterRef (ku_spec x))) (cr_name (kus_clusterRef (ku_spec y)))
              '' (repointing a user orphans the credential on the previous cluster)'')
         (or_else (immutable_check ''KafkaUser'' (ku_meta y) [T ''spec.username is immutable: resolved username'']
              (resolved_username x) (resolved_username y)
              '' (a rename is a delete + create of a different Kafka principal)'')
            (user_identity_unique cns rd new w))))"

subsection \<open>KafkaRoleBinding\<close>

definition check_role_binding_shape :: "kafka_role_binding \<Rightarrow> go_error option" where
  "check_role_binding_shape rb =
     shape_verdict (validate_role_binding_shape (rb\<lparr>kr_meta := fill_api_version (kr_meta rb)\<rparr>))"

definition same_object :: "object_meta \<Rightarrow> object_meta \<Rightarrow> bool" where
  "same_object a b \<longleftrightarrow> om_namespace a = om_namespace b \<and> om_name a = om_name b"

text \<open>The first listed binding of another object on the same cluster whose key is among \<open>mine\<close>.\<close>

fun first_overlap ::
    "string \<Rightarrow> mds_config \<Rightarrow> object_meta \<Rightarrow> string list \<Rightarrow> (kafka_role_binding, 's) crd list \<Rightarrow>
     (object_meta \<times> string) option" where
  "first_overlap cns mds m mine [] = None"
| "first_overlap cns mds m mine (other # others) =
     (let o_meta = kr_meta (crd_obj other)
      in if same_object o_meta m then first_overlap cns mds m mine others
         else if cluster_namespace_for cns o_meta \<noteq> cluster_namespace_for cns m
         then first_overlap cns mds m mine others
         else case overlap_key mine mds (crd_obj other) of
                None \<Rightarrow> first_overlap cns mds m mine others
              | Some key \<Rightarrow> Some (o_meta, key))"

definition role_binding_identity_unique ::
    "string \<Rightarrow> 'w cached_reader \<Rightarrow> (kafka_role_binding, role_binding_status) crd \<Rightarrow> 'w \<Rightarrow> go_error option" where
  "role_binding_identity_unique cns rd rb w =
     (let x = crd_obj rb; m = kr_meta x; ref = cr_name (krs_clusterRef (kr_spec x));
          clusterNS = cluster_namespace_for cns m
      in case rd_cluster rd clusterNS ref w of
           Inl _ \<Rightarrow> None
         | Inr cluster \<Rightarrow>
             (case cluster_mds cluster of
                None \<Rightarrow> None
              | Some mds \<Rightarrow>
                  (case rbac_compile x mds of
                     Inl _ \<Rightarrow> None
                   | Inr incoming \<Rightarrow>
                       (case listing_error ''KafkaRoleBindings'' ''identity check'' (rd_roleBindings rd ref w) of
                          Inl e \<Rightarrow> Some e
                        | Inr items \<Rightarrow>
                            map_option (\<lambda>(other, key). clash_text ''KafkaRoleBinding'' m other
                                ''MDS binding identity'' key ref clusterNS
                                ''role binding identity (cluster, principal, role, scope, resource) must be unique (spec 40)'')
                              (first_overlap cns mds m (map rb_full_key incoming) items)))))"

definition role_binding_validate_create ::
    "string \<Rightarrow> 'w cached_reader \<Rightarrow> (kafka_role_binding, role_binding_status) crd \<Rightarrow> 'w \<Rightarrow> go_error option" where
  "role_binding_validate_create cns rd rb w =
     or_else (check_role_binding_shape (crd_obj rb)) (role_binding_identity_unique cns rd rb w)"

definition role_binding_immutable :: "object_meta \<Rightarrow> string \<Rightarrow> string \<Rightarrow> string \<Rightarrow> go_error option" where
  "role_binding_immutable m field old new =
     immutable_check ''KafkaRoleBinding'' m [T field, T '' is immutable:''] old new
       '' (changing it orphans the previous MDS bindings)''"

definition role_binding_validate_update ::
    "string \<Rightarrow> 'w cached_reader \<Rightarrow> (kafka_role_binding, role_binding_status) crd \<Rightarrow>
     (kafka_role_binding, role_binding_status) crd \<Rightarrow> 'w \<Rightarrow> go_error option" where
  "role_binding_validate_update cns rd old new w =
     (let a = kr_spec (crd_obj old); b = kr_spec (crd_obj new); m = kr_meta (crd_obj new)
      in or_else (check_role_binding_shape (crd_obj new))
         (or_else (role_binding_immutable m ''spec.clusterRef.name'' (cr_name (krs_clusterRef a)) (cr_name (krs_clusterRef b)))
         (or_else (role_binding_immutable m ''spec.principal'' (krs_principal a) (krs_principal b))
         (or_else (role_binding_immutable m ''spec.role'' (krs_role a) (krs_role b))
         (or_else (role_binding_immutable m ''spec.scope.type'' (rbs_type (krs_scope a)) (rbs_type (krs_scope b)))
            (role_binding_identity_unique cns rd new w))))))"

subsection \<open>KafkaAccessPolicy\<close>

definition check_policy_shape :: "kafka_access_policy \<Rightarrow> go_error option" where
  "check_policy_shape pol =
     shape_verdict (validate_access_policy_shape (pol\<lparr>ap_meta := fill_api_version (ap_meta pol)\<rparr>))"

definition in_policy_scope :: "string \<Rightarrow> object_meta \<Rightarrow> object_meta \<Rightarrow> bool" where
  "in_policy_scope cns m other \<longleftrightarrow> \<not> (cns = [] \<and> om_namespace other \<noteq> om_namespace m)"

definition scoped_topics ::
    "string \<Rightarrow> object_meta \<Rightarrow> (kafka_topic, topic_status) crd list \<Rightarrow> kafka_topic list" where
  "scoped_topics cns m items =
     map crd_obj (filter (\<lambda>x. \<not> crd_deleting x \<and> in_policy_scope cns m (kt_meta (crd_obj x))) items)"

definition other_policies ::
    "string \<Rightarrow> object_meta \<Rightarrow> (kafka_access_policy, policy_status) crd list \<Rightarrow> kafka_access_policy list" where
  "other_policies cns m items =
     map crd_obj (filter (\<lambda>x. \<not> crd_deleting x \<and> \<not> same_object (ap_meta (crd_obj x)) m \<and>
       in_policy_scope cns m (ap_meta (crd_obj x))) items)"

definition sourced_by :: "object_meta \<Rightarrow> acl \<Rightarrow> bool" where
  "sourced_by m a \<longleftrightarrow>
     acl_sourceKind a = ''KafkaAccessPolicy'' \<and> acl_sourceNamespace a = om_namespace m \<and>
     acl_sourceName a = om_name m"

definition conflict_text :: "object_meta \<Rightarrow> acl \<Rightarrow> string \<Rightarrow> go_error" where
  "conflict_text m other subject =
     object_text ''KafkaAccessPolicy'' m @
     [T '' introduces an ACL conflict with '', T (acl_sourceKind other), T '' '', T (acl_sourceNamespace other),
      T ''/'', T (acl_sourceName other), T '' on subject '', Q subject,
      T '': Allow/Deny disagreement on the same ACL tuple (spec 21); the tuple will be dropped from the applied set - resolve the disagreement before admission'']"

fun first_own_conflict :: "object_meta \<Rightarrow> conflict list \<Rightarrow> go_error option" where
  "first_own_conflict m [] = None"
| "first_own_conflict m (cf # cfs) =
     (if \<not> sourced_by m (cf_a cf) \<and> \<not> sourced_by m (cf_b cf) then first_own_conflict m cfs
      else Some (conflict_text m (if sourced_by m (cf_a cf) then cf_b cf else cf_a cf) (cf_subject cf)))"

definition check_conflict ::
    "string \<Rightarrow> 'w cached_reader \<Rightarrow> (kafka_access_policy, policy_status) crd \<Rightarrow> 'w \<Rightarrow> go_error option" where
  "check_conflict cns rd pol w =
     (let x = crd_obj pol; m = ap_meta x; ref = cr_name (aps_clusterRef (ap_spec x))
      in case rd_cluster rd (cluster_namespace_for cns m) ref w of
           Inl _ \<Rightarrow> None
         | Inr cluster \<Rightarrow>
             (case rd_topics rd ref w of
                Inl _ \<Rightarrow> None
              | Inr topics \<Rightarrow>
                  (case rd_policies rd ref w of
                     Inl _ \<Rightarrow> None
                   | Inr policies \<Rightarrow>
                       first_own_conflict m (cav_conflicts (build_cluster_acl_view (scoped_topics cns m topics)
                         (other_policies cns m policies @ [x]) None (Some cluster))))))"

definition policy_validate_create ::
    "string \<Rightarrow> 'w cached_reader \<Rightarrow> (kafka_access_policy, policy_status) crd \<Rightarrow> 'w \<Rightarrow> go_error option" where
  "policy_validate_create cns rd pol w = or_else (check_policy_shape (crd_obj pol)) (check_conflict cns rd pol w)"

definition policy_validate_update ::
    "string \<Rightarrow> 'w cached_reader \<Rightarrow> (kafka_access_policy, policy_status) crd \<Rightarrow>
     (kafka_access_policy, policy_status) crd \<Rightarrow> 'w \<Rightarrow> go_error option" where
  "policy_validate_update cns rd old new w =
     (let x = crd_obj old; y = crd_obj new
      in or_else (check_policy_shape y)
         (or_else (immutable_check ''KafkaAccessPolicy'' (ap_meta y) [T ''spec.clusterRef.name is immutable:'']
              (cr_name (aps_clusterRef (ap_spec x))) (cr_name (aps_clusterRef (ap_spec y)))
              '' (repointing a policy orphans ACLs on the previous cluster)'')
            (check_conflict cns rd new w)))"

subsection \<open>\<open>ValidateDelete\<close>\<close>

definition validate_delete :: "('o, 's) crd \<Rightarrow> go_error option" where
  "validate_delete x = None"

end
