(* ===== verification/Admission.thy ===== *)
theory Admission
  imports Webhooks
begin

section \<open>Runs of the API server behind the validators\<close>

text \<open>
  Kubernetes is not part of the repository, so a run is described by what the webhook registration of
  config/webhook promises: a CREATE or UPDATE of the main resource is stored only when the validator
  returned no error; a DELETE and a write of the status subresource are not submitted to it. Namespace,
  name and UID never change, UIDs are not reused, an object with finalizers is only marked by a DELETE,
  and a marked object goes when an update empties its finalizers. \<open>caches w items\<close> relates the cache
  \<open>w\<close> the validator reads to the stored objects. The locale \<open>admitted_kind\<close> is the contract of a
  validator with an identity; topics, quotas and users are its interpretations.
\<close>

definition replace :: "'x \<Rightarrow> 'x \<Rightarrow> 'x list \<Rightarrow> 'x list" where
  "replace x y items = map (\<lambda>z. if z = x then y else z) items"

definition same_meta :: "object_meta \<Rightarrow> object_meta \<Rightarrow> bool" where
  "same_meta a b \<longleftrightarrow> om_uid a = om_uid b \<and> same_object a b"

definition crd_uid :: "('o \<Rightarrow> object_meta) \<Rightarrow> ('o, 's) crd \<Rightarrow> string" where
  "crd_uid meta x = om_uid (meta (crd_obj x))"

definition released :: "('o, 's) crd \<Rightarrow> bool" where
  "released x \<longleftrightarrow> crd_deleting x \<and> crd_finalizers x = []"

type_synonym ('o, 's) kube_store = "string set \<times> ('o, 's) crd list"

inductive admission_step ::
    "('o \<Rightarrow> object_meta) \<Rightarrow> (('o, 's) crd \<Rightarrow> 'w \<Rightarrow> go_error option) \<Rightarrow>
     (('o, 's) crd \<Rightarrow> ('o, 's) crd \<Rightarrow> 'w \<Rightarrow> go_error option) \<Rightarrow> ('w \<Rightarrow> ('o, 's) crd list \<Rightarrow> bool) \<Rightarrow>
     ('o, 's) kube_store \<Rightarrow> ('o, 's) kube_store \<Rightarrow> bool"
  for meta create update caches where
  Created: "crd_uid meta x \<notin> used \<Longrightarrow> caches w items \<Longrightarrow> create x w = None \<Longrightarrow>
    admission_step meta create update caches (used, items) (insert (crd_uid meta x) used, items @ [x])"
| Updated: "x \<in> set items \<Longrightarrow> same_meta (meta (crd_obj x)) (meta (crd_obj y)) \<Longrightarrow> caches w items \<Longrightarrow>
    update x y w = None \<Longrightarrow> \<not> released y \<Longrightarrow>
    admission_step meta create update caches (used, items) (used, replace x y items)"
| Released: "x \<in> set items \<Longrightarrow> same_meta (meta (crd_obj x)) (meta (crd_obj y)) \<Longrightarrow> caches w items \<Longrightarrow>
    update x y w = None \<Longrightarrow> released y \<Longrightarrow>
    admission_step meta create update caches (used, items) (used, removeAll x items)"
| Marked: "x \<in> set items \<Longrightarrow> crd_finalizers x \<noteq> [] \<Longrightarrow>
    admission_step meta create update caches (used, items) (used, replace x (x\<lparr>crd_deleting := True\<rparr>) items)"
| Deleted: "x \<in> set items \<Longrightarrow> crd_finalizers x = [] \<Longrightarrow>
    admission_step meta create update caches (used, items) (used, removeAll x items)"
| StatusWritten: "x \<in> set items \<Longrightarrow>
    admission_step meta create update caches (used, items) (used, replace x (x\<lparr>crd_status := st\<rparr>) items)"

inductive_cases admission_stepE [elim!]:
  "admission_step meta create update caches (used, items) s"

definition tracked :: "('o \<Rightarrow> object_meta) \<Rightarrow> ('o, 's) kube_store \<Rightarrow> bool" where
  "tracked meta s \<longleftrightarrow> crd_uid meta ` set (snd s) \<subseteq> fst s \<and>
     inj_on (crd_uid meta) (set (snd s))"

definition unique_identities :: "('o \<Rightarrow> object_meta) \<Rightarrow> ('o \<Rightarrow> 'k) \<Rightarrow> ('o, 's) crd list \<Rightarrow> bool" where
  "unique_identities meta ident items \<longleftrightarrow>
     (\<forall>x \<in> set items. \<forall>y \<in> set items.
        crd_uid meta x \<noteq> crd_uid meta y \<longrightarrow> ident (crd_obj x) \<noteq> ident (crd_obj y))"

lemma set_replace: "x \<in> set items \<Longrightarrow> set (replace x y items) = insert y (set items - {x})"
  by (auto simp: replace_def)

lemma crd_uid_updates [simp]:
  "crd_uid meta (x\<lparr>crd_deleting := b\<rparr>) = crd_uid meta x"
  "crd_uid meta (x\<lparr>crd_status := st\<rparr>) = crd_uid meta x"
  by (simp_all add: crd_uid_def)

lemma same_meta_uid: "same_meta (meta (crd_obj x)) (meta (crd_obj y)) \<Longrightarrow> crd_uid meta y = crd_uid meta x"
  by (simp add: same_meta_def crd_uid_def)

text \<open>
  What a step does to the stored objects: it adds one, replaces one by one of the same UID, or removes.
\<close>

lemma step_store:
  assumes "admission_step meta create update caches (used, items) (used', items')"
  shows "(\<exists>x w. crd_uid meta x \<notin> used \<and> caches w items \<and> create x w = None \<and>
             used' = insert (crd_uid meta x) used \<and> set items' = insert x (set items)) \<or>
         (\<exists>x y. x \<in> set items \<and> crd_uid meta y = crd_uid meta x \<and> used' = used \<and>
             set items' = insert y (set items - {x}) \<and>
             (crd_obj y = crd_obj x \<or>
              (same_meta (meta (crd_obj x)) (meta (crd_obj y)) \<and> (\<exists>w. caches w items \<and> update x y w = None)))) \<or>
         (\<exists>x. x \<in> set items \<and> used' = used \<and> set items' = set items - {x})"
  using assms
proof cases
  case (Updated x y w)
  then show ?thesis by (intro disjI2 disjI1 exI [of _ x] exI [of _ y]) (auto simp: set_replace same_meta_uid)
next
  case (Marked x)
  then show ?thesis
    by (intro disjI2 disjI1 exI [of _ x] exI [of _ "x\<lparr>crd_deleting := True\<rparr>"]) (simp add: set_replace)
next
  case (StatusWritten x st)
  then show ?thesis
    by (intro disjI2 disjI1 exI [of _ x] exI [of _ "x\<lparr>crd_status := st\<rparr>"]) (simp add: set_replace)
qed auto

lemma step_tracked:
  assumes "admission_step meta create update caches (used, items) (used', items')" "tracked meta (used, items)"
  shows "tracked meta (used', items')" "used \<subseteq> used'"
proof -
  have swap: "inj_on f (insert y (S - {x})) \<and> f y \<in> U"
    if "inj_on f S" "f ` S \<subseteq> U" "x \<in> S" "f y = f x" for f :: "('o, 's) crd \<Rightarrow> string" and S x y U
    using that by (auto simp: inj_on_def)
  have s: "crd_uid meta ` set items \<subseteq> used" "inj_on (crd_uid meta) (set items)"
    using assms(2) by (simp_all add: tracked_def)
  show "tracked meta (used', items')"
    using step_store [OF assms(1)]
  proof (elim disjE exE conjE)
    fix x w assume "crd_uid meta x \<notin> used" "used' = insert (crd_uid meta x) used" "set items' = insert x (set items)"
    with s show ?thesis by (auto simp: tracked_def)
  next
    fix x y assume "x \<in> set items" "crd_uid meta y = crd_uid meta x" "used' = used" "set items' = insert y (set items - {x})"
    with s swap [OF s(2,1), of x y] show "tracked meta (used', items')" by (auto simp: tracked_def)
  next
    fix x assume "used' = used" "set items' = set items - {x}"
    with s show ?thesis by (auto simp: tracked_def inj_on_diff)
  qed (use s swap [OF s(2,1)] in \<open>auto simp: tracked_def\<close>)
  show "used \<subseteq> used'" using step_store [OF assms(1)] by auto
qed

lemma steps_tracked:
  assumes "rtranclp (admission_step meta create update caches) s s'" "tracked meta s"
  shows "tracked meta s' \<and> fst s \<subseteq> fst s'"
  using assms
proof induction
  case (step t u)
  then show ?case
    using step_tracked [of meta create update caches "fst t" "snd t" "fst u" "snd u"] by auto
qed simp

lemma tracked_empty [simp]: "tracked meta ({}, [])"
  by (simp add: tracked_def)

locale admitted_kind =
  fixes meta :: "'o \<Rightarrow> object_meta" and ident :: "'o \<Rightarrow> 'k"
    and create :: "('o, 's) crd \<Rightarrow> 'w \<Rightarrow> go_error option"
    and update :: "('o, 's) crd \<Rightarrow> ('o, 's) crd \<Rightarrow> 'w \<Rightarrow> go_error option"
    and caches :: "'w \<Rightarrow> ('o, 's) crd list \<Rightarrow> bool"
  assumes create_sound: "caches w items \<Longrightarrow> create x w = None \<Longrightarrow> y \<in> set items \<Longrightarrow>
      crd_uid meta y \<noteq> crd_uid meta x \<Longrightarrow> ident (crd_obj y) \<noteq> ident (crd_obj x)"
    and update_sound: "caches w items \<Longrightarrow> update x' x w = None \<Longrightarrow> y \<in> set items \<Longrightarrow>
      crd_uid meta y \<noteq> crd_uid meta x \<Longrightarrow> ident (crd_obj y) \<noteq> ident (crd_obj x)"
    and update_keeps: "same_meta (meta (crd_obj x)) (meta (crd_obj y)) \<Longrightarrow> update x y w = None \<Longrightarrow>
      ident (crd_obj y) = ident (crd_obj x)"
begin

lemma step_unique:
  assumes step: "admission_step meta create update caches (used, items) (used', items')"
    and "unique_identities meta ident items"
  shows "unique_identities meta ident items'"
  using step_store [OF step] assms(2)
proof (elim disjE exE conjE)
  fix x w assume "caches w items" "create x w = None" "set items' = insert x (set items)"
    and u: "unique_identities meta ident items"
  then show ?thesis
    using create_sound [of w items x] u unfolding unique_identities_def by (metis insert_iff)
next
  fix x y assume x: "x \<in> set items" "crd_uid meta y = crd_uid meta x" "crd_obj y = crd_obj x"
    "set items' = insert y (set items - {x})" and u: "unique_identities meta ident items"
  then show ?thesis unfolding unique_identities_def by (metis Diff_iff insert_iff)
next
  fix x y w assume x: "x \<in> set items" "crd_uid meta y = crd_uid meta x" "caches w items" "update x y w = None"
    "set items' = insert y (set items - {x})" and u: "unique_identities meta ident items"
  then show ?thesis
    using update_sound [of w items x y] unfolding unique_identities_def by (metis Diff_iff insert_iff)
qed (auto simp: unique_identities_def)

lemma admitted_unique:
  assumes "rtranclp (admission_step meta create update caches) s s'" "unique_identities meta ident (snd s)"
  shows "unique_identities meta ident (snd s')"
  using assms
proof induction
  case (step t u)
  then show ?case using step_unique [of "fst t" "snd t" "fst u" "snd u"] by simp
qed simp

lemma step_immutable:
  assumes step: "admission_step meta create update caches (used, items) (used', items')"
    and "tracked meta (used, items)" "y \<in> set items'" "crd_uid meta y \<in> used"
  shows "\<exists>x \<in> set items. crd_uid meta x = crd_uid meta y \<and> ident (crd_obj x) = ident (crd_obj y)"
  using step_store [OF step] assms(2-)
proof (elim disjE exE conjE)
  fix x z assume "x \<in> set items" "crd_uid meta z = crd_uid meta x" "crd_obj z = crd_obj x"
    "set items' = insert z (set items - {x})"
  with assms(3) show ?thesis by (metis Diff_iff insert_iff)
next
  fix x z w assume "x \<in> set items" "crd_uid meta z = crd_uid meta x" "update x z w = None"
    "same_meta (meta (crd_obj x)) (meta (crd_obj z))" "set items' = insert z (set items - {x})"
  with assms(3) show ?thesis using update_keeps by (metis Diff_iff insert_iff)
qed auto

lemma admitted_immutable:
  assumes "rtranclp (admission_step meta create update caches) s s'" "tracked meta s"
    "y \<in> set (snd s')" "crd_uid meta y \<in> fst s"
  shows "\<exists>x \<in> set (snd s). crd_uid meta x = crd_uid meta y \<and> ident (crd_obj x) = ident (crd_obj y)"
  using assms
proof (induction arbitrary: y)
  case (step t u)
  have t: "tracked meta t" "fst s \<subseteq> fst t" using steps_tracked [OF step.hyps(1)] step.prems(1) by auto
  obtain z where z: "z \<in> set (snd t)" "crd_uid meta z = crd_uid meta y" "ident (crd_obj z) = ident (crd_obj y)"
    using step_immutable [of "fst t" "snd t" "fst u" "snd u" y] step.hyps(2) step.prems t by auto
  show ?case using step.IH [OF step.prems(1) z(1)] step.prems(3) z by metis
qed auto

text \<open>Two stored objects of one identity block every update of each other.\<close>

definition stuck :: "('o, 's) crd \<Rightarrow> ('o, 's) crd list \<Rightarrow> bool" where
  "stuck x items \<longleftrightarrow> (\<exists>z \<in> set items. crd_obj z = crd_obj x \<and> crd_finalizers z = crd_finalizers x)"

lemma step_stuck:
  assumes step: "admission_step meta create update caches (used, items) (used', items')"
    and tr: "tracked meta (used, items)"
    and pair: "crd_uid meta x \<noteq> crd_uid meta y" "ident (crd_obj x) = ident (crd_obj y)"
    and fin: "crd_finalizers x \<noteq> []"
    and held: "stuck x items" "stuck y items"
  shows "stuck x items'"
proof -
  obtain z where z: "z \<in> set items" "crd_obj z = crd_obj x" "crd_finalizers z = crd_finalizers x"
    using held(1) by (auto simp: stuck_def)
  obtain y' where y': "y' \<in> set items" "crd_obj y' = crd_obj y" using held(2) by (auto simp: stuck_def)
  have refused: "update z v w \<noteq> None" if "caches w items" "same_meta (meta (crd_obj z)) (meta (crd_obj v))" for v w
  proof
    assume ok: "update z v w = None"
    have "crd_uid meta y' \<noteq> crd_uid meta v"
      using same_meta_uid [of meta z v] that(2) pair(1) z(2) y'(2) by (simp add: crd_uid_def)
    then have "ident (crd_obj y') \<noteq> ident (crd_obj v)" using update_sound [OF that(1) ok y'(1)] by blast
    then show False using update_keeps [OF that(2) ok] pair(2) z(2) y'(2) by simp
  qed
  have keep: "stuck x (replace u v items)" if "u \<noteq> z" for u v
    using z that by (auto simp: stuck_def replace_def)
  have drop: "stuck x (removeAll u items)" if "u \<noteq> z" for u
    using z that by (auto simp: stuck_def)
  have same: "stuck x (replace z v items)" if "crd_obj v = crd_obj z" "crd_finalizers v = crd_finalizers z" for v
    using z that set_replace [OF z(1)] by (auto simp: stuck_def)
  show ?thesis using step
  proof cases
    case (Updated u v w)
    have "u \<noteq> z" using refused [of w v] Updated by blast
    then show ?thesis using keep Updated by simp
  next
    case (Released u v w)
    have "u \<noteq> z" using refused [of w v] Released by blast
    then show ?thesis using drop Released by simp
  next
    case (Marked u)
    then show ?thesis using keep same [of "u\<lparr>crd_deleting := True\<rparr>"] by (cases "u = z") auto
  next
    case (Deleted u)
    then have "u \<noteq> z" using z(3) fin by auto
    then show ?thesis using drop Deleted by simp
  next
    case (StatusWritten u st)
    then show ?thesis using keep same [of "u\<lparr>crd_status := st\<rparr>"] by (cases "u = z") auto
  qed (use z in \<open>auto simp: stuck_def\<close>)
qed

lemma duplicates_stuck:
  assumes "rtranclp (admission_step meta create update caches) s s'" "tracked meta s"
    "crd_uid meta x \<noteq> crd_uid meta y" "ident (crd_obj x) = ident (crd_obj y)"
    "crd_finalizers x \<noteq> []" "crd_finalizers y \<noteq> []" "stuck x (snd s)" "stuck y (snd s)"
  shows "stuck x (snd s') \<and> stuck y (snd s')"
  using assms
proof induction
  case (step t u)
  then have "tracked meta t" using steps_tracked by blast
  with step show ?case
    using step_stuck [of "fst t" "snd t" "fst u" "snd u" x y] step_stuck [of "fst t" "snd t" "fst u" "snd u" y x]
    by simp
qed simp

end

end
