(* ===== verification/Webhook_Facts.thy ===== *)
theory Webhook_Facts
  imports Admission Import_Facts
begin

section \<open>What an admitted object has passed\<close>

text \<open>
  The identity scans as one lemma, the admission contracts of topics, quotas and users as
  interpretations of \<open>admitted_kind\<close>, and the effect of one more policy on the compiled ACLs.
\<close>

subsection \<open>Identity\<close>

lemma find_None_iff_all: "find f xs = None \<longleftrightarrow> (\<forall>x \<in> set xs. \<not> f x)"
  by (auto simp: find_None_iff)

lemma scan_identity_None:
  "scan_identity cns meta ident x describe listed = None \<longleftrightarrow>
     (\<exists>items. listed = Inr items \<and> (\<forall>y \<in> set items. \<not> identity_clash cns meta ident x (crd_obj y)))"
  by (cases listed) (auto simp: scan_identity_def find_None_iff_all)

lemma listing_error_Inr [simp]: "listing_error kinds what r = Inr v \<longleftrightarrow> r = Inr v"
  by (cases r) (simp_all add: listing_error_def prefixed_error_def)

lemma immutable_check_None [simp]: "immutable_check kind m field old new why = None \<longleftrightarrow> old = new"
  by (simp add: immutable_check_def)

text \<open>The cache lists every stored object of each cluster reference it can list.\<close>

definition cache_current ::
    "(string \<Rightarrow> ('w, ('o, 's) crd list) query) \<Rightarrow> ('o \<Rightarrow> string list) \<Rightarrow> 'w \<Rightarrow> ('o, 's) crd list \<Rightarrow> bool" where
  "cache_current list index w items \<longleftrightarrow>
     (\<forall>ref listed. list ref w = Inr listed \<longrightarrow> (\<forall>x \<in> set items. ref \<in> set (index (crd_obj x)) \<longrightarrow> x \<in> set listed))"

lemma cache_currentD:
  "cache_current list index w items \<Longrightarrow> list ref w = Inr listed \<Longrightarrow> x \<in> set items \<Longrightarrow>
   ref \<in> set (index (crd_obj x)) \<Longrightarrow> x \<in> set listed"
  by (simp add: cache_current_def)

definition topic_identity :: "string \<Rightarrow> kafka_topic \<Rightarrow> string \<times> string \<times> string" where
  "topic_identity cns t =
     (cluster_namespace_for cns (kt_meta t), cr_name (kts_clusterRef (kt_spec t)), resolved_topic_name t)"

definition quota_identity :: "string \<Rightarrow> kafka_quota \<Rightarrow> string \<times> string \<times> string" where
  "quota_identity cns q =
     (cluster_namespace_for cns (kq_meta q), cr_name (kqs_clusterRef (kq_spec q)), resolved_entity_key q)"

definition user_identity :: "string \<Rightarrow> kafka_user \<Rightarrow> string \<times> string \<times> string" where
  "user_identity cns u =
     (cluster_namespace_for cns (ku_meta u), cr_name (kus_clusterRef (ku_spec u)), resolved_username u)"

lemma same_meta_cluster: "same_meta a b \<Longrightarrow> cluster_namespace_for cns a = cluster_namespace_for cns b"
  by (simp add: same_meta_def same_object_def cluster_namespace_for_def)

lemma topic_unique_sound:
  assumes "cache_current (rd_topics rd) index_topic w items" "topic_identity_unique cns rd x w = None"
    "y \<in> set items" "crd_uid kt_meta y \<noteq> crd_uid kt_meta x"
  shows "topic_identity cns (crd_obj y) \<noteq> topic_identity cns (crd_obj x)"
  using assms
  by (auto simp: topic_identity_unique_def Let_def scan_identity_None topic_identity_def identity_clash_def
        crd_uid_def index_topic_def dest: cache_currentD)

lemma quota_unique_sound:
  assumes "cache_current (rd_quotas rd) index_quota w items" "quota_identity_unique cns rd x w = None"
    "y \<in> set items" "crd_uid kq_meta y \<noteq> crd_uid kq_meta x"
  shows "quota_identity cns (crd_obj y) \<noteq> quota_identity cns (crd_obj x)"
  using assms
  by (auto simp: quota_identity_unique_def Let_def scan_identity_None quota_identity_def identity_clash_def
        crd_uid_def index_quota_def dest: cache_currentD)

lemma user_unique_sound:
  assumes "cache_current (rd_users rd) index_user w items" "user_identity_unique cns rd x w = None"
    "y \<in> set items" "crd_uid ku_meta y \<noteq> crd_uid ku_meta x"
  shows "user_identity cns (crd_obj y) \<noteq> user_identity cns (crd_obj x)"
  using assms
  by (auto simp: user_identity_unique_def Let_def scan_identity_None user_identity_def identity_clash_def
        crd_uid_def index_user_def dest: cache_currentD)

interpretation topic_admission: admitted_kind kt_meta "topic_identity cns" "topic_validate_create cns rd"
    "topic_validate_update cns rd" "cache_current (rd_topics rd) index_topic"
  for cns rd
proof unfold_locales
  show "topic_identity cns (crd_obj y) = topic_identity cns (crd_obj x)"
    if "same_meta (kt_meta (crd_obj x)) (kt_meta (crd_obj y))" "topic_validate_update cns rd x y w = None" for x y w
    using that same_meta_cluster [OF that(1), of cns]
    by (simp add: topic_validate_update_def Let_def topic_identity_def)
qed (unfold topic_validate_create_def topic_validate_update_def Let_def or_else_None, (blast dest: topic_unique_sound)+)

interpretation quota_admission: admitted_kind kq_meta "quota_identity cns" "quota_validate_create cns rd"
    "quota_validate_update cns rd" "cache_current (rd_quotas rd) index_quota"
  for cns rd
proof unfold_locales
  show "quota_identity cns (crd_obj y) = quota_identity cns (crd_obj x)"
    if "same_meta (kq_meta (crd_obj x)) (kq_meta (crd_obj y))" "quota_validate_update cns rd x y w = None" for x y w
    using that same_meta_cluster [OF that(1), of cns]
    by (simp add: quota_validate_update_def Let_def quota_identity_def)
qed (unfold quota_validate_create_def quota_validate_update_def Let_def or_else_None, (blast dest: quota_unique_sound)+)

interpretation user_admission: admitted_kind ku_meta "user_identity cns" "user_validate_create cns rd"
    "user_validate_update cns rd" "cache_current (rd_users rd) index_user"
  for cns rd
proof unfold_locales
  show "user_identity cns (crd_obj y) = user_identity cns (crd_obj x)"
    if "same_meta (ku_meta (crd_obj x)) (ku_meta (crd_obj y))" "user_validate_update cns rd x y w = None" for x y w
    using that same_meta_cluster [OF that(1), of cns]
    by (simp add: user_validate_update_def Let_def user_identity_def)
qed (unfold user_validate_create_def user_validate_update_def Let_def or_else_None, (blast dest: user_unique_sound)+)

subsection \<open>Conflicts\<close>

lemma conflicts_loop_first:
  "cf \<in> set (conflicts_loop first acls) \<Longrightarrow>
   (case first (subject_key (cf_b cf)) of
      Some s \<Rightarrow> cf_a cf = s
    | None \<Rightarrow> find (\<lambda>a. subject_key a = subject_key (cf_b cf)) acls = Some (cf_a cf))"
  by (induction first acls rule: conflicts_loop.induct) (auto split: option.splits if_splits)

lemma rejected_conflict:
  assumes "b \<in> set (rejected_acls acls)"
  obtains cf where "cf \<in> set (conflicts acls)" "cf_b cf = b"
    "find (\<lambda>a. subject_key a = subject_key b) acls = Some (cf_a cf)"
  using assms conflicts_loop_first [of _ Map.empty acls]
  by (fastforce simp: conflicts_def simp flip: conflicts_rejected(1))

lemma first_own_conflict_None:
  "first_own_conflict m cfs = None \<longleftrightarrow> (\<forall>cf \<in> set cfs. \<not> sourced_by m (cf_a cf) \<and> \<not> sourced_by m (cf_b cf))"
  by (induction cfs) auto

lemma find_filter: "find f xs = Some a \<Longrightarrow> g a \<Longrightarrow> find f (filter g xs) = Some a"
  by (induction xs) (auto split: if_splits)

text \<open>
  When no conflict names a resource, its tuples all survive and the tuples of the others survive exactly
  as they do without it.
\<close>

lemma accepted_without:
  assumes quiet: "first_own_conflict m (conflicts acls) = None"
  shows "set (accepted_acls acls) =
    set (accepted_acls (filter (\<lambda>a. \<not> sourced_by m a) acls)) \<union> {a \<in> set acls. sourced_by m a}"
proof -
  let ?others = "filter (\<lambda>a. \<not> sourced_by m a) acls"
  let ?first = "\<lambda>xs k. find (\<lambda>a. subject_key a = k) xs"
  have acc: "b \<in> set (accepted_acls xs) \<longleftrightarrow>
      b \<in> set xs \<and> map_option acl_permission (?first xs (subject_key b)) = Some (acl_permission b)" for b xs
    by (auto simp: accepted_acls_def first_permission_def)
  have rej: "b \<in> set (rejected_acls acls) \<Longrightarrow>
      \<not> sourced_by m b \<and> (\<exists>s. ?first acls (subject_key b) = Some s \<and> \<not> sourced_by m s)" for b
    using quiet by (elim rejected_conflict) (auto simp: first_own_conflict_None)
  have part: "b \<in> set acls \<Longrightarrow> b \<in> set (accepted_acls acls) \<or> b \<in> set (rejected_acls acls)" for b
    by (auto simp: accepted_acls_def rejected_acls_def)
  have "b \<in> set (accepted_acls ?others)" if b: "b \<in> set (accepted_acls acls)" "\<not> sourced_by m b" for b
  proof -
    obtain s where s: "?first acls (subject_key b) = Some s" "acl_permission s = acl_permission b"
      using b(1) acc [of b acls] by auto
    show ?thesis
    proof (cases "sourced_by m s")
      case False
      then show ?thesis using b s find_filter [OF s(1)] acc [of b ?others] acc [of b acls] by auto
    next
      case True
      have all: "acl_permission c = acl_permission s" if "c \<in> set acls" "subject_key c = subject_key b" for c
        using part [OF that(1)] rej [of c] acc [of c acls] s that True by auto
      have other: "b \<in> set ?others" using b acc [of b acls] by simp
      then obtain t where t: "?first ?others (subject_key b) = Some t"
        by (cases "?first ?others (subject_key b)") (auto simp: find_None_iff)
      have "t \<in> set acls" "subject_key t = subject_key b" using find_SomeD [OF t] by simp_all
      with other t all [of t] s show ?thesis unfolding acc by simp
    qed
  qed
  moreover have "b \<in> set (accepted_acls acls)" if b: "b \<in> set (accepted_acls ?others)" for b
  proof (rule ccontr)
    assume "b \<notin> set (accepted_acls acls)"
    moreover have "b \<in> set acls" using b acc [of b ?others] by simp
    ultimately have r: "b \<in> set (rejected_acls acls)" using part by blast
    then obtain s where "?first acls (subject_key b) = Some s" "\<not> sourced_by m s" using rej by blast
    then have "?first ?others (subject_key b) = Some s" "?first acls (subject_key b) = Some s"
      using find_filter by auto
    then show False using b acc [of b ?others] acc [of b acls] \<open>b \<in> set acls\<close> \<open>b \<notin> set (accepted_acls acls)\<close> by simp
  qed
  moreover have "b \<in> set (accepted_acls acls)" if "b \<in> set acls" "sourced_by m b" for b
    using part [OF that(1)] rej [of b] that(2) by blast
  moreover have "b \<in> set acls" if "b \<in> set (accepted_acls acls)" for b using acc that by blast
  ultimately show ?thesis by blast
qed

end
