(* ===== verification/Webhook_Props.thy ===== *)
theory Webhook_Props
  imports Webhook_Facts Deletion_Props Password_Props
begin

section \<open>Properties of the admission webhooks\<close>

text \<open>
  Uniqueness along runs of the API server and its link to the controllers' duplicate gate, the deletions
  two duplicates block, immutable identities, role bindings without a common compiled binding, policies
  that cost nobody a tuple, and users without a username.
\<close>

subsection \<open>Topics\<close>

text \<open>
  C16. Behind the KafkaTopic webhook and a cache that is current at each admission, every run of the API
  server from the empty store keeps the identities (resolved cluster, topic name) of the stored topics
  unique, and so the controller's duplicate gate never stops a stored topic: it finds no older rival on the
  cached listing, nor on the uncached one.
\<close>

theorem admitted_topics_unopposed:
  assumes run: "rtranclp (admission_step kt_meta (topic_validate_create cns rd) (topic_validate_update cns rd)
      (cache_current (rd_topics rd) index_topic)) ({}, []) (used, items)"
    and "x \<in> set items" "lists_store kt_meta api items w" "oe_clusterNamespace env = cns"
    and quorum: "\<forall>q. ka_quorumList api = Some q \<longrightarrow> q = ka_list api"
  shows "unique_identities kt_meta (topic_identity cns) items \<and> topic_gate env api x w = None"
proof
  show u: "unique_identities kt_meta (topic_identity cns) items"
    using topic_admission.admitted_unique [OF run] by (simp add: unique_identities_def)
  let ?loc = "namespace_local env"
  define listed where "listed = filter (\<lambda>y. list_scope ?loc (om_namespace (kt_meta (crd_obj x))) = None \<or>
    list_scope ?loc (om_namespace (kt_meta (crd_obj x))) = Some (om_namespace (kt_meta (crd_obj y)))) items"
  have "rivals_of kt_meta same_topic_identity x listed = []"
  proof -
    have False if y: "y \<in> set listed" "other_live kt_meta x y" "same_topic_identity (crd_obj y) (crd_obj x)" for y
    proof -
      have "cluster_namespace_for cns (kt_meta (crd_obj y)) = cluster_namespace_for cns (kt_meta (crd_obj x))"
        using y(1) assms(4)
        by (auto simp: listed_def list_scope_def namespace_local_def cluster_namespace_for_def split: if_splits)
      then have "topic_identity cns (crd_obj y) = topic_identity cns (crd_obj x)"
        using y(3) by (simp add: topic_identity_def same_topic_identity_def)
      moreover have "y \<in> set items" "crd_uid kt_meta y \<noteq> crd_uid kt_meta x"
        using y(1,2) by (simp_all add: listed_def other_live_def crd_uid_def)
      ultimately show False using u assms(2) by (auto simp: unique_identities_def)
    qed
    then show ?thesis by (auto simp: rivals_of_def filter_empty_conv)
  qed
  moreover have "ka_list api (list_scope ?loc (om_namespace (kt_meta (crd_obj x)))) w = Inr listed"
    using assms(3) by (simp add: lists_store_def listed_def)
  ultimately have "find_older_topic_claim ?loc x (ka_list api) w = Inr None"
    by (simp add: find_topic_claim_listed oldest_rival_def)
  then have "contested_scan api x (find_older_topic_claim ?loc x) w = Inr None"
    using quorum by (auto simp: contested_scan_def and_then_def split: option.splits)
  then show "topic_gate env api x w = None" by (simp add: topic_gate_def duplicate_identity_gate_def topic_kind_def)
qed

text \<open>The cached client over a store, of which the world is the list of topics.\<close>

definition topic_reader :: "(kafka_topic, topic_status) crd list cached_reader" where
  "topic_reader =
     \<lparr>rd_cluster = (\<lambda>_ _ _. Inl (NotFound [])), rd_topics = (\<lambda>ref w. Inr (filter (\<lambda>x. ref \<in> set (index_topic (crd_obj x))) w)),
      rd_policies = (\<lambda>_ _. Inr []), rd_quotas = (\<lambda>_ _. Inr []), rd_roleBindings = (\<lambda>_ _. Inr []),
      rd_users = (\<lambda>_ _. Inr [])\<rparr>"

lemma topic_reader_current [simp]: "cache_current (rd_topics topic_reader) index_topic items items"
  by (simp add: cache_current_def topic_reader_def)

definition second_topic :: "(kafka_topic, topic_status) crd" where
  "second_topic = (topic_claim ''b'' 2)\<lparr>crd_obj := (crd_obj (topic_claim ''b'' 2))
     \<lparr>kt_spec := (kt_spec (crd_obj (topic_claim ''b'' 2)))\<lparr>kts_topicName := ''payments''\<rparr>\<rparr>\<rparr>"

theorem admitted_topics_unopposed_witness:
  "topic_gate sample_operator (scoped_api kt_meta [topic_claim ''a'' 1, second_topic]) second_topic () = None"
proof -
  let ?step = "admission_step kt_meta (topic_validate_create [] topic_reader) (topic_validate_update [] topic_reader)
      (cache_current (rd_topics topic_reader) index_topic)"
  let ?a = "topic_claim ''a'' 1"
  have "?step ({}, []) (insert (crd_uid kt_meta ?a) {}, [] @ [?a])"
    by (rule admission_step.Created [where w = "[]"]) (simp_all, code_simp)
  moreover have "?step ({crd_uid kt_meta ?a}, [?a]) (insert (crd_uid kt_meta second_topic) {crd_uid kt_meta ?a}, [?a] @ [second_topic])"
  proof (rule admission_step.Created [where w = "[?a]"])
    show "crd_uid kt_meta second_topic \<notin> {crd_uid kt_meta ?a}" by code_simp
    show "topic_validate_create [] topic_reader second_topic [?a] = None" by code_simp
  qed simp
  ultimately have run: "rtranclp ?step ({}, []) ({crd_uid kt_meta second_topic, crd_uid kt_meta ?a}, [?a, second_topic])"
    by (auto intro: rtranclp.rtrancl_into_rtrancl)
  show ?thesis
    using admitted_topics_unopposed [OF run, of second_topic "scoped_api kt_meta [?a, second_topic]" "()" sample_operator]
    by (simp add: sample_operator_def scoped_api_def sample_api_def lists_store_def)
qed


definition held_topic :: "string \<Rightarrow> int \<Rightarrow> (kafka_topic, topic_status) crd" where
  "held_topic name created = (topic_claim name created)\<lparr>crd_finalizers := [FinalizerName]\<rparr>"


subsection \<open>Quotas, users and role bindings\<close>

lemma admitted_quotas_unique:
  assumes "rtranclp (admission_step kq_meta (quota_validate_create cns rd) (quota_validate_update cns rd)
      (cache_current (rd_quotas rd) index_quota)) ({}, []) (used, items)"
  shows "unique_identities kq_meta (quota_identity cns) items"
  using quota_admission.admitted_unique [OF assms] by (simp add: unique_identities_def)

lemma admitted_users_unique:
  assumes "rtranclp (admission_step ku_meta (user_validate_create cns rd) (user_validate_update cns rd)
      (cache_current (rd_users rd) index_user)) ({}, []) (used, items)"
  shows "unique_identities ku_meta (user_identity cns) items"
  using user_admission.admitted_unique [OF assms] by (simp add: unique_identities_def)

lemma first_overlap_None:
  "first_overlap cns mds m mine items = None \<longleftrightarrow>
     (\<forall>x \<in> set items. same_object (kr_meta (crd_obj x)) m \<or>
        cluster_namespace_for cns (kr_meta (crd_obj x)) \<noteq> cluster_namespace_for cns m \<or>
        set (binding_keys mds (crd_obj x)) \<inter> set mine = {})"
proof (induction items)
  case (Cons x xs)
  have "overlap_key mine mds (crd_obj x) = None \<longleftrightarrow> set (binding_keys mds (crd_obj x)) \<inter> set mine = {}"
    by (auto simp: overlap_key_def find_None_iff)
  with Cons show ?case by (auto simp: Let_def split: option.splits)
qed simp

lemma admitted_binding_disjoint:
  assumes "role_binding_validate_create cns rd rb w = None"
    "rd_cluster rd (cluster_namespace_for cns (kr_meta (crd_obj rb))) (cr_name (krs_clusterRef (kr_spec (crd_obj rb)))) w
       = Inr cl" "cluster_mds cl = Some mds"
    "rd_roleBindings rd (cr_name (krs_clusterRef (kr_spec (crd_obj rb)))) w = Inr items" "x \<in> set items"
    "\<not> same_object (kr_meta (crd_obj x)) (kr_meta (crd_obj rb))"
    "cluster_namespace_for cns (kr_meta (crd_obj x)) = cluster_namespace_for cns (kr_meta (crd_obj rb))"
  shows "set (binding_keys mds (crd_obj x)) \<inter> set (binding_keys mds (crd_obj rb)) = {}"
proof (cases "rbac_compile (crd_obj rb) mds")
  case (Inr bs)
  then have "first_overlap cns mds (kr_meta (crd_obj rb)) (map rb_full_key bs) items = None"
    using assms(1-4)
    by (auto simp: role_binding_validate_create_def role_binding_identity_unique_def Let_def listing_error_def
        prefixed_error_def)
  then show ?thesis using assms(5-7) Inr by (auto simp: first_overlap_None binding_keys_def)
qed (simp add: binding_keys_def)

text \<open>A user with its default username written out.\<close>

definition named_user :: "kafka_user \<Rightarrow> kafka_user" where
  "named_user u = u\<lparr>ku_spec := (ku_spec u)\<lparr>kus_username := om_name (ku_meta u)\<rparr>\<rparr>"

lemma prepared_named: "kus_username (ku_spec u) = [] \<Longrightarrow> prepared_user (named_user u) = prepared_user u"
  by (simp add: prepared_user_def default_user_def named_user_def Let_def)

lemma user_shape_cong:
  assumes "ku_meta a = ku_meta b" "kus_username (ku_spec a) = kus_username (ku_spec b)"
    and "kus_iterations (ku_spec a) = kus_iterations (ku_spec b)" "kus_password (ku_spec a) = kus_password (ku_spec b)"
    and "kus_clusterRef (ku_spec a) = kus_clusterRef (ku_spec b)"
    and "kus_mechanism (ku_spec a) = (if kus_mechanism (ku_spec b) = [] then ''SCRAM-SHA-512'' else kus_mechanism (ku_spec b))"
    and "kus_deletionPolicy (ku_spec a) = (if kus_deletionPolicy (ku_spec b) = [] then ''Delete'' else kus_deletionPolicy (ku_spec b))"
  shows "validate_user_shape a = validate_user_shape b"
proof -
  have mech: "kus_mechanism (ku_spec a) \<noteq> [] \<and> kus_mechanism (ku_spec a) \<notin> set valid_user_mechanisms \<longleftrightarrow>
      kus_mechanism (ku_spec b) \<noteq> [] \<and> kus_mechanism (ku_spec b) \<notin> set valid_user_mechanisms"
    by (simp add: assms(6) valid_user_mechanisms_def)
  have del: "deletion_policy_errors kind n (kus_deletionPolicy (ku_spec a)) =
      deletion_policy_errors kind n (kus_deletionPolicy (ku_spec b))" for kind n
    by (simp add: assms(7) deletion_policy_errors_def flag_def)
  have shown: "flag (kus_mechanism (ku_spec a) \<noteq> [] \<and> kus_mechanism (ku_spec a) \<notin> set valid_user_mechanisms)
      (pre @ [T x, Q (kus_mechanism (ku_spec a)), T y]) =
    flag (kus_mechanism (ku_spec b) \<noteq> [] \<and> kus_mechanism (ku_spec b) \<notin> set valid_user_mechanisms)
      (pre @ [T x, Q (kus_mechanism (ku_spec b)), T y])" for pre x y
    unfolding mech by (simp add: flag_def assms(6))
  show ?thesis
    unfolding validate_user_shape_def Let_def assms(1-5) shown del ..
qed

lemma prepared_shape:
  assumes "kus_username (ku_spec u) = []"
  shows "validate_user_shape (prepared_user u) = [] \<longleftrightarrow> check_user_shape (named_user u) = None"
proof -
  let ?b = "(named_user u)\<lparr>ku_meta := fill_api_version (ku_meta (named_user u))\<rparr>"
  have "validate_user_shape (prepared_user u) = validate_user_shape ?b"
    by (rule user_shape_cong) (simp_all add: prepared_user_def default_user_def named_user_def assms Let_def)
  then show ?thesis by (simp add: check_user_shape_def shape_verdict_def)
qed

text \<open>
  C23. The KafkaUser webhook refuses every user without \<open>spec.username\<close>, on create and as the new object of
  an update, although the field defaults to \<open>metadata.name\<close>. The engine defaults before it
  validates, so a pass of \<open>ReconcileUser\<close> over such a user is, to the last condition, the pass
  over the same user with the default written out, and it finds the shape valid exactly if the webhook finds
  the shape of the written-out user valid. And the update of a stored user that only writes the default out is
  admitted exactly if the written-out user could be created, identity scan included.
\<close>

theorem unnamed_user_refused:
  assumes "kus_username (ku_spec (crd_obj u)) = []" "om_name (ku_meta (crd_obj u)) \<noteq> []"
  shows "user_validate_create cns rd u w \<noteq> None \<and> user_validate_update cns rd v u w \<noteq> None \<and>
    reconcile_user env random (crd_obj u) prior cluster k store world =
      reconcile_user env random (named_user (crd_obj u)) prior cluster k store world \<and>
    (validate_user_shape (prepared_user (crd_obj u)) = [] \<longleftrightarrow> check_user_shape (named_user (crd_obj u)) = None) \<and>
    user_validate_update cns rd u (u\<lparr>crd_obj := named_user (crd_obj u)\<rparr>) w =
      user_validate_create cns rd (u\<lparr>crd_obj := named_user (crd_obj u)\<rparr>) w"
proof (intro conjI)
  have "validate_user_shape ((crd_obj u)\<lparr>ku_meta := m\<rparr>) \<noteq> []" for m
    using assms(1) by (simp add: validate_user_shape_def Let_def)
  then have shape: "check_user_shape (crd_obj u) \<noteq> None" by (simp add: check_user_shape_def shape_verdict_def)
  show "user_validate_create cns rd u w \<noteq> None" "user_validate_update cns rd v u w \<noteq> None"
    using shape by (simp_all add: user_validate_create_def user_validate_update_def Let_def)
  show "reconcile_user env random (crd_obj u) prior cluster k store world =
      reconcile_user env random (named_user (crd_obj u)) prior cluster k store world"
    by (simp add: reconcile_user_def prepared_named [OF assms(1)])
  show "validate_user_shape (prepared_user (crd_obj u)) = [] \<longleftrightarrow> check_user_shape (named_user (crd_obj u)) = None"
    by (rule prepared_shape [OF assms(1)])
  have "resolved_username (named_user (crd_obj u)) = resolved_username (crd_obj u)"
    using assms by (simp add: resolved_username_def named_user_def)
  then show "user_validate_update cns rd u (u\<lparr>crd_obj := named_user (crd_obj u)\<rparr>) w =
      user_validate_create cns rd (u\<lparr>crd_obj := named_user (crd_obj u)\<rparr>) w"
    by (simp add: user_validate_update_def user_validate_create_def Let_def immutable_check_def)
      (simp add: named_user_def or_else_def)
qed

definition unnamed_user :: "(kafka_user, user_status) crd" where
  "unnamed_user =
     \<lparr>crd_obj = demo_user generated, crd_created = 0, crd_deleting = False, crd_finalizers = [], crd_status = None\<rparr>"

theorem unnamed_user_refused_witness:
  "user_validate_create [] topic_reader unnamed_user [] \<noteq> None \<and>
   validate_user_shape (prepared_user (crd_obj unnamed_user)) = []"
proof -
  have "kus_username (ku_spec (crd_obj unnamed_user)) = []" "om_name (ku_meta (crd_obj unnamed_user)) \<noteq> []"
    "check_user_shape (named_user (crd_obj unnamed_user)) = None"
    by code_simp+
  note named = this
  note refused = unnamed_user_refused [OF named(1,2)]
  show ?thesis
    using refused [THEN conjunct1] refused [THEN conjunct2, THEN conjunct2, THEN conjunct2, THEN conjunct1] named(3)
    by simp
qed

subsection \<open>Policies\<close>

lemma sourced_view_topic: "a \<in> set (view_topic_acls d cl t) \<Longrightarrow> \<not> sourced_by m a"
  by (auto simp: view_topic_acls_def Let_def stamp_prune_def stamp_source_def sourced_by_def split: if_splits)

lemma default_policy_meta: "ap_meta (default_policy p) = ap_meta p"
  by (simp add: default_policy_def Let_def)

lemma sourced_view_policy:
  "a \<in> set (view_policy_acls p) \<Longrightarrow> sourced_by m a \<longleftrightarrow> same_object (ap_meta p) m"
  by (auto simp: view_policy_acls_def Let_def stamp_prune_def stamp_source_def sourced_by_def same_object_def
      default_policy_meta)

lemma view_without:
  assumes "\<And>p. p \<in> set ps \<Longrightarrow> \<not> same_object (ap_meta p) (ap_meta x)"
  shows "filter (\<lambda>a. \<not> sourced_by (ap_meta x) a) (view_acls ts (ps @ [x]) d cl) = view_acls ts ps d cl"
    and "{a \<in> set (view_acls ts (ps @ [x]) d cl). sourced_by (ap_meta x) a} = set (view_policy_acls x)"
proof -
  have ts: "a \<in> set (concat (map (view_topic_acls d cl) ts)) \<Longrightarrow> \<not> sourced_by (ap_meta x) a" for a
    using sourced_view_topic by fastforce
  have ps: "a \<in> set (concat (map view_policy_acls ps)) \<Longrightarrow> \<not> sourced_by (ap_meta x) a" for a
    using sourced_view_policy assms by fastforce
  have own: "a \<in> set (view_policy_acls x) \<Longrightarrow> sourced_by (ap_meta x) a" for a
    using sourced_view_policy by (simp add: same_object_def)
  show "filter (\<lambda>a. \<not> sourced_by (ap_meta x) a) (view_acls ts (ps @ [x]) d cl) = view_acls ts ps d cl"
    using ts ps own
    by (simp add: view_acls_def filter_sort filter_empty_conv del: set_concat cong: filter_cong)
  show "{a \<in> set (view_acls ts (ps @ [x]) d cl). sourced_by (ap_meta x) a} = set (view_policy_acls x)"
    using ts ps own by (auto simp: view_acls_def)
qed

lemma desired_keys: "full_key ` set (fst (build_acl_set xs)) = full_key ` set (accepted_acls xs)"
proof -
  have "set (map full_key (fst (build_acl_set xs))) = set (map full_key (accepted_acls xs))"
    by (simp add: build_acl_set_eq acl_kind.map_key_desired_spec)
  then show ?thesis by simp
qed

text \<open>
  C18. A policy the webhook admits costs nobody an ACL: in the cluster's view over the listed live topics
  and policies of its scope, with the policy added, the desired tuples are exactly the tuples desired
  without it together with every tuple the policy compiles to. None of its own is dropped as conflicting,
  and no tuple of another resource that was applied before loses to it.
\<close>

theorem admitted_policy_drops_nothing:
  assumes "policy_validate_create cns rd pol w = None" "x = crd_obj pol"
    "rd_cluster rd (cluster_namespace_for cns (ap_meta x)) (cr_name (aps_clusterRef (ap_spec x))) w = Inr cl"
    "rd_topics rd (cr_name (aps_clusterRef (ap_spec x))) w = Inr topics"
    "rd_policies rd (cr_name (aps_clusterRef (ap_spec x))) w = Inr policies"
    "ts = scoped_topics cns (ap_meta x) topics" "ps = other_policies cns (ap_meta x) policies"
  shows "full_key ` set (cav_desiredACLs (build_cluster_acl_view ts (ps @ [x]) None (Some cl))) =
    full_key ` set (cav_desiredACLs (build_cluster_acl_view ts ps None (Some cl))) \<union> full_key ` set (view_policy_acls x)"
proof -
  have quiet: "first_own_conflict (ap_meta x) (conflicts (view_acls ts (ps @ [x]) None (Some cl))) = None"
    using assms by (simp add: policy_validate_create_def check_conflict_def Let_def build_cluster_acl_view_def)
  have "\<not> same_object (ap_meta p) (ap_meta x)" if "p \<in> set ps" for p
    using that assms(7) by (auto simp: other_policies_def)
  note parts = view_without [of ps x, OF this, of ts None "Some cl"]
  show ?thesis
    using accepted_without [OF quiet] parts
    by (simp add: build_cluster_acl_view_def Let_def desired_keys image_Un)
qed

text \<open>A policy that allows what an existing one denies is refused; one that agrees with it is not.\<close>

definition policy_reader :: "(kafka_access_policy, policy_status) crd list cached_reader" where
  "policy_reader =
     \<lparr>rd_cluster = (\<lambda>_ _ _. Inr acl_cluster), rd_topics = (\<lambda>_ _. Inr []), rd_policies = (\<lambda>ref w. Inr w),
      rd_quotas = (\<lambda>_ _. Inr []), rd_roleBindings = (\<lambda>_ _. Inr []), rd_users = (\<lambda>_ _. Inr [])\<rparr>"

definition third_policy :: "string \<Rightarrow> (kafka_access_policy, policy_status) crd" where
  "third_policy permission = (deleted_policy permission)\<lparr>crd_deleting := False\<rparr>"

theorem admitted_policy_drops_nothing_witness:
  "policy_validate_create [] policy_reader (third_policy ''Allow'') [live_policy ''Deny''] \<noteq> None \<and>
   full_key allow_acl \<in> full_key ` set (cav_desiredACLs (build_cluster_acl_view []
     ([sample_policy ''Allow''] @ [crd_obj (third_policy ''Allow'')]) None (Some acl_cluster)))"
proof
  show "policy_validate_create [] policy_reader (third_policy ''Allow'') [live_policy ''Deny''] \<noteq> None" by code_simp
  let ?x = "crd_obj (third_policy ''Allow'')"
  have ok: "policy_validate_create [] policy_reader (third_policy ''Allow'') [live_policy ''Allow''] = None" by code_simp
  have scope: "scoped_topics [] (ap_meta ?x) [] = []" "other_policies [] (ap_meta ?x) [live_policy ''Allow''] = [sample_policy ''Allow'']"
    by (simp_all add: scoped_topics_def other_policies_def live_policy_def sample_policy_crd_def same_object_def
        in_policy_scope_def third_policy_def deleted_policy_def sample_policy_def mk_meta_def)
  have "full_key ` set (cav_desiredACLs (build_cluster_acl_view [] ([sample_policy ''Allow''] @ [?x]) None (Some acl_cluster))) =
    full_key ` set (cav_desiredACLs (build_cluster_acl_view [] [sample_policy ''Allow''] None (Some acl_cluster))) \<union>
      full_key ` set (view_policy_acls ?x)"
    by (rule admitted_policy_drops_nothing [OF ok refl, where topics = "[]" and policies = "[live_policy ''Allow'']"]) (simp_all add: policy_reader_def scope)
  moreover have "full_key allow_acl \<in> full_key ` set (view_policy_acls ?x)" by code_simp
  ultimately show "full_key allow_acl \<in> full_key ` set (cav_desiredACLs (build_cluster_acl_view []
     ([sample_policy ''Allow''] @ [?x]) None (Some acl_cluster)))" by simp
qed

end
