(* ===== verification/Http_Retry.thy ===== *)
theory Http_Retry
  imports Go_Std Wire "HOL-Library.Word"
begin

section \<open>Bounded retry of HTTP requests (internal/httpretry)\<close>

text \<open>
  \<open>Do\<close> over net/http as a parameter: one round trip, the context, the sleep, the jitter. Every request that
  leaves the process and every sleep is recorded in the log next to the world, oldest first. Durations
  are nanoseconds; the product that \<open>retryAfter\<close> computes is taken modulo \<open>2 ^ 64\<close> as Go does.
\<close>

record http_request =
  rq_method :: string
  rq_url :: string
  rq_headers :: "(string, string) gomap"
  rq_body :: "string option"

text \<open>Of a response: the status, the Retry-After header (empty when absent) and the body as it reads.\<close>

record http_response =
  rs_status :: int
  rs_retryAfter :: string
  rs_body :: "go_error + string"

text \<open>\<open>http.Client.Do\<close>: an error may come with a response (a refused redirect).\<close>

datatype round_trip = Got http_response | Broke go_error "http_response option"

datatype http_event = Sent http_request | Slept int

type_synonym 'w http_world = "'w \<times> http_event list"

record 'w http_env =
  he_roundTrip :: "http_request \<Rightarrow> 'w \<Rightarrow> 'w \<times> round_trip"
  he_ctxErr :: "'w \<Rightarrow> go_error option"
  he_sleep :: "int \<Rightarrow> 'w \<Rightarrow> 'w \<times> go_error option"
  he_jitter :: "'w \<Rightarrow> int \<Rightarrow> int"

subsection \<open>Delays\<close>

definition maxAttempts :: nat where
  "maxAttempts = 3"

definition baseDelay :: int where
  "baseDelay = 200000000"

definition maxDelay :: int where
  "maxDelay = 30000000000"

definition jitter :: "'w http_env \<Rightarrow> 'w \<Rightarrow> int \<Rightarrow> int" where
  "jitter env w n = (if n \<le> 0 then 0 else he_jitter env w n)"

definition backoff :: "'w http_env \<Rightarrow> 'w \<Rightarrow> nat \<Rightarrow> int" where
  "backoff env w attempt =
     (let d = min (baseDelay * 2 ^ (attempt - 1)) maxDelay in d div 2 + jitter env w (d div 2))"

text \<open>\<open>strconv.Atoi\<close>: an optional sign and digits, within 64 bits.\<close>

definition digit_val :: "char \<Rightarrow> int" where
  "digit_val c = int (of_char c) - 0x30"

definition atoi :: "string \<Rightarrow> int option" where
  "atoi s =
     (let ds = (case s of c # t \<Rightarrow> if c = CHR ''+'' \<or> c = CHR ''-'' then t else s | [] \<Rightarrow> []);
          n = foldl (\<lambda>v c. 10 * v + digit_val c) 0 ds;
          v = (if s \<noteq> [] \<and> hd s = CHR ''-'' then - n else n)
      in if ds = [] \<or> (\<exists>c \<in> set ds. digit_val c < 0 \<or> 9 < digit_val c) then None
         else if v < - (2 ^ 63) \<or> 2 ^ 63 \<le> v then None else Some v)"

text \<open>\<open>time.Duration(secs) * time.Second\<close> in 64 bits.\<close>

definition seconds :: "int \<Rightarrow> int" where
  "seconds secs = sint (word_of_int secs * word_of_int 1000000000 :: 64 word)"

definition retry_after :: "http_response \<Rightarrow> int option" where
  "retry_after resp =
     (if rs_retryAfter resp = [] then None
      else case atoi (rs_retryAfter resp) of
             None \<Rightarrow> None
           | Some secs \<Rightarrow> (if secs < 0 then None else Some (min (seconds secs) maxDelay)))"

definition is_retryable_status :: "int \<Rightarrow> bool" where
  "is_retryable_status status \<longleftrightarrow> status \<in> {429, 502, 503, 504}"

subsection \<open>\<open>Do\<close>\<close>

definition send :: "'w http_env \<Rightarrow> http_request \<Rightarrow> 'w http_world \<Rightarrow> 'w http_world \<times> round_trip" where
  "send env r hw = (case he_roundTrip env r (fst hw) of (w, res) \<Rightarrow> ((w, snd hw @ [Sent r]), res))"

definition ctx_sleep :: "'w http_env \<Rightarrow> int \<Rightarrow> 'w http_world \<Rightarrow> 'w http_world \<times> go_error option" where
  "ctx_sleep env d hw =
     (if d \<le> 0 then (hw, he_ctxErr env (fst hw))
      else case he_sleep env d (fst hw) of (w, e) \<Rightarrow> ((w, snd hw @ [Slept d]), e))"

definition response_of :: "round_trip \<Rightarrow> http_response option" where
  "response_of res = (case res of Got resp \<Rightarrow> Some resp | Broke _ resp \<Rightarrow> resp)"

definition retry_delay :: "'w http_env \<Rightarrow> 'w \<Rightarrow> nat \<Rightarrow> http_response option \<Rightarrow> int" where
  "retry_delay env w attempt resp =
     (case resp of
        None \<Rightarrow> backoff env w attempt
      | Some r \<Rightarrow> (case retry_after r of None \<Rightarrow> backoff env w attempt | Some d \<Rightarrow> d))"

text \<open>What ends the loop after an attempt: a terminal response, a done context, or the last attempt.\<close>

definition attempt_verdict ::
    "'w http_env \<Rightarrow> 'w \<Rightarrow> bool \<Rightarrow> round_trip \<Rightarrow> (go_error + http_response) option" where
  "attempt_verdict env w final res =
     (case res of
        Got resp \<Rightarrow> (if \<not> is_retryable_status (rs_status resp) \<or> final then Some (Inr resp) else None)
      | Broke e resp \<Rightarrow>
          (if he_ctxErr env w \<noteq> None then Some (Inl e)
           else if final then Some (case resp of Some r \<Rightarrow> Inr r | None \<Rightarrow> Inl e)
           else None))"

text \<open>\<open>left\<close> attempts may follow this one, which is number \<open>attempt\<close>.\<close>

fun retry_loop ::
    "'w http_env \<Rightarrow> go_error + http_request \<Rightarrow> nat \<Rightarrow> nat \<Rightarrow> 'w http_world \<Rightarrow>
     'w http_world \<times> (go_error + http_response)" where
  "retry_loop env newReq attempt left hw =
     (case newReq of
        Inl e \<Rightarrow> (hw, Inl e)
      | Inr r \<Rightarrow>
          (case send env r hw of
             (hw1, res) \<Rightarrow>
               (case attempt_verdict env (fst hw1) (left = 0) res of
                  Some out \<Rightarrow> (hw1, out)
                | None \<Rightarrow>
                    (case left of
                       0 \<Rightarrow> (hw1, Inl [])
                     | Suc left' \<Rightarrow>
                         (case ctx_sleep env (retry_delay env (fst hw1) attempt (response_of res)) hw1 of
                            (hw2, Some e) \<Rightarrow> (hw2, Inl e)
                          | (hw2, None) \<Rightarrow> retry_loop env newReq (attempt + 1) left' hw2)))))"

declare retry_loop.simps [simp del]

definition http_do ::
    "'w http_env \<Rightarrow> go_error + http_request \<Rightarrow> bool \<Rightarrow> 'w http_world \<Rightarrow>
     'w http_world \<times> (go_error + http_response)" where
  "http_do env newReq idempotent hw =
     retry_loop env newReq 1 (if idempotent then maxAttempts - 1 else 0) hw"

subsection \<open>What leaves the process\<close>

definition sent :: "http_event list \<Rightarrow> http_request list" where
  "sent evs = List.map_filter (\<lambda>ev. case ev of Sent r \<Rightarrow> Some r | Slept _ \<Rightarrow> None) evs"

definition slept :: "http_event list \<Rightarrow> int list" where
  "slept evs = List.map_filter (\<lambda>ev. case ev of Slept d \<Rightarrow> Some d | Sent _ \<Rightarrow> None) evs"

lemma sent_simps [simp]:
  "sent [] = []" "sent (a @ b) = sent a @ sent b" "sent (Sent r # a) = r # sent a" "sent (Slept d # a) = sent a"
  by (simp_all add: sent_def List.map_filter_def)

lemma slept_simps [simp]:
  "slept [] = []" "slept (a @ b) = slept a @ slept b" "slept (Slept d # a) = d # slept a" "slept (Sent r # a) = slept a"
  by (simp_all add: slept_def List.map_filter_def)

definition fair_jitter :: "'w http_env \<Rightarrow> bool" where
  "fair_jitter env \<longleftrightarrow> (\<forall>w n. 0 < n \<longrightarrow> 0 \<le> he_jitter env w n \<and> he_jitter env w n < n)"

lemma seconds_small: "0 \<le> secs \<Longrightarrow> secs \<le> 9223372036 \<Longrightarrow> seconds secs = secs * 1000000000"
proof -
  assume "0 \<le> secs" "secs \<le> 9223372036"
  then have "secs * 1000000000 < 2 ^ 63" "- (2 ^ 63) \<le> secs * 1000000000" by simp_all
  moreover have "seconds secs = signed_take_bit 63 (secs * 1000000000)"
    unfolding seconds_def wi_hom_mult sint_sbintrunc' by simp
  ultimately show ?thesis by (simp add: signed_take_bit_int_eq_self)
qed

lemma retry_after_bounds:
  assumes "retry_after resp = Some d"
  shows "d \<le> maxDelay"
    and "atoi (rs_retryAfter resp) = Some secs \<Longrightarrow> secs \<le> 9223372036 \<Longrightarrow> d = min (secs * 1000000000) maxDelay"
  using assms by (auto simp: retry_after_def seconds_small split: if_splits option.splits)

text \<open>A delay the registry asks for is cut to thirty seconds, but one of three hundred years wraps and is not slept at all.\<close>

lemma retry_after_wraps:
  "retry_after \<lparr>rs_status = 503, rs_retryAfter = ''3600'', rs_body = Inr []\<rparr> = Some maxDelay"
  "retry_after \<lparr>rs_status = 503, rs_retryAfter = ''9223372037'', rs_body = Inr []\<rparr> = Some (-9223372036709551616)"
  "retry_after \<lparr>rs_status = 503, rs_retryAfter = ''18446744074'', rs_body = Inr []\<rparr> = Some 290448384"
  by code_simp+

lemma backoff_bounds:
  assumes "fair_jitter env" "1 \<le> attempt"
  shows "0 < backoff env w attempt \<and> backoff env w attempt \<le> maxDelay"
proof -
  define d where "d = min (baseDelay * 2 ^ (attempt - 1)) maxDelay"
  have d: "2 \<le> d" "d \<le> maxDelay"
    using one_le_power [of "2 :: int" "attempt - 1"] by (simp_all add: d_def baseDelay_def maxDelay_def min_def del: one_le_power)
  have "0 \<le> jitter env w (d div 2) \<and> jitter env w (d div 2) \<le> d div 2"
    using assms(1) d by (auto simp: jitter_def fair_jitter_def less_imp_le)
  moreover have "backoff env w attempt = d div 2 + jitter env w (d div 2)" by (simp add: backoff_def d_def Let_def)
  ultimately show ?thesis using d by linarith
qed

lemma retry_delay_bound:
  "fair_jitter env \<Longrightarrow> 1 \<le> attempt \<Longrightarrow> retry_delay env w attempt resp \<le> maxDelay"
  using backoff_bounds [of env attempt w] retry_after_bounds(1)
  by (auto simp: retry_delay_def split: option.splits)

lemma retry_loop_log:
  assumes "retry_loop env newReq attempt left hw = (hw', out)" "1 \<le> attempt"
  shows "\<exists>evs. snd hw' = snd hw @ evs \<and> length (sent evs) \<le> Suc left \<and> length (slept evs) \<le> left \<and>
    set (sent evs) \<subseteq> {r. newReq = Inr r} \<and>
    (fair_jitter env \<longrightarrow> (\<forall>d \<in> set (slept evs). 0 < d \<and> d \<le> maxDelay))"
  using assms
proof (induction left arbitrary: attempt hw)
  case 0
  then show ?case
    by (subst (asm) retry_loop.simps)
      (auto simp: send_def attempt_verdict_def split: sum.splits prod.splits round_trip.splits option.splits if_splits)
next
  case (Suc left)
  show ?case
  proof (cases newReq)
    case (Inl e)
    then show ?thesis using Suc.prems by (auto simp: retry_loop.simps)
  next
    case (Inr r)
    obtain hw1 res where s: "send env r hw = (hw1, res)" by fastforce
    then have log1: "snd hw1 = snd hw @ [Sent r]" by (auto simp: send_def split: prod.splits)
    show ?thesis
    proof (cases "attempt_verdict env (fst hw1) False res")
      case (Some v)
      then have "hw' = hw1" using Suc.prems(1) Inr s by (simp add: retry_loop.simps)
      then show ?thesis using log1 Inr by auto
    next
      case None
      define d where "d = retry_delay env (fst hw1) attempt (response_of res)"
      obtain hw2 e where sl: "ctx_sleep env d hw1 = (hw2, e)" by fastforce
      have "fair_jitter env \<Longrightarrow> d \<le> maxDelay" unfolding d_def by (rule retry_delay_bound [OF _ Suc.prems(2)])
      then obtain nap where nap: "snd hw2 = snd hw1 @ nap" "sent nap = []" "length (slept nap) \<le> 1"
          "fair_jitter env \<longrightarrow> (\<forall>t \<in> set (slept nap). 0 < t \<and> t \<le> maxDelay)"
        using sl by (auto simp: ctx_sleep_def split: if_splits prod.splits)
      show ?thesis
      proof (cases e)
        case (Some x)
        then have "hw' = hw2" using Suc.prems(1) Inr s None sl by (simp add: retry_loop.simps d_def)
        then show ?thesis using log1 nap Inr by (intro exI [of _ "[Sent r] @ nap"]) auto
      next
        case n: None
        then have "retry_loop env newReq (attempt + 1) left hw2 = (hw', out)"
          using Suc.prems(1) Inr s None sl by (subst (asm) retry_loop.simps) (simp add: d_def)
        from Suc.IH [OF this] obtain evs where
          "snd hw' = snd hw2 @ evs" "length (sent evs) \<le> Suc left" "length (slept evs) \<le> left"
          "set (sent evs) \<subseteq> {r. newReq = Inr r}"
          "fair_jitter env \<longrightarrow> (\<forall>d \<in> set (slept evs). 0 < d \<and> d \<le> maxDelay)"
          by auto
        then show ?thesis using log1 nap Inr by (intro exI [of _ "[Sent r] @ nap @ evs"]) auto
      qed
    qed
  qed
qed

text \<open>A write leaves the process at most once and is never followed by a sleep; a read at most three times.\<close>

lemma http_do_log:
  assumes "http_do env newReq idempotent hw = (hw', out)"
  shows "\<exists>evs. snd hw' = snd hw @ evs \<and> length (sent evs) \<le> (if idempotent then maxAttempts else 1) \<and>
    length (slept evs) \<le> (if idempotent then maxAttempts - 1 else 0) \<and>
    set (sent evs) \<subseteq> {r. newReq = Inr r} \<and>
    (fair_jitter env \<longrightarrow> (\<forall>d \<in> set (slept evs). 0 < d \<and> d \<le> maxDelay))"
  using retry_loop_log [OF assms [unfolded http_do_def]]
  by (auto simp: maxAttempts_def split: if_splits)

text \<open>
  What comes back: a response the server gave to the request, terminal unless it is the answer to the
  last attempt allowed.
\<close>

lemma retry_loop_answer:
  assumes "retry_loop env newReq attempt left hw = (hw', Inr resp)"
  shows "\<exists>r w w' res. newReq = Inr r \<and> he_roundTrip env r w = (w', res) \<and> response_of res = Some resp \<and>
    fst hw' = w' \<and>
    (\<exists>evs. snd hw' = snd hw @ evs \<and> (is_retryable_status (rs_status resp) \<longrightarrow> length (sent evs) = Suc left))"
  using assms
proof (induction left arbitrary: attempt hw)
  case 0
  obtain r where r: "newReq = Inr r" using 0 by (cases newReq) (auto simp: retry_loop.simps)
  obtain w1 res where s: "he_roundTrip env r (fst hw) = (w1, res)" by fastforce
  then have snt: "send env r hw = ((w1, snd hw @ [Sent r]), res)" by (simp add: send_def)
  have "attempt_verdict env w1 True res = Some (Inr resp) \<and> hw' = (w1, snd hw @ [Sent r])"
    using 0 r snt by (auto simp: retry_loop.simps attempt_verdict_def split: option.splits round_trip.splits if_splits)
  then have "response_of res = Some resp" "fst hw' = w1" "snd hw' = snd hw @ [Sent r]"
    by (auto simp: attempt_verdict_def response_of_def split: round_trip.splits if_splits option.splits)
  then show ?case using r s by (intro exI [of _ r] exI [of _ "fst hw"] exI [of _ w1] exI [of _ res]) simp
next
  case (Suc left)
  obtain r where r: "newReq = Inr r" using Suc.prems by (cases newReq) (auto simp: retry_loop.simps)
  obtain w1 res where s: "he_roundTrip env r (fst hw) = (w1, res)" by fastforce
  then have snt: "send env r hw = ((w1, snd hw @ [Sent r]), res)" by (simp add: send_def)
  show ?case
  proof (cases "attempt_verdict env w1 False res")
    case (Some v)
    then have v: "hw' = (w1, snd hw @ [Sent r])" "v = Inr resp" using Suc.prems r snt by (simp_all add: retry_loop.simps)
    then have "res = Got resp \<and> \<not> is_retryable_status (rs_status resp)"
      using Some by (auto simp: attempt_verdict_def split: round_trip.splits if_splits)
    then show ?thesis using r s v
      by (intro exI [of _ r] exI [of _ "fst hw"] exI [of _ w1] exI [of _ res]) (auto simp: response_of_def)
  next
    case None
    define d where "d = retry_delay env w1 attempt (response_of res)"
    obtain hw2 e where sl: "ctx_sleep env d (w1, snd hw @ [Sent r]) = (hw2, e)" by fastforce
    then obtain nap where nap: "snd hw2 = snd hw @ [Sent r] @ nap" "sent nap = []"
      by (auto simp: ctx_sleep_def split: if_splits prod.splits)
    have "e = None" using Suc.prems r snt None sl by (cases e) (auto simp: retry_loop.simps d_def)
    then have "retry_loop env newReq (attempt + 1) left hw2 = (hw', Inr resp)"
      using Suc.prems r snt None sl by (subst (asm) retry_loop.simps) (simp add: d_def)
    from Suc.IH [OF this] show ?thesis using nap by force
  qed
qed

end
