(* ===== verification/Http_Codec.thy ===== *)
theory Http_Codec
  imports Http_Retry Recordname Validation
begin

section \<open>Requests, JSON bodies and the client plumbing the HTTP clients share\<close>

text \<open>
  What the three HTTP clients use of the standard library - \<open>url.PathEscape\<close>, \<open>base64\<close>,
  \<open>json.Unmarshal\<close> into structs, slices, maps and pointers, \<open>json.Marshal\<close> of structs - and the fields,
  headers and authentication they have in common (internal/mds/confluent, internal/kafkarest/confluent,
  internal/schemaregistry/confluent). A value that does not fit its Go type is an error here at once,
  where Go goes on and returns the error at the end: no caller looks at a value that came with an error.
  Texts of library errors are left out of the messages.
\<close>

subsection \<open>Text\<close>

definition upper_hex :: "nat \<Rightarrow> char" where
  "upper_hex n = (if n < 10 then char_of (0x30 + n) else char_of (0x41 + (n - 10)))"

definition path_char :: "char \<Rightarrow> bool" where
  "path_char c \<longleftrightarrow> ident_char c \<or> c \<in> set ''-.~$&+:=@''"

text \<open>\<open>url.PathEscape\<close>.\<close>

definition path_escape :: "string \<Rightarrow> string" where
  "path_escape s =
     concat (map (\<lambda>c. if path_char c then [c] else [CHR ''%'', upper_hex (byte c div 16), upper_hex (byte c mod 16)]) s)"

definition base64_char :: "nat \<Rightarrow> char" where
  "base64_char n = ''ABCDEFGHIJKLMNOPQRSTUVWXYZabcdefghijklmnopqrstuvwxyz0123456789+/'' ! n"

text \<open>\<open>base64.StdEncoding.EncodeToString\<close>.\<close>

fun base64 :: "string \<Rightarrow> string" where
  "base64 [] = []"
| "base64 [a] = [base64_char (byte a div 4), base64_char (byte a mod 4 * 16), CHR ''='', CHR ''='']"
| "base64 [a, b] =
     [base64_char (byte a div 4), base64_char (byte a mod 4 * 16 + byte b div 16),
      base64_char (byte b mod 16 * 4), CHR ''='']"
| "base64 (a # b # c # s) =
     [base64_char (byte a div 4), base64_char (byte a mod 4 * 16 + byte b div 16),
      base64_char (byte b mod 16 * 4 + byte c div 64), base64_char (byte c mod 64)] @ base64 s"

lemma codec_examples:
  "path_escape ''User:a/b c'' = ''User:a%2Fb%20c''"
  "path_escape ''t-value;1'' = ''t-value%3B1''"
  "base64 ''user:pass'' = ''dXNlcjpwYXNz''"
  "base64 ''a:bc'' = ''YTpiYw==''"
  by code_simp+

subsection \<open>Decoding\<close>

type_synonym 'a decoder = "json \<Rightarrow> 'a \<Rightarrow> 'a option"

definition dec_int :: "int decoder" where
  "dec_int j old = (case j of JNumber n \<Rightarrow> atoi n | JNull \<Rightarrow> Some old | _ \<Rightarrow> None)"

definition dec_bool :: "bool decoder" where
  "dec_bool j old = (case j of JBool b \<Rightarrow> Some b | JNull \<Rightarrow> Some old | _ \<Rightarrow> None)"

definition dec_list :: "'a decoder \<Rightarrow> 'a \<Rightarrow> 'a list decoder" where
  "dec_list dec zero j old =
     (case j of JArray js \<Rightarrow> those (map (\<lambda>x. dec x zero) js) | JNull \<Rightarrow> Some [] | _ \<Rightarrow> None)"

definition dec_ptr :: "'a decoder \<Rightarrow> 'a \<Rightarrow> 'a option decoder" where
  "dec_ptr dec zero j old =
     (if j = JNull then Some None
      else map_option Some (dec j (case old of None \<Rightarrow> zero | Some v \<Rightarrow> v)))"

fun dec_entries :: "'a decoder \<Rightarrow> 'a \<Rightarrow> (string \<times> json) list \<Rightarrow> (string, 'a) gomap decoder" where
  "dec_entries dec zero [] j old = Some old"
| "dec_entries dec zero ((k, v) # ms) j old =
     (case dec v zero of None \<Rightarrow> None | Some x \<Rightarrow> dec_entries dec zero ms j (AList.update k x old))"

definition dec_map :: "'a decoder \<Rightarrow> 'a \<Rightarrow> (string, 'a) gomap decoder" where
  "dec_map dec zero j old =
     (case j of JObject ms \<Rightarrow> dec_entries dec zero ms j old | JNull \<Rightarrow> Some [] | _ \<Rightarrow> None)"

text \<open>A struct: by key, exactly or else folded, the decoder of the field.\<close>

type_synonym 'r struct_fields = "(string \<times> 'r decoder) list"

definition field_named :: "'r struct_fields \<Rightarrow> string \<Rightarrow> 'r decoder option" where
  "field_named fs k =
     (case map_of fs k of
        Some f \<Rightarrow> Some f
      | None \<Rightarrow> map_option snd (find (\<lambda>f. fold_name (fst f) = fold_name k) fs))"

fun dec_members :: "'r struct_fields \<Rightarrow> (string \<times> json) list \<Rightarrow> 'r \<Rightarrow> 'r option" where
  "dec_members fs [] r = Some r"
| "dec_members fs ((k, v) # ms) r =
     (case field_named fs k of
        None \<Rightarrow> dec_members fs ms r
      | Some f \<Rightarrow> (case f v r of None \<Rightarrow> None | Some r' \<Rightarrow> dec_members fs ms r'))"

definition dec_struct :: "'r struct_fields \<Rightarrow> 'r decoder" where
  "dec_struct fs j r = (case j of JObject ms \<Rightarrow> dec_members fs ms r | JNull \<Rightarrow> Some r | _ \<Rightarrow> None)"

definition field :: "string \<Rightarrow> 'a decoder \<Rightarrow> ('r \<Rightarrow> 'a) \<Rightarrow> ('a \<Rightarrow> 'r \<Rightarrow> 'r) \<Rightarrow> string \<times> 'r decoder" where
  "field name dec get put = (name, \<lambda>j r. map_option (\<lambda>x. put x r) (dec j (get r)))"

definition unmarshal :: "'a decoder \<Rightarrow> 'a \<Rightarrow> string \<Rightarrow> 'a option" where
  "unmarshal dec zero body = Option.bind (json_unmarshal body) (\<lambda>j. dec j zero)"

subsection \<open>Encoding\<close>

text \<open>\<open>json.Marshal\<close> of a struct writes its fields in order, of a map its keys sorted.\<close>

definition struct_text :: "(string \<times> string) list \<Rightarrow> string" where
  "struct_text fs = ''{'' @ join '','' (map (\<lambda>(k, t). json_string k @ '':'' @ t) fs) @ ''}''"

definition list_text :: "string list \<Rightarrow> string" where
  "list_text ts = ''['' @ join '','' ts @ '']''"

definition map_text :: "(string, string) gomap \<Rightarrow> string" where
  "map_text m = json_encode (JObject (map (\<lambda>(k, v). (k, JString v)) m))"

subsection \<open>Clients\<close>

datatype http_auth = BasicAuth string string | BearerAuth string | MTLSAuth

text \<open>\<open>http.NewRequestWithContext\<close> fails when the URL does not parse.\<close>

record 'w http_client =
  hc_env :: "'w http_env"
  hc_parseUrl :: url_parser
  hc_baseURL :: string
  hc_auth :: "http_auth option"

definition basic_credentials :: "string \<Rightarrow> string \<Rightarrow> string" where
  "basic_credentials user password = ''Basic '' @ base64 (user @ '':'' @ password)"

definition apply_auth :: "http_auth option \<Rightarrow> (string, string) gomap" where
  "apply_auth auth =
     (case auth of
        None \<Rightarrow> []
      | Some (BasicAuth user password) \<Rightarrow> [(''Authorization'', basic_credentials user password)]
      | Some (BearerAuth token) \<Rightarrow> [(''Authorization'', ''Bearer '' @ token)]
      | Some MTLSAuth \<Rightarrow> [])"

definition new_request ::
    "'w http_client \<Rightarrow> string \<Rightarrow> string \<Rightarrow> string \<Rightarrow> string \<Rightarrow> (string \<times> string) option \<Rightarrow> go_error + http_request" where
  "new_request c pre method url accept body =
     (if hc_parseUrl c url = None then Inl [T (pre @ ''build request'')]
      else Inr \<lparr>rq_method = method, rq_url = url,
        rq_headers = [(''Accept'', accept)] @
          (case body of None \<Rightarrow> [] | Some (contentType, _) \<Rightarrow> [(''Content-Type'', contentType)]) @
          apply_auth (hc_auth c),
        rq_body = map_option snd body\<rparr>)"

definition ok_status :: "int \<Rightarrow> bool" where
  "ok_status status \<longleftrightarrow> 200 \<le> status \<and> status < 300"

type_synonym ('w, 'a) http_call = "'w http_world \<Rightarrow> 'w http_world \<times> int \<times> (go_error + 'a)"

text \<open>
  The exchange of all clients: build, \<open>httpretry.Do\<close>, read the body, then \<open>finish\<close> on the status and the
  body. The status is 0 when no response came.
\<close>

definition exchange ::
    "'w http_client \<Rightarrow> string \<Rightarrow> string \<Rightarrow> go_error + http_request \<Rightarrow> bool \<Rightarrow> (int \<Rightarrow> string \<Rightarrow> go_error + 'a) \<Rightarrow>
     ('w, 'a) http_call" where
  "exchange c failed unread newReq idempotent finish hw =
     (case http_do (hc_env c) newReq idempotent hw of
        (hw', Inl e) \<Rightarrow> (hw', 0, Inl (T failed # e))
      | (hw', Inr resp) \<Rightarrow>
          (hw', rs_status resp,
           case rs_body resp of
             Inl e \<Rightarrow> Inl (T unread # e)
           | Inr body \<Rightarrow> finish (rs_status resp) body))"

text \<open>The \<open>message\<close> field of an error envelope whose other field is a number.\<close>

definition envelope_fields :: "(int \<times> string) struct_fields" where
  "envelope_fields =
     [field ''error_code'' dec_int fst (\<lambda>x r. (x, snd r)), field ''message'' set_field snd (\<lambda>x r. (fst r, x))]"

definition snippet :: "string \<Rightarrow> string" where
  "snippet s = (if length s > 200 then take 200 s @ ''...'' else s)"

lemma exchange_log:
  assumes "exchange c failed unread newReq idempotent finish hw = (hw', out)"
  shows "\<exists>evs. snd hw' = snd hw @ evs \<and> length (sent evs) \<le> (if idempotent then maxAttempts else 1) \<and>
    length (slept evs) \<le> (if idempotent then maxAttempts - 1 else 0) \<and> set (sent evs) \<subseteq> {r. newReq = Inr r}"
proof (cases "http_do (hc_env c) newReq idempotent hw")
  case (Pair hw1 res)
  then have "hw1 = hw'" using assms(1) by (auto simp: exchange_def split: sum.splits)
  then show ?thesis using http_do_log Pair by blast
qed

text \<open>A value comes from an answer of the server to the request, or the server gave none.\<close>

lemma exchange_answer:
  assumes "exchange c failed unread newReq idempotent finish hw = (hw', status, res)"
    "\<And>r w w' e resp. he_roundTrip (hc_env c) r w \<noteq> (w', Broke e (Some resp))"
  shows "(status = 0 \<and> isl res) \<or>
    (\<exists>r w w' resp. newReq = Inr r \<and> he_roundTrip (hc_env c) r w = (w', Got resp) \<and> status = rs_status resp \<and>
       (isl res \<or> (\<exists>body. rs_body resp = Inr body \<and> res = finish status body)))"
proof (cases "http_do (hc_env c) newReq idempotent hw")
  case (Pair hw1 out)
  show ?thesis
  proof (cases out)
    case (Inl e)
    then show ?thesis using assms(1) Pair by (auto simp: exchange_def)
  next
    case (Inr resp)
    then obtain r w w' res' where *: "newReq = Inr r" "he_roundTrip (hc_env c) r w = (w', res')" "response_of res' = Some resp"
      using retry_loop_answer Pair unfolding http_do_def by blast
    then have "res' = Got resp" using assms(2) by (cases res') (auto simp: response_of_def)
    moreover have "status = rs_status resp" "isl res \<or> (\<exists>body. rs_body resp = Inr body \<and> res = finish status body)"
      using assms(1) Pair Inr by (auto simp: exchange_def split: sum.splits)
    ultimately show ?thesis using *(1,2) by blast
  qed
qed

end
