(* ===== verification/Mds_Http.thy ===== *)
theory Mds_Http
  imports Http_Codec Import_Names
begin

section \<open>The MDS client over HTTP (internal/mds/confluent)\<close>

text \<open>
  Go leaves the order in which a map is ranged over open. \<open>order\<close> gives the order of each range: its first
  argument names the range (the principals, the entries of one answer, the roles of one entry), its
  second are the keys.
\<close>

type_synonym range_order = "string list \<Rightarrow> string list \<Rightarrow> string list"

definition mds_new :: "'w http_client \<Rightarrow> string \<Rightarrow> go_error + 'w http_client" where
  "mds_new c endpoint =
     (let base = trim_right_slash endpoint
      in if base = [] then Inl [T ''mds: endpoint is empty''] else Inr (c\<lparr>hc_baseURL := base\<rparr>))"

definition mds_status_error :: "int \<Rightarrow> string \<Rightarrow> go_error" where
  "mds_status_error status body =
     (let returned = [T ''mds: returned status '', T (itoa status)]
      in case unmarshal (dec_struct envelope_fields) (0, []) body of
           Some (_, msg) \<Rightarrow>
             (if msg \<noteq> [] then returned @ [T '': '', T msg]
              else if snippet body \<noteq> [] then returned @ [T '': '', T (snippet body)] else returned)
         | None \<Rightarrow> (if snippet body \<noteq> [] then returned @ [T '': '', T (snippet body)] else returned))"

text \<open>\<open>out\<close> is \<^term>\<open>None\<close> where the caller passes nil: the body of a success is not decoded.\<close>

definition mds_finish :: "'a decoder option \<Rightarrow> 'a \<Rightarrow> int \<Rightarrow> string \<Rightarrow> go_error + 'a" where
  "mds_finish out zero status body =
     (if \<not> ok_status status then Inl (mds_status_error status body)
      else case out of
             None \<Rightarrow> Inr zero
           | Some dec \<Rightarrow>
               (if body = [] then Inr zero
                else case unmarshal dec zero body of
                       None \<Rightarrow> Inl [T ''mds: decode response''] | Some v \<Rightarrow> Inr v))"

definition mds_do ::
    "'w http_client \<Rightarrow> string \<Rightarrow> string \<Rightarrow> string option \<Rightarrow> 'a decoder option \<Rightarrow> 'a \<Rightarrow> bool \<Rightarrow> ('w, 'a) http_call" where
  "mds_do c method path body out zero idempotent =
     exchange c ''mds: request failed: '' ''mds: read response body: ''
       (new_request c ''mds: '' method (hc_baseURL c @ path) ''application/json''
          (map_option (Pair ''application/json'') body))
       idempotent (mds_finish out zero)"

definition scope_clusters :: "mds_scope \<Rightarrow> (string, string) gomap" where
  "scope_clusters s =
     (''kafka-cluster'', msc_kafkaCluster s) #
     (if msc_type s = ''schema-registry'' then [(''schema-registry-cluster'', msc_subCluster s)]
      else if msc_type s = ''connect'' then [(''connect-cluster'', msc_subCluster s)]
      else if msc_type s = ''ksql'' then [(''ksql-cluster'', msc_subCluster s)]
      else [])"

definition clusters_body :: "mds_scope \<Rightarrow> string" where
  "clusters_body s = struct_text [(''clusters'', map_text (scope_clusters s))]"

subsection \<open>\<open>ListRoleBindings\<close>\<close>

definition dec_role_name :: "string decoder" where
  "dec_role_name = dec_struct [field ''name'' set_field id (\<lambda>x _. x)]"

definition dec_roles :: "string list decoder" where
  "dec_roles = dec_list dec_role_name []"

definition dec_principals :: "string list decoder" where
  "dec_principals = dec_list set_field []"

record pattern_json =
  pj_resourceType :: string
  pj_name :: string
  pj_patternType :: string

definition no_pattern :: pattern_json where
  "no_pattern = \<lparr>pj_resourceType = [], pj_name = [], pj_patternType = []\<rparr>"

definition dec_pattern :: "pattern_json decoder" where
  "dec_pattern = dec_struct
     [field ''resourceType'' set_field pj_resourceType (\<lambda>x r. r\<lparr>pj_resourceType := x\<rparr>),
      field ''name'' set_field pj_name (\<lambda>x r. r\<lparr>pj_name := x\<rparr>),
      field ''patternType'' set_field pj_patternType (\<lambda>x r. r\<lparr>pj_patternType := x\<rparr>)]"

type_synonym role_patterns = "(string, pattern_json list) gomap"

definition dec_rolebindings :: "(string, role_patterns) gomap decoder" where
  "dec_rolebindings = dec_struct
     [field ''rolebindings'' (dec_map (dec_map (dec_list dec_pattern no_pattern) []) []) id (\<lambda>x _. x)]"

definition pattern_binding :: "mds_scope \<Rightarrow> string \<Rightarrow> string \<Rightarrow> pattern_json \<Rightarrow> mds_role_binding" where
  "pattern_binding scope p role pat =
     \<lparr>mrb_principal = p, mrb_role = role, mrb_scope = scope,
      mrb_resource = Some \<lparr>mrp_type = pj_resourceType pat, mrp_name = pj_name pat,
        mrp_patternType = to_lower (pj_patternType pat)\<rparr>\<rparr>"

definition role_entries :: "mds_scope \<Rightarrow> string \<Rightarrow> string \<Rightarrow> pattern_json list \<Rightarrow> mds_role_binding list" where
  "role_entries scope p role patterns =
     (if patterns = [] then [\<lparr>mrb_principal = p, mrb_role = role, mrb_scope = scope, mrb_resource = None\<rparr>]
      else map (pattern_binding scope p role) patterns)"

definition lookup_list :: "(string, 'a list) gomap \<Rightarrow> string \<Rightarrow> 'a list" where
  "lookup_list m k = (case map_of m k of None \<Rightarrow> [] | Some v \<Rightarrow> v)"

definition answer_entries ::
    "range_order \<Rightarrow> mds_scope \<Rightarrow> string \<Rightarrow> (string, role_patterns) gomap \<Rightarrow> mds_role_binding list" where
  "answer_entries order scope prn m =
     concat (map (\<lambda>p. let roles = lookup_list m p
                      in concat (map (\<lambda>role. role_entries scope p role (lookup_list roles role))
                           (order [prn, p] (map fst roles))))
       (order [prn] (map fst m)))"

text \<open>Step 2: the principals of each role, a 404 skipped. The keys of the set, first seen first.\<close>

fun lookup_roles ::
    "'w http_client \<Rightarrow> string \<Rightarrow> string list \<Rightarrow> string list \<Rightarrow> 'w http_world \<Rightarrow>
     'w http_world \<times> (go_error + string list)" where
  "lookup_roles c body [] acc hw = (hw, Inr acc)"
| "lookup_roles c body (role # roles) acc hw =
     (case mds_do c ''POST'' (''/security/1.0/lookup/role/'' @ path_escape role) (Some body)
             (Some dec_principals) [] True hw of
        (hw', status, Inl e) \<Rightarrow>
          (if status = 404 then lookup_roles c body roles acc hw'
           else (hw', Inl ([T ''mds.ListRoleBindings: lookup principals for role '', Q role, T '': ''] @ e)))
      | (hw', _, Inr ps) \<Rightarrow> lookup_roles c body roles (foldl (\<lambda>s p. if p \<in> set s then s else s @ [p]) acc ps) hw')"

text \<open>Step 3: the bindings of each principal.\<close>

fun lookup_bindings ::
    "'w http_client \<Rightarrow> range_order \<Rightarrow> mds_scope \<Rightarrow> string list \<Rightarrow> mds_role_binding list \<Rightarrow> 'w http_world \<Rightarrow>
     'w http_world \<times> (go_error + mds_role_binding list)" where
  "lookup_bindings c order scope [] out hw = (hw, Inr out)"
| "lookup_bindings c order scope (prn # ps) out hw =
     (case mds_do c ''POST'' (''/security/1.0/lookup/rolebindings/principal/'' @ path_escape prn)
             (Some (clusters_body scope)) (Some dec_rolebindings) [] True hw of
        (hw', _, Inl e) \<Rightarrow>
          (hw', Inl ([T ''mds.ListRoleBindings: principal '', T prn, T '': ''] @ e))
      | (hw', _, Inr m) \<Rightarrow> lookup_bindings c order scope ps (out @ answer_entries order scope prn m) hw')"

definition mds_list_role_bindings ::
    "'w http_client \<Rightarrow> range_order \<Rightarrow> mds_scope \<Rightarrow> 'w http_world \<Rightarrow>
     'w http_world \<times> (go_error + mds_role_binding list)" where
  "mds_list_role_bindings c order scope hw =
     (case mds_do c ''GET'' ''/security/1.0/roles'' None (Some dec_roles) [] True hw of
        (hw1, _, Inl e) \<Rightarrow> (hw1, Inl ([T ''mds.ListRoleBindings: list roles: ''] @ e))
      | (hw1, _, Inr roles) \<Rightarrow>
          (case lookup_roles c (clusters_body scope) roles [] hw1 of
             (hw2, Inl e) \<Rightarrow> (hw2, Inl e)
           | (hw2, Inr principals) \<Rightarrow>
               (if principals = [] then (hw2, Inr [])
                else lookup_bindings c order scope (order [] principals) [] hw2)))"

subsection \<open>Writes\<close>

definition act_result :: "string \<Rightarrow> 'w http_world \<times> int \<times> (go_error + unit) \<Rightarrow> 'w http_world \<times> go_error option" where
  "act_result pre r = (case r of (hw, _, Inl e) \<Rightarrow> (hw, Some (T pre # e)) | (hw, _, Inr _) \<Rightarrow> (hw, None))"

definition write_op :: "string \<Rightarrow> string" where
  "write_op method = (if method = ''DELETE'' then ''mds.RemoveRoleBinding: '' else ''mds.AddRoleBinding: '')"

definition role_path :: "mds_role_binding \<Rightarrow> string" where
  "role_path rb = ''/security/1.0/principals/'' @ path_escape (mrb_principal rb) @ ''/roles/'' @ path_escape (mrb_role rb)"

definition pattern_text :: "mds_resource_pattern \<Rightarrow> string" where
  "pattern_text r = struct_text
     [(''resourceType'', json_string (mrp_type r)), (''name'', json_string (mrp_name r)),
      (''patternType'', json_string (to_upper (mrp_patternType r)))]"

definition bindings_request ::
    "'w http_client \<Rightarrow> string \<Rightarrow> mds_role_binding \<Rightarrow> mds_resource_pattern \<Rightarrow> 'w http_world \<Rightarrow>
     'w http_world \<times> go_error option" where
  "bindings_request c method rb r hw =
     act_result (write_op method) (mds_do c method (role_path rb @ ''/bindings'')
       (Some (struct_text [(''scope'', clusters_body (mrb_scope rb)), (''resourcePatterns'', list_text [pattern_text r])]))
       None () False hw)"

definition cluster_role_request ::
    "'w http_client \<Rightarrow> string \<Rightarrow> mds_role_binding \<Rightarrow> 'w http_world \<Rightarrow> 'w http_world \<times> go_error option" where
  "cluster_role_request c method rb hw =
     act_result (write_op method) (mds_do c method (role_path rb) (Some (clusters_body (mrb_scope rb))) None () False hw)"

definition mds_add_role_binding ::
    "'w http_client \<Rightarrow> mds_role_binding \<Rightarrow> 'w http_world \<Rightarrow> 'w http_world \<times> go_error option" where
  "mds_add_role_binding c rb hw =
     (case mrb_resource rb of
        Some r \<Rightarrow> bindings_request c ''POST'' rb r hw
      | None \<Rightarrow> cluster_role_request c ''POST'' rb hw)"

definition mds_remove_role_binding ::
    "'w http_client \<Rightarrow> mds_role_binding \<Rightarrow> 'w http_world \<Rightarrow> 'w http_world \<times> go_error option" where
  "mds_remove_role_binding c rb hw =
     (case mrb_resource rb of
        Some r \<Rightarrow> bindings_request c ''DELETE'' rb r hw
      | None \<Rightarrow> cluster_role_request c ''DELETE'' rb hw)"

end
