(* ===== verification/Registry_Http.thy ===== *)
theory Registry_Http
  imports Http_Codec
begin

section \<open>The Schema Registry client over HTTP (internal/schemaregistry/confluent)\<close>

text \<open>Every call returns the status with its result, since a 404 has a meaning of its own for most.\<close>

definition acceptJSON :: string where
  "acceptJSON = ''application/vnd.schemaregistry.v1+json''"

definition registerContentType :: string where
  "registerContentType = ''application/vnd.schemaregistry.v1+json''"

definition registry_new :: "'w http_client \<Rightarrow> string \<Rightarrow> go_error + 'w http_client" where
  "registry_new c endpoint =
     (let base = trim_right_slash endpoint
      in if base = [] then Inl [T ''schema registry endpoint is empty''] else Inr (c\<lparr>hc_baseURL := base\<rparr>))"

definition registry_status_error :: "int \<Rightarrow> string \<Rightarrow> go_error" where
  "registry_status_error status body =
     (let returned = [T ''schema registry returned status '', T (itoa status)]
      in case unmarshal (dec_struct envelope_fields) (0, []) body of
           Some (_, msg) \<Rightarrow> (if msg \<noteq> [] then returned @ [T '': '', T msg] else returned)
         | None \<Rightarrow> returned)"

definition registry_finish :: "'a decoder option \<Rightarrow> 'a \<Rightarrow> int \<Rightarrow> string \<Rightarrow> go_error + 'a" where
  "registry_finish out zero status body =
     (if \<not> ok_status status then Inl (registry_status_error status body)
      else case out of
             None \<Rightarrow> Inr zero
           | Some dec \<Rightarrow>
               (if body = [] then Inr zero
                else case unmarshal dec zero body of None \<Rightarrow> Inl [T ''decode response''] | Some v \<Rightarrow> Inr v))"

definition registry_do ::
    "'w http_client \<Rightarrow> string \<Rightarrow> string \<Rightarrow> string \<Rightarrow> string option \<Rightarrow> 'a decoder option \<Rightarrow> 'a \<Rightarrow> bool \<Rightarrow>
     ('w, 'a) http_call" where
  "registry_do c method path contentType body out zero idempotent =
     exchange c ''schema registry request failed: '' ''read response body: ''
       (new_request c [] method (hc_baseURL c @ path) acceptJSON (map_option (Pair contentType) body))
       idempotent (registry_finish out zero)"

definition registry_do_json ::
    "'w http_client \<Rightarrow> string \<Rightarrow> string \<Rightarrow> string option \<Rightarrow> 'a decoder option \<Rightarrow> 'a \<Rightarrow> bool \<Rightarrow> ('w, 'a) http_call" where
  "registry_do_json c method path body out zero idempotent =
     registry_do c method path ''application/json'' body out zero idempotent"

text \<open>A 404 answered with a value, any other error passed on.\<close>

definition on_missing :: "'b \<Rightarrow> ('a \<Rightarrow> 'b) \<Rightarrow> 'w http_world \<times> int \<times> (go_error + 'a) \<Rightarrow> 'w http_world \<times> (go_error + 'b)" where
  "on_missing absent found r =
     (case r of (hw, status, res) \<Rightarrow>
        (hw, if status = 404 then Inr absent else case res of Inl e \<Rightarrow> Inl e | Inr v \<Rightarrow> Inr (found v)))"

definition list_subjects :: "'w http_client \<Rightarrow> 'w http_world \<Rightarrow> 'w http_world \<times> (go_error + string list)" where
  "list_subjects c hw =
     (case registry_do_json c ''GET'' ''/subjects'' None (Some (dec_list set_field [])) [] True hw of
        (hw', _, res) \<Rightarrow> (hw', res))"

record subject_version =
  sv_id :: int
  sv_version :: int
  sv_schema :: string
  sv_schemaType :: string

definition dec_subject_version :: "subject_version decoder" where
  "dec_subject_version = dec_struct
     [field ''id'' dec_int sv_id (\<lambda>x r. r\<lparr>sv_id := x\<rparr>),
      field ''version'' dec_int sv_version (\<lambda>x r. r\<lparr>sv_version := x\<rparr>),
      field ''schema'' set_field sv_schema (\<lambda>x r. r\<lparr>sv_schema := x\<rparr>),
      field ''schemaType'' set_field sv_schemaType (\<lambda>x r. r\<lparr>sv_schemaType := x\<rparr>)]"

definition get_subject ::
    "'w http_client \<Rightarrow> string \<Rightarrow> 'w http_world \<Rightarrow> 'w http_world \<times> (go_error + subject_state option)" where
  "get_subject c subject hw =
     on_missing None
       (\<lambda>v. Some \<lparr>ss_subject = subject, ss_id = sv_id v, ss_version = sv_version v,
          ss_schema = \<lparr>sch_type = (if sv_schemaType v = [] then ''AVRO'' else sv_schemaType v),
            sch_definition = sv_schema v\<rparr>,
          ss_compatibility = []\<rparr>)
       (registry_do_json c ''GET'' (''/subjects/'' @ path_escape subject @ ''/versions/latest'') None
          (Some dec_subject_version) \<lparr>sv_id = 0, sv_version = 0, sv_schema = [], sv_schemaType = []\<rparr> True hw)"

definition schema_payload :: "schema \<Rightarrow> string" where
  "schema_payload s =
     struct_text [(''schema'', json_string (sch_definition s)), (''schemaType'', json_string (sch_type s))]"

definition one_field :: "string \<Rightarrow> 'a decoder \<Rightarrow> 'a decoder" where
  "one_field name dec = dec_struct [field name dec id (\<lambda>x _. x)]"

definition check_compatibility ::
    "'w http_client \<Rightarrow> string \<Rightarrow> schema \<Rightarrow> 'w http_world \<Rightarrow> 'w http_world \<times> (go_error + bool)" where
  "check_compatibility c subject s hw =
     on_missing True id
       (registry_do_json c ''POST'' (''/compatibility/subjects/'' @ path_escape subject @ ''/versions/latest'')
          (Some (schema_payload s)) (Some (one_field ''is_compatible'' dec_bool)) False True hw)"

definition register_schema ::
    "'w http_client \<Rightarrow> string \<Rightarrow> schema \<Rightarrow> 'w http_world \<Rightarrow> 'w http_world \<times> (go_error + int)" where
  "register_schema c subject s hw =
     (case registry_do c ''POST'' (''/subjects/'' @ path_escape subject @ ''/versions'') registerContentType
             (Some (schema_payload s)) (Some (one_field ''id'' dec_int)) 0 False hw of
        (hw', _, res) \<Rightarrow> (hw', res))"

definition lookup_schema ::
    "'w http_client \<Rightarrow> string \<Rightarrow> schema \<Rightarrow> 'w http_world \<Rightarrow> 'w http_world \<times> (go_error + int)" where
  "lookup_schema c subject s hw =
     on_missing 0 id
       (registry_do_json c ''POST'' (''/subjects/'' @ path_escape subject) (Some (schema_payload s))
          (Some (one_field ''version'' dec_int)) 0 True hw)"

definition get_compatibility ::
    "'w http_client \<Rightarrow> string \<Rightarrow> 'w http_world \<Rightarrow> 'w http_world \<times> (go_error + string)" where
  "get_compatibility c subject hw =
     on_missing [] id
       (registry_do_json c ''GET'' (''/config/'' @ path_escape subject) None
          (Some (one_field ''compatibilityLevel'' set_field)) [] True hw)"

definition get_global_compatibility :: "'w http_client \<Rightarrow> 'w http_world \<Rightarrow> 'w http_world \<times> (go_error + string)" where
  "get_global_compatibility c hw =
     on_missing [] id
       (registry_do_json c ''GET'' ''/config'' None (Some (one_field ''compatibilityLevel'' set_field)) [] True hw)"

definition set_compatibility ::
    "'w http_client \<Rightarrow> string \<Rightarrow> string \<Rightarrow> 'w http_world \<Rightarrow> 'w http_world \<times> (go_error + unit)" where
  "set_compatibility c subject level hw =
     (case registry_do_json c ''PUT'' (''/config/'' @ path_escape subject)
             (Some (map_text [(''compatibility'', level)])) None () False hw of
        (hw', _, res) \<Rightarrow> (hw', res))"

definition delete_subject ::
    "'w http_client \<Rightarrow> string \<Rightarrow> 'w http_world \<Rightarrow> 'w http_world \<times> (go_error + unit)" where
  "delete_subject c subject hw =
     on_missing () id (registry_do_json c ''DELETE'' (''/subjects/'' @ path_escape subject) None None () False hw)"

end
