(* ===== verification/Rest_Http.thy ===== *)
theory Rest_Http
  imports Http_Codec Go_Path
begin

section \<open>The Kafka REST client over HTTP (internal/kafkarest/confluent)\<close>

text \<open>
  The discovered cluster id is state of the client, so a call takes and returns it with the world. An
  error carries the HTTP status \<open>statusOf\<close> finds in it, 0 for an error that is no answer of the server.
\<close>

type_synonym 'w rest_world = "string \<times> 'w http_world"

type_synonym rest_error = "int \<times> go_error"

definition maxPages :: nat where
  "maxPages = 1000"

record 'w rest_http =
  rh_client :: "'w http_client"
  rh_base :: url_parts

definition rest_new :: "'w http_client \<Rightarrow> string \<Rightarrow> go_error + 'w rest_http" where
  "rest_new c endpoint =
     (let base = trim_suffix endpoint ''/''
      in if base = [] then Inl [T ''kafkarest: endpoint is empty'']
         else case hc_parseUrl c base of
                None \<Rightarrow> Inl [T ''kafkarest: invalid endpoint'']
              | Some u \<Rightarrow>
                  (if ul_scheme u = [] \<or> ul_host u = [] then Inl [T ''kafkarest: endpoint must be an absolute URL'']
                   else if has_suffix (ul_path u) ''/v3'' then Inl [T ''kafkarest: rest endpoint must not include /v3'']
                   else Inr \<lparr>rh_client = c\<lparr>hc_baseURL := base\<rparr>, rh_base = u\<rparr>))"

definition rest_status_error :: "int \<Rightarrow> string \<Rightarrow> rest_error" where
  "rest_status_error status body =
     (let returned = [T ''kafkarest: returned status '', T (itoa status)]; text = snippet (trim_space body);
          bare = (if text \<noteq> [] then returned @ [T '': '', T text] else returned)
      in (status,
          case unmarshal (dec_struct [field ''message'' set_field id (\<lambda>x _. x)]) [] body of
            Some msg \<Rightarrow> (if msg \<noteq> [] then returned @ [T '': '', T msg] else bare)
          | None \<Rightarrow> bare))"

text \<open>The status of the error, when the answer was not a success.\<close>

definition rest_errors :: "'w http_world \<times> int \<times> (go_error + rest_error + 'a) \<Rightarrow> 'w http_world \<times> (rest_error + 'a)" where
  "rest_errors r =
     (case r of
        (hw, _, Inl e) \<Rightarrow> (hw, Inl (0, e))
      | (hw, _, Inr (Inl e)) \<Rightarrow> (hw, Inl e)
      | (hw, _, Inr (Inr v)) \<Rightarrow> (hw, Inr v))"

definition rest_get ::
    "'w rest_http \<Rightarrow> string \<Rightarrow> 'a decoder \<Rightarrow> 'a \<Rightarrow> 'w http_world \<Rightarrow> 'w http_world \<times> (rest_error + 'a)" where
  "rest_get c url dec zero hw =
     rest_errors (exchange (rh_client c) ''kafkarest: request failed: '' ''kafkarest: read response body: ''
       (new_request (rh_client c) ''kafkarest: '' ''GET'' url ''application/json'' None) True
       (\<lambda>status body. Inr (if \<not> ok_status status then Inl (rest_status_error status body)
          else case unmarshal dec zero body of
                 None \<Rightarrow> Inl (0, [T ''kafkarest: decode response'']) | Some v \<Rightarrow> Inr v)) hw)"

subsection \<open>Pagination\<close>

record 'a rest_page =
  pg_next :: "string option"
  pg_data :: "'a list option"

definition dec_page :: "'a decoder \<Rightarrow> 'a \<Rightarrow> 'a rest_page decoder" where
  "dec_page dec zero = dec_struct
     [field ''metadata'' (dec_struct [field ''next'' (dec_ptr set_field []) id (\<lambda>x _. x)])
        pg_next (\<lambda>x r. r\<lparr>pg_next := x\<rparr>),
      field ''data'' (dec_ptr (dec_list dec zero) []) pg_data (\<lambda>x r. r\<lparr>pg_data := x\<rparr>)]"

definition next_trusted :: "'w rest_http \<Rightarrow> string \<Rightarrow> bool" where
  "next_trusted c link \<longleftrightarrow>
     (case hc_parseUrl (rh_client c) link of
        None \<Rightarrow> False
      | Some u \<Rightarrow>
          ul_scheme u = ul_scheme (rh_base c) \<and> ul_host u = ul_host (rh_base c) \<and> \<not> ul_user u \<and>
          has_prefix (path_clean (ul_path u) @ ''/'') (trim_suffix (ul_path (rh_base c)) ''/'' @ ''/v3/''))"

text \<open>\<open>left\<close> pages may still be read.\<close>

fun list_pages ::
    "'w rest_http \<Rightarrow> 'a decoder \<Rightarrow> 'a \<Rightarrow> nat \<Rightarrow> string list \<Rightarrow> string \<Rightarrow> 'a list \<Rightarrow> 'w http_world \<Rightarrow>
     'w http_world \<times> (rest_error + 'a list)" where
  "list_pages c dec zero 0 seen cur all hw =
     (hw, Inl (0, [T ''kafkarest: more than '', T (itoa (int maxPages)), T '' pages'']))"
| "list_pages c dec zero (Suc left) seen cur all hw =
     (if cur \<in> set seen then (hw, Inl (0, [T ''kafkarest: pagination loop'']))
      else case rest_get c cur (dec_page dec zero) \<lparr>pg_next = None, pg_data = None\<rparr> hw of
             (hw', Inl e) \<Rightarrow> (hw', Inl e)
           | (hw', Inr p) \<Rightarrow>
               (case pg_data p of
                  None \<Rightarrow> (hw', Inl (0, [T ''kafkarest: response is missing data'']))
                | Some items \<Rightarrow>
                    (if pg_next p \<in> {None, Some []} then (hw', Inr (all @ items))
                     else if \<not> next_trusted c (the (pg_next p))
                     then (hw', Inl (0, [T ''kafkarest: untrusted next link'']))
                     else list_pages c dec zero left (cur # seen) (the (pg_next p)) (all @ items) hw')))"

definition list_all_pages ::
    "'w rest_http \<Rightarrow> 'a decoder \<Rightarrow> 'a \<Rightarrow> string \<Rightarrow> 'w http_world \<Rightarrow> 'w http_world \<times> (rest_error + 'a list)" where
  "list_all_pages c dec zero relPath hw =
     list_pages c dec zero maxPages [] (hc_baseURL (rh_client c) @ relPath) [] hw"

subsection \<open>Reads\<close>

definition prefixed :: "string \<Rightarrow> rest_error \<Rightarrow> rest_error" where
  "prefixed pre e = (fst e, T pre # snd e)"

definition rest_cluster_id :: "'w rest_http \<Rightarrow> 'w rest_world \<Rightarrow> 'w rest_world \<times> (rest_error + string)" where
  "rest_cluster_id c rw =
     (case rw of (cid, hw) \<Rightarrow>
        if cid \<noteq> [] then (rw, Inr cid)
        else case list_all_pages c (dec_struct [field ''cluster_id'' set_field id (\<lambda>x _. x)]) [] ''/v3/clusters'' hw of
               (hw', Inl e) \<Rightarrow> ((cid, hw'), Inl (prefixed ''kafkarest.ClusterID: '' e))
             | (hw', Inr clusters) \<Rightarrow>
                 (if length clusters \<noteq> 1
                  then ((cid, hw'), Inl (0, [T ''kafkarest.ClusterID: expected exactly 1 cluster, found '',
                    T (itoa (int (length clusters)))]))
                  else if hd clusters = [] then ((cid, hw'), Inl (0, [T ''kafkarest.ClusterID: cluster_id is empty'']))
                  else ((hd clusters, hw'), Inr (hd clusters))))"

definition with_cluster ::
    "'w rest_http \<Rightarrow> (string \<Rightarrow> 'w http_world \<Rightarrow> 'w http_world \<times> (rest_error + 'a)) \<Rightarrow> 'w rest_world \<Rightarrow>
     'w rest_world \<times> (rest_error + 'a)" where
  "with_cluster c call rw =
     (case rest_cluster_id c rw of
        (rw', Inl e) \<Rightarrow> (rw', Inl e)
      | ((cid, hw), Inr i) \<Rightarrow> (case call i hw of (hw', res) \<Rightarrow> ((cid, hw'), res)))"

definition clusters_path :: "string \<Rightarrow> string" where
  "clusters_path i = ''/v3/clusters/'' @ path_escape i"

definition dec_link :: "rest_link decoder" where
  "dec_link = dec_struct
     [field ''link_name'' set_field ln_name (\<lambda>x r. r\<lparr>ln_name := x\<rparr>),
      field ''link_state'' set_field ln_state (\<lambda>x r. r\<lparr>ln_state := x\<rparr>),
      field ''link_error'' set_field ln_error (\<lambda>x r. r\<lparr>ln_error := x\<rparr>)]"

fun check_links :: "string list \<Rightarrow> rest_link list \<Rightarrow> rest_error + rest_link list" where
  "check_links seen [] = Inr []"
| "check_links seen (l # ls) =
     (if ln_name l = [] then Inl (0, [T ''kafkarest.ListLinks: entry is missing link_name''])
      else if ln_name l \<in> set seen then Inl (0, [T ''kafkarest.ListLinks: duplicate link '', Q (ln_name l)])
      else map_sum id (Cons l) (check_links (ln_name l # seen) ls))"

definition rest_list_links :: "'w rest_http \<Rightarrow> 'w rest_world \<Rightarrow> 'w rest_world \<times> (rest_error + rest_link list)" where
  "rest_list_links c =
     with_cluster c (\<lambda>i hw.
       case list_all_pages c dec_link \<lparr>ln_name = [], ln_state = [], ln_error = []\<rparr> (clusters_path i @ ''/links'') hw of
         (hw', Inl e) \<Rightarrow> (hw', Inl (prefixed ''kafkarest.ListLinks: '' e))
       | (hw', Inr raw) \<Rightarrow> (hw', check_links [] raw))"

definition dec_config :: "(string \<times> string option) decoder" where
  "dec_config = dec_struct
     [field ''name'' set_field fst (\<lambda>x r. (x, snd r)), field ''value'' (dec_ptr set_field []) snd (\<lambda>x r. (fst r, x))]"

fun check_configs :: "(string, string) gomap \<Rightarrow> (string \<times> string option) list \<Rightarrow> rest_error + (string, string) gomap" where
  "check_configs out [] = Inr out"
| "check_configs out ((name, v) # es) =
     (if name = [] then Inl (0, [T ''kafkarest.LinkConfigs: entry is missing name''])
      else if map_of out name \<noteq> None then Inl (0, [T ''kafkarest.LinkConfigs: duplicate config '', Q name])
      else check_configs (AList.update name (case v of None \<Rightarrow> [] | Some x \<Rightarrow> x) out) es)"

definition rest_link_configs ::
    "'w rest_http \<Rightarrow> string \<Rightarrow> 'w rest_world \<Rightarrow> 'w rest_world \<times> (rest_error + (string, string) gomap)" where
  "rest_link_configs c link =
     with_cluster c (\<lambda>i hw.
       case list_all_pages c dec_config ([], None) (clusters_path i @ ''/links/'' @ path_escape link @ ''/configs'') hw of
         (hw', Inl e) \<Rightarrow>
           (hw', Inl (if fst e = 404
              then (0, [T ''kafkarest.LinkConfigs '', Q link, T '': '', T ''kafkarest: not found''])
              else prefixed ''kafkarest.LinkConfigs: '' e))
       | (hw', Inr raw) \<Rightarrow> (hw', check_configs [] raw))"

definition dec_mirror :: "rest_mirror decoder" where
  "dec_mirror = dec_struct
     [field ''link_name'' set_field mi_linkName (\<lambda>x r. r\<lparr>mi_linkName := x\<rparr>),
      field ''mirror_topic_name'' set_field mi_mirrorTopicName (\<lambda>x r. r\<lparr>mi_mirrorTopicName := x\<rparr>),
      field ''source_topic_name'' set_field mi_sourceTopicName (\<lambda>x r. r\<lparr>mi_sourceTopicName := x\<rparr>),
      field ''mirror_status'' set_field mi_status (\<lambda>x r. r\<lparr>mi_status := x\<rparr>),
      field ''num_partitions'' dec_int mi_numPartitions (\<lambda>x r. r\<lparr>mi_numPartitions := x\<rparr>),
      field ''state_time_ms'' dec_int mi_stateTimeMs (\<lambda>x r. r\<lparr>mi_stateTimeMs := x\<rparr>)]"

definition no_mirror :: rest_mirror where
  "no_mirror =
     \<lparr>mi_linkName = [], mi_mirrorTopicName = [], mi_sourceTopicName = [], mi_status = [], mi_numPartitions = 0,
      mi_stateTimeMs = 0\<rparr>"

fun check_mirrors :: "string list \<Rightarrow> rest_mirror list \<Rightarrow> rest_error + rest_mirror list" where
  "check_mirrors seen [] = Inr []"
| "check_mirrors seen (m # ms) =
     (let name = mi_mirrorTopicName m
      in if name = [] then Inl (0, [T ''kafkarest.ListMirrors: entry is missing mirror_topic_name''])
         else if mi_linkName m = []
         then Inl (0, [T ''kafkarest.ListMirrors: mirror '', Q name, T '' is missing link_name''])
         else if mi_status m = []
         then Inl (0, [T ''kafkarest.ListMirrors: mirror '', Q name, T '' is missing mirror_status''])
         else if name \<in> set seen
         then Inl (0, [T ''kafkarest.ListMirrors: duplicate mirror_topic_name '', Q name])
         else map_sum id (Cons m) (check_mirrors (name # seen) ms))"

definition rest_list_mirrors :: "'w rest_http \<Rightarrow> 'w rest_world \<Rightarrow> 'w rest_world \<times> (rest_error + rest_mirror list)" where
  "rest_list_mirrors c =
     with_cluster c (\<lambda>i hw.
       case list_all_pages c dec_mirror no_mirror (clusters_path i @ ''/links/-/mirrors'') hw of
         (hw', Inl e) \<Rightarrow> (hw', Inl (prefixed ''kafkarest.ListMirrors: '' e))
       | (hw', Inr raw) \<Rightarrow> (hw', check_mirrors [] raw))"

subsection \<open>Writes\<close>

definition sorted_configs :: "(string, string) gomap \<Rightarrow> (string \<times> string) list" where
  "sorted_configs cfg = sort_key fst cfg"

definition configs_text :: "(string, string) gomap \<Rightarrow> string" where
  "configs_text cfg =
     list_text (map (\<lambda>(k, v). struct_text [(''name'', json_string k), (''value'', json_string v)]) (sorted_configs cfg))"

definition rest_post :: "'w rest_http \<Rightarrow> string \<Rightarrow> string \<Rightarrow> 'w http_world \<Rightarrow> 'w http_world \<times> (rest_error + unit)" where
  "rest_post c url body hw =
     rest_errors (exchange (rh_client c) ''kafkarest: request failed: '' ''kafkarest: read response body: ''
       (new_request (rh_client c) ''kafkarest: '' ''POST'' url ''application/json'' (Some (''application/json'', body)))
       False (\<lambda>status text. Inr (if \<not> ok_status status then Inl (rest_status_error status text) else Inr ())) hw)"

definition prefix_errors :: "string \<Rightarrow> 'w http_world \<times> (rest_error + 'a) \<Rightarrow> 'w http_world \<times> (rest_error + 'a)" where
  "prefix_errors pre r = (case r of (hw, Inl e) \<Rightarrow> (hw, Inl (prefixed pre e)) | (hw, Inr v) \<Rightarrow> (hw, Inr v))"

definition create_mirror_body :: "create_mirror_request \<Rightarrow> string" where
  "create_mirror_body r = struct_text
     ([(''source_topic_name'', json_string (cmr_sourceTopicName r)),
       (''mirror_topic_name'', json_string (cmr_mirrorTopicName r))] @
      (if cmr_replicationFactor r = 0 then [] else [(''replication_factor'', itoa (cmr_replicationFactor r))]) @
      (if cmr_configs r = [] then [] else [(''configs'', configs_text (cmr_configs r))]))"

definition rest_create_mirror ::
    "'w rest_http \<Rightarrow> create_mirror_request \<Rightarrow> 'w rest_world \<Rightarrow> 'w rest_world \<times> (rest_error + unit)" where
  "rest_create_mirror c r =
     with_cluster c (\<lambda>i hw. prefix_errors ''kafkarest.CreateMirror: ''
       (rest_post c (hc_baseURL (rh_client c) @ clusters_path i @ ''/links/'' @ path_escape (cmr_linkName r) @ ''/mirrors'')
          (create_mirror_body r) hw))"

definition rest_alter_topic_configs ::
    "'w rest_http \<Rightarrow> string \<Rightarrow> (string, string) gomap \<Rightarrow> 'w rest_world \<Rightarrow> 'w rest_world \<times> (rest_error + unit)" where
  "rest_alter_topic_configs c topic cfg =
     with_cluster c (\<lambda>i hw. prefix_errors ''kafkarest.AlterTopicConfigs: ''
       (rest_post c (hc_baseURL (rh_client c) @ clusters_path i @ ''/topics/'' @ path_escape topic @ ''/configs:alter'')
          (struct_text [(''data'', configs_text cfg)]) hw))"

end
