(* ===== verification/Http_Props.thy ===== *)
theory Http_Props
  imports Mds_Http Registry_Http Rest_Http
begin

section \<open>Properties of the HTTP clients\<close>

subsection \<open>Retries\<close>

text \<open>
  \<open>httpretry.Do\<close> is bounded: a write leaves the process at most once and nothing is slept, a read at
  most three times, every time as the request that was built, with at most two sleeps of at most thirty
  seconds each whatever Retry-After the server sends; and a response with a retryable status comes back
  only when every attempt allowed has been made.
\<close>

theorem retries_bounded:
  assumes "http_do env newReq idempotent hw = (hw', out)" "fair_jitter env"
  shows "\<exists>evs. snd hw' = snd hw @ evs \<and> length (sent evs) \<le> (if idempotent then 3 else 1) \<and>
    set (sent evs) \<subseteq> {r. newReq = Inr r} \<and> length (slept evs) \<le> (if idempotent then 2 else 0) \<and>
    (\<forall>d \<in> set (slept evs). 0 < d \<and> d \<le> 30000000000) \<and>
    (\<forall>resp. out = Inr resp \<longrightarrow> is_retryable_status (rs_status resp) \<longrightarrow>
       length (sent evs) = (if idempotent then 3 else 1))"
proof -
  obtain evs where evs: "snd hw' = snd hw @ evs" "length (sent evs) \<le> (if idempotent then maxAttempts else 1)"
      "length (slept evs) \<le> (if idempotent then maxAttempts - 1 else 0)" "set (sent evs) \<subseteq> {r. newReq = Inr r}"
      "\<forall>d \<in> set (slept evs). 0 < d \<and> d \<le> maxDelay"
    using http_do_log [OF assms(1)] assms(2) by blast
  moreover have "length (sent evs) = (if idempotent then 3 else 1)"
    if "out = Inr resp" "is_retryable_status (rs_status resp)" for resp
    using retry_loop_answer assms(1) that evs(1) unfolding http_do_def
    by (fastforce simp: maxAttempts_def split: if_splits)
  ultimately show ?thesis by (intro exI [of _ evs]) (auto simp: maxAttempts_def maxDelay_def)
qed

text \<open>A server that always answers 503: three requests, two sleeps.\<close>

definition busy_env :: "string \<Rightarrow> unit http_env" where
  "busy_env retryAfter =
     \<lparr>he_roundTrip = (\<lambda>_ w. (w, Got \<lparr>rs_status = 503, rs_retryAfter = retryAfter, rs_body = Inr []\<rparr>)),
      he_ctxErr = (\<lambda>_. None), he_sleep = (\<lambda>_ w. (w, None)), he_jitter = (\<lambda>_ _. 0)\<rparr>"

definition plain_request :: http_request where
  "plain_request = \<lparr>rq_method = ''GET'', rq_url = ''u'', rq_headers = [], rq_body = None\<rparr>"

theorem retries_bounded_witness:
  "sent (snd (fst (http_do (busy_env ''3600'') (Inr plain_request) True ((), [])))) =
     [plain_request, plain_request, plain_request] \<and>
   (\<exists>evs. snd (fst (http_do (busy_env ''3600'') (Inr plain_request) True ((), []))) = evs \<and> length (slept evs) \<le> 2)"
proof
  show "sent (snd (fst (http_do (busy_env ''3600'') (Inr plain_request) True ((), [])))) =
     [plain_request, plain_request, plain_request]"
    by code_simp
  have "fair_jitter (busy_env ''3600'')" by (simp add: fair_jitter_def busy_env_def)
  then show "\<exists>evs. snd (fst (http_do (busy_env ''3600'') (Inr plain_request) True ((), []))) = evs \<and> length (slept evs) \<le> 2"
    using retries_bounded [OF surjective_pairing, of "busy_env ''3600''" "Inr plain_request" True "((), [])"] by auto
qed

subsection \<open>Writes\<close>

definition leaves_once :: "'w http_world \<Rightarrow> 'w http_world \<Rightarrow> bool" where
  "leaves_once hw hw' \<longleftrightarrow> (\<exists>evs. snd hw' = snd hw @ evs \<and> length (sent evs) \<le> 1 \<and> slept evs = [])"

definition posts_once :: "'w http_world \<Rightarrow> 'w http_world \<Rightarrow> bool" where
  "posts_once hw hw' \<longleftrightarrow>
     (\<exists>evs. snd hw' = snd hw @ evs \<and> length (filter (\<lambda>r. rq_method r \<noteq> ''GET'') (sent evs)) \<le> 1)"

lemma exchange_once: "leaves_once hw (fst (exchange c failed unread newReq False finish hw))"
  using exchange_log [OF surjective_pairing, of c failed unread newReq False finish hw]
  by (auto simp: leaves_once_def)

lemma leaves_onceD: "leaves_once hw hw' \<Longrightarrow> \<exists>evs. snd hw' = snd hw @ evs \<and> length (sent evs) \<le> 1"
  by (auto simp: leaves_once_def)

lemma fst_act_result: "fst (act_result pre r) = fst r"
  by (auto simp: act_result_def split: prod.splits sum.splits)

lemma mds_write_once: "leaves_once hw (fst (act_result pre (mds_do c method path body out zero False hw)))"
  unfolding fst_act_result mds_do_def by (rule exchange_once)

lemma fst_on_missing: "fst (on_missing absent found r) = fst r"
  by (auto simp: on_missing_def split: prod.splits)

lemma fst_drop_status: "fst (case r of (hw', _, res) \<Rightarrow> (hw', res)) = fst r"
  by (auto split: prod.splits)

lemma registry_write_once: "leaves_once hw (fst (registry_do c method path ct body out zero False hw))"
  unfolding registry_do_def by (rule exchange_once)

lemma new_request_sel:
  "new_request c pre method url accept body = Inr r \<Longrightarrow> rq_method r = method \<and> rq_url r = url"
  by (auto simp: new_request_def split: if_splits)

lemma fst_rest_errors: "fst (rest_errors r) = fst r"
  by (auto simp: rest_errors_def split: prod.splits sum.splits)

lemma fst_prefix_errors: "fst (prefix_errors pre r) = fst r"
  by (auto simp: prefix_errors_def split: prod.splits sum.splits)

lemmas exchange_sends = exchange_log [OF prod.collapse [symmetric]]

lemma exchange_reads:
  "\<exists>evs. snd (fst (exchange c failed unread newReq True finish hw)) = snd hw @ evs \<and> length (sent evs) \<le> 3 \<and>
    (\<forall>r \<in> set (sent evs). newReq = Inr r)"
  using exchange_sends [of c failed unread newReq True finish hw] by (auto simp: maxAttempts_def)

lemma rest_get_log:
  "\<exists>evs. snd (fst (rest_get c url dec zero hw)) = snd hw @ evs \<and> length (sent evs) \<le> 3 \<and>
    (\<forall>r \<in> set (sent evs). rq_method r = ''GET'' \<and> rq_url r = url)"
  unfolding rest_get_def fst_rest_errors
  by (rule ex_forward [OF exchange_reads]) (auto dest: new_request_sel)

lemma rest_post_log:
  "\<exists>evs. snd (fst (prefix_errors pre (rest_post c url body hw))) = snd hw @ evs \<and> length (sent evs) \<le> 1"
  unfolding rest_post_def fst_rest_errors fst_prefix_errors by (rule leaves_onceD, rule exchange_once)

lemma list_pages_gets:
  assumes "list_pages c dec zero left seen cur all hw = (hw', res)"
  shows "\<exists>evs. snd hw' = snd hw @ evs \<and> (\<forall>r \<in> set (sent evs). rq_method r = ''GET'')"
  using assms
proof (induction left arbitrary: seen cur all hw)
  case (Suc left)
  obtain hw1 out where g: "rest_get c cur (dec_page dec zero) \<lparr>pg_next = None, pg_data = None\<rparr> hw = (hw1, out)" by fastforce
  obtain e1 where e1: "snd hw1 = snd hw @ e1" "\<forall>r \<in> set (sent e1). rq_method r = ''GET''"
    using rest_get_log [of c cur "dec_page dec zero" "\<lparr>pg_next = None, pg_data = None\<rparr>" hw] g by auto
  consider "hw' = hw" | "hw' = hw1" | nxt items where "list_pages c dec zero left (cur # seen) nxt items hw1 = (hw', res)"
    using Suc.prems g by (auto split: if_splits sum.splits option.splits)
  then show ?case
  proof cases
    case 3
    from Suc.IH [OF this] obtain e2 where "snd hw' = snd hw1 @ e2" "\<forall>r \<in> set (sent e2). rq_method r = ''GET''" by blast
    then show ?thesis using e1 by (intro exI [of _ "e1 @ e2"]) auto
  qed (use e1 in auto)
qed auto

lemma cluster_id_gets:
  assumes "rest_cluster_id c rw = (rw', res)"
  shows "\<exists>evs. snd (snd rw') = snd (snd rw) @ evs \<and> (\<forall>r \<in> set (sent evs). rq_method r = ''GET'')"
proof -
  obtain cid hw where rw: "rw = (cid, hw)" by (metis surj_pair)
  obtain hw1 out where l: "list_all_pages c (dec_struct [field ''cluster_id'' set_field id (\<lambda>x _. x)]) [] ''/v3/clusters'' hw = (hw1, out)"
    by fastforce
  have "snd rw' = hw \<or> snd rw' = hw1"
    using assms l rw by (auto simp: rest_cluster_id_def split: if_splits sum.splits)
  then show ?thesis using list_pages_gets [OF l [unfolded list_all_pages_def]] rw by auto
qed

lemma with_cluster_posts:
  assumes "\<And>i hw. \<exists>evs. snd (fst (call i hw)) = snd hw @ evs \<and> length (sent evs) \<le> 1"
  shows "posts_once (snd rw) (snd (fst (with_cluster c call rw)))"
proof -
  obtain cid hw res where i: "rest_cluster_id c rw = ((cid, hw), res)" by (metis surj_pair)
  obtain e1 where e1: "snd hw = snd (snd rw) @ e1" "\<forall>r \<in> set (sent e1). rq_method r = ''GET''"
    using cluster_id_gets [OF i] by auto
  then have none: "filter (\<lambda>r. rq_method r \<noteq> ''GET'') (sent e1) = []" by (simp add: filter_empty_conv)
  show ?thesis
  proof (cases res)
    case (Inl e)
    then show ?thesis using i e1 none by (auto simp: with_cluster_def posts_once_def)
  next
    case (Inr v)
    obtain hw' out where c: "call v hw = (hw', out)" by fastforce
    obtain e2 where e2: "snd hw' = snd hw @ e2" "length (sent e2) \<le> 1" using assms [of v hw] c by auto
    then have "length (filter (\<lambda>r. rq_method r \<noteq> ''GET'') (sent e2)) \<le> 1"
      using length_filter_le order_trans by blast
    then show ?thesis using i Inr c e1 e2 none
      by (auto simp: with_cluster_def posts_once_def intro!: exI [of _ "e1 @ e2"])
  qed
qed

text \<open>
  No write of the three HTTP clients is ever resent: adding or removing a role binding, registering or
  deleting a schema subject and setting its compatibility let at most one request leave the process,
  whatever the network and the server do, and creating a mirror topic or altering topic configs sends at
  most one request that is not a read (the cluster id may have to be discovered first).
\<close>

theorem http_writes_sent_once:
  "leaves_once hw (fst (mds_add_role_binding c rb hw)) \<and> leaves_once hw (fst (mds_remove_role_binding c rb hw)) \<and>
   leaves_once hw (fst (register_schema c subject s hw)) \<and> leaves_once hw (fst (delete_subject c subject hw)) \<and>
   leaves_once hw (fst (set_compatibility c subject level hw)) \<and>
   posts_once (snd rw) (snd (fst (rest_create_mirror rc request rw))) \<and>
   posts_once (snd rw) (snd (fst (rest_alter_topic_configs rc topic cfg rw)))"
proof -
  have "leaves_once hw (fst (register_schema c subject s hw))"
    by (simp only: register_schema_def fst_drop_status registry_write_once)
  moreover have "leaves_once hw (fst (delete_subject c subject hw))"
    by (simp only: delete_subject_def fst_on_missing registry_do_json_def registry_write_once)
  moreover have "leaves_once hw (fst (set_compatibility c subject level hw))"
    by (simp only: set_compatibility_def fst_drop_status registry_do_json_def registry_write_once)
  moreover have "leaves_once hw (fst (mds_add_role_binding c rb hw))" "leaves_once hw (fst (mds_remove_role_binding c rb hw))"
    by (simp_all add: mds_add_role_binding_def mds_remove_role_binding_def bindings_request_def
        cluster_role_request_def mds_write_once split: option.split)
  moreover have "posts_once (snd rw) (snd (fst (rest_create_mirror rc request rw)))"
    "posts_once (snd rw) (snd (fst (rest_alter_topic_configs rc topic cfg rw)))"
    unfolding rest_create_mirror_def rest_alter_topic_configs_def by (rule with_cluster_posts, rule rest_post_log)+
  ultimately show ?thesis by blast
qed

subsection \<open>Pagination\<close>

text \<open>
  A page as the server answered it to a GET of the URL, and a chain of pages from a URL: every page has
  data, every link followed is trusted, and the last page has no link.
\<close>

definition page_answer :: "'w rest_http \<Rightarrow> 'a decoder \<Rightarrow> 'a \<Rightarrow> string \<Rightarrow> 'a rest_page \<Rightarrow> bool" where
  "page_answer c dec zero url p \<longleftrightarrow>
     (\<exists>r w w' res resp body. he_roundTrip (hc_env (rh_client c)) r w = (w', res) \<and> rq_method r = ''GET'' \<and>
        rq_url r = url \<and> response_of res = Some resp \<and> ok_status (rs_status resp) \<and> rs_body resp = Inr body \<and>
        unmarshal (dec_page dec zero) \<lparr>pg_next = None, pg_data = None\<rparr> body = Some p)"

fun page_chain :: "'w rest_http \<Rightarrow> 'a decoder \<Rightarrow> 'a \<Rightarrow> string \<Rightarrow> 'a rest_page list \<Rightarrow> bool" where
  "page_chain c dec zero url [] \<longleftrightarrow> False"
| "page_chain c dec zero url (p # ps) \<longleftrightarrow>
     page_answer c dec zero url p \<and> pg_data p \<noteq> None \<and>
     (if ps = [] then pg_next p \<in> {None, Some []}
      else pg_next p \<notin> {None, Some []} \<and> next_trusted c (the (pg_next p)) \<and>
        page_chain c dec zero (the (pg_next p)) ps)"

definition page_items :: "'a rest_page list \<Rightarrow> 'a list" where
  "page_items ps = concat (map (\<lambda>p. the (pg_data p)) ps)"

lemma exchange_value:
  assumes "exchange c failed unread newReq idempotent finish hw = (hw', status, Inr v)"
  shows "\<exists>r w w' res resp body. newReq = Inr r \<and> he_roundTrip (hc_env c) r w = (w', res) \<and>
    response_of res = Some resp \<and> status = rs_status resp \<and> rs_body resp = Inr body \<and> finish status body = Inr v"
proof -
  obtain hw1 out where d: "http_do (hc_env c) newReq idempotent hw = (hw1, out)" by fastforce
  then obtain resp where out: "out = Inr resp" using assms by (cases out) (auto simp: exchange_def)
  obtain r w w' res where r: "newReq = Inr r" "he_roundTrip (hc_env c) r w = (w', res)" "response_of res = Some resp"
    using retry_loop_answer d out unfolding http_do_def by blast
  obtain body where b: "rs_body resp = Inr body" "status = rs_status resp" "finish status body = Inr v"
    using assms d out by (auto simp: exchange_def split: sum.splits)
  show ?thesis using r b by blast
qed

lemma rest_get_value:
  assumes "rest_get c url (dec_page dec zero) \<lparr>pg_next = None, pg_data = None\<rparr> hw = (hw', Inr p)"
  shows "page_answer c dec zero url p"
proof -
  define X where "X = exchange (rh_client c) ''kafkarest: request failed: '' ''kafkarest: read response body: ''
       (new_request (rh_client c) ''kafkarest: '' ''GET'' url ''application/json'' None) True
       (\<lambda>status body. Inr (if \<not> ok_status status then Inl (rest_status_error status body)
          else case unmarshal (dec_page dec zero) \<lparr>pg_next = None, pg_data = None\<rparr> body of
                 None \<Rightarrow> Inl (0, [T ''kafkarest: decode response'']) | Some v \<Rightarrow> Inr v)) hw"
  obtain hw1 st out where "X = (hw1, st, out)" by (cases X) auto
  then have x: "exchange (rh_client c) ''kafkarest: request failed: '' ''kafkarest: read response body: ''
       (new_request (rh_client c) ''kafkarest: '' ''GET'' url ''application/json'' None) True
       (\<lambda>status body. Inr (if \<not> ok_status status then Inl (rest_status_error status body)
          else case unmarshal (dec_page dec zero) \<lparr>pg_next = None, pg_data = None\<rparr> body of
                 None \<Rightarrow> Inl (0, [T ''kafkarest: decode response'']) | Some v \<Rightarrow> Inr v)) hw = (hw1, st, out)"
    by (simp only: X_def)
  then have "out = Inr (Inr p)" using assms by (auto simp: rest_get_def rest_errors_def split: sum.splits)
  from exchange_value [OF x [unfolded this]] obtain r w w' res resp body where
    r: "new_request (rh_client c) ''kafkarest: '' ''GET'' url ''application/json'' None = Inr r"
      "he_roundTrip (hc_env (rh_client c)) r w = (w', res)" "response_of res = Some resp" "rs_body resp = Inr body"
    and fin: "(if \<not> ok_status (rs_status resp) then Inl (rest_status_error (rs_status resp) body)
       else case unmarshal (dec_page dec zero) \<lparr>pg_next = None, pg_data = None\<rparr> body of
              None \<Rightarrow> Inl (0, [T ''kafkarest: decode response'']) | Some v \<Rightarrow> Inr v) = Inr p"
    by auto
  have "ok_status (rs_status resp)" using fin by (cases "ok_status (rs_status resp)") simp_all
  moreover from this fin have "unmarshal (dec_page dec zero) \<lparr>pg_next = None, pg_data = None\<rparr> body = Some p"
    by (simp split: option.splits)
  ultimately show ?thesis using r(2-4) new_request_sel [OF r(1)] unfolding page_answer_def by blast
qed

lemma list_pages_trace:
  assumes "list_pages c dec zero left seen cur all hw = (hw', res)"
  shows "\<exists>evs. snd hw' = snd hw @ evs \<and> length (sent evs) \<le> 3 * left \<and>
    (\<forall>r \<in> set (sent evs). rq_method r = ''GET'' \<and> (rq_url r = cur \<or> next_trusted c (rq_url r))) \<and>
    (\<forall>xs. res = Inr xs \<longrightarrow> (\<exists>ps. page_chain c dec zero cur ps \<and> length ps \<le> left \<and> xs = all @ page_items ps))"
  using assms
proof (induction left arbitrary: seen cur all hw)
  case 0
  then show ?case by auto
next
  case (Suc left)
  let ?get = "rest_get c cur (dec_page dec zero) \<lparr>pg_next = None, pg_data = None\<rparr> hw"
  obtain hw1 out where g: "?get = (hw1, out)" by fastforce
  obtain e1 where e1: "snd hw1 = snd hw @ e1" "length (sent e1) \<le> 3"
      "\<forall>r \<in> set (sent e1). rq_method r = ''GET'' \<and> rq_url r = cur"
    using rest_get_log [of c cur "dec_page dec zero" "\<lparr>pg_next = None, pg_data = None\<rparr>" hw] g by auto
  show ?case
  proof (cases "cur \<in> set seen \<or> isl out")
    case True
    then show ?thesis using Suc.prems g e1 by (auto split: if_splits sum.splits)
  next
    case False
    then obtain p where p: "out = Inr p" by (cases out) auto
    have ans: "page_answer c dec zero cur p" by (rule rest_get_value [OF g [unfolded p]])
    show ?thesis
    proof (cases "pg_data p = None \<or> pg_next p \<in> {None, Some []} \<or> \<not> next_trusted c (the (pg_next p))")
      case True
      then show ?thesis using Suc.prems False g p e1 ans
        by (intro exI [of _ e1]) (auto split: if_splits option.splits simp: page_items_def intro!: exI [of _ "[p]"])
    next
      case more: False
      then obtain items nxt where d: "pg_data p = Some items" "pg_next p = Some nxt" "nxt \<noteq> []" "next_trusted c nxt" by auto
      then have "list_pages c dec zero left (cur # seen) nxt (all @ items) hw1 = (hw', res)"
        using Suc.prems False g p by simp
      from Suc.IH [OF this] obtain e2 where e2: "snd hw' = snd hw1 @ e2" "length (sent e2) \<le> 3 * left"
          "\<forall>r \<in> set (sent e2). rq_method r = ''GET'' \<and> (rq_url r = nxt \<or> next_trusted c (rq_url r))"
          "\<forall>xs. res = Inr xs \<longrightarrow> (\<exists>ps. page_chain c dec zero nxt ps \<and> length ps \<le> left \<and> xs = (all @ items) @ page_items ps)"
        by blast
      have "\<exists>ps. page_chain c dec zero cur ps \<and> length ps \<le> Suc left \<and> xs = all @ page_items ps" if ok: "res = Inr xs" for xs
      proof -
        obtain ps where "page_chain c dec zero nxt ps" "length ps \<le> left" "xs = (all @ items) @ page_items ps"
          using e2(4) ok by blast
        then show ?thesis using d ans by (intro exI [of _ "p # ps"]) (cases ps; auto simp: page_items_def)
      qed
      then show ?thesis using e1 e2 d by (intro exI [of _ "e1 @ e2"]) auto
    qed
  qed
qed

text \<open>
  A paginated read of the Kafka REST API is confined, bounded and never partial: it sends GETs only, to
  its own first URL or to a link with the scheme, host and path prefix of the endpoint (the requests carry
  the credentials), for at most 1000 pages with at most three tries each; and a list comes back only as the
  concatenation of a whole chain of answers of the server that ends in a page without a link.
\<close>

theorem paginated_reads_complete:
  assumes "list_all_pages c dec zero relPath hw = (hw', res)"
  shows "\<exists>evs. snd hw' = snd hw @ evs \<and> length (sent evs) \<le> 3000 \<and>
    (\<forall>r \<in> set (sent evs). rq_method r = ''GET'' \<and>
       (rq_url r = hc_baseURL (rh_client c) @ relPath \<or> next_trusted c (rq_url r))) \<and>
    (\<forall>xs. res = Inr xs \<longrightarrow>
       (\<exists>ps. page_chain c dec zero (hc_baseURL (rh_client c) @ relPath) ps \<and> length ps \<le> 1000 \<and> xs = page_items ps))"
  using list_pages_trace [OF assms [unfolded list_all_pages_def]] by (simp add: maxPages_def)

end
