(* ===== verification/Spec2Isabelle.thy ===== *)
theory Spec2Isabelle
  imports Diff_Order Defaulting Pipeline_Props Json_Fuel Operator_Locks Reconcile_Props Password_Props
    Deletion_Props Import_Result_Props Import_Read_Props Webhook_Props Http_Props
begin

text \<open>
  A model of monedula-gitops: declarative management of Kafka topics, ACLs, Schema Registry subjects,
  client quotas, SCRAM users, Confluent MDS role bindings and cluster-linked mirror topics, as a CLI
  (plan, apply, verify) and as a Kubernetes operator.

  \<^bold>\<open>How the program works.\<close> Manifests are validated (internal/validation), checked against the cluster's
  tenancy rules (internal/tenancy), defaulted (internal/defaulting) and compiled into desired sets:
  ACLs (internal/access), role bindings (internal/rbac), quotas, users - the first two built on one
  kernel (internal/managedset) that merges the attribution of several owners. The diff engine
  (internal/diff) compares them with the live state and plans typed operations (internal/operations);
  the executor (internal/executor) runs the plan in dependency order behind approval gates. The CLI
  composes these through internal/pipeline and internal/cli; the operator's engine
  (internal/operator/reconcile) does the same for one custom resource at a time, called by one
  controller per kind (internal/operator/controller), under keyed locks (internal/operator/locking).
  Admission webhooks (internal/operator/webhook) refuse malformed, duplicate and conflicting resources
  before they are stored.
  The importer (internal/importer) goes the other way: it reads a cluster, builds the manifests that
  describe it, folding ACLs and role bindings into the access blocks of topics, compiles them again and
  falls back to explicit policies and role bindings where the two differ.
  The MDS, the Schema Registry and the Kafka REST API are reached by clients over HTTP with a bounded
  retry of reads (internal/httpretry).

  \<^bold>\<open>Theories.\<close>
  \<^item> Prelude: helpers shared by all (Go maps as association lists with unspecified iteration order read
    through sorted keys, NUL-joined keys, messages of quoted and plain pieces, error sums).
  \<^item> Types, Wire, Operations: internal/api/v1alpha1, the client interfaces (kafka, mds, kafkarest,
    schemaregistry) as records of functions over an abstract world, and the operation taxonomy.
  \<^item> Managedset, Access, Rbac, Quota, User, Defaulting: the compilers. The locale \<open>attributed\<close> of
    Managedset is the contract of a kind of item; ACLs and role bindings interpret it.
  \<^item> Diff_Kinds, Diff_Mirror, Diff, Json: internal/diff, with the canonical JSON comparison of schemas;
    Diff_Facts holds the locale \<open>add_prune\<close> of the shared add/prune walk, Diff_Props and Diff_Order the
    properties of \<open>Compute\<close>, Json_Fuel the proof that the scanner's fuel suffices.
  \<^item> Mirror_State, Mirror_Writer: internal/mirror.
  \<^item> Executor, Executor_Props, Run_Store: internal/executor and the contract between a run and a store
    (locales \<open>run_effect\<close>, \<open>atomic_store\<close>, \<open>member_store\<close>).
  \<^item> Kafka_Mock, Other_Mocks, Mock_World, Mock_Stores: the repository's in-memory services, on which the
    store locales are interpreted.
  \<^item> Cli_Plan, Cli_Props, Convergence: internal/cli, and what a run achieves on the in-memory services.
  \<^item> Go_Std, Go_Path, Tenancy, Validation, Validation_Props, Recordname, Secrets, Pipeline,
    Pipeline_Props: the static half, from manifests to a plan, with the parts of Go's standard library
    it uses (path.Match, net.ParseIP, path/filepath, strings).
  \<^item> Reconcile_Status, Reconcile, Reconcile_Kinds, Reconcile_Facts, Reconcile_Props, Password_Props:
    internal/operator/reconcile.
  \<^item> Operator_Locks: internal/operator/locking and the lock spans of the controllers.
  \<^item> Operator_Api, Duplicate_Gate, Coowner_Shield, Controllers, Controllers_Kinds, Watches:
    internal/operator/controller - the parts all reconcilers share (status.go, resync.go, k8sresolver.go),
    the duplicate-identity gate (duplicate.go; locale \<open>identity_contest\<close>), the cluster-wide views and the
    deletion shield, the pass and finalizer of each kind, the watches. Gate_Props and Deletion_Props hold
    their properties.
  \<^item> Webhooks: internal/operator/webhook and internal/operator/index. Admission describes runs of the API
    server behind a validator (locale \<open>admitted_kind\<close>, interpreted in Webhook_Facts for topics, quotas and
    users); Webhook_Props holds the properties.
  \<^item> Import_Names, Import_Snapshot, Import_Topics, Import_Access, Import_Build, Import_Namespace:
    internal/importer - the names of generated objects, ReadSnapshot, topics with mirrors and schemas, the
    two folds (build.go, rbacfold.go), Build with its recompile checks and fallback, AssignNamespaces.
    Import_Facts and Import_Checked show that folding loses nothing and that the checks hold for the result,
    Import_Kinds that what is imported is in sync kind by kind, Import_Plan and Import_Empty_Plan follow an
    import through the pipeline; Import_Props, Import_Result_Props and Import_Read_Props hold the properties.
  \<^item> Http_Retry, Http_Codec, Mds_Http, Registry_Http, Rest_Http: internal/httpretry and the HTTP clients
    internal/mds/confluent, internal/schemaregistry/confluent and internal/kafkarest/confluent, as
    functions of the round trip, with a log of what was sent and slept; Http_Props their lemmas.

  \<^bold>\<open>What the lemmas show.\<close> Consent and mode gates of the executor; convergence of repeated runs for ACLs
  and role bindings, whatever fails; prune safety of the diff and of the cluster-wide view; guards of
  mirrored topics; order independence of a plan; which manifests the validator accepts, and that an
  accepted set compiles to a consistent plan in which other clusters play no part; tenancy isolation;
  confinement of schema files; deadlock freedom of the operator's workers and their exclusion on broker
  state, finalizers included, which hold no identity lock; that an
  operator pass writes only for enforced, valid and permitted resources and that Ready means applied;
  that a contested identity has one winner and a loser's pass writes its status only; that the finalizers
  of topics and policies act with consent only and keep what a surviving resource desires; what deleting a
  tenancy-denied user destroys; that a watch event reaches the resources that depend on its
  object; that admission keeps identities unique and policies free of conflicts,
  what two duplicates that slipped through do to each other, and which users it refuses; that planning a fresh import finds nothing to do, and that an import
  reproduces the access it read (less the ACLs of mirror topics it leaves out), tells mirrors from topics,
  keeps schema blocks that apply to their own subjects only and gives out distinct, valid names in order;
  that an HTTP write leaves the process at most once and a read at most three times, and that a paginated
  read follows trusted links only and is complete or an error.

  \<^bold>\<open>Bounds and fuel.\<close> Go integers are \<open>int\<close>: no value of the model comes near 64 bits, but for the delay a
  server asks for, whose product is a 64-bit word (Http_Retry). A paginated read has the code's own bound of
  1000 pages, a retried request its three attempts. The JSON scanner
  runs on fuel 2 * length + 2, which Json_Fuel proves enough. All other recursion is structural or on a
  proved measure.

  \<^bold>\<open>Parameters.\<close> net/url.Parse, the brokers' clients and the world they act on, the loaders' results, the
  environment and the file system, strconv.Quote where a message is rendered, regexp.Compile on the
  pattern of a namespace strategy, the order sortRules leaves rules of equal key in (any permutation), metav1.Now, crypto/rand,
  the Secret store, the API server (per kind: get, list, quorum list, update, status update), the webhooks' cached client, the
  HTTP round trip with its context, sleep and jitter, the order a Go map is ranged over (MDS), and
  apimachinery's status conditions, which the engine records as the calls made.

  \<^bold>\<open>Not modelled.\<close> The Kafka admin client (franz, a third-party library) and the construction of clients, what
  net/http does with a request (connections, TLS, timeouts), YAML loading, flag
  parsing and text rendering, controller-runtime glue (watch and webhook registration, predicates, metrics,
  the manager), generated deepcopy code, test tooling, the files an import writes.
\<close>

end
